(* ===== verification/LWS_Prelude.thy ===== *)
theory LWS_Prelude
  imports Complex_Main "HOL-Library.List_Lexorder" "HOL-Library.Char_ord" "HOL-Library.Multiset"
begin

text \<open>
  Shared vocabulary of the development: the Python exceptions of \<^verbatim>\<open>src/src/lws\<close> as values, the
  string operations of Python's \<^verbatim>\<open>str\<close> that the code uses, SQLite tables as lists of rows with a
  key, and the generic lemmas on lists, sums and tables that the component theories use.

  Conventions. A fallible function returns \<open>py_error + 'a\<close> (\<open>Inl\<close> is the raised exception). Strings
  are lists of \<open>char\<close> read as Latin-1 code points. Timestamps are exact reals: the rounding of
  Python's floats, and the values NaN and infinity, are outside the model.
\<close>

section \<open>Exceptions and results\<close>

type_synonym timestamp = real

datatype py_error =
    KeyError string
  | ValueError string
  | RuntimeError string
  | AssertionError
  | IntegrityError string
  | ProtocolInvariantError string
  | WorkerProtocolPersistenceError string
  | ActionBlocked string
  | ActionTransportDisabled string
  | DispatchDisabled string
  | ReplacementBlocked "string list"
  | PagePoolError string
  | StopIteration
  | TypeError string
  | CapabilityProvenanceError string
  | ChildSpawnBlocked "string list"
  | WatchdogLeaseLost string
  | UnsupportedLsmState string
  | ProbeOperatorEvidenceError string
  | IndexError
  | MemoryProbeUnavailable string
  | UiaProbeUnavailable string
  | UiaActionUnavailable string
  | CdpProbeUnavailable string
  | ProbeWindowTransportDisabled string
  | FileNotFoundError string
  | TimeoutError string

type_synonym 'a result = "py_error + 'a"

named_theorems enum_simps \<open>the textual values of the enumerations and their parsers\<close>

lemma sum_case_Inl_iff [simp]:
  "(case x of Inl e \<Rightarrow> Inl e | Inr y \<Rightarrow> f y) = Inr z \<longleftrightarrow> (\<exists>y. x = Inr y \<and> f y = Inr z)"
  by (cases x) auto

text \<open>Sequencing of fallible steps, a check that raises, and a loop of fallible steps.\<close>

definition rbind :: "'a result \<Rightarrow> ('a \<Rightarrow> 'b result) \<Rightarrow> 'b result" where
  "rbind r f = (case r of Inl e \<Rightarrow> Inl e | Inr x \<Rightarrow> f x)"

definition guard :: "bool \<Rightarrow> py_error \<Rightarrow> unit result" where
  "guard b e = (if b then Inr () else Inl e)"

fun foldr_result :: "('a \<Rightarrow> 's \<Rightarrow> 's result) \<Rightarrow> 'a list \<Rightarrow> 's \<Rightarrow> 's result" where
  "foldr_result f [] s = Inr s"
| "foldr_result f (x # xs) s = rbind (f x s) (foldr_result f xs)"

fun map_result :: "('a \<Rightarrow> 'b result) \<Rightarrow> 'a list \<Rightarrow> 'b list result" where
  "map_result f [] = Inr []"
| "map_result f (x # xs) = rbind (f x) (\<lambda>y. rbind (map_result f xs) (\<lambda>ys. Inr (y # ys)))"

lemma rbind_simps [simp]: "rbind (Inl e) f = Inl e" "rbind (Inr x) f = f x"
  by (simp_all add: rbind_def)

lemma rbind_Inr_iff [simp]: "rbind r f = Inr z \<longleftrightarrow> (\<exists>x. r = Inr x \<and> f x = Inr z)"
  by (cases r) auto

lemma guard_simps [simp]: "guard True e = Inr ()" "guard False e = Inl e"
  by (simp_all add: guard_def)

lemma guard_Inr_iff [simp]: "guard b e = Inr u \<longleftrightarrow> b"
  by (simp add: guard_def)

lemma map_result_Inr_iff:
  "map_result f xs = Inr ys \<longleftrightarrow> list_all2 (\<lambda>x y. f x = Inr y) xs ys"
  by (induction xs arbitrary: ys) (auto simp: list_all2_Cons1)

text \<open>A transaction: an exception rolls the store back.\<close>

definition transaction :: "'s \<Rightarrow> ('s \<times> 'a) result \<Rightarrow> 's \<times> 'a result" where
  "transaction s r = (case r of Inl e \<Rightarrow> (s, Inl e) | Inr (s', x) \<Rightarrow> (s', Inr x))"

lemma transaction_simps [simp]:
  "transaction s (Inl e) = (s, Inl e)" "transaction s (Inr (s', x)) = (s', Inr x)"
  by (simp_all add: transaction_def)

section \<open>Sequencing committed calls\<close>

text \<open>Each call returns the store of its last commit; a read or check does not write.\<close>

definition sbind :: "'s \<times> 'a result \<Rightarrow> ('s \<Rightarrow> 'a \<Rightarrow> 's \<times> 'b result) \<Rightarrow> 's \<times> 'b result" where
  "sbind r f = (case r of (s, Inl e) \<Rightarrow> (s, Inl e) | (s, Inr x) \<Rightarrow> f s x)"

definition reading :: "'s \<Rightarrow> 'a result \<Rightarrow> 's \<times> 'a result" where
  "reading s r = (s, r)"

lemma sbind_simps [simp]: "sbind (s, Inl e) f = (s, Inl e)" "sbind (s, Inr x) f = f s x"
  by (simp_all add: sbind_def)

lemma sbind_pres: "P (fst r) \<Longrightarrow> (\<And>s x. P s \<Longrightarrow> r = (s, Inr x) \<Longrightarrow> P (fst (f s x))) \<Longrightarrow> P (fst (sbind r f))"
  by (cases r; cases "snd r") (auto simp: sbind_def)

section \<open>Strings\<close>

definition is_space :: "char \<Rightarrow> bool" where
  "is_space c = (let n = (of_char c :: int) in
     (9 \<le> n \<and> n \<le> 13) \<or> (28 \<le> n \<and> n \<le> 32) \<or> n = 133 \<or> n = 160)"

text \<open>\<^verbatim>\<open>str.strip()\<close>, \<^verbatim>\<open>str.rstrip()\<close> and \<^verbatim>\<open>str.rstrip("/")\<close>.\<close>

definition rstrip_by :: "(char \<Rightarrow> bool) \<Rightarrow> string \<Rightarrow> string" where
  "rstrip_by P s = rev (dropWhile P (rev s))"

definition rstrip :: "string \<Rightarrow> string" where
  "rstrip s = rstrip_by is_space s"

definition strip :: "string \<Rightarrow> string" where
  "strip s = rstrip (dropWhile is_space s)"

definition rstrip_slash :: "string \<Rightarrow> string" where
  "rstrip_slash s = rstrip_by (\<lambda>c. c = CHR ''/'') s"

text \<open>
  \<^verbatim>\<open>str.casefold()\<close> on Latin-1: ASCII and accented capitals are lowered and sharp s becomes ss. The
  micro sign folds to a code point outside Latin-1; it is left alone here, which does not change
  when two Latin-1 strings have equal folds.
\<close>

definition casefold_char :: "char \<Rightarrow> string" where
  "casefold_char c = (let n = (of_char c :: int) in
     if (65 \<le> n \<and> n \<le> 90) \<or> (192 \<le> n \<and> n \<le> 222 \<and> n \<noteq> 215) then [char_of (n + 32)]
     else if n = 223 then ''ss''
     else [c])"

definition casefold :: "string \<Rightarrow> string" where
  "casefold s = concat (map casefold_char s)"

lemma rstrip_by_idem [simp]: "rstrip_by P (rstrip_by P s) = rstrip_by P s"
  by (simp add: rstrip_by_def)

lemma rstrip_slash_idem [simp]: "rstrip_slash (rstrip_slash s) = rstrip_slash s"
  by (simp add: rstrip_slash_def)

lemma hd_rstrip_by: "rstrip_by P s \<noteq> [] \<Longrightarrow> hd (rstrip_by P s) = hd s"
proof -
  assume ne: "rstrip_by P s \<noteq> []"
  have "rev s = takeWhile P (rev s) @ dropWhile P (rev s)" by simp
  then have "s = rstrip_by P s @ rev (takeWhile P (rev s))"
    unfolding rstrip_by_def by (metis rev_append rev_rev_ident)
  with ne show ?thesis by (metis hd_append2)
qed

lemma strip_idem [simp]: "strip (strip s) = strip s"
proof (cases "strip s = []")
  case True
  have "strip [] = []" by (simp add: strip_def rstrip_def rstrip_by_def)
  with True show ?thesis by simp
next
  case False
  let ?d = "dropWhile is_space s"
  from False have ne: "rstrip_by is_space ?d \<noteq> []" by (simp add: strip_def rstrip_def)
  then have "?d \<noteq> []" by (metis dropWhile.simps(1) rev.simps(1) rstrip_by_def)
  then have "\<not> is_space (hd ?d)" by (rule hd_dropWhile)
  with hd_rstrip_by [OF ne] have "\<not> is_space (hd (strip s))"
    by (simp add: strip_def rstrip_def)
  with False have "dropWhile is_space (strip s) = strip s"
    by (cases "strip s") auto
  then show ?thesis by (simp add: strip_def rstrip_def)
qed

section \<open>Tables: lists of rows with a primary key\<close>

definition tbl_find :: "('r \<Rightarrow> 'k) \<Rightarrow> 'k \<Rightarrow> 'r list \<Rightarrow> 'r option" where
  "tbl_find key k t = find (\<lambda>r. key r = k) t"

definition tbl_update :: "('r \<Rightarrow> 'k) \<Rightarrow> 'k \<Rightarrow> ('r \<Rightarrow> 'r) \<Rightarrow> 'r list \<Rightarrow> 'r list" where
  "tbl_update key k f t = map (\<lambda>r. if key r = k then f r else r) t"

definition tbl_delete :: "('r \<Rightarrow> 'k) \<Rightarrow> 'k \<Rightarrow> 'r list \<Rightarrow> 'r list" where
  "tbl_delete key k t = filter (\<lambda>r. key r \<noteq> k) t"

text \<open>\<^verbatim>\<open>INSERT ... ON CONFLICT(key) DO UPDATE SET\<close> of every column.\<close>

definition tbl_upsert :: "('r \<Rightarrow> 'k) \<Rightarrow> 'r \<Rightarrow> 'r list \<Rightarrow> 'r list" where
  "tbl_upsert key r t =
     (if tbl_find key (key r) t = None then t @ [r] else tbl_update key (key r) (\<lambda>_. r) t)"

definition tbl_ok :: "('r \<Rightarrow> 'k) \<Rightarrow> 'r list \<Rightarrow> bool" where
  "tbl_ok key t = distinct (map key t)"

lemma tbl_find_Nil [simp]: "tbl_find key k [] = None"
  by (simp add: tbl_find_def)

lemma tbl_find_Cons [simp]:
  "tbl_find key k (r # t) = (if key r = k then Some r else tbl_find key k t)"
  by (simp add: tbl_find_def)

lemma tbl_find_append:
  "tbl_find key k (t @ u) = (case tbl_find key k t of None \<Rightarrow> tbl_find key k u | Some r \<Rightarrow> Some r)"
  by (induction t) auto

lemma tbl_find_None_iff: "tbl_find key k t = None \<longleftrightarrow> k \<notin> key ` set t"
  by (induction t) auto

lemma tbl_find_SomeD: "tbl_find key k t = Some r \<Longrightarrow> r \<in> set t \<and> key r = k"
  by (induction t) (auto split: if_splits)

lemma tbl_find_Some_iff:
  "tbl_ok key t \<Longrightarrow> tbl_find key k t = Some r \<longleftrightarrow> r \<in> set t \<and> key r = k"
  unfolding tbl_ok_def by (induction t) (auto simp: image_iff)

lemma tbl_find_update:
  assumes "\<And>r. key r = k \<Longrightarrow> key (f r) = k"
  shows "tbl_find key k' (tbl_update key k f t) =
    (if k' = k then map_option f (tbl_find key k t) else tbl_find key k' t)"
  using assms unfolding tbl_update_def by (induction t) auto

lemma tbl_find_update_other:
  assumes "\<And>r. key r = k \<Longrightarrow> key (f r) = k" and "k' \<noteq> k"
  shows "tbl_find key k' (tbl_update key k f t) = tbl_find key k' t"
  using assms tbl_find_update [of key k f k' t] by simp

lemma tbl_find_delete:
  "tbl_find key k' (tbl_delete key k t) = (if k' = k then None else tbl_find key k' t)"
  unfolding tbl_delete_def by (induction t) auto

lemma tbl_find_upsert:
  "tbl_find key k (tbl_upsert key r t) = (if k = key r then Some r else tbl_find key k t)"
  unfolding tbl_upsert_def
  by (auto simp: tbl_find_append tbl_find_update split: option.split)

lemma keys_update:
  assumes "\<And>r. key r = k \<Longrightarrow> key (f r) = k"
  shows "map key (tbl_update key k f t) = map key t"
  using assms unfolding tbl_update_def by (induction t) auto

lemma tbl_ok_update:
  "(\<And>r. key r = k \<Longrightarrow> key (f r) = k) \<Longrightarrow> tbl_ok key (tbl_update key k f t) = tbl_ok key t"
  by (simp add: tbl_ok_def keys_update)

lemma tbl_ok_delete: "tbl_ok key t \<Longrightarrow> tbl_ok key (tbl_delete key k t)"
  unfolding tbl_ok_def tbl_delete_def by (simp add: distinct_map_filter)

lemma tbl_ok_snoc: "tbl_ok key (t @ [r]) \<longleftrightarrow> tbl_ok key t \<and> tbl_find key (key r) t = None"
  by (auto simp: tbl_ok_def tbl_find_None_iff)

lemma tbl_ok_upsert: "tbl_ok key t \<Longrightarrow> tbl_ok key (tbl_upsert key r t)"
  by (simp add: tbl_upsert_def tbl_ok_snoc tbl_ok_update)

lemma set_tbl_update: "set (tbl_update key k f t) = (\<lambda>r. if key r = k then f r else r) ` set t"
  by (simp add: tbl_update_def)

lemma tbl_ok_uniq: "tbl_ok key t \<Longrightarrow> x \<in> set t \<Longrightarrow> y \<in> set t \<Longrightarrow> key x = key y \<Longrightarrow> x = y"
  unfolding tbl_ok_def by (metis distinct_map inj_onD)

lemma tbl_ok_distinct: "tbl_ok key t \<Longrightarrow> distinct t"
  by (simp add: tbl_ok_def distinct_map)

lemma option_eqI: "(\<And>x. a = Some x \<longleftrightarrow> b = Some x) \<Longrightarrow> a = b"
  by (metis not_None_eq)

section \<open>Sorting by a key\<close>

lemma distinct_map_sort_key [simp]: "distinct (map f (sort_key f xs)) = distinct (map f xs)"
proof -
  have "mset (map f (sort_key f xs)) = mset (map f xs)" by simp
  then show ?thesis by (rule mset_eq_imp_distinct_iff)
qed

text \<open>A list filtered to the elements with a property that exactly one element has.\<close>

lemma filter_eq_singleton_iff:
  "distinct xs \<Longrightarrow> filter P xs = [a] \<longleftrightarrow> (a \<in> set xs \<and> P a \<and> (\<forall>x \<in> set xs. P x \<longrightarrow> x = a))"
proof (induction xs)
  case (Cons x xs)
  then show ?case by (auto simp: filter_empty_conv)
qed simp

text \<open>Two lists with distinct keys and the same elements sort to the same list.\<close>

lemma sort_key_eqI:
  assumes same: "set xs = set ys" and dx: "distinct (map f xs)" and dy: "distinct (map f ys)"
  shows "sort_key f xs = sort_key f ys"
proof -
  have "distinct xs" and "distinct ys" using dx dy by (simp_all add: distinct_map)
  with same have m: "mset xs = mset ys" by (simp add: set_eq_iff_mset_eq_distinct)
  have inj: "inj_on f (set ys)" using dy by (simp add: distinct_map)
  show ?thesis
  proof (rule properties_for_sort_key [symmetric])
    show "mset (sort_key f xs) = mset ys" using m by simp
    show "sorted (map f (sort_key f xs))" by simp
    fix k assume "k \<in> set (sort_key f xs)"
    with same have k: "k \<in> set ys" by simp
    with inj have "\<And>x. x \<in> set ys \<Longrightarrow> f k = f x \<longleftrightarrow> k = x" by (auto dest: inj_onD)
    with same k \<open>distinct xs\<close> \<open>distinct ys\<close>
    show "filter (\<lambda>x. f k = f x) (sort_key f xs) = filter (\<lambda>x. f k = f x) ys"
      by (subst (1 2) filter_cong [where Q = "\<lambda>x. k = x", OF refl])
        (auto simp: filter_eq_singleton_iff [THEN iffD2])
  qed
qed

end
