(* ===== verification/Models.thy ===== *)
theory Models
  imports LWS_Prelude
begin

text \<open>
  The data of \<^verbatim>\<open>src/src/lws/models.py\<close>: every enumeration as a datatype with its textual value (the
  text the registry stores) and the parser that Python's \<^verbatim>\<open>Enum(value)\<close> is, and every dataclass as a
  record with the source's fields behind a two-letter prefix. A free-form JSON object is an
  association list; of a JSON value only the truth value, the exact scalars and \<^verbatim>\<open>str()\<close> are used by
  the code, which is what \<open>json\<close> keeps.
\<close>

section \<open>JSON values\<close>

datatype json = JNull | JBool bool | JInt int | JStr string | JOther bool string

text \<open>\<open>JOther b s\<close> is a float, list or object with truth value \<open>b\<close> and \<^verbatim>\<open>str()\<close> text \<open>s\<close>.\<close>

type_synonym json_object = "(string \<times> json) list"

definition json_get :: "json_object \<Rightarrow> string \<Rightarrow> json" where
  "json_get obj k = (case map_of obj k of None \<Rightarrow> JNull | Some v \<Rightarrow> v)"

fun json_truthy :: "json \<Rightarrow> bool" where
  "json_truthy JNull = False"
| "json_truthy (JBool b) = b"
| "json_truthy (JInt i) = (i \<noteq> 0)"
| "json_truthy (JStr s) = (s \<noteq> [])"
| "json_truthy (JOther b s) = b"

section \<open>Enumerations\<close>

datatype supervisor_state =
    SS_QUEUED | SS_STARTING | SS_RUNNING | SS_SUSPECT | SS_RECONCILING | SS_RECOVERING
  | SS_BLOCKED | SS_NEEDS_HUMAN | SS_COMPLETED | SS_ABANDONED

fun ss_value :: "supervisor_state \<Rightarrow> string" where
  "ss_value SS_QUEUED = ''QUEUED''"
| "ss_value SS_STARTING = ''STARTING''"
| "ss_value SS_RUNNING = ''RUNNING''"
| "ss_value SS_SUSPECT = ''SUSPECT''"
| "ss_value SS_RECONCILING = ''RECONCILING''"
| "ss_value SS_RECOVERING = ''RECOVERING''"
| "ss_value SS_BLOCKED = ''BLOCKED''"
| "ss_value SS_NEEDS_HUMAN = ''NEEDS_HUMAN''"
| "ss_value SS_COMPLETED = ''COMPLETED''"
| "ss_value SS_ABANDONED = ''ABANDONED''"

definition supervisor_state_of :: "string \<Rightarrow> supervisor_state option" where
  "supervisor_state_of s = find (\<lambda>x. ss_value x = s)
     [SS_QUEUED, SS_STARTING, SS_RUNNING, SS_SUSPECT, SS_RECONCILING, SS_RECOVERING,
      SS_BLOCKED, SS_NEEDS_HUMAN, SS_COMPLETED, SS_ABANDONED]"

datatype worker_status = WS_ACTIVE | WS_PARKED | WS_SUPERSEDED | WS_DEAD

fun ws_value :: "worker_status \<Rightarrow> string" where
  "ws_value WS_ACTIVE = ''active''"
| "ws_value WS_PARKED = ''parked''"
| "ws_value WS_SUPERSEDED = ''superseded''"
| "ws_value WS_DEAD = ''dead''"

definition worker_status_of :: "string \<Rightarrow> worker_status option" where
  "worker_status_of s =
     find (\<lambda>x. ws_value x = s) [WS_ACTIVE, WS_PARKED, WS_SUPERSEDED, WS_DEAD]"

datatype replacement_attempt_state =
    RA_ARMED | RA_LSM_TAKEOVER_SUBMITTED | RA_RECONCILE_REQUIRED | RA_COMPLETED | RA_FAILED

datatype child_spawn_attempt_state =
    CS_ARMED | CS_WINDOW_OPEN_SUBMITTED | CS_WINDOW_BOUND | CS_PROMPT_SUBMITTED
  | CS_RECONCILE_REQUIRED | CS_COMPLETED | CS_FAILED

datatype page_capability_kind = PC_GENERATION | PC_TOOL_EXECUTION

datatype probe_mutation_kind = PK_OPEN | PK_ROTATE | PK_CLOSE

datatype probe_mutation_state =
    PS_ARMED | PS_CLOSE_SUBMITTED | PS_READY_TO_OPEN | PS_OPEN_SUBMITTED
  | PS_RECONCILE_REQUIRED | PS_COMPLETED | PS_FAILED | PS_CANCELLED

lemma supervisor_state_of_value [simp]: "supervisor_state_of (ss_value x) = Some x"
  by (cases x) (simp_all add: supervisor_state_of_def)

lemma supervisor_state_of_SomeD: "supervisor_state_of s = Some x \<Longrightarrow> s = ss_value x"
  unfolding supervisor_state_of_def by (simp split: if_splits) (blast+)?

lemma ss_value_inject [simp]: "ss_value x = ss_value y \<longleftrightarrow> x = y"
  by (metis option.inject supervisor_state_of_value)

lemma worker_status_of_value [simp]: "worker_status_of (ws_value x) = Some x"
  by (cases x) (simp_all add: worker_status_of_def)

lemma ws_value_inject [simp]: "ws_value x = ws_value y \<longleftrightarrow> x = y"
  by (metis option.inject worker_status_of_value)

section \<open>Durable records\<close>

record task_record =
  tk_task_id :: string
  tk_project :: string
  tk_objective :: string
  tk_cwd :: string
  tk_state :: supervisor_state
  tk_lsm_session_id :: "string option"
  tk_checkpoint :: json_object
  tk_current_worker_id :: "string option"
  tk_recovery_attempts :: int
  tk_max_recovery_attempts :: int
  tk_created_at :: timestamp
  tk_updated_at :: timestamp

record worker_record =
  wk_worker_id :: string
  wk_task_id :: string
  wk_conversation_url :: string
  wk_conversation_id :: "string option"
  wk_status :: worker_status
  wk_started_at :: timestamp
  wk_last_seen_at :: "timestamp option"
  wk_ended_at :: "timestamp option"

record worker_window_binding =
  wb_worker_id :: string
  wb_window_handle :: int
  wb_browser_pid :: int
  wb_chrome_executable :: string
  wb_conversation_url :: string
  wb_source :: string
  wb_bound_at :: timestamp
  wb_observed_at :: timestamp
  wb_expires_at :: timestamp

text \<open>\<^verbatim>\<open>WorkerWindowBinding.is_fresh\<close> and \<^verbatim>\<open>ProbeWindowSlotBinding.is_fresh\<close> have the same body.\<close>

definition wb_is_fresh :: "worker_window_binding \<Rightarrow> timestamp \<Rightarrow> bool" where
  "wb_is_fresh b now =
     ((wb_bound_at b \<le> wb_observed_at b \<and> wb_observed_at b \<le> now \<and> now < wb_expires_at b)
      \<and> wb_expires_at b \<ge> wb_observed_at b)"

record page_capability_record =
  cap_id :: string
  cap_kind :: page_capability_kind
  cap_scope_host :: string
  cap_browser_family :: string
  cap_browser_major :: int
  cap_platform :: string
  cap_surface :: string
  cap_isolation_mode :: string
  cap_evaluator_version :: string
  cap_evidence_digest :: string
  cap_source_experiment_id :: string
  cap_observed_at :: timestamp
  cap_recorded_at :: timestamp
  cap_expires_at :: timestamp
  cap_metadata :: json_object

definition cap_is_fresh :: "page_capability_record \<Rightarrow> timestamp \<Rightarrow> bool" where
  "cap_is_fresh c now = (cap_observed_at c \<le> now \<and> now < cap_expires_at c)"

record probe_window_slot_binding =
  sl_slot_id :: string
  sl_owner_token :: string
  sl_target_worker_id :: string
  sl_target_conversation_url :: string
  sl_actual_url :: string
  sl_window_handle :: int
  sl_browser_pid :: int
  sl_chrome_executable :: string
  sl_source :: string
  sl_bound_at :: timestamp
  sl_observed_at :: timestamp
  sl_expires_at :: timestamp

definition sl_is_fresh :: "probe_window_slot_binding \<Rightarrow> timestamp \<Rightarrow> bool" where
  "sl_is_fresh b now =
     ((sl_bound_at b \<le> sl_observed_at b \<and> sl_observed_at b \<le> now \<and> now < sl_expires_at b)
      \<and> sl_expires_at b \<ge> sl_observed_at b)"

text \<open>
  A probe operation keeps its prior slot as the dictionary of the slot's fields; the model keeps the
  record itself. \<^verbatim>\<open>resume_state\<close> is the stored text of a state, so a value outside the enumeration is
  possible and is \<open>Inl\<close> here.
\<close>

record probe_mutation_operation =
  po_operation_id :: string
  po_nonce :: string
  po_kind :: probe_mutation_kind
  po_state :: probe_mutation_state
  po_slot_id :: string
  po_target_task_id :: string
  po_target_worker_id :: string
  po_target_conversation_url :: string
  po_owner_token :: string
  po_expected_actual_url :: string
  po_expected_chrome_executable :: string
  po_source :: string
  po_prior_slot :: "probe_window_slot_binding option"
  po_created_at :: timestamp
  po_updated_at :: timestamp
  po_slot_ttl_s :: real
  po_reconcile_attempts :: int
  po_last_reconcile_at :: "timestamp option"
  po_last_outcome :: "string option"
  po_last_error :: "string option"
  po_resume_state :: "(string + probe_mutation_state) option"

record replacement_attempt =
  ra_attempt_id :: string
  ra_task_id :: string
  ra_candidate_worker_id :: string
  ra_state :: replacement_attempt_state
  ra_expected_revision :: int
  ra_previous_worker_id :: "string option"
  ra_previous_generation :: int
  ra_lsm_session_id :: string
  ra_previous_active_run_id :: "string option"
  ra_workspace_git_head :: "string option"
  ra_workspace_status_hash :: "string option"
  ra_expected_branch :: "string option"
  ra_mode :: string
  ra_takeover_reason :: string
  ra_created_at :: timestamp
  ra_updated_at :: timestamp
  ra_new_active_run_id :: "string option"
  ra_last_error :: "string option"
  ra_metadata :: json_object

record child_spawn_attempt =
  cs_attempt_id :: string
  cs_child_task_id :: string
  cs_state :: child_spawn_attempt_state
  cs_owner_token :: string
  cs_project_url :: string
  cs_project_id :: string
  cs_tagged_project_url :: string
  cs_prompt_sha256 :: string
  cs_chrome_executable :: string
  cs_created_at :: timestamp
  cs_updated_at :: timestamp
  cs_window_handle :: "int option"
  cs_browser_pid :: "int option"
  cs_conversation_url :: "string option"
  cs_worker_id :: "string option"
  cs_last_error :: "string option"
  cs_metadata :: json_object

section \<open>Observations\<close>

record browser_observation =
  bo_worker_id :: string
  bo_observed_at :: timestamp
  bo_url :: "string option"
  bo_generating :: "bool option"
  bo_send_button_ready :: "bool option"
  bo_pending_tool_calls :: "int option"
  bo_visible_error :: "string option"
  bo_last_dom_change_at :: "timestamp option"
  bo_message_signature :: "string option"
  bo_raw :: json_object

record network_observation =
  no_worker_id :: string
  no_observed_at :: timestamp
  no_source :: string
  no_sample_started_at :: timestamp
  no_sample_ended_at :: timestamp
  no_page_url :: "string option"
  no_event_count :: int
  no_request_count :: int
  no_response_count :: int
  no_data_event_count :: int
  no_encoded_data_bytes :: int
  no_loading_finished :: int
  no_loading_failed :: int
  no_websocket_frames :: int
  no_last_activity_at :: "timestamp option"
  no_quiet_since_at :: "timestamp option"
  no_inflight_requests :: int
  no_raw :: json_object

record lsm_observation =
  lo_task_id :: string
  lo_observed_at :: timestamp
  lo_session_id :: "string option"
  lo_session_status :: "string option"
  lo_active_run_id :: "string option"
  lo_plan_status :: "string option"
  lo_plan_last_agent_activity :: "timestamp option"
  lo_continuation_due :: "bool option"
  lo_continuation_pending :: "bool option"
  lo_in_flight_calls :: int
  lo_freshest_in_flight_heartbeat :: "timestamp option"
  lo_active_jobs :: int
  lo_failed_jobs :: int
  lo_succeeded_jobs :: int
  lo_recent_event_type :: "string option"
  lo_recent_event_at :: "timestamp option"
  lo_completed_steps :: "int option"
  lo_total_steps :: "int option"
  lo_raw :: json_object

record workspace_observation =
  wo_task_id :: string
  wo_observed_at :: timestamp
  wo_cwd :: string
  wo_cwd_exists :: bool
  wo_is_git_repo :: "bool option"
  wo_git_root :: "string option"
  wo_git_head :: "string option"
  wo_git_branch :: "string option"
  wo_git_dirty :: "bool option"
  wo_git_status_hash :: "string option"
  wo_git_status_entries :: "string list"
  wo_error :: "string option"
  wo_raw :: json_object

section \<open>Assessments and recommendations\<close>

record assessment =
  as_state :: supervisor_state
  as_reason :: string
  as_confidence :: string
  as_evidence :: "string list"
  as_requires_reconcile :: bool
  as_may_auto_continue :: bool

record recovery_recommendation =
  rm_task_id :: string
  rm_action :: string
  rm_safe_to_dispatch :: bool
  rm_reason :: string
  rm_prompt :: "string option"
  rm_evidence :: "string list"

end
