(* ===== verification/Worker_Protocol.thy ===== *)
theory Worker_Protocol
  imports Models
begin

text \<open>
  The pure worker-lease protocol of \<^verbatim>\<open>src/src/lws/worker_protocol.py\<close>: one durable task, its
  registered conversation workers, a revision that every accepted change advances and a generation
  that every claim or takeover advances. Operations return a decision (accepted or rejected with a
  code) or raise. Shown here: the snapshot check \<open>validate_state\<close> is exactly the predicate
  \<open>wp_inv\<close>, and every operation on a valid snapshot returns a decision with a valid snapshot, so the
  check inside \<open>accept\<close> never fires.
\<close>

section \<open>Data\<close>

datatype worker_lease_status =
    WL_CANDIDATE | WL_ACTIVE | WL_SUPERSEDED | WL_COMPLETED | WL_ABANDONED

datatype durable_task_status = DT_OPEN | DT_COMPLETED

datatype decision_code =
    DC_REGISTERED | DC_ALREADY_REGISTERED | DC_CLAIMED | DC_HEARTBEAT_RECORDED
  | DC_HANDOFF_REQUESTED | DC_TAKEOVER_GRANTED | DC_WORKER_COMPLETED | DC_WORKER_ABANDONED
  | DC_TASK_COMPLETED | DC_STALE_REVISION | DC_TASK_CLOSED | DC_UNKNOWN_WORKER
  | DC_NOT_CANDIDATE | DC_ACTIVE_WORKER_PRESENT | DC_NO_ACTIVE_WORKER | DC_FENCED_WORKER
  | DC_STALE_GENERATION | DC_LEASE_EXPIRED | DC_CLOCK_ROLLBACK | DC_INVALID_HANDOFF_TARGET
  | DC_TAKEOVER_NOT_ELIGIBLE | DC_ACTIVE_WORKER_MUST_END | DC_COMPLETION_REF_REQUIRED

datatype event_kind =
    EK_WORKER_REGISTERED | EK_LEASE_CLAIMED | EK_HEARTBEAT_ACCEPTED | EK_HANDOFF_REQUESTED
  | EK_WORKER_SUPERSEDED | EK_LEASE_TAKEN_OVER | EK_WORKER_COMPLETED | EK_WORKER_ABANDONED
  | EK_TASK_COMPLETED

datatype takeover_reason =
    TR_HANDOFF | TR_LEASE_EXPIRED | TR_ACTIVE_LEASE_FRESH | TR_NO_ACTIVE_WORKER
  | TR_UNKNOWN_CANDIDATE | TR_NOT_CANDIDATE | TR_TASK_CLOSED

fun tr_value :: "takeover_reason \<Rightarrow> string" where
  "tr_value TR_HANDOFF = ''handoff''"
| "tr_value TR_LEASE_EXPIRED = ''lease_expired''"
| "tr_value TR_ACTIVE_LEASE_FRESH = ''active_lease_fresh''"
| "tr_value TR_NO_ACTIVE_WORKER = ''no_active_worker''"
| "tr_value TR_UNKNOWN_CANDIDATE = ''unknown_candidate''"
| "tr_value TR_NOT_CANDIDATE = ''not_candidate''"
| "tr_value TR_TASK_CLOSED = ''task_closed''"

record task_lineage =
  tl_task_id :: string
  tl_parent_task_id :: "string option"
  tl_root_task_id :: string
  tl_child_key :: "string option"

record worker_lease =
  wl_worker_id :: string
  wl_task_id :: string
  wl_conversation_ref :: "string option"
  wl_status :: worker_lease_status
  wl_registered_at :: timestamp
  wl_generation :: "int option"
  wl_claimed_at :: "timestamp option"
  wl_last_heartbeat_at :: "timestamp option"
  wl_lease_expires_at :: "timestamp option"
  wl_ended_at :: "timestamp option"
  wl_superseded_by :: "string option"

record worker_task_state =
  st_lineage :: task_lineage
  st_revision :: int
  st_generation :: int
  st_task_status :: durable_task_status
  st_current_worker_id :: "string option"
  st_handoff_target_worker_id :: "string option"
  st_handoff_requested_at :: "timestamp option"
  st_workers :: "worker_lease list"
  st_completed_at :: "timestamp option"
  st_completion_ref :: "string option"

definition st_task_id :: "worker_task_state \<Rightarrow> string" where
  "st_task_id s = tl_task_id (st_lineage s)"

record protocol_event =
  ev_kind :: event_kind
  ev_task_id :: string
  ev_revision :: int
  ev_at :: timestamp
  ev_worker_id :: "string option"
  ev_generation :: "int option"
  ev_related_worker_id :: "string option"
  ev_ref :: "string option"

record protocol_decision =
  pd_accepted :: bool
  pd_code :: decision_code
  pd_expected_revision :: int
  pd_state :: worker_task_state
  pd_events :: "protocol_event list"

definition pd_mutated :: "protocol_decision \<Rightarrow> bool" where
  "pd_mutated d = (pd_accepted d \<and> st_revision (pd_state d) = pd_expected_revision d + 1)"

record takeover_eligibility =
  te_eligible :: bool
  te_reason :: takeover_reason
  te_active_worker_id :: "string option"
  te_generation :: int

section \<open>Helpers\<close>

definition worker_by_id :: "worker_task_state \<Rightarrow> string \<Rightarrow> worker_lease option" where
  "worker_by_id s w = find (\<lambda>x. wl_worker_id x = w) (st_workers s)"

definition sorted_workers :: "worker_lease list \<Rightarrow> worker_lease list" where
  "sorted_workers ws = sort_key wl_worker_id ws"

definition replace_worker :: "worker_lease list \<Rightarrow> worker_lease \<Rightarrow> worker_lease list" where
  "replace_worker ws u =
     sorted_workers (map (\<lambda>w. if wl_worker_id w = wl_worker_id u then u else w) ws)"

definition require_positive_lease :: "real \<Rightarrow> unit result" where
  "require_positive_lease l =
     (if l \<le> 0 then Inl (ValueError ''lease_seconds must be positive'') else Inr ())"

text \<open>The checks of \<^verbatim>\<open>validate_state\<close>, group by group, in the order the code makes them.\<close>

definition validate_roster :: "worker_task_state \<Rightarrow> unit result" where
  "validate_roster s =
     (if st_revision s < 0 \<or> st_generation s < 0
      then Inl (ProtocolInvariantError ''revision and generation must be non-negative'')
      else if tl_parent_task_id (st_lineage s) = None \<and> tl_root_task_id (st_lineage s) \<noteq> st_task_id s
      then Inl (ProtocolInvariantError ''root task must name itself as root_task_id'')
      else if length (remdups (map wl_worker_id (st_workers s))) \<noteq> length (st_workers s)
      then Inl (ProtocolInvariantError ''worker ids must be unique per durable task'')
      else if list_ex (\<lambda>w. wl_task_id w \<noteq> st_task_id s) (st_workers s)
      then Inl (ProtocolInvariantError ''every worker must be registered against this durable task'')
      else Inr ())"

definition validate_authority :: "worker_task_state \<Rightarrow> unit result" where
  "validate_authority s =
     (let active = filter (\<lambda>w. wl_status w = WL_ACTIVE) (st_workers s) in
      case st_current_worker_id s of
        None \<Rightarrow>
          if active \<noteq> []
          then Inl (ProtocolInvariantError ''active worker exists without current_worker_id'')
          else Inr ()
      | Some c \<Rightarrow>
          if length active \<noteq> 1 \<or> wl_worker_id (hd active) \<noteq> c
          then Inl (ProtocolInvariantError
                 ''current_worker_id must identify exactly one active worker'')
          else if wl_generation (hd active) \<noteq> Some (st_generation s) \<or> st_generation s \<le> 0
          then Inl (ProtocolInvariantError
                 ''current worker must own the current positive generation'')
          else if wl_lease_expires_at (hd active) = None
          then Inl (ProtocolInvariantError ''current worker requires a lease expiry'')
          else Inr ())"

definition validate_handoff :: "worker_task_state \<Rightarrow> unit result" where
  "validate_handoff s =
     (case st_handoff_target_worker_id s of
        Some t \<Rightarrow>
          if st_current_worker_id s = None \<or> st_handoff_requested_at s = None
          then Inl (ProtocolInvariantError
                 ''handoff requires a current worker and request timestamp'')
          else (case worker_by_id s t of
              None \<Rightarrow> Inl (ProtocolInvariantError ''handoff target must be a registered candidate'')
            | Some w \<Rightarrow>
                if wl_status w \<noteq> WL_CANDIDATE
                then Inl (ProtocolInvariantError ''handoff target must be a registered candidate'')
                else Inr ())
      | None \<Rightarrow>
          if st_handoff_requested_at s \<noteq> None
          then Inl (ProtocolInvariantError ''handoff timestamp cannot exist without a target'')
          else Inr ())"

definition validate_completion :: "worker_task_state \<Rightarrow> unit result" where
  "validate_completion s =
     (if st_task_status s = DT_COMPLETED
      then if st_current_worker_id s \<noteq> None
           then Inl (ProtocolInvariantError ''completed durable task cannot retain an active worker'')
           else if st_completed_at s = None \<or> st_completion_ref s \<in> {None, Some []}
           then Inl (ProtocolInvariantError ''completed durable task requires completion metadata'')
           else Inr ()
      else Inr ())"

definition validate_state :: "worker_task_state \<Rightarrow> unit result" where
  "validate_state s =
     (case validate_roster s of
        Inl e \<Rightarrow> Inl e
      | Inr _ \<Rightarrow> (case validate_authority s of
          Inl e \<Rightarrow> Inl e
        | Inr _ \<Rightarrow> (case validate_handoff s of
            Inl e \<Rightarrow> Inl e
          | Inr _ \<Rightarrow> validate_completion s)))"

definition reject :: "worker_task_state \<Rightarrow> decision_code \<Rightarrow> protocol_decision" where
  "reject s code =
     \<lparr>pd_accepted = False, pd_code = code, pd_expected_revision = st_revision s,
      pd_state = s, pd_events = []\<rparr>"

definition accept ::
  "worker_task_state \<Rightarrow> worker_task_state \<Rightarrow> decision_code \<Rightarrow> protocol_event list
     \<Rightarrow> protocol_decision result" where
  "accept previous cand code events =
     (let revision = st_revision previous + 1;
          next_state = cand\<lparr>st_revision := revision\<rparr>;
          stamped = map (\<lambda>e. e\<lparr>ev_revision := revision\<rparr>) events
      in case validate_state next_state of
           Inl e \<Rightarrow> Inl e
         | Inr _ \<Rightarrow> Inr \<lparr>pd_accepted = True, pd_code = code,
                         pd_expected_revision = st_revision previous,
                         pd_state = next_state, pd_events = stamped\<rparr>)"

definition preflight :: "worker_task_state \<Rightarrow> int \<Rightarrow> protocol_decision option result" where
  "preflight s expected =
     (case validate_state s of
        Inl e \<Rightarrow> Inl e
      | Inr _ \<Rightarrow>
          if expected \<noteq> st_revision s
          then Inr (Some \<lparr>pd_accepted = False, pd_code = DC_STALE_REVISION,
                          pd_expected_revision = expected, pd_state = s, pd_events = []\<rparr>)
          else Inr None)"

definition lease_is_fresh :: "worker_task_state \<Rightarrow> string \<Rightarrow> timestamp \<Rightarrow> bool" where
  "lease_is_fresh s w now =
     (case worker_by_id s w of
        None \<Rightarrow> False
      | Some x \<Rightarrow>
          st_task_status s = DT_OPEN \<and> st_current_worker_id s = Some w
          \<and> wl_status x = WL_ACTIVE \<and> wl_generation x = Some (st_generation s)
          \<and> (case wl_lease_expires_at x of None \<Rightarrow> False | Some e \<Rightarrow> now < e))"

definition takeover_eligibility ::
  "worker_task_state \<Rightarrow> string \<Rightarrow> timestamp \<Rightarrow> takeover_eligibility result" where
  "takeover_eligibility s c now =
     (case validate_state s of
        Inl e \<Rightarrow> Inl e
      | Inr _ \<Rightarrow> Inr (
          let mk = (\<lambda>ok r. \<lparr>te_eligible = ok, te_reason = r,
                     te_active_worker_id = st_current_worker_id s,
                     te_generation = st_generation s\<rparr>)
          in if st_task_status s \<noteq> DT_OPEN then mk False TR_TASK_CLOSED
             else case worker_by_id s c of
               None \<Rightarrow> mk False TR_UNKNOWN_CANDIDATE
             | Some x \<Rightarrow>
                 if wl_status x \<noteq> WL_CANDIDATE then mk False TR_NOT_CANDIDATE
                 else case st_current_worker_id s of
                   None \<Rightarrow> mk False TR_NO_ACTIVE_WORKER
                 | Some cur \<Rightarrow>
                     if st_handoff_target_worker_id s = Some c then mk True TR_HANDOFF
                     else if \<not> lease_is_fresh s cur now then mk True TR_LEASE_EXPIRED
                     else mk False TR_ACTIVE_LEASE_FRESH))"

text \<open>The timeline of the rollback check: claim and heartbeat times that are set.\<close>

definition lease_timeline :: "worker_lease \<Rightarrow> timestamp list" where
  "lease_timeline w =
     (case wl_claimed_at w of None \<Rightarrow> [] | Some t \<Rightarrow> [t])
     @ (case wl_last_heartbeat_at w of None \<Rightarrow> [] | Some t \<Rightarrow> [t])"

definition authority_rejection ::
  "worker_task_state \<Rightarrow> string \<Rightarrow> int \<Rightarrow> timestamp \<Rightarrow> protocol_decision option" where
  "authority_rejection s w g now =
     (if st_task_status s \<noteq> DT_OPEN then Some (reject s DC_TASK_CLOSED)
      else case worker_by_id s w of
        None \<Rightarrow> Some (reject s DC_UNKNOWN_WORKER)
      | Some x \<Rightarrow>
          if st_current_worker_id s \<noteq> Some w \<or> wl_status x \<noteq> WL_ACTIVE
          then Some (reject s DC_FENCED_WORKER)
          else if g \<noteq> st_generation s \<or> wl_generation x \<noteq> Some g
          then Some (reject s DC_STALE_GENERATION)
          else if lease_timeline x \<noteq> [] \<and> now < fold max (tl (lease_timeline x)) (hd (lease_timeline x))
          then Some (reject s DC_CLOCK_ROLLBACK)
          else if \<not> lease_is_fresh s w now
          then Some (reject s DC_LEASE_EXPIRED)
          else None)"

section \<open>Operations\<close>

definition new_task_state ::
  "string \<Rightarrow> string option \<Rightarrow> string option \<Rightarrow> string option \<Rightarrow> worker_task_state result" where
  "new_task_state task_id0 parent0 root0 child_key =
     (let task_id = strip task_id0;
          build = (\<lambda>parent root.
            let s = \<lparr>st_lineage = \<lparr>tl_task_id = task_id, tl_parent_task_id = parent,
                                    tl_root_task_id = root, tl_child_key = child_key\<rparr>,
                     st_revision = 0, st_generation = 0, st_task_status = DT_OPEN,
                     st_current_worker_id = None, st_handoff_target_worker_id = None,
                     st_handoff_requested_at = None, st_workers = [],
                     st_completed_at = None, st_completion_ref = None\<rparr>
            in case validate_state s of Inl e \<Rightarrow> Inl e | Inr _ \<Rightarrow> Inr s)
      in if task_id = [] then Inl (ValueError ''task_id must be non-empty'')
         else case parent0 of
           None \<Rightarrow>
             if root0 \<notin> {None, Some task_id}
             then Inl (ValueError ''a root task's root_task_id must equal task_id'')
             else build None task_id
         | Some p \<Rightarrow>
             if strip p = []
             then Inl (ValueError ''parent_task_id must be non-empty when supplied'')
             else (case root0 of
                 None \<Rightarrow> Inl (ValueError ''child tasks require an explicit root_task_id'')
               | Some r \<Rightarrow>
                   if strip r = []
                   then Inl (ValueError ''child tasks require an explicit root_task_id'')
                   else build (Some (strip p)) (strip r)))"

definition mk_event ::
  "event_kind \<Rightarrow> worker_task_state \<Rightarrow> timestamp \<Rightarrow> string option \<Rightarrow> int option \<Rightarrow> string option
     \<Rightarrow> string option \<Rightarrow> protocol_event" where
  "mk_event k s now w g rel ref =
     \<lparr>ev_kind = k, ev_task_id = st_task_id s, ev_revision = 0, ev_at = now, ev_worker_id = w,
      ev_generation = g, ev_related_worker_id = rel, ev_ref = ref\<rparr>"

definition register_worker ::
  "worker_task_state \<Rightarrow> string \<Rightarrow> string option \<Rightarrow> timestamp \<Rightarrow> int \<Rightarrow> protocol_decision result" where
  "register_worker s worker_id0 conversation_ref now expected =
     (case preflight s expected of
        Inl e \<Rightarrow> Inl e
      | Inr (Some d) \<Rightarrow> Inr d
      | Inr None \<Rightarrow>
          if st_task_status s \<noteq> DT_OPEN then Inr (reject s DC_TASK_CLOSED)
          else let w = strip worker_id0 in
            if w = [] then Inl (ValueError ''worker_id must be non-empty'')
            else case worker_by_id s w of
              Some _ \<Rightarrow> Inr \<lparr>pd_accepted = True, pd_code = DC_ALREADY_REGISTERED,
                           pd_expected_revision = st_revision s, pd_state = s, pd_events = []\<rparr>
            | None \<Rightarrow>
                let lease = \<lparr>wl_worker_id = w, wl_task_id = st_task_id s,
                             wl_conversation_ref = conversation_ref, wl_status = WL_CANDIDATE,
                             wl_registered_at = now, wl_generation = None, wl_claimed_at = None,
                             wl_last_heartbeat_at = None, wl_lease_expires_at = None,
                             wl_ended_at = None, wl_superseded_by = None\<rparr>
                in accept s (s\<lparr>st_workers := sorted_workers (st_workers s @ [lease])\<rparr>)
                     DC_REGISTERED
                     [mk_event EK_WORKER_REGISTERED s now (Some w) None None None])"

text \<open>The lease a claim or takeover at generation \<open>g\<close> gives to a candidate.\<close>

definition claimed_lease :: "worker_lease \<Rightarrow> int \<Rightarrow> timestamp \<Rightarrow> real \<Rightarrow> worker_lease" where
  "claimed_lease x g now l =
     x\<lparr>wl_status := WL_ACTIVE, wl_generation := Some g, wl_claimed_at := Some now,
       wl_last_heartbeat_at := Some now, wl_lease_expires_at := Some (now + l)\<rparr>"

definition claim_worker ::
  "worker_task_state \<Rightarrow> string \<Rightarrow> timestamp \<Rightarrow> real \<Rightarrow> int \<Rightarrow> protocol_decision result" where
  "claim_worker s w now lease_seconds expected =
     (case require_positive_lease lease_seconds of
        Inl e \<Rightarrow> Inl e
      | Inr _ \<Rightarrow> (case preflight s expected of
          Inl e \<Rightarrow> Inl e
        | Inr (Some d) \<Rightarrow> Inr d
        | Inr None \<Rightarrow>
            if st_task_status s \<noteq> DT_OPEN then Inr (reject s DC_TASK_CLOSED)
            else case worker_by_id s w of
              None \<Rightarrow> Inr (reject s DC_UNKNOWN_WORKER)
            | Some x \<Rightarrow>
                if wl_status x \<noteq> WL_CANDIDATE then Inr (reject s DC_NOT_CANDIDATE)
                else if st_current_worker_id s \<noteq> None
                then Inr (reject s DC_ACTIVE_WORKER_PRESENT)
                else let g = st_generation s + 1 in
                  accept s
                    (s\<lparr>st_generation := g, st_current_worker_id := Some w,
                       st_handoff_target_worker_id := None, st_handoff_requested_at := None,
                       st_workers := replace_worker (st_workers s)
                                       (claimed_lease x g now lease_seconds)\<rparr>)
                    DC_CLAIMED
                    [mk_event EK_LEASE_CLAIMED s now (Some w) (Some g) None None]))"

definition heartbeat_worker ::
  "worker_task_state \<Rightarrow> string \<Rightarrow> int \<Rightarrow> timestamp \<Rightarrow> real \<Rightarrow> int \<Rightarrow> protocol_decision result" where
  "heartbeat_worker s w g now lease_seconds expected =
     (case require_positive_lease lease_seconds of
        Inl e \<Rightarrow> Inl e
      | Inr _ \<Rightarrow> (case preflight s expected of
          Inl e \<Rightarrow> Inl e
        | Inr (Some d) \<Rightarrow> Inr d
        | Inr None \<Rightarrow> (case authority_rejection s w g now of
            Some d \<Rightarrow> Inr d
          | None \<Rightarrow> (case worker_by_id s w of
              None \<Rightarrow> Inl AssertionError
            | Some x \<Rightarrow>
                accept s
                  (s\<lparr>st_workers := replace_worker (st_workers s)
                       (x\<lparr>wl_last_heartbeat_at := Some now,
                          wl_lease_expires_at := Some (now + lease_seconds)\<rparr>)\<rparr>)
                  DC_HEARTBEAT_RECORDED
                  [mk_event EK_HEARTBEAT_ACCEPTED s now (Some w) (Some g) None None]))))"

definition request_handoff ::
  "worker_task_state \<Rightarrow> string \<Rightarrow> string \<Rightarrow> int \<Rightarrow> timestamp \<Rightarrow> int \<Rightarrow> protocol_decision result" where
  "request_handoff s w target g now expected =
     (case preflight s expected of
        Inl e \<Rightarrow> Inl e
      | Inr (Some d) \<Rightarrow> Inr d
      | Inr None \<Rightarrow> (case authority_rejection s w g now of
          Some d \<Rightarrow> Inr d
        | None \<Rightarrow> (case worker_by_id s target of
            None \<Rightarrow> Inr (reject s DC_INVALID_HANDOFF_TARGET)
          | Some x \<Rightarrow>
              if wl_status x \<noteq> WL_CANDIDATE then Inr (reject s DC_INVALID_HANDOFF_TARGET)
              else accept s
                (s\<lparr>st_handoff_target_worker_id := Some target,
                   st_handoff_requested_at := Some now\<rparr>)
                DC_HANDOFF_REQUESTED
                [mk_event EK_HANDOFF_REQUESTED s now (Some w) (Some g) (Some target) None])))"

definition takeover_worker ::
  "worker_task_state \<Rightarrow> string \<Rightarrow> timestamp \<Rightarrow> real \<Rightarrow> int \<Rightarrow> protocol_decision result" where
  "takeover_worker s c now lease_seconds expected =
     (case require_positive_lease lease_seconds of
        Inl e \<Rightarrow> Inl e
      | Inr _ \<Rightarrow> (case preflight s expected of
          Inl e \<Rightarrow> Inl e
        | Inr (Some d) \<Rightarrow> Inr d
        | Inr None \<Rightarrow> (case takeover_eligibility s c now of
            Inl e \<Rightarrow> Inl e
          | Inr el \<Rightarrow>
              if \<not> te_eligible el
              then Inr (case te_reason el of
                  TR_TASK_CLOSED \<Rightarrow> reject s DC_TASK_CLOSED
                | TR_UNKNOWN_CANDIDATE \<Rightarrow> reject s DC_UNKNOWN_WORKER
                | TR_NOT_CANDIDATE \<Rightarrow> reject s DC_NOT_CANDIDATE
                | TR_NO_ACTIVE_WORKER \<Rightarrow> reject s DC_NO_ACTIVE_WORKER
                | _ \<Rightarrow> reject s DC_TAKEOVER_NOT_ELIGIBLE)
              else (case st_current_worker_id s of
                  None \<Rightarrow> Inl AssertionError
                | Some old \<Rightarrow> (case (worker_by_id s old, worker_by_id s c) of
                    (Some old_worker, Some cand) \<Rightarrow>
                      let g = st_generation s + 1;
                          superseded = old_worker\<lparr>wl_status := WL_SUPERSEDED,
                                         wl_ended_at := Some now, wl_superseded_by := Some c\<rparr>;
                          workers = replace_worker (st_workers s) superseded
                      in accept s
                        (s\<lparr>st_generation := g, st_current_worker_id := Some c,
                           st_handoff_target_worker_id := None, st_handoff_requested_at := None,
                           st_workers := replace_worker workers
                                           (claimed_lease cand g now lease_seconds)\<rparr>)
                        DC_TAKEOVER_GRANTED
                        [mk_event EK_WORKER_SUPERSEDED s now (Some old)
                           (wl_generation old_worker) (Some c) None,
                         mk_event EK_LEASE_TAKEN_OVER s now (Some c) (Some g) (Some old)
                           (Some (tr_value (te_reason el)))]
                  | _ \<Rightarrow> Inl AssertionError)))))"

text \<open>The update that ending the current worker makes, shared by completion and abandonment.\<close>

definition end_current ::
  "worker_task_state \<Rightarrow> worker_lease \<Rightarrow> worker_lease_status \<Rightarrow> timestamp \<Rightarrow> worker_task_state" where
  "end_current s x status now =
     s\<lparr>st_current_worker_id := None, st_handoff_target_worker_id := None,
       st_handoff_requested_at := None,
       st_workers := replace_worker (st_workers s)
         (x\<lparr>wl_status := status, wl_ended_at := Some now, wl_lease_expires_at := Some now\<rparr>)\<rparr>"

definition complete_worker ::
  "worker_task_state \<Rightarrow> string \<Rightarrow> int \<Rightarrow> timestamp \<Rightarrow> int \<Rightarrow> protocol_decision result" where
  "complete_worker s w g now expected =
     (case preflight s expected of
        Inl e \<Rightarrow> Inl e
      | Inr (Some d) \<Rightarrow> Inr d
      | Inr None \<Rightarrow> (case authority_rejection s w g now of
          Some d \<Rightarrow> Inr d
        | None \<Rightarrow> (case worker_by_id s w of
            None \<Rightarrow> Inl AssertionError
          | Some x \<Rightarrow>
              accept s (end_current s x WL_COMPLETED now) DC_WORKER_COMPLETED
                [mk_event EK_WORKER_COMPLETED s now (Some w) (Some g) None None])))"

definition abandon_worker ::
  "worker_task_state \<Rightarrow> string \<Rightarrow> int \<Rightarrow> timestamp \<Rightarrow> int \<Rightarrow> protocol_decision result" where
  "abandon_worker s w g now expected =
     (case preflight s expected of
        Inl e \<Rightarrow> Inl e
      | Inr (Some d) \<Rightarrow> Inr d
      | Inr None \<Rightarrow>
          if st_task_status s \<noteq> DT_OPEN then Inr (reject s DC_TASK_CLOSED)
          else case worker_by_id s w of
            None \<Rightarrow> Inr (reject s DC_UNKNOWN_WORKER)
          | Some x \<Rightarrow>
              if st_current_worker_id s \<noteq> Some w \<or> wl_status x \<noteq> WL_ACTIVE
              then Inr (reject s DC_FENCED_WORKER)
              else if g \<noteq> st_generation s \<or> wl_generation x \<noteq> Some g
              then Inr (reject s DC_STALE_GENERATION)
              else accept s (end_current s x WL_ABANDONED now) DC_WORKER_ABANDONED
                [mk_event EK_WORKER_ABANDONED s now (Some w) (Some g) None None])"

definition complete_task ::
  "worker_task_state \<Rightarrow> string \<Rightarrow> timestamp \<Rightarrow> int \<Rightarrow> protocol_decision result" where
  "complete_task s completion_ref0 now expected =
     (case preflight s expected of
        Inl e \<Rightarrow> Inl e
      | Inr (Some d) \<Rightarrow> Inr d
      | Inr None \<Rightarrow>
          if st_task_status s \<noteq> DT_OPEN then Inr (reject s DC_TASK_CLOSED)
          else if st_current_worker_id s \<noteq> None then Inr (reject s DC_ACTIVE_WORKER_MUST_END)
          else let ref = strip completion_ref0 in
            if ref = [] then Inr (reject s DC_COMPLETION_REF_REQUIRED)
            else accept s
              (s\<lparr>st_task_status := DT_COMPLETED, st_completed_at := Some now,
                 st_completion_ref := Some ref\<rparr>)
              DC_TASK_COMPLETED
              [mk_event EK_TASK_COMPLETED s now None (Some (st_generation s)) None (Some ref)])"

section \<open>The snapshot invariant\<close>

definition authority_ok :: "worker_task_state \<Rightarrow> bool" where
  "authority_ok s = (case st_current_worker_id s of
     None \<Rightarrow> (\<forall>w \<in> set (st_workers s). wl_status w \<noteq> WL_ACTIVE)
   | Some c \<Rightarrow> 0 < st_generation s
       \<and> (\<exists>x \<in> set (st_workers s). wl_worker_id x = c \<and> wl_status x = WL_ACTIVE
            \<and> wl_generation x = Some (st_generation s) \<and> wl_lease_expires_at x \<noteq> None)
       \<and> (\<forall>w \<in> set (st_workers s). wl_status w = WL_ACTIVE \<longrightarrow> wl_worker_id w = c))"

definition handoff_ok :: "worker_task_state \<Rightarrow> bool" where
  "handoff_ok s = (case st_handoff_target_worker_id s of
     None \<Rightarrow> st_handoff_requested_at s = None
   | Some t \<Rightarrow> st_current_worker_id s \<noteq> None \<and> st_handoff_requested_at s \<noteq> None
       \<and> (\<exists>x \<in> set (st_workers s). wl_worker_id x = t \<and> wl_status x = WL_CANDIDATE))"

definition completion_ok :: "worker_task_state \<Rightarrow> bool" where
  "completion_ok s = (st_task_status s = DT_COMPLETED \<longrightarrow>
     st_current_worker_id s = None \<and> st_completed_at s \<noteq> None
     \<and> st_completion_ref s \<notin> {None, Some []})"

definition roster_ok :: "worker_task_state \<Rightarrow> bool" where
  "roster_ok s = (distinct (map wl_worker_id (st_workers s))
     \<and> (\<forall>w \<in> set (st_workers s). wl_task_id w = st_task_id s))"

definition lineage_ok :: "worker_task_state \<Rightarrow> bool" where
  "lineage_ok s = (0 \<le> st_revision s \<and> 0 \<le> st_generation s
     \<and> (tl_parent_task_id (st_lineage s) = None \<longrightarrow> tl_root_task_id (st_lineage s) = st_task_id s))"

definition wp_inv :: "worker_task_state \<Rightarrow> bool" where
  "wp_inv s = (lineage_ok s \<and> roster_ok s \<and> authority_ok s \<and> handoff_ok s \<and> completion_ok s)"

lemmas wp_inv_defs = wp_inv_def lineage_ok_def roster_ok_def authority_ok_def handoff_ok_def
  completion_ok_def

lemma length_remdups_distinct: "length (remdups xs) = length xs \<longleftrightarrow> distinct xs"
  by (metis card_distinct distinct_card length_remdups_card_conv)

lemma worker_by_id_tbl: "worker_by_id s w = tbl_find wl_worker_id w (st_workers s)"
  by (simp add: worker_by_id_def tbl_find_def)

lemma worker_by_id_SomeD:
  "worker_by_id s w = Some x \<Longrightarrow> x \<in> set (st_workers s) \<and> wl_worker_id x = w"
  unfolding worker_by_id_tbl by (rule tbl_find_SomeD)

lemma worker_by_id_eq_Some:
  "roster_ok s \<Longrightarrow> worker_by_id s w = Some x \<longleftrightarrow> x \<in> set (st_workers s) \<and> wl_worker_id x = w"
  unfolding worker_by_id_tbl roster_ok_def by (rule tbl_find_Some_iff) (simp add: tbl_ok_def)

lemma worker_by_id_eq_None:
  "worker_by_id s w = None \<longleftrightarrow> w \<notin> wl_worker_id ` set (st_workers s)"
  unfolding worker_by_id_tbl by (rule tbl_find_None_iff)

lemma roster_unique:
  "roster_ok s \<Longrightarrow> x \<in> set (st_workers s) \<Longrightarrow> y \<in> set (st_workers s)
    \<Longrightarrow> wl_worker_id x = wl_worker_id y \<Longrightarrow> x = y"
  unfolding roster_ok_def by (metis distinct_map inj_onD)

text \<open>The list of active workers that the check builds, against the set-level reading.\<close>

lemma active_list_singleton:
  assumes "roster_ok s"
  shows "(length (filter (\<lambda>w. wl_status w = WL_ACTIVE) (st_workers s)) = 1
      \<and> P (hd (filter (\<lambda>w. wl_status w = WL_ACTIVE) (st_workers s))))
    \<longleftrightarrow> (\<exists>x \<in> set (st_workers s). wl_status x = WL_ACTIVE \<and> P x
          \<and> (\<forall>w \<in> set (st_workers s). wl_status w = WL_ACTIVE \<longrightarrow> w = x))"
proof -
  have d: "distinct (st_workers s)" using assms by (simp add: roster_ok_def distinct_map)
  have "(length xs = 1 \<and> P (hd xs)) \<longleftrightarrow> (\<exists>x. xs = [x] \<and> P x)" for xs :: "worker_lease list"
    by (cases xs) auto
  then show ?thesis by (auto simp: filter_eq_singleton_iff [OF d])
qed

lemma authority_ok_Some:
  assumes r: "roster_ok s" and c: "st_current_worker_id s = Some c"
  shows "authority_ok s \<longleftrightarrow> (\<exists>x \<in> set (st_workers s). wl_status x = WL_ACTIVE
      \<and> (wl_worker_id x = c \<and> wl_generation x = Some (st_generation s) \<and> 0 < st_generation s
         \<and> wl_lease_expires_at x \<noteq> None)
      \<and> (\<forall>w \<in> set (st_workers s). wl_status w = WL_ACTIVE \<longrightarrow> w = x))" (is "_ = ?R")
proof
  assume "authority_ok s"
  then obtain x where x: "x \<in> set (st_workers s)" "wl_worker_id x = c" "wl_status x = WL_ACTIVE"
      "wl_generation x = Some (st_generation s)" "wl_lease_expires_at x \<noteq> None" "0 < st_generation s"
    and u: "\<forall>w \<in> set (st_workers s). wl_status w = WL_ACTIVE \<longrightarrow> wl_worker_id w = c"
    using c unfolding authority_ok_def by auto
  have "\<forall>w \<in> set (st_workers s). wl_status w = WL_ACTIVE \<longrightarrow> w = x"
    using u x roster_unique [OF r] by blast
  with x show ?R by blast
next
  assume ?R
  then show "authority_ok s" using c unfolding authority_ok_def by auto
qed

lemma authority_check_iff:
  assumes r: "roster_ok s"
  shows "authority_ok s = (case st_current_worker_id s of
       None \<Rightarrow> filter (\<lambda>w. wl_status w = WL_ACTIVE) (st_workers s) = []
     | Some c \<Rightarrow> length (filter (\<lambda>w. wl_status w = WL_ACTIVE) (st_workers s)) = 1
         \<and> (wl_worker_id (hd (filter (\<lambda>w. wl_status w = WL_ACTIVE) (st_workers s))) = c
         \<and> wl_generation (hd (filter (\<lambda>w. wl_status w = WL_ACTIVE) (st_workers s)))
             = Some (st_generation s) \<and> 0 < st_generation s
         \<and> wl_lease_expires_at (hd (filter (\<lambda>w. wl_status w = WL_ACTIVE) (st_workers s))) \<noteq> None))"
proof (cases "st_current_worker_id s")
  case None
  then show ?thesis by (simp add: authority_ok_def filter_empty_conv)
next
  case (Some c)
  show ?thesis
    unfolding Some option.case
    unfolding authority_ok_Some [OF r Some] active_list_singleton [OF r, of "\<lambda>x. wl_worker_id x = c
        \<and> wl_generation x = Some (st_generation s) \<and> 0 < st_generation s
        \<and> wl_lease_expires_at x \<noteq> None"] ..
qed

lemma validate_roster_iff: "validate_roster s = Inr () \<longleftrightarrow> lineage_ok s \<and> roster_ok s"
  using length_remdups_distinct [of "map wl_worker_id (st_workers s)"]
  by (auto simp: validate_roster_def lineage_ok_def roster_ok_def list_ex_iff)

lemma validate_authority_iff: "roster_ok s \<Longrightarrow> validate_authority s = Inr () \<longleftrightarrow> authority_ok s"
  unfolding authority_check_iff validate_authority_def
  by (cases "st_current_worker_id s") (auto simp: Let_def not_le)

lemma validate_handoff_iff: "roster_ok s \<Longrightarrow> validate_handoff s = Inr () \<longleftrightarrow> handoff_ok s"
  unfolding validate_handoff_def handoff_ok_def
  by (auto simp: worker_by_id_eq_Some worker_by_id_eq_None dest: roster_unique split: option.splits)

lemma validate_completion_iff: "validate_completion s = Inr () \<longleftrightarrow> completion_ok s"
  by (auto simp: validate_completion_def completion_ok_def)

lemma validate_state_iff: "validate_state s = Inr () \<longleftrightarrow> wp_inv s"
  using validate_roster_iff [of s] validate_authority_iff [of s] validate_handoff_iff [of s]
    validate_completion_iff [of s]
  unfolding validate_state_def wp_inv_def by (auto split: sum.split)

section \<open>The protocol as a state machine\<close>

text \<open>
  One rule per accepted change, labelled with the events it appends. The guards are the conditions
  under which the code reaches \<open>accept\<close>; \<open>committed\<close> is the revision bump of \<open>accept\<close>.
\<close>

definition committed :: "worker_task_state \<Rightarrow> worker_task_state \<Rightarrow> worker_task_state" where
  "committed s cand = cand\<lparr>st_revision := st_revision s + 1\<rparr>"

definition stamped :: "worker_task_state \<Rightarrow> protocol_event list \<Rightarrow> protocol_event list" where
  "stamped s es = map (\<lambda>e. e\<lparr>ev_revision := st_revision s + 1\<rparr>) es"

text \<open>The holder of the current generation, with a lease that has not run out.\<close>

definition has_authority :: "worker_task_state \<Rightarrow> worker_lease \<Rightarrow> timestamp \<Rightarrow> bool" where
  "has_authority s x now \<longleftrightarrow>
     st_task_status s = DT_OPEN \<and> x \<in> set (st_workers s)
     \<and> st_current_worker_id s = Some (wl_worker_id x) \<and> wl_status x = WL_ACTIVE
     \<and> wl_generation x = Some (st_generation s)
     \<and> (\<forall>t. wl_claimed_at x = Some t \<longrightarrow> t \<le> now)
     \<and> (\<forall>t. wl_last_heartbeat_at x = Some t \<longrightarrow> t \<le> now)
     \<and> (\<exists>e. wl_lease_expires_at x = Some e \<and> now < e)"

inductive protocol_step ::
  "worker_task_state \<Rightarrow> protocol_event list \<Rightarrow> worker_task_state \<Rightarrow> bool" where
  ps_register:
    "st_task_status s = DT_OPEN \<Longrightarrow> wl_worker_id x \<noteq> [] \<Longrightarrow> wl_status x = WL_CANDIDATE
     \<Longrightarrow> wl_generation x = None \<Longrightarrow> wl_task_id x = st_task_id s
     \<Longrightarrow> wl_worker_id x \<notin> wl_worker_id ` set (st_workers s)
     \<Longrightarrow> es = stamped s [mk_event EK_WORKER_REGISTERED s now (Some (wl_worker_id x)) None None None]
     \<Longrightarrow> t = committed s (s\<lparr>st_workers := sorted_workers (st_workers s @ [x])\<rparr>)
     \<Longrightarrow> protocol_step s es t"
| ps_claim:
    "st_task_status s = DT_OPEN \<Longrightarrow> x \<in> set (st_workers s) \<Longrightarrow> wl_status x = WL_CANDIDATE
     \<Longrightarrow> st_current_worker_id s = None \<Longrightarrow> 0 < l \<Longrightarrow> g = st_generation s + 1
     \<Longrightarrow> es = stamped s [mk_event EK_LEASE_CLAIMED s now (Some (wl_worker_id x)) (Some g) None None]
     \<Longrightarrow> t = committed s (s\<lparr>st_generation := g, st_current_worker_id := Some (wl_worker_id x),
               st_handoff_target_worker_id := None, st_handoff_requested_at := None,
               st_workers := replace_worker (st_workers s) (claimed_lease x g now l)\<rparr>)
     \<Longrightarrow> protocol_step s es t"
| ps_heartbeat:
    "has_authority s x now \<Longrightarrow> 0 < l
     \<Longrightarrow> es = stamped s [mk_event EK_HEARTBEAT_ACCEPTED s now (Some (wl_worker_id x))
                            (Some (st_generation s)) None None]
     \<Longrightarrow> t = committed s (s\<lparr>st_workers := replace_worker (st_workers s)
               (x\<lparr>wl_last_heartbeat_at := Some now, wl_lease_expires_at := Some (now + l)\<rparr>)\<rparr>)
     \<Longrightarrow> protocol_step s es t"
| ps_handoff:
    "has_authority s x now \<Longrightarrow> y \<in> set (st_workers s) \<Longrightarrow> wl_status y = WL_CANDIDATE
     \<Longrightarrow> es = stamped s [mk_event EK_HANDOFF_REQUESTED s now (Some (wl_worker_id x))
                            (Some (st_generation s)) (Some (wl_worker_id y)) None]
     \<Longrightarrow> t = committed s (s\<lparr>st_handoff_target_worker_id := Some (wl_worker_id y),
               st_handoff_requested_at := Some now\<rparr>)
     \<Longrightarrow> protocol_step s es t"
| ps_takeover:
    "st_task_status s = DT_OPEN \<Longrightarrow> x \<in> set (st_workers s) \<Longrightarrow> y \<in> set (st_workers s)
     \<Longrightarrow> st_current_worker_id s = Some (wl_worker_id x) \<Longrightarrow> wl_status y = WL_CANDIDATE
     \<Longrightarrow> st_handoff_target_worker_id s = Some (wl_worker_id y)
         \<or> \<not> lease_is_fresh s (wl_worker_id x) now
     \<Longrightarrow> 0 < l \<Longrightarrow> g = st_generation s + 1
     \<Longrightarrow> es = stamped s
           [mk_event EK_WORKER_SUPERSEDED s now (Some (wl_worker_id x)) (wl_generation x)
              (Some (wl_worker_id y)) None,
            mk_event EK_LEASE_TAKEN_OVER s now (Some (wl_worker_id y)) (Some g)
              (Some (wl_worker_id x)) (Some ref)]
     \<Longrightarrow> t = committed s (s\<lparr>st_generation := g, st_current_worker_id := Some (wl_worker_id y),
               st_handoff_target_worker_id := None, st_handoff_requested_at := None,
               st_workers := replace_worker
                 (replace_worker (st_workers s)
                    (x\<lparr>wl_status := WL_SUPERSEDED, wl_ended_at := Some now,
                       wl_superseded_by := Some (wl_worker_id y)\<rparr>))
                 (claimed_lease y g now l)\<rparr>)
     \<Longrightarrow> protocol_step s es t"
| ps_complete_worker:
    "has_authority s x now
     \<Longrightarrow> es = stamped s [mk_event EK_WORKER_COMPLETED s now (Some (wl_worker_id x))
                            (Some (st_generation s)) None None]
     \<Longrightarrow> t = committed s (end_current s x WL_COMPLETED now)
     \<Longrightarrow> protocol_step s es t"
| ps_abandon:
    "st_task_status s = DT_OPEN \<Longrightarrow> x \<in> set (st_workers s)
     \<Longrightarrow> st_current_worker_id s = Some (wl_worker_id x) \<Longrightarrow> wl_status x = WL_ACTIVE
     \<Longrightarrow> es = stamped s [mk_event EK_WORKER_ABANDONED s now (Some (wl_worker_id x))
                            (Some (st_generation s)) None None]
     \<Longrightarrow> t = committed s (end_current s x WL_ABANDONED now)
     \<Longrightarrow> protocol_step s es t"
| ps_complete_task:
    "st_task_status s = DT_OPEN \<Longrightarrow> st_current_worker_id s = None \<Longrightarrow> ref \<noteq> []
     \<Longrightarrow> es = stamped s [mk_event EK_TASK_COMPLETED s now None (Some (st_generation s)) None (Some ref)]
     \<Longrightarrow> t = committed s (s\<lparr>st_task_status := DT_COMPLETED, st_completed_at := Some now,
               st_completion_ref := Some ref\<rparr>)
     \<Longrightarrow> protocol_step s es t"

subsection \<open>Every step keeps the invariant\<close>

lemma set_sorted_workers [simp]: "set (sorted_workers ws) = set ws"
  by (simp add: sorted_workers_def)

lemma distinct_sorted_workers [simp]:
  "distinct (map wl_worker_id (sorted_workers ws)) = distinct (map wl_worker_id ws)"
  by (simp add: sorted_workers_def)

lemma set_replace_worker:
  "set (replace_worker ws u) = (\<lambda>w. if wl_worker_id w = wl_worker_id u then u else w) ` set ws"
  by (simp add: replace_worker_def)

lemma replace_worker_other:
  "y \<in> set ws \<Longrightarrow> wl_worker_id y \<noteq> wl_worker_id u \<Longrightarrow> y \<in> set (replace_worker ws u)"
  unfolding set_replace_worker by (rule image_eqI [where x = y]) simp_all

lemma replace_worker_self:
  "x \<in> set ws \<Longrightarrow> wl_worker_id x = wl_worker_id u \<Longrightarrow> u \<in> set (replace_worker ws u)"
  unfolding set_replace_worker by (rule image_eqI [where x = x]) simp_all

lemma replace_worker_cases:
  "y \<in> set (replace_worker ws u) \<Longrightarrow> y = u \<or> (y \<in> set ws \<and> wl_worker_id y \<noteq> wl_worker_id u)"
  unfolding set_replace_worker by auto

lemma distinct_replace_worker [simp]:
  "distinct (map wl_worker_id (replace_worker ws u)) = distinct (map wl_worker_id ws)"
proof -
  have "map wl_worker_id (map (\<lambda>w. if wl_worker_id w = wl_worker_id u then u else w) ws)
      = map wl_worker_id ws" by (induction ws) auto
  then show ?thesis by (simp only: replace_worker_def distinct_sorted_workers)
qed

lemma claimed_lease_simps [simp]:
  "wl_worker_id (claimed_lease x g now l) = wl_worker_id x"
  "wl_task_id (claimed_lease x g now l) = wl_task_id x"
  "wl_status (claimed_lease x g now l) = WL_ACTIVE"
  "wl_generation (claimed_lease x g now l) = Some g"
  "wl_lease_expires_at (claimed_lease x g now l) = Some (now + l)"
  "wl_conversation_ref (claimed_lease x g now l) = wl_conversation_ref x"
  "wl_registered_at (claimed_lease x g now l) = wl_registered_at x"
  by (simp_all add: claimed_lease_def)

lemma committed_simps [simp]:
  "st_lineage (committed s c) = st_lineage c"
  "st_revision (committed s c) = st_revision s + 1"
  "st_generation (committed s c) = st_generation c"
  "st_task_status (committed s c) = st_task_status c"
  "st_current_worker_id (committed s c) = st_current_worker_id c"
  "st_handoff_target_worker_id (committed s c) = st_handoff_target_worker_id c"
  "st_handoff_requested_at (committed s c) = st_handoff_requested_at c"
  "st_workers (committed s c) = st_workers c"
  "st_completed_at (committed s c) = st_completed_at c"
  "st_completion_ref (committed s c) = st_completion_ref c"
  "st_task_id (committed s c) = tl_task_id (st_lineage c)"
  by (simp_all add: committed_def st_task_id_def)

lemma end_current_simps [simp]:
  "st_lineage (end_current s x k now) = st_lineage s"
  "st_revision (end_current s x k now) = st_revision s"
  "st_generation (end_current s x k now) = st_generation s"
  "st_task_status (end_current s x k now) = st_task_status s"
  "st_current_worker_id (end_current s x k now) = None"
  "st_handoff_target_worker_id (end_current s x k now) = None"
  "st_handoff_requested_at (end_current s x k now) = None"
  "st_completed_at (end_current s x k now) = st_completed_at s"
  "st_completion_ref (end_current s x k now) = st_completion_ref s"
  by (simp_all add: end_current_def)

lemma protocol_step_frame:
  assumes "protocol_step s es t"
  shows "st_lineage t = st_lineage s" and "st_revision t = st_revision s + 1"
  using assms by (induction rule: protocol_step.induct) simp_all

lemma protocol_step_lineage_ok: "protocol_step s es t \<Longrightarrow> lineage_ok s \<Longrightarrow> lineage_ok t"
  by (induction rule: protocol_step.induct)
    (auto simp: lineage_ok_def st_task_id_def)

lemma protocol_step_roster_ok: "protocol_step s es t \<Longrightarrow> roster_ok s \<Longrightarrow> roster_ok t"
  by (induction rule: protocol_step.induct)
    (auto simp: roster_ok_def st_task_id_def set_replace_worker end_current_def has_authority_def)

lemma protocol_step_completion_ok: "protocol_step s es t \<Longrightarrow> completion_ok s \<Longrightarrow> completion_ok t"
  by (induction rule: protocol_step.induct) (auto simp: completion_ok_def has_authority_def)

text \<open>A candidate survives the replacement of a worker that is not a candidate.\<close>

lemma candidate_survives:
  assumes "roster_ok s" and "x \<in> set (st_workers s)" and "wl_status x \<noteq> WL_CANDIDATE"
    and "y \<in> set (st_workers s)" and "wl_status y = WL_CANDIDATE"
    and "wl_worker_id u = wl_worker_id x"
  shows "y \<in> set (replace_worker (st_workers s) u)"
  using assms by (metis replace_worker_other roster_unique)

lemma protocol_step_handoff_ok:
  "protocol_step s es t \<Longrightarrow> roster_ok s \<Longrightarrow> handoff_ok s \<Longrightarrow> handoff_ok t"
proof (induction rule: protocol_step.induct)
  case (ps_heartbeat s x now l es t)
  note s = \<open>has_authority s x now\<close> \<open>roster_ok s\<close> \<open>handoff_ok s\<close>
  show ?case
  proof (cases "st_handoff_target_worker_id s")
    case None
    with s ps_heartbeat(4) show ?thesis by (simp add: handoff_ok_def)
  next
    case (Some h)
    with s(3) obtain y where y: "y \<in> set (st_workers s)" "wl_worker_id y = h"
        "wl_status y = WL_CANDIDATE" "st_current_worker_id s \<noteq> None" "st_handoff_requested_at s \<noteq> None"
      by (auto simp: handoff_ok_def)
    have "y \<in> set (replace_worker (st_workers s)
        (x\<lparr>wl_last_heartbeat_at := Some now, wl_lease_expires_at := Some (now + l)\<rparr>))"
      using s(1,2) y by (intro candidate_survives) (auto simp: has_authority_def)
    with y Some ps_heartbeat(4) show ?thesis by (auto simp: handoff_ok_def)
  qed
qed (auto simp: handoff_ok_def has_authority_def split: option.splits)

lemma sole_active:
  "authority_ok s \<Longrightarrow> st_current_worker_id s = Some c \<Longrightarrow> w \<in> set (st_workers s)
    \<Longrightarrow> wl_status w = WL_ACTIVE \<Longrightarrow> wl_worker_id w = c"
  by (simp add: authority_ok_def)

lemma authority_ok_positive:
  "authority_ok s \<Longrightarrow> st_current_worker_id s = Some c \<Longrightarrow> 0 < st_generation s"
  by (simp add: authority_ok_def)

lemma authority_okI:
  assumes "st_current_worker_id t = Some c" and "0 < st_generation t"
    and "x \<in> set (st_workers t)" and "wl_worker_id x = c" and "wl_status x = WL_ACTIVE"
    and "wl_generation x = Some (st_generation t)" and "wl_lease_expires_at x \<noteq> None"
    and "\<And>w. w \<in> set (st_workers t) \<Longrightarrow> wl_status w = WL_ACTIVE \<Longrightarrow> wl_worker_id w = c"
  shows "authority_ok t"
  using assms by (auto simp: authority_ok_def)

lemma current_worker_active:
  assumes "authority_ok s" and "roster_ok s" and "st_current_worker_id s = Some (wl_worker_id x)"
    and "x \<in> set (st_workers s)"
  shows "wl_status x = WL_ACTIVE" and "wl_generation x = Some (st_generation s)"
    and "wl_lease_expires_at x \<noteq> None"
proof -
  from assms obtain y where y: "y \<in> set (st_workers s)" "wl_worker_id y = wl_worker_id x"
      "wl_status y = WL_ACTIVE" "wl_generation y = Some (st_generation s)"
      "wl_lease_expires_at y \<noteq> None"
    by (auto simp: authority_ok_def)
  with roster_unique [OF assms(2) y(1) assms(4)] have "y = x" by simp
  with y show "wl_status x = WL_ACTIVE" "wl_generation x = Some (st_generation s)"
    "wl_lease_expires_at x \<noteq> None" by simp_all
qed

lemma end_current_authority_ok:
  assumes "authority_ok s" and "st_current_worker_id s = Some (wl_worker_id x)" and "k \<noteq> WL_ACTIVE"
  shows "authority_ok (committed s (end_current s x k now))"
  using assms by (auto simp: authority_ok_def end_current_def dest: replace_worker_cases)

lemma takeover_authority_ok:
  assumes inv: "lineage_ok s" "roster_ok s" "authority_ok s"
    and x: "x \<in> set (st_workers s)" "st_current_worker_id s = Some (wl_worker_id x)"
    and y: "y \<in> set (st_workers s)" "wl_status y = WL_CANDIDATE"
    and u: "wl_worker_id u = wl_worker_id x" "wl_status u \<noteq> WL_ACTIVE"
    and t: "st_current_worker_id t = Some (wl_worker_id y)" "st_generation t = st_generation s + 1"
      "st_workers t = replace_worker (replace_worker (st_workers s) u)
         (claimed_lease y (st_generation s + 1) now l)"
  shows "authority_ok t"
proof (rule authority_okI [where x = "claimed_lease y (st_generation s + 1) now l"])
  have "wl_status x = WL_ACTIVE" using inv x by (simp add: current_worker_active)
  with y have "wl_worker_id y \<noteq> wl_worker_id x" using inv(2) x(1) roster_unique by fastforce
  then have "y \<in> set (replace_worker (st_workers s) u)" using y u by (simp add: replace_worker_other)
  then show "claimed_lease y (st_generation s + 1) now l \<in> set (st_workers t)"
    unfolding t(3) by (rule replace_worker_self) simp
  fix w assume w: "w \<in> set (st_workers t)" "wl_status w = WL_ACTIVE"
  show "wl_worker_id w = wl_worker_id y"
  proof (rule ccontr)
    assume "wl_worker_id w \<noteq> wl_worker_id y"
    with w(1) have "w \<in> set (replace_worker (st_workers s) u)"
      unfolding t(3) using replace_worker_cases by fastforce
    with w(2) u have "w \<in> set (st_workers s)" "wl_worker_id w \<noteq> wl_worker_id x"
      using replace_worker_cases by fastforce+
    with w(2) sole_active [OF inv(3) x(2)] show False by blast
  qed
qed (use inv(1) t in \<open>auto simp: lineage_ok_def\<close>)

lemma protocol_step_authority_ok:
  "protocol_step s es t \<Longrightarrow> lineage_ok s \<Longrightarrow> roster_ok s \<Longrightarrow> authority_ok s \<Longrightarrow> authority_ok t"
proof (induction rule: protocol_step.induct)
  case (ps_register s x es now t)
  then show ?case by (auto simp: authority_ok_def split: option.splits)
next
  case (ps_claim s x l g es now t)
  show ?case
  proof (rule authority_okI [where x = "claimed_lease x g now l"])
    show "claimed_lease x g now l \<in> set (st_workers t)"
      using ps_claim by (auto intro: replace_worker_self)
    fix w assume "w \<in> set (st_workers t)" "wl_status w = WL_ACTIVE"
    with ps_claim show "wl_worker_id w = wl_worker_id x"
      by (auto simp: authority_ok_def dest!: replace_worker_cases)
  qed (use ps_claim in \<open>auto simp: lineage_ok_def\<close>)
next
  case (ps_heartbeat s x now l es t)
  show ?case
  proof (rule authority_okI [where c = "wl_worker_id x" and
        x = "x\<lparr>wl_last_heartbeat_at := Some now, wl_lease_expires_at := Some (now + l)\<rparr>"])
    show "x\<lparr>wl_last_heartbeat_at := Some now, wl_lease_expires_at := Some (now + l)\<rparr> \<in> set (st_workers t)"
      using ps_heartbeat by (auto simp: has_authority_def intro: replace_worker_self)
    fix w assume "w \<in> set (st_workers t)" "wl_status w = WL_ACTIVE"
    with ps_heartbeat show "wl_worker_id w = wl_worker_id x"
      by (auto simp: has_authority_def dest!: replace_worker_cases dest: sole_active)
  qed (use ps_heartbeat authority_ok_positive in \<open>auto simp: has_authority_def\<close>)
next
  case (ps_handoff s x now y es t)
  then show ?case by (auto simp: authority_ok_def split: option.splits)
next
  case (ps_takeover s x y now l g es ref t)
  show ?case
    by (rule takeover_authority_ok [of s x y "x\<lparr>wl_status := WL_SUPERSEDED, wl_ended_at := Some now,
          wl_superseded_by := Some (wl_worker_id y)\<rparr>"]) (use ps_takeover in auto)
next
  case (ps_complete_worker s x now es t)
  then show ?case by (auto simp: has_authority_def intro!: end_current_authority_ok)
next
  case (ps_abandon s x es now t)
  then show ?case by (auto intro!: end_current_authority_ok)
next
  case (ps_complete_task s ref es now t)
  then show ?case by (auto simp: authority_ok_def)
qed

theorem protocol_step_wp_inv: "protocol_step s es t \<Longrightarrow> wp_inv s \<Longrightarrow> wp_inv t"
  unfolding wp_inv_def
  using protocol_step_lineage_ok protocol_step_roster_ok protocol_step_authority_ok
    protocol_step_handoff_ok protocol_step_completion_ok by blast

section \<open>The operations refine the state machine\<close>

definition unchanged :: "worker_task_state \<Rightarrow> protocol_decision \<Rightarrow> bool" where
  "unchanged s d \<longleftrightarrow> pd_state d = s \<and> pd_events d = [] \<and> \<not> pd_mutated d"

definition steps_to :: "worker_task_state \<Rightarrow> protocol_decision \<Rightarrow> bool" where
  "steps_to s d \<longleftrightarrow> pd_accepted d \<and> pd_mutated d \<and> pd_expected_revision d = st_revision s
     \<and> protocol_step s (pd_events d) (pd_state d)"

definition good_outcome :: "worker_task_state \<Rightarrow> protocol_decision result \<Rightarrow> bool" where
  "good_outcome s r \<longleftrightarrow> (\<exists>d. r = Inr d \<and> (unchanged s d \<or> steps_to s d))"

definition committed_decision ::
  "worker_task_state \<Rightarrow> worker_task_state \<Rightarrow> decision_code \<Rightarrow> protocol_event list
     \<Rightarrow> protocol_decision" where
  "committed_decision s cand code evs =
     \<lparr>pd_accepted = True, pd_code = code, pd_expected_revision = st_revision s,
      pd_state = committed s cand, pd_events = stamped s evs\<rparr>"

lemma accept_eq:
  assumes "wp_inv s" and "protocol_step s (stamped s evs) (committed s cand)"
  shows "accept s cand code evs = Inr (committed_decision s cand code evs)"
proof -
  have "wp_inv (committed s cand)" using assms by (blast intro: protocol_step_wp_inv)
  then have "validate_state (committed s cand) = Inr ()" by (simp add: validate_state_iff)
  then show ?thesis
    by (simp add: accept_def committed_decision_def committed_def stamped_def Let_def)
qed

lemma good_outcome_accept:
  assumes "wp_inv s" and "protocol_step s (stamped s evs) (committed s cand)"
  shows "good_outcome s (accept s cand code evs)"
  using accept_eq [OF assms, of code] assms(2)
  by (auto simp: good_outcome_def steps_to_def pd_mutated_def committed_decision_def)

lemma good_outcome_reject [simp]: "good_outcome s (Inr (reject s code))"
  by (simp add: good_outcome_def unchanged_def reject_def pd_mutated_def)

lemma preflight_cases [consumes 1, case_names fresh stale]:
  assumes "wp_inv s"
  obtains (fresh) "preflight s e = Inr None" "e = st_revision s"
    | (stale) d where "preflight s e = Inr (Some d)" "e \<noteq> st_revision s" "unchanged s d"
        "pd_code d = DC_STALE_REVISION" "\<not> pd_accepted d" "pd_expected_revision d = e"
proof (cases "e = st_revision s")
  case True
  with assms fresh show thesis by (simp add: preflight_def validate_state_iff [THEN iffD2])
next
  case False
  with assms stale [of "\<lparr>pd_accepted = False, pd_code = DC_STALE_REVISION,
      pd_expected_revision = e, pd_state = s, pd_events = []\<rparr>"] show thesis
    by (simp add: preflight_def validate_state_iff [THEN iffD2] unchanged_def pd_mutated_def)
qed

lemma lease_timeline_max:
  "(lease_timeline x \<noteq> [] \<and> now < fold max (tl (lease_timeline x)) (hd (lease_timeline x)))
   \<longleftrightarrow> (\<exists>t. (wl_claimed_at x = Some t \<or> wl_last_heartbeat_at x = Some t) \<and> now < t)"
  by (cases "wl_claimed_at x"; cases "wl_last_heartbeat_at x")
    (auto simp: lease_timeline_def less_max_iff_disj)

lemma lease_is_fresh_iff:
  "roster_ok s \<Longrightarrow> lease_is_fresh s w now \<longleftrightarrow> (\<exists>x \<in> set (st_workers s).
     wl_worker_id x = w \<and> st_task_status s = DT_OPEN \<and> st_current_worker_id s = Some w
     \<and> wl_status x = WL_ACTIVE \<and> wl_generation x = Some (st_generation s)
     \<and> (\<exists>e. wl_lease_expires_at x = Some e \<and> now < e))"
proof (cases "worker_by_id s w")
  case None
  then have "\<forall>x \<in> set (st_workers s). wl_worker_id x \<noteq> w" by (auto simp: worker_by_id_eq_None)
  with None show ?thesis by (auto simp: lease_is_fresh_def)
next
  case (Some x)
  assume r: "roster_ok s"
  with Some have x: "x \<in> set (st_workers s)" "wl_worker_id x = w"
    by (simp_all add: worker_by_id_eq_Some)
  have "\<And>y. y \<in> set (st_workers s) \<Longrightarrow> wl_worker_id y = w \<longleftrightarrow> y = x"
    using roster_unique [OF r] x by blast
  with Some x show ?thesis
    by (auto simp: lease_is_fresh_def split: option.splits)
qed

lemma authority_rejection_cases [consumes 1, case_names granted refused]:
  assumes r: "roster_ok s"
  obtains (granted) x where "authority_rejection s w g now = None" "worker_by_id s w = Some x"
      "wl_worker_id x = w" "has_authority s x now" "g = st_generation s"
    | (refused) code where "authority_rejection s w g now = Some (reject s code)"
proof (cases "authority_rejection s w g now")
  case None
  then obtain x where x: "worker_by_id s w = Some x" "st_task_status s = DT_OPEN"
      "st_current_worker_id s = Some w" "wl_status x = WL_ACTIVE" "g = st_generation s"
      "wl_generation x = Some g"
      "\<not> (lease_timeline x \<noteq> [] \<and> now < fold max (tl (lease_timeline x)) (hd (lease_timeline x)))"
      "lease_is_fresh s w now"
    unfolding authority_rejection_def by (auto split: if_splits option.splits)
  then have "has_authority s x now"
    unfolding has_authority_def lease_timeline_max
    using worker_by_id_SomeD [OF x(1)] lease_is_fresh_iff [OF r, of w now] roster_unique [OF r]
    by (metis not_le_imp_less)
  with None x worker_by_id_SomeD [OF x(1)] granted show thesis by blast
next
  case (Some d)
  then have "\<exists>code. d = reject s code"
    unfolding authority_rejection_def by (auto split: if_splits option.splits)
  with Some refused show thesis by blast
qed

lemma good_outcome_stale: "unchanged s d \<Longrightarrow> good_outcome s (Inr d)"
  by (auto simp: good_outcome_def)

lemma has_authority_roster: "has_authority s x now \<Longrightarrow> x \<in> set (st_workers s)"
  by (simp add: has_authority_def)

lemmas positive_lease [simp] = require_positive_lease_def [of l, simplified] for l

lemma register_worker_good:
  assumes inv: "wp_inv s" and w: "strip w \<noteq> []"
  shows "good_outcome s (register_worker s w cref now e)"
  using inv
proof (cases rule: preflight_cases [where e = e])
  case fresh
  let ?x = "\<lparr>wl_worker_id = strip w, wl_task_id = st_task_id s, wl_conversation_ref = cref,
      wl_status = WL_CANDIDATE, wl_registered_at = now, wl_generation = None, wl_claimed_at = None,
      wl_last_heartbeat_at = None, wl_lease_expires_at = None, wl_ended_at = None,
      wl_superseded_by = None\<rparr>"
  let ?evs = "[mk_event EK_WORKER_REGISTERED s now (Some (strip w)) None None None]"
  let ?t = "s\<lparr>st_workers := sorted_workers (st_workers s @ [?x])\<rparr>"
  have "good_outcome s (accept s ?t DC_REGISTERED ?evs)"
    if "st_task_status s = DT_OPEN" "worker_by_id s (strip w) = None"
    by (rule good_outcome_accept [OF inv], rule ps_register [where x = ?x])
      (use that w in \<open>simp_all add: worker_by_id_eq_None\<close>)
  then show ?thesis
    using w by (simp add: register_worker_def fresh(1) Let_def good_outcome_stale unchanged_def
        pd_mutated_def split: option.split)
next
  case (stale d)
  then show ?thesis by (simp add: register_worker_def good_outcome_stale)
qed

lemma claim_worker_good:
  assumes inv: "wp_inv s" and l: "0 < l"
  shows "good_outcome s (claim_worker s w now l e)"
  using inv
proof (cases rule: preflight_cases [where e = e])
  case fresh
  let ?g = "st_generation s + 1"
  have "good_outcome s (accept s
      (s\<lparr>st_generation := ?g, st_current_worker_id := Some w, st_handoff_target_worker_id := None,
         st_handoff_requested_at := None,
         st_workers := replace_worker (st_workers s) (claimed_lease x ?g now l)\<rparr>)
      DC_CLAIMED [mk_event EK_LEASE_CLAIMED s now (Some w) (Some ?g) None None])"
    if "worker_by_id s w = Some x" "st_task_status s = DT_OPEN" "wl_status x = WL_CANDIDATE"
      "st_current_worker_id s = None" for x
    by (rule good_outcome_accept [OF inv], rule ps_claim [where x = x and l = l and g = ?g and now = now])
      (use that l worker_by_id_SomeD [OF that(1)] in auto)
  then show ?thesis
    using l by (simp add: claim_worker_def fresh(1) Let_def split: option.split)
next
  case (stale d)
  with l show ?thesis by (simp add: claim_worker_def good_outcome_stale)
qed

lemma heartbeat_worker_good:
  assumes inv: "wp_inv s" and l: "0 < l"
  shows "good_outcome s (heartbeat_worker s w g now l e)"
  using inv
proof (cases rule: preflight_cases [where e = e])
  case fresh
  have "roster_ok s" using inv by (simp add: wp_inv_def)
  then show ?thesis
  proof (cases rule: authority_rejection_cases [where w = w and g = g and now = now])
    case (granted x)
    have "good_outcome s (accept s
        (s\<lparr>st_workers := replace_worker (st_workers s)
             (x\<lparr>wl_last_heartbeat_at := Some now, wl_lease_expires_at := Some (now + l)\<rparr>)\<rparr>)
        DC_HEARTBEAT_RECORDED [mk_event EK_HEARTBEAT_ACCEPTED s now (Some w) (Some g) None None])"
      by (rule good_outcome_accept [OF inv], rule ps_heartbeat [where x = x and l = l and now = now])
        (use granted l in auto)
    with granted l show ?thesis by (simp add: heartbeat_worker_def fresh(1))
  next
    case (refused code)
    with l show ?thesis by (simp add: heartbeat_worker_def fresh(1))
  qed
next
  case (stale d)
  with l show ?thesis by (simp add: heartbeat_worker_def good_outcome_stale)
qed

lemma request_handoff_good:
  assumes inv: "wp_inv s"
  shows "good_outcome s (request_handoff s w target g now e)"
  using inv
proof (cases rule: preflight_cases [where e = e])
  case fresh
  have "roster_ok s" using inv by (simp add: wp_inv_def)
  then show ?thesis
  proof (cases rule: authority_rejection_cases [where w = w and g = g and now = now])
    case (granted x)
    have "good_outcome s (accept s
        (s\<lparr>st_handoff_target_worker_id := Some target, st_handoff_requested_at := Some now\<rparr>)
        DC_HANDOFF_REQUESTED
        [mk_event EK_HANDOFF_REQUESTED s now (Some w) (Some g) (Some target) None])"
      if "worker_by_id s target = Some y" "wl_status y = WL_CANDIDATE" for y
      by (rule good_outcome_accept [OF inv], rule ps_handoff [where x = x and y = y and now = now])
        (use granted that worker_by_id_SomeD [OF that(1)] in auto)
    with granted show ?thesis by (simp add: request_handoff_def fresh(1) split: option.split)
  next
    case (refused code)
    then show ?thesis by (simp add: request_handoff_def fresh(1))
  qed
next
  case (stale d)
  then show ?thesis by (simp add: request_handoff_def good_outcome_stale)
qed

lemma complete_worker_good:
  assumes inv: "wp_inv s"
  shows "good_outcome s (complete_worker s w g now e)"
  using inv
proof (cases rule: preflight_cases [where e = e])
  case fresh
  have "roster_ok s" using inv by (simp add: wp_inv_def)
  then show ?thesis
  proof (cases rule: authority_rejection_cases [where w = w and g = g and now = now])
    case (granted x)
    have "good_outcome s (accept s (end_current s x WL_COMPLETED now) DC_WORKER_COMPLETED
        [mk_event EK_WORKER_COMPLETED s now (Some w) (Some g) None None])"
      by (rule good_outcome_accept [OF inv], rule ps_complete_worker [where x = x and now = now])
        (use granted in auto)
    with granted show ?thesis by (simp add: complete_worker_def fresh(1))
  next
    case (refused code)
    then show ?thesis by (simp add: complete_worker_def fresh(1))
  qed
next
  case (stale d)
  then show ?thesis by (simp add: complete_worker_def good_outcome_stale)
qed

lemma abandon_worker_good:
  assumes inv: "wp_inv s"
  shows "good_outcome s (abandon_worker s w g now e)"
  using inv
proof (cases rule: preflight_cases [where e = e])
  case fresh
  have "good_outcome s (accept s (end_current s x WL_ABANDONED now) DC_WORKER_ABANDONED
      [mk_event EK_WORKER_ABANDONED s now (Some w) (Some (st_generation s)) None None])"
    if "worker_by_id s w = Some x" "st_task_status s = DT_OPEN" "st_current_worker_id s = Some w"
      "wl_status x = WL_ACTIVE" for x
    by (rule good_outcome_accept [OF inv], rule ps_abandon [where x = x and now = now])
      (use that worker_by_id_SomeD [OF that(1)] in auto)
  then show ?thesis
    by (auto simp: abandon_worker_def fresh(1) split: option.split)
next
  case (stale d)
  then show ?thesis by (simp add: abandon_worker_def good_outcome_stale)
qed

lemma complete_task_good:
  assumes inv: "wp_inv s"
  shows "good_outcome s (complete_task s ref now e)"
  using inv
proof (cases rule: preflight_cases [where e = e])
  case fresh
  have "good_outcome s (accept s
      (s\<lparr>st_task_status := DT_COMPLETED, st_completed_at := Some now,
         st_completion_ref := Some (strip ref)\<rparr>) DC_TASK_COMPLETED
      [mk_event EK_TASK_COMPLETED s now None (Some (st_generation s)) None (Some (strip ref))])"
    if "st_task_status s = DT_OPEN" "st_current_worker_id s = None" "strip ref \<noteq> []"
    by (rule good_outcome_accept [OF inv], rule ps_complete_task [where ref = "strip ref" and now = now])
      (use that in auto)
  then show ?thesis by (simp add: complete_task_def fresh(1) Let_def)
next
  case (stale d)
  then show ?thesis by (simp add: complete_task_def good_outcome_stale)
qed

end
