(* ===== verification/Registry_Tables.thy ===== *)
theory Registry_Tables
  imports Worker_Protocol
begin

text \<open>
  The SQLite registry of \<^verbatim>\<open>src/src/lws/db.py\<close>: one list of rows per table, in insertion order. Columns
  that the code reads back through an enumeration constructor are kept as the stored text, so that an
  unknown text is possible; tables whose rows carry the whole dataclass as JSON (the text columns are
  always written from the same object in the same statement) keep the record itself. Primary keys,
  unique indexes and foreign keys are checks that raise \<open>IntegrityError\<close>.
\<close>

section \<open>Textual values of the protocol enumerations\<close>

fun wl_status_value :: "worker_lease_status \<Rightarrow> string" where
  "wl_status_value WL_CANDIDATE = ''candidate''"
| "wl_status_value WL_ACTIVE = ''active''"
| "wl_status_value WL_SUPERSEDED = ''superseded''"
| "wl_status_value WL_COMPLETED = ''completed''"
| "wl_status_value WL_ABANDONED = ''abandoned''"

definition wl_status_of :: "string \<Rightarrow> worker_lease_status option" where
  "wl_status_of s = find (\<lambda>x. wl_status_value x = s)
     [WL_CANDIDATE, WL_ACTIVE, WL_SUPERSEDED, WL_COMPLETED, WL_ABANDONED]"

fun dt_value :: "durable_task_status \<Rightarrow> string" where
  "dt_value DT_OPEN = ''open''"
| "dt_value DT_COMPLETED = ''completed''"

definition dt_of :: "string \<Rightarrow> durable_task_status option" where
  "dt_of s = find (\<lambda>x. dt_value x = s) [DT_OPEN, DT_COMPLETED]"

fun ek_value :: "event_kind \<Rightarrow> string" where
  "ek_value EK_WORKER_REGISTERED = ''worker_registered''"
| "ek_value EK_LEASE_CLAIMED = ''lease_claimed''"
| "ek_value EK_HEARTBEAT_ACCEPTED = ''heartbeat_accepted''"
| "ek_value EK_HANDOFF_REQUESTED = ''handoff_requested''"
| "ek_value EK_WORKER_SUPERSEDED = ''worker_superseded''"
| "ek_value EK_LEASE_TAKEN_OVER = ''lease_taken_over''"
| "ek_value EK_WORKER_COMPLETED = ''worker_completed''"
| "ek_value EK_WORKER_ABANDONED = ''worker_abandoned''"
| "ek_value EK_TASK_COMPLETED = ''task_completed''"

definition ek_of :: "string \<Rightarrow> event_kind option" where
  "ek_of s = find (\<lambda>x. ek_value x = s)
     [EK_WORKER_REGISTERED, EK_LEASE_CLAIMED, EK_HEARTBEAT_ACCEPTED, EK_HANDOFF_REQUESTED,
      EK_WORKER_SUPERSEDED, EK_LEASE_TAKEN_OVER, EK_WORKER_COMPLETED, EK_WORKER_ABANDONED,
      EK_TASK_COMPLETED]"

lemma wl_status_of_value [simp]: "wl_status_of (wl_status_value x) = Some x"
  by (cases x) (simp_all add: wl_status_of_def)

lemma wl_status_of_SomeD: "wl_status_of s = Some x \<Longrightarrow> s = wl_status_value x"
  unfolding wl_status_of_def by (auto split: if_splits)

lemma dt_of_value [simp]: "dt_of (dt_value x) = Some x"
  by (cases x) (simp_all add: dt_of_def)

lemma dt_of_SomeD: "dt_of s = Some x \<Longrightarrow> s = dt_value x"
  unfolding dt_of_def by (simp split: if_splits)

lemma ek_of_value [simp]: "ek_of (ek_value x) = Some x"
  by (cases x) (simp_all add: ek_of_def)

lemma wl_status_value_inject [simp]: "wl_status_value x = wl_status_value y \<longleftrightarrow> x = y"
  by (metis option.inject wl_status_of_value)

lemma dt_value_inject [simp]: "dt_value x = dt_value y \<longleftrightarrow> x = y"
  by (metis option.inject dt_of_value)

lemma ek_value_inject [simp]: "ek_value x = ek_value y \<longleftrightarrow> x = y"
  by (metis option.inject ek_of_value)

section \<open>Actions\<close>

datatype action_attempt_state =
    AA_ARMED | AA_SUBMITTED | AA_RECONCILE_REQUIRED | AA_ACKNOWLEDGED | AA_FAILED | AA_CANCELLED

record action_attempt =
  aa_attempt_id :: string
  aa_task_id :: string
  aa_worker_id :: string
  aa_action :: string
  aa_fence_token :: string
  aa_fence_version :: int
  aa_prompt_hash :: string
  aa_nonce :: string
  aa_state :: action_attempt_state
  aa_created_at :: timestamp
  aa_updated_at :: timestamp
  aa_pre_action_signature :: "string option"
  aa_transport_name :: "string option"
  aa_submitted_at :: "timestamp option"
  aa_acknowledged_at :: "timestamp option"
  aa_acknowledgement_kind :: "string option"
  aa_acknowledgement_hash :: "string option"
  aa_last_error :: "string option"
  aa_metadata :: json_object

section \<open>Rows\<close>

record task_row =
  tr_task_id :: string
  tr_project :: string
  tr_objective :: string
  tr_cwd :: string
  tr_state :: string
  tr_lsm_session_id :: "string option"
  tr_checkpoint :: json_object
  tr_current_worker_id :: "string option"
  tr_recovery_attempts :: int
  tr_max_recovery_attempts :: int
  tr_created_at :: timestamp
  tr_updated_at :: timestamp

record worker_row =
  wr_worker_id :: string
  wr_task_id :: string
  wr_conversation_url :: string
  wr_conversation_id :: "string option"
  wr_status :: string
  wr_started_at :: timestamp
  wr_last_seen_at :: "timestamp option"
  wr_ended_at :: "timestamp option"

record protocol_task_row =
  pt_task_id :: string
  pt_revision :: int
  pt_generation :: int
  pt_task_status :: string
  pt_current_worker_id :: "string option"
  pt_handoff_target_worker_id :: "string option"
  pt_handoff_requested_at :: "timestamp option"
  pt_parent_task_id :: "string option"
  pt_root_task_id :: string
  pt_child_key :: "string option"
  pt_completed_at :: "timestamp option"
  pt_completion_ref :: "string option"

record protocol_lease_row =
  pl_worker_id :: string
  pl_task_id :: string
  pl_conversation_ref :: string
  pl_status :: string
  pl_registered_at :: timestamp
  pl_generation :: "int option"
  pl_claimed_at :: "timestamp option"
  pl_last_heartbeat_at :: "timestamp option"
  pl_lease_expires_at :: "timestamp option"
  pl_ended_at :: "timestamp option"
  pl_superseded_by :: "string option"

record protocol_event_row =
  pe_task_id :: string
  pe_revision :: int
  pe_event_index :: int
  pe_kind :: string
  pe_at :: timestamp
  pe_worker_id :: "string option"
  pe_generation :: "int option"
  pe_related_worker_id :: "string option"
  pe_ref :: "string option"

record child_dispatch_record =
  cd_dispatch_id :: string
  cd_parent_task_id :: string
  cd_child_task_id :: string
  cd_child_key :: string
  cd_prompt_text :: string
  cd_prompt_sha256 :: string
  cd_expected_branch :: "string option"
  cd_base_ref :: "string option"
  cd_web_project_url :: "string option"
  cd_created_at :: timestamp
  cd_updated_at :: timestamp
  cd_metadata :: json_object

record watchdog_lease_row =
  wd_name :: string
  wd_owner_id :: string
  wd_pid :: int
  wd_host :: string
  wd_started_at :: timestamp
  wd_heartbeat_at :: timestamp
  wd_expires_at :: timestamp

record runtime_cooldown_row =
  rc_name :: string
  rc_until_at :: timestamp
  rc_reason :: string
  rc_updated_at :: timestamp
  rc_metadata :: json_object

section \<open>The registry\<close>

record registry =
  db_tasks :: "task_row list"
  db_workers :: "worker_row list"
  db_bindings :: "worker_window_binding list"
  db_protocol :: "protocol_task_row list"
  db_leases :: "protocol_lease_row list"
  db_events :: "protocol_event_row list"
  db_actions :: "action_attempt list"
  db_replacements :: "replacement_attempt list"
  db_spawns :: "child_spawn_attempt list"
  db_probe_ops :: "probe_mutation_operation list"
  db_slots :: "probe_window_slot_binding list"
  db_capabilities :: "page_capability_record list"
  db_dispatches :: "child_dispatch_record list"
  db_watchdog :: "watchdog_lease_row list"
  db_cooldowns :: "runtime_cooldown_row list"

definition empty_registry :: registry where
  "empty_registry = \<lparr>db_tasks = [], db_workers = [], db_bindings = [], db_protocol = [],
     db_leases = [], db_events = [], db_actions = [], db_replacements = [], db_spawns = [],
     db_probe_ops = [], db_slots = [], db_capabilities = [], db_dispatches = [], db_watchdog = [],
     db_cooldowns = []\<rparr>"

text \<open>Selections by primary key.\<close>

definition find_task :: "registry \<Rightarrow> string \<Rightarrow> task_row option" where
  "find_task db t = tbl_find tr_task_id t (db_tasks db)"

definition find_worker :: "registry \<Rightarrow> string \<Rightarrow> worker_row option" where
  "find_worker db w = tbl_find wr_worker_id w (db_workers db)"

definition find_protocol :: "registry \<Rightarrow> string \<Rightarrow> protocol_task_row option" where
  "find_protocol db t = tbl_find pt_task_id t (db_protocol db)"

definition find_lease :: "registry \<Rightarrow> string \<Rightarrow> protocol_lease_row option" where
  "find_lease db w = tbl_find pl_worker_id w (db_leases db)"

text \<open>\<^verbatim>\<open>SELECT * FROM workers WHERE task_id = ? ORDER BY worker_id\<close> and the same for leases. SQLite's
  binary collation orders texts by code point, as Python's \<^verbatim>\<open>sorted\<close> does.\<close>

definition task_workers :: "registry \<Rightarrow> string \<Rightarrow> worker_row list" where
  "task_workers db t = sort_key wr_worker_id (filter (\<lambda>r. wr_task_id r = t) (db_workers db))"

definition task_leases :: "registry \<Rightarrow> string \<Rightarrow> protocol_lease_row list" where
  "task_leases db t = sort_key pl_worker_id (filter (\<lambda>r. pl_task_id r = t) (db_leases db))"

definition foreign_key :: py_error where
  "foreign_key = IntegrityError ''FOREIGN KEY constraint failed''"

definition unique_key :: py_error where
  "unique_key = IntegrityError ''UNIQUE constraint failed''"

text \<open>A reference to a worker or a task that may be NULL.\<close>

definition worker_ref_ok :: "registry \<Rightarrow> string option \<Rightarrow> bool" where
  "worker_ref_ok db r = (case r of None \<Rightarrow> True | Some w \<Rightarrow> find_worker db w \<noteq> None)"

definition task_ref_ok :: "registry \<Rightarrow> string option \<Rightarrow> bool" where
  "task_ref_ok db r = (case r of None \<Rightarrow> True | Some t \<Rightarrow> find_task db t \<noteq> None)"

definition insert_worker_row :: "worker_row \<Rightarrow> registry \<Rightarrow> registry result" where
  "insert_worker_row r db =
     (if find_worker db (wr_worker_id r) \<noteq> None then Inl unique_key
      else if find_task db (wr_task_id r) = None then Inl foreign_key
      else Inr (db\<lparr>db_workers := db_workers db @ [r]\<rparr>))"

definition update_task_row :: "string \<Rightarrow> (task_row \<Rightarrow> task_row) \<Rightarrow> registry \<Rightarrow> registry" where
  "update_task_row t f db = db\<lparr>db_tasks := tbl_update tr_task_id t f (db_tasks db)\<rparr>"

end
