(* ===== verification/Worker_Safety.thy ===== *)
theory Worker_Safety
  imports Worker_Protocol
begin

text \<open>
  Safety and progress of the worker-lease protocol, over every sequence of calls: calls as a
  datatype, the compare-and-swap contract as a locale that the protocol interprets, an abstract
  machine of authority that the protocol refines, and the invariants of the reachable snapshots.
\<close>

section \<open>Takeover\<close>

lemma takeover_eligibility_cases [consumes 1, case_names eligible ineligible]:
  assumes inv: "wp_inv s"
  obtains (eligible) el x y where "takeover_eligibility s c now = Inr el" "te_eligible el"
      "st_task_status s = DT_OPEN" "worker_by_id s c = Some y" "wl_status y = WL_CANDIDATE"
      "st_current_worker_id s = Some (wl_worker_id x)"
      "worker_by_id s (wl_worker_id x) = Some x"
      "(te_reason el = TR_HANDOFF \<and> st_handoff_target_worker_id s = Some c)
       \<or> (te_reason el = TR_LEASE_EXPIRED \<and> \<not> lease_is_fresh s (wl_worker_id x) now)"
    | (ineligible) el where "takeover_eligibility s c now = Inr el" "\<not> te_eligible el"
proof -
  have v: "validate_state s = Inr ()" using inv by (simp add: validate_state_iff)
  obtain el where el: "takeover_eligibility s c now = Inr el"
    by (simp add: takeover_eligibility_def v)
  show thesis
  proof (cases "te_eligible el")
    case False
    with el ineligible show thesis by blast
  next
    case True
    with el obtain y cur where y: "st_task_status s = DT_OPEN" "worker_by_id s c = Some y"
        "wl_status y = WL_CANDIDATE" "st_current_worker_id s = Some cur"
        "(te_reason el = TR_HANDOFF \<and> st_handoff_target_worker_id s = Some c)
         \<or> (te_reason el = TR_LEASE_EXPIRED \<and> \<not> lease_is_fresh s cur now)"
      by (auto simp: takeover_eligibility_def v Let_def split: if_splits option.splits)
    from inv y(4) obtain x where "x \<in> set (st_workers s)" "wl_worker_id x = cur"
      by (auto simp: wp_inv_def authority_ok_def)
    with inv y True el eligible show thesis by (auto simp: wp_inv_def worker_by_id_eq_Some)
  qed
qed

lemma takeover_worker_good:
  assumes inv: "wp_inv s" and l: "0 < l"
  shows "good_outcome s (takeover_worker s c now l e)"
  using inv
proof (cases rule: preflight_cases [where e = e])
  case fresh
  from inv show ?thesis
  proof (cases rule: takeover_eligibility_cases [where c = c and now = now])
    case (eligible el x y)
    let ?g = "st_generation s + 1"
    let ?u = "x\<lparr>wl_status := WL_SUPERSEDED, wl_ended_at := Some now, wl_superseded_by := Some c\<rparr>"
    have "good_outcome s (accept s
      (s\<lparr>st_generation := ?g, st_current_worker_id := Some c, st_handoff_target_worker_id := None,
         st_handoff_requested_at := None,
         st_workers := replace_worker (replace_worker (st_workers s) ?u)
           (claimed_lease y ?g now l)\<rparr>)
      DC_TAKEOVER_GRANTED
      [mk_event EK_WORKER_SUPERSEDED s now (Some (wl_worker_id x)) (wl_generation x) (Some c) None,
       mk_event EK_LEASE_TAKEN_OVER s now (Some c) (Some ?g) (Some (wl_worker_id x))
         (Some (tr_value (te_reason el)))])"
      by (rule good_outcome_accept [OF inv],
          rule ps_takeover [where x = x and y = y and l = l and now = now and g = ?g
              and ref = "tr_value (te_reason el)"])
        (use eligible l worker_by_id_SomeD [OF eligible(4)] worker_by_id_SomeD [OF eligible(7)] in auto)
    with eligible l show ?thesis by (simp add: takeover_worker_def fresh(1) Let_def)
  next
    case (ineligible el)
    with l show ?thesis
      by (simp add: takeover_worker_def fresh(1) split: takeover_reason.split)
  qed
next
  case (stale d)
  with l show ?thesis by (simp add: takeover_worker_def good_outcome_stale)
qed

section \<open>Calls\<close>

text \<open>One call of the module's interface, with its arguments; \<open>call_ok\<close> is what the callers of
  \<^verbatim>\<open>registry.py\<close> pass: a non-blank worker id and a positive lease length.\<close>

datatype protocol_call =
    Register string "string option" timestamp int
  | Claim string timestamp real int
  | Heartbeat string int timestamp real int
  | Handoff string string int timestamp int
  | Takeover string timestamp real int
  | CompleteWorker string int timestamp int
  | Abandon string int timestamp int
  | CompleteTask string timestamp int

fun perform :: "protocol_call \<Rightarrow> worker_task_state \<Rightarrow> protocol_decision result" where
  "perform (Register w c now e) s = register_worker s w c now e"
| "perform (Claim w now l e) s = claim_worker s w now l e"
| "perform (Heartbeat w g now l e) s = heartbeat_worker s w g now l e"
| "perform (Handoff w t g now e) s = request_handoff s w t g now e"
| "perform (Takeover c now l e) s = takeover_worker s c now l e"
| "perform (CompleteWorker w g now e) s = complete_worker s w g now e"
| "perform (Abandon w g now e) s = abandon_worker s w g now e"
| "perform (CompleteTask r now e) s = complete_task s r now e"

fun call_ok :: "protocol_call \<Rightarrow> bool" where
  "call_ok (Register w c now e) = (strip w \<noteq> [])"
| "call_ok (Claim w now l e) = (0 < l)"
| "call_ok (Heartbeat w g now l e) = (0 < l)"
| "call_ok (Takeover c now l e) = (0 < l)"
| "call_ok _ = True"

fun call_revision :: "protocol_call \<Rightarrow> int" where
  "call_revision (Register w c now e) = e"
| "call_revision (Claim w now l e) = e"
| "call_revision (Heartbeat w g now l e) = e"
| "call_revision (Handoff w t g now e) = e"
| "call_revision (Takeover c now l e) = e"
| "call_revision (CompleteWorker w g now e) = e"
| "call_revision (Abandon w g now e) = e"
| "call_revision (CompleteTask r now e) = e"

lemma perform_good: "wp_inv s \<Longrightarrow> call_ok c \<Longrightarrow> good_outcome s (perform c s)"
  by (cases c) (simp_all add: register_worker_good claim_worker_good heartbeat_worker_good
      request_handoff_good takeover_worker_good complete_worker_good abandon_worker_good
      complete_task_good)

lemma perform_stale:
  assumes "wp_inv s" and "call_ok c" and "call_revision c \<noteq> st_revision s"
  shows "\<exists>d. perform c s = Inr d \<and> pd_code d = DC_STALE_REVISION \<and> unchanged s d \<and> \<not> pd_accepted d"
  using assms(1)
proof (cases rule: preflight_cases [where e = "call_revision c"])
  case fresh
  with assms(3) show ?thesis by simp
next
  case (stale d)
  with assms(2) show ?thesis
    by (cases c) (simp_all add: register_worker_def claim_worker_def heartbeat_worker_def
        request_handoff_def takeover_worker_def complete_worker_def abandon_worker_def
        complete_task_def)
qed

section \<open>The compare-and-swap contract\<close>

text \<open>Running a list of calls from a snapshot; a call that raises leaves the snapshot as it is.\<close>

fun run_with :: "('c \<Rightarrow> 's \<Rightarrow> 'd result) \<Rightarrow> ('d \<Rightarrow> 's) \<Rightarrow> 'c list \<Rightarrow> 's \<Rightarrow> 's" where
  "run_with f res [] s = s"
| "run_with f res (c # cs) s =
     (case f c s of Inl e \<Rightarrow> run_with f res cs s | Inr d \<Rightarrow> run_with f res cs (res d))"

text \<open>How many calls that expect revision \<open>r\<close> take effect in such a run.\<close>

fun winners_with :: "('c \<Rightarrow> 's \<Rightarrow> 'd result) \<Rightarrow> ('d \<Rightarrow> 's) \<Rightarrow> ('d \<Rightarrow> bool) \<Rightarrow> ('c \<Rightarrow> int) \<Rightarrow> int
    \<Rightarrow> 'c list \<Rightarrow> 's \<Rightarrow> nat" where
  "winners_with f res mut rev_of r [] s = 0"
| "winners_with f res mut rev_of r (c # cs) s =
     (case f c s of
        Inl e \<Rightarrow> winners_with f res mut rev_of r cs s
      | Inr d \<Rightarrow> (if mut d \<and> rev_of c = r then 1 else 0) + winners_with f res mut rev_of r cs (res d))"

locale revision_cas =
  fixes op :: "'c \<Rightarrow> 's \<Rightarrow> 'd result"
    and valid :: "'s \<Rightarrow> bool"
    and admissible :: "'c \<Rightarrow> bool"
    and rev_of :: "'c \<Rightarrow> int"
    and revision :: "'s \<Rightarrow> int"
    and res :: "'d \<Rightarrow> 's"
    and mut :: "'d \<Rightarrow> bool"
  assumes op_total: "valid s \<Longrightarrow> admissible c \<Longrightarrow> \<exists>d. op c s = Inr d"
    and op_valid: "valid s \<Longrightarrow> admissible c \<Longrightarrow> op c s = Inr d \<Longrightarrow> valid (res d)"
    and op_mutates: "valid s \<Longrightarrow> admissible c \<Longrightarrow> op c s = Inr d \<Longrightarrow> mut d
      \<Longrightarrow> rev_of c = revision s \<and> revision (res d) = revision s + 1"
    and op_refuses: "valid s \<Longrightarrow> admissible c \<Longrightarrow> op c s = Inr d \<Longrightarrow> \<not> mut d \<Longrightarrow> res d = s"
begin

lemma op_revision_le:
  "valid s \<Longrightarrow> admissible c \<Longrightarrow> op c s = Inr d \<Longrightarrow> revision s \<le> revision (res d)"
  using op_mutates op_refuses by (cases "mut d") fastforce+

lemma run_valid: "valid s \<Longrightarrow> list_all admissible cs \<Longrightarrow> valid (run_with op res cs s)"
  by (induction cs arbitrary: s) (auto split: sum.split intro: op_valid)

lemma run_revision_le:
  "valid s \<Longrightarrow> list_all admissible cs \<Longrightarrow> revision s \<le> revision (run_with op res cs s)"
proof (induction cs arbitrary: s)
  case (Cons c cs)
  then obtain d where d: "op c s = Inr d" using op_total by fastforce
  with Cons.prems have "revision s \<le> revision (res d)" "valid (res d)"
    by (auto intro: op_revision_le op_valid)
  with Cons d show ?case by fastforce
qed simp

lemma stale_never_wins:
  "valid s \<Longrightarrow> list_all admissible cs \<Longrightarrow> r < revision s
    \<Longrightarrow> winners_with op res mut rev_of r cs s = 0"
proof (induction cs arbitrary: s)
  case (Cons c cs)
  then obtain d where d: "op c s = Inr d" using op_total by fastforce
  with Cons.prems have v: "valid (res d)" and le: "revision s \<le> revision (res d)"
    by (auto intro: op_revision_le op_valid)
  from Cons.prems d have "\<not> (mut d \<and> rev_of c = r)" by (auto dest: op_mutates)
  with Cons.IH [OF v] Cons.prems le d show ?case by simp
qed simp

lemma at_most_one_winner:
  "valid s \<Longrightarrow> list_all admissible cs \<Longrightarrow> winners_with op res mut rev_of r cs s \<le> 1"
proof (induction cs arbitrary: s)
  case (Cons c cs)
  then obtain d where d: "op c s = Inr d" using op_total by fastforce
  with Cons.prems have v: "valid (res d)" by (auto intro: op_valid)
  show ?case
  proof (cases "mut d \<and> rev_of c = r")
    case True
    with Cons.prems d have "r < revision (res d)" by (auto dest: op_mutates)
    with stale_never_wins [OF v] Cons.prems d True show ?thesis by simp
  next
    case False
    with Cons.IH [OF v] Cons.prems d show ?thesis by auto
  qed
qed simp

end

lemma good_outcomeE:
  assumes "good_outcome s r" and "r = Inr d"
  shows "unchanged s d \<or> steps_to s d"
  using assms by (auto simp: good_outcome_def)

lemma perform_cases [consumes 3, case_names unchanged steps]:
  assumes "wp_inv s" and "call_ok c" and "perform c s = Inr d"
  obtains (unchanged) "unchanged s d" | (steps) "steps_to s d"
  using good_outcomeE [OF perform_good [OF assms(1,2)] assms(3)] by blast

interpretation wp: revision_cas perform wp_inv call_ok call_revision st_revision pd_state pd_mutated
proof
  fix s c
  assume s: "wp_inv s" and c: "call_ok c"
  show "\<exists>d. perform c s = Inr d" using perform_good [OF s c] by (auto simp: good_outcome_def)
  fix d assume d: "perform c s = Inr d"
  from s c d show "wp_inv (pd_state d)"
    using s by (cases rule: perform_cases)
      (auto simp: unchanged_def steps_to_def intro: protocol_step_wp_inv)
  from s c d show "\<not> pd_mutated d \<Longrightarrow> pd_state d = s"
    by (cases rule: perform_cases) (auto simp: unchanged_def steps_to_def)
  assume m: "pd_mutated d"
  from s c d have "steps_to s d"
    using m by (cases rule: perform_cases) (auto simp: unchanged_def)
  moreover have "call_revision c = st_revision s"
    using perform_stale [OF s c] d m by (auto simp: unchanged_def)
  ultimately show "call_revision c = st_revision s \<and> st_revision (pd_state d) = st_revision s + 1"
    by (auto simp: steps_to_def dest: protocol_step_frame)
qed

section \<open>Abstract authority\<close>

text \<open>
  What the protocol promises, without clocks, leases or records: who holds the authority, who may
  receive it, who has had it and lost it.
\<close>

record authority =
  au_open :: bool
  au_generation :: int
  au_holder :: "string option"
  au_waiting :: "string set"
  au_retired :: "string set"

inductive auth_step :: "authority \<Rightarrow> authority \<Rightarrow> bool" where
  as_idle: "au_open a \<Longrightarrow> auth_step a a"
| as_enrol: "au_open a \<Longrightarrow> w \<notin> au_waiting a \<union> au_retired a \<Longrightarrow> au_holder a \<noteq> Some w
    \<Longrightarrow> auth_step a (a\<lparr>au_waiting := insert w (au_waiting a)\<rparr>)"
| as_grant: "au_open a \<Longrightarrow> au_holder a = None \<Longrightarrow> w \<in> au_waiting a
    \<Longrightarrow> auth_step a (a\<lparr>au_generation := au_generation a + 1, au_holder := Some w,
          au_waiting := au_waiting a - {w}\<rparr>)"
| as_pass: "au_open a \<Longrightarrow> au_holder a = Some v \<Longrightarrow> w \<in> au_waiting a
    \<Longrightarrow> auth_step a (a\<lparr>au_generation := au_generation a + 1, au_holder := Some w,
          au_waiting := au_waiting a - {w}, au_retired := insert v (au_retired a)\<rparr>)"
| as_release: "au_open a \<Longrightarrow> au_holder a = Some v
    \<Longrightarrow> auth_step a (a\<lparr>au_holder := None, au_retired := insert v (au_retired a)\<rparr>)"
| as_close: "au_open a \<Longrightarrow> au_holder a = None \<Longrightarrow> auth_step a (a\<lparr>au_open := False\<rparr>)"

inductive_cases auth_step_E: "auth_step a b"

definition auth_ok :: "authority \<Rightarrow> bool" where
  "auth_ok a \<longleftrightarrow> au_waiting a \<inter> au_retired a = {}
     \<and> (\<forall>h. au_holder a = Some h \<longrightarrow> h \<notin> au_waiting a \<union> au_retired a)"

lemma auth_step_ok: "auth_step a b \<Longrightarrow> auth_ok a \<Longrightarrow> auth_ok b"
  by (induction rule: auth_step.induct) (auto simp: auth_ok_def)

lemma auth_step_retired: "auth_step a b \<Longrightarrow> au_retired a \<subseteq> au_retired b"
  by (induction rule: auth_step.induct) auto

lemma auth_step_generation:
  "auth_step a b \<Longrightarrow> auth_ok a \<Longrightarrow> au_generation b =
    (if \<exists>w. au_holder b = Some w \<and> au_holder a \<noteq> Some w then au_generation a + 1
     else au_generation a)"
  by (induction rule: auth_step.induct) (auto simp: auth_ok_def)

definition ids_with :: "(worker_lease \<Rightarrow> bool) \<Rightarrow> worker_lease list \<Rightarrow> string set" where
  "ids_with P ws = wl_worker_id ` {w \<in> set ws. P w}"

definition retired_status :: "worker_lease_status \<Rightarrow> bool" where
  "retired_status k \<longleftrightarrow> k \<in> {WL_SUPERSEDED, WL_COMPLETED, WL_ABANDONED}"

definition abs_auth :: "worker_task_state \<Rightarrow> authority" where
  "abs_auth s = \<lparr>au_open = (st_task_status s = DT_OPEN), au_generation = st_generation s,
     au_holder = st_current_worker_id s,
     au_waiting = ids_with (\<lambda>w. wl_status w = WL_CANDIDATE) (st_workers s),
     au_retired = ids_with (\<lambda>w. retired_status (wl_status w)) (st_workers s)\<rparr>"

lemma replace_worker_insert:
  assumes "wl_worker_id u \<in> wl_worker_id ` set ws"
  shows "set (replace_worker ws u) = insert u {w \<in> set ws. wl_worker_id w \<noteq> wl_worker_id u}"
  using assms by (auto simp: replace_worker_other dest: replace_worker_cases intro: replace_worker_self)

lemma ids_with_replace:
  assumes "wl_worker_id u \<in> wl_worker_id ` set ws"
  shows "ids_with P (replace_worker ws u) =
    (if P u then insert (wl_worker_id u) (ids_with P ws) else ids_with P ws - {wl_worker_id u})"
  unfolding ids_with_def replace_worker_insert [OF assms] by auto

lemma ids_with_snoc: "ids_with P (sorted_workers (ws @ [x])) =
    (if P x then insert (wl_worker_id x) (ids_with P ws) else ids_with P ws)"
  by (auto simp: ids_with_def)

lemma ids_with_member:
  "roster_ok s \<Longrightarrow> x \<in> set (st_workers s) \<Longrightarrow> wl_worker_id x \<in> ids_with P (st_workers s) \<longleftrightarrow> P x"
  unfolding ids_with_def using roster_unique by fastforce

lemma replace_worker_ids: "wl_worker_id ` set (replace_worker ws u) = wl_worker_id ` set ws"
proof -
  have "wl_worker_id \<circ> (\<lambda>w. if wl_worker_id w = wl_worker_id u then u else w) = wl_worker_id" by auto
  then show ?thesis by (simp only: set_replace_worker image_comp)
qed

lemma abs_auth_ok: "wp_inv s \<Longrightarrow> auth_ok (abs_auth s)"
proof -
  assume "wp_inv s"
  then have r: "roster_ok s" and a: "authority_ok s" by (simp_all add: wp_inv_def)
  have "ids_with (\<lambda>w. wl_status w = WL_CANDIDATE) (st_workers s)
      \<inter> ids_with (\<lambda>w. retired_status (wl_status w)) (st_workers s) = {}"
  proof (rule equals0I)
    fix i assume i: "i \<in> ids_with (\<lambda>w. wl_status w = WL_CANDIDATE) (st_workers s)
      \<inter> ids_with (\<lambda>w. retired_status (wl_status w)) (st_workers s)"
    then obtain x where "x \<in> set (st_workers s)" "wl_worker_id x = i" "wl_status x = WL_CANDIDATE"
      by (auto simp: ids_with_def)
    with i ids_with_member [OF r, of x] show False by (auto simp: retired_status_def)
  qed
  moreover have "h \<notin> ids_with (\<lambda>w. wl_status w = WL_CANDIDATE) (st_workers s)
      \<union> ids_with (\<lambda>w. retired_status (wl_status w)) (st_workers s)"
    if cur: "st_current_worker_id s = Some h" for h
  proof -
    obtain x where "x \<in> set (st_workers s)" "wl_worker_id x = h" "wl_status x = WL_ACTIVE"
      using a cur by (auto simp: authority_ok_def)
    then show ?thesis using ids_with_member [OF r, of x] by (auto simp: retired_status_def)
  qed
  ultimately show ?thesis by (simp add: auth_ok_def abs_auth_def)
qed

lemma current_in_roster:
  "authority_ok s \<Longrightarrow> st_current_worker_id s = Some c \<Longrightarrow> c \<in> wl_worker_id ` set (st_workers s)"
  by (auto simp: authority_ok_def)

lemma id_in_roster: "x \<in> set ws \<Longrightarrow> wl_worker_id x \<in> wl_worker_id ` set ws"
  by simp

lemma abs_auth_end_current:
  assumes "x \<in> set (st_workers s)" and "retired_status k"
  shows "abs_auth (committed s (end_current s x k now)) = (abs_auth s)\<lparr>au_holder := None,
     au_waiting := au_waiting (abs_auth s) - {wl_worker_id x},
     au_retired := insert (wl_worker_id x) (au_retired (abs_auth s))\<rparr>"
  using assms by (auto simp: abs_auth_def end_current_def ids_with_replace id_in_roster retired_status_def)

lemma end_current_refines:
  assumes "wp_inv s" and "x \<in> set (st_workers s)" and "retired_status k"
    and "st_task_status s = DT_OPEN" and "st_current_worker_id s = Some (wl_worker_id x)"
  shows "auth_step (abs_auth s) (abs_auth (committed s (end_current s x k now)))"
proof -
  have h: "au_holder (abs_auth s) = Some (wl_worker_id x)" "au_open (abs_auth s)"
    using assms by (simp_all add: abs_auth_def)
  then have "au_waiting (abs_auth s) - {wl_worker_id x} = au_waiting (abs_auth s)"
    using abs_auth_ok [OF assms(1)] by (auto simp: auth_ok_def)
  with h assms show ?thesis
    using as_release [of "abs_auth s" "wl_worker_id x"] by (simp add: abs_auth_end_current)
qed

lemma protocol_step_refines: "protocol_step s es t \<Longrightarrow> wp_inv s \<Longrightarrow> auth_step (abs_auth s) (abs_auth t)"
proof (induction rule: protocol_step.induct)
  case (ps_register s x es now t)
  let ?w = "wl_worker_id x"
  have "?w \<notin> au_waiting (abs_auth s) \<union> au_retired (abs_auth s)"
    using ps_register(6) by (auto simp: abs_auth_def ids_with_def)
  moreover have "st_current_worker_id s \<noteq> Some ?w"
    using ps_register current_in_roster [of s ?w] by (auto simp: wp_inv_def)
  moreover have "abs_auth t = (abs_auth s)\<lparr>au_waiting := insert ?w (au_waiting (abs_auth s))\<rparr>"
    using ps_register by (simp add: abs_auth_def ids_with_snoc retired_status_def)
  ultimately show ?case
    using as_enrol [of "abs_auth s" ?w] ps_register(1) by (simp add: abs_auth_def)
next
  case (ps_claim s x l g es now t)
  have "abs_auth t = (abs_auth s)\<lparr>au_generation := au_generation (abs_auth s) + 1,
      au_holder := Some (wl_worker_id x), au_waiting := au_waiting (abs_auth s) - {wl_worker_id x}\<rparr>"
    using ps_claim ids_with_member [of s x "\<lambda>w. retired_status (wl_status w)"]
    by (simp add: abs_auth_def ids_with_replace id_in_roster retired_status_def wp_inv_def)
  moreover have "wl_worker_id x \<in> au_waiting (abs_auth s)"
    using ps_claim by (auto simp: abs_auth_def ids_with_def)
  ultimately show ?case
    using as_grant [of "abs_auth s" "wl_worker_id x"] ps_claim by (simp add: abs_auth_def)
next
  case (ps_heartbeat s x now l es t)
  have x: "x \<in> set (st_workers s)" "wl_status x = WL_ACTIVE" "st_task_status s = DT_OPEN"
    using ps_heartbeat(1) by (auto simp: has_authority_def)
  have r: "roster_ok s" using ps_heartbeat by (simp add: wp_inv_def)
  have "abs_auth t = abs_auth s"
    using ps_heartbeat x ids_with_member [OF r x(1)]
    by (simp add: abs_auth_def ids_with_replace id_in_roster retired_status_def)
  with x as_idle [of "abs_auth s"] show ?case by (simp add: abs_auth_def)
next
  case (ps_handoff s x now y es t)
  then have "abs_auth t = abs_auth s" "au_open (abs_auth s)"
    by (auto simp: abs_auth_def has_authority_def)
  with as_idle [of "abs_auth s"] show ?case by simp
next
  case (ps_takeover s x y now l g es ref t)
  have r: "roster_ok s" and a: "authority_ok s" using ps_takeover by (simp_all add: wp_inv_def)
  have x: "wl_status x = WL_ACTIVE" using current_worker_active [OF a r] ps_takeover by blast
  then have ne: "wl_worker_id y \<noteq> wl_worker_id x"
    using roster_unique [OF r] ps_takeover by fastforce
  have "abs_auth t = (abs_auth s)\<lparr>au_generation := au_generation (abs_auth s) + 1,
      au_holder := Some (wl_worker_id y), au_waiting := au_waiting (abs_auth s) - {wl_worker_id y},
      au_retired := insert (wl_worker_id x) (au_retired (abs_auth s))\<rparr>"
    using ps_takeover x ne ids_with_member [OF r, of x] ids_with_member [OF r, of y]
    by (simp add: abs_auth_def ids_with_replace replace_worker_ids id_in_roster retired_status_def
        insert_Diff_if)
  moreover have "wl_worker_id y \<in> au_waiting (abs_auth s)"
    using ps_takeover by (auto simp: abs_auth_def ids_with_def)
  ultimately show ?case
    using as_pass [of "abs_auth s" "wl_worker_id x" "wl_worker_id y"] ps_takeover
    by (simp add: abs_auth_def)
next
  case (ps_complete_worker s x now es t)
  then show ?case by (auto simp: has_authority_def retired_status_def intro!: end_current_refines)
next
  case (ps_abandon s x es now t)
  then show ?case by (auto simp: retired_status_def intro!: end_current_refines)
next
  case (ps_complete_task s ref es now t)
  then have "abs_auth t = (abs_auth s)\<lparr>au_open := False\<rparr>" by (simp add: abs_auth_def)
  with ps_complete_task as_close [of "abs_auth s"] show ?case by (simp add: abs_auth_def)
qed

section \<open>Runs of calls\<close>

definition run_calls :: "protocol_call list \<Rightarrow> worker_task_state \<Rightarrow> worker_task_state" where
  "run_calls cs s = run_with perform pd_state cs s"

definition call_winners :: "int \<Rightarrow> protocol_call list \<Rightarrow> worker_task_state \<Rightarrow> nat" where
  "call_winners r cs s = winners_with perform pd_state pd_mutated call_revision r cs s"

text \<open>The events that a run of calls appends to the durable log.\<close>

fun call_log :: "protocol_call list \<Rightarrow> worker_task_state \<Rightarrow> protocol_event list" where
  "call_log [] s = []"
| "call_log (c # cs) s = (case perform c s of
     Inl e \<Rightarrow> call_log cs s
   | Inr d \<Rightarrow> pd_events d @ call_log cs (pd_state d))"

lemma run_calls_Nil [simp]: "run_calls [] s = s"
  by (simp add: run_calls_def)

lemma run_calls_Cons [simp]: "run_calls (c # cs) s =
    (case perform c s of Inl e \<Rightarrow> run_calls cs s | Inr d \<Rightarrow> run_calls cs (pd_state d))"
  by (simp add: run_calls_def split: sum.split)

text \<open>Induction over a run: a property every protocol step keeps holds at the end.\<close>

lemma run_calls_invariant:
  assumes step: "\<And>u es v. protocol_step u es v \<Longrightarrow> wp_inv u \<Longrightarrow> I u \<Longrightarrow> I v"
  shows "wp_inv s \<Longrightarrow> list_all call_ok cs \<Longrightarrow> I s \<Longrightarrow> I (run_calls cs s)"
proof (induction cs arbitrary: s)
  case (Cons c cs)
  then obtain d where d: "perform c s = Inr d" using wp.op_total by fastforce
  from Cons.prems have ok: "wp_inv s" "call_ok c" by simp_all
  from ok d have "I (pd_state d)"
    using Cons.prems step [of s "pd_events d" "pd_state d"]
    by (cases rule: perform_cases) (auto simp: unchanged_def steps_to_def)
  moreover have "wp_inv (pd_state d)" using wp.op_valid [OF ok d] .
  ultimately show ?case using Cons d by simp
qed simp

lemma run_calls_wp_inv: "wp_inv s \<Longrightarrow> list_all call_ok cs \<Longrightarrow> wp_inv (run_calls cs s)"
  unfolding run_calls_def by (rule wp.run_valid)

lemma run_calls_retired:
  assumes "wp_inv s" and "list_all call_ok cs" and "w \<in> au_retired (abs_auth s)"
  shows "w \<in> au_retired (abs_auth (run_calls cs s))"
  using assms by (rule run_calls_invariant [rotated])
    (auto dest: protocol_step_refines auth_step_retired)

lemma retired_not_fresh:
  assumes "wp_inv s" and "w \<in> au_retired (abs_auth s)"
  shows "\<not> lease_is_fresh s w now"
proof
  assume "lease_is_fresh s w now"
  then have "au_holder (abs_auth s) = Some w"
    by (auto simp: lease_is_fresh_def abs_auth_def split: option.splits)
  with abs_auth_ok [OF assms(1)] assms(2) show False by (auto simp: auth_ok_def)
qed

lemma retired_iff:
  assumes "wp_inv s"
  shows "w \<in> au_retired (abs_auth s) \<longleftrightarrow>
    (\<exists>x. worker_by_id s w = Some x \<and> retired_status (wl_status x))"
  using assms by (auto simp: abs_auth_def ids_with_def worker_by_id_eq_Some wp_inv_def)

lemma closed_no_step: "protocol_step s es t \<Longrightarrow> st_task_status s = DT_OPEN"
  by (induction rule: protocol_step.induct) (auto simp: has_authority_def)

subsection \<open>Generations as fencing tokens\<close>

definition gen_rel :: "worker_lease list \<Rightarrow> (string \<times> int) set" where
  "gen_rel ws = {(wl_worker_id w, g) |w g. w \<in> set ws \<and> wl_generation w = Some g}"

text \<open>Every generation so far belongs to exactly one worker, and only candidates have none.\<close>

definition gen_inv :: "worker_task_state \<Rightarrow> bool" where
  "gen_inv s \<longleftrightarrow>
     (\<forall>w \<in> set (st_workers s). wl_status w = WL_CANDIDATE \<longleftrightarrow> wl_generation w = None)
     \<and> snd ` gen_rel (st_workers s) = {1 .. st_generation s}
     \<and> inj_on snd (gen_rel (st_workers s))"

lemma gen_rel_iff: "(i, g) \<in> gen_rel ws \<longleftrightarrow> (\<exists>w \<in> set ws. wl_worker_id w = i \<and> wl_generation w = Some g)"
  by (auto simp: gen_rel_def)

lemma gen_rel_replace:
  assumes "x \<in> set ws" and "distinct (map wl_worker_id ws)" and "wl_worker_id u = wl_worker_id x"
  shows "(i, g) \<in> gen_rel (replace_worker ws u) \<longleftrightarrow>
    (if i = wl_worker_id x then wl_generation u = Some g else (i, g) \<in> gen_rel ws)"
proof -
  have "set (replace_worker ws u) = insert u {w \<in> set ws. wl_worker_id w \<noteq> wl_worker_id x}"
    using assms by (simp add: replace_worker_insert)
  then show ?thesis using assms by (auto simp: gen_rel_iff)
qed

lemma gen_rel_member:
  assumes "x \<in> set ws" and "distinct (map wl_worker_id ws)"
  shows "(wl_worker_id x, g) \<in> gen_rel ws \<longleftrightarrow> wl_generation x = Some g"
proof -
  have "w = x" if "w \<in> set ws" "wl_worker_id w = wl_worker_id x" for w
    using that assms by (metis distinct_map inj_onD)
  with assms(1) show ?thesis by (auto simp: gen_rel_iff)
qed

lemma gen_rel_replace_same:
  assumes "x \<in> set ws" and "distinct (map wl_worker_id ws)"
    and "wl_worker_id u = wl_worker_id x" and "wl_generation u = wl_generation x"
  shows "gen_rel (replace_worker ws u) = gen_rel ws"
  using gen_rel_replace [OF assms(1-3)] gen_rel_member [OF assms(1,2)] assms(4)
  by (auto simp: set_eq_iff)

lemma gen_rel_replace_new:
  assumes "x \<in> set ws" and "distinct (map wl_worker_id ws)"
    and "wl_worker_id u = wl_worker_id x" and "wl_generation x = None" and "wl_generation u = Some g"
  shows "gen_rel (replace_worker ws u) = insert (wl_worker_id x, g) (gen_rel ws)"
  using gen_rel_replace [OF assms(1-3)] gen_rel_member [OF assms(1,2)] assms(4,5)
  by (auto simp: set_eq_iff)

lemma gen_inv_fresh:
  assumes "snd ` R = {1 .. g :: int}" and "inj_on snd R" and "0 \<le> g"
  shows "snd ` insert (w, g + 1) R = {1 .. g + 1}" and "inj_on snd (insert (w, g + 1) R)"
proof -
  show "snd ` insert (w, g + 1) R = {1 .. g + 1}" using assms(1,3) by auto
  have "g + 1 \<notin> snd ` R" using assms(1) by simp
  then show "inj_on snd (insert (w, g + 1) R)" using assms(2) by (auto simp: inj_on_def image_iff)
qed

lemma gen_rel_snoc: "wl_generation x = None \<Longrightarrow> gen_rel (sorted_workers (ws @ [x])) = gen_rel ws"
  by (auto simp: gen_rel_def)

definition cand_inv :: "worker_lease list \<Rightarrow> bool" where
  "cand_inv ws \<longleftrightarrow> (\<forall>w \<in> set ws. wl_status w = WL_CANDIDATE \<longleftrightarrow> wl_generation w = None)"

lemma cand_inv_replace:
  assumes "cand_inv ws" and "wl_status u = WL_CANDIDATE \<longleftrightarrow> wl_generation u = None"
  shows "cand_inv (replace_worker ws u)"
  using assms by (auto simp: cand_inv_def dest!: replace_worker_cases)

lemma cand_inv_snoc:
  "cand_inv ws \<Longrightarrow> wl_status x = WL_CANDIDATE \<Longrightarrow> wl_generation x = None
    \<Longrightarrow> cand_inv (sorted_workers (ws @ [x]))"
  by (auto simp: cand_inv_def)

lemma gen_inv_def2: "gen_inv s \<longleftrightarrow> cand_inv (st_workers s)
    \<and> snd ` gen_rel (st_workers s) = {1 .. st_generation s} \<and> inj_on snd (gen_rel (st_workers s))"
  by (simp add: gen_inv_def cand_inv_def)

lemma gen_inv_keep:
  assumes "gen_inv s" and "cand_inv (st_workers t)" and "gen_rel (st_workers t) = gen_rel (st_workers s)"
    and "st_generation t = st_generation s"
  shows "gen_inv t"
  using assms by (simp add: gen_inv_def2)

lemma gen_inv_new:
  assumes "gen_inv s" and "cand_inv (st_workers t)"
    and "gen_rel (st_workers t) = insert (w, st_generation s + 1) (gen_rel (st_workers s))"
    and "st_generation t = st_generation s + 1" and "0 \<le> st_generation s"
  shows "gen_inv t"
  using assms gen_inv_fresh [of "gen_rel (st_workers s)" "st_generation s" w]
  unfolding gen_inv_def2 by simp

lemma gen_inv_end_current:
  assumes "gen_inv s" and "roster_ok s" and "x \<in> set (st_workers s)" and "wl_status x = WL_ACTIVE"
    and "k \<noteq> WL_CANDIDATE"
  shows "gen_inv (committed s (end_current s x k now))"
proof (rule gen_inv_keep [OF assms(1)])
  have "cand_inv (st_workers s)" using assms(1) by (simp add: gen_inv_def2)
  with assms show "cand_inv (st_workers (committed s (end_current s x k now)))"
    by (auto simp: end_current_def intro!: cand_inv_replace) (auto simp: cand_inv_def)
  show "gen_rel (st_workers (committed s (end_current s x k now))) = gen_rel (st_workers s)"
    using assms gen_rel_replace_same [of x "st_workers s"]
    by (simp add: end_current_def roster_ok_def)
qed (simp add: end_current_def)

lemma protocol_step_gen_inv: "protocol_step s es t \<Longrightarrow> wp_inv s \<Longrightarrow> gen_inv s \<Longrightarrow> gen_inv t"
proof (induction rule: protocol_step.induct)
  case (ps_register s x es now t)
  then show ?case
    by (intro gen_inv_keep [OF ps_register.prems(2)]) (auto simp: gen_inv_def2 gen_rel_snoc intro: cand_inv_snoc)
next
  case (ps_claim s x l g es now t)
  have d: "distinct (map wl_worker_id (st_workers s))" and c: "cand_inv (st_workers s)"
    and n: "0 \<le> st_generation s"
    using ps_claim.prems by (auto simp: wp_inv_def roster_ok_def gen_inv_def2 lineage_ok_def)
  have "wl_generation x = None" using c ps_claim by (simp add: cand_inv_def)
  then show ?case
    using ps_claim d c n gen_rel_replace_new [of x "st_workers s" "claimed_lease x g now l" g]
    by (intro gen_inv_new [OF ps_claim.prems(2), where w = "wl_worker_id x"])
      (auto intro!: cand_inv_replace)
next
  case (ps_heartbeat s x now l es t)
  have d: "distinct (map wl_worker_id (st_workers s))" and c: "cand_inv (st_workers s)"
    using ps_heartbeat.prems by (auto simp: wp_inv_def roster_ok_def gen_inv_def2)
  have x: "x \<in> set (st_workers s)" using ps_heartbeat(1) by (simp add: has_authority_def)
  then show ?case
    using ps_heartbeat d c gen_rel_replace_same [OF x d]
    by (intro gen_inv_keep [OF ps_heartbeat.prems(2)])
      (auto intro!: cand_inv_replace, auto simp: cand_inv_def)
next
  case (ps_handoff s x now y es t)
  then show ?case by (intro gen_inv_keep [OF ps_handoff.prems(2)]) (auto simp: gen_inv_def2)
next
  case (ps_takeover s x y now l g es ref t)
  have r: "roster_ok s" and a: "authority_ok s" and n: "0 \<le> st_generation s"
    using ps_takeover by (auto simp: wp_inv_def lineage_ok_def)
  have d: "distinct (map wl_worker_id (st_workers s))" and c: "cand_inv (st_workers s)"
    using ps_takeover.prems r by (auto simp: roster_ok_def gen_inv_def2)
  have xa: "wl_status x = WL_ACTIVE" using current_worker_active [OF a r] ps_takeover by blast
  then have ne: "wl_worker_id y \<noteq> wl_worker_id x" using roster_unique [OF r] ps_takeover by fastforce
  let ?u = "x\<lparr>wl_status := WL_SUPERSEDED, wl_ended_at := Some now,
      wl_superseded_by := Some (wl_worker_id y)\<rparr>"
  let ?ws = "replace_worker (st_workers s) ?u"
  have y: "wl_generation y = None" and xg: "wl_generation x \<noteq> None"
    using c xa ps_takeover by (auto simp: cand_inv_def)
  have "y \<in> set ?ws" using ps_takeover ne by (auto intro: replace_worker_other)
  moreover have "gen_rel ?ws = gen_rel (st_workers s)"
    using ps_takeover d by (intro gen_rel_replace_same) auto
  ultimately have "gen_rel (replace_worker ?ws (claimed_lease y g now l)) =
      insert (wl_worker_id y, g) (gen_rel (st_workers s))"
    using d y by (subst gen_rel_replace_new [of y]) auto
  then show ?case
    using ps_takeover c n xg
    by (intro gen_inv_new [OF ps_takeover.prems(2), where w = "wl_worker_id y"])
      (auto intro!: cand_inv_replace)
next
  case (ps_complete_worker s x now es t)
  then show ?case
    by (auto simp: has_authority_def wp_inv_def intro!: gen_inv_end_current)
next
  case (ps_abandon s x es now t)
  then show ?case by (auto simp: wp_inv_def intro!: gen_inv_end_current)
next
  case (ps_complete_task s ref es now t)
  then show ?case by (intro gen_inv_keep [OF ps_complete_task.prems(2)]) (auto simp: gen_inv_def2)
qed

section \<open>Reachable snapshots\<close>

text \<open>The snapshots a task can have: a new task, and whatever the module's calls make of it.\<close>

inductive reachable :: "worker_task_state \<Rightarrow> bool" where
  rc_new: "new_task_state t p r k = Inr s \<Longrightarrow> reachable s"
| rc_call: "reachable s \<Longrightarrow> call_ok c \<Longrightarrow> perform c s = Inr d \<Longrightarrow> reachable (pd_state d)"

lemma new_task_state_shape:
  assumes "new_task_state t p r k = Inr s"
  shows "validate_state s = Inr ()" and "st_workers s = []" and "st_generation s = 0"
    and "st_revision s = 0" and "st_task_status s = DT_OPEN" and "st_task_id s = strip t"
  using assms by (auto simp: new_task_state_def st_task_id_def Let_def split: if_splits option.splits)

lemma reachable_inv: "reachable s \<Longrightarrow> wp_inv s \<and> gen_inv s"
proof (induction rule: reachable.induct)
  case (rc_new t p r k s)
  then show ?case
    using new_task_state_shape [OF rc_new]
    by (auto simp: validate_state_iff gen_inv_def gen_rel_def)
next
  case (rc_call s c d)
  then have "wp_inv s" by simp
  from this rc_call(2,3) have "gen_inv (pd_state d)"
    using rc_call(4) by (cases rule: perform_cases)
      (auto simp: unchanged_def steps_to_def dest: protocol_step_gen_inv)
  with wp.op_valid [OF \<open>wp_inv s\<close> rc_call(2,3)] show ?case by simp
qed

section \<open>The event log\<close>

definition is_grant :: "protocol_event \<Rightarrow> bool" where
  "is_grant e \<longleftrightarrow> ev_kind e \<in> {EK_LEASE_CLAIMED, EK_LEASE_TAKEN_OVER}"

definition grants :: "protocol_event list \<Rightarrow> nat" where
  "grants es = length (filter is_grant es)"

lemma stamped_Nil_iff [simp]: "stamped s es = [] \<longleftrightarrow> es = []"
  by (simp add: stamped_def)

lemma sorted_constant: "\<forall>x \<in> set xs. f x = (k :: int) \<Longrightarrow> sorted (map f xs)"
  by (induction xs) auto

lemma stamped_revision: "e \<in> set (stamped s es) \<Longrightarrow> ev_revision e = st_revision s + 1"
  by (auto simp: stamped_def)

lemma mk_event_kind [simp]: "ev_kind (mk_event k s now w g r f) = k"
  by (simp add: mk_event_def)

lemma grants_stamped [simp]:
  "grants (stamped s [mk_event k s now w g r f]) = (if k \<in> {EK_LEASE_CLAIMED, EK_LEASE_TAKEN_OVER} then 1 else 0)"
  "grants (stamped s [mk_event k s now w g r f, mk_event k' s now' w' g' r' f']) =
     (if k \<in> {EK_LEASE_CLAIMED, EK_LEASE_TAKEN_OVER} then 1 else 0)
     + (if k' \<in> {EK_LEASE_CLAIMED, EK_LEASE_TAKEN_OVER} then 1 else 0)"
  by (auto simp: grants_def is_grant_def stamped_def)

lemma protocol_step_events:
  assumes "protocol_step s es t"
  shows "es \<noteq> [] \<and> (\<forall>e \<in> set es. ev_revision e = st_revision t)
    \<and> st_generation t = st_generation s + int (grants es)"
  using assms
  by (induction rule: protocol_step.induct) (auto simp: end_current_def dest: stamped_revision)

lemma call_log_summary:
  assumes "wp_inv s" and "list_all call_ok cs"
  shows "set (map ev_revision (call_log cs s)) = {st_revision s + 1 .. st_revision (run_calls cs s)}
    \<and> sorted (map ev_revision (call_log cs s))
    \<and> st_generation (run_calls cs s) = st_generation s + int (grants (call_log cs s))
    \<and> st_revision s \<le> st_revision (run_calls cs s)"
  using assms
proof (induction cs arbitrary: s)
  case Nil
  then show ?case by (simp add: grants_def)
next
  case (Cons c cs)
  then obtain d where d: "perform c s = Inr d" using wp.op_total by fastforce
  from Cons.prems have ok: "wp_inv s" "call_ok c" "list_all call_ok cs" by simp_all
  have v: "wp_inv (pd_state d)" using wp.op_valid [OF ok(1,2) d] .
  note IH = Cons.IH [OF v ok(3)]
  from ok(1,2) d show ?case
  proof (cases rule: perform_cases)
    case unchanged
    with IH d show ?thesis by (simp add: unchanged_def)
  next
    case steps
    let ?t = "pd_state d"
    from steps have st: "protocol_step s (pd_events d) ?t" by (simp add: steps_to_def)
    note ev = protocol_step_events [OF st]
    have rev: "st_revision ?t = st_revision s + 1" using protocol_step_frame [OF st] by simp
    have "ev_revision ` set (pd_events d) = {st_revision s + 1}"
      using ev rev by (cases "pd_events d") auto
    moreover have "sorted (map ev_revision (pd_events d @ call_log cs ?t))"
      using ev rev IH sorted_constant [of "pd_events d" ev_revision "st_revision ?t"]
      by (auto simp: sorted_append)
    ultimately show ?thesis using IH d ev rev by (auto simp: image_Un grants_def)
  qed
qed

section \<open>Properties of the protocol\<close>

text \<open>A task with two registered workers, the first of which claimed a lease of 60 seconds at time
  2, for the instances below.\<close>

definition demo_task :: worker_task_state where
  "demo_task = (case new_task_state ''task'' None None None of Inr s \<Rightarrow> s)"

definition demo_claimed :: worker_task_state where
  "demo_claimed = run_calls
     [Register ''a'' None 1 0, Register ''b'' (Some ''chat'') 1 1, Claim ''a'' 2 60 2] demo_task"

text \<open>C1. On a snapshot that passes \<^verbatim>\<open>validate_state\<close>, any sequence of calls with admissible
  arguments ends in a snapshot that passes it, and every further call returns a decision (never an
  exception, so the re-check inside \<^verbatim>\<open>_accept\<close> and the assertions never fire) whose snapshot passes
  it; the decision either changes nothing at all or was made at the current revision and advances it
  by exactly one.\<close>

theorem calls_total_and_valid:
  assumes "validate_state s = Inr ()" and "list_all call_ok cs" and "call_ok c"
  shows "\<exists>d. perform c (run_calls cs s) = Inr d \<and> validate_state (pd_state d) = Inr ()
    \<and> (if pd_mutated d
       then call_revision c = st_revision (run_calls cs s)
            \<and> st_revision (pd_state d) = st_revision (run_calls cs s) + 1 \<and> pd_events d \<noteq> []
       else pd_state d = run_calls cs s \<and> pd_events d = [])"
proof -
  have t: "wp_inv (run_calls cs s)" using assms by (simp add: validate_state_iff run_calls_wp_inv)
  then obtain d where d: "perform c (run_calls cs s) = Inr d" using assms(3) wp.op_total by blast
  have "pd_events d \<noteq> [] \<longleftrightarrow> pd_mutated d"
    using t assms(3) d
    by (cases rule: perform_cases) (auto simp: unchanged_def steps_to_def dest: protocol_step_events)
  with d show ?thesis
    using wp.op_valid [OF t assms(3) d] wp.op_mutates [OF t assms(3) d] wp.op_refuses [OF t assms(3) d]
    by (auto simp: validate_state_iff)
qed

theorem calls_total_and_valid_witness:
  "\<exists>d. perform (Takeover ''b'' 70 60 3) (run_calls [Register ''a'' None 1 0] demo_task) = Inr d
     \<and> validate_state (pd_state d) = Inr ()"
proof -
  have "validate_state demo_task = Inr ()" "list_all call_ok [Register ''a'' None 1 0]"
    "call_ok (Takeover ''b'' 70 60 3)" by code_simp+
  note calls_total_and_valid [OF this]
  then show ?thesis by (elim ex_forward conjE) (intro conjI)
qed

text \<open>C2. The revision is a compare-and-swap token: of all the calls of a run that expect the same
  revision, at most one takes effect.\<close>

theorem one_winner_per_revision:
  assumes "validate_state s = Inr ()" and "list_all call_ok cs"
  shows "call_winners r cs s \<le> 1"
  using assms unfolding call_winners_def by (intro wp.at_most_one_winner) (simp_all add: validate_state_iff)

theorem one_winner_per_revision_witness:
  "call_winners 2 [Claim ''a'' 2 60 2, Claim ''b'' 2 60 2]
     (run_calls [Register ''a'' None 1 0, Register ''b'' None 1 1] demo_task) \<le> 1
   \<and> call_winners 2 [Claim ''a'' 2 60 2, Claim ''b'' 2 60 2]
     (run_calls [Register ''a'' None 1 0, Register ''b'' None 1 1] demo_task) = 1"
proof (intro conjI one_winner_per_revision)
qed code_simp+

text \<open>C3. A worker that was superseded, completed or abandoned is fenced for good: after any further
  calls its lease is not fresh, and each of its own calls (claim, heartbeat, handoff, takeover,
  completion) with any arguments is refused and changes nothing.\<close>

theorem retired_worker_fenced:
  assumes "validate_state s = Inr ()" and "worker_by_id s w = Some x"
    and "wl_status x \<in> {WL_SUPERSEDED, WL_COMPLETED, WL_ABANDONED}" and "list_all call_ok cs"
    and "c \<in> {Claim w now l e, Heartbeat w g now l e, Handoff w v g now e, Takeover w now l e,
               CompleteWorker w g now e}" and "0 < l"
  shows "\<not> lease_is_fresh (run_calls cs s) w now
    \<and> (\<exists>d. perform c (run_calls cs s) = Inr d \<and> \<not> pd_accepted d \<and> pd_state d = run_calls cs s)"
proof -
  let ?t = "run_calls cs s"
  have s: "wp_inv s" using assms(1) by (simp add: validate_state_iff)
  have t: "wp_inv ?t" and r: "roster_ok ?t"
    using run_calls_wp_inv [OF s assms(4)] by (simp_all add: wp_inv_def)
  have ret: "w \<in> au_retired (abs_auth ?t)"
    using run_calls_retired [OF s assms(4)] assms(2,3) s by (auto simp: retired_iff retired_status_def)
  then obtain y where y: "worker_by_id ?t w = Some y" "retired_status (wl_status y)"
    using t by (auto simp: retired_iff)
  note nf = retired_not_fresh [OF t ret]
  have rej: "\<exists>code. authority_rejection ?t w g now = Some (reject ?t code)"
    using r by (cases rule: authority_rejection_cases [where w = w and g = g and now = now])
      (use y nf lease_is_fresh_iff [OF r] in \<open>auto simp: has_authority_def retired_status_def\<close>)
  have el: "\<exists>el. takeover_eligibility ?t w now = Inr el \<and> \<not> te_eligible el"
    using t by (cases rule: takeover_eligibility_cases [where c = w and now = now])
      (use y in \<open>auto simp: retired_status_def\<close>)
  have "\<exists>d. perform c ?t = Inr d \<and> \<not> pd_accepted d \<and> pd_state d = ?t"
    using t
  proof (cases rule: preflight_cases [where e = e])
    case fresh
    with assms(5,6) y rej el show ?thesis
      by (auto simp: claim_worker_def heartbeat_worker_def request_handoff_def takeover_worker_def
          complete_worker_def reject_def retired_status_def split: takeover_reason.split)
  next
    case (stale d)
    with assms(5,6) show ?thesis
      by (auto simp: claim_worker_def heartbeat_worker_def request_handoff_def takeover_worker_def
          complete_worker_def unchanged_def)
  qed
  with nf show ?thesis by blast
qed

definition demo_taken :: worker_task_state where
  "demo_taken = run_calls [Takeover ''b'' 70 60 3] demo_claimed"

theorem retired_worker_fenced_witness:
  "\<not> lease_is_fresh (run_calls [Heartbeat ''b'' 2 80 60 4] demo_taken) ''a'' 81
    \<and> (\<exists>d. perform (Heartbeat ''a'' 1 81 60 5) (run_calls [Heartbeat ''b'' 2 80 60 4] demo_taken) = Inr d
         \<and> \<not> pd_accepted d \<and> pd_state d = run_calls [Heartbeat ''b'' 2 80 60 4] demo_taken)"
proof -
  have "validate_state demo_taken = Inr ()" by code_simp
  moreover obtain x where "worker_by_id demo_taken ''a'' = Some x" "wl_status x = WL_SUPERSEDED"
  proof -
    have "map_option wl_status (worker_by_id demo_taken ''a'') = Some WL_SUPERSEDED" by code_simp
    with that show thesis by auto
  qed
  moreover have "list_all call_ok [Heartbeat ''b'' 2 80 60 4]" by code_simp
  ultimately show ?thesis
    by (intro retired_worker_fenced [where x = x and l = 60 and e = 5 and g = 1 and v = "''a''"]) simp_all
qed

text \<open>C4. Generations are fencing tokens: in every snapshot a task can reach, each generation from 1
  to the current one was given to exactly one worker, no other generation was given to anyone, and
  the workers without one are exactly the candidates that never held a lease.\<close>

theorem generations_are_tokens:
  assumes "reachable s"
  shows "(\<forall>g. (\<exists>w \<in> set (st_workers s). wl_generation w = Some g) \<longleftrightarrow> 1 \<le> g \<and> g \<le> st_generation s)
    \<and> (\<forall>v \<in> set (st_workers s). \<forall>w \<in> set (st_workers s).
         wl_generation v = wl_generation w \<and> wl_generation v \<noteq> None \<longrightarrow> v = w)
    \<and> (\<forall>w \<in> set (st_workers s). wl_generation w = None \<longleftrightarrow> wl_status w = WL_CANDIDATE)"
proof -
  have r: "roster_ok s" and g: "gen_inv s" using reachable_inv [OF assms] by (simp_all add: wp_inv_def)
  have rng: "snd ` gen_rel (st_workers s) = {1 .. st_generation s}"
    and inj: "inj_on snd (gen_rel (st_workers s))" using g by (simp_all add: gen_inv_def)
  have "v = w" if vw: "v \<in> set (st_workers s)" "w \<in> set (st_workers s)"
      "wl_generation v = Some k" "wl_generation w = Some k" for v w k
  proof -
    have "(wl_worker_id v, k) \<in> gen_rel (st_workers s)" "(wl_worker_id w, k) \<in> gen_rel (st_workers s)"
      using vw by (auto simp: gen_rel_iff)
    then have "(wl_worker_id v, k) = (wl_worker_id w, k)" by (intro inj_onD [OF inj]) simp_all
    then have "wl_worker_id v = wl_worker_id w" by simp
    with roster_unique [OF r] vw show ?thesis by blast
  qed
  moreover have "(\<exists>w \<in> set (st_workers s). wl_generation w = Some k)
      \<longleftrightarrow> 1 \<le> k \<and> k \<le> st_generation s" for k
  proof -
    have "(\<exists>w \<in> set (st_workers s). wl_generation w = Some k) \<longleftrightarrow> k \<in> snd ` gen_rel (st_workers s)"
      by (force simp: gen_rel_def)
    then show ?thesis by (simp add: rng)
  qed
  ultimately show ?thesis using g by (auto simp: gen_inv_def)
qed

lemma demo_claimed_reachable: "reachable demo_claimed"
proof -
  have start: "reachable demo_task" by (rule rc_new [of "''task''" None None None]) code_simp
  have steps: "\<And>cs s. reachable s \<Longrightarrow> list_all call_ok cs \<Longrightarrow> reachable (run_calls cs s)"
  proof -
    fix cs s show "reachable s \<Longrightarrow> list_all call_ok cs \<Longrightarrow> reachable (run_calls cs s)"
      by (induction cs arbitrary: s) (auto split: sum.split intro: rc_call)
  qed
  have "list_all call_ok [Register ''a'' None 1 0, Register ''b'' (Some ''chat'') 1 1,
      Claim ''a'' 2 60 2]" by code_simp
  with start steps show ?thesis unfolding demo_claimed_def by blast
qed

theorem generations_are_tokens_witness:
  "(\<exists>w \<in> set (st_workers demo_claimed). wl_generation w = Some 1)
   \<and> \<not> (\<exists>w \<in> set (st_workers demo_claimed). wl_generation w = Some 2)"
proof -
  have "st_generation demo_claimed = 1" by code_simp
  then show ?thesis using generations_are_tokens [OF demo_claimed_reachable] by auto
qed

text \<open>A takeover at the current revision is granted exactly when the task is open, the caller is a
  registered candidate, somebody holds the lease, and either that holder asked to hand off to this
  very candidate or its lease has run out. When it is granted the candidate holds a fresh lease of the
  next generation and the previous holder is superseded; when it is refused nothing changes.\<close>

theorem takeover_exact:
  assumes "validate_state s = Inr ()" and "0 < l"
  shows "\<exists>d. takeover_worker s c now l (st_revision s) = Inr d
    \<and> (pd_accepted d \<longleftrightarrow> st_task_status s = DT_OPEN
         \<and> (\<exists>y. worker_by_id s c = Some y \<and> wl_status y = WL_CANDIDATE)
         \<and> (\<exists>old. st_current_worker_id s = Some old
              \<and> (st_handoff_target_worker_id s = Some c \<or> \<not> lease_is_fresh s old now)))
    \<and> (pd_accepted d \<longrightarrow> st_current_worker_id (pd_state d) = Some c
         \<and> st_generation (pd_state d) = st_generation s + 1
         \<and> (\<forall>t. lease_is_fresh (pd_state d) c t \<longleftrightarrow> t < now + l)
         \<and> (\<forall>old. st_current_worker_id s = Some old \<longrightarrow>
              (\<exists>z. worker_by_id (pd_state d) old = Some z \<and> wl_status z = WL_SUPERSEDED
                   \<and> wl_superseded_by z = Some c)))
    \<and> (\<not> pd_accepted d \<longrightarrow> pd_state d = s)"
proof -
  have s: "wp_inv s" using assms(1) by (simp add: validate_state_iff)
  have pf: "preflight s (st_revision s) = Inr None" using assms(1) by (simp add: preflight_def)
  have good: "good_outcome s (takeover_worker s c now l (st_revision s))"
    using takeover_worker_good [OF s assms(2)] .
  from s show ?thesis
  proof (cases rule: takeover_eligibility_cases [where c = c and now = now])
    case (ineligible el)
    then show ?thesis
      using assms(2) by (auto simp: takeover_worker_def pf reject_def takeover_eligibility_def assms(1) Let_def
          split: takeover_reason.splits option.splits if_splits)
  next
    case (eligible el x y)
    let ?u = "x\<lparr>wl_status := WL_SUPERSEDED, wl_ended_at := Some now, wl_superseded_by := Some c\<rparr>"
    let ?v = "claimed_lease y (st_generation s + 1) now l"
    let ?t = "s\<lparr>st_generation := st_generation s + 1, st_current_worker_id := Some c,
        st_handoff_target_worker_id := None, st_handoff_requested_at := None,
        st_workers := replace_worker (replace_worker (st_workers s) ?u) ?v\<rparr>"
    obtain d where d: "takeover_worker s c now l (st_revision s) = Inr d"
      and g: "unchanged s d \<or> steps_to s d" using good by (auto simp: good_outcome_def)
    have pd: "pd_state d = committed s ?t" "pd_accepted d"
      using d eligible assms(2)
      by (auto simp: takeover_worker_def pf accept_def committed_def Let_def split: sum.splits)
    have t: "roster_ok (pd_state d)"
      using g s by (auto simp: unchanged_def steps_to_def wp_inv_def dest: protocol_step_roster_ok)
    have x: "x \<in> set (st_workers s)" and y: "y \<in> set (st_workers s)" "wl_worker_id y = c"
      using eligible worker_by_id_SomeD by blast+
    have ne: "c \<noteq> wl_worker_id x"
      using eligible s current_worker_active [of s x] x by (auto simp: wp_inv_def)
    have mem: "?v \<in> set (st_workers (pd_state d))" "?u \<in> set (st_workers (pd_state d))"
      using x y ne
      by (auto simp: pd replace_worker_insert replace_worker_ids id_in_roster)
    have "worker_by_id (pd_state d) c = Some ?v" "worker_by_id (pd_state d) (wl_worker_id x) = Some ?u"
      using mem t y by (auto simp: worker_by_id_eq_Some)
    moreover have "st_current_worker_id (pd_state d) = Some c"
      "st_generation (pd_state d) = st_generation s + 1" "st_task_status (pd_state d) = DT_OPEN"
      using eligible by (simp_all add: pd)
    ultimately show ?thesis
      using d pd(2) eligible y by (auto simp: lease_is_fresh_def claimed_lease_def)
  qed
qed

theorem takeover_exact_witness:
  "\<exists>d. takeover_worker demo_claimed ''b'' 70 60 (st_revision demo_claimed) = Inr d
    \<and> pd_accepted d \<and> st_current_worker_id (pd_state d) = Some ''b''"
proof -
  have "validate_state demo_claimed = Inr ()" "st_task_status demo_claimed = DT_OPEN"
    "map_option wl_status (worker_by_id demo_claimed ''b'') = Some WL_CANDIDATE"
    "st_current_worker_id demo_claimed = Some ''a''" "\<not> lease_is_fresh demo_claimed ''a'' 70"
    by code_simp+
  then show ?thesis using takeover_exact [of demo_claimed 60 "''b''" 70] by auto
qed

text \<open>A heartbeat at the current revision is accepted exactly when the caller is the current active
  worker of an open task, presents the current generation, its clock does not run before the claim or
  the last heartbeat, and its lease has not expired. An accepted heartbeat keeps the lease fresh until
  \<^verbatim>\<open>now + lease_seconds\<close> and does not move the authority; a refused one changes nothing.\<close>

theorem heartbeat_exact:
  assumes "validate_state s = Inr ()" and "0 < l"
  shows "\<exists>d. heartbeat_worker s w g now l (st_revision s) = Inr d
    \<and> (pd_accepted d \<longleftrightarrow> g = st_generation s \<and> lease_is_fresh s w now
         \<and> (\<forall>x t. worker_by_id s w = Some x \<and> (wl_claimed_at x = Some t \<or> wl_last_heartbeat_at x = Some t)
              \<longrightarrow> t \<le> now))
    \<and> (pd_accepted d \<longrightarrow> (\<forall>t. lease_is_fresh (pd_state d) w t \<longleftrightarrow> t < now + l)
         \<and> abs_auth (pd_state d) = abs_auth s)
    \<and> (\<not> pd_accepted d \<longrightarrow> pd_state d = s)"
proof -
  have s: "wp_inv s" and r: "roster_ok s" using assms(1) by (simp_all add: validate_state_iff wp_inv_def)
  have pf: "preflight s (st_revision s) = Inr None" using assms(1) by (simp add: preflight_def)
  obtain d where d: "heartbeat_worker s w g now l (st_revision s) = Inr d"
    and good: "unchanged s d \<or> steps_to s d"
    using heartbeat_worker_good [OF s assms(2), of w g now "st_revision s"]
    by (auto simp: good_outcome_def)
  from r show ?thesis
  proof (cases rule: authority_rejection_cases [where w = w and g = g and now = now])
    case (granted x)
    let ?u = "x\<lparr>wl_last_heartbeat_at := Some now, wl_lease_expires_at := Some (now + l)\<rparr>"
    have pd: "pd_state d = committed s (s\<lparr>st_workers := replace_worker (st_workers s) ?u\<rparr>)"
      "pd_accepted d"
      using d granted assms(2)
      by (auto simp: heartbeat_worker_def pf accept_def committed_def Let_def split: sum.splits)
    have t: "roster_ok (pd_state d)"
      using good s by (auto simp: unchanged_def steps_to_def wp_inv_def dest: protocol_step_roster_ok)
    have x: "x \<in> set (st_workers s)" using granted by (simp add: has_authority_def)
    then have "?u \<in> set (st_workers (pd_state d))" by (auto simp: pd replace_worker_insert)
    then have "worker_by_id (pd_state d) w = Some ?u"
      using t granted by (auto simp: worker_by_id_eq_Some)
    moreover have "lease_is_fresh s w now"
      using granted by (auto simp: lease_is_fresh_def has_authority_def)
    moreover have "abs_auth (pd_state d) = abs_auth s"
      using x granted(4) ids_with_member [OF r x]
      by (simp add: pd abs_auth_def ids_with_replace id_in_roster retired_status_def has_authority_def)
    ultimately show ?thesis
      using d pd granted by (auto simp: lease_is_fresh_def has_authority_def)
  next
    case (refused code)
    with d assms(2) have rd: "d = reject s code" by (simp add: heartbeat_worker_def pf)
    have "\<not> (g = st_generation s \<and> lease_is_fresh s w now
         \<and> (\<forall>x t. worker_by_id s w = Some x \<and> (wl_claimed_at x = Some t \<or> wl_last_heartbeat_at x = Some t)
              \<longrightarrow> t \<le> now))"
      using refused unfolding authority_rejection_def lease_timeline_max
      by (auto simp: lease_is_fresh_def split: option.splits if_splits)
    with d rd show ?thesis by (simp add: reject_def)
  qed
qed

theorem heartbeat_exact_witness:
  "\<exists>d. heartbeat_worker demo_claimed ''a'' 1 50 60 (st_revision demo_claimed) = Inr d
    \<and> pd_accepted d \<and> lease_is_fresh (pd_state d) ''a'' 109"
proof -
  have "validate_state demo_claimed = Inr ()" "1 = st_generation demo_claimed"
    "lease_is_fresh demo_claimed ''a'' 50"
    "map_option wl_claimed_at (worker_by_id demo_claimed ''a'') = Some (Some 2)"
    "map_option wl_last_heartbeat_at (worker_by_id demo_claimed ''a'') = Some (Some 2)"
    by code_simp+
  then show ?thesis using heartbeat_exact [of demo_claimed 60 "''a''" 1 50] by auto
qed

text \<open>Completion of the durable task is final: no sequence of calls changes a completed task, in
  any field, and none of them appends an event.\<close>

theorem completed_task_final:
  assumes "validate_state s = Inr ()" and "st_task_status s = DT_COMPLETED" and "list_all call_ok cs"
  shows "run_calls cs s = s \<and> call_log cs s = []"
  using assms
proof (induction cs)
  case (Cons c cs)
  have s: "wp_inv s" and c: "call_ok c" using Cons.prems by (simp_all add: validate_state_iff)
  then obtain d where d: "perform c s = Inr d" using wp.op_total by blast
  from s c d have "pd_state d = s \<and> pd_events d = []"
    using Cons.prems(2)
    by (cases rule: perform_cases) (auto simp: unchanged_def steps_to_def dest: closed_no_step)
  with Cons d show ?case by simp
qed simp

definition demo_done :: worker_task_state where
  "demo_done = run_calls [CompleteWorker ''a'' 1 30 3, CompleteTask ''report'' 31 4] demo_claimed"

theorem completed_task_final_witness:
  "run_calls [Takeover ''b'' 99 60 5, Register ''c'' None 99 5] demo_done = demo_done"
proof -
  have "validate_state demo_done = Inr ()" "st_task_status demo_done = DT_COMPLETED"
    "list_all call_ok [Takeover ''b'' 99 60 5, Register ''c'' None 99 5]" by code_simp+
  then show ?thesis using completed_task_final by blast
qed

text \<open>C5. The protocol refines the machine of authority: on a valid snapshot every call leaves the
  abstraction as it is, or takes exactly one step of the machine (enrol, grant, pass on, release,
  close, idle), and the abstract generation grows exactly when a worker that was not the holder
  becomes the holder.\<close>

theorem calls_refine_authority:
  assumes "validate_state s = Inr ()" and "call_ok c" and "perform c s = Inr d"
  shows "(if pd_mutated d then auth_step (abs_auth s) (abs_auth (pd_state d))
          else abs_auth (pd_state d) = abs_auth s)
    \<and> auth_ok (abs_auth s)
    \<and> au_generation (abs_auth (pd_state d)) = au_generation (abs_auth s) +
        (if \<exists>w. au_holder (abs_auth (pd_state d)) = Some w \<and> au_holder (abs_auth s) \<noteq> Some w
         then 1 else 0)"
proof -
  have s: "wp_inv s" using assms(1) by (simp add: validate_state_iff)
  note ok = abs_auth_ok [OF s]
  from s assms(2,3) show ?thesis
  proof (cases rule: perform_cases)
    case unchanged
    with ok show ?thesis by (auto simp: unchanged_def)
  next
    case steps
    then have "auth_step (abs_auth s) (abs_auth (pd_state d))"
      using s by (auto simp: steps_to_def dest: protocol_step_refines)
    with ok steps show ?thesis by (auto simp: steps_to_def dest: auth_step_generation)
  qed
qed

theorem calls_refine_authority_witness:
  "\<exists>d. perform (Takeover ''b'' 70 60 3) demo_claimed = Inr d
     \<and> auth_step (abs_auth demo_claimed) (abs_auth (pd_state d))"
proof -
  have v: "validate_state demo_claimed = Inr ()" "call_ok (Takeover ''b'' 70 60 3)" by code_simp+
  have "case perform (Takeover ''b'' 70 60 3) demo_claimed of Inr d \<Rightarrow> pd_mutated d | Inl _ \<Rightarrow> False"
    by code_simp
  then obtain d where d: "perform (Takeover ''b'' 70 60 3) demo_claimed = Inr d" "pd_mutated d"
    by (auto split: sum.splits)
  with calls_refine_authority [OF v d(1)] show ?thesis by auto
qed

text \<open>The durable event log of a run is complete and in order: the revisions of its events are
  sorted and are exactly those between the first and the last snapshot, none missing, and the number
  of claim and takeover events is exactly how far the generation advanced.\<close>

theorem event_log_complete:
  assumes "validate_state s = Inr ()" and "list_all call_ok cs"
  shows "sorted (map ev_revision (call_log cs s))
    \<and> set (map ev_revision (call_log cs s)) = {st_revision s + 1 .. st_revision (run_calls cs s)}
    \<and> st_generation (run_calls cs s) - st_generation s
        = int (length (filter (\<lambda>e. ev_kind e \<in> {EK_LEASE_CLAIMED, EK_LEASE_TAKEN_OVER}) (call_log cs s)))"
  using call_log_summary [of s cs] assms by (simp add: validate_state_iff grants_def is_grant_def [abs_def])

theorem event_log_complete_witness:
  "set (map ev_revision (call_log [Takeover ''b'' 70 60 3, Heartbeat ''a'' 1 71 60 4] demo_claimed))
     = {st_revision demo_claimed + 1
          .. st_revision (run_calls [Takeover ''b'' 70 60 3, Heartbeat ''a'' 1 71 60 4] demo_claimed)}"
proof -
  have "validate_state demo_claimed = Inr ()"
    "list_all call_ok [Takeover ''b'' 70 60 3, Heartbeat ''a'' 1 71 60 4]" by code_simp+
  then show ?thesis using event_log_complete by blast
qed

end
