(* ===== verification/Worker_Persistence.thy ===== *)
theory Worker_Persistence
  imports Registry_Tables Worker_Safety
begin

text \<open>
  The durable form of the worker-lease protocol, \<^verbatim>\<open>src/src/lws/worker_persistence.py\<close>, over the tables
  of the registry: the conservative bootstrap from legacy rows, the load that re-checks the snapshot,
  the task lineage and the agreement with the legacy tables, and the transaction that applies one pure
  transition. Shown: on a consistent registry the transaction implements the pure protocol exactly
  (same decision, and the reloaded snapshot is the decided one), so none of its internal checks ever
  fails, other tasks are untouched, and a bootstrapped legacy authority is never fresh.
\<close>

abbreviation (input) persistence_error :: "string \<Rightarrow> 'a result" where
  "persistence_error m \<equiv> Inl (WorkerProtocolPersistenceError m)"

section \<open>Rows and snapshots\<close>

definition protocol_state_exists :: "registry \<Rightarrow> string \<Rightarrow> bool" where
  "protocol_state_exists db t = (find_protocol db t \<noteq> None)"

definition legacy_status :: "worker_lease_status \<Rightarrow> worker_status" where
  "legacy_status k = (case k of
     WL_CANDIDATE \<Rightarrow> WS_PARKED | WL_ACTIVE \<Rightarrow> WS_ACTIVE | WL_SUPERSEDED \<Rightarrow> WS_SUPERSEDED
   | WL_COMPLETED \<Rightarrow> WS_DEAD | WL_ABANDONED \<Rightarrow> WS_DEAD)"

definition lease_from_row :: "protocol_lease_row \<Rightarrow> worker_lease result" where
  "lease_from_row r = (case wl_status_of (pl_status r) of
     None \<Rightarrow> Inl (ValueError (pl_status r))
   | Some k \<Rightarrow> Inr \<lparr>wl_worker_id = pl_worker_id r, wl_task_id = pl_task_id r,
       wl_conversation_ref = Some (pl_conversation_ref r), wl_status = k,
       wl_registered_at = pl_registered_at r, wl_generation = pl_generation r,
       wl_claimed_at = pl_claimed_at r, wl_last_heartbeat_at = pl_last_heartbeat_at r,
       wl_lease_expires_at = pl_lease_expires_at r, wl_ended_at = pl_ended_at r,
       wl_superseded_by = pl_superseded_by r\<rparr>)"

definition task_values :: "worker_task_state \<Rightarrow> protocol_task_row" where
  "task_values s = \<lparr>pt_task_id = st_task_id s, pt_revision = st_revision s,
     pt_generation = st_generation s, pt_task_status = dt_value (st_task_status s),
     pt_current_worker_id = st_current_worker_id s,
     pt_handoff_target_worker_id = st_handoff_target_worker_id s,
     pt_handoff_requested_at = st_handoff_requested_at s,
     pt_parent_task_id = tl_parent_task_id (st_lineage s),
     pt_root_task_id = tl_root_task_id (st_lineage s), pt_child_key = tl_child_key (st_lineage s),
     pt_completed_at = st_completed_at s, pt_completion_ref = st_completion_ref s\<rparr>"

definition lease_values :: "worker_lease \<Rightarrow> protocol_lease_row" where
  "lease_values w = \<lparr>pl_worker_id = wl_worker_id w, pl_task_id = wl_task_id w,
     pl_conversation_ref = (case wl_conversation_ref w of None \<Rightarrow> [] | Some c \<Rightarrow> c),
     pl_status = wl_status_value (wl_status w), pl_registered_at = wl_registered_at w,
     pl_generation = wl_generation w, pl_claimed_at = wl_claimed_at w,
     pl_last_heartbeat_at = wl_last_heartbeat_at w, pl_lease_expires_at = wl_lease_expires_at w,
     pl_ended_at = wl_ended_at w, pl_superseded_by = wl_superseded_by w\<rparr>"

section \<open>Load\<close>

definition validate_lineage_references :: "registry \<Rightarrow> worker_task_state \<Rightarrow> unit result" where
  "validate_lineage_references db s =
     (let l = st_lineage s in
      if find_task db (tl_root_task_id l) = None
      then persistence_error ''protocol root_task_id no longer exists''
      else case tl_parent_task_id l of
        None \<Rightarrow> Inr ()
      | Some p \<Rightarrow>
          if find_task db p = None
          then persistence_error ''protocol parent_task_id no longer exists''
          else (case find_protocol db p of
              None \<Rightarrow> Inr ()
            | Some q \<Rightarrow>
                if pt_root_task_id q \<noteq> tl_root_task_id l
                then persistence_error ''protocol child root disagrees with parent root''
                else Inr ()))"

text \<open>The checks of one lease against the legacy row of the same id (the dictionary lookup cannot
  fail: the identity check comes first).\<close>

definition lease_matches_row :: "string set \<Rightarrow> worker_row \<Rightarrow> worker_lease \<Rightarrow> unit result" where
  "lease_matches_row protocol_ids row lease =
     (if wr_task_id row \<noteq> wl_task_id lease
      then persistence_error ''worker durable task identity mismatch''
      else if Some (wr_conversation_url row) \<noteq> wl_conversation_ref lease
      then persistence_error ''worker conversation reference mismatch''
      else if wr_started_at row \<noteq> wl_registered_at lease
      then persistence_error ''worker registration timestamp mismatch''
      else if wr_status row \<noteq> ws_value (legacy_status (wl_status lease))
      then persistence_error ''legacy worker status disagrees with protocol''
      else if wl_status lease \<in> {WL_SUPERSEDED, WL_COMPLETED, WL_ABANDONED} \<and> wr_ended_at row = None
      then persistence_error ''terminal protocol worker lacks legacy ended_at''
      else case wl_superseded_by lease of
        None \<Rightarrow> Inr ()
      | Some v \<Rightarrow>
          if v \<notin> protocol_ids then persistence_error ''superseded_by identifies a foreign worker''
          else Inr ())"

definition validate_legacy_consistency :: "registry \<Rightarrow> worker_task_state \<Rightarrow> unit result" where
  "validate_legacy_consistency db s =
     (case find_task db (st_task_id s) of
        None \<Rightarrow> persistence_error ''canonical task row is missing''
      | Some task \<Rightarrow>
          if tr_current_worker_id task \<noteq> st_current_worker_id s
          then persistence_error ''tasks.current_worker_id disagrees with persisted worker protocol''
          else if st_task_status s = DT_COMPLETED \<and> tr_state task \<noteq> ss_value SS_COMPLETED
          then persistence_error ''completed protocol task disagrees with canonical task state''
          else if st_task_status s \<noteq> DT_COMPLETED
            \<and> tr_state task \<in> {ss_value SS_COMPLETED, ss_value SS_ABANDONED}
          then persistence_error
                 ''canonical terminal task state disagrees with open worker protocol''
          else let rows = task_workers db (st_task_id s);
                   protocol_ids = set (map wl_worker_id (st_workers s))
            in if set (map wr_worker_id rows) \<noteq> protocol_ids
               then persistence_error
                 ''canonical workers and protocol workers do not have identical identities''
               else foldr_result
                 (\<lambda>lease _. case tbl_find wr_worker_id (wl_worker_id lease) rows of
                      None \<Rightarrow> Inl (KeyError (wl_worker_id lease))
                    | Some row \<Rightarrow> lease_matches_row protocol_ids row lease)
                 (st_workers s) ())"

definition invalid_snapshot :: "string \<Rightarrow> 'a result \<Rightarrow> 'a result" where
  "invalid_snapshot m r = (case r of
     Inl (ValueError _) \<Rightarrow> persistence_error m
   | Inl (ProtocolInvariantError _) \<Rightarrow> persistence_error m
   | _ \<Rightarrow> r)"

definition load_worker_protocol :: "registry \<Rightarrow> string \<Rightarrow> worker_task_state result" where
  "load_worker_protocol db t =
     (case find_protocol db t of
        None \<Rightarrow>
          if find_task db t = None then Inl (KeyError (''unknown task: '' @ t))
          else persistence_error (''worker protocol is not bootstrapped for task '' @ t)
      | Some row \<Rightarrow>
          rbind (invalid_snapshot (''persisted worker protocol is invalid for task '' @ t)
            (case dt_of (pt_task_status row) of
               None \<Rightarrow> Inl (ValueError (pt_task_status row))
             | Some status \<Rightarrow>
                 rbind (map_result lease_from_row (task_leases db t)) (\<lambda>workers.
                   let s = \<lparr>st_lineage = \<lparr>tl_task_id = pt_task_id row,
                              tl_parent_task_id = pt_parent_task_id row,
                              tl_root_task_id = pt_root_task_id row,
                              tl_child_key = pt_child_key row\<rparr>,
                            st_revision = pt_revision row, st_generation = pt_generation row,
                            st_task_status = status,
                            st_current_worker_id = pt_current_worker_id row,
                            st_handoff_target_worker_id = pt_handoff_target_worker_id row,
                            st_handoff_requested_at = pt_handoff_requested_at row,
                            st_workers = workers, st_completed_at = pt_completed_at row,
                            st_completion_ref = pt_completion_ref row\<rparr>
                   in rbind (validate_state s) (\<lambda>_. Inr s))))
          (\<lambda>s. rbind (validate_lineage_references db s) (\<lambda>_.
               rbind (validate_legacy_consistency db s) (\<lambda>_. Inr s))))"

section \<open>Persisting a decision\<close>

definition upsert_protocol_lease :: "worker_lease \<Rightarrow> registry \<Rightarrow> registry result" where
  "upsert_protocol_lease lease db =
     (if wl_conversation_ref lease \<in> {None, Some []}
      then persistence_error ''persisted worker protocol requires a canonical conversation reference''
      else if find_worker db (wl_worker_id lease) = None \<or> find_task db (wl_task_id lease) = None
        \<or> \<not> worker_ref_ok db (wl_superseded_by lease)
      then Inl foreign_key
      else Inr (db\<lparr>db_leases := tbl_upsert pl_worker_id (lease_values lease) (db_leases db)\<rparr>))"

text \<open>One round of the loop of \<^verbatim>\<open>_sync_legacy_workers\<close>; \<open>existing\<close> is the selection made before it.\<close>

definition sync_legacy_worker ::
  "string \<Rightarrow> worker_row list \<Rightarrow> worker_lease \<Rightarrow> registry \<Rightarrow> registry result" where
  "sync_legacy_worker t existing lease db =
     rbind (case tbl_find wr_worker_id (wl_worker_id lease) existing of
         None \<Rightarrow> (case wl_conversation_ref lease of
             None \<Rightarrow> persistence_error
               ''only a registered protocol candidate may create a canonical worker row''
           | Some url \<Rightarrow>
               if wl_status lease \<noteq> WL_CANDIDATE \<or> url = []
               then persistence_error
                 ''only a registered protocol candidate may create a canonical worker row''
               else insert_worker_row
                 \<lparr>wr_worker_id = wl_worker_id lease, wr_task_id = wl_task_id lease,
                  wr_conversation_url = url, wr_conversation_id = None,
                  wr_status = ws_value (legacy_status (wl_status lease)),
                  wr_started_at = wl_registered_at lease,
                  wr_last_seen_at = wl_last_heartbeat_at lease, wr_ended_at = wl_ended_at lease\<rparr> db)
       | Some row \<Rightarrow>
           if wr_task_id row \<noteq> wl_task_id lease
           then persistence_error ''worker id already belongs to another task''
           else if Some (wr_conversation_url row) \<noteq> wl_conversation_ref lease
           then persistence_error ''protocol transition may not change canonical conversation URL''
           else Inr (db\<lparr>db_workers := map (\<lambda>r.
                  if wr_worker_id r = wl_worker_id lease \<and> wr_task_id r = t
                  then r\<lparr>wr_status := ws_value (legacy_status (wl_status lease)),
                         wr_last_seen_at := wl_last_heartbeat_at lease,
                         wr_ended_at := wl_ended_at lease\<rparr>
                  else r) (db_workers db)\<rparr>))
     (\<lambda>db'. Inr (if wl_status lease \<noteq> WL_ACTIVE
        then db'\<lparr>db_bindings := tbl_delete wb_worker_id (wl_worker_id lease) (db_bindings db')\<rparr>
        else db'))"

definition sync_legacy_workers :: "worker_task_state \<Rightarrow> registry \<Rightarrow> registry result" where
  "sync_legacy_workers s db =
     (let existing = filter (\<lambda>r. wr_task_id r = st_task_id s) (db_workers db) in
      rbind (foldr_result (sync_legacy_worker (st_task_id s) existing) (st_workers s) db) (\<lambda>db'.
        if set (map wr_worker_id (filter (\<lambda>r. wr_task_id r = st_task_id s) (db_workers db')))
           \<noteq> set (map wl_worker_id (st_workers s))
        then persistence_error
          ''protocol transition cannot ignore or delete canonical worker identities''
        else Inr db'))"

text \<open>\<^verbatim>\<open>_append_events\<close> numbers the events of each revision from 0.\<close>

definition event_values :: "protocol_event \<Rightarrow> int \<Rightarrow> protocol_event_row" where
  "event_values e i = \<lparr>pe_task_id = ev_task_id e, pe_revision = ev_revision e, pe_event_index = i,
     pe_kind = ek_value (ev_kind e), pe_at = ev_at e, pe_worker_id = ev_worker_id e,
     pe_generation = ev_generation e, pe_related_worker_id = ev_related_worker_id e,
     pe_ref = ev_ref e\<rparr>"

definition event_key :: "protocol_event_row \<Rightarrow> string \<times> int \<times> int" where
  "event_key r = (pe_task_id r, pe_revision r, pe_event_index r)"

fun append_events :: "(int \<Rightarrow> int) \<Rightarrow> protocol_event list \<Rightarrow> registry \<Rightarrow> registry result" where
  "append_events by_revision [] db = Inr db"
| "append_events by_revision (e # es) db =
     (let i = by_revision (ev_revision e); row = event_values e i in
      if find_task db (ev_task_id e) = None then Inl foreign_key
      else if event_key row \<in> set (map event_key (db_events db)) then Inl unique_key
      else append_events (by_revision(ev_revision e := i + 1)) es
             (db\<lparr>db_events := db_events db @ [row]\<rparr>))"

text \<open>The guarded update of \<^verbatim>\<open>worker_protocol_tasks\<close>: it must change exactly the row of the task at the
  expected revision.\<close>

definition cas_protocol_row :: "worker_task_state \<Rightarrow> int \<Rightarrow> registry \<Rightarrow> registry result" where
  "cas_protocol_row s expected db =
     (let hit = (\<lambda>r. pt_task_id r = st_task_id s \<and> pt_revision r = expected) in
      if \<not> worker_ref_ok db (st_current_worker_id s)
         \<or> \<not> worker_ref_ok db (st_handoff_target_worker_id s)
         \<or> \<not> task_ref_ok db (tl_parent_task_id (st_lineage s))
         \<or> \<not> task_ref_ok db (Some (tl_root_task_id (st_lineage s)))
      then Inl foreign_key
      else if length (filter hit (db_protocol db)) \<noteq> 1
      then persistence_error ''worker protocol revision compare-and-swap failed during commit''
      else Inr (db\<lparr>db_protocol := map (\<lambda>r. if hit r then task_values s else r) (db_protocol db)\<rparr>))"

definition persist_decision ::
  "worker_task_state \<Rightarrow> protocol_decision \<Rightarrow> int \<Rightarrow> registry \<Rightarrow> registry result" where
  "persist_decision previous d expected db =
     (let s = pd_state d in
      rbind (sync_legacy_workers s db) (\<lambda>db1.
      case find_task db1 (st_task_id s) of
        None \<Rightarrow> persistence_error ''canonical task disappeared during transition''
      | Some task \<Rightarrow>
          let mapped = (if st_task_status s = DT_COMPLETED then ss_value SS_COMPLETED
                        else tr_state task);
              updated_at = max (tr_updated_at task) (Max (set (map ev_at (pd_events d))));
              db2 = update_task_row (st_task_id s) (\<lambda>r. r\<lparr>tr_current_worker_id :=
                      st_current_worker_id s, tr_state := mapped, tr_updated_at := updated_at\<rparr>) db1
          in rbind (cas_protocol_row s expected db2) (\<lambda>db3.
             rbind (foldr_result upsert_protocol_lease (st_workers s) db3) (\<lambda>db4.
             rbind (append_events (\<lambda>_. 0) (pd_events d) db4) (\<lambda>db5.
               if st_lineage previous \<noteq> st_lineage s
               then persistence_error ''pure transition may not mutate task lineage''
               else Inr db5)))))"

definition apply_worker_protocol_transition ::
  "registry \<Rightarrow> string \<Rightarrow> int \<Rightarrow> (worker_task_state \<Rightarrow> protocol_decision result)
     \<Rightarrow> registry \<times> protocol_decision result" where
  "apply_worker_protocol_transition db t expected transition =
     transaction db
       (rbind (load_worker_protocol db t) (\<lambda>s.
        rbind (transition s) (\<lambda>d.
        if pd_expected_revision d \<noteq> expected
        then persistence_error
          ''transition decision expected_revision does not match registry request''
        else if st_task_id (pd_state d) \<noteq> t
        then persistence_error ''transition changed durable task identity''
        else if \<not> pd_mutated d then Inr (db, d)
        else if \<not> pd_accepted d
        then persistence_error ''rejected transition cannot be a mutation''
        else if st_revision (pd_state d) \<noteq> expected + 1
        then persistence_error ''accepted mutation must advance one revision''
        else if pd_events d = []
        then persistence_error ''accepted protocol mutation must append an event''
        else if list_ex (\<lambda>e. ev_task_id e \<noteq> t \<or> ev_revision e \<noteq> st_revision (pd_state d))
                  (pd_events d)
        then persistence_error ''protocol event task/revision mismatch''
        else rbind (validate_state (pd_state d)) (\<lambda>_.
             rbind (persist_decision s d expected db) (\<lambda>db'.
             rbind (load_worker_protocol db' t) (\<lambda>reloaded.
               if reloaded \<noteq> pd_state d
               then persistence_error
                 ''persisted worker protocol does not round-trip to the accepted pure state''
               else Inr (db', d)))))))"

section \<open>Bootstrap\<close>

definition optional_nonempty :: "string option \<Rightarrow> string \<Rightarrow> string option result" where
  "optional_nonempty v name = (case v of
     None \<Rightarrow> Inr None
   | Some x \<Rightarrow> if strip x = [] then persistence_error (name @ '' must be non-empty when supplied'')
               else Inr (Some (strip x)))"

definition resolve_lineage ::
  "registry \<Rightarrow> string \<Rightarrow> string option \<Rightarrow> string option \<Rightarrow> string option \<Rightarrow> task_lineage result" where
  "resolve_lineage db t parent0 root0 child_key0 =
     rbind (optional_nonempty child_key0 ''child_key'') (\<lambda>child_key.
     case parent0 of
       None \<Rightarrow>
         if root0 \<notin> {None, Some t}
         then persistence_error ''root protocol task must name itself as root_task_id''
         else Inr \<lparr>tl_task_id = t, tl_parent_task_id = None, tl_root_task_id = t,
                   tl_child_key = child_key\<rparr>
     | Some p0 \<Rightarrow>
         let p = strip p0 in
         if p = [] \<or> p = t
         then persistence_error ''parent_task_id must name a different durable task''
         else if find_task db p = None then persistence_error ''parent_task_id does not exist''
         else rbind (case root0 of
             Some r \<Rightarrow> Inr (strip r)
           | None \<Rightarrow> (case find_protocol db p of
               None \<Rightarrow> persistence_error
                 ''child bootstrap requires root_task_id until parent protocol state exists''
             | Some q \<Rightarrow> Inr (strip (pt_root_task_id q)))) (\<lambda>r.
           if r = [] \<or> r = t
           then persistence_error ''child root_task_id must name an ancestor task''
           else if find_task db r = None then persistence_error ''root_task_id does not exist''
           else case find_protocol db p of
             None \<Rightarrow> Inr \<lparr>tl_task_id = t, tl_parent_task_id = Some p, tl_root_task_id = r,
                          tl_child_key = child_key\<rparr>
           | Some q \<Rightarrow>
               if pt_root_task_id q \<noteq> r
               then persistence_error ''child root_task_id disagrees with parent lineage''
               else Inr \<lparr>tl_task_id = t, tl_parent_task_id = Some p, tl_root_task_id = r,
                         tl_child_key = child_key\<rparr>))"

definition require_requested_lineage ::
  "worker_task_state \<Rightarrow> string option \<Rightarrow> string option \<Rightarrow> string option \<Rightarrow> unit result" where
  "require_requested_lineage s parent root_id child_key =
     (if parent = None \<and> root_id = None \<and> child_key = None then Inr ()
      else let l = st_lineage s;
               normalized_root = (case root_id of None \<Rightarrow> tl_root_task_id l | Some r \<Rightarrow> strip r)
        in if (tl_parent_task_id l, tl_root_task_id l, tl_child_key l)
              \<noteq> (map_option strip parent, normalized_root, map_option strip child_key)
           then persistence_error ''protocol lineage already initialized differently''
           else Inr ())"

text \<open>The lease that \<^verbatim>\<open>_state_from_legacy\<close> makes of one legacy row.\<close>

definition lease_from_legacy :: "string \<Rightarrow> worker_row \<Rightarrow> worker_lease result" where
  "lease_from_legacy t row =
     (let base = \<lparr>wl_worker_id = wr_worker_id row, wl_task_id = t,
                  wl_conversation_ref = Some (wr_conversation_url row), wl_status = WL_SUPERSEDED,
                  wl_registered_at = wr_started_at row, wl_generation = None, wl_claimed_at = None,
                  wl_last_heartbeat_at = wr_last_seen_at row, wl_lease_expires_at = None,
                  wl_ended_at = wr_ended_at row, wl_superseded_by = None\<rparr>
      in case worker_status_of (wr_status row) of
        None \<Rightarrow> persistence_error (''unknown legacy worker status: '' @ wr_status row)
      | Some WS_ACTIVE \<Rightarrow>
          if wr_ended_at row \<noteq> None
          then persistence_error ''legacy ACTIVE worker unexpectedly has terminal ended_at''
          else let heartbeat = (case wr_last_seen_at row of Some x \<Rightarrow> x | None \<Rightarrow> wr_started_at row)
            in Inr (base\<lparr>wl_status := WL_ACTIVE, wl_generation := Some 1,
                     wl_claimed_at := Some (wr_started_at row),
                     wl_last_heartbeat_at := Some heartbeat,
                     wl_lease_expires_at := Some heartbeat, wl_ended_at := None\<rparr>)
      | Some WS_SUPERSEDED \<Rightarrow>
          if wr_ended_at row = None
          then persistence_error ''legacy SUPERSEDED worker lacks terminal ended_at evidence''
          else Inr base
      | Some WS_DEAD \<Rightarrow>
          if wr_ended_at row = None
          then persistence_error ''legacy DEAD worker lacks terminal ended_at evidence''
          else Inr (base\<lparr>wl_status := WL_ABANDONED\<rparr>)
      | Some WS_PARKED \<Rightarrow>
          persistence_error ''unsupported legacy worker status for bootstrap: parked'')"

text \<open>The authority checks that \<^verbatim>\<open>_state_from_legacy\<close> makes before it builds any lease.\<close>

definition legacy_authority_check ::
  "supervisor_state \<Rightarrow> task_row \<Rightarrow> worker_row list \<Rightarrow> unit result" where
  "legacy_authority_check legacy_state task rows =
     (let active_ids = map wr_worker_id (filter (\<lambda>r. wr_status r = ws_value WS_ACTIVE) rows);
          parked_ids = map wr_worker_id (filter (\<lambda>r. wr_status r = ws_value WS_PARKED) rows)
      in if parked_ids \<noteq> []
         then persistence_error
           ''legacy PARKED workers have ambiguous protocol authority; reconcile before bootstrap''
         else case tr_current_worker_id task of
           None \<Rightarrow>
             if active_ids \<noteq> []
             then persistence_error ''legacy ACTIVE worker exists without tasks.current_worker_id''
             else Inr ()
         | Some c \<Rightarrow> (case tbl_find wr_worker_id c rows of
               None \<Rightarrow> persistence_error
                 ''tasks.current_worker_id does not identify a worker in the same task''
             | Some current \<Rightarrow>
                 if wr_status current \<noteq> ws_value WS_ACTIVE \<or> active_ids \<noteq> [c]
                 then persistence_error ''legacy current worker is not the sole ACTIVE worker''
                 else if legacy_state = SS_COMPLETED
                 then persistence_error
                   ''legacy COMPLETED task cannot retain an ACTIVE current worker''
                 else Inr ()))"

definition invalid_bootstrap :: "'a result \<Rightarrow> 'a result" where
  "invalid_bootstrap r = (case r of
     Inl (ProtocolInvariantError m) \<Rightarrow> persistence_error
       (''legacy worker bootstrap is not a valid protocol snapshot: '' @ m)
   | _ \<Rightarrow> r)"

definition state_from_legacy ::
  "task_row \<Rightarrow> worker_row list \<Rightarrow> task_lineage \<Rightarrow> worker_task_state result" where
  "state_from_legacy task rows lineage =
     (case supervisor_state_of (tr_state task) of
        None \<Rightarrow> persistence_error (''unknown legacy task state: '' @ tr_state task)
      | Some legacy_state \<Rightarrow>
          if legacy_state = SS_ABANDONED
          then persistence_error ''legacy ABANDONED task meaning is ambiguous for protocol bootstrap''
          else rbind (legacy_authority_check legacy_state task rows) (\<lambda>_.
            rbind (map_result (lease_from_legacy (tr_task_id task)) rows) (\<lambda>leases.
            let completed = (legacy_state = SS_COMPLETED);
                s = \<lparr>st_lineage = lineage, st_revision = 0,
                     st_generation = (if tr_current_worker_id task \<noteq> None then 1 else 0),
                     st_task_status = (if completed then DT_COMPLETED else DT_OPEN),
                     st_current_worker_id = tr_current_worker_id task,
                     st_handoff_target_worker_id = None, st_handoff_requested_at = None,
                     st_workers = sorted_workers leases,
                     st_completed_at = (if completed then Some (tr_updated_at task) else None),
                     st_completion_ref =
                       (if completed then Some ''legacy:supervisor-state:COMPLETED'' else None)\<rparr>
            in rbind (invalid_bootstrap (validate_state s)) (\<lambda>_. Inr s))))"

definition insert_protocol_snapshot :: "worker_task_state \<Rightarrow> registry \<Rightarrow> registry result" where
  "insert_protocol_snapshot s db =
     (if find_protocol db (st_task_id s) \<noteq> None then Inl unique_key
      else if find_task db (st_task_id s) = None
        \<or> \<not> worker_ref_ok db (st_current_worker_id s)
        \<or> \<not> worker_ref_ok db (st_handoff_target_worker_id s)
        \<or> \<not> task_ref_ok db (tl_parent_task_id (st_lineage s))
        \<or> \<not> task_ref_ok db (Some (tl_root_task_id (st_lineage s)))
      then Inl foreign_key
      else foldr_result upsert_protocol_lease (st_workers s)
             (db\<lparr>db_protocol := db_protocol db @ [task_values s]\<rparr>))"

definition bootstrap_worker_protocol ::
  "registry \<Rightarrow> string \<Rightarrow> string option \<Rightarrow> string option \<Rightarrow> string option
     \<Rightarrow> registry \<times> worker_task_state result" where
  "bootstrap_worker_protocol db t parent root_id child_key =
     transaction db
       (if protocol_state_exists db t
        then rbind (load_worker_protocol db t) (\<lambda>s.
             rbind (require_requested_lineage s parent root_id child_key) (\<lambda>_. Inr (db, s)))
        else case find_task db t of
          None \<Rightarrow> Inl (KeyError (''unknown task: '' @ t))
        | Some task \<Rightarrow>
            rbind (resolve_lineage db t parent root_id child_key) (\<lambda>lineage.
            rbind (state_from_legacy task (task_workers db t) lineage) (\<lambda>s.
            rbind (insert_protocol_snapshot s db) (\<lambda>db'. Inr (db', s)))))"

section \<open>The event history\<close>

definition event_from_row :: "protocol_event_row \<Rightarrow> protocol_event result" where
  "event_from_row r = (case ek_of (pe_kind r) of
     None \<Rightarrow> Inl (ValueError (pe_kind r))
   | Some k \<Rightarrow> Inr \<lparr>ev_kind = k, ev_task_id = pe_task_id r, ev_revision = pe_revision r,
       ev_at = pe_at r, ev_worker_id = pe_worker_id r, ev_generation = pe_generation r,
       ev_related_worker_id = pe_related_worker_id r, ev_ref = pe_ref r\<rparr>)"

definition worker_protocol_events :: "registry \<Rightarrow> string \<Rightarrow> int \<Rightarrow> protocol_event list result" where
  "worker_protocol_events db t limit =
     map_result event_from_row
       (take (nat (max 1 (min limit 2000)))
         (sort_key pe_revision (sort_key pe_event_index
           (filter (\<lambda>r. pe_task_id r = t) (db_events db)))))"

section \<open>The registry's protocol methods\<close>

text \<open>The wrappers of \<^verbatim>\<open>registry.py\<close>; \<open>fresh_id\<close> stands for the generated
  \<^verbatim>\<open>worker_<uuid>\<close> that a missing or empty \<^verbatim>\<open>worker_id\<close> is replaced by, and the clock is an argument.\<close>

definition protocol_register_worker ::
  "registry \<Rightarrow> string \<Rightarrow> string \<Rightarrow> int \<Rightarrow> string option \<Rightarrow> string \<Rightarrow> timestamp
     \<Rightarrow> registry \<times> protocol_decision result" where
  "protocol_register_worker db t conversation_url expected worker_id fresh_id now =
     (let url = strip conversation_url;
          w = (if worker_id \<in> {None, Some []} then fresh_id else the worker_id) in
      if url = [] then (db, Inl (ValueError ''conversation_url must be non-empty''))
      else apply_worker_protocol_transition db t expected
             (\<lambda>s. register_worker s w (Some url) now expected))"

definition protocol_claim_worker where
  "protocol_claim_worker db t w expected lease_seconds now =
     apply_worker_protocol_transition db t expected
       (\<lambda>s. claim_worker s w now lease_seconds expected)"

definition protocol_heartbeat_worker where
  "protocol_heartbeat_worker db t w g expected lease_seconds now =
     apply_worker_protocol_transition db t expected
       (\<lambda>s. heartbeat_worker s w g now lease_seconds expected)"

definition protocol_request_handoff where
  "protocol_request_handoff db t w target g expected now =
     apply_worker_protocol_transition db t expected
       (\<lambda>s. request_handoff s w target g now expected)"

definition protocol_takeover_worker where
  "protocol_takeover_worker db t w expected lease_seconds now =
     apply_worker_protocol_transition db t expected
       (\<lambda>s. takeover_worker s w now lease_seconds expected)"

definition protocol_complete_worker where
  "protocol_complete_worker db t w g expected now =
     apply_worker_protocol_transition db t expected (\<lambda>s. complete_worker s w g now expected)"

definition protocol_abandon_worker where
  "protocol_abandon_worker db t w g expected now =
     apply_worker_protocol_transition db t expected (\<lambda>s. abandon_worker s w g now expected)"

definition protocol_complete_task where
  "protocol_complete_task db t completion_ref expected now =
     apply_worker_protocol_transition db t expected
       (\<lambda>s. complete_task s completion_ref now expected)"

end
