(* ===== verification/Persistence_Refinement.thy ===== *)
theory Persistence_Refinement
  imports Worker_Persistence
begin

text \<open>
  The registry implements the pure protocol. \<open>load_iff\<close> reads the executable load as a predicate on
  the tables; the three loops of the commit are characterised by what a primary-key lookup returns
  afterwards; together they give that a committed transition reloads to exactly the decided snapshot.
\<close>

section \<open>The load as a predicate\<close>

lemma lease_from_row_iff:
  "lease_from_row r = Inr w \<longleftrightarrow> r = lease_values w \<and> wl_conversation_ref w \<noteq> None"
  by (cases r; cases w)
    (auto simp: lease_from_row_def lease_values_def dest!: wl_status_of_SomeD split: option.splits)

lemma map_lease_from_row_iff:
  "map_result lease_from_row rs = Inr ws
    \<longleftrightarrow> rs = map lease_values ws \<and> (\<forall>w \<in> set ws. wl_conversation_ref w \<noteq> None)"
  unfolding map_result_Inr_iff lease_from_row_iff
  by (induction rs arbitrary: ws) (auto simp: list_all2_Cons1)

definition row_matches :: "string set \<Rightarrow> worker_row \<Rightarrow> worker_lease \<Rightarrow> bool" where
  "row_matches ids row l \<longleftrightarrow> wr_task_id row = wl_task_id l
     \<and> wl_conversation_ref l = Some (wr_conversation_url row)
     \<and> wr_started_at row = wl_registered_at l
     \<and> wr_status row = ws_value (legacy_status (wl_status l))
     \<and> (retired_status (wl_status l) \<longrightarrow> wr_ended_at row \<noteq> None)
     \<and> (\<forall>v. wl_superseded_by l = Some v \<longrightarrow> v \<in> ids)"

lemma lease_matches_row_iff: "lease_matches_row ids row l = Inr u \<longleftrightarrow> row_matches ids row l"
  by (auto simp: lease_matches_row_def row_matches_def retired_status_def split: option.splits)

definition task_agrees :: "task_row \<Rightarrow> worker_task_state \<Rightarrow> bool" where
  "task_agrees task s \<longleftrightarrow> tr_current_worker_id task = st_current_worker_id s
     \<and> (if st_task_status s = DT_COMPLETED then tr_state task = ss_value SS_COMPLETED
        else tr_state task \<notin> {ss_value SS_COMPLETED, ss_value SS_ABANDONED})"

definition legacy_agrees :: "registry \<Rightarrow> worker_task_state \<Rightarrow> bool" where
  "legacy_agrees db s \<longleftrightarrow>
     (\<exists>task. find_task db (st_task_id s) = Some task \<and> task_agrees task s)
     \<and> (\<forall>w. (\<exists>r. find_worker db w = Some r \<and> wr_task_id r = st_task_id s)
            \<longleftrightarrow> w \<in> wl_worker_id ` set (st_workers s))
     \<and> (\<forall>l \<in> set (st_workers s). \<exists>r. find_worker db (wl_worker_id l) = Some r
          \<and> row_matches (wl_worker_id ` set (st_workers s)) r l)"

lemma foldr_result_unit:
  "foldr_result (\<lambda>x _. f x) xs () = Inr () \<longleftrightarrow> (\<forall>x \<in> set xs. f x = Inr ())"
  by (induction xs) auto

lemma set_task_workers [simp]: "set (task_workers db t) = {r \<in> set (db_workers db). wr_task_id r = t}"
  by (auto simp: task_workers_def)

lemma tbl_ok_filter: "tbl_ok key rs \<Longrightarrow> tbl_ok key (filter P rs)"
  by (simp add: tbl_ok_def distinct_map_filter)

lemma tbl_ok_task_workers: "tbl_ok wr_worker_id (db_workers db) \<Longrightarrow> tbl_ok wr_worker_id (task_workers db t)"
  using tbl_ok_filter [of wr_worker_id] by (simp add: tbl_ok_def task_workers_def)

lemma find_task_workers:
  assumes "tbl_ok wr_worker_id (db_workers db)"
  shows "tbl_find wr_worker_id w (task_workers db t) = Some r
    \<longleftrightarrow> find_worker db w = Some r \<and> wr_task_id r = t"
  using assms tbl_ok_task_workers [OF assms, of t]
  by (auto simp: tbl_find_Some_iff find_worker_def)

lemma task_worker_ids:
  assumes "tbl_ok wr_worker_id (db_workers db)"
  shows "wr_worker_id ` {r \<in> set (db_workers db). wr_task_id r = t}
    = {w. \<exists>r. find_worker db w = Some r \<and> wr_task_id r = t}"
  using assms by (auto simp: find_worker_def tbl_find_Some_iff)

lemma legacy_rows_iff:
  assumes ok: "tbl_ok wr_worker_id (db_workers db)"
    and task: "\<And>l. l \<in> set ls \<Longrightarrow> wl_task_id l = t"
  shows "(\<forall>l \<in> set ls. (case tbl_find wr_worker_id (wl_worker_id l) (task_workers db t) of
            None \<Rightarrow> Inl (KeyError (wl_worker_id l)) | Some row \<Rightarrow> lease_matches_row ids row l) = Inr ())
    \<longleftrightarrow> (\<forall>l \<in> set ls. \<exists>r. find_worker db (wl_worker_id l) = Some r \<and> row_matches ids r l)"
proof (rule ball_cong [OF refl])
  fix l assume "l \<in> set ls"
  then have t: "wl_task_id l = t" by (rule task)
  have "(case tbl_find wr_worker_id (wl_worker_id l) (task_workers db t) of
            None \<Rightarrow> Inl (KeyError (wl_worker_id l)) | Some row \<Rightarrow> lease_matches_row ids row l) = Inr ()
    \<longleftrightarrow> (\<exists>r. tbl_find wr_worker_id (wl_worker_id l) (task_workers db t) = Some r \<and> row_matches ids r l)"
    by (auto simp: lease_matches_row_iff split: option.splits)
  also have "\<dots> \<longleftrightarrow> (\<exists>r. find_worker db (wl_worker_id l) = Some r \<and> row_matches ids r l)"
    using t by (auto simp: find_task_workers [OF ok] row_matches_def)
  finally show "((case tbl_find wr_worker_id (wl_worker_id l) (task_workers db t) of
            None \<Rightarrow> Inl (KeyError (wl_worker_id l)) | Some row \<Rightarrow> lease_matches_row ids row l) = Inr ())
    = (\<exists>r. find_worker db (wl_worker_id l) = Some r \<and> row_matches ids r l)" .
qed

lemma validate_legacy_consistency_iff:
  assumes ok: "tbl_ok wr_worker_id (db_workers db)" and r: "roster_ok s"
  shows "validate_legacy_consistency db s = Inr u \<longleftrightarrow> legacy_agrees db s"
proof (cases "find_task db (st_task_id s)")
  case None
  then show ?thesis by (simp add: validate_legacy_consistency_def legacy_agrees_def)
next
  case (Some task)
  have ids: "{w. \<exists>r. find_worker db w = Some r \<and> wr_task_id r = st_task_id s}
      = wl_worker_id ` set (st_workers s)
    \<longleftrightarrow> (\<forall>w. (\<exists>r. find_worker db w = Some r \<and> wr_task_id r = st_task_id s)
            \<longleftrightarrow> w \<in> wl_worker_id ` set (st_workers s))"
    by auto
  have rows: "\<And>l. l \<in> set (st_workers s) \<Longrightarrow> wl_task_id l = st_task_id s"
    using r by (simp add: roster_ok_def)
  show ?thesis
    using Some by (auto simp: validate_legacy_consistency_def legacy_agrees_def task_agrees_def Let_def
        foldr_result_unit legacy_rows_iff [OF ok rows] task_worker_ids [OF ok] ids)
qed

definition lineage_refs :: "registry \<Rightarrow> worker_task_state \<Rightarrow> bool" where
  "lineage_refs db s \<longleftrightarrow> find_task db (tl_root_task_id (st_lineage s)) \<noteq> None
     \<and> (\<forall>p. tl_parent_task_id (st_lineage s) = Some p \<longrightarrow> find_task db p \<noteq> None
          \<and> (\<forall>q. find_protocol db p = Some q \<longrightarrow> pt_root_task_id q = tl_root_task_id (st_lineage s)))"

lemma validate_lineage_references_iff: "validate_lineage_references db s = Inr u \<longleftrightarrow> lineage_refs db s"
  by (auto simp: validate_lineage_references_def lineage_refs_def Let_def split: option.splits)

definition stored :: "registry \<Rightarrow> worker_task_state \<Rightarrow> bool" where
  "stored db s \<longleftrightarrow> find_protocol db (st_task_id s) = Some (task_values s)
     \<and> task_leases db (st_task_id s) = map lease_values (st_workers s)
     \<and> (\<forall>w \<in> set (st_workers s). wl_conversation_ref w \<noteq> None)"

lemma invalid_snapshot_Inr [simp]: "invalid_snapshot m r = Inr x \<longleftrightarrow> r = Inr x"
  by (auto simp: invalid_snapshot_def split: sum.splits py_error.splits)

lemma load_iff:
  assumes ok: "tbl_ok wr_worker_id (db_workers db)"
  shows "load_worker_protocol db t = Inr s \<longleftrightarrow>
    st_task_id s = t \<and> stored db s \<and> wp_inv s \<and> lineage_refs db s \<and> legacy_agrees db s"
proof (cases "find_protocol db t")
  case None
  then show ?thesis by (auto simp: load_worker_protocol_def stored_def)
next
  case (Some row)
  have key: "pt_task_id row = t" using Some by (auto simp: find_protocol_def dest: tbl_find_SomeD)
  let ?mk = "\<lambda>status workers. \<lparr>st_lineage = \<lparr>tl_task_id = pt_task_id row,
       tl_parent_task_id = pt_parent_task_id row, tl_root_task_id = pt_root_task_id row,
       tl_child_key = pt_child_key row\<rparr>, st_revision = pt_revision row,
     st_generation = pt_generation row, st_task_status = status,
     st_current_worker_id = pt_current_worker_id row,
     st_handoff_target_worker_id = pt_handoff_target_worker_id row,
     st_handoff_requested_at = pt_handoff_requested_at row, st_workers = workers,
     st_completed_at = pt_completed_at row, st_completion_ref = pt_completion_ref row\<rparr>"
  have mk: "dt_of (pt_task_status row) = Some k \<and> s = ?mk k ws
      \<longleftrightarrow> row = task_values s \<and> st_task_status s = k \<and> st_workers s = ws" for k ws
    by (cases row; cases s; cases "st_lineage s")
      (auto simp: task_values_def st_task_id_def dest!: dt_of_SomeD)
  have "load_worker_protocol db t = Inr s \<longleftrightarrow>
      (\<exists>k ws. (dt_of (pt_task_status row) = Some k \<and> s = ?mk k ws)
        \<and> map_result lease_from_row (task_leases db t) = Inr ws
        \<and> validate_state s = Inr () \<and> lineage_refs db s
        \<and> validate_legacy_consistency db s = Inr ())"
    using Some unfolding load_worker_protocol_def
    by (auto simp: Let_def validate_lineage_references_iff split: option.splits)
  also have "\<dots> \<longleftrightarrow> row = task_values s
        \<and> task_leases db t = map lease_values (st_workers s)
        \<and> (\<forall>w \<in> set (st_workers s). wl_conversation_ref w \<noteq> None)
        \<and> wp_inv s \<and> lineage_refs db s \<and> legacy_agrees db s"
    unfolding mk map_lease_from_row_iff validate_state_iff
    by (auto simp: wp_inv_def validate_legacy_consistency_iff [OF ok])
  also have "\<dots> \<longleftrightarrow> st_task_id s = t \<and> stored db s \<and> wp_inv s \<and> lineage_refs db s \<and> legacy_agrees db s"
    using Some key by (auto simp: stored_def task_values_def)
  finally show ?thesis .
qed

section \<open>The loops of the commit\<close>

text \<open>The legacy row that the loop leaves for a lease.\<close>

definition synced_row :: "worker_row option \<Rightarrow> worker_lease \<Rightarrow> worker_row" where
  "synced_row old l = (case old of
     Some r \<Rightarrow> r\<lparr>wr_status := ws_value (legacy_status (wl_status l)),
                 wr_last_seen_at := wl_last_heartbeat_at l, wr_ended_at := wl_ended_at l\<rparr>
   | None \<Rightarrow> \<lparr>wr_worker_id = wl_worker_id l, wr_task_id = wl_task_id l,
       wr_conversation_url = the (wl_conversation_ref l), wr_conversation_id = None,
       wr_status = ws_value (legacy_status (wl_status l)), wr_started_at = wl_registered_at l,
       wr_last_seen_at = wl_last_heartbeat_at l, wr_ended_at = wl_ended_at l\<rparr>)"

text \<open>A lease whose legacy row exists in the same task, or a new candidate without one.\<close>

definition syncable :: "string \<Rightarrow> worker_row list \<Rightarrow> registry \<Rightarrow> worker_lease \<Rightarrow> bool" where
  "syncable t existing db l \<longleftrightarrow> wl_task_id l = t \<and>
     ((\<exists>r. find_worker db (wl_worker_id l) = Some r
          \<and> tbl_find wr_worker_id (wl_worker_id l) existing = Some r \<and> wr_task_id r = t
          \<and> wl_conversation_ref l = Some (wr_conversation_url r))
      \<or> (find_worker db (wl_worker_id l) = None
          \<and> tbl_find wr_worker_id (wl_worker_id l) existing = None
          \<and> wl_status l = WL_CANDIDATE \<and> wl_conversation_ref l \<notin> {None, Some []}))"

definition same_but_workers :: "registry \<Rightarrow> registry \<Rightarrow> bool" where
  "same_but_workers db db' \<longleftrightarrow>
     db' = db\<lparr>db_workers := db_workers db', db_bindings := db_bindings db'\<rparr>"

lemma same_but_workers_trans:
  "same_but_workers a b \<Longrightarrow> same_but_workers b c \<Longrightarrow> same_but_workers a c"
  unfolding same_but_workers_def by (cases a; cases b; cases c) simp

lemma same_but_workersD:
  assumes "same_but_workers db db'"
  shows "db_tasks db' = db_tasks db" and "db_protocol db' = db_protocol db"
    and "db_leases db' = db_leases db" and "db_events db' = db_events db"
  using assms [unfolded same_but_workers_def, THEN arg_cong, of db_tasks]
    assms [unfolded same_but_workers_def, THEN arg_cong, of db_protocol]
    assms [unfolded same_but_workers_def, THEN arg_cong, of db_leases]
    assms [unfolded same_but_workers_def, THEN arg_cong, of db_events] by simp_all

lemma guarded_update:
  assumes ok: "tbl_ok wr_worker_id rs" and r: "tbl_find wr_worker_id w rs = Some r" "wr_task_id r = t"
    and f: "\<And>x. wr_worker_id (f x) = wr_worker_id x"
  shows "map (\<lambda>x. if wr_worker_id x = w \<and> wr_task_id x = t then f x else x) rs
    = tbl_update wr_worker_id w f rs"
proof -
  have "x = r" if "x \<in> set rs" "wr_worker_id x = w" for x
    using that ok r(1) by (auto simp: tbl_find_Some_iff tbl_ok_def distinct_map dest: inj_onD)
  with r(2) show ?thesis by (auto simp: tbl_update_def)
qed

lemma sync_step:
  assumes ok: "tbl_ok wr_worker_id (db_workers db)" and s: "syncable t existing db l"
    and task: "find_task db t \<noteq> None"
  shows "\<exists>db'. sync_legacy_worker t existing l db = Inr db' \<and> same_but_workers db db'
    \<and> tbl_ok wr_worker_id (db_workers db')
    \<and> (\<forall>w. find_worker db' w = (if w = wl_worker_id l
          then Some (synced_row (find_worker db w) l) else find_worker db w))"
proof -
  let ?fin = "\<lambda>db'. if wl_status l \<noteq> WL_ACTIVE
        then db'\<lparr>db_bindings := tbl_delete wb_worker_id (wl_worker_id l) (db_bindings db')\<rparr> else db'"
  have fin: "db_workers (?fin d) = db_workers d" "find_worker (?fin d) w = find_worker d w" for d w
    by (simp_all add: find_worker_def)
  from s consider
      (old) r where "find_worker db (wl_worker_id l) = Some r"
        "tbl_find wr_worker_id (wl_worker_id l) existing = Some r" "wr_task_id r = t"
        "wl_task_id l = t" "wl_conversation_ref l = Some (wr_conversation_url r)"
    | (new) url where "find_worker db (wl_worker_id l) = None"
        "tbl_find wr_worker_id (wl_worker_id l) existing = None" "wl_task_id l = t"
        "wl_status l = WL_CANDIDATE" "wl_conversation_ref l = Some url" "url \<noteq> []"
    unfolding syncable_def by auto
  then show ?thesis
  proof cases
    case old
    let ?f = "\<lambda>x. x\<lparr>wr_status := ws_value (legacy_status (wl_status l)),
        wr_last_seen_at := wl_last_heartbeat_at l, wr_ended_at := wl_ended_at l\<rparr>"
    let ?db = "db\<lparr>db_workers := tbl_update wr_worker_id (wl_worker_id l) ?f (db_workers db)\<rparr>"
    have "sync_legacy_worker t existing l db = Inr (?fin ?db)"
      using old ok by (simp add: sync_legacy_worker_def find_worker_def guarded_update [where r = r])
    moreover have "same_but_workers db (?fin ?db)" by (simp add: same_but_workers_def)
    moreover have "tbl_ok wr_worker_id (db_workers (?fin ?db))" using ok by (simp add: fin tbl_ok_update)
    moreover have "find_worker (?fin ?db) w = (if w = wl_worker_id l
          then Some (synced_row (find_worker db w) l) else find_worker db w)" for w
      using old by (simp add: fin) (simp add: find_worker_def tbl_find_update synced_row_def)
    ultimately show ?thesis by blast
  next
    case new
    let ?r = "synced_row None l"
    let ?db = "db\<lparr>db_workers := db_workers db @ [?r]\<rparr>"
    have "sync_legacy_worker t existing l db = Inr (?fin ?db)"
      using new task by (simp add: sync_legacy_worker_def insert_worker_row_def synced_row_def)
    moreover have "same_but_workers db (?fin ?db)" by (simp add: same_but_workers_def)
    moreover have "tbl_ok wr_worker_id (db_workers (?fin ?db))"
      using ok new by (simp add: fin tbl_ok_snoc find_worker_def synced_row_def)
    moreover have "find_worker (?fin ?db) w = (if w = wl_worker_id l
          then Some (synced_row (find_worker db w) l) else find_worker db w)" for w
      using new by (simp add: fin)
        (auto simp: find_worker_def tbl_find_append synced_row_def split: option.split)
    ultimately show ?thesis by blast
  qed
qed

lemma distinct_ids_ne: "distinct (map wl_worker_id (l # ls)) \<Longrightarrow> k \<in> set ls \<Longrightarrow> wl_worker_id k \<noteq> wl_worker_id l"
  by simp (metis imageI)

lemma find_id_None:
  "distinct (map wl_worker_id (l # ls)) \<Longrightarrow> find (\<lambda>k. wl_worker_id k = wl_worker_id l) ls = None"
  using distinct_ids_ne [of l ls] by (auto simp: find_None_iff)

lemma sync_loop:
  assumes "tbl_ok wr_worker_id (db_workers db)" and "\<forall>l \<in> set ls. syncable t existing db l"
    and "find_task db t \<noteq> None" and "distinct (map wl_worker_id ls)"
  shows "\<exists>db'. foldr_result (sync_legacy_worker t existing) ls db = Inr db' \<and> same_but_workers db db'
    \<and> tbl_ok wr_worker_id (db_workers db')
    \<and> (\<forall>w. find_worker db' w = (case find (\<lambda>l. wl_worker_id l = w) ls of
          Some l \<Rightarrow> Some (synced_row (find_worker db w) l) | None \<Rightarrow> find_worker db w))"
  using assms
proof (induction ls arbitrary: db)
  case Nil
  then show ?case by (simp add: same_but_workers_def)
next
  case (Cons l ls)
  obtain d where d: "sync_legacy_worker t existing l db = Inr d" "same_but_workers db d"
      "tbl_ok wr_worker_id (db_workers d)"
      "\<And>w. find_worker d w = (if w = wl_worker_id l
          then Some (synced_row (find_worker db w) l) else find_worker db w)"
    using sync_step [of db t existing l] Cons.prems by auto
  have "\<forall>k \<in> set ls. syncable t existing d k"
  proof
    fix k assume k: "k \<in> set ls"
    then have "wl_worker_id k \<noteq> wl_worker_id l" by (rule distinct_ids_ne [OF Cons.prems(4)])
    with k Cons.prems(2) show "syncable t existing d k" by (simp add: syncable_def d(4))
  qed
  moreover have "find_task d t \<noteq> None"
    using Cons.prems same_but_workersD [OF d(2)] by (simp add: find_task_def)
  ultimately obtain e where e: "foldr_result (sync_legacy_worker t existing) ls d = Inr e"
      "same_but_workers d e" "tbl_ok wr_worker_id (db_workers e)"
      "\<And>w. find_worker e w = (case find (\<lambda>l. wl_worker_id l = w) ls of
          Some l \<Rightarrow> Some (synced_row (find_worker d w) l) | None \<Rightarrow> find_worker d w)"
    using Cons.IH [OF d(3)] Cons.prems by auto
  have nin: "find (\<lambda>k. wl_worker_id k = wl_worker_id l) ls = None"
    using Cons.prems(4) by (rule find_id_None)
  have "find_worker e w = (case find (\<lambda>l. wl_worker_id l = w) (l # ls) of
          Some l \<Rightarrow> Some (synced_row (find_worker db w) l) | None \<Rightarrow> find_worker db w)" for w
    using nin by (cases "w = wl_worker_id l") (auto simp: d(4) e(4) split: option.split)
  with d e show ?case by (auto intro: same_but_workers_trans)
qed

lemma upsert_loop:
  assumes "\<forall>l \<in> set ls. wl_conversation_ref l \<notin> {None, Some []} \<and> find_worker db (wl_worker_id l) \<noteq> None
      \<and> find_task db (wl_task_id l) \<noteq> None \<and> worker_ref_ok db (wl_superseded_by l)"
  shows "foldr_result upsert_protocol_lease ls db
    = Inr (db\<lparr>db_leases := fold (\<lambda>l. tbl_upsert pl_worker_id (lease_values l)) ls (db_leases db)\<rparr>)"
  using assms
proof (induction ls arbitrary: db)
  case (Cons l ls)
  let ?db = "db\<lparr>db_leases := tbl_upsert pl_worker_id (lease_values l) (db_leases db)\<rparr>"
  have "upsert_protocol_lease l db = Inr ?db"
    using Cons.prems by (auto simp: upsert_protocol_lease_def)
  moreover have "\<forall>k \<in> set ls. wl_conversation_ref k \<notin> {None, Some []} \<and> find_worker ?db (wl_worker_id k) \<noteq> None
      \<and> find_task ?db (wl_task_id k) \<noteq> None \<and> worker_ref_ok ?db (wl_superseded_by k)"
    using Cons.prems by (auto simp: find_worker_def find_task_def worker_ref_ok_def split: option.splits)
  ultimately show ?case using Cons.IH [of ?db] by simp
qed simp

lemma pl_worker_id_lease_values [simp]: "pl_worker_id (lease_values l) = wl_worker_id l"
  and pl_task_id_lease_values [simp]: "pl_task_id (lease_values l) = wl_task_id l"
  by (simp_all add: lease_values_def)

lemma find_upsert_loop:
  assumes "distinct (map wl_worker_id ls)"
  shows "tbl_find pl_worker_id w (fold (\<lambda>l. tbl_upsert pl_worker_id (lease_values l)) ls rs)
    = (case find (\<lambda>l. wl_worker_id l = w) ls of
         Some l \<Rightarrow> Some (lease_values l) | None \<Rightarrow> tbl_find pl_worker_id w rs)"
  using assms
proof (induction ls arbitrary: rs)
  case (Cons l ls)
  have "find (\<lambda>k. wl_worker_id k = wl_worker_id l) ls = None"
    using Cons.prems by (rule find_id_None)
  with Cons show ?case by (auto simp: tbl_find_upsert split: option.split)
qed simp

lemma tbl_ok_upsert_loop:
  "tbl_ok pl_worker_id rs \<Longrightarrow> tbl_ok pl_worker_id (fold (\<lambda>l. tbl_upsert pl_worker_id (lease_values l)) ls rs)"
  by (induction ls arbitrary: rs) (auto intro: tbl_ok_upsert)

text \<open>The rows of one revision's events, numbered from \<open>k\<close>.\<close>

fun event_rows :: "int \<Rightarrow> protocol_event list \<Rightarrow> protocol_event_row list" where
  "event_rows k [] = []"
| "event_rows k (e # es) = event_values e k # event_rows (k + 1) es"

lemma append_events_eq:
  assumes "\<forall>e \<in> set es. ev_task_id e = t \<and> ev_revision e = r" and "find_task db t \<noteq> None"
    and "\<forall>x \<in> set (db_events db). pe_task_id x = t \<and> pe_revision x = r \<longrightarrow> pe_event_index x < f r"
  shows "append_events f es db = Inr (db\<lparr>db_events := db_events db @ event_rows (f r) es\<rparr>)"
  using assms
proof (induction es arbitrary: db f)
  case (Cons e es)
  let ?row = "event_values e (f r)"
  let ?db = "db\<lparr>db_events := db_events db @ [?row]\<rparr>"
  have ev: "ev_task_id e = t" "ev_revision e = r" using Cons.prems by simp_all
  have "event_key ?row \<notin> set (map event_key (db_events db))"
    using Cons.prems(3) ev by (fastforce simp: event_key_def event_values_def)
  then have "append_events f (e # es) db = append_events (f(r := f r + 1)) es ?db"
    using Cons.prems(2) ev by (auto simp: Let_def)
  also have "\<dots> = Inr (?db\<lparr>db_events := db_events ?db @ event_rows (f r + 1) es\<rparr>)"
    using Cons.IH [of ?db "f(r := f r + 1)"] Cons.prems ev
    by (fastforce simp: find_task_def event_values_def)
  finally show ?case by simp
qed simp

section \<open>What a protocol step keeps of the roster\<close>

text \<open>The part of a lease that no step changes.\<close>

definition same_identity :: "worker_lease \<Rightarrow> worker_lease \<Rightarrow> bool" where
  "same_identity a b \<longleftrightarrow> wl_worker_id b = wl_worker_id a \<and> wl_task_id b = wl_task_id a
     \<and> wl_conversation_ref b = wl_conversation_ref a \<and> wl_registered_at b = wl_registered_at a"

definition roster_extends :: "worker_lease list \<Rightarrow> worker_lease list \<Rightarrow> bool" where
  "roster_extends ws vs \<longleftrightarrow> wl_worker_id ` set ws \<subseteq> wl_worker_id ` set vs
     \<and> (\<forall>v \<in> set vs. (\<exists>w \<in> set ws. same_identity w v)
          \<or> (wl_worker_id v \<notin> wl_worker_id ` set ws \<and> wl_status v = WL_CANDIDATE))"

text \<open>Closed leases have an end time, and whoever superseded one is in the roster.\<close>

definition roster_closed :: "worker_lease list \<Rightarrow> bool" where
  "roster_closed ws \<longleftrightarrow> (\<forall>w \<in> set ws. retired_status (wl_status w) \<longrightarrow> wl_ended_at w \<noteq> None)
     \<and> (\<forall>w \<in> set ws. \<forall>v. wl_superseded_by w = Some v \<longrightarrow> v \<in> wl_worker_id ` set ws)"

definition roster_sorted :: "worker_lease list \<Rightarrow> bool" where
  "roster_sorted ws \<longleftrightarrow> sorted (map wl_worker_id ws)"

lemma roster_sorted_sorted_workers [simp]: "roster_sorted (sorted_workers ws)"
  by (simp add: roster_sorted_def sorted_workers_def)

lemma roster_sorted_replace [simp]: "roster_sorted (replace_worker ws u)"
  by (simp add: replace_worker_def)

lemma same_identity_refl [simp]: "same_identity w w"
  by (simp add: same_identity_def)

lemma same_identity_in: "v \<in> set ws \<Longrightarrow> \<exists>w \<in> set ws. same_identity w v"
  by (rule bexI [where x = v]) simp_all

lemma roster_extends_refl [simp]: "roster_extends ws ws"
  by (auto simp: roster_extends_def intro: same_identity_in)

lemma roster_extends_replace:
  assumes "roster_extends ws vs" and "x \<in> set ws" and "same_identity x u"
  shows "roster_extends ws (replace_worker vs u)"
  using assms
  by (auto simp: roster_extends_def replace_worker_ids dest!: replace_worker_cases)

lemma roster_closed_replace:
  assumes "roster_closed ws" and "retired_status (wl_status u) \<longrightarrow> wl_ended_at u \<noteq> None"
    and "\<forall>v. wl_superseded_by u = Some v \<longrightarrow> v \<in> wl_worker_id ` set ws"
  shows "roster_closed (replace_worker ws u)"
  using assms by (auto simp: roster_closed_def replace_worker_ids dest!: replace_worker_cases)

lemma roster_closedD:
  "roster_closed ws \<Longrightarrow> x \<in> set ws \<Longrightarrow> wl_superseded_by x = Some v \<Longrightarrow> v \<in> wl_worker_id ` set ws"
  by (simp add: roster_closed_def)

lemma protocol_step_extends:
  assumes "protocol_step s es t"
  shows "roster_extends (st_workers s) (st_workers t)"
  using assms
proof (induction rule: protocol_step.induct)
  case (ps_register s x es now t)
  then show ?case by (auto simp: roster_extends_def intro: same_identity_in)
next
  case (ps_takeover s x y now l g es ref t)
  let ?u = "x\<lparr>wl_status := WL_SUPERSEDED, wl_ended_at := Some now,
      wl_superseded_by := Some (wl_worker_id y)\<rparr>"
  have a: "roster_extends (st_workers s) (replace_worker (st_workers s) ?u)"
    using ps_takeover by (intro roster_extends_replace [where x = x]) (simp_all add: same_identity_def)
  have "same_identity y (claimed_lease y g now l)" by (simp add: same_identity_def claimed_lease_def)
  with a have "roster_extends (st_workers s)
      (replace_worker (replace_worker (st_workers s) ?u) (claimed_lease y g now l))"
    by (rule roster_extends_replace [OF _ ps_takeover(3)])
  with ps_takeover show ?case by simp
qed (auto simp: has_authority_def same_identity_def claimed_lease_def end_current_def
    intro!: roster_extends_replace)

lemma protocol_step_sorted:
  assumes "protocol_step s es t" and "roster_sorted (st_workers s)"
  shows "roster_sorted (st_workers t)"
  using assms by (induction rule: protocol_step.induct) (auto simp: end_current_def)

lemma protocol_step_closed:
  assumes "protocol_step s es t" and "roster_closed (st_workers s)"
    and "\<forall>w \<in> set (st_workers t). wl_worker_id w \<notin> wl_worker_id ` set (st_workers s) \<longrightarrow>
      wl_superseded_by w = None"
  shows "roster_closed (st_workers t)"
  using assms
proof (induction rule: protocol_step.induct)
  case (ps_register s x es now t)
  then show ?case by (fastforce simp: roster_closed_def retired_status_def)
next
  case (ps_takeover s x y now l g es ref t)
  then have "roster_closed (replace_worker (st_workers s) (x\<lparr>wl_status := WL_SUPERSEDED,
      wl_ended_at := Some now, wl_superseded_by := Some (wl_worker_id y)\<rparr>))"
    by (intro roster_closed_replace) auto
  with ps_takeover show ?case
    by (auto simp: claimed_lease_def retired_status_def replace_worker_ids
        intro!: roster_closed_replace dest: roster_closedD)
qed (auto simp: has_authority_def claimed_lease_def end_current_def
    retired_status_def intro!: roster_closed_replace dest: roster_closedD)

lemma protocol_step_task_id: "protocol_step s es t \<Longrightarrow> st_task_id t = st_task_id s"
  by (auto simp: st_task_id_def dest: protocol_step_frame)

lemma protocol_step_event_task:
  "protocol_step s es t \<Longrightarrow> e \<in> set es \<Longrightarrow> ev_task_id e = st_task_id s"
  by (induction rule: protocol_step.induct) (auto simp: stamped_def mk_event_def)

section \<open>Consistent registries\<close>

definition lease_row_ok :: "registry \<Rightarrow> protocol_lease_row \<Rightarrow> bool" where
  "lease_row_ok db r \<longleftrightarrow> pl_conversation_ref r \<noteq> []
     \<and> (\<exists>x. find_worker db (pl_worker_id r) = Some x \<and> wr_task_id x = pl_task_id r)
     \<and> (\<forall>k. pl_status r = wl_status_value k \<and> retired_status k \<longrightarrow> pl_ended_at r \<noteq> None)"

definition event_row_ok :: "registry \<Rightarrow> protocol_event_row \<Rightarrow> bool" where
  "event_row_ok db e \<longleftrightarrow>
     (\<exists>p. find_protocol db (pe_task_id e) = Some p \<and> pe_revision e \<le> pt_revision p)"

text \<open>What the registry's writers keep about the protocol tables.\<close>

definition db_consistent :: "registry \<Rightarrow> bool" where
  "db_consistent db \<longleftrightarrow> tbl_ok tr_task_id (db_tasks db) \<and> tbl_ok wr_worker_id (db_workers db)
     \<and> tbl_ok pt_task_id (db_protocol db) \<and> tbl_ok pl_worker_id (db_leases db)
     \<and> list_all (lease_row_ok db) (db_leases db) \<and> list_all (event_row_ok db) (db_events db)"

lemma stored_find_lease:
  assumes "tbl_ok pl_worker_id (db_leases db)" and "stored db s"
  shows "(\<exists>r. find_lease db w = Some r \<and> pl_task_id r = st_task_id s)
    \<longleftrightarrow> w \<in> wl_worker_id ` set (st_workers s)"
    and "l \<in> set (st_workers s) \<Longrightarrow> find_lease db (wl_worker_id l) = Some (lease_values l)"
proof -
  have "set (task_leases db (st_task_id s)) = lease_values ` set (st_workers s)"
    using assms(2) by (simp add: stored_def)
  then have eq: "{r \<in> set (db_leases db). pl_task_id r = st_task_id s} = lease_values ` set (st_workers s)"
    by (auto simp: task_leases_def)
  have "(\<exists>r. find_lease db w = Some r \<and> pl_task_id r = st_task_id s)
      \<longleftrightarrow> w \<in> pl_worker_id ` {r \<in> set (db_leases db). pl_task_id r = st_task_id s}"
    using assms(1) by (auto simp: find_lease_def tbl_find_Some_iff)
  then show "(\<exists>r. find_lease db w = Some r \<and> pl_task_id r = st_task_id s)
    \<longleftrightarrow> w \<in> wl_worker_id ` set (st_workers s)" unfolding eq by (simp add: image_image)
  assume "l \<in> set (st_workers s)"
  then have "lease_values l \<in> set (db_leases db)" using eq by auto
  then show "find_lease db (wl_worker_id l) = Some (lease_values l)"
    using assms(1) by (simp add: find_lease_def tbl_find_Some_iff)
qed

lemma stored_sorted: "stored db s \<Longrightarrow> roster_sorted (st_workers s)"
proof -
  assume "stored db s"
  then have "sorted (map pl_worker_id (map lease_values (st_workers s)))"
    unfolding stored_def task_leases_def by (metis sorted_sort_key)
  then show ?thesis by (simp add: roster_sorted_def comp_def)
qed

lemma stored_closed:
  assumes c: "db_consistent db" and st: "stored db s" and lg: "legacy_agrees db s"
  shows "roster_closed (st_workers s)"
    and "\<forall>w \<in> set (st_workers s). wl_conversation_ref w \<notin> {None, Some []}"
proof -
  have ok: "tbl_ok pl_worker_id (db_leases db)" using c by (simp add: db_consistent_def)
  have row: "lease_row_ok db (lease_values w)" if "w \<in> set (st_workers s)" for w
  proof -
    have "lease_values w \<in> set (db_leases db)"
      using stored_find_lease(2) [OF ok st that] by (auto simp: find_lease_def dest: tbl_find_SomeD)
    with c show ?thesis by (simp add: db_consistent_def list_all_iff)
  qed
  show "roster_closed (st_workers s)"
    using row lg by (fastforce simp: roster_closed_def lease_row_ok_def lease_values_def legacy_agrees_def
        row_matches_def)
  show "\<forall>w \<in> set (st_workers s). wl_conversation_ref w \<notin> {None, Some []}"
    using row st by (fastforce simp: lease_row_ok_def lease_values_def stored_def)
qed

text \<open>The guarded update of the protocol row.\<close>

lemma cas_protocol_row_eq:
  assumes "tbl_ok pt_task_id (db_protocol db)" and "find_protocol db (st_task_id s) = Some p"
    and "pt_revision p = e"
    and "worker_ref_ok db (st_current_worker_id s)" "worker_ref_ok db (st_handoff_target_worker_id s)"
    and "task_ref_ok db (tl_parent_task_id (st_lineage s))"
    and "task_ref_ok db (Some (tl_root_task_id (st_lineage s)))"
  shows "cas_protocol_row s e db
    = Inr (db\<lparr>db_protocol := tbl_update pt_task_id (st_task_id s) (\<lambda>_. task_values s) (db_protocol db)\<rparr>)"
proof -
  have p: "p \<in> set (db_protocol db)" "pt_task_id p = st_task_id s"
    using assms(1,2) by (auto simp: find_protocol_def tbl_find_Some_iff)
  have uniq: "r = p" if "r \<in> set (db_protocol db)" "pt_task_id r = st_task_id s" for r
    using that p by (metis assms(1) tbl_ok_uniq)
  have "filter (\<lambda>r. pt_task_id r = st_task_id s \<and> pt_revision r = e) (db_protocol db) = [p]"
    unfolding filter_eq_singleton_iff [OF tbl_ok_distinct [OF assms(1)]] using assms(3) p uniq by blast
  moreover have "map (\<lambda>r. if pt_task_id r = st_task_id s \<and> pt_revision r = e then task_values s else r)
      (db_protocol db) = tbl_update pt_task_id (st_task_id s) (\<lambda>_. task_values s) (db_protocol db)"
    using assms(3) uniq by (auto simp: tbl_update_def)
  ultimately show ?thesis using assms(4-7) by (simp add: cas_protocol_row_def Let_def)
qed

text \<open>A load depends only on the rows of its own task, on which tasks exist, and on the roots of other
  protocol rows.\<close>

lemma rbind_cong: "(\<And>x. r = Inr x \<Longrightarrow> f x = g x) \<Longrightarrow> rbind r f = rbind r g"
  by (cases r) auto

lemma load_cong:
  assumes "find_protocol db' t = find_protocol db t" and "task_leases db' t = task_leases db t"
    and "task_workers db' t = task_workers db t" and "find_task db' t = find_task db t"
    and "\<And>u. find_task db' u = None \<longleftrightarrow> find_task db u = None"
    and "\<And>u. map_option pt_root_task_id (find_protocol db' u) = map_option pt_root_task_id (find_protocol db u)"
    and "\<And>p. find_protocol db t = Some p \<Longrightarrow> pt_task_id p = t"
  shows "load_worker_protocol db' t = load_worker_protocol db t"
proof -
  have roots: "(case find_protocol db' u of None \<Rightarrow> a | Some q \<Rightarrow> f (pt_root_task_id q))
      = (case find_protocol db u of None \<Rightarrow> a | Some q \<Rightarrow> f (pt_root_task_id q))"
    for u and a :: "unit result" and f
    using assms(6) [of u] by (auto split: option.splits)
  have lin: "validate_lineage_references db' s = validate_lineage_references db s" for s
    by (auto simp: validate_lineage_references_def Let_def assms(5) roots
        [where f = "\<lambda>x. if x \<noteq> tl_root_task_id (st_lineage s) then _ else _"] split: option.splits)
  have leg: "validate_legacy_consistency db' s = validate_legacy_consistency db s"
    if "st_task_id s = t" for s
    by (simp only: validate_legacy_consistency_def that assms(3,4))
  show ?thesis
  proof (cases "find_protocol db t")
    case None
    with assms(1,4) show ?thesis by (simp add: load_worker_protocol_def)
  next
    case (Some row)
    with assms(7) have row: "pt_task_id row = t" by simp
    have "find_protocol db' t = Some row" using Some assms(1) by simp
    with Some show ?thesis
      unfolding load_worker_protocol_def
      by (auto simp: assms(2) lin Let_def st_task_id_def row split: option.splits
          intro!: rbind_cong leg [THEN arg_cong])
  qed
qed

section \<open>Committing a step\<close>

text \<open>The leases that a step adds are new to the whole registry and name a conversation.\<close>

definition newcomers_ok :: "registry \<Rightarrow> worker_task_state \<Rightarrow> worker_task_state \<Rightarrow> bool" where
  "newcomers_ok db s s' \<longleftrightarrow> (\<forall>l \<in> set (st_workers s'). wl_worker_id l \<notin> wl_worker_id ` set (st_workers s)
     \<longrightarrow> find_worker db (wl_worker_id l) = None \<and> wl_conversation_ref l \<notin> {None, Some []}
       \<and> wl_superseded_by l = None)"

text \<open>A lease of the new snapshot either continues one of the old, or is a newcomer.\<close>

lemma lease_origin [consumes 5, case_names old new]:
  assumes "legacy_agrees db s" and "roster_extends (st_workers s) (st_workers s')"
    and "newcomers_ok db s s'" and "l \<in> set (st_workers s')" and "roster_ok s'"
  obtains (old) k r where "k \<in> set (st_workers s)" "same_identity k l"
      "find_worker db (wl_worker_id l) = Some r" "wr_task_id r = wl_task_id l"
      "wl_conversation_ref l = Some (wr_conversation_url r)" "wr_started_at r = wl_registered_at l"
      "wl_worker_id l \<in> wl_worker_id ` set (st_workers s)"
    | (new) "wl_worker_id l \<notin> wl_worker_id ` set (st_workers s)" "wl_status l = WL_CANDIDATE"
        "find_worker db (wl_worker_id l) = None" "wl_conversation_ref l \<notin> {None, Some []}"
        "wl_superseded_by l = None"
proof -
  from assms(2,4) consider k where "k \<in> set (st_workers s)" "same_identity k l"
    | "wl_worker_id l \<notin> wl_worker_id ` set (st_workers s)" "wl_status l = WL_CANDIDATE"
    by (auto simp: roster_extends_def)
  then show thesis
  proof cases
    case (1 k)
    from assms(1) 1(1) obtain r where r: "find_worker db (wl_worker_id k) = Some r"
        "row_matches (wl_worker_id ` set (st_workers s)) r k"
      unfolding legacy_agrees_def by blast
    show thesis
      by (rule old [of k r]) (use 1 r in \<open>auto simp: same_identity_def row_matches_def\<close>)
  next
    case 2
    with assms(3,4) new show thesis by (auto simp: newcomers_ok_def)
  qed
qed

lemma synced_row_simps [simp]:
  "wr_task_id (synced_row None l) = wl_task_id l" "wr_worker_id (synced_row None l) = wl_worker_id l"
  "wr_task_id (synced_row (Some r) l) = wr_task_id r"
  "wr_worker_id (synced_row (Some r) l) = wr_worker_id r"
  by (simp_all add: synced_row_def)

lemma synced_matches:
  assumes lg: "legacy_agrees db s" and ext: "roster_extends (st_workers s) (st_workers s')"
    and new: "newcomers_ok db s s'" and r': "roster_ok s'" and cl: "roster_closed (st_workers s')"
    and l: "l \<in> set (st_workers s')"
  shows "row_matches (wl_worker_id ` set (st_workers s')) (synced_row (find_worker db (wl_worker_id l)) l) l"
    and "wr_task_id (synced_row (find_worker db (wl_worker_id l)) l) = st_task_id s'"
proof -
  have sup: "\<forall>v. wl_superseded_by l = Some v \<longrightarrow> v \<in> wl_worker_id ` set (st_workers s')"
    and fin: "retired_status (wl_status l) \<longrightarrow> wl_ended_at l \<noteq> None"
    using cl l by (auto simp: roster_closed_def)
  have tid: "wl_task_id l = st_task_id s'" using r' l by (simp add: roster_ok_def)
  from lg ext new l r' show "row_matches (wl_worker_id ` set (st_workers s'))
      (synced_row (find_worker db (wl_worker_id l)) l) l"
    by (cases rule: lease_origin) (use sup fin in \<open>auto simp: row_matches_def synced_row_def\<close>)
  from lg ext new l r' show "wr_task_id (synced_row (find_worker db (wl_worker_id l)) l) = st_task_id s'"
    by (cases rule: lease_origin) (use tid in auto)
qed

lemma find_in_filter:
  assumes "tbl_ok wr_worker_id (db_workers db)"
  shows "tbl_find wr_worker_id w (filter (\<lambda>r. wr_task_id r = t) (db_workers db)) =
    (case find_worker db w of None \<Rightarrow> None | Some r \<Rightarrow> if wr_task_id r = t then Some r else None)"
proof -
  have "tbl_find wr_worker_id w (filter (\<lambda>r. wr_task_id r = t) (db_workers db)) = Some r
      \<longleftrightarrow> find_worker db w = Some r \<and> wr_task_id r = t" for r
    using assms tbl_ok_filter [OF assms] by (auto simp: find_worker_def tbl_find_Some_iff)
  then show ?thesis by (intro option_eqI) (auto split: option.splits if_splits)
qed

lemma find_worker_by_id: "find (\<lambda>l. wl_worker_id l = w) (st_workers s) = worker_by_id s w"
  by (simp add: worker_by_id_def)

lemma sync_ok:
  assumes ok: "tbl_ok wr_worker_id (db_workers db)" and lg: "legacy_agrees db s"
    and ext: "roster_extends (st_workers s) (st_workers s')" and new: "newcomers_ok db s s'"
    and t: "st_task_id s' = st_task_id s" and r': "roster_ok s'" and cl: "roster_closed (st_workers s')"
  shows "\<exists>db1. sync_legacy_workers s' db = Inr db1 \<and> same_but_workers db db1
    \<and> tbl_ok wr_worker_id (db_workers db1)
    \<and> (\<forall>w. find_worker db1 w = (case worker_by_id s' w of
          Some l \<Rightarrow> Some (synced_row (find_worker db w) l) | None \<Rightarrow> find_worker db w))"
proof -
  let ?t = "st_task_id s'"
  let ?ex = "filter (\<lambda>r. wr_task_id r = ?t) (db_workers db)"
  have syn: "\<forall>l \<in> set (st_workers s'). syncable ?t ?ex db l"
  proof
    fix l assume l: "l \<in> set (st_workers s')"
    have tid: "wl_task_id l = ?t" using r' l by (simp add: roster_ok_def)
    from lg ext new l r' show "syncable ?t ?ex db l"
      by (cases rule: lease_origin) (use tid in \<open>auto simp: syncable_def find_in_filter [OF ok]\<close>)
  qed
  have task: "find_task db ?t \<noteq> None" using lg t by (auto simp: legacy_agrees_def)
  have dist: "distinct (map wl_worker_id (st_workers s'))" using r' by (simp add: roster_ok_def)
  obtain db1 where db1: "foldr_result (sync_legacy_worker ?t ?ex) (st_workers s') db = Inr db1"
      "same_but_workers db db1" "tbl_ok wr_worker_id (db_workers db1)"
      "\<And>w. find_worker db1 w = (case worker_by_id s' w of
          Some l \<Rightarrow> Some (synced_row (find_worker db w) l) | None \<Rightarrow> find_worker db w)"
    using sync_loop [OF ok syn task dist] unfolding find_worker_by_id by blast
  have ids: "(\<exists>r. find_worker db1 w = Some r \<and> wr_task_id r = ?t)
      \<longleftrightarrow> w \<in> wl_worker_id ` set (st_workers s')" for w
  proof (cases "worker_by_id s' w")
    case None
    then have w: "w \<notin> wl_worker_id ` set (st_workers s')" by (auto simp: worker_by_id_eq_None)
    then have "w \<notin> wl_worker_id ` set (st_workers s)" using ext by (auto simp: roster_extends_def)
    then have "\<not> (\<exists>r. find_worker db w = Some r \<and> wr_task_id r = ?t)"
      using lg t by (simp add: legacy_agrees_def)
    with None w show ?thesis by (simp add: db1(4))
  next
    case (Some l)
    then have "l \<in> set (st_workers s')" "wl_worker_id l = w" using worker_by_id_SomeD by blast+
    with Some synced_matches(2) [OF lg ext new r' cl] show ?thesis by (auto simp: db1(4))
  qed
  have "wr_worker_id ` {r \<in> set (db_workers db1). wr_task_id r = ?t} = wl_worker_id ` set (st_workers s')"
    unfolding task_worker_ids [OF db1(3)] using ids by auto
  then have "sync_legacy_workers s' db = Inr db1"
    using db1(1) by (simp add: sync_legacy_workers_def Let_def)
  with db1 show ?thesis by blast
qed

text \<open>The registry that the commit of a snapshot leaves: the synchronised worker rows \<open>db1\<close>, the task
  row, the protocol row, the leases and the appended events.\<close>

definition committed_db ::
  "registry \<Rightarrow> worker_task_state \<Rightarrow> string \<Rightarrow> timestamp \<Rightarrow> protocol_event list \<Rightarrow> registry" where
  "committed_db db1 s mapped upd es =
     db1\<lparr>db_tasks := tbl_update tr_task_id (st_task_id s) (\<lambda>r. r\<lparr>tr_current_worker_id :=
            st_current_worker_id s, tr_state := mapped, tr_updated_at := upd\<rparr>) (db_tasks db1),
         db_protocol := tbl_update pt_task_id (st_task_id s) (\<lambda>_. task_values s) (db_protocol db1),
         db_leases := fold (\<lambda>l. tbl_upsert pl_worker_id (lease_values l)) (st_workers s) (db_leases db1),
         db_events := db_events db1 @ event_rows 0 es\<rparr>"

lemma committed_db_finds:
  "find_task (committed_db db1 s m u es) x = (if x = st_task_id s
     then map_option (\<lambda>r. r\<lparr>tr_current_worker_id := st_current_worker_id s, tr_state := m,
            tr_updated_at := u\<rparr>) (find_task db1 x) else find_task db1 x)"
  "find_worker (committed_db db1 s m u es) w = find_worker db1 w"
  "find_protocol (committed_db db1 s m u es) x = (if x = st_task_id s
     then map_option (\<lambda>_. task_values s) (find_protocol db1 x) else find_protocol db1 x)"
  by (auto simp: committed_db_def find_task_def find_worker_def find_protocol_def tbl_find_update
      task_values_def)

lemma committed_db_find_lease:
  "distinct (map wl_worker_id (st_workers s)) \<Longrightarrow>
    find_lease (committed_db db1 s m u es) w = (case worker_by_id s w of
      Some l \<Rightarrow> Some (lease_values l) | None \<Rightarrow> find_lease db1 w)"
  by (simp add: committed_db_def find_lease_def find_upsert_loop find_worker_by_id split: option.split)

lemma roster_refs:
  assumes "wp_inv s"
  shows "st_current_worker_id s = Some c \<Longrightarrow> c \<in> wl_worker_id ` set (st_workers s)"
    and "st_handoff_target_worker_id s = Some c \<Longrightarrow> c \<in> wl_worker_id ` set (st_workers s)"
  using assms by (auto simp: wp_inv_def authority_ok_def handoff_ok_def)

lemma persist_decision_eq:
  assumes sync: "sync_legacy_workers (pd_state d) db = Inr db1" and same: "same_but_workers db db1"
    and c: "tbl_ok pt_task_id (db_protocol db)"
    and task: "find_task db (st_task_id (pd_state d)) = Some task"
    and p: "find_protocol db (st_task_id (pd_state d)) = Some p" "pt_revision p = e"
    and wk: "\<And>w. w \<in> wl_worker_id ` set (st_workers (pd_state d)) \<Longrightarrow> find_worker db1 w \<noteq> None"
    and inv: "wp_inv (pd_state d)" and cl: "roster_closed (st_workers (pd_state d))"
    and ref: "\<forall>l \<in> set (st_workers (pd_state d)). wl_conversation_ref l \<notin> {None, Some []}"
    and lin: "lineage_refs db (pd_state d)" "st_lineage s = st_lineage (pd_state d)"
    and ev: "\<forall>x \<in> set (pd_events d). ev_task_id x = st_task_id (pd_state d) \<and> ev_revision x = v"
    and old: "\<forall>x \<in> set (db_events db). pe_task_id x = st_task_id (pd_state d) \<longrightarrow> pe_revision x < v"
  shows "\<exists>m u. persist_decision s d e db = Inr (committed_db db1 (pd_state d) m u (pd_events d))
    \<and> m = (if st_task_status (pd_state d) = DT_COMPLETED then ss_value SS_COMPLETED else tr_state task)"
proof -
  let ?s = "pd_state d" let ?t = "st_task_id (pd_state d)"
  note eqs = same_but_workersD [OF same]
  have ft: "find_task db1 x = find_task db x" "find_protocol db1 x = find_protocol db x" for x
    by (simp_all add: find_task_def find_protocol_def eqs)
  define m where "m = (if st_task_status ?s = DT_COMPLETED then ss_value SS_COMPLETED else tr_state task)"
  define u where "u = max (tr_updated_at task) (Max (ev_at ` set (pd_events d)))"
  define d2 where "d2 = update_task_row ?t (\<lambda>r. r\<lparr>tr_current_worker_id := st_current_worker_id ?s,
      tr_state := m, tr_updated_at := u\<rparr>) db1"
  have f2: "find_worker d2 w = find_worker db1 w" "find_protocol d2 x = find_protocol db x"
      "find_task d2 x = None \<longleftrightarrow> find_task db x = None" "db_protocol d2 = db_protocol db"
      "db_events d2 = db_events db" for w x
    using eqs by (auto simp: d2_def update_task_row_def find_worker_def find_protocol_def find_task_def
        tbl_find_update)
  have cur: "worker_ref_ok d2 (st_current_worker_id ?s)" "worker_ref_ok d2 (st_handoff_target_worker_id ?s)"
    using roster_refs(1,2) [OF inv] wk by (auto simp: worker_ref_ok_def f2(1) split: option.split)
  have tref: "task_ref_ok d2 (tl_parent_task_id (st_lineage ?s))"
      "task_ref_ok d2 (Some (tl_root_task_id (st_lineage ?s)))"
    using lin(1) by (auto simp: task_ref_ok_def f2(3) lineage_refs_def split: option.split)
  define d3 where "d3 = d2\<lparr>db_protocol :=
      tbl_update pt_task_id ?t (\<lambda>_. task_values ?s) (db_protocol d2)\<rparr>"
  have f3: "find_worker d3 w = find_worker db1 w" "find_task d3 x = None \<longleftrightarrow> find_task db x = None"
      "db_events d3 = db_events db" "worker_ref_ok d3 r = worker_ref_ok db1 r" for w x r
    using f2 by (simp_all add: d3_def find_worker_def find_task_def worker_ref_ok_def split: option.split)
  have cas: "cas_protocol_row ?s e d2 = Inr d3"
    using cas_protocol_row_eq [of d2 ?s p e] c p cur tref by (simp add: f2(2,4) d3_def)
  define d4 where "d4 = d3\<lparr>db_leases :=
      fold (\<lambda>l. tbl_upsert pl_worker_id (lease_values l)) (st_workers ?s) (db_leases d3)\<rparr>"
  have f4: "find_task d4 x = None \<longleftrightarrow> find_task db x = None" "db_events d4 = db_events db" for x
    using f3 by (simp_all add: d4_def find_task_def)
  have ups: "foldr_result upsert_protocol_lease (st_workers ?s) d3 = Inr d4"
    unfolding d4_def
  proof (rule upsert_loop, rule ballI)
    fix l assume l: "l \<in> set (st_workers ?s)"
    have "find_task db (wl_task_id l) \<noteq> None"
      using l inv task by (simp add: wp_inv_def roster_ok_def)
    moreover have "worker_ref_ok db1 (wl_superseded_by l)"
      using roster_closedD [OF cl l] wk by (auto simp: worker_ref_ok_def split: option.split)
    ultimately show "wl_conversation_ref l \<notin> {None, Some []} \<and> find_worker d3 (wl_worker_id l) \<noteq> None
      \<and> find_task d3 (wl_task_id l) \<noteq> None \<and> worker_ref_ok d3 (wl_superseded_by l)"
      using l ref wk f3 by auto
  qed
  have "append_events (\<lambda>_. 0) (pd_events d) d4 = Inr (d4\<lparr>db_events := db_events d4 @ event_rows 0 (pd_events d)\<rparr>)"
  proof (rule append_events_eq [OF ev, where f = "\<lambda>_. 0"])
    show "find_task d4 ?t \<noteq> None" using task f4(1) [of ?t] by simp
    show "\<forall>x \<in> set (db_events d4). pe_task_id x = ?t \<and> pe_revision x = v \<longrightarrow> pe_event_index x < 0"
      using old f4(2) by auto
  qed
  moreover have "d4\<lparr>db_events := db_events d4 @ event_rows 0 (pd_events d)\<rparr>
      = committed_db db1 ?s m u (pd_events d)"
    by (simp add: committed_db_def update_task_row_def d4_def d3_def d2_def)
  ultimately have "persist_decision s d e db = Inr (committed_db db1 ?s m u (pd_events d))"
    using sync task cas ups lin(2) ft(1) [of ?t]
    by (simp add: persist_decision_def Let_def flip: m_def u_def d2_def)
  then have "persist_decision s d e db = Inr (committed_db db1 ?s m u (pd_events d))
    \<and> m = (if st_task_status ?s = DT_COMPLETED then ss_value SS_COMPLETED else tr_state task)"
    by (simp add: m_def)
  then show ?thesis by blast
qed

lemma set_by_find: "tbl_ok key rs \<Longrightarrow> x \<in> set rs \<longleftrightarrow> tbl_find key (key x) rs = Some x"
  by (simp add: tbl_find_Some_iff)

lemma task_workers_cong:
  assumes "tbl_ok wr_worker_id (db_workers db)" and "tbl_ok wr_worker_id (db_workers db')"
    and "\<And>w r. wr_task_id r = t \<Longrightarrow> find_worker db' w = Some r \<longleftrightarrow> find_worker db w = Some r"
  shows "task_workers db' t = task_workers db t"
  unfolding task_workers_def
proof (rule sort_key_eqI)
  show "set (filter (\<lambda>r. wr_task_id r = t) (db_workers db')) = set (filter (\<lambda>r. wr_task_id r = t) (db_workers db))"
    using assms(3) by (auto simp: set_by_find [OF assms(1)] set_by_find [OF assms(2)] simp flip: find_worker_def)
qed (use assms in \<open>simp_all add: tbl_ok_def distinct_map_filter\<close>)

lemma task_leases_cong:
  assumes "tbl_ok pl_worker_id (db_leases db)" and "tbl_ok pl_worker_id (db_leases db')"
    and "\<And>w r. pl_task_id r = t \<Longrightarrow> find_lease db' w = Some r \<longleftrightarrow> find_lease db w = Some r"
  shows "task_leases db' t = task_leases db t"
  unfolding task_leases_def
proof (rule sort_key_eqI)
  show "set (filter (\<lambda>r. pl_task_id r = t) (db_leases db')) = set (filter (\<lambda>r. pl_task_id r = t) (db_leases db))"
    using assms(3) by (auto simp: set_by_find [OF assms(1)] set_by_find [OF assms(2)] simp flip: find_lease_def)
qed (use assms in \<open>simp_all add: tbl_ok_def distinct_map_filter\<close>)

text \<open>The lease rows of a task are the values of a sorted roster as soon as lookups say so.\<close>

lemma task_leases_eqI:
  assumes ok: "tbl_ok pl_worker_id (db_leases db)" and r: "roster_ok s" and so: "roster_sorted (st_workers s)"
    and find: "\<And>w r. find_lease db w = Some r \<Longrightarrow> pl_task_id r = st_task_id s
      \<Longrightarrow> w \<in> wl_worker_id ` set (st_workers s)"
    and vals: "\<And>l. l \<in> set (st_workers s) \<Longrightarrow> find_lease db (wl_worker_id l) = Some (lease_values l)"
  shows "task_leases db (st_task_id s) = map lease_values (st_workers s)"
proof -
  let ?m = "map lease_values (st_workers s)"
  have "set (filter (\<lambda>r. pl_task_id r = st_task_id s) (db_leases db)) = set ?m" (is "?A = ?B")
  proof (intro equalityI subsetI)
    fix x assume "x \<in> ?A"
    then have x: "find_lease db (pl_worker_id x) = Some x" "pl_task_id x = st_task_id s"
      using ok by (auto simp: find_lease_def tbl_find_Some_iff)
    from find [OF this] obtain l where "l \<in> set (st_workers s)" "pl_worker_id x = wl_worker_id l" by auto
    with vals x show "x \<in> ?B" by fastforce
  next
    fix x assume "x \<in> ?B"
    then obtain l where l: "l \<in> set (st_workers s)" "x = lease_values l" by auto
    with vals have "find_lease db (wl_worker_id l) = Some x" by simp
    moreover have "wl_task_id l = st_task_id s" using r l by (simp add: roster_ok_def)
    ultimately show "x \<in> ?A" using l by (auto simp: find_lease_def dest: tbl_find_SomeD)
  qed
  moreover have "distinct (map pl_worker_id ?m)" using r by (simp add: roster_ok_def comp_def)
  moreover have "sort_key pl_worker_id ?m = ?m"
    using so by (simp add: sort_key_id_if_sorted roster_sorted_def comp_def)
  ultimately show ?thesis
    unfolding task_leases_def using ok
    by (metis (no_types, lifting) sort_key_eqI distinct_map_filter tbl_ok_def)
qed

text \<open>The commit of one protocol step: it succeeds, reloads to the decided snapshot, keeps the registry
  consistent and leaves every other task's load as it was.\<close>

lemma event_rows_revision:
  "x \<in> set (event_rows k es) \<Longrightarrow> \<exists>e \<in> set es. pe_task_id x = ev_task_id e \<and> pe_revision x = ev_revision e"
  by (induction es arbitrary: k) (auto simp: event_values_def)

lemma committed_loads:
  fixes db db1 s s' m u es
  defines "db' \<equiv> committed_db db1 s' m u es"
  assumes c: "db_consistent db" and st: "stored db s" and lg: "legacy_agrees db s"
    and lin: "lineage_refs db s'" and inv: "wp_inv s'"
    and ext: "roster_extends (st_workers s) (st_workers s')" and new: "newcomers_ok db s s'"
    and t: "st_task_id s' = st_task_id s" "st_lineage s' = st_lineage s"
    and cl: "roster_closed (st_workers s')" and so: "roster_sorted (st_workers s')"
    and refs: "\<forall>l \<in> set (st_workers s'). wl_conversation_ref l \<notin> {None, Some []}"
    and task: "find_task db (st_task_id s') = Some task"
    and m: "m = (if st_task_status s' = DT_COMPLETED then ss_value SS_COMPLETED else tr_state task)"
    and open_task: "st_task_status s' \<noteq> DT_COMPLETED \<Longrightarrow> st_task_status s \<noteq> DT_COMPLETED"
    and same: "same_but_workers db db1" and ok1: "tbl_ok wr_worker_id (db_workers db1)"
    and fw: "\<And>w. find_worker db1 w = (case worker_by_id s' w of
          Some l \<Rightarrow> Some (synced_row (find_worker db w) l) | None \<Rightarrow> find_worker db w)"
  shows "load_worker_protocol db' (st_task_id s') = Inr s'"
proof -
  note eqs = same_but_workersD [OF same]
  have r': "roster_ok s'" using inv by (simp add: wp_inv_def)
  have ok: "tbl_ok pl_worker_id (db_leases db)" using c by (simp add: db_consistent_def)
  have dist: "distinct (map wl_worker_id (st_workers s'))" using r' by (simp add: roster_ok_def)
  have p: "find_protocol db (st_task_id s') = Some (task_values s)" using st t by (simp add: stored_def)
  have fp: "find_protocol db1 x = find_protocol db x" "find_task db1 x = find_task db x"
      "find_lease db1 w = find_lease db w" for x w
    by (simp_all add: find_protocol_def find_task_def find_lease_def eqs)
  have fl: "find_lease db' w = (case worker_by_id s' w of
      Some l \<Rightarrow> Some (lease_values l) | None \<Rightarrow> find_lease db w)" for w
    unfolding db'_def by (simp add: committed_db_find_lease [OF dist] fp split: option.split)
  have fw': "find_worker db' w = find_worker db1 w" for w by (simp add: db'_def committed_db_finds)
  have mem: "worker_by_id s' w = Some l \<longleftrightarrow> l \<in> set (st_workers s') \<and> wl_worker_id l = w" for w l
    using r' by (simp add: worker_by_id_eq_Some)
  have tok: "tbl_ok pl_worker_id (db_leases db')"
    using ok by (simp add: db'_def committed_db_def eqs tbl_ok_upsert_loop)
  have "task_leases db' (st_task_id s') = map lease_values (st_workers s')"
  proof (rule task_leases_eqI [OF tok r' so])
    fix w r assume w: "find_lease db' w = Some r" "pl_task_id r = st_task_id s'"
    show "w \<in> wl_worker_id ` set (st_workers s')"
    proof (cases "worker_by_id s' w")
      case None
      with w fl have "find_lease db w = Some r" by simp
      with w t have "w \<in> wl_worker_id ` set (st_workers s)"
        using stored_find_lease(1) [OF ok st, of w] by auto
      with ext show ?thesis by (auto simp: roster_extends_def)
    next
      case (Some l)
      then show ?thesis using mem by auto
    qed
  next
    fix l assume "l \<in> set (st_workers s')"
    then have "worker_by_id s' (wl_worker_id l) = Some l" using mem by blast
    then show "find_lease db' (wl_worker_id l) = Some (lease_values l)" by (simp add: fl)
  qed
  moreover have "find_protocol db' (st_task_id s') = Some (task_values s')"
    using p by (simp add: db'_def committed_db_finds fp)
  ultimately have st': "stored db' s'" using refs by (auto simp: stored_def)
  have "legacy_agrees db' s'"
    unfolding legacy_agrees_def
  proof (intro conjI allI ballI)
    have ta: "task_agrees task s" using lg task t by (auto simp: legacy_agrees_def)
    show "\<exists>task. find_task db' (st_task_id s') = Some task \<and> task_agrees task s'"
      using task ta m open_task by (auto simp: db'_def committed_db_finds fp task_agrees_def)
    fix w
    show "(\<exists>r. find_worker db' w = Some r \<and> wr_task_id r = st_task_id s')
        \<longleftrightarrow> w \<in> wl_worker_id ` set (st_workers s')"
    proof (cases "worker_by_id s' w")
      case None
      then have w: "w \<notin> wl_worker_id ` set (st_workers s')" by (auto simp: worker_by_id_eq_None)
      then have "w \<notin> wl_worker_id ` set (st_workers s)" using ext by (auto simp: roster_extends_def)
      with lg t None w show ?thesis by (auto simp: legacy_agrees_def fw' fw)
    next
      case (Some l)
      then have l: "l \<in> set (st_workers s')" "wl_worker_id l = w" using mem by simp_all
      with Some synced_matches(2) [OF lg ext new r' cl l(1)] show ?thesis by (auto simp: fw' fw)
    qed
  next
    fix l assume l: "l \<in> set (st_workers s')"
    then have "worker_by_id s' (wl_worker_id l) = Some l" using mem by blast
    with synced_matches(1) [OF lg ext new r' cl l]
    show "\<exists>r. find_worker db' (wl_worker_id l) = Some r \<and> row_matches (wl_worker_id ` set (st_workers s')) r l"
      by (simp add: fw' fw)
  qed
  moreover have "lineage_refs db' s'"
    using lin p t by (auto simp: lineage_refs_def db'_def committed_db_finds fp task_values_def)
  moreover have "tbl_ok wr_worker_id (db_workers db')" using ok1 by (simp add: db'_def committed_db_def)
  ultimately show ?thesis using st' inv by (simp add: load_iff)
qed

lemma committed_others:
  fixes db db1 s s' m u es
  defines "db' \<equiv> committed_db db1 s' m u es"
  assumes c: "db_consistent db" and st: "stored db s" and lg: "legacy_agrees db s" and inv: "wp_inv s'"
    and ext: "roster_extends (st_workers s) (st_workers s')" and new: "newcomers_ok db s s'"
    and t: "st_task_id s' = st_task_id s" "st_lineage s' = st_lineage s"
    and cl: "roster_closed (st_workers s')"
    and same: "same_but_workers db db1" and ok1: "tbl_ok wr_worker_id (db_workers db1)"
    and fw: "\<And>w. find_worker db1 w = (case worker_by_id s' w of
          Some l \<Rightarrow> Some (synced_row (find_worker db w) l) | None \<Rightarrow> find_worker db w)"
    and x: "x \<noteq> st_task_id s"
  shows "load_worker_protocol db' x = load_worker_protocol db x"
proof (rule load_cong)
  note eqs = same_but_workersD [OF same]
  have r': "roster_ok s'" using inv by (simp add: wp_inv_def)
  have ok: "tbl_ok pl_worker_id (db_leases db)" "tbl_ok wr_worker_id (db_workers db)"
    using c by (simp_all add: db_consistent_def)
  have dist: "distinct (map wl_worker_id (st_workers s'))" using r' by (simp add: roster_ok_def)
  have p: "find_protocol db (st_task_id s) = Some (task_values s)" using st by (simp add: stored_def)
  have fp: "find_protocol db1 y = find_protocol db y" "find_task db1 y = find_task db y"
      "find_lease db1 w = find_lease db w" for y w
    by (simp_all add: find_protocol_def find_task_def find_lease_def eqs)
  have member: "l \<in> set (st_workers s')" "wl_worker_id l = w" if "worker_by_id s' w = Some l" for w l
    using that worker_by_id_SomeD by blast+
  show "find_protocol db' x = find_protocol db x" "find_task db' x = find_task db x"
    using x t by (simp_all add: db'_def committed_db_finds fp)
  show "find_task db' y = None \<longleftrightarrow> find_task db y = None" for y
    by (simp add: db'_def committed_db_finds fp)
  show "map_option pt_root_task_id (find_protocol db' y) = map_option pt_root_task_id (find_protocol db y)" for y
    using p t by (simp add: db'_def committed_db_finds fp task_values_def)
  show "pt_task_id q = x" if "find_protocol db x = Some q" for q
    using that by (auto simp: find_protocol_def dest: tbl_find_SomeD)
  have foreign: "find_worker db (wl_worker_id l) \<noteq> Some r"
    if "l \<in> set (st_workers s')" "wr_task_id r = x" for l r
    using lg ext new that(1) r'
    by (cases rule: lease_origin) (use that x t r' in \<open>auto simp: roster_ok_def\<close>)
  show "task_workers db' x = task_workers db x"
  proof (rule task_workers_cong)
    fix w and r :: worker_row assume "wr_task_id r = x"
    with foreign [OF member(1)] member(2) synced_matches(2) [OF lg ext new r' cl member(1)] x t
    show "find_worker db' w = Some r \<longleftrightarrow> find_worker db w = Some r"
      by (cases "worker_by_id s' w") (auto simp: db'_def committed_db_finds fw)
  qed (use ok ok1 in \<open>simp_all add: db'_def committed_db_def\<close>)
  show "task_leases db' x = task_leases db x"
  proof (rule task_leases_cong)
    fix w and r :: protocol_lease_row assume r: "pl_task_id r = x"
    have "find_lease db w \<noteq> Some r" if "worker_by_id s' w = Some l" for l
    proof
      assume "find_lease db w = Some r"
      then have "r \<in> set (db_leases db)" "pl_worker_id r = w"
        by (auto simp: find_lease_def dest: tbl_find_SomeD)
      with c r obtain q where "find_worker db w = Some q" "wr_task_id q = x"
        by (auto simp: db_consistent_def list_all_iff lease_row_ok_def)
      with foreign [OF member(1) [OF that]] member(2) [OF that] show False by blast
    qed
    moreover have "pl_task_id (lease_values l) \<noteq> x" if "worker_by_id s' w = Some l" for l
      using member(1) [OF that] r' x t by (simp add: roster_ok_def)
    ultimately show "find_lease db' w = Some r \<longleftrightarrow> find_lease db w = Some r"
      using r by (cases "worker_by_id s' w") (auto simp: db'_def committed_db_find_lease [OF dist] fp)
  qed (use ok in \<open>simp_all add: db'_def committed_db_def eqs tbl_ok_upsert_loop\<close>)
qed

lemma committed_consistent:
  fixes db db1 s s' m u es
  defines "db' \<equiv> committed_db db1 s' m u es"
  assumes c: "db_consistent db" and st: "stored db s" and lg: "legacy_agrees db s" and inv: "wp_inv s'"
    and ext: "roster_extends (st_workers s) (st_workers s')" and new: "newcomers_ok db s s'"
    and t: "st_task_id s' = st_task_id s"
    and cl: "roster_closed (st_workers s')"
    and refs: "\<forall>l \<in> set (st_workers s'). wl_conversation_ref l \<notin> {None, Some []}"
    and same: "same_but_workers db db1" and ok1: "tbl_ok wr_worker_id (db_workers db1)"
    and fw: "\<And>w. find_worker db1 w = (case worker_by_id s' w of
          Some l \<Rightarrow> Some (synced_row (find_worker db w) l) | None \<Rightarrow> find_worker db w)"
    and ev: "\<forall>e \<in> set es. ev_task_id e = st_task_id s' \<and> ev_revision e = st_revision s'"
    and rev: "st_revision s \<le> st_revision s'"
  shows "db_consistent db'"
proof -
  note eqs = same_but_workersD [OF same]
  have r': "roster_ok s'" using inv by (simp add: wp_inv_def)
  have ok: "tbl_ok pl_worker_id (db_leases db)" using c by (simp add: db_consistent_def)
  have dist: "distinct (map wl_worker_id (st_workers s'))" using r' by (simp add: roster_ok_def)
  have p: "find_protocol db (st_task_id s') = Some (task_values s)" using st t by (simp add: stored_def)
  have fp: "find_protocol db1 y = find_protocol db y" "find_lease db1 w = find_lease db w" for y w
    by (simp_all add: find_protocol_def find_lease_def eqs)
  have tok: "tbl_ok pl_worker_id (db_leases db')"
    using ok by (simp add: db'_def committed_db_def eqs tbl_ok_upsert_loop)
  have keeps: "\<exists>q. find_worker db' w = Some q \<and> wr_task_id q = wr_task_id r"
    if "find_worker db w = Some r" for w r
    using that by (auto simp: db'_def committed_db_finds fw split: option.split)
  have "lease_row_ok db' q" if q: "q \<in> set (db_leases db')" for q
  proof -
    from q tok have f: "find_lease db' (pl_worker_id q) = Some q" by (simp add: find_lease_def tbl_find_Some_iff)
    show ?thesis
    proof (cases "worker_by_id s' (pl_worker_id q)")
      case None
      with f have "find_lease db (pl_worker_id q) = Some q"
        by (simp add: db'_def committed_db_find_lease [OF dist] fp)
      then have "q \<in> set (db_leases db)" by (auto simp: find_lease_def dest: tbl_find_SomeD)
      with c have "lease_row_ok db q" by (simp add: db_consistent_def list_all_iff)
      with keeps show ?thesis by (fastforce simp: lease_row_ok_def)
    next
      case (Some l)
      with f have ql: "q = lease_values l"
        by (simp add: db'_def committed_db_find_lease [OF dist])
      have l: "l \<in> set (st_workers s')" using Some worker_by_id_SomeD by blast
      have "\<exists>x. find_worker db' (wl_worker_id l) = Some x \<and> wr_task_id x = wl_task_id l"
        using Some ql synced_matches(2) [OF lg ext new r' cl l] l r'
        by (simp add: db'_def committed_db_finds fw roster_ok_def)
      with ql refs cl l show ?thesis
        by (auto simp: lease_row_ok_def lease_values_def roster_closed_def split: option.split)
    qed
  qed
  moreover have "event_row_ok db' e" if e: "e \<in> set (db_events db')" for e
  proof -
    from e consider "e \<in> set (db_events db)" | "e \<in> set (event_rows 0 es)"
      by (auto simp: db'_def committed_db_def eqs)
    then show ?thesis
    proof cases
      case 1
      then have "event_row_ok db e" using c by (simp add: db_consistent_def list_all_iff)
      with p rev show ?thesis
        by (auto simp: event_row_ok_def db'_def committed_db_finds fp task_values_def)
    next
      case 2
      then have "pe_task_id e = st_task_id s'" "pe_revision e = st_revision s'"
        using event_rows_revision [OF 2] ev by auto
      with p show ?thesis by (simp add: event_row_ok_def db'_def committed_db_finds fp task_values_def)
    qed
  qed
  moreover have "tbl_ok tr_task_id (db_tasks db')" "tbl_ok wr_worker_id (db_workers db')"
      "tbl_ok pt_task_id (db_protocol db')"
    using c ok1 by (simp_all add: db'_def committed_db_def eqs db_consistent_def tbl_ok_update task_values_def)
  ultimately show ?thesis using tok by (simp add: db_consistent_def list_all_iff)
qed

section \<open>The transaction\<close>

lemma accept_state: "accept s cand code evs = Inr d \<Longrightarrow> pd_state d = cand\<lparr>st_revision := st_revision s + 1\<rparr>"
  by (auto simp: accept_def Let_def split: sum.splits)

lemma reject_state [simp]: "pd_state (reject s code) = s"
  by (simp add: reject_def)

lemma preflight_state: "preflight s e = Inr (Some d) \<Longrightarrow> pd_state d = s"
  by (auto simp: preflight_def split: sum.splits if_splits)

lemma authority_rejection_state: "authority_rejection s w g now = Some d \<Longrightarrow> pd_state d = s"
  by (auto simp: authority_rejection_def split: if_splits option.splits)

lemma replace_worker_in: "x \<in> set (replace_worker ws u) \<Longrightarrow> wl_worker_id x \<in> wl_worker_id ` set ws"
  using replace_worker_ids [of ws u] by blast

lemmas call_states = accept_state preflight_state authority_rejection_state

text \<open>Only a registration adds a lease, and it adds the one it was called with.\<close>

lemma same_ids_calls:
  "claim_worker s w now l e = Inr d \<Longrightarrow> wl_worker_id ` set (st_workers (pd_state d)) = wl_worker_id ` set (st_workers s)"
  "heartbeat_worker s w g now l e = Inr d \<Longrightarrow> wl_worker_id ` set (st_workers (pd_state d)) = wl_worker_id ` set (st_workers s)"
  "request_handoff s w v g now e = Inr d \<Longrightarrow> wl_worker_id ` set (st_workers (pd_state d)) = wl_worker_id ` set (st_workers s)"
  "complete_worker s w g now e = Inr d \<Longrightarrow> wl_worker_id ` set (st_workers (pd_state d)) = wl_worker_id ` set (st_workers s)"
  "abandon_worker s w g now e = Inr d \<Longrightarrow> wl_worker_id ` set (st_workers (pd_state d)) = wl_worker_id ` set (st_workers s)"
  "complete_task s r now e = Inr d \<Longrightarrow> wl_worker_id ` set (st_workers (pd_state d)) = wl_worker_id ` set (st_workers s)"
  by (auto simp: claim_worker_def heartbeat_worker_def request_handoff_def complete_worker_def
      abandon_worker_def complete_task_def Let_def end_current_def replace_worker_ids
      simp del: set_replace_worker dest!: call_states dest: replace_worker_in split: sum.splits option.splits if_splits)

lemma same_ids_takeover:
  "takeover_worker s w now l e = Inr d \<Longrightarrow> wl_worker_id ` set (st_workers (pd_state d)) = wl_worker_id ` set (st_workers s)"
  unfolding takeover_worker_def
  by (auto simp: Let_def replace_worker_ids dest!: call_states simp del: set_replace_worker del: equalityI
      split: sum.splits option.splits if_splits takeover_reason.splits)

lemma register_newcomer:
  assumes "register_worker s w cref now e = Inr d" and "l \<in> set (st_workers (pd_state d))"
    and "wl_worker_id l \<notin> wl_worker_id ` set (st_workers s)"
  shows "wl_worker_id l = strip w \<and> wl_conversation_ref l = cref \<and> wl_superseded_by l = None"
  using assms
  by (auto simp: register_worker_def Let_def dest!: call_states split: sum.splits option.splits if_splits)

text \<open>What the registry's wrappers guarantee of a registration: a conversation is named, and the id is
  not in use by a worker of another task.\<close>

fun call_fits :: "registry \<Rightarrow> string \<Rightarrow> protocol_call \<Rightarrow> bool" where
  "call_fits db t (Register w cref now e) = (cref \<notin> {None, Some []}
     \<and> (case find_worker db (strip w) of None \<Rightarrow> True | Some r \<Rightarrow> wr_task_id r = t))"
| "call_fits db t _ = True"

lemma no_newcomers:
  "wl_worker_id ` set (st_workers s') = wl_worker_id ` set (st_workers s) \<Longrightarrow> newcomers_ok db s s'"
  unfolding newcomers_ok_def by (metis imageI)

lemma perform_newcomers_ok:
  assumes d: "perform c s = Inr d" and fits: "call_fits db (st_task_id s) c" and lg: "legacy_agrees db s"
  shows "newcomers_ok db s (pd_state d)"
proof (cases c)
  case (Register w cref now e)
  have "find_worker db (wl_worker_id l) = None"
    if "wl_worker_id l \<notin> wl_worker_id ` set (st_workers s)" "wl_worker_id l = strip w" for l
  proof -
    have "\<not> (\<exists>r. find_worker db (strip w) = Some r \<and> wr_task_id r = st_task_id s)"
      using lg that by (auto simp: legacy_agrees_def)
    with fits Register that show ?thesis by (auto split: option.splits)
  qed
  with Register d fits register_newcomer [of s w cref now e d] show ?thesis
    by (fastforce simp: newcomers_ok_def)
qed (use d in \<open>auto intro!: no_newcomers dest: same_ids_calls same_ids_takeover\<close>)

lemma events_before:
  assumes "db_consistent db" and "stored db s"
  shows "\<forall>x \<in> set (db_events db). pe_task_id x = st_task_id s \<longrightarrow> pe_revision x < st_revision s + 1"
  using assms by (fastforce simp: db_consistent_def list_all_iff event_row_ok_def stored_def task_values_def)

lemma commit_step:
  assumes c: "db_consistent db" and ld: "load_worker_protocol db t = Inr s"
    and step: "protocol_step s (pd_events d) (pd_state d)" and new: "newcomers_ok db s (pd_state d)"
  shows "\<exists>db'. persist_decision s d (st_revision s) db = Inr db'
    \<and> load_worker_protocol db' t = Inr (pd_state d) \<and> db_consistent db'
    \<and> (\<forall>x. x \<noteq> t \<longrightarrow> load_worker_protocol db' x = load_worker_protocol db x)"
proof -
  let ?s = "pd_state d"
  have okw: "tbl_ok wr_worker_id (db_workers db)" and okp: "tbl_ok pt_task_id (db_protocol db)"
    using c by (simp_all add: db_consistent_def)
  from ld have t: "st_task_id s = t" and st: "stored db s" and inv: "wp_inv s"
      and lin: "lineage_refs db s" and lg: "legacy_agrees db s"
    by (auto simp: load_iff [OF okw])
  have fr: "st_lineage ?s = st_lineage s" "st_revision ?s = st_revision s + 1"
    using protocol_step_frame [OF step] by simp_all
  have t': "st_task_id ?s = st_task_id s" using protocol_step_task_id [OF step] .
  have inv': "wp_inv ?s" and r': "roster_ok ?s"
    using protocol_step_wp_inv [OF step inv] by (simp_all add: wp_inv_def)
  have ext: "roster_extends (st_workers s) (st_workers ?s)" by (rule protocol_step_extends [OF step])
  have so: "roster_sorted (st_workers ?s)" by (rule protocol_step_sorted [OF step stored_sorted [OF st]])
  have cl: "roster_closed (st_workers ?s)"
    by (rule protocol_step_closed [OF step stored_closed(1) [OF c st lg]])
      (use new in \<open>auto simp: newcomers_ok_def\<close>)
  have refs: "\<forall>l \<in> set (st_workers ?s). wl_conversation_ref l \<notin> {None, Some []}"
  proof
    fix l assume l: "l \<in> set (st_workers ?s)"
    from lg ext new l r' show "wl_conversation_ref l \<notin> {None, Some []}"
      by (cases rule: lease_origin)
        (use stored_closed(2) [OF c st lg] in \<open>auto simp: same_identity_def\<close>)
  qed
  have lin': "lineage_refs db ?s" using lin fr by (simp add: lineage_refs_def)
  obtain db1 where db1: "sync_legacy_workers ?s db = Inr db1" "same_but_workers db db1"
      "tbl_ok wr_worker_id (db_workers db1)"
      "\<And>w. find_worker db1 w = (case worker_by_id ?s w of
          Some l \<Rightarrow> Some (synced_row (find_worker db w) l) | None \<Rightarrow> find_worker db w)"
    using sync_ok [OF okw lg ext new t' r' cl] by blast
  obtain task where task: "find_task db (st_task_id ?s) = Some task" using lg t' by (auto simp: legacy_agrees_def)
  have wk: "find_worker db1 w \<noteq> None" if "w \<in> wl_worker_id ` set (st_workers ?s)" for w
    using that r' by (auto simp: db1(4) worker_by_id_eq_None split: option.split)
  have ev: "\<forall>x \<in> set (pd_events d). ev_task_id x = st_task_id ?s \<and> ev_revision x = st_revision ?s"
    using protocol_step_events [OF step] protocol_step_event_task [OF step] t' by auto
  have p: "find_protocol db (st_task_id ?s) = Some (task_values s)" using st t' by (simp add: stored_def)
  have rv: "pt_revision (task_values s) = st_revision s" by (simp add: task_values_def)
  have old: "\<forall>x \<in> set (db_events db). pe_task_id x = st_task_id ?s \<longrightarrow> pe_revision x < st_revision ?s"
    using events_before [OF c st] fr(2) t' by simp
  obtain m u where pd: "persist_decision s d (st_revision s) db = Inr (committed_db db1 ?s m u (pd_events d))"
      and m: "m = (if st_task_status ?s = DT_COMPLETED then ss_value SS_COMPLETED else tr_state task)"
    using persist_decision_eq [OF db1(1,2) okp task p rv wk inv' cl refs lin' fr(1) [symmetric] ev old]
    by blast
  have open_task: "st_task_status s \<noteq> DT_COMPLETED" using closed_no_step [OF step] by simp
  have "load_worker_protocol (committed_db db1 ?s m u (pd_events d)) (st_task_id ?s) = Inr ?s"
    using open_task
    by (intro committed_loads [OF c st lg lin' inv' ext new t' fr(1) cl so refs task m _ db1(2-4)]) simp
  moreover have "db_consistent (committed_db db1 ?s m u (pd_events d))"
    using fr(2) by (intro committed_consistent [OF c st lg inv' ext new t' cl refs db1(2-4) ev]) simp
  moreover have "load_worker_protocol (committed_db db1 ?s m u (pd_events d)) x = load_worker_protocol db x"
    if "x \<noteq> t" for x
    using that t by (intro committed_others [OF c st lg inv' ext new t' fr(1) cl db1(2-4)]) simp
  ultimately show ?thesis using pd t t' by auto
qed

text \<open>A call through the registry.\<close>

definition registry_call ::
  "registry \<Rightarrow> string \<Rightarrow> protocol_call \<Rightarrow> registry \<times> protocol_decision result" where
  "registry_call db t c = apply_worker_protocol_transition db t (call_revision c) (perform c)"

lemma perform_expected_revision:
  assumes "wp_inv s" and "call_ok c" and "perform c s = Inr d"
  shows "pd_expected_revision d = call_revision c"
  using assms(1)
proof (cases rule: preflight_cases [where e = "call_revision c"])
  case fresh
  have rej: "authority_rejection s w g now = Some x \<Longrightarrow> pd_expected_revision x = st_revision s" for w g now x
    by (auto simp: authority_rejection_def reject_def split: if_splits option.splits)
  have acc: "accept s cand code evs = Inr x \<Longrightarrow> pd_expected_revision x = st_revision s" for cand code evs x
    by (auto simp: accept_def Let_def split: sum.splits)
  show ?thesis
    using assms(2,3) fresh
    by (cases c) (auto simp: register_worker_def claim_worker_def heartbeat_worker_def request_handoff_def
        takeover_worker_def complete_worker_def abandon_worker_def complete_task_def Let_def
        simp: reject_def dest!: rej acc split: if_splits option.splits sum.splits takeover_reason.splits)
next
  case (stale d')
  with assms(2,3) show ?thesis
    by (cases c) (auto simp: register_worker_def claim_worker_def heartbeat_worker_def
        request_handoff_def takeover_worker_def complete_worker_def abandon_worker_def complete_task_def)
qed

lemma registry_call_refines:
  assumes c: "db_consistent db" and ld: "load_worker_protocol db t = Inr s"
    and ok: "call_ok k" "call_fits db t k"
  shows "\<exists>db' d. registry_call db t k = (db', Inr d) \<and> perform k s = Inr d
    \<and> load_worker_protocol db' t = Inr (pd_state d) \<and> db_consistent db'
    \<and> (\<forall>x. x \<noteq> t \<longrightarrow> load_worker_protocol db' x = load_worker_protocol db x)
    \<and> (\<not> pd_mutated d \<longrightarrow> db' = db)"
proof -
  have okw: "tbl_ok wr_worker_id (db_workers db)" using c by (simp add: db_consistent_def)
  from ld have t: "st_task_id s = t" and inv: "wp_inv s" and lg: "legacy_agrees db s"
    by (auto simp: load_iff [OF okw])
  obtain d where d: "perform k s = Inr d" using wp.op_total [OF inv ok(1)] by blast
  have rv: "pd_expected_revision d = call_revision k" by (rule perform_expected_revision [OF inv ok(1) d])
  from inv ok(1) d show ?thesis
  proof (cases rule: perform_cases)
    case unchanged
    then have "registry_call db t k = (db, Inr d)"
      using ld d rv t by (simp add: registry_call_def apply_worker_protocol_transition_def unchanged_def)
    with unchanged c ld d show ?thesis by (auto simp: unchanged_def)
  next
    case steps
    then have step: "protocol_step s (pd_events d) (pd_state d)" and mut: "pd_mutated d" "pd_accepted d"
        and e: "pd_expected_revision d = st_revision s"
      by (simp_all add: steps_to_def)
    obtain db' where db': "persist_decision s d (st_revision s) db = Inr db'"
        "load_worker_protocol db' t = Inr (pd_state d)" "db_consistent db'"
        "\<forall>x. x \<noteq> t \<longrightarrow> load_worker_protocol db' x = load_worker_protocol db x"
      using commit_step [OF c ld step] perform_newcomers_ok [OF d _ lg] ok(2) t by blast
    have t': "st_task_id (pd_state d) = t" using protocol_step_task_id [OF step] t by simp
    have rev: "st_revision (pd_state d) = st_revision s + 1" using protocol_step_frame [OF step] by simp
    have "validate_state (pd_state d) = Inr ()"
      using protocol_step_wp_inv [OF step inv] by (simp add: validate_state_iff)
    moreover have "\<not> list_ex (\<lambda>x. ev_task_id x \<noteq> t \<or> ev_revision x \<noteq> st_revision (pd_state d)) (pd_events d)"
      using protocol_step_events [OF step] protocol_step_event_task [OF step] t by (auto simp: list_ex_iff)
    moreover have "pd_events d \<noteq> []" using protocol_step_events [OF step] by simp
    ultimately have "registry_call db t k = (db', Inr d)"
      using ld d rv e mut t' rev db'(1,2)
      by (simp add: registry_call_def apply_worker_protocol_transition_def)
    with db' d mut show ?thesis by auto
  qed
qed

text \<open>Calls of many clients on many tasks, in the order in which they get the write lock.\<close>

fun run_registry :: "(string \<times> protocol_call) list \<Rightarrow> registry \<Rightarrow> registry" where
  "run_registry [] db = db"
| "run_registry ((t, k) # cs) db = run_registry cs (fst (registry_call db t k))"

fun run_admissible :: "(string \<times> protocol_call) list \<Rightarrow> registry \<Rightarrow> bool" where
  "run_admissible [] db = True"
| "run_admissible ((t, k) # cs) db =
     (call_ok k \<and> call_fits db t k \<and> run_admissible cs (fst (registry_call db t k)))"

definition calls_on :: "string \<Rightarrow> (string \<times> protocol_call) list \<Rightarrow> protocol_call list" where
  "calls_on t cs = map snd (filter (\<lambda>x. fst x = t) cs)"

lemma registry_call_unloadable:
  "load_worker_protocol db t = Inl e \<Longrightarrow> registry_call db t k = (db, Inl e)"
  by (simp add: registry_call_def apply_worker_protocol_transition_def)

lemma run_registry_refines:
  assumes "db_consistent db" and "load_worker_protocol db t = Inr s" and "run_admissible cs db"
  shows "load_worker_protocol (run_registry cs db) t = Inr (run_calls (calls_on t cs) s)
    \<and> db_consistent (run_registry cs db)"
  using assms
proof (induction cs arbitrary: db s)
  case Nil
  then show ?case by (simp add: calls_on_def)
next
  case (Cons x cs)
  obtain v k where x: "x = (v, k)" by (cases x)
  let ?db = "fst (registry_call db v k)"
  have adm: "call_ok k" "call_fits db v k" "run_admissible cs ?db" using Cons.prems x by simp_all
  show ?case
  proof (cases "load_worker_protocol db v")
    case (Inl e)
    then have "?db = db" "v \<noteq> t" using Cons.prems(2) registry_call_unloadable by auto
    with Cons adm x show ?thesis by (simp add: calls_on_def)
  next
    case (Inr w)
    obtain db' d where d: "registry_call db v k = (db', Inr d)" "perform k w = Inr d"
        "load_worker_protocol db' v = Inr (pd_state d)" "db_consistent db'"
        "\<forall>y. y \<noteq> v \<longrightarrow> load_worker_protocol db' y = load_worker_protocol db y"
      using registry_call_refines [OF Cons.prems(1) Inr adm(1,2)] by blast
    show ?thesis
    proof (cases "v = t")
      case True
      with Inr Cons.prems(2) have "w = s" by simp
      with True d Cons.IH [of db' "pd_state d"] adm x show ?thesis by (simp add: calls_on_def)
    next
      case False
      with d Cons.IH [of db' s] Cons.prems adm x show ?thesis by (auto simp: calls_on_def)
    qed
  qed
qed

section \<open>Bootstrap\<close>

lemma upsert_loop_result:
  assumes "foldr_result upsert_protocol_lease ls db = Inr db'"
  shows "db' = db\<lparr>db_leases := fold (\<lambda>l. tbl_upsert pl_worker_id (lease_values l)) ls (db_leases db)\<rparr>
    \<and> (\<forall>l \<in> set ls. wl_conversation_ref l \<notin> {None, Some []})"
  using assms
proof (induction ls arbitrary: db)
  case (Cons l ls)
  let ?db = "db\<lparr>db_leases := tbl_upsert pl_worker_id (lease_values l) (db_leases db)\<rparr>"
  have l: "upsert_protocol_lease l db = Inr ?db" "wl_conversation_ref l \<notin> {None, Some []}"
    using Cons.prems by (auto simp: upsert_protocol_lease_def split: if_splits)
  with Cons.prems Cons.IH [of ?db] show ?case by simp
qed simp

lemma invalid_bootstrap_Inr [simp]: "invalid_bootstrap r = Inr x \<longleftrightarrow> r = Inr x"
  by (auto simp: invalid_bootstrap_def split: sum.splits py_error.splits)

text \<open>The legacy heartbeat: the last time a worker row shows its worker alive.\<close>

definition legacy_heartbeat :: "worker_row \<Rightarrow> timestamp" where
  "legacy_heartbeat r = (case wr_last_seen_at r of Some x \<Rightarrow> x | None \<Rightarrow> wr_started_at r)"

lemma lease_from_legacy_facts:
  assumes "lease_from_legacy t r = Inr l" and "wr_task_id r = t"
  shows "wl_worker_id l = wr_worker_id r" and "row_matches ids r l"
    and "wl_status l \<noteq> WL_CANDIDATE" and "wl_superseded_by l = None"
    and "retired_status (wl_status l) \<longrightarrow> wl_ended_at l \<noteq> None"
    and "wl_status l = WL_ACTIVE \<longrightarrow> wl_lease_expires_at l = Some (legacy_heartbeat r)"
  using assms
  by (auto simp: lease_from_legacy_def Let_def row_matches_def legacy_status_def retired_status_def
      legacy_heartbeat_def worker_status_of_def split: option.splits worker_status.splits if_splits)

lemma list_all2_origin: "list_all2 P xs ys \<Longrightarrow> y \<in> set ys \<Longrightarrow> \<exists>x \<in> set xs. P x y"
  by (induction rule: list_all2_induct) auto

lemma list_all2_image: "list_all2 P xs ys \<Longrightarrow> x \<in> set xs \<Longrightarrow> \<exists>y \<in> set ys. P x y"
  by (induction rule: list_all2_induct) auto

lemma state_from_legacy_facts:
  assumes "state_from_legacy task rows lineage = Inr s"
  obtains k where "supervisor_state_of (tr_state task) = Some k" "k \<noteq> SS_ABANDONED"
    "st_lineage s = lineage" "wp_inv s" "roster_sorted (st_workers s)"
    "st_current_worker_id s = tr_current_worker_id task"
    "st_task_status s = DT_COMPLETED \<longleftrightarrow> k = SS_COMPLETED" "st_revision s = 0"
    "\<And>l. l \<in> set (st_workers s) \<Longrightarrow> \<exists>r \<in> set rows. lease_from_legacy (tr_task_id task) r = Inr l"
    "\<And>r. r \<in> set rows \<Longrightarrow> \<exists>l \<in> set (st_workers s). lease_from_legacy (tr_task_id task) r = Inr l"
proof -
  from assms obtain k leases where k: "supervisor_state_of (tr_state task) = Some k" "k \<noteq> SS_ABANDONED"
      "map_result (lease_from_legacy (tr_task_id task)) rows = Inr leases"
      "validate_state s = Inr ()" "st_workers s = sorted_workers leases" "st_lineage s = lineage"
      "st_current_worker_id s = tr_current_worker_id task"
      "st_task_status s = DT_COMPLETED \<longleftrightarrow> k = SS_COMPLETED" "st_revision s = 0"
    by (auto simp: state_from_legacy_def Let_def split: option.splits if_splits)
  have la: "list_all2 (\<lambda>r l. lease_from_legacy (tr_task_id task) r = Inr l) rows leases"
    using k(3) by (simp add: map_result_Inr_iff)
  show thesis
  proof (rule that [OF k(1,2,6)])
    show "wp_inv s" using k(4) by (simp add: validate_state_iff)
    fix l assume "l \<in> set (st_workers s)"
    then have "l \<in> set leases" using k(5) by simp
    with la show "\<exists>r \<in> set rows. lease_from_legacy (tr_task_id task) r = Inr l"
      by (blast dest: list_all2_origin)
  next
    fix r assume "r \<in> set rows"
    with la show "\<exists>l \<in> set (st_workers s). lease_from_legacy (tr_task_id task) r = Inr l"
      using k(5) by (auto dest: list_all2_image)
  qed (use k in simp_all)
qed

lemma resolve_lineage_shape:
  assumes "resolve_lineage db t p r k = Inr lin"
  shows "tl_task_id lin = t \<and> (case tl_parent_task_id lin of
       None \<Rightarrow> tl_root_task_id lin = t
     | Some q \<Rightarrow> q \<noteq> t \<and> find_task db q \<noteq> None \<and> find_task db (tl_root_task_id lin) \<noteq> None
         \<and> (case find_protocol db q of None \<Rightarrow> True | Some x \<Rightarrow> pt_root_task_id x = tl_root_task_id lin))"
proof (cases p)
  case None
  with assms show ?thesis by (auto simp: resolve_lineage_def split: if_splits)
next
  case (Some p0)
  with assms show ?thesis
    by (cases "find_protocol db (strip p0)")
      (auto simp: resolve_lineage_def Let_def split: if_splits)
qed

lemma resolve_lineage_refs:
  assumes "resolve_lineage db t p r k = Inr lin" and "find_task db t \<noteq> None"
  shows "tl_task_id lin = t" and "find_task db (tl_root_task_id lin) \<noteq> None"
    and "\<And>q. tl_parent_task_id lin = Some q \<Longrightarrow> q \<noteq> t \<and> find_task db q \<noteq> None
      \<and> (\<forall>x. find_protocol db q = Some x \<longrightarrow> pt_root_task_id x = tl_root_task_id lin)"
  using resolve_lineage_shape [OF assms(1)] assms(2) by (auto split: option.splits)

text \<open>A successful first bootstrap, with the pieces it is made of.\<close>

lemma bootstrap_result:
  assumes "bootstrap_worker_protocol db t p r k = (db', Inr s)" and "\<not> protocol_state_exists db t"
  obtains task lin where "find_task db t = Some task" "resolve_lineage db t p r k = Inr lin"
    "state_from_legacy task (task_workers db t) lin = Inr s" "insert_protocol_snapshot s db = Inr db'"
proof -
  from assms obtain task where task: "find_task db t = Some task"
    by (auto simp: bootstrap_worker_protocol_def split: option.splits)
  let ?m = "rbind (resolve_lineage db t p r k) (\<lambda>lineage.
     rbind (state_from_legacy task (task_workers db t) lineage) (\<lambda>s.
     rbind (insert_protocol_snapshot s db) (\<lambda>db'. Inr (db', s))))"
  have "transaction db ?m = (db', Inr s)"
    using assms task by (simp add: bootstrap_worker_protocol_def)
  then have "?m = Inr (db', s)" by (auto simp: transaction_def split: sum.splits)
  with task that show thesis by auto
qed

definition bootstrapped_db :: "registry \<Rightarrow> worker_task_state \<Rightarrow> registry" where
  "bootstrapped_db db s = db\<lparr>db_protocol := db_protocol db @ [task_values s],
     db_leases := fold (\<lambda>l. tbl_upsert pl_worker_id (lease_values l)) (st_workers s) (db_leases db)\<rparr>"

lemma insert_snapshot_result:
  assumes "insert_protocol_snapshot s db = Inr db'"
  shows "db' = bootstrapped_db db s \<and> (\<forall>l \<in> set (st_workers s). wl_conversation_ref l \<notin> {None, Some []})
    \<and> find_protocol db (st_task_id s) = None"
  using assms upsert_loop_result [of "st_workers s" "db\<lparr>db_protocol := db_protocol db @ [task_values s]\<rparr>" db']
  by (auto simp: insert_protocol_snapshot_def bootstrapped_db_def split: if_splits)

lemma bootstrapped_finds:
  assumes "roster_ok s"
  shows "find_task (bootstrapped_db db s) x = find_task db x"
    and "find_worker (bootstrapped_db db s) w = find_worker db w"
    and "find_protocol (bootstrapped_db db s) x =
      (case find_protocol db x of None \<Rightarrow> if x = st_task_id s then Some (task_values s) else None | q \<Rightarrow> q)"
    and "find_lease (bootstrapped_db db s) w = (case worker_by_id s w of
      Some l \<Rightarrow> Some (lease_values l) | None \<Rightarrow> find_lease db w)"
  using assms
  by (auto simp: bootstrapped_db_def find_task_def find_worker_def find_protocol_def find_lease_def
      tbl_find_append task_values_def find_upsert_loop find_worker_by_id roster_ok_def split: option.split)

lemma bootstrap_loads:
  assumes c: "db_consistent db" and b: "bootstrap_worker_protocol db t p r k = (db', Inr s)"
    and n: "\<not> protocol_state_exists db t"
  shows "load_worker_protocol db' t = Inr s" and "db_consistent db'"
    and "lease_is_fresh s w now \<Longrightarrow> \<exists>x. find_worker db w = Some x \<and> now < legacy_heartbeat x"
proof -
  obtain task lin where task: "find_task db t = Some task" and lin: "resolve_lineage db t p r k = Inr lin"
    and sf: "state_from_legacy task (task_workers db t) lin = Inr s" and ins: "insert_protocol_snapshot s db = Inr db'"
    using bootstrap_result [OF b n] by blast
  have okw: "tbl_ok wr_worker_id (db_workers db)" and okl: "tbl_ok pl_worker_id (db_leases db)"
    using c by (simp_all add: db_consistent_def)
  have tid: "tr_task_id task = t" using task by (auto simp: find_task_def dest: tbl_find_SomeD)
  note lr = resolve_lineage_refs [OF lin]
  from sf obtain g where g: "supervisor_state_of (tr_state task) = Some g" "g \<noteq> SS_ABANDONED"
      "st_lineage s = lin" "wp_inv s" "roster_sorted (st_workers s)"
      "st_current_worker_id s = tr_current_worker_id task"
      "st_task_status s = DT_COMPLETED \<longleftrightarrow> g = SS_COMPLETED" "st_revision s = 0"
      "\<And>l. l \<in> set (st_workers s) \<Longrightarrow> \<exists>r \<in> set (task_workers db t). lease_from_legacy t r = Inr l"
      "\<And>r. r \<in> set (task_workers db t) \<Longrightarrow> \<exists>l \<in> set (st_workers s). lease_from_legacy t r = Inr l"
    using state_from_legacy_facts [OF sf, unfolded tid] by blast
  have r: "roster_ok s" using g by (simp add: wp_inv_def)
  have st: "st_task_id s = t" using lr task g(3) by (simp add: st_task_id_def)
  have db': "db' = bootstrapped_db db s" and refs: "\<forall>l \<in> set (st_workers s). wl_conversation_ref l \<notin> {None, Some []}"
    using insert_snapshot_result [OF ins] by simp_all
  have np: "find_protocol db t = None" using n by (simp add: protocol_state_exists_def)
  have rows: "\<exists>q. find_worker db (wl_worker_id l) = Some q \<and> wr_task_id q = t \<and> lease_from_legacy t q = Inr l"
    if "l \<in> set (st_workers s)" for l
  proof -
    from g(9) [OF that] obtain q where q: "q \<in> set (task_workers db t)" "lease_from_legacy t q = Inr l" by blast
    then have "wr_task_id q = t" "find_worker db (wr_worker_id q) = Some q"
      using okw by (auto simp: find_worker_def tbl_find_Some_iff)
    with q lease_from_legacy_facts(1) [OF q(2)] show ?thesis by auto
  qed
  have rows': "w \<in> wl_worker_id ` set (st_workers s)" if w: "find_worker db w = Some q" "wr_task_id q = t" for w q
  proof -
    have "q \<in> set (task_workers db t)" "wr_worker_id q = w"
      using w by (auto simp: find_worker_def dest: tbl_find_SomeD)
    then obtain l where "l \<in> set (st_workers s)" "lease_from_legacy t q = Inr l" using g(10) by blast
    with lease_from_legacy_facts(1) [of t q l] w(2) \<open>wr_worker_id q = w\<close> show ?thesis by auto
  qed
  have member: "l \<in> set (st_workers s)" "wl_worker_id l = w" if "worker_by_id s w = Some l" for w l
    using that worker_by_id_SomeD by blast+
  have tok: "tbl_ok pl_worker_id (db_leases db')"
    using okl by (simp add: db' bootstrapped_db_def tbl_ok_upsert_loop)
  have "task_leases db' (st_task_id s) = map lease_values (st_workers s)"
  proof (rule task_leases_eqI [OF tok r g(5)])
    fix w q assume q: "find_lease db' w = Some q" "pl_task_id q = st_task_id s"
    show "w \<in> wl_worker_id ` set (st_workers s)"
    proof (cases "worker_by_id s w")
      case None
      with q have "find_lease db w = Some q" by (simp add: db' bootstrapped_finds [OF r])
      then have "q \<in> set (db_leases db)" "pl_worker_id q = w"
        by (auto simp: find_lease_def dest: tbl_find_SomeD)
      with c q st obtain y where "find_worker db w = Some y" "wr_task_id y = t"
        by (auto simp: db_consistent_def list_all_iff lease_row_ok_def)
      then show ?thesis by (rule rows')
    next
      case (Some l)
      with member show ?thesis by blast
    qed
  next
    fix l assume "l \<in> set (st_workers s)"
    then have "worker_by_id s (wl_worker_id l) = Some l" using r by (simp add: worker_by_id_eq_Some)
    then show "find_lease db' (wl_worker_id l) = Some (lease_values l)" by (simp add: db' bootstrapped_finds [OF r])
  qed
  then have stored: "stored db' s" using refs st np by (auto simp: stored_def db' bootstrapped_finds [OF r])
  have "legacy_agrees db' s"
    unfolding legacy_agrees_def
  proof (intro conjI allI ballI)
    have "tr_state task = ss_value g" using g(1) by (rule supervisor_state_of_SomeD)
    then show "\<exists>task. find_task db' (st_task_id s) = Some task \<and> task_agrees task s"
      using task st g(2,6,7) by (cases g) (auto simp: db' bootstrapped_finds [OF r] task_agrees_def)
    show "(\<exists>r. find_worker db' w = Some r \<and> wr_task_id r = st_task_id s) \<longleftrightarrow> w \<in> wl_worker_id ` set (st_workers s)" for w
      unfolding db' bootstrapped_finds [OF r] st using rows rows' by blast
    fix l assume l: "l \<in> set (st_workers s)"
    from rows [OF l] lease_from_legacy_facts(2)
    show "\<exists>r. find_worker db' (wl_worker_id l) = Some r \<and> row_matches (wl_worker_id ` set (st_workers s)) r l"
      by (auto simp: db' bootstrapped_finds [OF r])
  qed
  moreover have "lineage_refs db' s"
    using lr task g(3) by (auto simp: lineage_refs_def db' bootstrapped_finds [OF r] st split: option.splits if_splits)
  moreover have "tbl_ok wr_worker_id (db_workers db')" using okw by (simp add: db' bootstrapped_db_def)
  ultimately show "load_worker_protocol db' t = Inr s" using stored g(4) st by (simp add: load_iff)
  have "lease_row_ok db' q" if q: "q \<in> set (db_leases db')" for q
  proof (cases "worker_by_id s (pl_worker_id q)")
    case None
    have "find_lease db' (pl_worker_id q) = Some q" using q tok by (simp add: find_lease_def tbl_find_Some_iff)
    with None have "find_lease db (pl_worker_id q) = Some q" by (simp add: db' bootstrapped_finds [OF r])
    then have "q \<in> set (db_leases db)" by (auto simp: find_lease_def dest: tbl_find_SomeD)
    with c show ?thesis
      by (auto simp: db_consistent_def list_all_iff lease_row_ok_def db' bootstrapped_finds [OF r])
  next
    case (Some l)
    have "find_lease db' (pl_worker_id q) = Some q" using q tok by (simp add: find_lease_def tbl_find_Some_iff)
    with Some have ql: "q = lease_values l" by (simp add: db' bootstrapped_finds [OF r])
    from rows [OF member(1) [OF Some]] obtain y where y: "find_worker db (wl_worker_id l) = Some y" "wr_task_id y = t"
      "lease_from_legacy t y = Inr l" by blast
    have "wl_task_id l = t" using member(1) [OF Some] r st by (simp add: roster_ok_def)
    with y ql refs member(1) [OF Some] lease_from_legacy_facts(5) [OF y(3,2)] show ?thesis
      by (auto simp: lease_row_ok_def lease_values_def db' bootstrapped_finds [OF r])
  qed
  moreover have "event_row_ok db' e" if "e \<in> set (db_events db')" for e
  proof -
    have "e \<in> set (db_events db)" using that by (simp add: db' bootstrapped_db_def)
    then have "event_row_ok db e" using c by (simp add: db_consistent_def list_all_iff)
    then show ?thesis by (auto simp: event_row_ok_def db' bootstrapped_finds [OF r])
  qed
  ultimately show "db_consistent db'"
    using c tok np st by (auto simp: db_consistent_def list_all_iff db' bootstrapped_db_def tbl_ok_snoc
        find_protocol_def task_values_def)
  assume "lease_is_fresh s w now"
  then obtain l e where l: "l \<in> set (st_workers s)" "wl_worker_id l = w" "wl_status l = WL_ACTIVE"
      "wl_lease_expires_at l = Some e" "now < e"
    using lease_is_fresh_iff [OF r] by blast
  with rows [OF l(1)] lease_from_legacy_facts(6)
  show "\<exists>x. find_worker db w = Some x \<and> now < legacy_heartbeat x" by fastforce
qed

section \<open>Properties of the durable protocol\<close>

text \<open>A registry with one task and a legacy ACTIVE worker last seen at time 5.\<close>

definition demo_worker_row :: worker_row where
  "demo_worker_row = \<lparr>wr_worker_id = ''w1'', wr_task_id = ''task'', wr_conversation_url = ''https://c/1'',
     wr_conversation_id = None, wr_status = ''active'', wr_started_at = 1, wr_last_seen_at = Some 5,
     wr_ended_at = None\<rparr>"

definition demo_task_row :: task_row where
  "demo_task_row = \<lparr>tr_task_id = ''task'', tr_project = ''p'', tr_objective = ''o'', tr_cwd = ''c'',
     tr_state = ''RUNNING'', tr_lsm_session_id = None, tr_checkpoint = [],
     tr_current_worker_id = Some ''w1'', tr_recovery_attempts = 0, tr_max_recovery_attempts = 3,
     tr_created_at = 0, tr_updated_at = 5\<rparr>"

definition demo_registry :: registry where
  "demo_registry = empty_registry\<lparr>db_tasks := [demo_task_row], db_workers := [demo_worker_row]\<rparr>"

definition demo_bootstrapped :: registry where
  "demo_bootstrapped = fst (bootstrap_worker_protocol demo_registry ''task'' None None None)"

text \<open>C6. The durable registry implements the pure protocol. On a consistent registry whose task
  loads to a snapshot, every call goes through without an exception, returns exactly the decision of the pure
  protocol on that snapshot, and afterwards the task loads to exactly the decided snapshot (the commit
  and its round-trip check never fail); the registry stays consistent, every other task loads as
  before, and a call that changes nothing writes nothing.\<close>

theorem registry_implements_protocol:
  assumes "db_consistent db" and "load_worker_protocol db t = Inr s"
    and "call_ok c" and "call_fits db t c"
  shows "\<exists>db' d. apply_worker_protocol_transition db t (call_revision c) (perform c) = (db', Inr d)
    \<and> perform c s = Inr d \<and> load_worker_protocol db' t = Inr (pd_state d) \<and> db_consistent db'
    \<and> (\<forall>x. x \<noteq> t \<longrightarrow> load_worker_protocol db' x = load_worker_protocol db x)
    \<and> (\<not> pd_mutated d \<longrightarrow> db' = db)"
  using registry_call_refines [OF assms] by (simp add: registry_call_def)

lemma demo_registry_consistent: "db_consistent demo_registry"
  by (simp add: db_consistent_def demo_registry_def empty_registry_def tbl_ok_def)

lemma demo_bootstrap:
  obtains s where "bootstrap_worker_protocol demo_registry ''task'' None None None = (demo_bootstrapped, Inr s)"
    "load_worker_protocol demo_bootstrapped ''task'' = Inr s" "db_consistent demo_bootstrapped"
proof -
  have n: "\<not> protocol_state_exists demo_registry ''task''" by code_simp
  have "case snd (bootstrap_worker_protocol demo_registry ''task'' None None None) of Inr _ \<Rightarrow> True | Inl _ \<Rightarrow> False"
    by code_simp
  then obtain s where s: "bootstrap_worker_protocol demo_registry ''task'' None None None = (demo_bootstrapped, Inr s)"
    unfolding demo_bootstrapped_def
    by (cases "bootstrap_worker_protocol demo_registry ''task'' None None None") (auto split: sum.splits)
  show thesis using that [OF s] bootstrap_loads(1,2) [OF demo_registry_consistent s n] by blast
qed

theorem registry_implements_protocol_witness:
  "\<exists>db' d. apply_worker_protocol_transition demo_bootstrapped ''task'' 0
      (perform (Register ''w2'' (Some ''https://c/2'') 6 0)) = (db', Inr d)
    \<and> load_worker_protocol db' ''task'' = Inr (pd_state d)"
proof -
  obtain s where s: "load_worker_protocol demo_bootstrapped ''task'' = Inr s" "db_consistent demo_bootstrapped"
    using demo_bootstrap by blast
  have "call_ok (Register ''w2'' (Some ''https://c/2'') 6 0)" by code_simp
  moreover have "call_fits demo_bootstrapped ''task'' (Register ''w2'' (Some ''https://c/2'') 6 0)" by code_simp
  ultimately show ?thesis
    using registry_implements_protocol [OF s(2,1), of "Register ''w2'' (Some ''https://c/2'') 6 0"] by auto
qed

text \<open>C7. Isolation of concurrent clients: however the calls of many clients on many tasks interleave
  in the order in which they obtain the write lock, each task ends with exactly the snapshot that its own calls alone
  produce under the pure protocol.\<close>

theorem interleaved_calls_isolated:
  assumes "db_consistent db" and "load_worker_protocol db t = Inr s" and "run_admissible cs db"
  shows "load_worker_protocol (run_registry cs db) t = Inr (run_calls (calls_on t cs) s)"
  using run_registry_refines [OF assms] by simp

theorem interleaved_calls_isolated_witness:
  "\<exists>s. load_worker_protocol demo_bootstrapped ''task'' = Inr s
    \<and> load_worker_protocol (run_registry [(''task'', Register ''w2'' (Some ''u'') 6 0),
          (''other'', Claim ''x'' 6 60 0), (''task'', Takeover ''w2'' 7 60 1)] demo_bootstrapped) ''task''
      = Inr (run_calls [Register ''w2'' (Some ''u'') 6 0, Takeover ''w2'' 7 60 1] s)"
proof -
  obtain s where s: "load_worker_protocol demo_bootstrapped ''task'' = Inr s" "db_consistent demo_bootstrapped"
    using demo_bootstrap by blast
  let ?cs = "[(''task'', Register ''w2'' (Some ''u'') 6 0), (''other'', Claim ''x'' 6 60 0),
      (''task'', Takeover ''w2'' 7 60 1)]"
  have "run_admissible ?cs demo_bootstrapped" by code_simp
  moreover have "calls_on ''task'' ?cs = [Register ''w2'' (Some ''u'') 6 0, Takeover ''w2'' 7 60 1]" by code_simp
  ultimately show ?thesis using s interleaved_calls_isolated [OF s(2,1), of ?cs] by auto
qed

text \<open>C8. Bootstrap is conservative and durable: the snapshot made from legacy rows reloads exactly
  and keeps the registry consistent, and no worker of it holds a fresh lease at any time from its last
  durable legacy timestamp on, so a legacy ACTIVE status is never silently renewed.\<close>

theorem bootstrap_conservative:
  assumes "db_consistent db" and "\<not> protocol_state_exists db t"
    and "bootstrap_worker_protocol db t p r k = (db', Inr s)"
  shows "load_worker_protocol db' t = Inr s \<and> db_consistent db' \<and> st_task_id s = t
    \<and> (\<forall>w x now. find_worker db w = Some x \<and> legacy_heartbeat x \<le> now \<longrightarrow> \<not> lease_is_fresh s w now)"
proof -
  note b = bootstrap_loads [OF assms(1,3,2)]
  have "st_task_id s = t" using b(1,2) by (simp add: load_iff db_consistent_def)
  with b show ?thesis by fastforce
qed

theorem bootstrap_conservative_witness:
  "\<exists>s. load_worker_protocol demo_bootstrapped ''task'' = Inr s \<and> \<not> lease_is_fresh s ''w1'' 5"
proof -
  obtain s where s: "bootstrap_worker_protocol demo_registry ''task'' None None None = (demo_bootstrapped, Inr s)"
    using demo_bootstrap by blast
  have n: "\<not> protocol_state_exists demo_registry ''task''" by code_simp
  have "find_worker demo_registry ''w1'' = Some demo_worker_row" "legacy_heartbeat demo_worker_row \<le> 5"
    by code_simp+
  with bootstrap_conservative [OF demo_registry_consistent n s] show ?thesis by blast
qed

end
