(* ===== verification/Py_Text.thy ===== *)
theory Py_Text
  imports LWS_Prelude
begin

text \<open>
  The operations of Python's \<^verbatim>\<open>str\<close> and \<^verbatim>\<open>int\<close> that the URL, evidence and page-pool modules use, on
  Latin-1 strings, with the lemmas on splitting and joining that the URL proofs need.
\<close>

section \<open>Characters\<close>

definition char_code :: "char \<Rightarrow> int" where
  "char_code c = of_char c"

definition is_digit :: "char \<Rightarrow> bool" where
  "is_digit c = (48 \<le> char_code c \<and> char_code c \<le> 57)"

definition is_alpha :: "char \<Rightarrow> bool" where
  "is_alpha c = ((65 \<le> char_code c \<and> char_code c \<le> 90) \<or> (97 \<le> char_code c \<and> char_code c \<le> 122))"

definition is_hex :: "char \<Rightarrow> bool" where
  "is_hex c = (is_digit c \<or> (65 \<le> char_code c \<and> char_code c \<le> 70) \<or> (97 \<le> char_code c \<and> char_code c \<le> 102))"

text \<open>\<^verbatim>\<open>str.lower()\<close> on Latin-1.\<close>

definition lower_char :: "char \<Rightarrow> char" where
  "lower_char c = (let n = char_code c in
     if (65 \<le> n \<and> n \<le> 90) \<or> (192 \<le> n \<and> n \<le> 222 \<and> n \<noteq> 215) then char_of (n + 32) else c)"

definition lower :: "string \<Rightarrow> string" where
  "lower s = map lower_char s"

lemma code_char_of [simp]: "0 \<le> n \<Longrightarrow> n < 256 \<Longrightarrow> char_code (char_of n) = n"
  by (simp add: char_code_def)

lemma code_range [simp]: "char_code c < 256" "0 \<le> char_code c"
proof -
  have "char_code c = int (of_char c)" by (simp add: char_code_def of_nat_of_char)
  moreover have "(of_char c :: nat) < 256" by simp
  ultimately show "char_code c < 256" "0 \<le> char_code c" by simp_all
qed

lemma code_eq_iff: "char_code c = char_code d \<longleftrightarrow> c = d"
  by (simp add: char_code_def)

lemma code_lower_char:
  "char_code (lower_char c) = (if (65 \<le> char_code c \<and> char_code c \<le> 90) \<or> (192 \<le> char_code c \<and> char_code c \<le> 222 \<and> char_code c \<noteq> 215)
     then char_code c + 32 else char_code c)"
  by (auto simp: lower_char_def Let_def)

lemma lower_char_idem [simp]: "lower_char (lower_char c) = lower_char c"
  by (auto simp: code_eq_iff [symmetric] code_lower_char)

lemma lower_idem [simp]: "lower (lower s) = lower s"
  by (simp add: lower_def)

lemma lower_simps [simp]: "lower [] = []" "lower (c # s) = lower_char c # lower s" "length (lower s) = length s"
  "lower (s @ t) = lower s @ lower t"
  by (simp_all add: lower_def)

lemma is_hex_lower_char [simp]: "is_hex (lower_char c) = is_hex c"
  by (auto simp: is_hex_def is_digit_def code_lower_char)

section \<open>Searching and splitting\<close>

definition starts_with :: "string \<Rightarrow> string \<Rightarrow> bool" where
  "starts_with p s = (take (length p) s = p)"

definition ends_with :: "string \<Rightarrow> string \<Rightarrow> bool" where
  "ends_with p s = starts_with (rev p) (rev s)"

text \<open>\<^verbatim>\<open>needle in s\<close>, \<^verbatim>\<open>s.partition(c)\<close> and \<^verbatim>\<open>s.rpartition(c)\<close>.\<close>

fun contains :: "string \<Rightarrow> string \<Rightarrow> bool" where
  "contains p [] = (p = [])"
| "contains p (c # s) = (starts_with p (c # s) \<or> contains p s)"

definition partition_at :: "char \<Rightarrow> string \<Rightarrow> string \<times> bool \<times> string" where
  "partition_at c s = (takeWhile (\<lambda>x. x \<noteq> c) s, c \<in> set s, tl (dropWhile (\<lambda>x. x \<noteq> c) s))"

definition rpartition_at :: "char \<Rightarrow> string \<Rightarrow> string \<times> bool \<times> string" where
  "rpartition_at c s = (rev (tl (dropWhile (\<lambda>x. x \<noteq> c) (rev s))), c \<in> set s, rev (takeWhile (\<lambda>x. x \<noteq> c) (rev s)))"

text \<open>\<^verbatim>\<open>s.split(c)\<close> for one character, and \<^verbatim>\<open>s.split()\<close>.\<close>

fun split_on :: "char \<Rightarrow> string \<Rightarrow> string list" where
  "split_on c [] = [[]]"
| "split_on c (x # s) = (if x = c then [] # split_on c s
     else (case split_on c s of [] \<Rightarrow> [[x]] | w # ws \<Rightarrow> (x # w) # ws))"

fun words :: "string \<Rightarrow> string \<Rightarrow> string list" where
  "words w [] = (if w = [] then [] else [rev w])"
| "words w (x # s) = (if is_space x then (if w = [] then words [] s else rev w # words [] s) else words (x # w) s)"

definition split_ws :: "string \<Rightarrow> string list" where
  "split_ws s = words [] s"

text \<open>\<^verbatim>\<open>sep.join(parts)\<close>.\<close>

fun join :: "string \<Rightarrow> string list \<Rightarrow> string" where
  "join sep [] = []"
| "join sep [x] = x"
| "join sep (x # y # zs) = x @ sep @ join sep (y # zs)"

lemma split_on_nonempty [simp]: "split_on c s \<noteq> []"
  by (induction s) (auto split: list.splits)

lemma split_on_plain: "c \<notin> set s \<Longrightarrow> split_on c s = [s]"
  by (induction s) auto

lemma split_on_append: "c \<notin> set s \<Longrightarrow> split_on c (s @ c # t) = s # split_on c t"
  by (induction s) auto

lemma split_on_parts: "w \<in> set (split_on c s) \<Longrightarrow> set w \<subseteq> set s - {c}"
proof (induction s arbitrary: w)
  case (Cons x s)
  then show ?case by (cases "split_on c s") (fastforce split: if_splits)+
qed simp

lemma takeWhile_neq_append: "c \<notin> set s \<Longrightarrow> takeWhile (\<lambda>x. x \<noteq> c) (s @ c # t) = s"
  by (induction s) auto

lemma dropWhile_neq_append: "c \<notin> set s \<Longrightarrow> dropWhile (\<lambda>x. x \<noteq> c) (s @ c # t) = c # t"
  by (induction s) auto

lemma strip_plain:
  assumes "s = [] \<or> (\<not> is_space (hd s) \<and> \<not> is_space (last s))"
  shows "strip s = s"
proof (cases "s = []")
  case False
  with assms have "dropWhile is_space s = s" by (cases s) auto
  moreover have "dropWhile is_space (rev s) = rev s" using assms False by (cases s rule: rev_cases) auto
  ultimately show ?thesis by (simp add: strip_def rstrip_def rstrip_by_def)
qed (simp add: strip_def rstrip_def rstrip_by_def)

section \<open>Numbers\<close>

text \<open>
  \<^verbatim>\<open>int(text)\<close>: surrounding blanks, a sign, digits with single underscores between them, and at most 4300
  digits. \<open>None\<close> is the \<^verbatim>\<open>ValueError\<close>.
\<close>

fun digits_value :: "bool \<Rightarrow> int \<Rightarrow> string \<Rightarrow> int option" where
  "digits_value digit acc [] = (if digit then Some acc else None)"
| "digits_value digit acc (c # s) =
     (if is_digit c then digits_value True (10 * acc + (char_code c - 48)) s
      else if c = CHR ''_'' \<and> digit then digits_value False acc s else None)"

definition unsigned_value :: "string \<Rightarrow> int option" where
  "unsigned_value s = (if int (length (filter is_digit s)) \<le> 4300 then digits_value False 0 s else None)"

definition py_int :: "string \<Rightarrow> int option" where
  "py_int s = (case strip s of [] \<Rightarrow> None
     | c # t \<Rightarrow> if c = CHR ''-'' then map_option uminus (unsigned_value t)
               else if c = CHR ''+'' then unsigned_value t else unsigned_value (c # t))"

text \<open>
  \<^verbatim>\<open>int(x)\<close> of a float, from its \<^verbatim>\<open>repr\<close>: digits, a point and digits, an exponent; truncation is towards
  zero. \<open>None\<close> for any other text, which is the text of a list or an object.
\<close>

definition float_trunc :: "string \<Rightarrow> int option" where
  "float_trunc s =
     (let (neg, t) = (if starts_with ''-'' s then (True, tl s) else (False, s));
          (mant, has_e, e) = partition_at CHR ''e'' t;
          (whole, dot, frac) = partition_at CHR ''.'' mant;
          exponent = (if has_e then py_int e else Some 0)
      in case (digits_value False 0 (whole @ frac), exponent) of
           (Some m, Some x) \<Rightarrow>
             let k = x - int (length frac);
                 v = (if 0 \<le> k then m * 10 ^ nat k else m div 10 ^ nat (- k))
             in Some (if neg then - v else v)
         | _ \<Rightarrow> None)"

text \<open>\<^verbatim>\<open>repr(text)\<close>.\<close>

definition hex_digit :: "int \<Rightarrow> char" where
  "hex_digit n = char_of (if n < 10 then n + 48 else n + 87)"

definition repr_char :: "char \<Rightarrow> char \<Rightarrow> string" where
  "repr_char q c = (let n = char_code c in
     if c = q \<or> n = 92 then [CHR 0x5C, c]
     else if n = 9 then [CHR 0x5C, CHR ''t''] else if n = 10 then [CHR 0x5C, CHR ''n'']
     else if n = 13 then [CHR 0x5C, CHR ''r'']
     else if n < 32 \<or> (127 \<le> n \<and> n \<le> 160) \<or> n = 173
       then [CHR 0x5C, CHR ''x'', hex_digit (n div 16), hex_digit (n mod 16)]
     else [c])"

definition py_repr :: "string \<Rightarrow> string" where
  "py_repr s = (let q = (if CHR 0x27 \<in> set s \<and> CHR 0x22 \<notin> set s then CHR 0x22 else CHR 0x27)
     in [q] @ concat (map (repr_char q) s) @ [q])"

section \<open>Rendering and truth values\<close>

text \<open>\<^verbatim>\<open>str(n)\<close> of an integer, and a float formatted with \<^verbatim>\<open>:.0f\<close> and \<^verbatim>\<open>:.1f\<close>.\<close>

fun nat_digits :: "nat \<Rightarrow> string" where
  "nat_digits n = (if n < 10 then [char_of (48 + n)] else nat_digits (n div 10) @ [char_of (48 + n mod 10)])"

declare nat_digits.simps [simp del]

definition str_int :: "int \<Rightarrow> string" where
  "str_int i = (if i < 0 then ''-'' @ nat_digits (nat (- i)) else nat_digits (nat i))"

definition round_half_even :: "real \<Rightarrow> int" where
  "round_half_even x = (let f = floor x; d = x - of_int f in
     if d < 1 / 2 \<or> (d = 1 / 2 \<and> even f) then f else f + 1)"

definition fmt0 :: "real \<Rightarrow> string" where
  "fmt0 x = str_int (round_half_even x)"

definition fmt1 :: "real \<Rightarrow> string" where
  "fmt1 x = (let n = round_half_even (10 * \<bar>x\<bar>)
     in (if x < 0 then ''-'' else []) @ str_int (n div 10) @ ''.'' @ str_int (n mod 10))"

definition py_bool :: "bool \<Rightarrow> string" where
  "py_bool b = (if b then ''True'' else ''False'')"

definition lower_bool :: "bool \<Rightarrow> string" where
  "lower_bool b = (if b then ''true'' else ''false'')"

text \<open>\<open>or_text\<close> is Python's \<open>x or default\<close> on optional text, \<open>present\<close> its truth value.\<close>

definition present :: "string option \<Rightarrow> bool" where
  "present x = (x \<notin> {None, Some []})"

definition or_text :: "string option \<Rightarrow> string \<Rightarrow> string" where
  "or_text x d = (if present x then the x else d)"

text \<open>A blocker that is reported when its condition holds.\<close>

definition when_blocked :: "bool \<Rightarrow> string \<Rightarrow> string list" where
  "when_blocked b m = (if b then [m] else [])"

end
