(* ===== verification/Assess.thy ===== *)
theory Assess
  imports Models Py_Text
begin

text \<open>
  From observations to advice: \<^verbatim>\<open>watcher.py\<close> (\<open>assess\<close>), \<^verbatim>\<open>recovery.py\<close> (\<open>recommend\<close>) and
  \<^verbatim>\<open>prompts.py\<close>. The evidence strings are built as the code builds them; \<open>:.0f\<close> is rounding half to
  even. \<^verbatim>\<open>json.dumps\<close> of the checkpoint is an argument (\<open>dumps\<close>): its text only enters the prompt.
\<close>

section \<open>Rendering\<close>

fun json_str :: "json \<Rightarrow> string" where
  "json_str JNull = ''None''"
| "json_str (JBool b) = py_bool b"
| "json_str (JInt i) = str_int i"
| "json_str (JStr s) = s"
| "json_str (JOther b s) = s"

section \<open>Assessment\<close>

record watch_policy =
  wp_browser_suspect_after_s :: real
  wp_network_suspect_after_s :: real
  wp_lsm_suspect_after_s :: real
  wp_hard_stall_after_s :: real

definition default_watch_policy :: watch_policy where
  "default_watch_policy = \<lparr>wp_browser_suspect_after_s = 120, wp_network_suspect_after_s = 180,
     wp_lsm_suspect_after_s = 180, wp_hard_stall_after_s = 600\<rparr>"

definition workspace_evidence :: "task_record \<Rightarrow> workspace_observation option \<Rightarrow> string list" where
  "workspace_evidence task workspace = (case workspace of None \<Rightarrow> [] | Some w \<Rightarrow>
     [''workspace.cwd_exists='' @ lower_bool (wo_cwd_exists w)]
     @ (case wo_is_git_repo w of None \<Rightarrow> [] | Some b \<Rightarrow> [''workspace.git_repo='' @ lower_bool b])
     @ (if present (wo_git_head w) then [''workspace.git_head='' @ take 12 (the (wo_git_head w))] else [])
     @ (case wo_git_dirty w of None \<Rightarrow> [] | Some b \<Rightarrow> [''workspace.git_dirty='' @ lower_bool b])
     @ (if present (wo_error w) then [''workspace.error='' @ take 160 (the (wo_error w))] else [])
     @ (let head = json_get (tk_checkpoint task) ''git_head'' in
        if json_truthy head \<and> present (wo_git_head w)
        then [''workspace.checkpoint_head_match='' @ lower_bool (json_str head = the (wo_git_head w))]
        else []))"

definition lsm_evidence :: "lsm_observation \<Rightarrow> string list" where
  "lsm_evidence l =
     [''lsm.session='' @ or_text (lo_session_status l) ''unknown'',
      ''lsm.plan='' @ or_text (lo_plan_status l) ''none'']
     @ (if lo_in_flight_calls l \<noteq> 0 then [''lsm.in_flight='' @ str_int (lo_in_flight_calls l)] else [])
     @ (if lo_active_jobs l \<noteq> 0 then [''lsm.active_jobs='' @ str_int (lo_active_jobs l)] else [])
     @ (if lo_failed_jobs l \<noteq> 0 then [''lsm.failed_jobs='' @ str_int (lo_failed_jobs l)] else [])"

definition mk_assessment :: "supervisor_state \<Rightarrow> string \<Rightarrow> string \<Rightarrow> string list \<Rightarrow> bool \<Rightarrow> assessment" where
  "mk_assessment state reason confidence evidence reconcile =
     \<lparr>as_state = state, as_reason = reason, as_confidence = confidence, as_evidence = evidence,
      as_requires_reconcile = reconcile, as_may_auto_continue = False\<rparr>"

text \<open>The early returns that the durable LSM evidence alone decides.\<close>

definition assess_lsm :: "lsm_observation \<Rightarrow> string list \<Rightarrow> assessment option" where
  "assess_lsm l evidence =
     (if lo_session_status l \<in> {Some ''completed'', Some ''cancelled''}
      then Some (mk_assessment
             (if lo_session_status l = Some ''completed'' then SS_COMPLETED else SS_ABANDONED)
             (''durable LSM session is '' @ the (lo_session_status l)) ''high'' evidence False)
      else if lo_plan_status l = Some ''blocked''
      then Some (mk_assessment SS_BLOCKED ''durable Goal plan is blocked'' ''high'' evidence False)
      else if lo_plan_status l = Some ''completed'' \<and> lo_in_flight_calls l = 0 \<and> lo_active_jobs l = 0
      then Some (mk_assessment SS_COMPLETED
             ''durable Goal plan completed with no tracked active work'' ''high'' evidence False)
      else if lo_in_flight_calls l > 0 \<or> lo_active_jobs l > 0
      then Some (mk_assessment SS_RUNNING
             ''durable Local Shell work is still active; UI state cannot override it'' ''high'' evidence
             False)
      else None)"

definition silence :: "timestamp \<Rightarrow> timestamp option \<Rightarrow> real option" where
  "silence now since = map_option (\<lambda>t. max 0 (now - t)) since"

definition dom_silence :: "timestamp \<Rightarrow> browser_observation option \<Rightarrow> real option" where
  "dom_silence now browser = (case browser of None \<Rightarrow> None | Some b \<Rightarrow> silence now (bo_last_dom_change_at b))"

definition network_silence :: "timestamp \<Rightarrow> network_observation option \<Rightarrow> real option" where
  "network_silence now network = (case network of None \<Rightarrow> None | Some n \<Rightarrow> silence now (no_quiet_since_at n))"

definition lsm_silence :: "timestamp \<Rightarrow> lsm_observation option \<Rightarrow> real option" where
  "lsm_silence now lsm = (case lsm of None \<Rightarrow> None | Some l \<Rightarrow> silence now (lo_recent_event_at l))"

definition runtime_evidence ::
  "timestamp \<Rightarrow> browser_observation option \<Rightarrow> network_observation option \<Rightarrow> lsm_observation option
     \<Rightarrow> string list" where
  "runtime_evidence now browser network lsm =
     (case browser of None \<Rightarrow> [] | Some b \<Rightarrow>
        [''browser.observation_age_s='' @ fmt0 (max 0 (now - bo_observed_at b))]
        @ (case dom_silence now browser of None \<Rightarrow> [] | Some x \<Rightarrow> [''browser.dom_silence_s='' @ fmt0 x])
        @ (if present (bo_visible_error b)
           then [''browser.error='' @ take 120 (the (bo_visible_error b))] else [])
        @ (case bo_pending_tool_calls b of None \<Rightarrow> []
           | Some n \<Rightarrow> [''browser.pending_tool_calls='' @ str_int n]))
     @ (case network of None \<Rightarrow> [] | Some n \<Rightarrow>
        [''network.observation_age_s='' @ fmt0 (max 0 (now - no_observed_at n))]
        @ (case network_silence now network of None \<Rightarrow> [] | Some x \<Rightarrow> [''network.silence_s='' @ fmt0 x])
        @ [''network.sample_events='' @ str_int (no_event_count n)]
        @ (if no_loading_failed n \<noteq> 0
           then [''network.loading_failed='' @ str_int (no_loading_failed n)] else []))
     @ (case lsm_silence now lsm of None \<Rightarrow> [] | Some x \<Rightarrow> [''lsm.event_silence_s='' @ fmt0 x])"

definition at_least :: "real option \<Rightarrow> real \<Rightarrow> bool" where
  "at_least x bound = (case x of None \<Rightarrow> False | Some v \<Rightarrow> v \<ge> bound)"

text \<open>The runtime part of \<^verbatim>\<open>assess\<close>, after the durable checks.\<close>

definition assess_runtime ::
  "task_record \<Rightarrow> browser_observation option \<Rightarrow> lsm_observation option \<Rightarrow> network_observation option
     \<Rightarrow> timestamp \<Rightarrow> watch_policy \<Rightarrow> string list \<Rightarrow> assessment" where
  "assess_runtime task browser lsm network now policy evidence =
     (let dom = dom_silence now browser; net = network_silence now network; ls = lsm_silence now lsm;
          plan_active = (case lsm of None \<Rightarrow> False | Some l \<Rightarrow> lo_plan_status l = Some ''active'') in
      if (case browser of None \<Rightarrow> False | Some b \<Rightarrow> present (bo_visible_error b))
      then mk_assessment SS_RECONCILING
        ''web chat reports an error; reconcile durable LSM/workspace state before any retry''
        ''high'' evidence True
      else if (case browser of None \<Rightarrow> False | Some b \<Rightarrow> bo_send_button_ready b = Some True
               \<and> (case bo_pending_tool_calls b of None \<Rightarrow> 0 | Some n \<Rightarrow> n) > 0)
             \<and> (dom = None \<or> at_least dom (wp_browser_suspect_after_s policy))
      then mk_assessment SS_RECONCILING
        ''composer is ready while a tool call still appears pending; delivery lifecycle is contradictory''
        ''high'' evidence True
      else if plan_active \<and> (case lsm of None \<Rightarrow> False | Some l \<Rightarrow> lo_continuation_pending l = Some True)
      then mk_assessment SS_RUNNING
        ''LSM continuation is already pending; supervisor must not compete with it'' ''high'' evidence False
      else if plan_active \<and> (case lsm of None \<Rightarrow> False | Some l \<Rightarrow> lo_continuation_due l = Some True)
      then (if net \<noteq> None \<and> the net < wp_network_suspect_after_s policy
            then mk_assessment SS_RECONCILING
              ''Goal lease is due but network lifecycle activity is recent; evidence conflicts, so do not race the worker''
              ''medium'' evidence True
            else mk_assessment SS_SUSPECT
              ''Goal plan execution lease expired with no durable work in flight'' ''high'' evidence True)
      else let stale_browser = at_least dom (wp_browser_suspect_after_s policy);
               stale_network = at_least net (wp_network_suspect_after_s policy);
               stale_lsm = at_least ls (wp_lsm_suspect_after_s policy) in
        if stale_browser \<and> stale_lsm
        then (if net \<noteq> None \<and> \<not> stale_network
              then mk_assessment SS_RECONCILING
                ''DOM and LSM are silent but network lifecycle activity is recent; reconcile conflicting evidence before recovery''
                ''medium'' evidence True
              else let least = min (the dom) (the ls);
                       hard = (case net of None \<Rightarrow> least | Some x \<Rightarrow> min least x)
                              \<ge> wp_hard_stall_after_s policy
                in mk_assessment SS_SUSPECT
                  (if net \<noteq> None
                   then ''browser DOM, network lifecycle, and durable LSM activity are silent''
                   else ''both browser DOM and durable LSM activity are silent'')
                  (if hard then ''high'' else ''medium'') evidence True)
        else if (case browser of None \<Rightarrow> False | Some b \<Rightarrow> bo_generating b = Some True)
        then mk_assessment SS_RUNNING ''browser reports active generation'' ''medium'' evidence False
        else if plan_active
        then mk_assessment SS_RUNNING
          ''Goal plan remains active and no stall threshold has been crossed'' ''medium'' evidence False
        else if tk_state task \<in> {SS_QUEUED, SS_STARTING}
        then mk_assessment (tk_state task) ''no contradictory runtime evidence'' ''medium'' evidence False
        else mk_assessment SS_SUSPECT
          ''insufficient fresh evidence to prove progress or completion'' ''low'' evidence True)"

definition assess ::
  "task_record \<Rightarrow> browser_observation option \<Rightarrow> lsm_observation option \<Rightarrow> workspace_observation option
     \<Rightarrow> network_observation option \<Rightarrow> timestamp \<Rightarrow> watch_policy \<Rightarrow> assessment" where
  "assess task browser lsm workspace network now policy =
     (if tk_state task = SS_COMPLETED
      then mk_assessment SS_COMPLETED ''task is already durably completed'' ''high'' [] False
      else if tk_state task = SS_ABANDONED
      then mk_assessment SS_ABANDONED ''task was explicitly abandoned'' ''high'' [] False
      else let evidence = workspace_evidence task workspace
                 @ (case lsm of None \<Rightarrow> [] | Some l \<Rightarrow> lsm_evidence l) in
        case (case lsm of None \<Rightarrow> None | Some l \<Rightarrow> assess_lsm l evidence) of
          Some a \<Rightarrow> a
        | None \<Rightarrow>
            if (case workspace of None \<Rightarrow> False | Some w \<Rightarrow> \<not> wo_cwd_exists w)
            then mk_assessment SS_NEEDS_HUMAN ''registered working directory no longer exists'' ''high''
                   evidence True
            else assess_runtime task browser lsm network now policy
                   (evidence @ runtime_evidence now browser network lsm))"

section \<open>Recommendation\<close>

definition SUPERVISOR_SAFETY_PREAMBLE :: string where
  "SUPERVISOR_SAFETY_PREAMBLE =
     ''This is a reliability/recovery task for a user-authorized web chat + Local Shell MCP workflow.\<newline>Work read-only first. Do not bypass authentication or platform controls. Do not access, copy, or move cookies, tokens, passwords, session secrets, or private API credentials. Do not call, reconstruct, or automate private web chat backend endpoints. Do not click or type in unrelated browser tabs.\<newline>\<newline>Before any action with side effects, reconcile the durable Local Shell logical session, Goal plan, tracked jobs/in-flight leases, and actual workspace/Git state. The previous web chat message may have failed after side effects already completed, so never blindly replay the prior operation. If evidence is ambiguous, stop at a recommendation or request human review rather than guessing.\<newline>''"

definition newline :: string where
  "newline = [char_of (10 :: nat)]"

definition with_safety_preamble :: "string \<Rightarrow> string" where
  "with_safety_preamble instruction =
     rstrip SUPERVISOR_SAFETY_PREAMBLE @ newline @ newline @ dropWhile is_space instruction"

definition recovery_prompt :: "string \<Rightarrow> string \<Rightarrow> string \<Rightarrow> string \<Rightarrow> string \<Rightarrow> string" where
  "recovery_prompt task_id session_id cwd checkpoint workspace =
     concat (map (\<lambda>l. l @ newline)
       [''Resume the existing task.'', '''',
        ''First inspect the current Local Shell logical session, Goal plan, tracked jobs, and actual workspace state.'',
        ''The previous web chat message may have failed after side effects were already executed.'',
        ''Do not repeat completed operations.'',
        ''Continue from the first genuinely incomplete step.'', '''',
        ''Task id: '' @ task_id,
        ''Local Shell logical session: '' @ session_id,
        ''Working directory: '' @ cwd,
        ''Recorded checkpoint: '' @ checkpoint,
        ''Observed workspace: '' @ workspace])"

definition workspace_summary :: "workspace_observation option \<Rightarrow> string" where
  "workspace_summary workspace = (case workspace of None \<Rightarrow> ''unavailable'' | Some w \<Rightarrow>
     join '', ''
       ([''cwd_exists='' @ py_bool (wo_cwd_exists w)]
        @ (case wo_is_git_repo w of None \<Rightarrow> [] | Some b \<Rightarrow> [''git_repo='' @ py_bool b])
        @ (if present (wo_git_head w) then [''git_head='' @ the (wo_git_head w)] else [])
        @ (case wo_git_dirty w of None \<Rightarrow> [] | Some b \<Rightarrow> [''git_dirty='' @ py_bool b])
        @ (if present (wo_git_status_hash w) then [''git_status_hash='' @ the (wo_git_status_hash w)] else [])
        @ (if present (wo_error w) then [''error='' @ the (wo_error w)] else [])))"

definition recommend ::
  "(json_object \<Rightarrow> string) \<Rightarrow> task_record \<Rightarrow> assessment \<Rightarrow> lsm_observation option
     \<Rightarrow> workspace_observation option \<Rightarrow> recovery_recommendation" where
  "recommend dumps task a lsm workspace =
     (let mk = (\<lambda>action reason. \<lparr>rm_task_id = tk_task_id task, rm_action = action,
            rm_safe_to_dispatch = False, rm_reason = reason, rm_prompt = None,
            rm_evidence = as_evidence a\<rparr>) in
      if tk_state task = SS_COMPLETED then mk ''none'' ''task is durably complete''
      else if tk_state task = SS_ABANDONED then mk ''none'' ''task was abandoned/cancelled''
      else if as_state a = SS_COMPLETED then mk ''none'' ''task is durably complete''
      else if as_state a = SS_ABANDONED then mk ''none'' ''task was abandoned/cancelled''
      else if as_state a = SS_NEEDS_HUMAN
      then mk ''human_decision'' ''task requires a human decision before recovery''
      else if as_state a = SS_BLOCKED
      then mk ''human_decision''
             ''Goal plan is blocked; automatic continuation would bypass an explicit blocker''
      else if as_state a \<in> {SS_RUNNING, SS_STARTING, SS_RECOVERING}
      then mk ''observe'' ''work still appears active; do not compete with the current worker''
      else if tk_recovery_attempts task \<ge> tk_max_recovery_attempts task
      then mk ''human_decision'' ''recovery-attempt budget exhausted''
      else if \<not> present (tk_lsm_session_id task) \<or> lsm = None
      then mk ''human_decision'' ''no durable LSM session observation is available for reconciliation''
      else let l = the lsm in
        if lo_in_flight_calls l > 0 \<or> lo_active_jobs l > 0 \<or> lo_continuation_pending l = Some True
        then mk ''observe'' ''durable LSM work/continuation is active; takeover or continue is unsafe''
        else (mk ''reconcile_then_continue''
               ''candidate for a new web chat turn after explicit reconciliation; V0 does not auto-dispatch'')
             \<lparr>rm_prompt := Some (with_safety_preamble (recovery_prompt (tk_task_id task)
                (the (tk_lsm_session_id task)) (tk_cwd task) (dumps (tk_checkpoint task))
                (workspace_summary workspace)))\<rparr>)"

section \<open>Properties\<close>

lemma mk_assessment_simps [simp]:
  "as_state (mk_assessment s r c e q) = s" "as_requires_reconcile (mk_assessment s r c e q) = q"
  "as_may_auto_continue (mk_assessment s r c e q) = False" "as_evidence (mk_assessment s r c e q) = e"
  by (simp_all add: mk_assessment_def)

lemma assess_runtime_class:
  "as_requires_reconcile (assess_runtime task b l n now p ev)
    \<longleftrightarrow> as_state (assess_runtime task b l n now p ev) \<in> {SS_SUSPECT, SS_RECONCILING, SS_NEEDS_HUMAN}"
  "as_state (assess_runtime task b l n now p ev)
    \<in> {SS_SUSPECT, SS_RECONCILING, SS_RUNNING, SS_QUEUED, SS_STARTING}"
  "\<not> as_may_auto_continue (assess_runtime task b l n now p ev)"
  unfolding assess_runtime_def Let_def by (simp_all split: if_split)

lemma assess_lsm_class:
  assumes "assess_lsm l ev = Some a"
  shows "\<not> as_requires_reconcile a" and "\<not> as_may_auto_continue a"
    and "as_state a \<in> {SS_COMPLETED, SS_ABANDONED, SS_BLOCKED, SS_RUNNING}"
    and "as_state a = SS_COMPLETED \<longleftrightarrow> lo_session_status l = Some ''completed''
      \<or> (lo_session_status l \<noteq> Some ''cancelled'' \<and> lo_plan_status l = Some ''completed''
         \<and> lo_in_flight_calls l = 0 \<and> lo_active_jobs l = 0)"
  using assms by (auto simp: assess_lsm_def split: if_splits)

lemma assess_cases [case_names completed abandoned durable missing runtime]:
  obtains (completed) "tk_state task = SS_COMPLETED" "as_state (assess task b l w n now p) = SS_COMPLETED"
      "\<not> as_requires_reconcile (assess task b l w n now p)"
    | (abandoned) "tk_state task = SS_ABANDONED" "as_state (assess task b l w n now p) = SS_ABANDONED"
      "\<not> as_requires_reconcile (assess task b l w n now p)"
    | (durable) m ev a where "tk_state task \<notin> {SS_COMPLETED, SS_ABANDONED}" "l = Some m"
      "assess_lsm m ev = Some a" "assess task b l w n now p = a"
    | (missing) v where "tk_state task \<notin> {SS_COMPLETED, SS_ABANDONED}" "w = Some v" "\<not> wo_cwd_exists v"
      "\<And>m ev. l = Some m \<Longrightarrow> assess_lsm m ev = None"
      "as_state (assess task b l w n now p) = SS_NEEDS_HUMAN" "as_requires_reconcile (assess task b l w n now p)"
    | (runtime) ev where "tk_state task \<notin> {SS_COMPLETED, SS_ABANDONED}"
      "\<And>m ev. l = Some m \<Longrightarrow> assess_lsm m ev = None"
      "assess task b l w n now p = assess_runtime task b l n now p ev"
proof -
  let ?ev = "workspace_evidence task w @ (case l of None \<Rightarrow> [] | Some l \<Rightarrow> lsm_evidence l)"
  have indep: "assess_lsm m e = None \<longleftrightarrow> assess_lsm m e' = None" for m e e'
    by (simp add: assess_lsm_def)
  show thesis
  proof (cases "tk_state task \<in> {SS_COMPLETED, SS_ABANDONED}")
    case True
    with completed abandoned show thesis by (auto simp: assess_def)
  next
    case False
    show thesis
    proof (cases "case l of None \<Rightarrow> None | Some l \<Rightarrow> assess_lsm l ?ev")
      case (Some a)
      then obtain m where "l = Some m" "assess_lsm m ?ev = Some a" by (auto split: option.splits)
      with False durable show thesis by (auto simp: assess_def)
    next
      case None
      then have no: "\<And>m ev. l = Some m \<Longrightarrow> assess_lsm m ev = None" using indep by auto
      show thesis
      proof (cases "case w of None \<Rightarrow> False | Some v \<Rightarrow> \<not> wo_cwd_exists v")
        case True
        with False None no missing show thesis by (auto simp: assess_def split: option.splits)
      next
        case fine: False
        have "assess task b l w n now p
            = assess_runtime task b l n now p (?ev @ runtime_evidence now b n l)"
          using False None fine by (simp add: assess_def Let_def)
        with False no runtime show thesis by blast
      qed
    qed
  qed
qed

text \<open>Durable evidence decides: the user interface can neither complete nor stall a task over it.
  The assessment is COMPLETED exactly when the task already is, or (for a task that was not abandoned)
  the durable LSM session or its Goal plan is completed with no tracked work; and while durable work is
  in flight on a live session the assessment is RUNNING whatever browser, network and workspace show.\<close>

theorem durable_evidence_decides:
  "(as_state (assess task b l w n now p) = SS_COMPLETED \<longleftrightarrow>
      tk_state task = SS_COMPLETED
      \<or> (tk_state task \<noteq> SS_ABANDONED \<and> (\<exists>m. l = Some m \<and>
          (lo_session_status m = Some ''completed''
           \<or> (lo_session_status m \<noteq> Some ''cancelled'' \<and> lo_plan_status m = Some ''completed''
              \<and> lo_in_flight_calls m = 0 \<and> lo_active_jobs m = 0)))))
   \<and> (tk_state task \<notin> {SS_COMPLETED, SS_ABANDONED} \<and> l = Some m
        \<and> lo_session_status m \<notin> {Some ''completed'', Some ''cancelled''}
        \<and> lo_plan_status m \<noteq> Some ''blocked'' \<and> (lo_in_flight_calls m > 0 \<or> lo_active_jobs m > 0)
      \<longrightarrow> as_state (assess task b l w n now p) = SS_RUNNING)"
proof (rule conjI)
  show "as_state (assess task b l w n now p) = SS_COMPLETED \<longleftrightarrow>
      tk_state task = SS_COMPLETED
      \<or> (tk_state task \<noteq> SS_ABANDONED \<and> (\<exists>m. l = Some m \<and>
          (lo_session_status m = Some ''completed''
           \<or> (lo_session_status m \<noteq> Some ''cancelled'' \<and> lo_plan_status m = Some ''completed''
              \<and> lo_in_flight_calls m = 0 \<and> lo_active_jobs m = 0))))"
  proof (cases rule: assess_cases [of task b l w n now p])
    case (durable m ev a)
    then show ?thesis using assess_lsm_class(4) [OF durable(3)] by auto
  next
    case (missing v)
    then show ?thesis by (fastforce simp: assess_lsm_def split: if_splits)
  next
    case (runtime ev)
    then show ?thesis
      using assess_runtime_class(2) [of task b l n now p ev]
      by (fastforce simp: assess_lsm_def split: if_splits)
  qed auto
  show "tk_state task \<notin> {SS_COMPLETED, SS_ABANDONED} \<and> l = Some m
        \<and> lo_session_status m \<notin> {Some ''completed'', Some ''cancelled''}
        \<and> lo_plan_status m \<noteq> Some ''blocked'' \<and> (lo_in_flight_calls m > 0 \<or> lo_active_jobs m > 0)
      \<longrightarrow> as_state (assess task b l w n now p) = SS_RUNNING"
    by (auto simp: assess_def assess_lsm_def Let_def)
qed

definition demo_task_record :: task_record where
  "demo_task_record = \<lparr>tk_task_id = ''task'', tk_project = ''p'', tk_objective = ''o'', tk_cwd = ''c'',
     tk_state = SS_RUNNING, tk_lsm_session_id = Some ''s1'', tk_checkpoint = [],
     tk_current_worker_id = Some ''w1'', tk_recovery_attempts = 0, tk_max_recovery_attempts = 3,
     tk_created_at = 0, tk_updated_at = 0\<rparr>"

definition demo_lsm :: lsm_observation where
  "demo_lsm = \<lparr>lo_task_id = ''task'', lo_observed_at = 100, lo_session_id = Some ''s1'',
     lo_session_status = Some ''active'', lo_active_run_id = Some ''r1'', lo_plan_status = Some ''active'',
     lo_plan_last_agent_activity = None, lo_continuation_due = Some True,
     lo_continuation_pending = None, lo_in_flight_calls = 0, lo_freshest_in_flight_heartbeat = None,
     lo_active_jobs = 0, lo_failed_jobs = 0, lo_succeeded_jobs = 0, lo_recent_event_type = None,
     lo_recent_event_at = None, lo_completed_steps = None, lo_total_steps = None, lo_raw = []\<rparr>"

theorem durable_evidence_decides_witness:
  "as_state (assess demo_task_record None (Some (demo_lsm\<lparr>lo_in_flight_calls := 1\<rparr>)) None None 100
     default_watch_policy) = SS_RUNNING"
proof -
  let ?m = "demo_lsm\<lparr>lo_in_flight_calls := 1\<rparr>"
  have "tk_state demo_task_record \<notin> {SS_COMPLETED, SS_ABANDONED}"
    "lo_session_status ?m \<notin> {Some ''completed'', Some ''cancelled''}" "lo_plan_status ?m \<noteq> Some ''blocked''"
    "lo_in_flight_calls ?m > 0" by (simp_all add: demo_task_record_def demo_lsm_def)
  then show ?thesis
    using durable_evidence_decides [of demo_task_record None "Some ?m" None None 100 default_watch_policy ?m]
    by blast
qed

text \<open>An assessment asks for reconciliation exactly in the stalled states (SUSPECT, RECONCILING,
  NEEDS_HUMAN) and never permits automatic continuation; and a recommendation never declares a dispatch
  safe, carries a prompt exactly when it advises to reconcile and continue, and advises that exactly
  when neither the task nor the assessment is terminal, blocked or active, the recovery budget is not
  exhausted, and the durable LSM session is known and quiescent.\<close>

theorem recommendation_exact:
  fixes dumps task lsm w and a :: assessment
  defines "r \<equiv> recommend dumps task a lsm w"
  shows "\<not> rm_safe_to_dispatch r
    \<and> (rm_prompt r \<noteq> None \<longleftrightarrow> rm_action r = ''reconcile_then_continue'')
    \<and> (rm_action r = ''reconcile_then_continue'' \<longleftrightarrow>
        tk_state task \<notin> {SS_COMPLETED, SS_ABANDONED}
        \<and> as_state a \<in> {SS_QUEUED, SS_SUSPECT, SS_RECONCILING}
        \<and> tk_recovery_attempts task < tk_max_recovery_attempts task
        \<and> tk_lsm_session_id task \<notin> {None, Some []}
        \<and> (\<exists>l. lsm = Some l \<and> lo_in_flight_calls l \<le> 0 \<and> lo_active_jobs l \<le> 0
             \<and> lo_continuation_pending l \<noteq> Some True))
    \<and> (\<forall>b n w now p. as_requires_reconcile (assess task b lsm w n now p) \<longleftrightarrow>
        as_state (assess task b lsm w n now p) \<in> {SS_SUSPECT, SS_RECONCILING, SS_NEEDS_HUMAN})
    \<and> (\<forall>b n w now p. \<not> as_may_auto_continue (assess task b lsm w n now p))"
proof -
  have "as_requires_reconcile (assess task b lsm w n now p) \<longleftrightarrow>
        as_state (assess task b lsm w n now p) \<in> {SS_SUSPECT, SS_RECONCILING, SS_NEEDS_HUMAN}" for b n w now p
    by (cases rule: assess_cases [of task b lsm w n now p])
      (use assess_lsm_class assess_runtime_class in fastforce)+
  moreover have "\<not> as_may_auto_continue (assess task b lsm w n now p)" for b n w now p
    unfolding assess_def Let_def
    using assess_lsm_class(2) assess_runtime_class(3) by (auto split: option.split)
  moreover have "\<not> rm_safe_to_dispatch r" "rm_prompt r \<noteq> None \<longleftrightarrow> rm_action r = ''reconcile_then_continue''"
    unfolding r_def recommend_def Let_def by (simp_all split: if_split)
  moreover have "rm_action r = ''reconcile_then_continue'' \<longleftrightarrow>
        tk_state task \<notin> {SS_COMPLETED, SS_ABANDONED}
        \<and> as_state a \<in> {SS_QUEUED, SS_SUSPECT, SS_RECONCILING}
        \<and> tk_recovery_attempts task < tk_max_recovery_attempts task
        \<and> tk_lsm_session_id task \<notin> {None, Some []}
        \<and> (\<exists>l. lsm = Some l \<and> lo_in_flight_calls l \<le> 0 \<and> lo_active_jobs l \<le> 0
             \<and> lo_continuation_pending l \<noteq> Some True)"
    unfolding r_def recommend_def Let_def
    by (cases "as_state a"; cases lsm) (auto simp: present_def)
  ultimately show ?thesis by blast
qed

end
