(* ===== verification/Url.thy ===== *)
theory Url
  imports Py_Text
begin

text \<open>
  \<^verbatim>\<open>urllib.parse.urlsplit\<close> and \<^verbatim>\<open>urlunsplit\<close> of Python 3.11, which the URL handling of the supervisor rests
  on, as executable functions, and the normal form of \<^verbatim>\<open>dispatcher._normalize_url\<close> and
  \<^verbatim>\<open>lifecycle._normalize_url\<close>. On Latin-1 no character expands to a URL delimiter under NFKC, so the
  check of the network location for such characters never raises here.
\<close>

record split_result =
  ur_scheme :: string
  ur_netloc :: string
  ur_path :: string
  ur_query :: string
  ur_fragment :: string

section \<open>Splitting\<close>

definition scheme_char :: "char \<Rightarrow> bool" where
  "scheme_char c = (is_alpha c \<or> is_digit c \<or> c \<in> {CHR ''+'', CHR ''-'', CHR ''.''})"

definition unsafe_char :: "char \<Rightarrow> bool" where
  "unsafe_char c = (char_code c \<in> {9, 10, 13})"

text \<open>The leading control characters and blanks are dropped, and tabs and line ends everywhere.\<close>

definition clean_url :: "string \<Rightarrow> string" where
  "clean_url s = filter (\<lambda>c. \<not> unsafe_char c) (dropWhile (\<lambda>c. char_code c \<le> 32) s)"

definition split_scheme :: "string \<Rightarrow> string \<times> string" where
  "split_scheme url =
     (let (word, colon, after) = partition_at CHR '':'' url
      in if colon \<and> word \<noteq> [] \<and> is_alpha (hd word) \<and> list_all scheme_char word then (lower word, after)
         else ([], url))"

text \<open>\<^verbatim>\<open>ipaddress.ip_address\<close> of a bracketed host, which must be an IPv6 or IPvFuture address.\<close>

definition octet_ok :: "string \<Rightarrow> bool" where
  "octet_ok s = (s \<noteq> [] \<and> list_all is_digit s \<and> length s \<le> 3 \<and> (s = ''0'' \<or> hd s \<noteq> CHR ''0'')
     \<and> the (digits_value False 0 s) \<le> 255)"

definition ipv4_ok :: "string \<Rightarrow> bool" where
  "ipv4_ok s = (let parts = split_on CHR ''.'' s in length parts = 4 \<and> list_all octet_ok parts)"

definition hextet_ok :: "string \<Rightarrow> bool" where
  "hextet_ok s = (s \<noteq> [] \<and> list_all is_hex s \<and> length s \<le> 4)"

definition ipv6_parts_ok :: "string list \<Rightarrow> bool" where
  "ipv6_parts_ok parts =
     (length parts \<le> 9 \<and>
      (case filter (\<lambda>i. parts ! i = []) [1..<length parts - 1] of
         [] \<Rightarrow> length parts = 8 \<and> list_all hextet_ok parts
       | [skip] \<Rightarrow>
           let hi = take skip parts; lo = drop (Suc skip) parts;
               hi' = (if hd hi = [] then tl hi else hi); lo' = (if last lo = [] then butlast lo else lo)
           in (hd hi = [] \<longrightarrow> hi' = []) \<and> (last lo = [] \<longrightarrow> lo' = []) \<and> length hi' + length lo' \<le> 7
              \<and> list_all hextet_ok hi' \<and> list_all hextet_ok lo'
       | _ \<Rightarrow> False))"

definition ipv6_ok :: "string \<Rightarrow> bool" where
  "ipv6_ok s =
     (let parts = split_on CHR '':'' s; tail = last parts
      in s \<noteq> [] \<and> 3 \<le> length parts
         \<and> (if CHR ''.'' \<in> set tail then ipv4_ok tail \<and> ipv6_parts_ok (butlast parts @ [''0'', ''0''])
            else ipv6_parts_ok parts))"

definition bracketed_ok :: "string \<Rightarrow> bool" where
  "bracketed_ok h =
     (if starts_with ''v'' h then
        (let (version, dot, rest) = partition_at CHR ''.'' (tl h)
         in dot \<and> version \<noteq> [] \<and> list_all is_hex version \<and> rest \<noteq> [] \<and> CHR 0x0A \<notin> set rest)
      else (let (addr, percent, zone) = partition_at CHR ''%'' h
            in CHR ''/'' \<notin> set h \<and> (percent \<longrightarrow> zone \<noteq> [] \<and> CHR ''%'' \<notin> set zone) \<and> ipv6_ok addr))"

definition netloc_ok :: "string \<Rightarrow> bool" where
  "netloc_ok n = ((CHR ''['' \<in> set n) = (CHR '']'' \<in> set n) \<and>
     (CHR ''['' \<in> set n \<longrightarrow>
        bracketed_ok (fst (partition_at CHR '']'' (snd (snd (partition_at CHR ''['' n)))))))"

definition netloc_end :: "char \<Rightarrow> bool" where
  "netloc_end c = (c \<in> {CHR ''/'', CHR ''?'', CHR ''#''})"

definition split_netloc :: "string \<Rightarrow> string \<times> string" where
  "split_netloc url = (if starts_with ''//'' url
     then (takeWhile (\<lambda>c. \<not> netloc_end c) (drop 2 url), dropWhile (\<lambda>c. \<not> netloc_end c) (drop 2 url))
     else ([], url))"

text \<open>Of the two messages of the bracket checks one stands for both: no caller looks at the text.\<close>

definition urlsplit :: "string \<Rightarrow> split_result result" where
  "urlsplit s =
     (let (scheme, url) = split_scheme (clean_url s);
          (netloc, rest) = split_netloc url;
          (body, hash, fragment) = partition_at CHR ''#'' rest;
          (path, mark, query) = partition_at CHR ''?'' body
      in if netloc_ok netloc
         then Inr \<lparr>ur_scheme = scheme, ur_netloc = netloc, ur_path = path, ur_query = query, ur_fragment = fragment\<rparr>
         else Inl (ValueError ''Invalid IPv6 URL''))"

section \<open>Joining\<close>

definition uses_netloc :: "string list" where
  "uses_netloc = [[], ''ftp'', ''http'', ''gopher'', ''nntp'', ''telnet'', ''imap'', ''wais'', ''file'', ''mms'', ''https'',
     ''shttp'', ''snews'', ''prospero'', ''rtsp'', ''rtsps'', ''rtspu'', ''rsync'', ''svn'', ''svn+ssh'', ''sftp'', ''nfs'', ''git'',
     ''git+ssh'', ''ws'', ''wss'']"

definition urlunsplit :: "split_result \<Rightarrow> string" where
  "urlunsplit u =
     (let p = ur_path u;
          p' = (if ur_netloc u \<noteq> [] \<or> (ur_scheme u \<noteq> [] \<and> ur_scheme u \<in> set uses_netloc) \<or> starts_with ''//'' p
                then ''//'' @ ur_netloc u @ (if p \<noteq> [] \<and> \<not> starts_with ''/'' p then ''/'' @ p else p) else p)
      in (if ur_scheme u \<noteq> [] then ur_scheme u @ '':'' else []) @ p'
         @ (if ur_query u \<noteq> [] then ''?'' @ ur_query u else [])
         @ (if ur_fragment u \<noteq> [] then ''#'' @ ur_fragment u else []))"

section \<open>The parts of a network location\<close>

definition ur_username :: "split_result \<Rightarrow> string option" where
  "ur_username u = (case rpartition_at CHR ''@'' (ur_netloc u) of (info, has, _) \<Rightarrow>
     if has then Some (fst (partition_at CHR '':'' info)) else None)"

definition ur_password :: "split_result \<Rightarrow> string option" where
  "ur_password u = (case rpartition_at CHR ''@'' (ur_netloc u) of (info, has, _) \<Rightarrow>
     (case partition_at CHR '':'' info of (_, has_password, password) \<Rightarrow>
        if has \<and> has_password then Some password else None))"

definition hostinfo :: "split_result \<Rightarrow> string \<times> string option" where
  "hostinfo u =
     (let host = snd (snd (rpartition_at CHR ''@'' (ur_netloc u)));
          (_, bracket, inner) = partition_at CHR ''['' host;
          (name, port) =
            (if bracket then (let (name, _, rest) = partition_at CHR '']'' inner in (name, snd (snd (partition_at CHR '':'' rest))))
             else (let (name, _, port) = partition_at CHR '':'' host in (name, port)))
      in (name, if port = [] then None else Some port))"

definition ur_hostname :: "split_result \<Rightarrow> string option" where
  "ur_hostname u = (let name = fst (hostinfo u); (host, percent, zone) = partition_at CHR ''%'' name
     in if name = [] then None else Some (lower host @ (if percent then ''%'' else []) @ zone))"

definition ur_port :: "split_result \<Rightarrow> int option result" where
  "ur_port u = (case snd (hostinfo u) of None \<Rightarrow> Inr None
     | Some p \<Rightarrow>
         if list_all is_digit p then
           (case unsigned_value p of
              None \<Rightarrow> Inl (ValueError ''Exceeds the limit for integer string conversion'')
            | Some n \<Rightarrow> if n \<le> 65535 then Inr (Some n) else Inl (ValueError ''Port out of range 0-65535''))
         else Inl (ValueError (''Port could not be cast to integer value as '' @ py_repr p)))"

section \<open>The normal form\<close>

definition normalize_url :: "string \<Rightarrow> string result" where
  "normalize_url value =
     rbind (urlsplit (strip value)) (\<lambda>u.
       let path = rstrip_slash (ur_path u)
       in Inr (urlunsplit \<lparr>ur_scheme = lower (ur_scheme u), ur_netloc = lower (ur_netloc u),
            ur_path = (if path = [] then ''/'' else path), ur_query = ur_query u, ur_fragment = []\<rparr>))"

section \<open>Splitting what was joined\<close>

definition plain_url :: "string \<Rightarrow> bool" where
  "plain_url s = list_all (\<lambda>c. \<not> unsafe_char c) s"

text \<open>The shape of every result of \<open>urlsplit\<close>.\<close>

definition url_wf :: "split_result \<Rightarrow> bool" where
  "url_wf u \<longleftrightarrow> list_all (\<lambda>c. \<not> netloc_end c) (ur_netloc u) \<and> netloc_ok (ur_netloc u)
     \<and> CHR ''?'' \<notin> set (ur_path u) \<and> CHR ''#'' \<notin> set (ur_path u) \<and> CHR ''#'' \<notin> set (ur_query u)
     \<and> (ur_netloc u \<noteq> [] \<longrightarrow> ur_path u = [] \<or> hd (ur_path u) = CHR ''/'')
     \<and> plain_url (ur_netloc u) \<and> plain_url (ur_path u) \<and> plain_url (ur_query u) \<and> plain_url (ur_fragment u)
     \<and> ur_scheme u = lower (ur_scheme u)"

lemma set_clean_url: "c \<in> set (clean_url s) \<Longrightarrow> \<not> unsafe_char c"
  by (simp add: clean_url_def)

lemma partition_at_parts:
  assumes "partition_at c s = (x, b, y)"
  shows "c \<notin> set x" and "set x \<subseteq> set s" and "set y \<subseteq> set s" and "x \<noteq> [] \<Longrightarrow> hd x = hd s"
proof -
  have xy: "x = takeWhile (\<lambda>d. d \<noteq> c) s" "y = tl (dropWhile (\<lambda>d. d \<noteq> c) s)" using assms by (simp_all add: partition_at_def)
  show "c \<notin> set x" "set x \<subseteq> set s" by (auto simp: xy dest: set_takeWhileD)
  show "set y \<subseteq> set s" unfolding xy by (metis list.sel(2) list.set_sel(2) set_dropWhileD subsetI)
  show "x \<noteq> [] \<Longrightarrow> hd x = hd s" by (cases s) (auto simp: xy split: if_splits)
qed

lemma split_scheme_rest:
  assumes "split_scheme url = (scheme, r)"
  shows "set r \<subseteq> set url \<and> lower scheme = scheme"
proof -
  obtain x b y where p: "partition_at CHR '':'' url = (x, b, y)" by (cases "partition_at CHR '':'' url")
  with assms have "r = y \<and> scheme = lower x \<or> r = url \<and> scheme = []" by (auto simp: split_scheme_def split: if_splits)
  with partition_at_parts(3) [OF p] show ?thesis by auto
qed

lemma split_netloc_parts:
  assumes "split_netloc url = (n, r)"
  shows "list_all (\<lambda>c. \<not> netloc_end c) n" and "set n \<subseteq> set url" and "set r \<subseteq> set url"
    and "n \<noteq> [] \<Longrightarrow> r = [] \<or> netloc_end (hd r)"
proof -
  show "list_all (\<lambda>c. \<not> netloc_end c) n"
    using assms by (auto simp: split_netloc_def list_all_iff split: if_splits dest: set_takeWhileD)
  show "set n \<subseteq> set url" "set r \<subseteq> set url"
    using assms by (auto simp: split_netloc_def split: if_splits dest!: set_takeWhileD set_dropWhileD in_set_dropD)
  show "n \<noteq> [] \<Longrightarrow> r = [] \<or> netloc_end (hd r)"
    using assms hd_dropWhile [of "\<lambda>c. \<not> netloc_end c" "drop 2 url"]
    by (cases r) (auto simp: split_netloc_def simp del: dropWhile_eq_Nil_conv split: if_splits)
qed

lemma urlsplit_wf:
  assumes "urlsplit s = Inr u"
  shows "url_wf u"
proof -
  obtain scheme url where 1: "split_scheme (clean_url s) = (scheme, url)" by fastforce
  obtain n r where 2: "split_netloc url = (n, r)" by fastforce
  obtain b h f where 3: "partition_at CHR ''#'' r = (b, h, f)" by (cases "partition_at CHR ''#'' r")
  obtain p m q where 4: "partition_at CHR ''?'' b = (p, m, q)" by (cases "partition_at CHR ''?'' b")
  have u: "u = \<lparr>ur_scheme = scheme, ur_netloc = n, ur_path = p, ur_query = q, ur_fragment = f\<rparr>" "netloc_ok n"
    using assms by (auto simp: urlsplit_def 1 2 3 4 split: if_splits)
  note s1 = split_scheme_rest [OF 1] and s2 = split_netloc_parts [OF 2] and s3 = partition_at_parts [OF 3]
    and s4 = partition_at_parts [OF 4]
  have clean: "plain_url x" if "set x \<subseteq> set url" for x
    using that s1 set_clean_url by (auto simp: plain_url_def list_all_iff)
  have "hd p = CHR ''/''" if "n \<noteq> []" "p \<noteq> []"
  proof -
    have "b \<noteq> []" using that(2) s4(2) by (cases b) auto
    then have "hd p = hd r" "r \<noteq> []" using that(2) s3(2,4) s4(4) by (auto simp: subset_empty)
    moreover have "hd p \<in> set p" using that(2) by simp
    then have "hd p \<noteq> CHR ''#''" "hd p \<noteq> CHR ''?''" using s4(1,2) s3(1) by auto
    ultimately show ?thesis using s2(4) that(1) by (auto simp: netloc_end_def)
  qed
  then have "n \<noteq> [] \<longrightarrow> p = [] \<or> hd p = CHR ''/''" by blast
  moreover have "plain_url n" "plain_url p" "plain_url q" "plain_url f" using s2 s3 s4 by (blast intro: clean)+
  moreover have "CHR ''#'' \<notin> set p" "CHR ''#'' \<notin> set q" using s3(1) s4(2,3) by blast+
  ultimately show ?thesis unfolding url_wf_def u(1) using s1 s2(1) s4(1) u(2) by simp
qed

lemma urlsplit_path_chars:
  assumes "urlsplit s = Inr u"
  shows "set (ur_path u) \<subseteq> set s"
proof -
  obtain scheme url where 1: "split_scheme (clean_url s) = (scheme, url)" by fastforce
  obtain n r where 2: "split_netloc url = (n, r)" by fastforce
  obtain b h f where 3: "partition_at CHR ''#'' r = (b, h, f)" by (cases "partition_at CHR ''#'' r")
  obtain p m q where 4: "partition_at CHR ''?'' b = (p, m, q)" by (cases "partition_at CHR ''?'' b")
  have "ur_path u = p" using assms by (auto simp: urlsplit_def 1 2 3 4 split: if_splits)
  moreover have "set (clean_url s) \<subseteq> set s" by (auto simp: clean_url_def dest: set_dropWhileD)
  ultimately show ?thesis
    using split_scheme_rest [OF 1] split_netloc_parts(3) [OF 2] partition_at_parts(2) [OF 3] partition_at_parts(2) [OF 4]
    by blast
qed

lemma partition_at_append: "c \<notin> set s \<Longrightarrow> partition_at c (s @ c # t) = (s, True, t)"
  by (simp add: partition_at_def takeWhile_neq_append dropWhile_neq_append)

lemma partition_at_none: "c \<notin> set s \<Longrightarrow> partition_at c s = (s, False, [])"
  by (induction s) (auto simp: partition_at_def)

lemma takeWhile_end: "list_all P s \<Longrightarrow> t = [] \<or> \<not> P (hd t) \<Longrightarrow> takeWhile P (s @ t) = s \<and> dropWhile P (s @ t) = t"
  by (induction s) (cases t; auto)+

lemma clean_url_id: "plain_url s \<Longrightarrow> s = [] \<or> 32 < char_code (hd s) \<Longrightarrow> clean_url s = s"
  by (cases s) (auto simp: clean_url_def plain_url_def list_all_iff filter_id_conv)

text \<open>
  For a well-formed result with a network location, joining and splitting are inverse. The scheme must
  be one that \<open>urlsplit\<close> recognises.
\<close>

lemma urlsplit_urlunsplit:
  assumes wf: "url_wf u" and n: "ur_netloc u \<noteq> []"
    and s: "ur_scheme u \<noteq> []" "is_alpha (hd (ur_scheme u))" "list_all scheme_char (ur_scheme u)"
  shows "urlsplit (urlunsplit u) = Inr u"
proof -
  let ?tail = "(if ur_query u \<noteq> [] then ''?'' @ ur_query u else []) @ (if ur_fragment u \<noteq> [] then ''#'' @ ur_fragment u else [])"
  let ?rest = "ur_path u @ ?tail"
  have path: "ur_path u = [] \<or> hd (ur_path u) = CHR ''/''" using wf n by (auto simp: url_wf_def)
  then have "urlunsplit u = ur_scheme u @ CHR '':'' # ''//'' @ ur_netloc u @ ?rest" (is "_ = ?all")
    using n s(1) by (cases "ur_path u") (auto simp: urlunsplit_def Let_def starts_with_def)
  moreover have "clean_url ?all = ?all"
  proof (rule clean_url_id)
    show "?all = [] \<or> 32 < char_code (hd ?all)" using s(1,2) by (cases "ur_scheme u") (auto simp: is_alpha_def)
    have "plain_url (ur_scheme u)"
      using s(3) by (auto simp: plain_url_def list_all_iff scheme_char_def unsafe_char_def is_alpha_def is_digit_def char_code_def)
    then show "plain_url ?all" using wf by (auto simp: url_wf_def plain_url_def unsafe_char_def char_code_def)
  qed
  moreover have "CHR '':'' \<notin> set (ur_scheme u)"
    using s(3) by (auto simp: list_all_iff scheme_char_def is_alpha_def is_digit_def char_code_def)
  then have "split_scheme ?all = (ur_scheme u, ''//'' @ ur_netloc u @ ?rest)"
    using s wf by (simp add: split_scheme_def partition_at_append url_wf_def)
  moreover have "?rest = [] \<or> netloc_end (hd ?rest)" using path by (cases "ur_path u") (auto simp: netloc_end_def)
  then have "split_netloc (''//'' @ ur_netloc u @ ?rest) = (ur_netloc u, ?rest)"
    using takeWhile_end [of "\<lambda>c. \<not> netloc_end c" "ur_netloc u" ?rest] wf
    by (simp add: split_netloc_def starts_with_def url_wf_def)
  moreover have "partition_at CHR ''#'' ?rest
      = (ur_path u @ (if ur_query u \<noteq> [] then ''?'' @ ur_query u else []), ur_fragment u \<noteq> [], ur_fragment u)"
    using wf partition_at_append [of "CHR ''#''" "ur_path u @ (if ur_query u \<noteq> [] then ''?'' @ ur_query u else [])" "ur_fragment u"]
      partition_at_none [of "CHR ''#''" "ur_path u @ (if ur_query u \<noteq> [] then ''?'' @ ur_query u else [])"]
    by (auto simp: url_wf_def)
  moreover have "partition_at CHR ''?'' (ur_path u @ (if ur_query u \<noteq> [] then ''?'' @ ur_query u else []))
      = (ur_path u, ur_query u \<noteq> [], ur_query u)"
    using wf partition_at_append [of "CHR ''?''" "ur_path u" "ur_query u"] partition_at_none [of "CHR ''?''" "ur_path u"]
    by (auto simp: url_wf_def)
  ultimately show ?thesis using wf by (simp add: urlsplit_def url_wf_def)
qed

end
