(* ===== verification/Reconcile_Dispatch.thy ===== *)
theory Reconcile_Dispatch
  imports Assess Url
begin

text \<open>
  The evidence fence of \<^verbatim>\<open>reconcile.py\<close> and the dry-run planner of \<^verbatim>\<open>dispatcher.py\<close>. The snapshot
  dictionaries are records with the same fields (a missing section is \<open>None\<close>). One thing is
  an argument: \<open>digest\<close>, the SHA-256 of canonical JSON.
\<close>

section \<open>Reconciliation records\<close>

record task_snapshot =
  ts_task_id :: string
  ts_state :: string
  ts_current_worker_id :: "string option"
  ts_registered_worker_url :: "string option"
  ts_registered_worker_status :: "string option"
  ts_lsm_session_id :: "string option"
  ts_recovery_attempts :: int
  ts_max_recovery_attempts :: int
  ts_checkpoint_digest :: string

record browser_snapshot =
  bs_worker_id :: string
  bs_observed_at :: "timestamp option"
  bs_url :: "string option"
  bs_generating :: "bool option"
  bs_send_button_ready :: "bool option"
  bs_composer_present :: "bool option"
  bs_pending_tool_calls :: "int option"
  bs_visible_error :: "string option"
  bs_last_dom_change_at :: "timestamp option"
  bs_message_signature :: "string option"

record network_snapshot =
  ns_worker_id :: string
  ns_observed_at :: "timestamp option"
  ns_source :: string
  ns_page_url :: "string option"
  ns_event_count :: int
  ns_loading_failed :: int
  ns_last_activity_at :: "timestamp option"
  ns_quiet_since_at :: "timestamp option"
  ns_inflight_requests :: int

record lsm_snapshot =
  ls_observed_at :: "timestamp option"
  ls_session_id :: "string option"
  ls_session_status :: "string option"
  ls_active_run_id :: "string option"
  ls_plan_status :: "string option"
  ls_plan_last_agent_activity :: "timestamp option"
  ls_continuation_due :: "bool option"
  ls_continuation_pending :: "bool option"
  ls_in_flight_calls :: int
  ls_freshest_in_flight_heartbeat :: "timestamp option"
  ls_active_jobs :: int
  ls_failed_jobs :: int
  ls_succeeded_jobs :: int
  ls_recent_event_type :: "string option"
  ls_recent_event_at :: "timestamp option"
  ls_completed_steps :: "int option"
  ls_total_steps :: "int option"

record workspace_snapshot =
  ww_observed_at :: "timestamp option"
  ww_cwd :: string
  ww_cwd_exists :: bool
  ww_is_git_repo :: "bool option"
  ww_git_root :: "string option"
  ww_git_head :: "string option"
  ww_git_dirty :: "bool option"
  ww_git_status_hash :: "string option"
  ww_error :: "string option"

record snapshot =
  sn_task :: task_snapshot
  sn_browser :: "browser_snapshot option"
  sn_network :: "network_snapshot option"
  sn_lsm :: "lsm_snapshot option"
  sn_workspace :: "workspace_snapshot option"

record reconciliation_record =
  rr_reconcile_id :: string
  rr_task_id :: string
  rr_created_at :: timestamp
  rr_state :: string
  rr_confidence :: string
  rr_reason :: string
  rr_requires_reconcile :: bool
  rr_current_worker_id :: "string option"
  rr_fence_token :: string
  rr_fence_version :: int
  rr_evidence :: "string list"
  rr_snapshot :: snapshot

definition task_section :: "(json_object \<Rightarrow> string) \<Rightarrow> task_record \<Rightarrow> worker_record option \<Rightarrow> task_snapshot" where
  "task_section digest_checkpoint task worker =
     (let registered = (\<lambda>f. case worker of None \<Rightarrow> None
            | Some w \<Rightarrow> if Some (wk_worker_id w) = tk_current_worker_id task then Some (f w) else None) in
      \<lparr>ts_task_id = tk_task_id task, ts_state = ss_value (tk_state task),
       ts_current_worker_id = tk_current_worker_id task,
       ts_registered_worker_url = registered wk_conversation_url,
       ts_registered_worker_status = registered (\<lambda>w. ws_value (wk_status w)),
       ts_lsm_session_id = tk_lsm_session_id task, ts_recovery_attempts = tk_recovery_attempts task,
       ts_max_recovery_attempts = tk_max_recovery_attempts task,
       ts_checkpoint_digest = digest_checkpoint (tk_checkpoint task)\<rparr>)"

definition browser_section :: "browser_observation \<Rightarrow> browser_snapshot" where
  "browser_section b =
     \<lparr>bs_worker_id = bo_worker_id b, bs_observed_at = Some (bo_observed_at b), bs_url = bo_url b,
      bs_generating = bo_generating b, bs_send_button_ready = bo_send_button_ready b,
      bs_composer_present = map_option json_truthy (map_of (bo_raw b) ''composer_present''),
      bs_pending_tool_calls = bo_pending_tool_calls b, bs_visible_error = bo_visible_error b,
      bs_last_dom_change_at = bo_last_dom_change_at b, bs_message_signature = bo_message_signature b\<rparr>"

definition network_section :: "network_observation \<Rightarrow> network_snapshot" where
  "network_section n =
     \<lparr>ns_worker_id = no_worker_id n, ns_observed_at = Some (no_observed_at n), ns_source = no_source n,
      ns_page_url = no_page_url n, ns_event_count = no_event_count n,
      ns_loading_failed = no_loading_failed n, ns_last_activity_at = no_last_activity_at n,
      ns_quiet_since_at = no_quiet_since_at n, ns_inflight_requests = no_inflight_requests n\<rparr>"

definition lsm_section :: "lsm_observation \<Rightarrow> lsm_snapshot" where
  "lsm_section l =
     \<lparr>ls_observed_at = Some (lo_observed_at l), ls_session_id = lo_session_id l,
      ls_session_status = lo_session_status l, ls_active_run_id = lo_active_run_id l,
      ls_plan_status = lo_plan_status l, ls_plan_last_agent_activity = lo_plan_last_agent_activity l,
      ls_continuation_due = lo_continuation_due l, ls_continuation_pending = lo_continuation_pending l,
      ls_in_flight_calls = lo_in_flight_calls l,
      ls_freshest_in_flight_heartbeat = lo_freshest_in_flight_heartbeat l,
      ls_active_jobs = lo_active_jobs l, ls_failed_jobs = lo_failed_jobs l,
      ls_succeeded_jobs = lo_succeeded_jobs l, ls_recent_event_type = lo_recent_event_type l,
      ls_recent_event_at = lo_recent_event_at l, ls_completed_steps = lo_completed_steps l,
      ls_total_steps = lo_total_steps l\<rparr>"

definition workspace_section :: "workspace_observation \<Rightarrow> workspace_snapshot" where
  "workspace_section w =
     \<lparr>ww_observed_at = Some (wo_observed_at w), ww_cwd = wo_cwd w, ww_cwd_exists = wo_cwd_exists w,
      ww_is_git_repo = wo_is_git_repo w, ww_git_root = wo_git_root w, ww_git_head = wo_git_head w,
      ww_git_dirty = wo_git_dirty w, ww_git_status_hash = wo_git_status_hash w, ww_error = wo_error w\<rparr>"

text \<open>\<^verbatim>\<open>_fence_material\<close> drops the sampling times of the sections.\<close>

definition fence_material :: "snapshot \<Rightarrow> snapshot" where
  "fence_material s =
     s\<lparr>sn_browser := map_option (\<lambda>b. b\<lparr>bs_observed_at := None\<rparr>) (sn_browser s),
       sn_network := map_option (\<lambda>n. n\<lparr>ns_observed_at := None\<rparr>) (sn_network s),
       sn_lsm := map_option (\<lambda>l. l\<lparr>ls_observed_at := None\<rparr>) (sn_lsm s),
       sn_workspace := map_option (\<lambda>w. w\<lparr>ww_observed_at := None\<rparr>) (sn_workspace s)\<rparr>"

definition build_reconciliation_record ::
  "(json_object \<Rightarrow> string) \<Rightarrow> (snapshot \<Rightarrow> string) \<Rightarrow> string \<Rightarrow> task_record \<Rightarrow> assessment
     \<Rightarrow> worker_record option \<Rightarrow> browser_observation option \<Rightarrow> network_observation option
     \<Rightarrow> lsm_observation option \<Rightarrow> workspace_observation option \<Rightarrow> timestamp
     \<Rightarrow> reconciliation_record" where
  "build_reconciliation_record digest_checkpoint digest fresh_id task a worker browser network lsm
       workspace created_at =
     (let sn = \<lparr>sn_task = task_section digest_checkpoint task worker,
                sn_browser = map_option browser_section browser,
                sn_network = map_option network_section network,
                sn_lsm = map_option lsm_section lsm,
                sn_workspace = map_option workspace_section workspace\<rparr> in
      \<lparr>rr_reconcile_id = fresh_id, rr_task_id = tk_task_id task, rr_created_at = created_at,
       rr_state = ss_value (as_state a), rr_confidence = as_confidence a, rr_reason = as_reason a,
       rr_requires_reconcile = as_requires_reconcile a,
       rr_current_worker_id = tk_current_worker_id task,
       rr_fence_token = digest (fence_material sn), rr_fence_version = 2,
       rr_evidence = as_evidence a, rr_snapshot = sn\<rparr>)"

definition fence_matches :: "reconciliation_record \<Rightarrow> reconciliation_record \<Rightarrow> bool" where
  "fence_matches a b = (rr_task_id a = rr_task_id b \<and> rr_fence_version a = rr_fence_version b
     \<and> rr_fence_token a = rr_fence_token b)"

section \<open>The dispatch plan\<close>

datatype dispatch_action =
    DA_NONE | DA_OBSERVE | DA_HUMAN_DECISION | DA_CONTINUE_CURRENT_WORKER | DA_TAKEOVER_NEW_WORKER

fun da_value :: "dispatch_action \<Rightarrow> string" where
  "da_value DA_NONE = ''NONE''"
| "da_value DA_OBSERVE = ''OBSERVE''"
| "da_value DA_HUMAN_DECISION = ''HUMAN_DECISION''"
| "da_value DA_CONTINUE_CURRENT_WORKER = ''CONTINUE_CURRENT_WORKER''"
| "da_value DA_TAKEOVER_NEW_WORKER = ''TAKEOVER_NEW_WORKER''"

record dispatch_policy =
  dp_max_reconciliation_age_s :: real
  dp_min_reconciliation_separation_s :: real
  dp_max_browser_observation_age_s :: real
  dp_max_network_observation_age_s :: real
  dp_min_dom_quiet_s :: real
  dp_min_network_quiet_s :: real
  dp_transport_enabled :: bool

definition default_dispatch_policy :: dispatch_policy where
  "default_dispatch_policy = \<lparr>dp_max_reconciliation_age_s = 120, dp_min_reconciliation_separation_s = 3,
     dp_max_browser_observation_age_s = 30, dp_max_network_observation_age_s = 30,
     dp_min_dom_quiet_s = 5, dp_min_network_quiet_s = 5, dp_transport_enabled = False\<rparr>"

record dispatch_plan =
  dn_task_id :: string
  dn_created_at :: timestamp
  dn_action :: dispatch_action
  dn_candidate_ready :: bool
  dn_transport_enabled :: bool
  dn_would_dispatch :: bool
  dn_reason :: string
  dn_previous_reconcile_id :: "string option"
  dn_current_reconcile_id :: "string option"
  dn_fence_token :: "string option"
  dn_checks :: "(string \<times> bool) list"
  dn_blockers :: "string list"

definition action_from_recommendation :: "recovery_recommendation \<Rightarrow> dispatch_action" where
  "action_from_recommendation r =
     (if rm_action r = ''none'' then DA_NONE
      else if rm_action r = ''observe'' then DA_OBSERVE
      else if rm_action r = ''human_decision'' then DA_HUMAN_DECISION
      else if rm_action r = ''reconcile_then_continue'' then DA_CONTINUE_CURRENT_WORKER
      else DA_HUMAN_DECISION)"

text \<open>
  The planner records each check under its name and appends one blocker when it fails. A group of
  checks is a list of (name, value, blocker); a recorded check whose failure adds no blocker of its
  own has the blocker \<open>None\<close>.
\<close>

type_synonym check = "string \<times> bool \<times> string option"

definition checks_of :: "check list \<Rightarrow> (string \<times> bool) list" where
  "checks_of cs = map (\<lambda>(n, v, b). (n, v)) cs"

definition blockers_of :: "check list \<Rightarrow> string list" where
  "blockers_of cs = concat (map (\<lambda>(n, v, b). if v then [] else (case b of None \<Rightarrow> [] | Some x \<Rightarrow> [x])) cs)"

definition fresh_within :: "timestamp \<Rightarrow> timestamp \<Rightarrow> real \<Rightarrow> bool" where
  "fresh_within now since limit = (0 \<le> now - since \<and> now - since \<le> max 1 limit)"

definition current_checks ::
  "task_record \<Rightarrow> reconciliation_record option \<Rightarrow> dispatch_policy \<Rightarrow> timestamp \<Rightarrow> check list" where
  "current_checks task current policy now =
     [(''recovery_budget_available'', tk_recovery_attempts task < tk_max_recovery_attempts task,
         Some ''recovery attempt budget is exhausted''),
      (''current_reconciliation_present'', current \<noteq> None, Some ''no current reconciliation record'')]
     @ (case current of None \<Rightarrow> [] | Some c \<Rightarrow>
        [(''current_reconciliation_fresh'',
            fresh_within now (rr_created_at c) (dp_max_reconciliation_age_s policy),
            Some ''current reconciliation record is stale or from the future''),
         (''current_worker_matches_task'', rr_current_worker_id c = tk_current_worker_id task,
            Some ''current worker changed after task registration/reconciliation''),
         (''recovery_state_allowed'', rr_state c \<in> {ss_value SS_SUSPECT, ss_value SS_RECONCILING},
            Some (''current state '' @ rr_state c @ '' is not a recoverable stalled state''))])"

definition two_phase_checks ::
  "reconciliation_record option \<Rightarrow> reconciliation_record option \<Rightarrow> dispatch_policy \<Rightarrow> timestamp
     \<Rightarrow> check list" where
  "two_phase_checks previous current policy now =
     (let both = (\<lambda>f. case (previous, current) of (Some p, Some c) \<Rightarrow> f p c | _ \<Rightarrow> False) in
      [(''previous_reconciliation_present'', previous \<noteq> None,
          Some ''two-phase dispatch requires a previous reconciliation record''),
       (''distinct_reconciliation_samples'', both (\<lambda>p c. rr_reconcile_id p \<noteq> rr_reconcile_id c),
          Some ''dispatch requires two distinct reconciliation samples''),
       (''previous_reconciliation_fresh'',
          (case previous of None \<Rightarrow> False
           | Some p \<Rightarrow> fresh_within now (rr_created_at p) (dp_max_reconciliation_age_s policy)),
          Some ''previous reconciliation record is stale or from the future''),
       (''reconciliation_separation_sufficient'',
          both (\<lambda>p c. rr_created_at c - rr_created_at p
                       \<ge> max 0 (dp_min_reconciliation_separation_s policy)),
          Some ''reconciliation samples are too close together to prove stability''),
       (''fence_stable'', both fence_matches, Some ''reconciliation fence changed between samples'')])"

definition lsm_checks :: "task_record \<Rightarrow> snapshot option \<Rightarrow> check list" where
  "lsm_checks task sn =
     (let lsm = (case sn of None \<Rightarrow> None | Some s \<Rightarrow> sn_lsm s);
          num = (\<lambda>f. case lsm of None \<Rightarrow> (0 :: int) | Some l \<Rightarrow> f l) in
      [(''lsm_present'', (case lsm of None \<Rightarrow> False | Some l \<Rightarrow> ls_session_id l = tk_lsm_session_id task),
          Some ''durable LSM session evidence is missing or belongs to a different session''),
       (''lsm_session_active'', (case lsm of None \<Rightarrow> False | Some l \<Rightarrow> ls_session_status l = Some ''active''),
          Some ''durable LSM session is not active''),
       (''lsm_no_inflight_calls'', num ls_in_flight_calls = 0, Some ''LSM has an in-flight tool call''),
       (''lsm_no_active_jobs'', num ls_active_jobs = 0, Some ''LSM has a tracked active job''),
       (''lsm_no_continuation_pending'',
          (case lsm of None \<Rightarrow> True | Some l \<Rightarrow> ls_continuation_pending l \<noteq> Some True),
          Some ''LSM continuation is already pending'')])"

definition worker_checks :: "snapshot option \<Rightarrow> check list" where
  "worker_checks sn =
     [(''workspace_exists'', (case sn of None \<Rightarrow> False | Some s \<Rightarrow>
          (case sn_workspace s of None \<Rightarrow> False | Some w \<Rightarrow> ww_cwd_exists w)),
         Some ''registered workspace does not exist''),
      (''registered_worker_active'', (case sn of None \<Rightarrow> False
          | Some s \<Rightarrow> ts_registered_worker_status (sn_task s) = Some ''active''),
         Some ''registered current worker is not marked active''),
      (''registered_worker_url_present'', (case sn of None \<Rightarrow> False
          | Some s \<Rightarrow> present (ts_registered_worker_url (sn_task s))),
         Some ''registered current worker URL is missing from the reconciliation fence'')]"

text \<open>
  Whether the observed page is the registered conversation: the comparison of the two normal forms,
  which raises when one of the URLs cannot be split.
\<close>

definition urls_match :: "snapshot option \<Rightarrow> bool result" where
  "urls_match sn =
     (case sn of None \<Rightarrow> Inr False
      | Some s \<Rightarrow> (case (sn_browser s, ts_registered_worker_url (sn_task s)) of
          (Some b, Some registered) \<Rightarrow>
            if registered = [] then Inr False
            else rbind (normalize_url (or_text (bs_url b) [])) (\<lambda>x.
                 rbind (normalize_url registered) (\<lambda>y. Inr (x = y)))
        | _ \<Rightarrow> Inr False))"

definition browser_checks ::
  "bool \<Rightarrow> task_record \<Rightarrow> snapshot option \<Rightarrow> dispatch_policy \<Rightarrow> timestamp \<Rightarrow> check list" where
  "browser_checks url_matches task sn policy now =
     (case (case sn of None \<Rightarrow> None | Some s \<Rightarrow> sn_browser s) of
        None \<Rightarrow> [(''browser_worker_observed'', False, Some
          ''current browser worker is not positively observed; automatic takeover requires a separate explicit new-worker binding protocol'')]
      | Some b \<Rightarrow>
        let registered = (case sn of None \<Rightarrow> None | Some s \<Rightarrow> ts_registered_worker_url (sn_task s)) in
        [(''browser_worker_observed'', Some (bs_worker_id b) = tk_current_worker_id task,
            Some ''browser observation does not belong to the current worker''),
         (''browser_url_matches_registered'', present registered \<and> url_matches,
            Some ''browser URL does not exactly match the registered worker URL''),
         (''browser_observation_fresh'', (case bs_observed_at b of None \<Rightarrow> False
            | Some t \<Rightarrow> fresh_within now t (dp_max_browser_observation_age_s policy)),
            Some ''browser observation is too stale for recovery dispatch''),
         (''browser_not_generating'', bs_generating b \<noteq> Some True,
            Some ''browser still reports active generation''),
         (''composer_available'', bs_composer_present b = Some True \<or> bs_send_button_ready b = Some True,
            Some ''no positive composer-presence evidence''),
         (''dom_quiet_enough'', (case bs_last_dom_change_at b of None \<Rightarrow> False
            | Some t \<Rightarrow> now - t \<ge> max 0 (dp_min_dom_quiet_s policy)),
            Some ''DOM/UI has not been stably quiet for the required interval'')])"

definition network_checks :: "snapshot option \<Rightarrow> dispatch_policy \<Rightarrow> timestamp \<Rightarrow> check list" where
  "network_checks sn policy now =
     (case (case sn of None \<Rightarrow> None | Some s \<Rightarrow> sn_network s) of
        None \<Rightarrow> [(''network_quiet_enough'', True, None)]
      | Some n \<Rightarrow>
        [(''network_observation_fresh'', (case ns_observed_at n of None \<Rightarrow> False
            | Some t \<Rightarrow> fresh_within now t (dp_max_network_observation_age_s policy)),
            Some ''network observation is too stale for recovery dispatch''),
         (''network_quiet_enough'', (case ns_quiet_since_at n of None \<Rightarrow> False
            | Some t \<Rightarrow> now - t \<ge> max 0 (dp_min_network_quiet_s policy)),
            Some ''network lifecycle is not stably quiet for the required interval'')])"

definition plan_dispatch ::
  "bool \<Rightarrow> task_record \<Rightarrow> recovery_recommendation \<Rightarrow> reconciliation_record option
     \<Rightarrow> reconciliation_record option \<Rightarrow> dispatch_policy \<Rightarrow> timestamp \<Rightarrow> dispatch_plan" where
  "plan_dispatch url_matches task recommendation previous current policy now =
     (let action0 = action_from_recommendation recommendation;
          sn = map_option rr_snapshot current;
          base = \<lparr>dn_task_id = tk_task_id task, dn_created_at = now, dn_action = action0,
                  dn_candidate_ready = False, dn_transport_enabled = dp_transport_enabled policy,
                  dn_would_dispatch = False, dn_reason = rm_reason recommendation,
                  dn_previous_reconcile_id = map_option rr_reconcile_id previous,
                  dn_current_reconcile_id = map_option rr_reconcile_id current,
                  dn_fence_token = map_option rr_fence_token current, dn_checks = [],
                  dn_blockers = [''recovery recommendation does not request a continue/takeover action'']\<rparr> in
      if action0 \<in> {DA_NONE, DA_OBSERVE, DA_HUMAN_DECISION} then base
      else
        let cs = current_checks task current policy now @ two_phase_checks previous current policy now
              @ lsm_checks task sn @ worker_checks sn @ browser_checks url_matches task sn policy now
              @ network_checks sn policy now;
            action = (if (case sn of None \<Rightarrow> None | Some s \<Rightarrow> sn_browser s) = None
                      then DA_TAKEOVER_NEW_WORKER else action0);
            ready = (blockers_of cs = [] \<and> action = DA_CONTINUE_CURRENT_WORKER)
        in base\<lparr>dn_action := action, dn_candidate_ready := ready,
             dn_would_dispatch := ready \<and> dp_transport_enabled policy,
             dn_reason :=
               (if ready \<and> \<not> dp_transport_enabled policy
                then ''all deterministic preconditions are satisfied, but transport is disabled for this plan; dry-run only''
                else if ready then ''all deterministic preconditions are satisfied''
                else if action = DA_TAKEOVER_NEW_WORKER
                then ''takeover requires a separately bound replacement worker and remains disabled''
                else ''recovery dispatch is blocked by one or more deterministic preconditions''),
             dn_checks := checks_of cs, dn_blockers := blockers_of cs\<rparr>)"

definition build_dispatch_plan ::
  "task_record \<Rightarrow> recovery_recommendation \<Rightarrow> reconciliation_record option
     \<Rightarrow> reconciliation_record option \<Rightarrow> dispatch_policy \<Rightarrow> timestamp \<Rightarrow> dispatch_plan result" where
  "build_dispatch_plan task recommendation previous current policy now =
     rbind (if action_from_recommendation recommendation \<in> {DA_NONE, DA_OBSERVE, DA_HUMAN_DECISION} then Inr False
            else urls_match (map_option rr_snapshot current)) (\<lambda>url_matches.
     Inr (plan_dispatch url_matches task recommendation previous current policy now))"

definition execute_dispatch :: "dispatch_plan \<Rightarrow> unit result" where
  "execute_dispatch plan = Inl (DispatchDisabled
     ''generic recovery dispatch is disabled; use dispatch-plan or the explicit fenced executor'')"

section \<open>Properties\<close>

lemma blockers_of_append: "blockers_of (xs @ ys) = blockers_of xs @ blockers_of ys"
  by (simp add: blockers_of_def)

definition all_checks ::
  "bool \<Rightarrow> task_record \<Rightarrow> reconciliation_record option \<Rightarrow> reconciliation_record option
     \<Rightarrow> dispatch_policy \<Rightarrow> timestamp \<Rightarrow> check list" where
  "all_checks nu task previous current policy now =
     (let sn = map_option rr_snapshot current in
      current_checks task current policy now @ two_phase_checks previous current policy now
      @ lsm_checks task sn @ worker_checks sn @ browser_checks nu task sn policy now
      @ network_checks sn policy now)"

lemma plan_ready_iff:
  "dn_candidate_ready (plan_dispatch m task r previous current policy now) \<longleftrightarrow>
     action_from_recommendation r = DA_CONTINUE_CURRENT_WORKER
     \<and> blockers_of (all_checks m task previous current policy now) = []"
proof -
  have br: "blockers_of (browser_checks m task sn policy now) = []
      \<Longrightarrow> (case sn of None \<Rightarrow> None | Some s \<Rightarrow> sn_browser s) \<noteq> None" for sn
    by (auto simp: browser_checks_def blockers_of_def split: option.splits)
  have "action_from_recommendation r \<noteq> DA_TAKEOVER_NEW_WORKER"
    by (simp add: action_from_recommendation_def)
  then show ?thesis
    using br [of "map_option rr_snapshot current"]
    by (cases "action_from_recommendation r")
      (auto simp: plan_dispatch_def all_checks_def Let_def blockers_of_append)
qed

lemma current_checks_ready:
  "blockers_of (current_checks task current policy now) = [] \<longleftrightarrow>
     tk_recovery_attempts task < tk_max_recovery_attempts task
     \<and> (\<exists>c. current = Some c \<and> fresh_within now (rr_created_at c) (dp_max_reconciliation_age_s policy)
          \<and> rr_current_worker_id c = tk_current_worker_id task
          \<and> rr_state c \<in> {ss_value SS_SUSPECT, ss_value SS_RECONCILING})"
  by (cases current) (auto simp: current_checks_def blockers_of_def split: if_splits)

lemma two_phase_checks_ready:
  "blockers_of (two_phase_checks previous (Some c) policy now) = [] \<longleftrightarrow>
     (\<exists>p. previous = Some p \<and> rr_reconcile_id p \<noteq> rr_reconcile_id c
        \<and> fresh_within now (rr_created_at p) (dp_max_reconciliation_age_s policy)
        \<and> rr_created_at c - rr_created_at p \<ge> max 0 (dp_min_reconciliation_separation_s policy)
        \<and> fence_matches p c)"
  by (cases previous) (auto simp: two_phase_checks_def blockers_of_def Let_def split: if_splits)

lemma lsm_checks_ready:
  "blockers_of (lsm_checks task (Some s)) = [] \<longleftrightarrow>
     (\<exists>l. sn_lsm s = Some l \<and> ls_session_id l = tk_lsm_session_id task
        \<and> ls_session_status l = Some ''active'' \<and> ls_in_flight_calls l = 0 \<and> ls_active_jobs l = 0
        \<and> ls_continuation_pending l \<noteq> Some True)"
  by (cases "sn_lsm s") (auto simp: lsm_checks_def blockers_of_def Let_def split: if_splits)

lemma worker_checks_ready:
  "blockers_of (worker_checks (Some s)) = [] \<longleftrightarrow>
     (\<exists>w. sn_workspace s = Some w \<and> ww_cwd_exists w)
     \<and> ts_registered_worker_status (sn_task s) = Some ''active''
     \<and> present (ts_registered_worker_url (sn_task s))"
  by (cases "sn_workspace s") (auto simp: worker_checks_def blockers_of_def split: if_splits)

lemma browser_checks_ready:
  "blockers_of (browser_checks m task (Some s) policy now) = [] \<longleftrightarrow>
     (\<exists>b. sn_browser s = Some b \<and> Some (bs_worker_id b) = tk_current_worker_id task
        \<and> present (ts_registered_worker_url (sn_task s))
        \<and> m
        \<and> (\<exists>t. bs_observed_at b = Some t \<and> fresh_within now t (dp_max_browser_observation_age_s policy))
        \<and> bs_generating b \<noteq> Some True
        \<and> (bs_composer_present b = Some True \<or> bs_send_button_ready b = Some True)
        \<and> (\<exists>t. bs_last_dom_change_at b = Some t \<and> now - t \<ge> max 0 (dp_min_dom_quiet_s policy)))"
  by (cases "sn_browser s")
    (auto simp: browser_checks_def blockers_of_def Let_def split: if_splits option.splits)

lemma network_checks_ready:
  "blockers_of (network_checks (Some s) policy now) = [] \<longleftrightarrow>
     (\<forall>n. sn_network s = Some n \<longrightarrow>
        (\<exists>t. ns_observed_at n = Some t \<and> fresh_within now t (dp_max_network_observation_age_s policy))
        \<and> (\<exists>t. ns_quiet_since_at n = Some t \<and> now - t \<ge> max 0 (dp_min_network_quiet_s policy)))"
  by (cases "sn_network s") (auto simp: network_checks_def blockers_of_def split: if_splits option.splits)

lemmas checks_ready = current_checks_ready two_phase_checks_ready lsm_checks_ready worker_checks_ready
  browser_checks_ready network_checks_ready

lemma plan_ready_facts:
  assumes "dn_candidate_ready (plan_dispatch m task r previous current policy now)"
  obtains p c where "previous = Some p" "current = Some c"
    "blockers_of (current_checks task (Some c) policy now) = []"
    "blockers_of (two_phase_checks (Some p) (Some c) policy now) = []"
    "blockers_of (lsm_checks task (Some (rr_snapshot c))) = []"
    "blockers_of (worker_checks (Some (rr_snapshot c))) = []"
    "blockers_of (browser_checks m task (Some (rr_snapshot c)) policy now) = []"
    "blockers_of (network_checks (Some (rr_snapshot c)) policy now) = []"
    "rm_action r = ''reconcile_then_continue''"
proof -
  have b: "blockers_of (all_checks m task previous current policy now) = []"
    and a: "action_from_recommendation r = DA_CONTINUE_CURRENT_WORKER"
    using assms by (simp_all add: plan_ready_iff)
  then obtain c where c: "current = Some c"
    by (auto simp: all_checks_def Let_def blockers_of_append current_checks_ready)
  with b obtain p where p: "previous = Some p"
    by (auto simp: all_checks_def Let_def blockers_of_append two_phase_checks_ready)
  have "rm_action r = ''reconcile_then_continue''"
    using a by (auto simp: action_from_recommendation_def split: if_splits)
  with b p c that show thesis by (auto simp: all_checks_def Let_def blockers_of_append)
qed

text \<open>A plan is candidate-ready only behind every fence: continuation was recommended, the recovery
  budget is not exhausted, two distinct and recent reconciliation samples at least the required interval
  apart carry the same fence, the current worker is the task's, registered active and positively observed
  in its own conversation (its URL has the registered one's normal form), not generating, with a composer and a quiet page; the durable session is the
  task's, active, and has no in-flight call, no job and no pending continuation; the working directory
  exists. The plan would dispatch exactly when it is ready and the transport is enabled.\<close>

theorem ready_plan_is_fenced:
  assumes built: "build_dispatch_plan task r previous current policy now = Inr plan"
    and ready: "dn_candidate_ready plan"
  shows "\<exists>p c l b w. previous = Some p \<and> current = Some c \<and> rm_action r = ''reconcile_then_continue''
    \<and> tk_recovery_attempts task < tk_max_recovery_attempts task
    \<and> rr_reconcile_id p \<noteq> rr_reconcile_id c \<and> fence_matches p c
    \<and> rr_created_at p \<le> rr_created_at c \<and> rr_created_at c \<le> now
    \<and> now - rr_created_at p \<le> max 1 (dp_max_reconciliation_age_s policy)
    \<and> rr_created_at c - rr_created_at p \<ge> dp_min_reconciliation_separation_s policy
    \<and> rr_current_worker_id c = tk_current_worker_id task
    \<and> sn_lsm (rr_snapshot c) = Some l \<and> ls_session_id l = tk_lsm_session_id task
    \<and> ls_session_status l = Some ''active'' \<and> ls_in_flight_calls l = 0 \<and> ls_active_jobs l = 0
    \<and> ls_continuation_pending l \<noteq> Some True
    \<and> sn_browser (rr_snapshot c) = Some b \<and> Some (bs_worker_id b) = tk_current_worker_id task
    \<and> normalize_url (or_text (bs_url b) []) = normalize_url (the (ts_registered_worker_url (sn_task (rr_snapshot c))))
    \<and> bs_generating b \<noteq> Some True
    \<and> (bs_composer_present b = Some True \<or> bs_send_button_ready b = Some True)
    \<and> sn_workspace (rr_snapshot c) = Some w \<and> ww_cwd_exists w
    \<and> ts_registered_worker_status (sn_task (rr_snapshot c)) = Some ''active''
    \<and> dn_action plan = DA_CONTINUE_CURRENT_WORKER \<and> dn_blockers plan = []
    \<and> dn_fence_token plan = Some (rr_fence_token c)
    \<and> dn_would_dispatch plan = dp_transport_enabled policy"
proof -
  obtain m where m: "plan = plan_dispatch m task r previous current policy now"
      "action_from_recommendation r = DA_CONTINUE_CURRENT_WORKER \<Longrightarrow> urls_match (map_option rr_snapshot current) = Inr m"
    using built by (auto simp: build_dispatch_plan_def split: if_splits)
  obtain p c where pc: "previous = Some p" "current = Some c"
      "blockers_of (current_checks task (Some c) policy now) = []"
      "blockers_of (two_phase_checks (Some p) (Some c) policy now) = []"
      "blockers_of (lsm_checks task (Some (rr_snapshot c))) = []"
      "blockers_of (worker_checks (Some (rr_snapshot c))) = []"
      "blockers_of (browser_checks m task (Some (rr_snapshot c)) policy now) = []"
      "blockers_of (network_checks (Some (rr_snapshot c)) policy now) = []"
      "rm_action r = ''reconcile_then_continue''"
    using ready unfolding m(1) by (rule plan_ready_facts)
  have a: "action_from_recommendation r = DA_CONTINUE_CURRENT_WORKER"
    using pc(9) by (simp add: action_from_recommendation_def)
  obtain b where b: "sn_browser (rr_snapshot c) = Some b" and "m" using pc(7) by (auto simp: browser_checks_ready)
  then have "normalize_url (or_text (bs_url b) []) = normalize_url (the (ts_registered_worker_url (sn_task (rr_snapshot c))))"
    using m(2) [OF a] pc(2) by (auto simp: urls_match_def split: option.splits if_splits)
  moreover
  have "dn_action plan = DA_CONTINUE_CURRENT_WORKER" "dn_blockers plan = []"
    "dn_fence_token plan = Some (rr_fence_token c)" "dn_would_dispatch plan = dp_transport_enabled policy"
    using pc a b by (simp_all add: m plan_dispatch_def Let_def blockers_of_append)
  ultimately show ?thesis
    using pc(1,2,9) pc(3-7) [unfolded checks_ready] b by (auto simp: fresh_within_def)
qed

text \<open>A stalled task observed twice, ten seconds apart, for the instance.\<close>

definition demo_worker :: worker_record where
  "demo_worker = \<lparr>wk_worker_id = ''w1'', wk_task_id = ''task'', wk_conversation_url = ''https://c/1'',
     wk_conversation_id = None, wk_status = WS_ACTIVE, wk_started_at = 1, wk_last_seen_at = Some 5,
     wk_ended_at = None\<rparr>"

definition demo_browser :: "timestamp \<Rightarrow> browser_observation" where
  "demo_browser t = \<lparr>bo_worker_id = ''w1'', bo_observed_at = t, bo_url = Some ''https://c/1'',
     bo_generating = Some False, bo_send_button_ready = Some True, bo_pending_tool_calls = None,
     bo_visible_error = None, bo_last_dom_change_at = Some 40, bo_message_signature = Some ''m'', bo_raw = []\<rparr>"

definition demo_workspace :: "timestamp \<Rightarrow> workspace_observation" where
  "demo_workspace t = \<lparr>wo_task_id = ''task'', wo_observed_at = t, wo_cwd = ''c'', wo_cwd_exists = True,
     wo_is_git_repo = Some True, wo_git_root = None, wo_git_head = Some ''abc'', wo_git_branch = None,
     wo_git_dirty = Some False, wo_git_status_hash = Some ''h'', wo_git_status_entries = [],
     wo_error = None, wo_raw = []\<rparr>"

definition demo_reconciliation :: "string \<Rightarrow> timestamp \<Rightarrow> reconciliation_record" where
  "demo_reconciliation i t =
     (let l = demo_lsm\<lparr>lo_observed_at := t\<rparr>;
          a = assess demo_task_record (Some (demo_browser t)) (Some l) (Some (demo_workspace t)) None t
                default_watch_policy in
      build_reconciliation_record (\<lambda>_. ''d'') (\<lambda>s. case sn_workspace s of None \<Rightarrow> [] | Some w \<Rightarrow> ww_cwd w)
        i demo_task_record a (Some demo_worker) (Some (demo_browser t)) None (Some l)
        (Some (demo_workspace t)) t)"

definition demo_recommendation :: recovery_recommendation where
  "demo_recommendation = recommend (\<lambda>_. ''{}'') demo_task_record
     (assess demo_task_record (Some (demo_browser 110)) (Some demo_lsm) (Some (demo_workspace 110)) None 110
        default_watch_policy) (Some demo_lsm) (Some (demo_workspace 110))"

definition demo_plan :: "dispatch_plan result" where
  "demo_plan = build_dispatch_plan demo_task_record demo_recommendation
     (Some (demo_reconciliation ''r1'' 100)) (Some (demo_reconciliation ''r2'' 110))
     default_dispatch_policy 112"

theorem ready_plan_is_fenced_witness:
  "\<exists>plan. demo_plan = Inr plan \<and> dn_candidate_ready plan \<and> \<not> dn_would_dispatch plan
    \<and> fence_matches (demo_reconciliation ''r1'' 100) (demo_reconciliation ''r2'' 110)"
proof -
  have "(case demo_plan of Inl _ \<Rightarrow> False | Inr plan \<Rightarrow> dn_candidate_ready plan)" by code_simp
  then obtain plan where plan: "demo_plan = Inr plan" "dn_candidate_ready plan" by (auto split: sum.splits)
  moreover have "\<not> dp_transport_enabled default_dispatch_policy" by code_simp
  ultimately show ?thesis using ready_plan_is_fenced [OF plan(1) [unfolded demo_plan_def] plan(2)] by auto
qed

lemma browser_resample:
  "map_option (\<lambda>z. z\<lparr>bs_observed_at := None\<rparr>) (map_option browser_section b)
    = map_option (\<lambda>z. (browser_section z)\<lparr>bs_observed_at := None\<rparr>) (map_option (\<lambda>z. z\<lparr>bo_observed_at := 0\<rparr>) b)"
  by (cases b) (simp_all add: browser_section_def)

lemma network_resample:
  "map_option (\<lambda>z. z\<lparr>ns_observed_at := None\<rparr>) (map_option network_section n)
    = map_option (\<lambda>z. (network_section z)\<lparr>ns_observed_at := None\<rparr>) (map_option (\<lambda>z. z\<lparr>no_observed_at := 0\<rparr>) n)"
  by (cases n) (simp_all add: network_section_def)

lemma lsm_resample:
  "map_option (\<lambda>z. z\<lparr>ls_observed_at := None\<rparr>) (map_option lsm_section l)
    = map_option (\<lambda>z. (lsm_section z)\<lparr>ls_observed_at := None\<rparr>) (map_option (\<lambda>z. z\<lparr>lo_observed_at := 0\<rparr>) l)"
  by (cases l) (simp_all add: lsm_section_def)

lemma workspace_resample:
  "map_option (\<lambda>z. z\<lparr>ww_observed_at := None\<rparr>) (map_option workspace_section w)
    = map_option (\<lambda>z. (workspace_section z)\<lparr>ww_observed_at := None\<rparr>) (map_option (\<lambda>z. z\<lparr>wo_observed_at := 0\<rparr>) w)"
  by (cases w) (simp_all add: workspace_section_def)

text \<open>The fence token means what the planner reads into it. Two reconciliation samples whose
  observations agree up to their sampling times always match, whatever the digest; and when two samples
  match and the digest does not collide on them, every fact that the fence covers agrees: the task's
  worker, session and budget, the browser's url, activity and last message, the durable session's run,
  plan and work counters, and the Git head and status of the workspace.\<close>

theorem fence_token_meaning:
  fixes dc dg task task' a a' wk wk' b b' n n' l l' w w' t t' i i'
  defines "x \<equiv> build_reconciliation_record dc dg i task a wk b n l w t"
    and "y \<equiv> build_reconciliation_record dc dg i' task' a' wk' b' n' l' w' t'"
  shows "(task' = task \<and> wk' = wk
      \<and> map_option (\<lambda>z. z\<lparr>bo_observed_at := 0\<rparr>) b' = map_option (\<lambda>z. z\<lparr>bo_observed_at := 0\<rparr>) b
      \<and> map_option (\<lambda>z. z\<lparr>no_observed_at := 0\<rparr>) n' = map_option (\<lambda>z. z\<lparr>no_observed_at := 0\<rparr>) n
      \<and> map_option (\<lambda>z. z\<lparr>lo_observed_at := 0\<rparr>) l' = map_option (\<lambda>z. z\<lparr>lo_observed_at := 0\<rparr>) l
      \<and> map_option (\<lambda>z. z\<lparr>wo_observed_at := 0\<rparr>) w' = map_option (\<lambda>z. z\<lparr>wo_observed_at := 0\<rparr>) w
      \<longrightarrow> fence_matches x y)
    \<and> (fence_matches x y
       \<and> (dg (fence_material (rr_snapshot x)) = dg (fence_material (rr_snapshot y))
          \<longrightarrow> fence_material (rr_snapshot x) = fence_material (rr_snapshot y))
       \<longrightarrow> tk_task_id task' = tk_task_id task \<and> tk_current_worker_id task' = tk_current_worker_id task
         \<and> tk_lsm_session_id task' = tk_lsm_session_id task
         \<and> tk_recovery_attempts task' = tk_recovery_attempts task
         \<and> map_option bo_url b' = map_option bo_url b
         \<and> map_option bo_generating b' = map_option bo_generating b
         \<and> map_option bo_message_signature b' = map_option bo_message_signature b
         \<and> map_option lo_active_run_id l' = map_option lo_active_run_id l
         \<and> map_option lo_plan_status l' = map_option lo_plan_status l
         \<and> map_option lo_in_flight_calls l' = map_option lo_in_flight_calls l
         \<and> map_option lo_active_jobs l' = map_option lo_active_jobs l
         \<and> map_option wo_git_head w' = map_option wo_git_head w
         \<and> map_option wo_git_status_hash w' = map_option wo_git_status_hash w)"
proof (rule conjI, rule impI, goal_cases)
  case 1
  have "map_option (\<lambda>z. z\<lparr>bs_observed_at := None\<rparr>) (map_option browser_section b)
      = map_option (\<lambda>z. z\<lparr>bs_observed_at := None\<rparr>) (map_option browser_section b')"
    unfolding browser_resample using 1 by simp
  moreover have "map_option (\<lambda>z. z\<lparr>ns_observed_at := None\<rparr>) (map_option network_section n)
      = map_option (\<lambda>z. z\<lparr>ns_observed_at := None\<rparr>) (map_option network_section n')"
    unfolding network_resample using 1 by simp
  moreover have "map_option (\<lambda>z. z\<lparr>ls_observed_at := None\<rparr>) (map_option lsm_section l)
      = map_option (\<lambda>z. z\<lparr>ls_observed_at := None\<rparr>) (map_option lsm_section l')"
    unfolding lsm_resample using 1 by simp
  moreover have "map_option (\<lambda>z. z\<lparr>ww_observed_at := None\<rparr>) (map_option workspace_section w)
      = map_option (\<lambda>z. z\<lparr>ww_observed_at := None\<rparr>) (map_option workspace_section w')"
    unfolding workspace_resample using 1 by simp
  ultimately have "fence_material (rr_snapshot x) = fence_material (rr_snapshot y)"
    using 1 by (simp add: x_def y_def build_reconciliation_record_def fence_material_def)
  then show ?case
    using 1 by (simp add: fence_matches_def x_def y_def build_reconciliation_record_def Let_def)
next
  case 2
  show ?case
  proof (rule impI)
    assume f: "fence_matches x y
       \<and> (dg (fence_material (rr_snapshot x)) = dg (fence_material (rr_snapshot y))
          \<longrightarrow> fence_material (rr_snapshot x) = fence_material (rr_snapshot y))"
    then have m: "fence_material (rr_snapshot x) = fence_material (rr_snapshot y)"
      by (simp add: fence_matches_def x_def y_def build_reconciliation_record_def Let_def)
    have task: "task_section dc task wk = task_section dc task' wk'"
      using arg_cong [OF m, of sn_task]
      by (simp add: x_def y_def build_reconciliation_record_def fence_material_def Let_def)
    have browser: "map_option (\<lambda>z. (browser_section z)\<lparr>bs_observed_at := None\<rparr>) b
        = map_option (\<lambda>z. (browser_section z)\<lparr>bs_observed_at := None\<rparr>) b'"
      using arg_cong [OF m, of sn_browser]
      by (simp add: x_def y_def build_reconciliation_record_def fence_material_def Let_def option.map_comp comp_def)
    have lsm: "map_option (\<lambda>z. (lsm_section z)\<lparr>ls_observed_at := None\<rparr>) l
        = map_option (\<lambda>z. (lsm_section z)\<lparr>ls_observed_at := None\<rparr>) l'"
      using arg_cong [OF m, of sn_lsm]
      by (simp add: x_def y_def build_reconciliation_record_def fence_material_def Let_def option.map_comp comp_def)
    have ws: "map_option (\<lambda>z. (workspace_section z)\<lparr>ww_observed_at := None\<rparr>) w
        = map_option (\<lambda>z. (workspace_section z)\<lparr>ww_observed_at := None\<rparr>) w'"
      using arg_cong [OF m, of sn_workspace]
      by (simp add: x_def y_def build_reconciliation_record_def fence_material_def Let_def option.map_comp comp_def)
    have "tk_task_id task' = tk_task_id task" "tk_current_worker_id task' = tk_current_worker_id task"
      "tk_lsm_session_id task' = tk_lsm_session_id task" "tk_recovery_attempts task' = tk_recovery_attempts task"
      using task by (simp_all add: task_section_def Let_def)
    moreover have "map_option bo_url b' = map_option bo_url b"
      "map_option bo_generating b' = map_option bo_generating b"
      "map_option bo_message_signature b' = map_option bo_message_signature b"
      using browser by (cases b; cases b'; simp add: browser_section_def)+
    moreover have "map_option lo_active_run_id l' = map_option lo_active_run_id l"
      "map_option lo_plan_status l' = map_option lo_plan_status l"
      "map_option lo_in_flight_calls l' = map_option lo_in_flight_calls l"
      "map_option lo_active_jobs l' = map_option lo_active_jobs l"
      using lsm by (cases l; cases l'; simp add: lsm_section_def)+
    moreover have "map_option wo_git_head w' = map_option wo_git_head w"
      "map_option wo_git_status_hash w' = map_option wo_git_status_hash w"
      using ws by (cases w; cases w'; simp add: workspace_section_def)+
    ultimately show "tk_task_id task' = tk_task_id task
         \<and> tk_current_worker_id task' = tk_current_worker_id task
         \<and> tk_lsm_session_id task' = tk_lsm_session_id task
         \<and> tk_recovery_attempts task' = tk_recovery_attempts task
         \<and> map_option bo_url b' = map_option bo_url b
         \<and> map_option bo_generating b' = map_option bo_generating b
         \<and> map_option bo_message_signature b' = map_option bo_message_signature b
         \<and> map_option lo_active_run_id l' = map_option lo_active_run_id l
         \<and> map_option lo_plan_status l' = map_option lo_plan_status l
         \<and> map_option lo_in_flight_calls l' = map_option lo_in_flight_calls l
         \<and> map_option lo_active_jobs l' = map_option lo_active_jobs l
         \<and> map_option wo_git_head w' = map_option wo_git_head w
         \<and> map_option wo_git_status_hash w' = map_option wo_git_status_hash w" by blast
  qed
qed

theorem fence_token_meaning_witness:
  "fence_matches (demo_reconciliation ''r1'' 100) (demo_reconciliation ''r2'' 110)"
  unfolding demo_reconciliation_def Let_def
  by (rule fence_token_meaning [THEN conjunct1, THEN mp]) (simp add: demo_browser_def demo_workspace_def demo_lsm_def)

end
