(* ===== verification/Write_Ahead.thy ===== *)
theory Write_Ahead
  imports Registry_Tables
begin

text \<open>
  The interface that the registry's journals of external actions share (action attempts, replacement
  attempts, child-spawn attempts, probe-window operations): a table of attempts with a primary key, a
  scope within which at most one attempt may be unresolved (the partial unique indexes of \<^verbatim>\<open>db.py\<close>),
  and writers that only append an attempt or rewrite one in place without ever re-opening a resolved
  one.
\<close>

text \<open>\<^verbatim>\<open>INSERT\<close> and \<^verbatim>\<open>UPDATE ... WHERE key = ?\<close> on a table with a primary key and a partial unique index.\<close>

definition index_free :: "('r \<Rightarrow> 'k) \<Rightarrow> ('r \<Rightarrow> 'p) \<Rightarrow> ('r \<Rightarrow> bool) \<Rightarrow> 'r \<Rightarrow> 'r list \<Rightarrow> bool" where
  "index_free key scope unresolved r rs \<longleftrightarrow>
     \<not> (unresolved r \<and> list_ex (\<lambda>x. key x \<noteq> key r \<and> unresolved x \<and> scope x = scope r) rs)"

definition journal_insert ::
  "('r \<Rightarrow> 'k) \<Rightarrow> ('r \<Rightarrow> 'p) \<Rightarrow> ('r \<Rightarrow> bool) \<Rightarrow> 'r \<Rightarrow> 'r list \<Rightarrow> 'r list result" where
  "journal_insert key scope unresolved r rs =
     (if tbl_find key (key r) rs \<noteq> None \<or> \<not> index_free key scope unresolved r rs then Inl unique_key
      else Inr (rs @ [r]))"

definition journal_update ::
  "('r \<Rightarrow> 'k) \<Rightarrow> ('r \<Rightarrow> 'p) \<Rightarrow> ('r \<Rightarrow> bool) \<Rightarrow> 'r \<Rightarrow> 'r list \<Rightarrow> 'r list result" where
  "journal_update key scope unresolved r rs =
     (if \<not> index_free key scope unresolved r rs then Inl unique_key
      else Inr (tbl_update key (key r) (\<lambda>_. r) rs))"

text \<open>What the two indexes say of the rows.\<close>

definition journal_ok :: "('r \<Rightarrow> 'k) \<Rightarrow> ('r \<Rightarrow> 'p) \<Rightarrow> ('r \<Rightarrow> bool) \<Rightarrow> 'r list \<Rightarrow> bool" where
  "journal_ok key scope unresolved rs \<longleftrightarrow> distinct (map key rs)
     \<and> list_all (\<lambda>a. length (filter (\<lambda>b. unresolved b \<and> scope b = scope a) rs) \<le> 1) rs"

definition wal_append :: "('r \<Rightarrow> 'k) \<Rightarrow> ('r \<Rightarrow> 'p) \<Rightarrow> ('r \<Rightarrow> bool) \<Rightarrow> 'r list \<Rightarrow> 'r list \<Rightarrow> bool" where
  "wal_append key scope unresolved rs rs' \<longleftrightarrow>
     (\<exists>r. rs' = rs @ [r] \<and> tbl_find key (key r) rs = None
        \<and> (\<forall>x \<in> set rs. unresolved r \<and> unresolved x \<longrightarrow> scope x \<noteq> scope r))"

definition wal_rewrite ::
  "('r \<Rightarrow> 'k) \<Rightarrow> ('r \<Rightarrow> 'p) \<Rightarrow> ('r \<Rightarrow> 's) \<Rightarrow> ('s \<Rightarrow> 's \<Rightarrow> bool) \<Rightarrow> 'r list \<Rightarrow> 'r list \<Rightarrow> bool" where
  "wal_rewrite key scope status advances rs rs' \<longleftrightarrow>
     (\<exists>r u. tbl_find key (key r) rs = Some r \<and> rs' = tbl_update key (key r) (\<lambda>_. u) rs
        \<and> key u = key r \<and> scope u = scope r \<and> advances (status r) (status u))"

lemma length_le_1_iff: "distinct xs \<Longrightarrow> length xs \<le> 1 \<longleftrightarrow> (\<forall>x \<in> set xs. \<forall>y \<in> set xs. x = y)"
  by (cases xs; cases "tl xs") auto

lemma journal_ok_iff:
  "journal_ok key scope unresolved rs \<longleftrightarrow> tbl_ok key rs
    \<and> (\<forall>x \<in> set rs. \<forall>y \<in> set rs. unresolved x \<and> unresolved y \<and> scope x = scope y \<longrightarrow> x = y)"
proof (cases "tbl_ok key rs")
  case True
  then have "distinct (filter P rs)" for P by (simp add: tbl_ok_distinct)
  then have "length (filter (\<lambda>b. unresolved b \<and> scope b = p) rs) \<le> 1
      \<longleftrightarrow> (\<forall>x \<in> set rs. \<forall>y \<in> set rs. unresolved x \<and> unresolved y \<and> scope x = p \<and> scope y = p \<longrightarrow> x = y)" for p
    by (subst length_le_1_iff) auto
  then show ?thesis using True unfolding journal_ok_def tbl_ok_def list_all_iff by auto
qed (simp add: journal_ok_def tbl_ok_def)

lemma transaction_rule:
  assumes "P s" and "\<And>s' x. r = Inr (s', x) \<Longrightarrow> P s'"
  shows "P (fst (transaction s r))"
  using assms by (cases r) (auto simp: transaction_def split: prod.splits)

lemma transaction_okE:
  assumes "\<not> isl (snd (transaction s r))"
  obtains s' x where "r = Inr (s', x)" and "fst (transaction s r) = s'"
  using assms by (cases r) (auto simp: transaction_def split: prod.splits)

lemma journal_insert_append:
  "journal_insert key scope unresolved r rs = Inr rs' \<Longrightarrow> wal_append key scope unresolved rs rs'"
  unfolding journal_insert_def wal_append_def index_free_def
  by (fastforce simp: list_ex_iff tbl_find_None_iff image_iff split: if_splits)

lemma journal_update_rewrite:
  assumes u: "journal_update key scope unresolved u rs = Inr rs'" and r: "tbl_find key (key u) rs = Some r"
    and "scope u = scope r" and "advances (status r) (status u)"
  shows "wal_rewrite key scope status advances rs rs'"
proof -
  have "key r = key u" using r by (auto dest: tbl_find_SomeD)
  moreover have "rs' = tbl_update key (key u) (\<lambda>_. u) rs"
    using u by (simp add: journal_update_def split: if_splits)
  ultimately show ?thesis
    using assms unfolding wal_rewrite_def by (intro exI [of _ r] exI [of _ u]) simp
qed

text \<open>On a journal that keeps its index, the index never refuses an update of an unresolved attempt.\<close>

lemma journal_update_Inr:
  assumes "tbl_ok key rs" and "tbl_find key (key u) rs = Some r" and "scope u = scope r"
    and "unresolved u \<Longrightarrow> unresolved r"
    and one: "\<And>x y. x \<in> set rs \<Longrightarrow> y \<in> set rs \<Longrightarrow> unresolved x \<Longrightarrow> unresolved y \<Longrightarrow> scope x = scope y \<Longrightarrow> x = y"
  shows "journal_update key scope unresolved u rs = Inr (tbl_update key (key u) (\<lambda>_. u) rs)"
proof -
  have r: "r \<in> set rs" "key r = key u" using assms(2) by (auto dest: tbl_find_SomeD)
  have "index_free key scope unresolved u rs"
    unfolding index_free_def list_ex_iff using one [OF _ r(1)] r assms(3,4) by metis
  then show ?thesis by (simp add: journal_update_def)
qed

text \<open>
  The contract: every write leaves the journal alone, appends one attempt or moves one attempt along
  \<open>advances\<close>, a preorder in which a state that is no longer \<open>pending\<close> is final.
\<close>

locale write_ahead_log =
  fixes key :: "'r \<Rightarrow> 'k" and scope :: "'r \<Rightarrow> 'p" and status :: "'r \<Rightarrow> 's"
    and pending :: "'s \<Rightarrow> bool" and advances :: "'s \<Rightarrow> 's \<Rightarrow> bool"
    and rows :: "'db \<Rightarrow> 'r list" and writes :: "'db \<Rightarrow> 'db \<Rightarrow> bool"
  assumes advances_refl: "advances s s"
    and advances_trans: "advances s s' \<Longrightarrow> advances s' s'' \<Longrightarrow> advances s s''"
    and advances_final: "advances s s' \<Longrightarrow> \<not> pending s \<Longrightarrow> s' = s"
    and writes_rows: "writes db db' \<Longrightarrow> rows db' = rows db
      \<or> wal_append key scope (\<lambda>r. pending (status r)) (rows db) (rows db')
      \<or> wal_rewrite key scope status advances (rows db) (rows db')"
begin

definition unresolved :: "'r \<Rightarrow> bool" where
  "unresolved r \<longleftrightarrow> pending (status r)"

definition wal_inv :: "'db \<Rightarrow> bool" where
  "wal_inv db \<longleftrightarrow> tbl_ok key (rows db)
     \<and> (\<forall>x \<in> set (rows db). \<forall>y \<in> set (rows db).
          unresolved x \<and> unresolved y \<and> scope x = scope y \<longrightarrow> x = y)"

lemma wal_inv_iff: "wal_inv db \<longleftrightarrow> journal_ok key scope unresolved (rows db)"
  by (simp add: wal_inv_def journal_ok_iff)

lemma one_unresolved:
  "wal_inv db \<Longrightarrow> x \<in> set (rows db) \<Longrightarrow> y \<in> set (rows db) \<Longrightarrow> unresolved x \<Longrightarrow> unresolved y
   \<Longrightarrow> scope x = scope y \<Longrightarrow> x = y"
  unfolding wal_inv_def by blast

lemma wal_inv_append:
  assumes "wal_inv db" and "wal_append key scope (\<lambda>r. pending (status r)) (rows db) (rows db')"
  shows "wal_inv db'"
proof -
  from assms(2) obtain r where r: "rows db' = rows db @ [r]" "tbl_find key (key r) (rows db) = None"
      "\<And>x. x \<in> set (rows db) \<Longrightarrow> unresolved r \<Longrightarrow> unresolved x \<Longrightarrow> scope x \<noteq> scope r"
    unfolding wal_append_def unresolved_def by blast
  have "tbl_ok key (rows db')" using assms(1) r(1,2) by (simp add: wal_inv_def tbl_ok_snoc)
  moreover have "x = y" if "x \<in> set (rows db')" "y \<in> set (rows db')" "unresolved x" "unresolved y"
      "scope x = scope y" for x y
    using that r(1) r(3) [of x] r(3) [of y] one_unresolved [OF assms(1), of x y] by auto
  ultimately show ?thesis unfolding wal_inv_def by blast
qed

lemma rewritten_rows:
  assumes ok: "tbl_ok key rs" and r: "tbl_find key (key r) rs = Some r" and u: "key u = key r"
  shows "set (tbl_update key (key r) (\<lambda>_. u) rs) = insert u (set rs - {r})"
proof -
  have "x = r" if "x \<in> set rs" "key x = key r" for x
    using that ok r by (metis tbl_find_Some_iff tbl_ok_uniq)
  moreover have "r \<in> set rs" using r by (auto dest: tbl_find_SomeD)
  ultimately show ?thesis by (auto simp: set_tbl_update)
qed

lemma wal_inv_rewrite:
  assumes inv: "wal_inv db" and "wal_rewrite key scope status advances (rows db) (rows db')"
  shows "wal_inv db'"
proof -
  from assms(2) obtain r u where ru: "tbl_find key (key r) (rows db) = Some r"
      "rows db' = tbl_update key (key r) (\<lambda>_. u) (rows db)" "key u = key r" "scope u = scope r"
      "advances (status r) (status u)"
    unfolding wal_rewrite_def by blast
  have re: "unresolved r" if "unresolved u"
    using that advances_final [OF ru(5)] unfolding unresolved_def by metis
  have ok: "tbl_ok key (rows db)" using inv by (simp add: wal_inv_def)
  have r: "r \<in> set (rows db)" using ru(1) by (auto dest: tbl_find_SomeD)
  have "tbl_ok key (rows db')" using ok ru by (simp add: tbl_ok_update)
  moreover have rows': "set (rows db') = insert u (set (rows db) - {r})"
    using rewritten_rows [OF ok ru(1,3)] ru(2) by simp
  have other: "\<not> unresolved y" if "y \<in> set (rows db) - {r}" "unresolved u" "scope y = scope u" for y
    using one_unresolved [OF inv _ r, of y] that ru(4) re by auto
  have "x = y" if "x \<in> set (rows db')" "y \<in> set (rows db')"
      "unresolved x" "unresolved y" "scope x = scope y" for x y
    using that rows' other [of x] other [of y] one_unresolved [OF inv, of x y]
    by (cases "x = u"; cases "y = u") auto
  ultimately show ?thesis unfolding wal_inv_def by blast
qed

lemma writes_inv:
  assumes "writes db db'" and "wal_inv db"
  shows "wal_inv db'"
  using writes_rows [OF assms(1)]
proof (elim disjE)
  assume "rows db' = rows db"
  then show ?thesis using assms(2) unfolding wal_inv_def by metis
qed (blast intro: wal_inv_append wal_inv_rewrite assms(2))+

lemma writes_star_inv: "writes\<^sup>*\<^sup>* db db' \<Longrightarrow> wal_inv db \<Longrightarrow> wal_inv db'"
  by (induction rule: rtranclp_induct) (auto intro: writes_inv)

text \<open>No attempt ever disappears, and its state only moves along \<open>advances\<close>.\<close>

lemma writes_advance:
  assumes w: "writes db db'" and f: "tbl_find key k (rows db) = Some r"
  shows "\<exists>u. tbl_find key k (rows db') = Some u \<and> scope u = scope r \<and> advances (status r) (status u)"
  using writes_rows [OF w]
proof (elim disjE)
  assume "rows db' = rows db"
  with f show ?thesis by (simp add: advances_refl)
next
  assume "wal_append key scope (\<lambda>r. pending (status r)) (rows db) (rows db')"
  with f show ?thesis by (auto simp: wal_append_def tbl_find_append advances_refl)
next
  assume "wal_rewrite key scope status advances (rows db) (rows db')"
  then obtain q u where "tbl_find key (key q) (rows db) = Some q"
      "rows db' = tbl_update key (key q) (\<lambda>_. u) (rows db)" "key u = key q" "scope u = scope q"
      "advances (status q) (status u)"
    unfolding wal_rewrite_def by blast
  with f show ?thesis by (cases "k = key q") (auto simp: tbl_find_update advances_refl)
qed

lemma writes_star_advance:
  assumes "writes\<^sup>*\<^sup>* db db'" and "tbl_find key k (rows db) = Some r"
  shows "\<exists>u. tbl_find key k (rows db') = Some u \<and> scope u = scope r \<and> advances (status r) (status u)"
  using assms
proof (induction rule: rtranclp_induct)
  case base
  then show ?case by (simp add: advances_refl)
next
  case (step y z)
  then obtain u where u: "tbl_find key k (rows y) = Some u" "scope u = scope r" "advances (status r) (status u)"
    by blast
  with writes_advance [OF step.hyps(2) u(1)] show ?case by (auto intro: advances_trans)
qed

text \<open>The outcome of a settled attempt is final.\<close>

lemma writes_star_final:
  assumes "writes\<^sup>*\<^sup>* db db'" and "tbl_find key k (rows db) = Some r" and "\<not> pending (status r)"
  shows "\<exists>u. tbl_find key k (rows db') = Some u \<and> scope u = scope r \<and> status u = status r"
  using writes_star_advance [OF assms(1,2)] advances_final assms(3) by blast

end

end
