(* ===== verification/Actions.thy ===== *)
theory Actions
  imports Registry_Tasks Reconcile_Dispatch Write_Ahead
begin

text \<open>
  External actions: \<^verbatim>\<open>actions.py\<close>, \<^verbatim>\<open>action_runtime.py\<close> and the action journal of \<^verbatim>\<open>registry.py\<close>. An
  action is recorded as ARMED before the transport may send it; the outcome is a rewrite of the same
  row. A journal update is one step here; in the code the row is read before the write transaction begins,
  so the model covers calls that do not overlap on one attempt (see \<open>stale_write_overwrites\<close> in
  \<open>Action_Safety\<close>). SHA-256 (\<open>sha256\<close>), the two random identifiers, the clock and the transport's answer are
  arguments.
\<close>

section \<open>Values\<close>

fun aa_value :: "action_attempt_state \<Rightarrow> string" where
  "aa_value AA_ARMED = ''ARMED''"
| "aa_value AA_SUBMITTED = ''SUBMITTED''"
| "aa_value AA_RECONCILE_REQUIRED = ''RECONCILE_REQUIRED''"
| "aa_value AA_ACKNOWLEDGED = ''ACKNOWLEDGED''"
| "aa_value AA_FAILED = ''FAILED''"
| "aa_value AA_CANCELLED = ''CANCELLED''"

definition UNRESOLVED_ACTION_STATES :: "action_attempt_state list" where
  "UNRESOLVED_ACTION_STATES = [AA_ARMED, AA_SUBMITTED, AA_RECONCILE_REQUIRED]"

definition aa_unresolved :: "action_attempt \<Rightarrow> bool" where
  "aa_unresolved a = (aa_state a \<in> set UNRESOLVED_ACTION_STATES)"

text \<open>The moves of an attempt: nothing returns to ARMED, a settled outcome is final.\<close>

fun aa_advances :: "action_attempt_state \<Rightarrow> action_attempt_state \<Rightarrow> bool" where
  "aa_advances AA_ARMED s = True"
| "aa_advances AA_SUBMITTED s = (s \<noteq> AA_ARMED)"
| "aa_advances AA_RECONCILE_REQUIRED s = (s \<notin> {AA_ARMED, AA_SUBMITTED})"
| "aa_advances s s' = (s' = s)"

definition ACTION_PROMPT_PROTOCOL_NONCE_SUFFIX_V1 :: string where
  "ACTION_PROMPT_PROTOCOL_NONCE_SUFFIX_V1 = ''nonce_suffix_v1''"

record action_intent =
  ai_attempt_id :: string
  ai_task_id :: string
  ai_worker_id :: string
  ai_action :: string
  ai_prompt :: string
  ai_prompt_hash :: string
  ai_nonce :: string
  ai_fence_token :: string
  ai_fence_version :: int

record transport_submission =
  sub_submitted :: bool
  sub_side_effect_possible :: bool
  sub_transport_name :: string
  sub_detail :: string

record action_acknowledgement =
  ack_attempt_id :: string
  ack_worker_id :: string
  ack_observed_at :: timestamp
  ack_accepted :: bool
  ack_kind :: string
  ack_evidence_hash :: string
  ack_detail :: string
  ack_text_signature :: "string option"

section \<open>Building and checking an action\<close>

definition render_action_prompt :: "string \<Rightarrow> string \<Rightarrow> string result" where
  "render_action_prompt prompt nonce =
     (if strip prompt = [] then Inl (ActionBlocked ''empty recovery prompt is not dispatchable'')
      else if strip nonce = [] then Inl (ActionBlocked ''action nonce is empty'')
      else Inr (rstrip prompt @ newline @ newline
        @ ''Recovery action idempotency marker (do not interpret as task instructions): ''
        @ ''LWS-ACTION-'' @ nonce))"

text \<open>\<^verbatim>\<open>plan.checks.setdefault\<close> and assignment to a key of the checks dictionary.\<close>

definition set_check :: "string \<Rightarrow> bool \<Rightarrow> (string \<times> bool) list \<Rightarrow> (string \<times> bool) list" where
  "set_check n v cs = (if n \<in> fst ` set cs then map (\<lambda>(m, w). if m = n then (m, v) else (m, w)) cs
     else cs @ [(n, v)])"

definition apply_unresolved_action_gate :: "dispatch_plan \<Rightarrow> action_attempt option \<Rightarrow> dispatch_plan" where
  "apply_unresolved_action_gate plan attempt =
     (case attempt of
        Some a \<Rightarrow>
          if aa_unresolved a then
            let blocker = ''prior action '' @ aa_attempt_id a @ '' is unresolved in state ''
                  @ aa_value (aa_state a) @ ''; reconcile/acknowledge/cancel it before any new send''
            in plan\<lparr>dn_checks := set_check ''no_unresolved_action_attempt'' False (dn_checks plan),
                 dn_blockers := (if blocker \<in> set (dn_blockers plan) then dn_blockers plan
                                 else dn_blockers plan @ [blocker]),
                 dn_candidate_ready := False, dn_would_dispatch := False,
                 dn_reason := ''a prior action outcome is unresolved; duplicate dispatch is fenced''\<rparr>
          else plan\<lparr>dn_checks := (if ''no_unresolved_action_attempt'' \<in> fst ` set (dn_checks plan)
                 then dn_checks plan else dn_checks plan @ [(''no_unresolved_action_attempt'', True)])\<rparr>
      | None \<Rightarrow> plan\<lparr>dn_checks := (if ''no_unresolved_action_attempt'' \<in> fst ` set (dn_checks plan)
             then dn_checks plan else dn_checks plan @ [(''no_unresolved_action_attempt'', True)])\<rparr>)"

definition json_text :: "string option \<Rightarrow> json" where
  "json_text x = (case x of None \<Rightarrow> JNull | Some s \<Rightarrow> JStr s)"

definition build_action_attempt ::
  "(string \<Rightarrow> string) \<Rightarrow> dispatch_plan \<Rightarrow> task_record \<Rightarrow> worker_record \<Rightarrow> string \<Rightarrow> int
     \<Rightarrow> string option \<Rightarrow> string \<Rightarrow> string \<Rightarrow> timestamp \<Rightarrow> action_attempt result" where
  "build_action_attempt sha256 plan task worker prompt fence_version pre_signature nonce fresh_id now =
     rbind (guard (dn_candidate_ready plan) (ActionBlocked ''dispatch plan is not candidate-ready'')) (\<lambda>_.
     rbind (guard (dn_action plan = DA_CONTINUE_CURRENT_WORKER) (ActionBlocked
       (''unsupported action for current-worker adapter: '' @ da_value (dn_action plan)))) (\<lambda>_.
     rbind (guard (present (dn_fence_token plan))
       (ActionBlocked ''dispatch plan has no reconciliation fence token'')) (\<lambda>_.
     rbind (guard (tk_current_worker_id task = Some (wk_worker_id worker))
       (ActionBlocked ''worker is no longer the task's current worker'')) (\<lambda>_.
     rbind (guard (wk_status worker = WS_ACTIVE) (ActionBlocked ''current worker is not active'')) (\<lambda>_.
     rbind (guard (strip prompt \<noteq> []) (ActionBlocked ''empty recovery prompt is not dispatchable'')) (\<lambda>_.
     rbind (render_action_prompt prompt nonce) (\<lambda>wire.
     Inr \<lparr>aa_attempt_id = fresh_id, aa_task_id = tk_task_id task, aa_worker_id = wk_worker_id worker,
       aa_action = da_value (dn_action plan), aa_fence_token = the (dn_fence_token plan),
       aa_fence_version = fence_version, aa_prompt_hash = sha256 wire, aa_nonce = nonce,
       aa_state = AA_ARMED, aa_created_at = now, aa_updated_at = now,
       aa_pre_action_signature = pre_signature, aa_transport_name = None, aa_submitted_at = None,
       aa_acknowledged_at = None, aa_acknowledgement_kind = None, aa_acknowledgement_hash = None,
       aa_last_error = None,
       aa_metadata = [(''previous_reconcile_id'', json_text (dn_previous_reconcile_id plan)),
         (''current_reconcile_id'', json_text (dn_current_reconcile_id plan)),
         (''prompt_protocol'', JStr ACTION_PROMPT_PROTOCOL_NONCE_SUFFIX_V1)]\<rparr>)))))))"

text \<open>\<^verbatim>\<open>str(metadata.get("prompt_protocol") or "")\<close>.\<close>

definition prompt_protocol :: "action_attempt \<Rightarrow> string" where
  "prompt_protocol a = (let v = json_get (aa_metadata a) ''prompt_protocol'' in
     if json_truthy v then json_str v else [])"

definition intent_from_attempt :: "(string \<Rightarrow> string) \<Rightarrow> action_attempt \<Rightarrow> string \<Rightarrow> action_intent result" where
  "intent_from_attempt sha256 a prompt =
     rbind (guard (aa_state a = AA_ARMED) (ActionBlocked (''attempt '' @ aa_attempt_id a @ '' is not ARMED'')))
       (\<lambda>_.
     rbind (if prompt_protocol a = ACTION_PROMPT_PROTOCOL_NONCE_SUFFIX_V1
            then render_action_prompt prompt (aa_nonce a)
            else if prompt_protocol a = [] then Inr prompt
            else Inl (ActionBlocked (''unsupported action prompt protocol: '' @ prompt_protocol a)))
       (\<lambda>wire.
     rbind (guard (sha256 wire = aa_prompt_hash a)
       (ActionBlocked ''prompt does not match the durable armed prompt hash'')) (\<lambda>_.
     Inr \<lparr>ai_attempt_id = aa_attempt_id a, ai_task_id = aa_task_id a, ai_worker_id = aa_worker_id a,
       ai_action = aa_action a, ai_prompt = wire, ai_prompt_hash = sha256 wire, ai_nonce = aa_nonce a,
       ai_fence_token = aa_fence_token a, ai_fence_version = aa_fence_version a\<rparr>)))"

definition validate_acknowledgement :: "action_attempt \<Rightarrow> action_acknowledgement \<Rightarrow> unit result" where
  "validate_acknowledgement a k =
     rbind (guard (aa_state a \<in> {AA_ARMED, AA_SUBMITTED, AA_RECONCILE_REQUIRED})
       (ActionBlocked (''attempt '' @ aa_attempt_id a @ '' is already terminal''))) (\<lambda>_.
     rbind (guard (ack_attempt_id k = aa_attempt_id a)
       (ActionBlocked ''acknowledgement attempt id does not match'')) (\<lambda>_.
     rbind (guard (ack_worker_id k = aa_worker_id a)
       (ActionBlocked ''acknowledgement belongs to a different worker'')) (\<lambda>_.
     rbind (guard (ack_accepted k)
       (ActionBlocked ''negative acknowledgement cannot mark an action accepted'')) (\<lambda>_.
     rbind (guard (\<not> ack_observed_at k < aa_created_at a)
       (ActionBlocked ''acknowledgement predates the armed action'')) (\<lambda>_.
     guard (strip (ack_kind k) \<noteq> [] \<and> strip (ack_evidence_hash k) \<noteq> [])
       (ActionBlocked ''acknowledgement requires positive evidence kind/hash''))))))"

section \<open>The action journal\<close>

definition insert_action :: "action_attempt \<Rightarrow> registry \<Rightarrow> registry result" where
  "insert_action a db =
     rbind (journal_insert aa_attempt_id aa_task_id aa_unresolved a (db_actions db)) (\<lambda>rs.
     if find_task db (aa_task_id a) = None \<or> find_worker db (aa_worker_id a) = None then Inl foreign_key
     else Inr (db\<lparr>db_actions := rs\<rparr>))"

definition get_action_attempt :: "registry \<Rightarrow> string \<Rightarrow> action_attempt result" where
  "get_action_attempt db i = (case tbl_find aa_attempt_id i (db_actions db) of
     None \<Rightarrow> Inl (KeyError (''unknown action attempt: '' @ i)) | Some a \<Rightarrow> Inr a)"

definition action_attempts :: "registry \<Rightarrow> string \<Rightarrow> int \<Rightarrow> action_attempt list result" where
  "action_attempts db t limit =
     rbind (get_task db t) (\<lambda>_.
     map_result (\<lambda>a. get_action_attempt db (aa_attempt_id a))
       (take (nat (max 1 (min limit 200)))
         (sort_key (\<lambda>a. - aa_created_at a) (filter (\<lambda>a. aa_task_id a = t) (db_actions db)))))"

definition unresolved_actions :: "registry \<Rightarrow> string \<Rightarrow> action_attempt list" where
  "unresolved_actions db t = filter (\<lambda>a. aa_task_id a = t \<and> aa_unresolved a) (db_actions db)"

definition unresolved_action_attempt :: "registry \<Rightarrow> string \<Rightarrow> action_attempt option result" where
  "unresolved_action_attempt db t =
     rbind (get_task db t) (\<lambda>_.
     case sort_key (\<lambda>a. - aa_created_at a) (unresolved_actions db t) of
       [] \<Rightarrow> Inr None
     | a # _ \<Rightarrow> rbind (get_action_attempt db (aa_attempt_id a)) (\<lambda>x. Inr (Some x)))"

definition record_action_attempt :: "registry \<Rightarrow> action_attempt \<Rightarrow> registry \<times> unit result" where
  "record_action_attempt db a =
     transaction db
       (rbind (get_task db (aa_task_id a)) (\<lambda>_.
        rbind (get_worker db (aa_worker_id a)) (\<lambda>w.
        rbind (guard (wk_task_id w = aa_task_id a)
          (ValueError ''action attempt worker belongs to a different task'')) (\<lambda>_.
        rbind (unresolved_action_attempt db (aa_task_id a)) (\<lambda>unresolved.
        rbind (case unresolved of None \<Rightarrow> Inr ()
          | Some u \<Rightarrow> guard (aa_attempt_id u = aa_attempt_id a) (RuntimeError
              (''task '' @ aa_task_id a @ '' already has unresolved action '' @ aa_attempt_id u
               @ '' in state '' @ aa_value (aa_state u)))) (\<lambda>_.
        rbind (insert_action a db) (\<lambda>db'. Inr (db', ()))))))))"

text \<open>
  The checks that both armed writers share; \<open>budget\<close> is the additional one of the recovery writer
  and \<open>terminal\<close>, \<open>moved\<close> are the two messages that differ.
\<close>

definition arm_checks ::
  "registry \<Rightarrow> action_attempt \<Rightarrow> string \<Rightarrow> (task_row \<Rightarrow> unit result) \<Rightarrow> string \<Rightarrow> unit result" where
  "arm_checks db a terminal budget moved =
     (case find_task db (aa_task_id a) of
        None \<Rightarrow> Inl (KeyError (''unknown task: '' @ aa_task_id a))
      | Some t \<Rightarrow>
          rbind (guard (tr_state t \<notin> {ss_value SS_COMPLETED, ss_value SS_ABANDONED}) (RuntimeError terminal))
            (\<lambda>_.
          rbind (budget t) (\<lambda>_.
          case find_worker db (aa_worker_id a) of
            None \<Rightarrow> Inl (KeyError (''unknown worker: '' @ aa_worker_id a))
          | Some w \<Rightarrow>
              rbind (guard (wr_task_id w = aa_task_id a)
                (ValueError ''action attempt worker belongs to a different task'')) (\<lambda>_.
              rbind (guard (tr_current_worker_id t = Some (aa_worker_id a) \<and> wr_status w = ws_value WS_ACTIVE)
                (RuntimeError moved)) (\<lambda>_.
              case unresolved_actions db (aa_task_id a) of
                [] \<Rightarrow> Inr ()
              | u # _ \<Rightarrow> Inl (RuntimeError (''task '' @ aa_task_id a @ '' already has unresolved action ''
                  @ aa_attempt_id u)))))))"

definition record_current_worker_action_attempt :: "registry \<Rightarrow> action_attempt \<Rightarrow> registry \<times> unit result" where
  "record_current_worker_action_attempt db a =
     transaction db
       (rbind (guard (aa_state a = AA_ARMED)
          (ValueError ''current-worker action must be ARMED before durable recording'')) (\<lambda>_.
        rbind (arm_checks db a ''terminal task cannot arm a current-worker action'' (\<lambda>_. Inr ())
          ''current-worker action worker is no longer authoritative'') (\<lambda>_.
        rbind (insert_action a db) (\<lambda>db'. Inr (db', ())))))"

definition record_recovery_action_attempt :: "registry \<Rightarrow> action_attempt \<Rightarrow> registry \<times> unit result" where
  "record_recovery_action_attempt db a =
     transaction db
       (rbind (guard (aa_state a = AA_ARMED)
          (ValueError ''recovery action must be ARMED before durable recording'')) (\<lambda>_.
        rbind (arm_checks db a ''terminal task cannot arm a recovery action''
          (\<lambda>t. guard (\<not> tr_recovery_attempts t \<ge> tr_max_recovery_attempts t)
             (RuntimeError ''recovery attempt budget is exhausted''))
          ''recovery action worker is no longer the active current worker'') (\<lambda>_.
        rbind (insert_action a db) (\<lambda>db1.
        Inr (update_task_row (aa_task_id a)
               (\<lambda>t. t\<lparr>tr_recovery_attempts := tr_recovery_attempts t + 1, tr_updated_at := aa_created_at a\<rparr>)
               db1, ())))))"

text \<open>\<open>_replace_action_attempt\<close>, and the writers that end or move an attempt.\<close>

definition replace_action_attempt :: "registry \<Rightarrow> action_attempt \<Rightarrow> (registry \<times> action_attempt) result" where
  "replace_action_attempt db a =
     rbind (journal_update aa_attempt_id aa_task_id aa_unresolved a (db_actions db)) (\<lambda>rs.
     if tbl_find aa_attempt_id (aa_attempt_id a) (db_actions db) = None
     then Inl (KeyError (''unknown action attempt: '' @ aa_attempt_id a))
     else let db' = db\<lparr>db_actions := rs\<rparr>
          in rbind (get_action_attempt db' (aa_attempt_id a)) (\<lambda>x. Inr (db', x)))"

definition mark_action_submitted ::
  "registry \<Rightarrow> string \<Rightarrow> string \<Rightarrow> timestamp \<Rightarrow> registry \<times> action_attempt result" where
  "mark_action_submitted db i transport_name now =
     transaction db
       (rbind (get_action_attempt db i) (\<lambda>a.
        rbind (guard (aa_state a = AA_ARMED) (RuntimeError (''action '' @ i @ '' is not ARMED''))) (\<lambda>_.
        replace_action_attempt db (a\<lparr>aa_state := AA_SUBMITTED, aa_transport_name := Some transport_name,
          aa_submitted_at := Some now, aa_updated_at := now\<rparr>))))"

definition settle_action ::
  "action_attempt_state \<Rightarrow> registry \<Rightarrow> string \<Rightarrow> string \<Rightarrow> string option \<Rightarrow> timestamp
     \<Rightarrow> registry \<times> action_attempt result" where
  "settle_action st db i err transport_name now =
     transaction db
       (rbind (get_action_attempt db i) (\<lambda>a.
        rbind (guard (aa_unresolved a) (RuntimeError (''action '' @ i @ '' is already terminal''))) (\<lambda>_.
        replace_action_attempt db (a\<lparr>aa_state := st,
          aa_transport_name := (if present transport_name then transport_name else aa_transport_name a),
          aa_last_error := Some (take 1000 err), aa_updated_at := now\<rparr>))))"

definition mark_action_reconcile_required where
  "mark_action_reconcile_required = settle_action AA_RECONCILE_REQUIRED"

definition fail_action_attempt where
  "fail_action_attempt = settle_action AA_FAILED"

definition cancel_action_attempt ::
  "registry \<Rightarrow> string \<Rightarrow> string \<Rightarrow> timestamp \<Rightarrow> registry \<times> action_attempt result" where
  "cancel_action_attempt db i reason now = settle_action AA_CANCELLED db i reason None now"

definition acknowledge_action :: "registry \<Rightarrow> action_acknowledgement \<Rightarrow> registry \<times> action_attempt result" where
  "acknowledge_action db k =
     transaction db
       (rbind (get_action_attempt db (ack_attempt_id k)) (\<lambda>a.
        rbind (validate_acknowledgement a k) (\<lambda>_.
        replace_action_attempt db (a\<lparr>aa_state := AA_ACKNOWLEDGED,
          aa_acknowledged_at := Some (ack_observed_at k), aa_acknowledgement_kind := Some (ack_kind k),
          aa_acknowledgement_hash := Some (ack_evidence_hash k),
          aa_metadata := (if present (ack_text_signature k)
            then json_set ''ack_uia_text_signature'' (JStr (the (ack_text_signature k))) (aa_metadata a)
            else aa_metadata a),
          aa_last_error := None, aa_updated_at := ack_observed_at k\<rparr>))))"

definition record_action_ack_browser_signature ::
  "registry \<Rightarrow> string \<Rightarrow> string \<Rightarrow> registry \<times> action_attempt result" where
  "record_action_ack_browser_signature db i message_signature =
     transaction db
       (rbind (guard (strip message_signature \<noteq> []) (ValueError ''message_signature must be non-empty'')) (\<lambda>_.
        rbind (get_action_attempt db i) (\<lambda>a.
        rbind (guard (aa_state a = AA_ACKNOWLEDGED)
          (RuntimeError ''browser acknowledgement signature requires ACKNOWLEDGED action'')) (\<lambda>_.
        replace_action_attempt db (a\<lparr>aa_metadata :=
          json_set ''ack_browser_signature'' (JStr (strip message_signature)) (aa_metadata a)\<rparr>)))))"

section \<open>Submission\<close>

text \<open>
  What a transport's \<^verbatim>\<open>submit\<close> can do: raise \<^verbatim>\<open>ActionTransportDisabled\<close> before any effect, raise anything
  else (with its rendered text), or return a submission report.
\<close>

datatype transport_outcome =
    T_DISABLED string
  | T_RAISED string
  | T_RETURNED transport_submission

record transport =
  tp_name :: string
  tp_submit :: "action_intent \<Rightarrow> transport_outcome"

definition DisabledActionTransport :: transport where
  "DisabledActionTransport = \<lparr>tp_name = ''disabled'', tp_submit = (\<lambda>intent. T_DISABLED
     (''no action transport is enabled for attempt '' @ ai_attempt_id intent @ ''; dry-run only''))\<rparr>"

record submit_outcome =
  so_attempt_id :: string
  so_state :: string
  so_submitted :: bool
  so_side_effect_possible :: bool
  so_transport_name :: "string option"
  so_detail :: string

definition mk_outcome ::
  "string \<Rightarrow> bool \<Rightarrow> bool \<Rightarrow> string option \<Rightarrow> string \<Rightarrow> action_attempt \<Rightarrow> submit_outcome" where
  "mk_outcome i submitted possible name detail updated =
     \<lparr>so_attempt_id = i, so_state = aa_value (aa_state updated), so_submitted = submitted,
      so_side_effect_possible = possible, so_transport_name = name, so_detail = detail\<rparr>"

definition with_outcome ::
  "(action_attempt \<Rightarrow> submit_outcome) \<Rightarrow> registry \<times> action_attempt result \<Rightarrow> registry \<times> submit_outcome result" where
  "with_outcome f r = (fst r, rbind (snd r) (\<lambda>a. Inr (f a)))"

definition default_text :: "string \<Rightarrow> string \<Rightarrow> string" where
  "default_text s d = (if s = [] then d else s)"

definition finish_submission ::
  "registry \<Rightarrow> string \<Rightarrow> string \<Rightarrow> transport_outcome \<Rightarrow> timestamp \<Rightarrow> registry \<times> submit_outcome result" where
  "finish_submission db i name outcome now =
     (case outcome of
        T_DISABLED m \<Rightarrow> (db, Inl (ActionTransportDisabled m))
      | T_RAISED text \<Rightarrow>
          with_outcome (\<lambda>a. mk_outcome i False True (aa_transport_name a)
              (or_text (aa_last_error a) ''transport outcome ambiguous'') a)
            (mark_action_reconcile_required db i (''transport raised '' @ text) (Some name) now)
      | T_RETURNED r \<Rightarrow>
          if sub_submitted r then
            with_outcome (mk_outcome i True True (Some (sub_transport_name r)) (sub_detail r))
              (mark_action_submitted db i (sub_transport_name r) now)
          else if sub_side_effect_possible r then
            with_outcome (mk_outcome i False True (Some (sub_transport_name r)) (sub_detail r))
              (mark_action_reconcile_required db i
                (default_text (sub_detail r) ''transport could not prove whether the side effect occurred'')
                (Some (sub_transport_name r)) now)
          else
            with_outcome (mk_outcome i False False (Some (sub_transport_name r)) (sub_detail r))
              (fail_action_attempt db i
                (default_text (sub_detail r) ''transport proved no side effect occurred'')
                (Some (sub_transport_name r)) now))"

text \<open>
  The call of the transport is observable: the result carries the intents it was given. \<open>env\<close> is what
  other connections commit to the registry while the transport runs.
\<close>

definition submit_armed_action ::
  "(string \<Rightarrow> string) \<Rightarrow> (registry \<Rightarrow> registry) \<Rightarrow> registry \<Rightarrow> string \<Rightarrow> string \<Rightarrow> transport \<Rightarrow> timestamp
     \<Rightarrow> registry \<times> action_intent list \<times> submit_outcome result" where
  "submit_armed_action sha256 env db i prompt tp now =
     (case rbind (get_action_attempt db i) (\<lambda>a. intent_from_attempt sha256 a prompt) of
        Inl e \<Rightarrow> (db, [], Inl e)
      | Inr intent \<Rightarrow>
          (let (db', r) = finish_submission (env db) i (tp_name tp) (tp_submit tp intent) now
           in (db', [intent], r)))"

definition require_no_unresolved_action :: "registry \<Rightarrow> string \<Rightarrow> unit result" where
  "require_no_unresolved_action db t =
     rbind (unresolved_action_attempt db t) (\<lambda>u.
     case u of
       None \<Rightarrow> Inr ()
     | Some a \<Rightarrow> Inl (ActionBlocked (''task '' @ t @ '' has unresolved action '' @ aa_attempt_id a
         @ '' in state '' @ aa_value (aa_state a) @ ''; reconcile or cancel it before any new send'')))"

section \<open>Every write to the journal\<close>

text \<open>The calls of the registry that touch the action journal, as values; \<open>run_action\<close> executes one.\<close>

datatype action_call =
    RecordAction action_attempt
  | RecordCurrentWorkerAction action_attempt
  | RecordRecoveryAction action_attempt
  | MarkSubmitted string string timestamp
  | MarkReconcileRequired string string "string option" timestamp
  | FailAction string string "string option" timestamp
  | CancelAction string string timestamp
  | AcknowledgeAction action_acknowledgement
  | RecordAckSignature string string

fun run_action :: "action_call \<Rightarrow> registry \<Rightarrow> registry" where
  "run_action (RecordAction a) db = fst (record_action_attempt db a)"
| "run_action (RecordCurrentWorkerAction a) db = fst (record_current_worker_action_attempt db a)"
| "run_action (RecordRecoveryAction a) db = fst (record_recovery_action_attempt db a)"
| "run_action (MarkSubmitted i n now) db = fst (mark_action_submitted db i n now)"
| "run_action (MarkReconcileRequired i e n now) db = fst (mark_action_reconcile_required db i e n now)"
| "run_action (FailAction i e n now) db = fst (fail_action_attempt db i e n now)"
| "run_action (CancelAction i r now) db = fst (cancel_action_attempt db i r now)"
| "run_action (AcknowledgeAction k) db = fst (acknowledge_action db k)"
| "run_action (RecordAckSignature i s) db = fst (record_action_ack_browser_signature db i s)"

definition run_actions :: "action_call list \<Rightarrow> registry \<Rightarrow> registry" where
  "run_actions cs db = fold run_action cs db"

section \<open>The journal is a write-ahead log\<close>

abbreviation action_append :: "registry \<Rightarrow> registry \<Rightarrow> bool" where
  "action_append db db' \<equiv> wal_append aa_attempt_id aa_task_id aa_unresolved (db_actions db) (db_actions db')"

abbreviation action_rewrite :: "registry \<Rightarrow> registry \<Rightarrow> bool" where
  "action_rewrite db db' \<equiv> wal_rewrite aa_attempt_id aa_task_id aa_state aa_advances (db_actions db) (db_actions db')"

lemma get_action_attempt_Inr [simp]:
  "get_action_attempt db i = Inr a \<longleftrightarrow> tbl_find aa_attempt_id i (db_actions db) = Some a"
  by (auto simp: get_action_attempt_def split: option.splits)

lemma update_task_row_actions [simp]: "db_actions (update_task_row t f db) = db_actions db"
  by (simp add: update_task_row_def)

lemma insert_action_append: "insert_action a db = Inr db' \<Longrightarrow> action_append db db'"
  by (auto simp: insert_action_def journal_insert_append split: if_splits)

lemma replace_action_attempt_Inr:
  assumes "replace_action_attempt db u = Inr (db', x)"
  shows "journal_update aa_attempt_id aa_task_id aa_unresolved u (db_actions db) = Inr (db_actions db')"
    and "db' = db\<lparr>db_actions := tbl_update aa_attempt_id (aa_attempt_id u) (\<lambda>_. u) (db_actions db)\<rparr>"
    and "x = u"
  using assms
  by (auto simp: replace_action_attempt_def journal_update_def tbl_find_update Let_def split: if_splits)

lemma replace_action_rewrite:
  assumes "replace_action_attempt db u = Inr (db', x)"
    and "tbl_find aa_attempt_id (aa_attempt_id u) (db_actions db) = Some r"
    and "aa_task_id u = aa_task_id r" and "aa_advances (aa_state r) (aa_state u)"
  shows "action_rewrite db db'"
  using journal_update_rewrite [OF replace_action_attempt_Inr(1) [OF assms(1)] assms(2,3)] assms(4)
  by blast

lemma aa_unresolved_iff: "aa_unresolved a \<longleftrightarrow> aa_state a \<in> {AA_ARMED, AA_SUBMITTED, AA_RECONCILE_REQUIRED}"
  by (simp add: aa_unresolved_def UNRESOLVED_ACTION_STATES_def)

text \<open>A writer that looks an attempt up, checks it and stores a changed copy.\<close>

lemma rewriting_writer:
  assumes "rbind (get_action_attempt db i) (\<lambda>a. rbind (check a) (\<lambda>_. replace_action_attempt db (f a)))
      = Inr (db', x)"
    and "\<And>a u. check a = Inr u \<Longrightarrow> aa_attempt_id (f a) = aa_attempt_id a \<and> aa_task_id (f a) = aa_task_id a
      \<and> aa_advances (aa_state a) (aa_state (f a))"
  shows "action_rewrite db db'"
proof -
  from assms(1) obtain a u where a: "tbl_find aa_attempt_id i (db_actions db) = Some a" "check a = Inr u"
      "replace_action_attempt db (f a) = Inr (db', x)" by auto
  have "aa_attempt_id a = i" using a(1) by (auto dest: tbl_find_SomeD)
  with replace_action_rewrite [OF a(3), of a] a(1) assms(2) [OF a(2)] show ?thesis by simp
qed

lemma aa_advances_settled:
  "aa_unresolved a \<Longrightarrow> st \<in> {AA_RECONCILE_REQUIRED, AA_FAILED, AA_CANCELLED, AA_ACKNOWLEDGED}
   \<Longrightarrow> aa_advances (aa_state a) st"
  by (auto simp: aa_unresolved_iff)

lemma run_action_rows:
  "db_actions (run_action c db) = db_actions db \<or> action_append db (run_action c db)
    \<or> action_rewrite db (run_action c db)" (is "?P (run_action c db)")
proof -
  have settle: "?P (fst (settle_action st db i e n now))"
    if "st \<in> {AA_RECONCILE_REQUIRED, AA_FAILED, AA_CANCELLED}" for st i e n now
    unfolding settle_action_def
    by (rule transaction_rule)
      (simp, erule rewriting_writer [THEN disjI2, THEN disjI2], use that aa_advances_settled in auto)
  have recorded: "?P (fst (record_action_attempt db a))" for a
    unfolding record_action_attempt_def by (rule transaction_rule) (auto dest: insert_action_append)
  have current: "?P (fst (record_current_worker_action_attempt db a))" for a
    unfolding record_current_worker_action_attempt_def
    by (rule transaction_rule) (auto dest: insert_action_append)
  have recovery: "?P (fst (record_recovery_action_attempt db a))" for a
    unfolding record_recovery_action_attempt_def
    by (rule transaction_rule) (auto dest: insert_action_append)
  have submitted: "?P (fst (mark_action_submitted db i n now))" for i n now
    unfolding mark_action_submitted_def
    by (rule transaction_rule) (simp, erule rewriting_writer [THEN disjI2, THEN disjI2], simp add: aa_unresolved_iff)
  have acknowledged: "?P (fst (acknowledge_action db k))" for k
    unfolding acknowledge_action_def
    by (rule transaction_rule) (simp, erule rewriting_writer [THEN disjI2, THEN disjI2], auto simp: validate_acknowledgement_def)
  have signed: "?P (fst (record_action_ack_browser_signature db i m))" for i m
  proof (cases "strip m = []")
    case True
    then show ?thesis by (simp add: record_action_ack_browser_signature_def)
  next
    case False
    show ?thesis
      unfolding record_action_ack_browser_signature_def
      by (rule transaction_rule, simp)
        (simp only: False guard_simps rbind_simps not_False_eq_True,
          erule rewriting_writer [THEN disjI2, THEN disjI2], simp add: aa_unresolved_iff)
  qed
  show ?thesis
    using settle recorded current recovery submitted acknowledged signed
    by (cases c) (simp_all only: run_action.simps mark_action_reconcile_required_def fail_action_attempt_def
        cancel_action_attempt_def insert_iff HOL.simp_thms)
qed

end
