(* ===== verification/Action_Safety.thy ===== *)
theory Action_Safety
  imports Actions
begin

text \<open>
  What the action journal guarantees: it is a write-ahead log (an interpretation of
  \<open>write_ahead_log\<close>), so a task has at most one unresolved action and a settled action keeps its
  outcome; the recovery budget is charged exactly once per armed recovery and never overdrawn; an
  attempt handed to a transport is never handed to one again.
\<close>

definition action_step :: "registry \<Rightarrow> registry \<Rightarrow> bool" where
  "action_step db db' \<longleftrightarrow> (\<exists>c. db' = run_action c db)"

definition aa_pending :: "action_attempt_state \<Rightarrow> bool" where
  "aa_pending s \<longleftrightarrow> s \<in> set UNRESOLVED_ACTION_STATES"

lemma aa_pending_iff: "aa_pending s \<longleftrightarrow> s \<in> {AA_ARMED, AA_SUBMITTED, AA_RECONCILE_REQUIRED}"
  by (simp add: aa_pending_def UNRESOLVED_ACTION_STATES_def)

lemma aa_unresolved_pending: "aa_unresolved = (\<lambda>a. aa_pending (aa_state a))"
  by (simp add: fun_eq_iff aa_unresolved_def aa_pending_def)

interpretation actions: write_ahead_log aa_attempt_id aa_task_id aa_state aa_pending aa_advances
  db_actions action_step
proof unfold_locales
  show "aa_advances s s" for s by (cases s) simp_all
  show "aa_advances s s' \<Longrightarrow> aa_advances s' s'' \<Longrightarrow> aa_advances s s''" for s s' s''
    by (cases s; cases s') auto
  show "aa_advances s s' \<Longrightarrow> \<not> aa_pending s \<Longrightarrow> s' = s" for s s'
    by (cases s) (auto simp: aa_pending_iff)
next
  fix db db' assume "action_step db db'"
  then show "db_actions db' = db_actions db
      \<or> wal_append aa_attempt_id aa_task_id (\<lambda>r. aa_pending (aa_state r)) (db_actions db) (db_actions db')
      \<or> wal_rewrite aa_attempt_id aa_task_id aa_state aa_advances (db_actions db) (db_actions db')"
    using run_action_rows unfolding action_step_def aa_unresolved_pending by blast
qed

lemma run_actions_step: "action_step\<^sup>*\<^sup>* db (run_actions cs db)"
proof (induction cs arbitrary: db)
  case (Cons c cs)
  have "action_step db (run_action c db)" by (auto simp: action_step_def)
  with Cons.IH [of "run_action c db"] show ?case
    by (simp add: run_actions_def converse_rtranclp_into_rtranclp)
qed (simp add: run_actions_def)

definition action_journal_ok :: "registry \<Rightarrow> bool" where
  "action_journal_ok db \<longleftrightarrow> journal_ok aa_attempt_id aa_task_id aa_unresolved (db_actions db)"

lemma action_journal_ok_iff: "action_journal_ok db \<longleftrightarrow> actions.wal_inv db"
  by (simp add: action_journal_ok_def actions.wal_inv_iff actions.unresolved_def [abs_def] aa_unresolved_pending)

text \<open>C9. Whatever sequence of registry calls is made on the action journal, every task keeps at most
  one unresolved action, no attempt disappears or changes task, an attempt's state only moves along
  the protocol's order (nothing returns to ARMED), and a settled outcome never changes.\<close>
theorem action_journal_safe:
  assumes "action_journal_ok db"
  shows "action_journal_ok (run_actions cs db)
    \<and> (\<forall>i a. tbl_find aa_attempt_id i (db_actions db) = Some a \<longrightarrow>
        (\<exists>b. tbl_find aa_attempt_id i (db_actions (run_actions cs db)) = Some b
          \<and> aa_task_id b = aa_task_id a \<and> aa_advances (aa_state a) (aa_state b)
          \<and> (\<not> aa_unresolved a \<longrightarrow> aa_state b = aa_state a)))"
  using assms actions.writes_star_inv [OF run_actions_step, of db cs]
    actions.writes_star_advance [OF run_actions_step, of _ db _ cs]
    actions.writes_star_final [OF run_actions_step, of _ db _ cs]
  unfolding action_journal_ok_iff aa_unresolved_pending by (metis option.inject)

text \<open>A task with one current worker, and an armed recovery action on it.\<close>

definition demo_action_registry :: registry where
  "demo_action_registry = fst (register_task empty_registry (Some ''task'') ''p'' ''o'' ''c'' None
     (Some ''https://c/1'') None ''x'' ''w1'' 1 2)"

definition demo_attempt :: "string \<Rightarrow> action_attempt" where
  "demo_attempt i = \<lparr>aa_attempt_id = i, aa_task_id = ''task'', aa_worker_id = ''w1'',
     aa_action = ''CONTINUE_CURRENT_WORKER'', aa_fence_token = ''f'', aa_fence_version = 2,
     aa_prompt_hash = ''go'', aa_nonce = ''n'', aa_state = AA_ARMED, aa_created_at = 3, aa_updated_at = 3,
     aa_pre_action_signature = None, aa_transport_name = None, aa_submitted_at = None,
     aa_acknowledged_at = None, aa_acknowledgement_kind = None, aa_acknowledgement_hash = None,
     aa_last_error = None, aa_metadata = []\<rparr>"

definition demo_armed_registry :: registry where
  "demo_armed_registry = run_actions [RecordRecoveryAction (demo_attempt ''a1'')] demo_action_registry"

theorem action_journal_safe_witness:
  "action_journal_ok demo_armed_registry
    \<and> action_journal_ok (run_actions [CancelAction ''a1'' ''stop'' 4, RecordRecoveryAction (demo_attempt ''a2'')]
        demo_armed_registry)
    \<and> length (unresolved_actions demo_armed_registry ''task'') = 1"
proof -
  have ok: "action_journal_ok demo_armed_registry" "length (unresolved_actions demo_armed_registry ''task'') = 1"
    by code_simp+
  with action_journal_safe [OF ok(1)] show ?thesis by blast
qed

section \<open>The recovery budget\<close>

lemma recovery_arm_iff:
  "snd (record_recovery_action_attempt db a) = Inr () \<longleftrightarrow>
     aa_state a = AA_ARMED \<and> unresolved_actions db (aa_task_id a) = []
     \<and> tbl_find aa_attempt_id (aa_attempt_id a) (db_actions db) = None
     \<and> (\<exists>t w. find_task db (aa_task_id a) = Some t \<and> find_worker db (aa_worker_id a) = Some w
          \<and> tr_state t \<notin> {ss_value SS_COMPLETED, ss_value SS_ABANDONED}
          \<and> tr_recovery_attempts t < tr_max_recovery_attempts t
          \<and> wr_task_id w = aa_task_id a \<and> tr_current_worker_id t = Some (aa_worker_id a)
          \<and> wr_status w = ws_value WS_ACTIVE)" (is "?ok \<longleftrightarrow> ?pre")
  and recovery_arm_effect:
  "fst (record_recovery_action_attempt db a) = (if snd (record_recovery_action_attempt db a) = Inr ()
     then update_task_row (aa_task_id a)
       (\<lambda>t. t\<lparr>tr_recovery_attempts := tr_recovery_attempts t + 1, tr_updated_at := aa_created_at a\<rparr>)
       (db\<lparr>db_actions := db_actions db @ [a]\<rparr>)
     else db)"
proof -
  let ?r = "rbind (guard (aa_state a = AA_ARMED)
          (ValueError ''recovery action must be ARMED before durable recording'')) (\<lambda>_.
        rbind (arm_checks db a ''terminal task cannot arm a recovery action''
          (\<lambda>t. guard (\<not> tr_recovery_attempts t \<ge> tr_max_recovery_attempts t)
             (RuntimeError ''recovery attempt budget is exhausted''))
          ''recovery action worker is no longer the active current worker'') (\<lambda>_.
        rbind (insert_action a db) (\<lambda>db1.
        Inr (update_task_row (aa_task_id a)
               (\<lambda>t. t\<lparr>tr_recovery_attempts := tr_recovery_attempts t + 1, tr_updated_at := aa_created_at a\<rparr>)
               db1, ()))))"
  have free: "unresolved_actions db (aa_task_id a) = [] \<Longrightarrow>
      index_free aa_attempt_id aa_task_id aa_unresolved a (db_actions db)"
    by (auto simp: unresolved_actions_def filter_empty_conv index_free_def list_ex_iff)
  have snd: "snd (transaction db ?r) = Inr () \<longleftrightarrow> (\<exists>d. ?r = Inr (d, ()))"
    by (cases ?r) (auto simp: transaction_def split: prod.splits)
  have eff: "?r = Inr (d, ()) \<Longrightarrow> d = update_task_row (aa_task_id a)
       (\<lambda>t. t\<lparr>tr_recovery_attempts := tr_recovery_attempts t + 1, tr_updated_at := aa_created_at a\<rparr>)
       (db\<lparr>db_actions := db_actions db @ [a]\<rparr>)" for d
    by (auto simp: insert_action_def journal_insert_def split: if_splits)
  have iff: "(\<exists>d. ?r = Inr (d, ())) \<longleftrightarrow> ?pre"
    using free
    by (auto simp: arm_checks_def insert_action_def journal_insert_def split: option.splits if_splits list.splits)
  show "?ok \<longleftrightarrow> ?pre" using snd iff unfolding record_recovery_action_attempt_def by blast
  show "fst (record_recovery_action_attempt db a) = (if ?ok then update_task_row (aa_task_id a)
       (\<lambda>t. t\<lparr>tr_recovery_attempts := tr_recovery_attempts t + 1, tr_updated_at := aa_created_at a\<rparr>)
       (db\<lparr>db_actions := db_actions db @ [a]\<rparr>) else db)"
    using eff unfolding record_recovery_action_attempt_def
    by (cases ?r) (auto simp: transaction_def split: prod.splits)
qed

text \<open>A recovery action is armed exactly when it is ARMED, the task is not terminal, budget is left,
  the attempt's worker is the task's active current worker, no action of the task is unresolved and
  the identifier is new; then the row is appended and the counter grows by one in the same
  transaction. In every other case the registry is unchanged.\<close>
theorem recovery_arm_exact:
  "(snd (record_recovery_action_attempt db a) = Inr () \<longleftrightarrow>
     aa_state a = AA_ARMED \<and> unresolved_actions db (aa_task_id a) = []
     \<and> tbl_find aa_attempt_id (aa_attempt_id a) (db_actions db) = None
     \<and> (\<exists>t w. find_task db (aa_task_id a) = Some t \<and> find_worker db (aa_worker_id a) = Some w
          \<and> tr_state t \<notin> {ss_value SS_COMPLETED, ss_value SS_ABANDONED}
          \<and> tr_recovery_attempts t < tr_max_recovery_attempts t
          \<and> wr_task_id w = aa_task_id a \<and> tr_current_worker_id t = Some (aa_worker_id a)
          \<and> wr_status w = ws_value WS_ACTIVE))
   \<and> fst (record_recovery_action_attempt db a) = (if snd (record_recovery_action_attempt db a) = Inr ()
     then update_task_row (aa_task_id a)
       (\<lambda>t. t\<lparr>tr_recovery_attempts := tr_recovery_attempts t + 1, tr_updated_at := aa_created_at a\<rparr>)
       (db\<lparr>db_actions := db_actions db @ [a]\<rparr>)
     else db)"
  using recovery_arm_iff recovery_arm_effect by blast

lemma insert_action_tasks: "insert_action a db = Inr db' \<Longrightarrow> db_tasks db' = db_tasks db"
  by (auto simp: insert_action_def split: if_splits)

lemma replace_action_tasks: "replace_action_attempt db u = Inr (db', x) \<Longrightarrow> db_tasks db' = db_tasks db"
  by (auto dest: replace_action_attempt_Inr(2))

text \<open>Only the recovery writer touches the task table.\<close>

lemma run_action_tasks:
  assumes "\<nexists>a. c = RecordRecoveryAction a"
  shows "db_tasks (run_action c db) = db_tasks db" (is "?P (run_action c db)")
proof -
  have "?P (fst (settle_action st db i e n now))" for st i e n now
    unfolding settle_action_def by (rule transaction_rule) (auto dest: replace_action_tasks)
  moreover have "?P (fst (record_action_attempt db a))" for a
    unfolding record_action_attempt_def by (rule transaction_rule) (auto dest: insert_action_tasks)
  moreover have "?P (fst (record_current_worker_action_attempt db a))" for a
    unfolding record_current_worker_action_attempt_def
    by (rule transaction_rule) (auto dest: insert_action_tasks)
  moreover have "?P (fst (mark_action_submitted db i n now))" for i n now
    unfolding mark_action_submitted_def by (rule transaction_rule) (auto dest: replace_action_tasks)
  moreover have "?P (fst (acknowledge_action db k))" for k
    unfolding acknowledge_action_def by (rule transaction_rule) (auto dest: replace_action_tasks)
  moreover have "?P (fst (record_action_ack_browser_signature db i m))" for i m
    unfolding record_action_ack_browser_signature_def
    by (rule transaction_rule) (auto dest: replace_action_tasks)
  ultimately show ?thesis
    using assms by (cases c) (simp_all add: mark_action_reconcile_required_def fail_action_attempt_def
        cancel_action_attempt_def)
qed

text \<open>The recoveries of a task that a sequence of calls arms.\<close>

fun arms_recovery :: "string \<Rightarrow> action_call \<Rightarrow> registry \<Rightarrow> bool" where
  "arms_recovery t (RecordRecoveryAction a) db =
     (aa_task_id a = t \<and> snd (record_recovery_action_attempt db a) = Inr ())"
| "arms_recovery t c db = False"

fun armed_recoveries :: "string \<Rightarrow> action_call list \<Rightarrow> registry \<Rightarrow> int" where
  "armed_recoveries t [] db = 0"
| "armed_recoveries t (c # cs) db =
     (if arms_recovery t c db then 1 else 0) + armed_recoveries t cs (run_action c db)"

lemma run_action_budget:
  assumes "find_task db t = Some r"
  shows "\<exists>r'. find_task (run_action c db) t = Some r' \<and> tr_max_recovery_attempts r' = tr_max_recovery_attempts r
    \<and> tr_recovery_attempts r' = tr_recovery_attempts r + (if arms_recovery t c db then 1 else 0)
    \<and> (arms_recovery t c db \<longrightarrow> tr_recovery_attempts r < tr_max_recovery_attempts r)"
proof (cases "\<exists>a. c = RecordRecoveryAction a")
  case True
  then obtain a where c: "c = RecordRecoveryAction a" by blast
  show ?thesis
    using assms recovery_arm_iff [of db a] recovery_arm_effect [of db a]
    by (cases "aa_task_id a = t")
      (auto simp: c update_task_row_def find_task_def tbl_find_update)
next
  case False
  then have "db_tasks (run_action c db) = db_tasks db" by (rule run_action_tasks)
  moreover have "\<not> arms_recovery t c db" using False by (cases c) auto
  ultimately show ?thesis using assms by (simp add: find_task_def)
qed

text \<open>C11. Over any sequence of calls on the action journal a task's recovery counter grows by exactly the
  number of recoveries armed for it, its limit is unchanged, and a counter that started within the
  limit stays within it: no more recoveries are ever armed than the budget allows.\<close>
theorem recovery_budget_bounds:
  assumes "find_task db t = Some r" and "tr_recovery_attempts r \<le> tr_max_recovery_attempts r"
  shows "\<exists>r'. find_task (run_actions cs db) t = Some r'
    \<and> tr_max_recovery_attempts r' = tr_max_recovery_attempts r
    \<and> tr_recovery_attempts r' = tr_recovery_attempts r + armed_recoveries t cs db
    \<and> tr_recovery_attempts r' \<le> tr_max_recovery_attempts r"
  using assms
proof (induction cs arbitrary: db r)
  case (Cons c cs)
  from run_action_budget [OF Cons.prems(1), of c] obtain r1 where r1: "find_task (run_action c db) t = Some r1"
      "tr_max_recovery_attempts r1 = tr_max_recovery_attempts r"
      "tr_recovery_attempts r1 = tr_recovery_attempts r + (if arms_recovery t c db then 1 else 0)"
      "arms_recovery t c db \<longrightarrow> tr_recovery_attempts r < tr_max_recovery_attempts r"
    by blast
  then have "tr_recovery_attempts r1 \<le> tr_max_recovery_attempts r1" using Cons.prems(2) by auto
  from Cons.IH [OF r1(1) this] r1 show ?case by (auto simp: run_actions_def)
qed (simp add: run_actions_def)

definition demo_retries :: "action_call list" where
  "demo_retries = [RecordRecoveryAction (demo_attempt ''a1''), CancelAction ''a1'' ''x'' 4,
     RecordRecoveryAction (demo_attempt ''a2''), FailAction ''a2'' ''x'' None 5,
     RecordRecoveryAction (demo_attempt ''a3''), CancelAction ''a3'' ''x'' 6,
     RecordRecoveryAction (demo_attempt ''a4'')]"

theorem recovery_budget_bounds_witness:
  "armed_recoveries ''task'' demo_retries demo_action_registry = 3
    \<and> (\<exists>r. find_task (run_actions demo_retries demo_action_registry) ''task'' = Some r
        \<and> tr_recovery_attempts r = 3)"
proof -
  obtain r where r: "find_task demo_action_registry ''task'' = Some r"
      "tr_recovery_attempts r = 0" "tr_max_recovery_attempts r = 3"
  proof -
    have "map_option (\<lambda>r. (tr_recovery_attempts r, tr_max_recovery_attempts r))
        (find_task demo_action_registry ''task'') = Some (0, 3)" by code_simp
    with that show ?thesis by auto
  qed
  have "armed_recoveries ''task'' demo_retries demo_action_registry = 3" by code_simp
  with recovery_budget_bounds [OF r(1), of demo_retries] r show ?thesis by auto
qed

section \<open>Submission\<close>

lemma journal_okD:
  "action_journal_ok db \<Longrightarrow> tbl_ok aa_attempt_id (db_actions db)"
  "action_journal_ok db \<Longrightarrow> x \<in> set (db_actions db) \<Longrightarrow> y \<in> set (db_actions db) \<Longrightarrow> aa_unresolved x
    \<Longrightarrow> aa_unresolved y \<Longrightarrow> aa_task_id x = aa_task_id y \<Longrightarrow> x = y"
  by (auto simp: action_journal_ok_def journal_ok_iff)

text \<open>On a journal that keeps its index, a changed copy of an unresolved attempt is always stored.\<close>

lemma replace_action_ok:
  assumes ok: "action_journal_ok db" and a: "tbl_find aa_attempt_id i (db_actions db) = Some a"
    and un: "aa_unresolved a" and u: "aa_attempt_id u = i" "aa_task_id u = aa_task_id a"
  shows "replace_action_attempt db u =
    Inr (db\<lparr>db_actions := tbl_update aa_attempt_id i (\<lambda>_. u) (db_actions db)\<rparr>, u)"
proof -
  have "journal_update aa_attempt_id aa_task_id aa_unresolved u (db_actions db)
      = Inr (tbl_update aa_attempt_id (aa_attempt_id u) (\<lambda>_. u) (db_actions db))"
    using a u un journal_okD [OF ok] by (intro journal_update_Inr [where r = a]) auto
  then show ?thesis
    using a u by (simp add: replace_action_attempt_def Let_def get_action_attempt_def tbl_find_update)
qed

lemma settle_action_cases:
  assumes ok: "action_journal_ok db" and a: "tbl_find aa_attempt_id i (db_actions db) = Some a"
  shows "aa_unresolved a \<Longrightarrow> \<exists>u. settle_action st db i e n now
      = (db\<lparr>db_actions := tbl_update aa_attempt_id i (\<lambda>_. u) (db_actions db)\<rparr>, Inr u)
      \<and> aa_attempt_id u = i \<and> aa_state u = st
      \<and> aa_transport_name u = (if present n then n else aa_transport_name a) \<and> aa_last_error u = Some (take 1000 e)"
    and "\<not> aa_unresolved a \<Longrightarrow> fst (settle_action st db i e n now) = db"
proof -
  have i: "aa_attempt_id a = i" using a by (auto dest: tbl_find_SomeD)
  show "fst (settle_action st db i e n now) = db" if "\<not> aa_unresolved a"
    using that a by (simp add: settle_action_def get_action_attempt_def)
  show "\<exists>u. settle_action st db i e n now
      = (db\<lparr>db_actions := tbl_update aa_attempt_id i (\<lambda>_. u) (db_actions db)\<rparr>, Inr u)
      \<and> aa_attempt_id u = i \<and> aa_state u = st
      \<and> aa_transport_name u = (if present n then n else aa_transport_name a) \<and> aa_last_error u = Some (take 1000 e)"
    if un: "aa_unresolved a"
  proof -
    let ?u = "a\<lparr>aa_state := st, aa_transport_name := (if present n then n else aa_transport_name a),
        aa_last_error := Some (take 1000 e), aa_updated_at := now\<rparr>"
    have "replace_action_attempt db ?u
        = Inr (db\<lparr>db_actions := tbl_update aa_attempt_id i (\<lambda>_. ?u) (db_actions db)\<rparr>, ?u)"
      using i by (intro replace_action_ok [OF ok a un]) simp_all
    then have "settle_action st db i e n now
        = (db\<lparr>db_actions := tbl_update aa_attempt_id i (\<lambda>_. ?u) (db_actions db)\<rparr>, Inr ?u)"
      using a un by (simp add: settle_action_def get_action_attempt_def)
    then show ?thesis using i by (intro exI [of _ ?u]) simp
  qed
qed

lemma mark_submitted_cases:
  assumes ok: "action_journal_ok db" and a: "tbl_find aa_attempt_id i (db_actions db) = Some a"
  shows "aa_state a = AA_ARMED \<Longrightarrow> \<exists>u. mark_action_submitted db i n now
      = (db\<lparr>db_actions := tbl_update aa_attempt_id i (\<lambda>_. u) (db_actions db)\<rparr>, Inr u)
      \<and> aa_attempt_id u = i \<and> aa_state u = AA_SUBMITTED"
    and "aa_state a \<noteq> AA_ARMED \<Longrightarrow> fst (mark_action_submitted db i n now) = db"
proof -
  have i: "aa_attempt_id a = i" using a by (auto dest: tbl_find_SomeD)
  show "fst (mark_action_submitted db i n now) = db" if "aa_state a \<noteq> AA_ARMED"
    using that a by (simp add: mark_action_submitted_def get_action_attempt_def)
  show "\<exists>u. mark_action_submitted db i n now
      = (db\<lparr>db_actions := tbl_update aa_attempt_id i (\<lambda>_. u) (db_actions db)\<rparr>, Inr u)
      \<and> aa_attempt_id u = i \<and> aa_state u = AA_SUBMITTED" if armed: "aa_state a = AA_ARMED"
  proof -
    let ?u = "a\<lparr>aa_state := AA_SUBMITTED, aa_transport_name := Some n,
          aa_submitted_at := Some now, aa_updated_at := now\<rparr>"
    have "replace_action_attempt db ?u
        = Inr (db\<lparr>db_actions := tbl_update aa_attempt_id i (\<lambda>_. ?u) (db_actions db)\<rparr>, ?u)"
      using i armed by (intro replace_action_ok [OF ok a]) (simp_all add: aa_unresolved_iff)
    then show ?thesis
      using a i armed by (intro exI [of _ ?u]) (simp add: mark_action_submitted_def get_action_attempt_def)
  qed
qed

text \<open>After a transport that was not disabled has run, the attempt is no longer ARMED, whatever it
  reported and whatever other connections did to the journal meanwhile.\<close>

lemma finish_submission_leaves_armed:
  assumes ok: "action_journal_ok db" and a: "tbl_find aa_attempt_id i (db_actions db) = Some a"
    and "\<nexists>m. outcome = T_DISABLED m"
  shows "\<exists>u. tbl_find aa_attempt_id i (db_actions (fst (finish_submission db i n outcome now))) = Some u
    \<and> aa_state u \<noteq> AA_ARMED"
proof -
  have settle: "\<exists>u. tbl_find aa_attempt_id i (db_actions (fst (settle_action st db i e m now))) = Some u
      \<and> aa_state u \<noteq> AA_ARMED" if "st \<noteq> AA_ARMED" for st e m
    using that a settle_action_cases [OF ok a, of st e m now]
    by (cases "aa_unresolved a") (auto simp: tbl_find_update aa_unresolved_iff)
  have submitted: "\<exists>u. tbl_find aa_attempt_id i (db_actions (fst (mark_action_submitted db i m now))) = Some u
      \<and> aa_state u \<noteq> AA_ARMED" for m
    using a mark_submitted_cases [OF ok a, of m now]
    by (cases "aa_state a = AA_ARMED") (auto simp: tbl_find_update)
  show ?thesis
    using settle submitted assms(3)
    by (cases outcome) (simp_all add: finish_submission_def with_outcome_def
        mark_action_reconcile_required_def fail_action_attempt_def)
qed

lemma submit_armed_actionE:
  assumes "submit_armed_action sha256 env db i prompt tp now = (db', sent, r)" and "sent \<noteq> []"
  obtains a intent where "tbl_find aa_attempt_id i (db_actions db) = Some a"
    "intent_from_attempt sha256 a prompt = Inr intent" "sent = [intent]"
    "(db', r) = finish_submission (env db) i (tp_name tp) (tp_submit tp intent) now"
  using assms unfolding submit_armed_action_def
  by (auto split: sum.splits prod.splits elim!: rbind_Inr_iff [THEN iffD1, elim_format])

text \<open>Once an attempt has left ARMED no transport is called for it.\<close>

lemma not_armed_not_sent:
  assumes "tbl_find aa_attempt_id i (db_actions db) = Some a" and "aa_state a \<noteq> AA_ARMED"
  shows "fst (snd (submit_armed_action sha256 env db i prompt tp now)) = []"
  using assms by (simp add: submit_armed_action_def get_action_attempt_def intent_from_attempt_def)

text \<open>C10. At most one delivery: if a submission handed the attempt to a transport that did not report
  itself disabled, then no later submission of that attempt reaches any transport, whatever the
  transport reported (success, failure, ambiguity or an exception), whatever other connections wrote
  to the journal while it ran, and whatever is written afterwards.\<close>
theorem sent_attempt_never_resent:
  assumes ok: "action_journal_ok db"
    and sent: "submit_armed_action sha256 (run_actions meanwhile) db i prompt tp now = (db', [intent], r)"
    and effect: "\<nexists>m. tp_submit tp intent = T_DISABLED m"
  shows "fst (snd (submit_armed_action sha256' env (run_actions later db') i prompt' tp' now')) = []"
proof -
  from submit_armed_actionE [OF sent] obtain a where a: "tbl_find aa_attempt_id i (db_actions db) = Some a"
      "(db', r) = finish_submission (run_actions meanwhile db) i (tp_name tp) (tp_submit tp intent) now"
    by auto
  let ?env = "run_actions meanwhile db"
  have ok': "action_journal_ok ?env"
    using ok actions.writes_star_inv [OF run_actions_step] by (simp add: action_journal_ok_iff)
  obtain b where b: "tbl_find aa_attempt_id i (db_actions ?env) = Some b"
    using actions.writes_star_advance [OF run_actions_step a(1), of meanwhile] by blast
  have "db' = fst (finish_submission ?env i (tp_name tp) (tp_submit tp intent) now)"
    using a(2) by (metis fst_conv)
  with finish_submission_leaves_armed [OF ok' b effect] obtain u where
    u: "tbl_find aa_attempt_id i (db_actions db') = Some u" "aa_state u \<noteq> AA_ARMED" by auto
  obtain v where v: "tbl_find aa_attempt_id i (db_actions (run_actions later db')) = Some v"
      "aa_advances (aa_state u) (aa_state v)"
    using actions.writes_star_advance [OF run_actions_step u(1), of later] by blast
  have "aa_state v \<noteq> AA_ARMED" using u(2) v(2) by (cases "aa_state u") auto
  with v(1) show ?thesis by (rule not_armed_not_sent)
qed

definition demo_transport :: "transport_outcome \<Rightarrow> transport" where
  "demo_transport o' = \<lparr>tp_name = ''uia'', tp_submit = (\<lambda>_. o')\<rparr>"

theorem sent_attempt_never_resent_witness:
  "fst (snd (submit_armed_action (\<lambda>s. s) (\<lambda>d. d)
      (run_actions [RecordAction (demo_attempt ''a2'')]
        (fst (submit_armed_action (\<lambda>s. s) (run_actions []) demo_armed_registry ''a1'' ''go''
          (demo_transport (T_RAISED ''OSError: lost'')) 5))) ''a1'' ''go'' DisabledActionTransport 6)) = []"
proof -
  let ?s = "submit_armed_action (\<lambda>s. s) (run_actions []) demo_armed_registry ''a1'' ''go''
      (demo_transport (T_RAISED ''OSError: lost'')) 5"
  obtain db' sent r where eq: "?s = (db', sent, r)" by (rule prod_cases3)
  have "length (fst (snd ?s)) = 1" by code_simp
  then have "length sent = 1" unfolding eq by simp
  then obtain intent where "sent = [intent]" by (cases sent) auto
  with eq have s: "?s = (db', [intent], r)" by (simp only:)
  have ok: "action_journal_ok demo_armed_registry" by code_simp
  have effect: "\<nexists>m. tp_submit (demo_transport (T_RAISED ''OSError: lost'')) intent = T_DISABLED m"
    by (simp add: demo_transport_def)
  show ?thesis unfolding s fst_conv by (rule sent_attempt_never_resent [OF ok s effect])
qed

text \<open>The state after a submission says exactly what is known of its effect: a report of submission
  gives SUBMITTED, a proof that nothing happened gives FAILED, an exception or an unproven effect
  gives RECONCILE_REQUIRED, and only the disabled transport leaves the attempt ARMED and the registry
  unchanged. In every case the transport is called once.\<close>
theorem submission_outcome_exact:
  assumes ok: "action_journal_ok db" and a: "tbl_find aa_attempt_id i (db_actions db) = Some a"
    and intent: "intent_from_attempt sha256 a prompt = Inr intent"
  shows "case submit_armed_action sha256 (\<lambda>d. d) db i prompt tp now of (db', sent, r) \<Rightarrow>
    sent = [intent] \<and>
    (case tp_submit tp intent of
       T_DISABLED m \<Rightarrow> db' = db \<and> r = Inl (ActionTransportDisabled m)
     | T_RAISED e \<Rightarrow> (\<exists>u oc. tbl_find aa_attempt_id i (db_actions db') = Some u
         \<and> aa_state u = AA_RECONCILE_REQUIRED \<and> r = Inr oc \<and> \<not> so_submitted oc \<and> so_side_effect_possible oc)
     | T_RETURNED s \<Rightarrow> (\<exists>u oc. tbl_find aa_attempt_id i (db_actions db') = Some u \<and> r = Inr oc
         \<and> aa_state u = (if sub_submitted s then AA_SUBMITTED
             else if sub_side_effect_possible s then AA_RECONCILE_REQUIRED else AA_FAILED)
         \<and> so_submitted oc = sub_submitted s
         \<and> so_side_effect_possible oc = (sub_submitted s \<or> sub_side_effect_possible s)
         \<and> so_state oc = aa_value (aa_state u)))"
proof -
  have armed: "aa_state a = AA_ARMED" using intent by (auto simp: intent_from_attempt_def)
  then have un: "aa_unresolved a" by (simp add: aa_unresolved_iff)
  have settle: "\<exists>u. settle_action st db i e n now
      = (db\<lparr>db_actions := tbl_update aa_attempt_id i (\<lambda>_. u) (db_actions db)\<rparr>, Inr u)
      \<and> aa_attempt_id u = i \<and> aa_state u = st" for st e n
    using settle_action_cases(1) [OF ok a un, of st e n now] by blast
  have found: "tbl_find aa_attempt_id i (tbl_update aa_attempt_id i (\<lambda>_. u) (db_actions db)) = Some u"
    if "aa_attempt_id u = i" for u using that a by (simp add: tbl_find_update)
  show ?thesis
  proof (cases "tp_submit tp intent")
    case (T_RAISED e)
    with settle [of AA_RECONCILE_REQUIRED "''transport raised '' @ e" "Some (tp_name tp)"] a intent found
    show ?thesis by (auto simp: submit_armed_action_def get_action_attempt_def finish_submission_def
        with_outcome_def mark_action_reconcile_required_def mk_outcome_def)
  next
    case (T_RETURNED s)
    let ?n = "Some (sub_transport_name s)"
    note defs = submit_armed_action_def get_action_attempt_def finish_submission_def with_outcome_def
      mark_action_reconcile_required_def fail_action_attempt_def mk_outcome_def
    consider "sub_submitted s" | "\<not> sub_submitted s" "sub_side_effect_possible s"
      | "\<not> sub_submitted s" "\<not> sub_side_effect_possible s" by blast
    then show ?thesis
    proof cases
      case 1
      with mark_submitted_cases(1) [OF ok a armed, of "sub_transport_name s" now] T_RETURNED a intent found
      show ?thesis by (auto simp: defs)
    next
      case 2
      with settle [of AA_RECONCILE_REQUIRED "default_text (sub_detail s)
        ''transport could not prove whether the side effect occurred''" ?n] T_RETURNED a intent found
      show ?thesis by (auto simp: defs)
    next
      case 3
      with settle [of AA_FAILED "default_text (sub_detail s) ''transport proved no side effect occurred''" ?n]
        T_RETURNED a intent found
      show ?thesis by (auto simp: defs)
    qed
  qed (use a intent in \<open>simp add: submit_armed_action_def get_action_attempt_def finish_submission_def\<close>)
qed

definition demo_report :: "bool \<Rightarrow> bool \<Rightarrow> transport_submission" where
  "demo_report sent possible =
     \<lparr>sub_submitted = sent, sub_side_effect_possible = possible, sub_transport_name = ''uia'', sub_detail = []\<rparr>"

theorem submission_outcome_exact_witness:
  "\<exists>u. tbl_find aa_attempt_id ''a1'' (db_actions (fst (submit_armed_action (\<lambda>s. s) (\<lambda>d. d)
      demo_armed_registry ''a1'' ''go'' (demo_transport (T_RETURNED (demo_report False True))) 5))) = Some u
    \<and> aa_state u = AA_RECONCILE_REQUIRED"
proof -
  have ok: "action_journal_ok demo_armed_registry" by code_simp
  have a: "tbl_find aa_attempt_id ''a1'' (db_actions demo_armed_registry) = Some (demo_attempt ''a1'')"
    by code_simp
  have "\<not> isl (intent_from_attempt (\<lambda>s. s) (demo_attempt ''a1'') ''go'')" by code_simp
  then obtain intent where i: "intent_from_attempt (\<lambda>s. s) (demo_attempt ''a1'') ''go'' = Inr intent"
    by (metis sum.collapse(2))
  have t: "tp_submit (demo_transport (T_RETURNED (demo_report False True))) intent
      = T_RETURNED (demo_report False True)" by (simp add: demo_transport_def)
  show ?thesis
    using submission_outcome_exact [OF ok a i, of "demo_transport (T_RETURNED (demo_report False True))" 5]
    unfolding t by (auto simp: demo_report_def split: prod.splits)
qed

section \<open>What an armed record authorises\<close>

lemma prompt_protocol_built:
  "build_action_attempt sha256 plan task worker prompt version signature nonce i now = Inr a
   \<Longrightarrow> prompt_protocol a = ACTION_PROMPT_PROTOCOL_NONCE_SUFFIX_V1"
  by (auto simp: build_action_attempt_def prompt_protocol_def json_get_def
      ACTION_PROMPT_PROTOCOL_NONCE_SUFFIX_V1_def Let_def)

lemma render_action_prompt_Inr:
  "render_action_prompt prompt nonce = Inr wire \<longleftrightarrow> strip prompt \<noteq> [] \<and> strip nonce \<noteq> []
    \<and> wire = rstrip prompt @ newline @ newline
        @ ''Recovery action idempotency marker (do not interpret as task instructions): ''
        @ ''LWS-ACTION-'' @ nonce"
  by (auto simp: render_action_prompt_def)

text \<open>Round trip from arming to sending: the record built for a prompt is ARMED and yields an intent for
  that prompt, whose wire text is the prompt (without trailing blanks) followed by the marker with
  the record's nonce and whose hash is the recorded one. If the digest does not collide on the two wire
  texts, another prompt yields an intent only when it differs in trailing blanks alone.\<close>
theorem armed_prompt_roundtrip:
  assumes built: "build_action_attempt sha256 plan task worker prompt version signature nonce i now = Inr a"
  shows "aa_state a = AA_ARMED
    \<and> (\<exists>intent. intent_from_attempt sha256 a prompt = Inr intent
        \<and> ai_prompt intent = rstrip prompt @ newline @ newline
            @ ''Recovery action idempotency marker (do not interpret as task instructions): ''
            @ ''LWS-ACTION-'' @ aa_nonce a
        \<and> ai_prompt_hash intent = aa_prompt_hash a \<and> ai_attempt_id intent = i
        \<and> ai_worker_id intent = wk_worker_id worker
        \<and> (\<forall>other forged. intent_from_attempt sha256 a other = Inr forged \<longrightarrow>
             (sha256 (ai_prompt forged) = sha256 (ai_prompt intent) \<longrightarrow> ai_prompt forged = ai_prompt intent) \<longrightarrow>
             rstrip other = rstrip prompt))"
proof -
  from built obtain wire where w: "render_action_prompt prompt nonce = Inr wire"
      "aa_prompt_hash a = sha256 wire" "aa_nonce a = nonce" "aa_state a = AA_ARMED" "aa_attempt_id a = i"
      "aa_worker_id a = wk_worker_id worker"
    by (auto simp: build_action_attempt_def)
  note p = prompt_protocol_built [OF built]
  have intent: "intent_from_attempt sha256 a other = Inr j \<longleftrightarrow>
      (\<exists>x. render_action_prompt other nonce = Inr x \<and> sha256 x = sha256 wire
        \<and> j = \<lparr>ai_attempt_id = i, ai_task_id = aa_task_id a, ai_worker_id = wk_worker_id worker,
          ai_action = aa_action a, ai_prompt = x, ai_prompt_hash = sha256 x, ai_nonce = nonce,
          ai_fence_token = aa_fence_token a, ai_fence_version = aa_fence_version a\<rparr>)" for other j
    using w p by (auto simp: intent_from_attempt_def)
  show ?thesis
    using w(1) by (auto simp: intent w(2-6) render_action_prompt_Inr)
qed

definition demo_built :: "action_attempt result" where
  "demo_built = build_action_attempt (\<lambda>s. s) (projr demo_plan) demo_task_record demo_worker ''go  '' 2 None ''n1'' ''a9'' 120"

theorem armed_prompt_roundtrip_witness:
  "\<exists>a intent. demo_built = Inr a \<and> intent_from_attempt (\<lambda>s. s) a ''go  '' = Inr intent
     \<and> ai_prompt_hash intent = aa_prompt_hash a \<and> ai_attempt_id intent = ''a9''"
proof -
  have "\<not> isl demo_built" by code_simp
  then obtain a where a: "demo_built = Inr a" by (metis sum.collapse(2))
  from armed_prompt_roundtrip [OF a [unfolded demo_built_def]] a show ?thesis by blast
qed

text \<open>An acknowledgement settles an action exactly when the action is unresolved, the acknowledgement
  names this attempt and this worker, is positive, does not predate the action and carries evidence;
  otherwise it raises and the journal is unchanged.\<close>
theorem acknowledgement_exact:
  assumes ok: "action_journal_ok db"
  shows "if \<exists>a. tbl_find aa_attempt_id (ack_attempt_id k) (db_actions db) = Some a \<and> aa_unresolved a
        \<and> ack_worker_id k = aa_worker_id a \<and> ack_accepted k \<and> aa_created_at a \<le> ack_observed_at k
        \<and> strip (ack_kind k) \<noteq> [] \<and> strip (ack_evidence_hash k) \<noteq> []
    then \<exists>u. snd (acknowledge_action db k) = Inr u \<and> aa_state u = AA_ACKNOWLEDGED
        \<and> tbl_find aa_attempt_id (ack_attempt_id k) (db_actions (fst (acknowledge_action db k))) = Some u
        \<and> aa_acknowledgement_hash u = Some (ack_evidence_hash k)
    else fst (acknowledge_action db k) = db \<and> isl (snd (acknowledge_action db k))"
proof (cases "tbl_find aa_attempt_id (ack_attempt_id k) (db_actions db)")
  case None
  then show ?thesis by (simp add: acknowledge_action_def get_action_attempt_def)
next
  case (Some a)
  have i: "aa_attempt_id a = ack_attempt_id k" using Some by (auto dest: tbl_find_SomeD)
  show ?thesis
  proof (cases "validate_acknowledgement a k")
    case (Inl e)
    then have "\<not> (aa_unresolved a \<and> ack_worker_id k = aa_worker_id a \<and> ack_accepted k
        \<and> aa_created_at a \<le> ack_observed_at k \<and> strip (ack_kind k) \<noteq> [] \<and> strip (ack_evidence_hash k) \<noteq> [])"
      using i by (auto simp: validate_acknowledgement_def aa_unresolved_iff guard_def)
    with Inl Some show ?thesis by (simp add: acknowledge_action_def get_action_attempt_def)
  next
    case (Inr u)
    then have pre: "aa_unresolved a" "ack_worker_id k = aa_worker_id a" "ack_accepted k"
        "aa_created_at a \<le> ack_observed_at k" "strip (ack_kind k) \<noteq> []" "strip (ack_evidence_hash k) \<noteq> []"
      by (auto simp: validate_acknowledgement_def aa_unresolved_iff)
    let ?u = "a\<lparr>aa_state := AA_ACKNOWLEDGED,
          aa_acknowledged_at := Some (ack_observed_at k), aa_acknowledgement_kind := Some (ack_kind k),
          aa_acknowledgement_hash := Some (ack_evidence_hash k),
          aa_metadata := (if present (ack_text_signature k)
            then json_set ''ack_uia_text_signature'' (JStr (the (ack_text_signature k))) (aa_metadata a)
            else aa_metadata a),
          aa_last_error := None, aa_updated_at := ack_observed_at k\<rparr>"
    have "replace_action_attempt db ?u = Inr (db\<lparr>db_actions :=
        tbl_update aa_attempt_id (ack_attempt_id k) (\<lambda>_. ?u) (db_actions db)\<rparr>, ?u)"
      using i by (intro replace_action_ok [OF ok Some pre(1)]) simp_all
    with Inr Some have "acknowledge_action db k = (db\<lparr>db_actions :=
        tbl_update aa_attempt_id (ack_attempt_id k) (\<lambda>_. ?u) (db_actions db)\<rparr>, Inr ?u)"
      by (simp add: acknowledge_action_def get_action_attempt_def)
    with Some pre i show ?thesis by (simp add: tbl_find_update)
  qed
qed

theorem acknowledgement_exact_witness:
  "isl (snd (acknowledge_action demo_armed_registry
     \<lparr>ack_attempt_id = ''a1'', ack_worker_id = ''w1'', ack_observed_at = 2, ack_accepted = True,
      ack_kind = ''k'', ack_evidence_hash = ''h'', ack_detail = [], ack_text_signature = None\<rparr>))"
proof -
  have ok: "action_journal_ok demo_armed_registry" by code_simp
  have a: "tbl_find aa_attempt_id ''a1'' (db_actions demo_armed_registry) = Some (demo_attempt ''a1'')"
    by code_simp
  show ?thesis
    using acknowledgement_exact [OF ok, of "\<lparr>ack_attempt_id = ''a1'', ack_worker_id = ''w1'', ack_observed_at = 2,
      ack_accepted = True, ack_kind = ''k'', ack_evidence_hash = ''h'', ack_detail = [], ack_text_signature = None\<rparr>"]
    by (simp add: a) (simp add: demo_attempt_def)
qed

section \<open>Where the write lock is missing\<close>

text \<open>
  The writers that move an attempt read its row first and write it back in a transaction of their own; only the latter is
  atomic in the code. The theorems of this theory are about calls that do not overlap on one attempt. A call that does, and
  writes back the row it had read before any calls of others, replaces whatever these did to the attempt, even a settled outcome.
\<close>

lemma stale_write_overwrites:
  assumes "tbl_find aa_attempt_id i (db_actions db) = Some a"
    and "index_free aa_attempt_id aa_task_id aa_unresolved (a\<lparr>aa_state := st\<rparr>) (db_actions (run_actions cs db))"
  shows "\<exists>db'. replace_action_attempt (run_actions cs db) (a\<lparr>aa_state := st\<rparr>) = Inr (db', a\<lparr>aa_state := st\<rparr>)
    \<and> tbl_find aa_attempt_id i (db_actions db') = Some (a\<lparr>aa_state := st\<rparr>)"
proof -
  have "aa_attempt_id a = i" using assms(1) by (auto dest: tbl_find_SomeD)
  moreover obtain b where "tbl_find aa_attempt_id i (db_actions (run_actions cs db)) = Some b"
    using actions.writes_star_advance [OF run_actions_step assms(1), of cs] by blast
  ultimately show ?thesis
    using assms(2) by (auto simp: replace_action_attempt_def journal_update_def tbl_find_update Let_def)
qed

end
