(* ===== verification/Probe_Ops.thy ===== *)
theory Probe_Ops
  imports Registry_Tasks Write_Ahead
begin

text \<open>
  Probe-window mutations: the decision function of \<^verbatim>\<open>probe_ops.py\<close> and the probe journal and probe slot
  of \<^verbatim>\<open>registry.py\<close>. An operation opens, rotates or closes the one durable probe window; authority for
  the external close and open is granted by durable state changes, each in one \<^verbatim>\<open>BEGIN IMMEDIATE\<close> transaction.
  Only \<^verbatim>\<open>fail_probe_mutation_operation\<close> reads the row outside its write transaction; it is modelled as one step.
  The clock is an argument.
\<close>

section \<open>Deciding from one observation\<close>

fun ps_value :: "probe_mutation_state \<Rightarrow> string" where
  "ps_value PS_ARMED = ''ARMED''"
| "ps_value PS_CLOSE_SUBMITTED = ''CLOSE_SUBMITTED''"
| "ps_value PS_READY_TO_OPEN = ''READY_TO_OPEN''"
| "ps_value PS_OPEN_SUBMITTED = ''OPEN_SUBMITTED''"
| "ps_value PS_RECONCILE_REQUIRED = ''RECONCILE_REQUIRED''"
| "ps_value PS_COMPLETED = ''COMPLETED''"
| "ps_value PS_FAILED = ''FAILED''"
| "ps_value PS_CANCELLED = ''CANCELLED''"

definition UNRESOLVED_PROBE_MUTATION_STATES :: "probe_mutation_state list" where
  "UNRESOLVED_PROBE_MUTATION_STATES =
     [PS_ARMED, PS_CLOSE_SUBMITTED, PS_READY_TO_OPEN, PS_OPEN_SUBMITTED, PS_RECONCILE_REQUIRED]"

definition ps_pending :: "probe_mutation_state \<Rightarrow> bool" where
  "ps_pending s = (s \<in> set UNRESOLVED_PROBE_MUTATION_STATES)"

definition po_unresolved :: "probe_mutation_operation \<Rightarrow> bool" where
  "po_unresolved op = ps_pending (po_state op)"

datatype probe_reconcile_outcome =
    PR_EXACT_TARGET_ABSENT | PR_EXACT_UNIQUE_OWNED_TARGET_PRESENT | PR_OLD_TARGET_STILL_PRESENT
  | PR_BOTH_OLD_AND_NEW_PRESENT | PR_MULTIPLE_MATCHES | PR_STALE_OR_CHANGED_IDENTITY
  | PR_UNKNOWN_OBSERVATION

fun pr_value :: "probe_reconcile_outcome \<Rightarrow> string" where
  "pr_value PR_EXACT_TARGET_ABSENT = ''EXACT_TARGET_ABSENT''"
| "pr_value PR_EXACT_UNIQUE_OWNED_TARGET_PRESENT = ''EXACT_UNIQUE_OWNED_TARGET_PRESENT''"
| "pr_value PR_OLD_TARGET_STILL_PRESENT = ''OLD_TARGET_STILL_PRESENT''"
| "pr_value PR_BOTH_OLD_AND_NEW_PRESENT = ''BOTH_OLD_AND_NEW_PRESENT''"
| "pr_value PR_MULTIPLE_MATCHES = ''MULTIPLE_MATCHES''"
| "pr_value PR_STALE_OR_CHANGED_IDENTITY = ''STALE_OR_CHANGED_IDENTITY''"
| "pr_value PR_UNKNOWN_OBSERVATION = ''UNKNOWN_OBSERVATION''"

record probe_window_match =
  pm_window_handle :: int
  pm_browser_pid :: int
  pm_chrome_executable :: string
  pm_actual_url :: string

record probe_mutation_observation =
  pv_observed_at :: timestamp
  pv_old_matches :: "probe_window_match list"
  pv_new_matches :: "probe_window_match list"
  pv_complete :: bool
  pv_error :: "string option"

record probe_reconcile_decision =
  pd_outcome :: probe_reconcile_outcome
  pd_next_state :: probe_mutation_state
  pd_reason :: string
  pd_may_close :: bool
  pd_may_open :: bool
  pd_adopt_binding :: "probe_window_slot_binding option"

definition effective_state :: "probe_mutation_operation \<Rightarrow> probe_mutation_state" where
  "effective_state op =
     (if po_state op \<noteq> PS_RECONCILE_REQUIRED then po_state op
      else case po_resume_state op of Some (Inr s) \<Rightarrow> s | _ \<Rightarrow> po_state op)"

definition match_is_exact_new :: "probe_mutation_operation \<Rightarrow> probe_window_match \<Rightarrow> bool" where
  "match_is_exact_new op m = (pm_window_handle m > 0 \<and> pm_browser_pid m > 0
     \<and> rstrip_slash (pm_actual_url m) = rstrip_slash (po_expected_actual_url op)
     \<and> casefold (pm_chrome_executable m) = casefold (po_expected_chrome_executable op))"

definition match_is_exact_old :: "probe_mutation_operation \<Rightarrow> probe_window_match \<Rightarrow> bool" where
  "match_is_exact_old op m = (case po_prior_slot op of
     None \<Rightarrow> False
   | Some p \<Rightarrow> pm_window_handle m = sl_window_handle p \<and> pm_browser_pid m = sl_browser_pid p
       \<and> rstrip_slash (pm_actual_url m) = rstrip_slash (sl_actual_url p)
       \<and> casefold (pm_chrome_executable m) = casefold (sl_chrome_executable p))"

definition binding_from_new_match ::
  "probe_mutation_operation \<Rightarrow> probe_window_match \<Rightarrow> timestamp \<Rightarrow> probe_window_slot_binding" where
  "binding_from_new_match op m observed_at =
     \<lparr>sl_slot_id = po_slot_id op, sl_owner_token = po_owner_token op,
      sl_target_worker_id = po_target_worker_id op,
      sl_target_conversation_url = po_target_conversation_url op,
      sl_actual_url = po_expected_actual_url op, sl_window_handle = pm_window_handle m,
      sl_browser_pid = pm_browser_pid m, sl_chrome_executable = po_expected_chrome_executable op,
      sl_source = po_source op, sl_bound_at = observed_at, sl_observed_at = observed_at,
      sl_expires_at = observed_at + max 1 (po_slot_ttl_s op)\<rparr>"

definition stay ::
  "probe_reconcile_outcome \<Rightarrow> probe_mutation_state \<Rightarrow> string \<Rightarrow> probe_reconcile_decision" where
  "stay out st why = \<lparr>pd_outcome = out, pd_next_state = st, pd_reason = why, pd_may_close = False,
     pd_may_open = False, pd_adopt_binding = None\<rparr>"

definition decide_open ::
  "probe_mutation_operation \<Rightarrow> probe_mutation_observation \<Rightarrow> probe_reconcile_decision" where
  "decide_open op v =
     (if pv_old_matches v \<noteq> [] then stay PR_STALE_OR_CHANGED_IDENTITY PS_RECONCILE_REQUIRED
        ''OPEN operation unexpectedly observed a prior target''
      else case pv_new_matches v of
        m # _ \<Rightarrow>
          if effective_state op \<noteq> PS_OPEN_SUBMITTED
          then stay PR_STALE_OR_CHANGED_IDENTITY PS_RECONCILE_REQUIRED
            ''expected target appeared before durable OPEN authority was issued''
          else (stay PR_EXACT_UNIQUE_OWNED_TARGET_PRESENT PS_COMPLETED
            ''exactly one expected LWS-owned probe target is present; adopt it'')
              \<lparr>pd_adopt_binding := Some (binding_from_new_match op m (pv_observed_at v))\<rparr>
      | [] \<Rightarrow>
          if effective_state op = PS_ARMED
          then (stay PR_EXACT_TARGET_ABSENT PS_ARMED
            ''no target exists and no OPEN authority has been issued'')\<lparr>pd_may_open := True\<rparr>
          else stay PR_EXACT_TARGET_ABSENT PS_RECONCILE_REQUIRED
            ''target is absent after OPEN authority was issued; do not replay blindly'')"

definition decide_close ::
  "probe_mutation_operation \<Rightarrow> probe_mutation_observation \<Rightarrow> probe_reconcile_decision" where
  "decide_close op v =
     (if pv_new_matches v \<noteq> [] then stay PR_STALE_OR_CHANGED_IDENTITY PS_RECONCILE_REQUIRED
        ''CLOSE operation unexpectedly observed a replacement target''
      else if pv_old_matches v = [] then stay PR_EXACT_TARGET_ABSENT PS_COMPLETED
        ''the exact old LWS-owned probe target is absent; close is reconciled''
      else if effective_state op = PS_ARMED
      then (stay PR_OLD_TARGET_STILL_PRESENT PS_ARMED
        ''the exact old target remains and no CLOSE authority has been issued'')\<lparr>pd_may_close := True\<rparr>
      else stay PR_OLD_TARGET_STILL_PRESENT PS_RECONCILE_REQUIRED
        ''old target remains after CLOSE authority was issued; do not replay blindly'')"

definition decide_rotate ::
  "probe_mutation_operation \<Rightarrow> probe_mutation_observation \<Rightarrow> probe_reconcile_decision" where
  "decide_rotate op v =
     (case (pv_old_matches v, pv_new_matches v) of
        ([], m # _) \<Rightarrow>
          if effective_state op \<noteq> PS_OPEN_SUBMITTED
          then stay PR_STALE_OR_CHANGED_IDENTITY PS_RECONCILE_REQUIRED
            ''replacement appeared before durable OPEN authority was issued''
          else (stay PR_EXACT_UNIQUE_OWNED_TARGET_PRESENT PS_COMPLETED
            ''replacement is the unique expected owned target and the old target is absent; adopt it'')
              \<lparr>pd_adopt_binding := Some (binding_from_new_match op m (pv_observed_at v))\<rparr>
      | (_ # _, _) \<Rightarrow>
          if effective_state op = PS_ARMED
          then (stay PR_OLD_TARGET_STILL_PRESENT PS_ARMED
            ''old target remains and no CLOSE authority has been issued'')\<lparr>pd_may_close := True\<rparr>
          else stay PR_OLD_TARGET_STILL_PRESENT PS_RECONCILE_REQUIRED
            ''old target remains after CLOSE/OPEN progress; do not replay blindly''
      | ([], []) \<Rightarrow>
          if effective_state op \<in> {PS_ARMED, PS_CLOSE_SUBMITTED, PS_READY_TO_OPEN}
          then (stay PR_EXACT_TARGET_ABSENT PS_READY_TO_OPEN
            ''old target is absent and replacement has not appeared; replacement may be opened once'')
              \<lparr>pd_may_open := True\<rparr>
          else stay PR_EXACT_TARGET_ABSENT PS_RECONCILE_REQUIRED
            ''both targets are absent after OPEN authority was issued; do not replay blindly'')"

definition decide_probe_reconciliation ::
  "probe_mutation_operation \<Rightarrow> probe_mutation_observation \<Rightarrow> timestamp \<Rightarrow> probe_reconcile_decision" where
  "decide_probe_reconciliation op v now =
     (if pv_observed_at v > now then stay PR_UNKNOWN_OBSERVATION PS_RECONCILE_REQUIRED
        ''probe observation timestamp is in the future''
      else if \<not> pv_complete v \<or> pv_error v \<notin> {None, Some []}
      then stay PR_UNKNOWN_OBSERVATION PS_RECONCILE_REQUIRED ''probe observation was incomplete or failed''
      else if length (pv_old_matches v) > 1 \<or> length (pv_new_matches v) > 1
      then stay PR_MULTIPLE_MATCHES PS_RECONCILE_REQUIRED ''more than one window matched an ownership tag''
      else if pv_old_matches v \<noteq> [] \<and> \<not> match_is_exact_old op (hd (pv_old_matches v))
      then stay PR_STALE_OR_CHANGED_IDENTITY PS_RECONCILE_REQUIRED
        ''old ownership tag no longer matches its durable HWND/PID/executable identity''
      else if pv_new_matches v \<noteq> [] \<and> \<not> match_is_exact_new op (hd (pv_new_matches v))
      then stay PR_STALE_OR_CHANGED_IDENTITY PS_RECONCILE_REQUIRED
        ''new ownership tag no longer matches the expected executable/target identity''
      else if pv_old_matches v \<noteq> [] \<and> pv_new_matches v \<noteq> []
      then stay PR_BOTH_OLD_AND_NEW_PRESENT PS_RECONCILE_REQUIRED
        ''both old and replacement probe targets are present''
      else case po_kind op of
        PK_OPEN \<Rightarrow> decide_open op v | PK_CLOSE \<Rightarrow> decide_close op v | PK_ROTATE \<Rightarrow> decide_rotate op v)"

section \<open>The probe journal\<close>

definition get_probe_mutation_operation :: "registry \<Rightarrow> string \<Rightarrow> probe_mutation_operation result" where
  "get_probe_mutation_operation db i = (case tbl_find po_operation_id i (db_probe_ops db) of
     None \<Rightarrow> Inl (KeyError (''unknown probe mutation operation: '' @ i)) | Some op \<Rightarrow> Inr op)"

definition unresolved_probe_mutation_operation :: "registry \<Rightarrow> probe_mutation_operation option" where
  "unresolved_probe_mutation_operation db =
     (case sort_key (\<lambda>op. - po_created_at op) (filter po_unresolved (db_probe_ops db)) of
        [] \<Rightarrow> None | op # _ \<Rightarrow> tbl_find po_operation_id (po_operation_id op) (db_probe_ops db))"

definition get_probe_window_slot :: "registry \<Rightarrow> string \<Rightarrow> probe_window_slot_binding option" where
  "get_probe_window_slot db i = tbl_find sl_slot_id i (db_slots db)"

text \<open>The one durable slot: \<^verbatim>\<open>SELECT slot_id ... ORDER BY slot_id\<close>, refused when there are several.\<close>

definition sole_slot :: "registry \<Rightarrow> probe_window_slot_binding option result" where
  "sole_slot db = (case sort_key sl_slot_id (db_slots db) of
     [] \<Rightarrow> Inr None
   | [s] \<Rightarrow> Inr (get_probe_window_slot db (sl_slot_id s))
   | _ \<Rightarrow> Inl (RuntimeError ''multiple durable probe slots require reconciliation''))"

definition insert_probe_operation :: "probe_mutation_operation \<Rightarrow> registry \<Rightarrow> registry result" where
  "insert_probe_operation op db =
     rbind (guard (\<not> list_ex (\<lambda>x. po_nonce x = po_nonce op) (db_probe_ops db)) unique_key) (\<lambda>_.
     rbind (journal_insert po_operation_id (\<lambda>_. ()) po_unresolved op (db_probe_ops db)) (\<lambda>rs.
     if find_task db (po_target_task_id op) = None \<or> find_worker db (po_target_worker_id op) = None
     then Inl foreign_key
     else Inr (db\<lparr>db_probe_ops := rs\<rparr>)))"

definition save_probe_mutation_operation :: "registry \<Rightarrow> probe_mutation_operation \<Rightarrow> registry result" where
  "save_probe_mutation_operation db op =
     rbind (journal_update po_operation_id (\<lambda>_. ()) po_unresolved op (db_probe_ops db)) (\<lambda>rs.
     if tbl_find po_operation_id (po_operation_id op) (db_probe_ops db) = None
     then Inl (KeyError (''unknown probe mutation operation: '' @ po_operation_id op))
     else Inr (db\<lparr>db_probe_ops := rs\<rparr>))"

definition arm_slot_check :: "registry \<Rightarrow> probe_mutation_operation \<Rightarrow> unit result" where
  "arm_slot_check db op =
     rbind (sole_slot db) (\<lambda>current.
     if po_kind op = PK_OPEN
     then guard (po_prior_slot op = None \<and> current = None)
       (RuntimeError ''OPEN mutation requires no existing durable probe slot'')
     else rbind (guard (po_prior_slot op \<noteq> None)
         (ValueError ''ROTATE/CLOSE mutation requires a prior slot snapshot'')) (\<lambda>_.
       guard (current = po_prior_slot op)
         (RuntimeError ''durable probe slot changed before mutation could be armed'')))"

definition arm_target_check :: "registry \<Rightarrow> probe_mutation_operation \<Rightarrow> unit result" where
  "arm_target_check db op =
     (if find_task db (po_target_task_id op) = None
      then Inl (KeyError (''unknown task: '' @ po_target_task_id op))
      else case find_worker db (po_target_worker_id op) of
        None \<Rightarrow> Inl (KeyError (''unknown worker: '' @ po_target_worker_id op))
      | Some w \<Rightarrow>
          rbind (guard (wr_task_id w = po_target_task_id op)
            (ValueError ''probe mutation worker belongs to a different task'')) (\<lambda>_.
          rbind (guard (wr_status w = ws_value WS_PARKED)
            (ValueError ''probe mutation requires a parked target worker'')) (\<lambda>_.
          guard (rstrip_slash (wr_conversation_url w) = rstrip_slash (po_target_conversation_url op))
            (ValueError ''probe mutation target URL no longer matches the worker''))))"

definition arm_field_check :: "probe_mutation_operation \<Rightarrow> unit result" where
  "arm_field_check op =
     rbind (guard (po_state op = PS_ARMED)
       (ValueError ''probe mutation must be ARMED before durable recording'')) (\<lambda>_.
     rbind (guard (strip (po_operation_id op) \<noteq> [] \<and> strip (po_nonce op) \<noteq> [])
       (ValueError ''probe mutation requires operation id and nonce'')) (\<lambda>_.
     rbind (guard (strip (po_slot_id op) \<noteq> [] \<and> strip (po_owner_token op) \<noteq> [])
       (ValueError ''probe mutation requires slot id and owner token'')) (\<lambda>_.
     rbind (guard (strip (po_expected_chrome_executable op) \<noteq> [])
       (ValueError ''probe mutation requires an expected Chrome executable'')) (\<lambda>_.
     guard (po_kind op = PK_CLOSE \<or> strip (po_expected_actual_url op) \<noteq> [])
       (ValueError ''OPEN/ROTATE mutation requires an expected tagged target'')))))"

definition arm_probe_mutation_operation ::
  "registry \<Rightarrow> probe_mutation_operation \<Rightarrow> registry \<times> probe_mutation_operation result" where
  "arm_probe_mutation_operation db op =
     transaction db
       (rbind (arm_field_check op) (\<lambda>_.
        rbind (arm_target_check db op) (\<lambda>_.
        rbind (case filter po_unresolved (db_probe_ops db) of
            [] \<Rightarrow> Inr ()
          | u # _ \<Rightarrow> Inl (RuntimeError (''unresolved probe mutation already exists: '' @ po_operation_id u)))
          (\<lambda>_.
        rbind (arm_slot_check db op) (\<lambda>_.
        rbind (insert_probe_operation op db) (\<lambda>db'.
        rbind (get_probe_mutation_operation db' (po_operation_id op)) (\<lambda>x. Inr (db', x))))))))"

definition save_and_get ::
  "registry \<Rightarrow> probe_mutation_operation \<Rightarrow> (registry \<times> probe_mutation_operation) result" where
  "save_and_get db op = rbind (save_probe_mutation_operation db op) (\<lambda>db'.
     rbind (get_probe_mutation_operation db' (po_operation_id op)) (\<lambda>x. Inr (db', x)))"

definition authorize_probe_close ::
  "registry \<Rightarrow> string \<Rightarrow> timestamp \<Rightarrow> registry \<times> probe_mutation_operation result" where
  "authorize_probe_close db i now =
     transaction db
       (rbind (get_probe_mutation_operation db i) (\<lambda>op.
        rbind (guard (po_kind op \<in> {PK_ROTATE, PK_CLOSE})
          (RuntimeError ''probe operation does not contain a CLOSE phase'')) (\<lambda>_.
        rbind (guard (po_state op = PS_ARMED)
          (RuntimeError (''probe operation '' @ i @ '' is not ARMED''))) (\<lambda>_.
        save_and_get db (op\<lparr>po_state := PS_CLOSE_SUBMITTED, po_updated_at := now\<rparr>)))))"

definition authorize_probe_open ::
  "registry \<Rightarrow> string \<Rightarrow> timestamp \<Rightarrow> registry \<times> probe_mutation_operation result" where
  "authorize_probe_open db i now =
     transaction db
       (rbind (get_probe_mutation_operation db i) (\<lambda>op.
        rbind (guard ((po_kind op = PK_OPEN \<and> po_state op = PS_ARMED)
            \<or> (po_kind op = PK_ROTATE \<and> po_state op = PS_READY_TO_OPEN))
          (RuntimeError (''probe operation '' @ i @ '' is not ready for OPEN''))) (\<lambda>_.
        save_and_get db (op\<lparr>po_state := PS_OPEN_SUBMITTED, po_resume_state := None, po_updated_at := now\<rparr>))))"

definition validate_probe_completion_binding ::
  "probe_mutation_operation \<Rightarrow> probe_window_slot_binding \<Rightarrow> unit result" where
  "validate_probe_completion_binding op b =
     rbind (guard (sl_slot_id b = po_slot_id op)
       (ValueError ''completion binding uses the wrong probe slot'')) (\<lambda>_.
     rbind (guard (sl_owner_token b = po_owner_token op)
       (ValueError ''completion binding uses the wrong ownership token'')) (\<lambda>_.
     rbind (guard (sl_target_worker_id b = po_target_worker_id op)
       (ValueError ''completion binding uses the wrong target worker'')) (\<lambda>_.
     rbind (guard (rstrip_slash (sl_target_conversation_url b) = rstrip_slash (po_target_conversation_url op))
       (ValueError ''completion binding uses the wrong target conversation'')) (\<lambda>_.
     rbind (guard (rstrip_slash (sl_actual_url b) = rstrip_slash (po_expected_actual_url op))
       (ValueError ''completion binding does not match the expected tagged target'')) (\<lambda>_.
     rbind (guard (casefold (sl_chrome_executable b) = casefold (po_expected_chrome_executable op))
       (ValueError ''completion binding executable identity changed'')) (\<lambda>_.
     guard (\<not> (sl_window_handle b \<le> 0 \<or> sl_browser_pid b \<le> 0))
       (ValueError ''completion binding requires positive HWND and browser PID'')))))))"

text \<open>\<open>_complete_probe_mutation_locked\<close>: the slot change and COMPLETED in one transaction.\<close>

definition complete_probe_mutation_locked ::
  "registry \<Rightarrow> probe_mutation_operation \<Rightarrow> probe_window_slot_binding option \<Rightarrow> timestamp
     \<Rightarrow> string option \<Rightarrow> bool \<Rightarrow> registry result" where
  "complete_probe_mutation_locked db op binding ts outcome reconciled =
     rbind (if po_kind op \<in> {PK_OPEN, PK_ROTATE} then
              (case binding of
                 None \<Rightarrow> Inl (ValueError ''OPEN/ROTATE completion requires an exact observed binding'')
               | Some b \<Rightarrow> validate_probe_completion_binding op b)
            else guard (binding = None)
              (ValueError ''CLOSE completion must not provide a replacement binding'')) (\<lambda>_.
     rbind (sole_slot db) (\<lambda>current.
     rbind (if po_kind op = PK_OPEN
            then guard (current = None) (RuntimeError ''durable probe slot appeared while OPEN was unresolved'')
            else guard (current = po_prior_slot op)
              (RuntimeError ''durable probe slot changed while mutation was unresolved'')) (\<lambda>_.
     let db1 = (if po_kind op = PK_CLOSE then db\<lparr>db_slots := tbl_delete sl_slot_id (po_slot_id op) (db_slots db)\<rparr>
                else case binding of None \<Rightarrow> db
                  | Some b \<Rightarrow> db\<lparr>db_slots := tbl_upsert sl_slot_id b (db_slots db)\<rparr>)
     in save_probe_mutation_operation db1
       (op\<lparr>po_state := PS_COMPLETED, po_resume_state := None, po_updated_at := ts,
          po_last_outcome := (case outcome of None \<Rightarrow> po_last_outcome op | Some s \<Rightarrow> Some (take 200 s)),
          po_reconcile_attempts := po_reconcile_attempts op + (if reconciled then 1 else 0),
          po_last_reconcile_at := (if reconciled then Some ts else po_last_reconcile_at op),
          po_last_error := None\<rparr>))))"

definition complete_probe_mutation_operation ::
  "registry \<Rightarrow> string \<Rightarrow> probe_window_slot_binding option \<Rightarrow> timestamp \<Rightarrow> string option
     \<Rightarrow> registry \<times> probe_mutation_operation result" where
  "complete_probe_mutation_operation db i binding ts outcome =
     transaction db
       (rbind (get_probe_mutation_operation db i) (\<lambda>op.
        if po_state op = PS_COMPLETED then Inr (db, op)
        else
          rbind (guard (po_unresolved op)
            (RuntimeError (''probe operation '' @ i @ '' is already terminal''))) (\<lambda>_.
          rbind (if po_kind op \<in> {PK_OPEN, PK_ROTATE}
                 then guard (po_state op = PS_OPEN_SUBMITTED)
                   (RuntimeError ''replacement binding may complete only after durable OPEN authority'')
                 else guard (po_state op = PS_CLOSE_SUBMITTED)
                   (RuntimeError ''CLOSE may complete only after durable CLOSE authority'')) (\<lambda>_.
          rbind (complete_probe_mutation_locked db op binding ts outcome False) (\<lambda>db'.
          rbind (get_probe_mutation_operation db' i) (\<lambda>x. Inr (db', x)))))))"

definition fail_probe_mutation_operation ::
  "registry \<Rightarrow> string \<Rightarrow> string \<Rightarrow> timestamp \<Rightarrow> registry \<times> probe_mutation_operation result" where
  "fail_probe_mutation_operation db i reason now =
     transaction db
       (rbind (get_probe_mutation_operation db i) (\<lambda>op.
        rbind (guard (po_state op = PS_ARMED)
          (RuntimeError ''probe mutation may fail terminally only before mutation authority'')) (\<lambda>_.
        save_and_get db (op\<lparr>po_state := PS_FAILED, po_last_error := Some (take 1000 reason),
          po_updated_at := now\<rparr>))))"

definition observed_operation ::
  "probe_mutation_operation \<Rightarrow> probe_mutation_observation \<Rightarrow> probe_reconcile_decision
     \<Rightarrow> probe_mutation_operation" where
  "observed_operation op v d =
     (let required = (pd_next_state d = PS_RECONCILE_REQUIRED) in
      op\<lparr>po_state := pd_next_state d,
        po_resume_state := (if \<not> required then None
          else if po_state op \<noteq> PS_RECONCILE_REQUIRED then Some (Inr (po_state op)) else po_resume_state op),
        po_last_error := (if required then Some (take 1000 (pd_reason d)) else None),
        po_updated_at := max (po_updated_at op) (pv_observed_at v),
        po_reconcile_attempts := po_reconcile_attempts op + 1,
        po_last_reconcile_at := Some (pv_observed_at v),
        po_last_outcome := Some (pr_value (pd_outcome d))\<rparr>)"

definition reconcile_probe_mutation_operation ::
  "registry \<Rightarrow> string \<Rightarrow> probe_mutation_observation \<Rightarrow> timestamp
     \<Rightarrow> registry \<times> probe_mutation_operation result" where
  "reconcile_probe_mutation_operation db i v now =
     transaction db
       (rbind (get_probe_mutation_operation db i) (\<lambda>op.
        if \<not> po_unresolved op then Inr (db, op)
        else
          let d = decide_probe_reconciliation op v now in
          rbind (if pd_next_state d = PS_COMPLETED
                 then complete_probe_mutation_locked db op (pd_adopt_binding d)
                   (max (po_updated_at op) (pv_observed_at v)) (Some (pr_value (pd_outcome d))) True
                 else save_probe_mutation_operation db (observed_operation op v d)) (\<lambda>db'.
          rbind (get_probe_mutation_operation db' i) (\<lambda>x. Inr (db', x)))))"

section \<open>The probe slot outside an operation\<close>

definition slot_fence :: "registry \<Rightarrow> unit result" where
  "slot_fence db = (case unresolved_probe_mutation_operation db of
     None \<Rightarrow> Inr ()
   | Some op \<Rightarrow> Inl (RuntimeError (''probe slot is fenced by unresolved mutation '' @ po_operation_id op)))"

definition bind_probe_window_slot ::
  "registry \<Rightarrow> probe_window_slot_binding \<Rightarrow> timestamp \<Rightarrow> real \<Rightarrow> registry \<times> probe_window_slot_binding result" where
  "bind_probe_window_slot db b observed_at ttl_s =
     transaction db
       (rbind (slot_fence db) (\<lambda>_.
        rbind (get_worker db (sl_target_worker_id b)) (\<lambda>w.
        rbind (guard (wk_status w = WS_PARKED) (ValueError ''probe slot binding requires a parked worker'')) (\<lambda>_.
        rbind (case filter (\<lambda>s. sl_slot_id s \<noteq> sl_slot_id b) (db_slots db) of
            [] \<Rightarrow> Inr ()
          | s # _ \<Rightarrow> Inl (ValueError (''LWS supports only one durable probe slot; existing slot is '' @ sl_slot_id s)))
          (\<lambda>_.
        rbind (guard (strip (sl_slot_id b) \<noteq> [] \<and> strip (sl_owner_token b) \<noteq> [])
          (ValueError ''probe slot requires non-empty slot id and owner token'')) (\<lambda>_.
        rbind (guard (\<not> (sl_window_handle b \<le> 0 \<or> sl_browser_pid b \<le> 0))
          (ValueError ''probe slot requires positive HWND and browser PID'')) (\<lambda>_.
        rbind (guard (strip (sl_chrome_executable b) \<noteq> [])
          (ValueError ''probe slot requires a Chrome executable path'')) (\<lambda>_.
        rbind (guard (rstrip_slash (wk_conversation_url w) = rstrip_slash (sl_target_conversation_url b))
          (ValueError ''probe slot target URL must match the registered worker URL'')) (\<lambda>_.
        let existing = get_probe_window_slot db (sl_slot_id b);
            slot = b\<lparr>sl_bound_at := (case existing of None \<Rightarrow> observed_at | Some s \<Rightarrow> sl_bound_at s),
              sl_observed_at := observed_at, sl_expires_at := observed_at + max 1 ttl_s\<rparr>
        in Inr (db\<lparr>db_slots := tbl_upsert sl_slot_id slot (db_slots db)\<rparr>, slot))))))))))"

definition clear_probe_window_slot :: "registry \<Rightarrow> string \<Rightarrow> registry \<times> bool result" where
  "clear_probe_window_slot db i =
     transaction db
       (rbind (slot_fence db) (\<lambda>_.
        Inr (db\<lparr>db_slots := tbl_delete sl_slot_id i (db_slots db)\<rparr>, get_probe_window_slot db i \<noteq> None)))"

section \<open>Every call on the probe journal\<close>

datatype probe_call =
    ArmProbe probe_mutation_operation
  | AuthorizeClose string timestamp
  | AuthorizeOpen string timestamp
  | CompleteProbe string "probe_window_slot_binding option" timestamp "string option"
  | FailProbe string string timestamp
  | ReconcileProbe string probe_mutation_observation timestamp
  | BindSlot probe_window_slot_binding timestamp real
  | ClearSlot string

fun run_probe :: "probe_call \<Rightarrow> registry \<Rightarrow> registry" where
  "run_probe (ArmProbe op) db = fst (arm_probe_mutation_operation db op)"
| "run_probe (AuthorizeClose i now) db = fst (authorize_probe_close db i now)"
| "run_probe (AuthorizeOpen i now) db = fst (authorize_probe_open db i now)"
| "run_probe (CompleteProbe i b ts out) db = fst (complete_probe_mutation_operation db i b ts out)"
| "run_probe (FailProbe i r now) db = fst (fail_probe_mutation_operation db i r now)"
| "run_probe (ReconcileProbe i v now) db = fst (reconcile_probe_mutation_operation db i v now)"
| "run_probe (BindSlot b t ttl) db = fst (bind_probe_window_slot db b t ttl)"
| "run_probe (ClearSlot i) db = fst (clear_probe_window_slot db i)"

definition run_probes :: "probe_call list \<Rightarrow> registry \<Rightarrow> registry" where
  "run_probes cs db = fold run_probe cs db"

end
