(* ===== verification/Probe_Safety.thy ===== *)
theory Probe_Safety
  imports Probe_Ops
begin

text \<open>
  What the probe journal guarantees. The journal is a write-ahead log with one scope for the whole
  registry; along it the effective state of an operation only moves forward, so close and open
  authority are each granted at most once per operation.
\<close>

section \<open>Progress of an operation\<close>

type_synonym probe_status = "probe_mutation_state \<times> (string + probe_mutation_state) option"

definition probe_status :: "probe_mutation_operation \<Rightarrow> probe_status" where
  "probe_status op = (po_state op, po_resume_state op)"

fun probe_rank :: "probe_mutation_state \<Rightarrow> nat" where
  "probe_rank PS_ARMED = 0"
| "probe_rank PS_CLOSE_SUBMITTED = 1"
| "probe_rank PS_READY_TO_OPEN = 2"
| "probe_rank PS_OPEN_SUBMITTED = 3"
| "probe_rank PS_RECONCILE_REQUIRED = 3"
| "probe_rank s = 4"

fun status_effective :: "probe_status \<Rightarrow> probe_mutation_state" where
  "status_effective (PS_RECONCILE_REQUIRED, Some (Inr s)) = s"
| "status_effective (s, r) = s"

lemma effective_state_status: "effective_state op = status_effective (probe_status op)"
  by (cases "po_state op") (auto simp: effective_state_def probe_status_def split: option.splits sum.splits)

definition probe_advances :: "probe_status \<Rightarrow> probe_status \<Rightarrow> bool" where
  "probe_advances x y = (if ps_pending (fst x) then probe_rank (status_effective x) \<le> probe_rank (status_effective y)
     else y = x)"

lemma probe_advancesI:
  "po_unresolved op \<Longrightarrow> probe_rank (effective_state op) \<le> probe_rank (effective_state u)
   \<Longrightarrow> probe_advances (probe_status op) (probe_status u)"
  by (simp add: probe_advances_def effective_state_status po_unresolved_def) (simp add: probe_status_def)

lemma ps_pending_iff:
  "ps_pending s \<longleftrightarrow> s \<in> {PS_ARMED, PS_CLOSE_SUBMITTED, PS_READY_TO_OPEN, PS_OPEN_SUBMITTED, PS_RECONCILE_REQUIRED}"
  by (simp add: ps_pending_def UNRESOLVED_PROBE_MUTATION_STATES_def)

lemma probe_rank_le [simp]: "probe_rank s \<le> 4"
  by (cases s) simp_all

lemma terminal_rank: "\<not> ps_pending s \<Longrightarrow> probe_rank s = 4"
  by (cases s) (simp_all add: ps_pending_iff)

text \<open>Where one observation may move an operation.\<close>

lemma stay_simps [simp]:
  "pd_next_state (stay out st why) = st" "pd_outcome (stay out st why) = out" "pd_may_close (stay out st why) = False"
  "pd_may_open (stay out st why) = False" "pd_adopt_binding (stay out st why) = None"
  by (simp_all add: stay_def)

definition moves :: "probe_mutation_operation \<Rightarrow> probe_mutation_state \<Rightarrow> bool" where
  "moves op st \<longleftrightarrow> st \<in> {PS_RECONCILE_REQUIRED, PS_COMPLETED} \<or> st = PS_ARMED \<and> effective_state op = PS_ARMED
    \<or> st = PS_READY_TO_OPEN \<and> effective_state op \<in> {PS_ARMED, PS_CLOSE_SUBMITTED, PS_READY_TO_OPEN}"

lemma decide_kinds_move:
  "moves op (pd_next_state (decide_open op v))" "moves op (pd_next_state (decide_close op v))"
  "moves op (pd_next_state (decide_rotate op v))"
  by (simp add: decide_open_def moves_def split: list.split)
    (simp add: decide_close_def moves_def,
     simp add: decide_rotate_def moves_def split: list.split)

lemma decide_next: "moves op (pd_next_state (decide_probe_reconciliation op v now))"
  by (simp add: decide_probe_reconciliation_def decide_kinds_move split: probe_mutation_kind.split)
    (simp add: moves_def)

lemma observed_advances:
  assumes "po_unresolved op" and "pd_next_state (decide_probe_reconciliation op v now) \<noteq> PS_COMPLETED"
  shows "probe_advances (probe_status op) (probe_status (observed_operation op v (decide_probe_reconciliation op v now)))"
  using assms decide_next [of op v now]
  by (intro probe_advancesI)
    (auto simp: moves_def observed_operation_def effective_state_def Let_def split: if_splits option.splits sum.splits)

lemma unresolved_ranks:
  "po_unresolved op \<longleftrightarrow> po_state op \<in> {PS_ARMED, PS_CLOSE_SUBMITTED, PS_READY_TO_OPEN, PS_OPEN_SUBMITTED, PS_RECONCILE_REQUIRED}"
  by (simp add: po_unresolved_def ps_pending_iff)

section \<open>The journal is a write-ahead log\<close>

abbreviation probe_append :: "registry \<Rightarrow> registry \<Rightarrow> bool" where
  "probe_append db db' \<equiv> wal_append po_operation_id (\<lambda>_. ()) po_unresolved (db_probe_ops db) (db_probe_ops db')"

abbreviation probe_rewrite :: "registry \<Rightarrow> registry \<Rightarrow> bool" where
  "probe_rewrite db db' \<equiv>
     wal_rewrite po_operation_id (\<lambda>_. ()) probe_status probe_advances (db_probe_ops db) (db_probe_ops db')"

lemma get_probe_Inr [simp]:
  "get_probe_mutation_operation db i = Inr op \<longleftrightarrow> tbl_find po_operation_id i (db_probe_ops db) = Some op"
  by (auto simp: get_probe_mutation_operation_def split: option.splits)

lemma insert_probe_append: "insert_probe_operation op db = Inr db' \<Longrightarrow> probe_append db db'"
  by (auto simp: insert_probe_operation_def journal_insert_append split: if_splits)

lemma save_probe_Inr:
  assumes "save_probe_mutation_operation db u = Inr db'"
  shows "journal_update po_operation_id (\<lambda>_. ()) po_unresolved u (db_probe_ops db) = Inr (db_probe_ops db')"
    and "db' = db\<lparr>db_probe_ops := tbl_update po_operation_id (po_operation_id u) (\<lambda>_. u) (db_probe_ops db)\<rparr>"
  using assms by (auto simp: save_probe_mutation_operation_def journal_update_def split: if_splits)

lemma save_probe_rewrite:
  assumes "save_probe_mutation_operation db u = Inr db'"
    and "tbl_find po_operation_id i (db_probe_ops db) = Some op" and "po_operation_id u = i"
    and "probe_advances (probe_status op) (probe_status u)"
  shows "probe_rewrite db db'"
  using journal_update_rewrite [OF save_probe_Inr(1) [OF assms(1)], of op] assms(2-4) by simp

lemma po_id_found: "tbl_find po_operation_id i rs = Some op \<Longrightarrow> po_operation_id op = i"
  by (auto dest: tbl_find_SomeD)

lemma save_and_get_rewrite:
  assumes "save_and_get db u = Inr (db', x)" and "tbl_find po_operation_id i (db_probe_ops db) = Some op"
    and "po_operation_id u = i" and "probe_advances (probe_status op) (probe_status u)"
  shows "probe_rewrite db db'"
  using assms by (auto simp: save_and_get_def intro: save_probe_rewrite)

text \<open>A completion: the slot table changes and the operation is rewritten as COMPLETED.\<close>

lemma completed_Inr:
  assumes "complete_probe_mutation_locked db op binding ts outcome reconciled = Inr db'"
  obtains slots u where "save_probe_mutation_operation (db\<lparr>db_slots := slots\<rparr>) u = Inr db'"
    "po_operation_id u = po_operation_id op" "po_state u = PS_COMPLETED"
    "slots = (if po_kind op = PK_CLOSE then tbl_delete sl_slot_id (po_slot_id op) (db_slots db)
       else tbl_upsert sl_slot_id (the binding) (db_slots db))"
    "po_kind op \<noteq> PK_CLOSE \<longrightarrow> sl_slot_id (the binding) = po_slot_id op"
    "sole_slot db = Inr (if po_kind op = PK_OPEN then None else po_prior_slot op)"
    "po_kind u = po_kind op" "po_slot_id u = po_slot_id op" "po_prior_slot u = po_prior_slot op"
  using assms
  by (cases "po_kind op")
    (auto simp: complete_probe_mutation_locked_def Let_def validate_probe_completion_binding_def
      intro!: that split: option.splits)

lemma completed_rewrite:
  assumes "complete_probe_mutation_locked db op binding ts outcome reconciled = Inr db'"
    and op: "tbl_find po_operation_id i (db_probe_ops db) = Some op" and "po_unresolved op"
  shows "probe_rewrite db db'"
proof (rule completed_Inr [OF assms(1)])
  fix slots u assume u: "save_probe_mutation_operation (db\<lparr>db_slots := slots\<rparr>) u = Inr db'"
    "po_operation_id u = po_operation_id op" "po_state u = PS_COMPLETED"
  have "probe_advances (probe_status op) (probe_status u)"
    using assms(3) u(3) by (intro probe_advancesI) (simp_all add: effective_state_def)
  with save_probe_rewrite [OF u(1), of i op] op u(2) po_id_found [OF op] show ?thesis by simp
qed

lemma run_probe_rows:
  "db_probe_ops (run_probe c db) = db_probe_ops db \<or> probe_append db (run_probe c db)
    \<or> probe_rewrite db (run_probe c db)" (is "?P (run_probe c db)")
proof -
  have arm: "?P (fst (arm_probe_mutation_operation db op))" for op
    unfolding arm_probe_mutation_operation_def
    by (rule transaction_rule) (auto dest: insert_probe_append)
  have close: "?P (fst (authorize_probe_close db i now))" for i now
    unfolding authorize_probe_close_def
    by (rule transaction_rule, blast, rule disjI2, rule disjI2, clarsimp, erule save_and_get_rewrite, assumption,
        simp add: po_id_found, rule probe_advancesI) (auto simp: unresolved_ranks effective_state_def)
  have opened: "?P (fst (authorize_probe_open db i now))" for i now
    unfolding authorize_probe_open_def
    by (rule transaction_rule, blast, rule disjI2, rule disjI2, clarsimp, erule save_and_get_rewrite, assumption,
        simp add: po_id_found, rule probe_advancesI) (auto simp: unresolved_ranks effective_state_def)
  have failed: "?P (fst (fail_probe_mutation_operation db i r now))" for i r now
    unfolding fail_probe_mutation_operation_def
    by (rule transaction_rule, blast, rule disjI2, rule disjI2, clarsimp, erule save_and_get_rewrite, assumption,
        simp add: po_id_found, rule probe_advancesI) (auto simp: unresolved_ranks effective_state_def)
  have completed: "?P (fst (complete_probe_mutation_operation db i b ts out))" for i b ts out
    unfolding complete_probe_mutation_operation_def
    by (rule transaction_rule) (auto dest: completed_rewrite split: if_splits)
  have reconciled: "?P (fst (reconcile_probe_mutation_operation db i v now))" for i v now
    unfolding reconcile_probe_mutation_operation_def
  proof (rule transaction_rule)
    fix db' x assume "rbind (get_probe_mutation_operation db i) (\<lambda>op. if \<not> po_unresolved op then Inr (db, op)
        else let d = decide_probe_reconciliation op v now in
          rbind (if pd_next_state d = PS_COMPLETED
                 then complete_probe_mutation_locked db op (pd_adopt_binding d)
                   (max (po_updated_at op) (pv_observed_at v)) (Some (pr_value (pd_outcome d))) True
                 else save_probe_mutation_operation db (observed_operation op v d)) (\<lambda>db'.
          rbind (get_probe_mutation_operation db' i) (\<lambda>x. Inr (db', x)))) = Inr (db', x)"
    then obtain op where op: "tbl_find po_operation_id i (db_probe_ops db) = Some op" and
      "db' = db \<or> po_unresolved op \<and> (let d = decide_probe_reconciliation op v now in
        if pd_next_state d = PS_COMPLETED
        then complete_probe_mutation_locked db op (pd_adopt_binding d)
          (max (po_updated_at op) (pv_observed_at v)) (Some (pr_value (pd_outcome d))) True = Inr db'
        else save_probe_mutation_operation db (observed_operation op v d) = Inr db')"
      by (auto simp: Let_def split: if_splits)
    with completed_rewrite [OF _ op] save_probe_rewrite [OF _ op] observed_advances [of op v now] po_id_found [OF op]
    show "?P db'" by (auto simp: Let_def observed_operation_def split: if_splits)
  qed simp
  have slots: "?P (fst (bind_probe_window_slot db b t ttl))" "?P (fst (clear_probe_window_slot db i))" for b t ttl i
    unfolding bind_probe_window_slot_def clear_probe_window_slot_def
    by (rule transaction_rule; auto simp: Let_def)+
  show ?thesis
    using arm close opened failed completed reconciled slots by (cases c) (simp_all only: run_probe.simps)
qed

definition probe_step :: "registry \<Rightarrow> registry \<Rightarrow> bool" where
  "probe_step db db' \<longleftrightarrow> (\<exists>c. db' = run_probe c db)"

lemma po_unresolved_status: "po_unresolved = (\<lambda>op. ps_pending (fst (probe_status op)))"
  by (simp add: fun_eq_iff po_unresolved_def probe_status_def)

interpretation probes: write_ahead_log po_operation_id "\<lambda>_. ()" probe_status "\<lambda>s. ps_pending (fst s)"
  probe_advances db_probe_ops probe_step
proof unfold_locales
  show "probe_advances s s" for s by (simp add: probe_advances_def)
  show "probe_advances s s'' " if "probe_advances s s'" "probe_advances s' s''" for s s' s''
    using that by (auto simp: probe_advances_def split: if_splits)
  show "probe_advances s s' \<Longrightarrow> \<not> ps_pending (fst s) \<Longrightarrow> s' = s" for s s'
    by (simp add: probe_advances_def)
next
  fix db db' assume "probe_step db db'"
  then show "db_probe_ops db' = db_probe_ops db
      \<or> wal_append po_operation_id (\<lambda>_. ()) (\<lambda>r. ps_pending (fst (probe_status r))) (db_probe_ops db) (db_probe_ops db')
      \<or> wal_rewrite po_operation_id (\<lambda>_. ()) probe_status probe_advances (db_probe_ops db) (db_probe_ops db')"
    using run_probe_rows unfolding probe_step_def po_unresolved_status by blast
qed

lemma run_probes_step: "probe_step\<^sup>*\<^sup>* db (run_probes cs db)"
proof (induction cs arbitrary: db)
  case (Cons c cs)
  have "probe_step db (run_probe c db)" by (auto simp: probe_step_def)
  with Cons.IH [of "run_probe c db"] show ?case
    by (simp add: run_probes_def converse_rtranclp_into_rtranclp)
qed (simp add: run_probes_def)

section \<open>Authority is granted at most once\<close>

datatype authority = CLOSE_AUTHORITY | OPEN_AUTHORITY

fun granted :: "probe_call \<Rightarrow> registry \<Rightarrow> (string \<times> authority) list" where
  "granted (AuthorizeClose i now) db = (if isl (snd (authorize_probe_close db i now)) then [] else [(i, CLOSE_AUTHORITY)])"
| "granted (AuthorizeOpen i now) db = (if isl (snd (authorize_probe_open db i now)) then [] else [(i, OPEN_AUTHORITY)])"
| "granted c db = []"

fun authority_log :: "probe_call list \<Rightarrow> registry \<Rightarrow> (string \<times> authority) list" where
  "authority_log [] db = []"
| "authority_log (c # cs) db = granted c db @ authority_log cs (run_probe c db)"

definition required_rank :: "authority \<Rightarrow> nat" where
  "required_rank k = (case k of CLOSE_AUTHORITY \<Rightarrow> 1 | OPEN_AUTHORITY \<Rightarrow> 3)"

text \<open>An operation that has reached the rank of an authority.\<close>

definition past :: "registry \<Rightarrow> string \<Rightarrow> authority \<Rightarrow> bool" where
  "past db i k \<longleftrightarrow> (\<exists>op. tbl_find po_operation_id i (db_probe_ops db) = Some op
     \<and> required_rank k \<le> probe_rank (effective_state op))"

lemma save_and_get_found:
  assumes "save_and_get db u = Inr p"
  shows "tbl_find po_operation_id (po_operation_id u) (db_probe_ops (fst p)) = Some u"
  using assms by (auto simp: save_and_get_def save_probe_mutation_operation_def journal_update_def tbl_find_update
      split: if_splits option.splits)

lemma granted_past:
  assumes "(i, k) \<in> set (granted c db)"
  shows "\<not> past db i k" and "past (run_probe c db) i k"
proof -
  have close: "\<not> past db i CLOSE_AUTHORITY \<and> past (fst (authorize_probe_close db i now)) i CLOSE_AUTHORITY"
    if "\<not> isl (snd (authorize_probe_close db i now))" for now
  proof -
    have "\<exists>op x. tbl_find po_operation_id i (db_probe_ops db) = Some op \<and> po_state op = PS_ARMED
        \<and> save_and_get db (op\<lparr>po_state := PS_CLOSE_SUBMITTED, po_updated_at := now\<rparr>)
          = Inr (fst (authorize_probe_close db i now), x)"
      using that unfolding authorize_probe_close_def by (rule transaction_okE) auto
    then obtain op x where op: "tbl_find po_operation_id i (db_probe_ops db) = Some op" "po_state op = PS_ARMED"
        and p: "save_and_get db (op\<lparr>po_state := PS_CLOSE_SUBMITTED, po_updated_at := now\<rparr>)
          = Inr (fst (authorize_probe_close db i now), x)" by blast
    with save_and_get_found [OF p] po_id_found [OF op(1)] show ?thesis
      by (simp add: past_def required_rank_def effective_state_def)
  qed
  have opened: "\<not> past db i OPEN_AUTHORITY \<and> past (fst (authorize_probe_open db i now)) i OPEN_AUTHORITY"
    if "\<not> isl (snd (authorize_probe_open db i now))" for now
  proof -
    have "\<exists>op x. tbl_find po_operation_id i (db_probe_ops db) = Some op \<and> po_state op \<in> {PS_ARMED, PS_READY_TO_OPEN}
        \<and> save_and_get db (op\<lparr>po_state := PS_OPEN_SUBMITTED, po_resume_state := None, po_updated_at := now\<rparr>)
          = Inr (fst (authorize_probe_open db i now), x)"
      using that unfolding authorize_probe_open_def by (rule transaction_okE) auto
    then obtain op x where op: "tbl_find po_operation_id i (db_probe_ops db) = Some op"
          "po_state op \<in> {PS_ARMED, PS_READY_TO_OPEN}"
        and p: "save_and_get db (op\<lparr>po_state := PS_OPEN_SUBMITTED, po_resume_state := None, po_updated_at := now\<rparr>)
          = Inr (fst (authorize_probe_open db i now), x)" by blast
    with save_and_get_found [OF p] po_id_found [OF op(1)] show ?thesis
      by (auto simp: past_def required_rank_def effective_state_def)
  qed
  show "\<not> past db i k" "past (run_probe c db) i k"
    using assms close opened by (cases c; force split: if_splits)+
qed

lemma past_stays: "past db i k \<Longrightarrow> past (run_probe c db) i k"
proof -
  assume "past db i k"
  then obtain op where op: "tbl_find po_operation_id i (db_probe_ops db) = Some op"
      "required_rank k \<le> probe_rank (effective_state op)" by (auto simp: past_def)
  have "probe_step db (run_probe c db)" by (auto simp: probe_step_def)
  from probes.writes_advance [OF this op(1)] obtain u where
    u: "tbl_find po_operation_id i (db_probe_ops (run_probe c db)) = Some u"
      "probe_advances (probe_status op) (probe_status u)" by blast
  then have "probe_rank (effective_state op) \<le> probe_rank (effective_state u)"
    by (auto simp: probe_advances_def effective_state_status split: if_splits)
  with u(1) op(2) show ?thesis by (auto simp: past_def)
qed

lemma past_no_grant: "past db i k \<Longrightarrow> (i, k) \<notin> set (authority_log cs db)"
  by (induction cs arbitrary: db) (auto dest: granted_past(1) past_stays)

lemma granted_distinct: "distinct (granted c db)"
  by (cases c) auto

text \<open>C12. Over any sequence of calls on the probe journal, from any registry, close authority and open
  authority are each granted at most once for an operation: whatever observations are reconciled in
  between, an operation never returns to a state from which the same external mutation is authorised
  again.\<close>
theorem probe_authority_at_most_once:
  "distinct (authority_log cs db)"
proof (induction cs arbitrary: db)
  case (Cons c cs)
  have "x \<notin> set (authority_log cs (run_probe c db))" if "x \<in> set (granted c db)" for x
    using past_no_grant granted_past(2) that by (cases x) auto
  with Cons.IH granted_distinct show ?case by auto
qed simp

section \<open>What one observation may decide\<close>

definition trusted_observation ::
  "probe_mutation_operation \<Rightarrow> probe_mutation_observation \<Rightarrow> timestamp \<Rightarrow> bool" where
  "trusted_observation op v now \<longleftrightarrow> pv_observed_at v \<le> now \<and> pv_complete v \<and> pv_error v \<in> {None, Some []}
     \<and> length (pv_old_matches v) \<le> 1 \<and> length (pv_new_matches v) \<le> 1
     \<and> list_all (match_is_exact_old op) (pv_old_matches v) \<and> list_all (match_is_exact_new op) (pv_new_matches v)
     \<and> (pv_old_matches v = [] \<or> pv_new_matches v = [])"

lemma list_all_at_most_one: "length xs \<le> 1 \<Longrightarrow> list_all P xs \<longleftrightarrow> xs = [] \<or> P (hd xs)"
  by (cases xs; cases "tl xs") auto

lemma decide_trusted:
  assumes "trusted_observation op v now"
  shows "decide_probe_reconciliation op v now = (case po_kind op of
     PK_OPEN \<Rightarrow> decide_open op v | PK_CLOSE \<Rightarrow> decide_close op v | PK_ROTATE \<Rightarrow> decide_rotate op v)"
proof -
  have "pv_old_matches v = [] \<or> match_is_exact_old op (hd (pv_old_matches v))"
    "pv_new_matches v = [] \<or> match_is_exact_new op (hd (pv_new_matches v))"
    using assms list_all_at_most_one by (auto simp: trusted_observation_def)
  with assms show ?thesis
    by (auto simp: trusted_observation_def decide_probe_reconciliation_def)
qed

definition fenced :: "probe_reconcile_decision \<Rightarrow> bool" where
  "fenced d \<longleftrightarrow> pd_next_state d = PS_RECONCILE_REQUIRED \<and> pd_adopt_binding d = None \<and> \<not> pd_may_open d \<and> \<not> pd_may_close d"

lemma fenced_stay: "fenced (stay out PS_RECONCILE_REQUIRED why)"
  by (simp add: fenced_def)

lemma decide_untrusted:
  assumes "\<not> trusted_observation op v now"
  shows "fenced (decide_probe_reconciliation op v now)"
proof (rule ccontr)
  assume "\<not> ?thesis"
  then have *: "\<not> pv_observed_at v > now" "pv_complete v" "pv_error v \<in> {None, Some []}"
      "length (pv_old_matches v) \<le> 1" "length (pv_new_matches v) \<le> 1"
      "pv_old_matches v = [] \<or> match_is_exact_old op (hd (pv_old_matches v))"
      "pv_new_matches v = [] \<or> match_is_exact_new op (hd (pv_new_matches v))"
      "pv_old_matches v = [] \<or> pv_new_matches v = []"
    unfolding decide_probe_reconciliation_def by (auto simp: fenced_stay split: if_splits)
  then show False
    using assms list_all_at_most_one [OF *(4)] list_all_at_most_one [OF *(5)]
    by (simp add: trusted_observation_def)
qed

text \<open>C13. A probe observation is acted on only when it is complete, not from the future, unambiguous and exact.
  Then an OPEN or ROTATE completes, adopting the binding of the one observed window, exactly when the new
  window is there, the old is gone and open authority had been granted; a CLOSE completes exactly when
  both are gone; opening or closing is offered exactly in the states in which that authority has not been
  granted. Everything else is RECONCILE_REQUIRED or leaves the operation where it was.\<close>
theorem probe_decision_exact:
  "(pd_next_state (decide_probe_reconciliation op v now) = PS_COMPLETED \<longleftrightarrow> trusted_observation op v now
      \<and> pv_old_matches v = [] \<and> (if po_kind op = PK_CLOSE then pv_new_matches v = []
          else pv_new_matches v \<noteq> [] \<and> effective_state op = PS_OPEN_SUBMITTED))
   \<and> pd_adopt_binding (decide_probe_reconciliation op v now) =
      (if pd_next_state (decide_probe_reconciliation op v now) = PS_COMPLETED \<and> po_kind op \<noteq> PK_CLOSE
       then Some (binding_from_new_match op (hd (pv_new_matches v)) (pv_observed_at v)) else None)
   \<and> (pd_may_open (decide_probe_reconciliation op v now) \<longleftrightarrow> trusted_observation op v now
      \<and> pv_old_matches v = [] \<and> pv_new_matches v = []
      \<and> (po_kind op = PK_OPEN \<and> effective_state op = PS_ARMED
         \<or> po_kind op = PK_ROTATE \<and> effective_state op \<in> {PS_ARMED, PS_CLOSE_SUBMITTED, PS_READY_TO_OPEN}))
   \<and> (pd_may_close (decide_probe_reconciliation op v now) \<longleftrightarrow> trusted_observation op v now
      \<and> pv_old_matches v \<noteq> [] \<and> po_kind op \<noteq> PK_OPEN \<and> effective_state op = PS_ARMED)"
proof (cases "trusted_observation op v now")
  case True
  then have "pv_old_matches v = [] \<or> pv_new_matches v = []" by (simp add: trusted_observation_def)
  with True show ?thesis
    unfolding decide_trusted [OF True]
    by (cases "po_kind op"; cases "pv_old_matches v"; cases "pv_new_matches v")
      (simp_all add: decide_open_def decide_close_def decide_rotate_def)
next
  case False
  with decide_untrusted [OF False] show ?thesis by (simp add: fenced_def)
qed

section \<open>One durable slot\<close>

lemma sole_slot_iff [simp]:
  "sole_slot db = Inr None \<longleftrightarrow> db_slots db = []" (is ?none)
  "sole_slot db = Inr (Some s) \<longleftrightarrow> db_slots db = [s]" (is ?some)
proof -
  consider "db_slots db = []" | x where "db_slots db = [x]" | x y xs where "db_slots db = x # y # xs"
    by (metis neq_Nil_conv)
  then have "?none \<and> ?some"
  proof cases
    case (3 x y xs)
    then have "length (sort_key sl_slot_id (db_slots db)) = Suc (Suc (length xs))" by simp
    then obtain a b r where "sort_key sl_slot_id (db_slots db) = a # b # r" by (metis length_Suc_conv)
    then show ?thesis using 3 by (simp add: sole_slot_def)
  qed (simp_all add: sole_slot_def get_probe_window_slot_def)
  then show ?none and ?some by blast+
qed

text \<open>An operation on an existing slot names that slot.\<close>

definition probe_op_ok :: "probe_mutation_operation \<Rightarrow> bool" where
  "probe_op_ok op = (po_prior_slot op \<in> {None} \<or> map_option sl_slot_id (po_prior_slot op) = Some (po_slot_id op))"

definition slots_ok :: "registry \<Rightarrow> bool" where
  "slots_ok db \<longleftrightarrow> length (db_slots db) \<le> 1 \<and> list_all probe_op_ok (db_probe_ops db)"

fun probe_call_ok :: "probe_call \<Rightarrow> bool" where
  "probe_call_ok (ArmProbe op) = probe_op_ok op"
| "probe_call_ok c = True"

lemma slots_ok_save:
  assumes "list_all probe_op_ok (db_probe_ops db)" and "length (db_slots db) \<le> 1"
    and "save_probe_mutation_operation db u = Inr db'" and "probe_op_ok u"
  shows "slots_ok db'"
  using assms save_probe_Inr(2) [OF assms(3)]
  by (auto simp: slots_ok_def list_all_iff set_tbl_update)

lemma slots_ok_found:
  "slots_ok db \<Longrightarrow> tbl_find po_operation_id i (db_probe_ops db) = Some op \<Longrightarrow> probe_op_ok op"
  by (auto simp: slots_ok_def list_all_iff dest: tbl_find_SomeD)

lemma slots_ok_save_and_get:
  "slots_ok db \<Longrightarrow> save_and_get db u = Inr (db', x) \<Longrightarrow> probe_op_ok u \<Longrightarrow> slots_ok db'"
  using slots_ok_save [of db u db'] by (auto simp: save_and_get_def slots_ok_def)

lemma slots_ok_completed:
  assumes ok: "slots_ok db" and op: "probe_op_ok op"
    and c: "complete_probe_mutation_locked db op binding ts outcome reconciled = Inr db'"
  shows "slots_ok db'"
proof (rule completed_Inr [OF c])
  fix slots u
  assume u: "save_probe_mutation_operation (db\<lparr>db_slots := slots\<rparr>) u = Inr db'"
    "slots = (if po_kind op = PK_CLOSE then tbl_delete sl_slot_id (po_slot_id op) (db_slots db)
       else tbl_upsert sl_slot_id (the binding) (db_slots db))"
    "po_kind op \<noteq> PK_CLOSE \<longrightarrow> sl_slot_id (the binding) = po_slot_id op"
    "sole_slot db = Inr (if po_kind op = PK_OPEN then None else po_prior_slot op)"
    "po_slot_id u = po_slot_id op" "po_prior_slot u = po_prior_slot op"
  have "length slots \<le> 1"
    using u(2-4) op ok
    by (cases "po_kind op"; cases "po_prior_slot op")
      (auto simp: tbl_upsert_def tbl_delete_def tbl_update_def probe_op_ok_def)
  moreover have "probe_op_ok u" using u(5,6) op by (simp add: probe_op_ok_def)
  ultimately show ?thesis
    using ok by (intro slots_ok_save [OF _ _ u(1)]) (simp_all add: slots_ok_def)
qed

lemma slots_ok_run_probe:
  assumes "slots_ok db" and "probe_call_ok c"
  shows "slots_ok (run_probe c db)"
proof -
  note found = slots_ok_found [OF assms(1)]
  have observed: "slots_ok db'" if "tbl_find po_operation_id i (db_probe_ops db) = Some op"
      "save_probe_mutation_operation db (observed_operation op v d) = Inr db'" for i op v d db'
  proof -
    have "probe_op_ok (observed_operation op v d)"
      using found [OF that(1)] by (simp add: probe_op_ok_def observed_operation_def Let_def)
    with slots_ok_save [OF _ _ that(2)] assms(1) show ?thesis by (simp add: slots_ok_def)
  qed
  have upsert_one: "length (tbl_upsert sl_slot_id s xs) \<le> 1"
    if "filter (\<lambda>x. sl_slot_id x \<noteq> sl_slot_id b) xs = []" "length xs \<le> 1" "sl_slot_id s = sl_slot_id b" for b s xs
    using that by (cases xs) (auto simp: tbl_upsert_def tbl_update_def split: if_splits)
  have arm: "slots_ok (fst (arm_probe_mutation_operation db op))" if "probe_op_ok op" for op
    unfolding arm_probe_mutation_operation_def
    by (rule transaction_rule)
      (use assms(1) that in \<open>auto simp: insert_probe_operation_def journal_insert_def slots_ok_def split: if_splits\<close>)
  have writers: "slots_ok (fst (authorize_probe_close db i now))" "slots_ok (fst (authorize_probe_open db i now))"
    "slots_ok (fst (fail_probe_mutation_operation db i r now))" for i now r
    unfolding authorize_probe_close_def authorize_probe_open_def fail_probe_mutation_operation_def
    by (rule transaction_rule; force simp: probe_op_ok_def dest: found intro: slots_ok_save_and_get [OF assms(1)] assms(1))+
  have completed: "slots_ok (fst (complete_probe_mutation_operation db i b ts out))" for i b ts out
    unfolding complete_probe_mutation_operation_def
    by (rule transaction_rule) (use assms(1) in \<open>auto dest: slots_ok_completed found split: if_splits\<close>)
  have reconciled: "slots_ok (fst (reconcile_probe_mutation_operation db i v now))" for i v now
    unfolding reconcile_probe_mutation_operation_def
    by (rule transaction_rule, rule assms(1))
      (use assms(1) observed in \<open>auto simp: Let_def dest: slots_ok_completed [OF assms(1) found] split: if_splits\<close>)
  have bound: "slots_ok (fst (bind_probe_window_slot db b t ttl))" for b t ttl
    unfolding bind_probe_window_slot_def
    by (rule transaction_rule) (use assms(1) in \<open>auto simp: slots_ok_def Let_def intro!: upsert_one [of b, simplified] split: list.splits\<close>)
  have cleared: "slots_ok (fst (clear_probe_window_slot db i))" for i
    unfolding clear_probe_window_slot_def
    by (rule transaction_rule)
      (use assms(1) in \<open>auto simp: slots_ok_def tbl_delete_def intro: order_trans [OF length_filter_le]\<close>)
  show ?thesis
    using arm writers completed reconciled bound cleared assms(2) by (cases c) (simp_all only: run_probe.simps probe_call_ok.simps)
qed

definition probe_journal_ok :: "registry \<Rightarrow> bool" where
  "probe_journal_ok db \<longleftrightarrow> journal_ok po_operation_id (\<lambda>_. ()) po_unresolved (db_probe_ops db)"

lemma probe_journal_ok_iff: "probe_journal_ok db \<longleftrightarrow> probes.wal_inv db"
  by (simp add: probe_journal_ok_def probes.wal_inv_iff probes.unresolved_def [abs_def] po_unresolved_status)

text \<open>Whatever calls are made, the registry holds at most one unresolved probe mutation and at most one
  durable probe slot, provided every operation that is armed on an existing slot names that slot.\<close>
theorem probe_registry_safe:
  assumes "probe_journal_ok db" and "slots_ok db" and "list_all probe_call_ok cs"
  shows "probe_journal_ok (run_probes cs db) \<and> slots_ok (run_probes cs db)"
proof -
  have "slots_ok (run_probes cs db)"
    using assms(2,3) by (induction cs arbitrary: db) (auto simp: run_probes_def slots_ok_run_probe)
  with assms(1) probes.writes_star_inv [OF run_probes_step] show ?thesis
    by (simp add: probe_journal_ok_iff)
qed

text \<open>A parked worker, and an operation that opens a probe window for it.\<close>

definition demo_probe_registry :: registry where
  "demo_probe_registry = fst (set_worker_status (fst (register_task empty_registry (Some ''task'') ''p'' ''o'' ''c''
     None (Some ''https://c/1'') None ''x'' ''w1'' 1 2)) ''w1'' WS_PARKED 3)"

definition demo_open :: probe_mutation_operation where
  "demo_open = \<lparr>po_operation_id = ''op1'', po_nonce = ''n1'', po_kind = PK_OPEN, po_state = PS_ARMED,
     po_slot_id = ''s'', po_target_task_id = ''task'', po_target_worker_id = ''w1'',
     po_target_conversation_url = ''https://c/1'', po_owner_token = ''o'', po_expected_actual_url = ''https://c/1?p'',
     po_expected_chrome_executable = ''chrome'', po_source = ''lws'', po_prior_slot = None, po_created_at = 4,
     po_updated_at = 4, po_slot_ttl_s = 120, po_reconcile_attempts = 0, po_last_reconcile_at = None,
     po_last_outcome = None, po_last_error = None, po_resume_state = None\<rparr>"

definition demo_seen :: probe_mutation_observation where
  "demo_seen = \<lparr>pv_observed_at = 6, pv_old_matches = [], pv_new_matches = [\<lparr>pm_window_handle = 7, pm_browser_pid = 8,
     pm_chrome_executable = ''Chrome'', pm_actual_url = ''https://c/1?p/''\<rparr>], pv_complete = True, pv_error = None\<rparr>"

definition demo_probe_calls :: "probe_call list" where
  "demo_probe_calls = [ArmProbe demo_open, AuthorizeOpen ''op1'' 5, AuthorizeOpen ''op1'' 5,
     ReconcileProbe ''op1'' demo_seen 6, AuthorizeOpen ''op1'' 7]"

theorem probe_registry_safe_witness:
  "probe_journal_ok (run_probes demo_probe_calls demo_probe_registry)
    \<and> slots_ok (run_probes demo_probe_calls demo_probe_registry)
    \<and> length (db_slots (run_probes demo_probe_calls demo_probe_registry)) = 1
    \<and> authority_log demo_probe_calls demo_probe_registry = [(''op1'', OPEN_AUTHORITY)]"
proof -
  have pre: "probe_journal_ok demo_probe_registry" "slots_ok demo_probe_registry" "list_all probe_call_ok demo_probe_calls"
    by code_simp+
  have "length (db_slots (run_probes demo_probe_calls demo_probe_registry)) = 1"
    "authority_log demo_probe_calls demo_probe_registry = [(''op1'', OPEN_AUTHORITY)]" by code_simp+
  with probe_registry_safe [OF pre] show ?thesis by blast
qed

end
