(* ===== verification/Child_Dispatch.thy ===== *)
theory Child_Dispatch
  imports Actions Probe_Ops
begin

text \<open>
  Parent-to-child dispatch in \<^verbatim>\<open>registry.py\<close>: the durable contract, the binding of the child's logical
  session, adoption and completion of child workers, and the journals of replacement and spawn
  attempts. Methods that commit several times return the registry of the last commit. The updates of
  replacement and spawn attempts read the row before they write it, without a lock in between; they are modelled as one step. Fresh
  identifiers, SHA-256 and the clock are arguments.
\<close>

section \<open>Decision codes\<close>

fun dc_value :: "decision_code \<Rightarrow> string" where
  "dc_value DC_REGISTERED = ''registered''"
| "dc_value DC_ALREADY_REGISTERED = ''already_registered''"
| "dc_value DC_CLAIMED = ''claimed''"
| "dc_value DC_HEARTBEAT_RECORDED = ''heartbeat_recorded''"
| "dc_value DC_HANDOFF_REQUESTED = ''handoff_requested''"
| "dc_value DC_TAKEOVER_GRANTED = ''takeover_granted''"
| "dc_value DC_WORKER_COMPLETED = ''worker_completed''"
| "dc_value DC_WORKER_ABANDONED = ''worker_abandoned''"
| "dc_value DC_TASK_COMPLETED = ''task_completed''"
| "dc_value DC_STALE_REVISION = ''stale_revision''"
| "dc_value DC_TASK_CLOSED = ''task_closed''"
| "dc_value DC_UNKNOWN_WORKER = ''unknown_worker''"
| "dc_value DC_NOT_CANDIDATE = ''not_candidate''"
| "dc_value DC_ACTIVE_WORKER_PRESENT = ''active_worker_present''"
| "dc_value DC_NO_ACTIVE_WORKER = ''no_active_worker''"
| "dc_value DC_FENCED_WORKER = ''fenced_worker''"
| "dc_value DC_STALE_GENERATION = ''stale_generation''"
| "dc_value DC_LEASE_EXPIRED = ''lease_expired''"
| "dc_value DC_CLOCK_ROLLBACK = ''clock_rollback''"
| "dc_value DC_INVALID_HANDOFF_TARGET = ''invalid_handoff_target''"
| "dc_value DC_TAKEOVER_NOT_ELIGIBLE = ''takeover_not_eligible''"
| "dc_value DC_ACTIVE_WORKER_MUST_END = ''active_worker_must_end''"
| "dc_value DC_COMPLETION_REF_REQUIRED = ''completion_ref_required''"

section \<open>Replacement attempts\<close>

fun ra_value :: "replacement_attempt_state \<Rightarrow> string" where
  "ra_value RA_ARMED = ''ARMED''"
| "ra_value RA_LSM_TAKEOVER_SUBMITTED = ''LSM_TAKEOVER_SUBMITTED''"
| "ra_value RA_RECONCILE_REQUIRED = ''RECONCILE_REQUIRED''"
| "ra_value RA_COMPLETED = ''COMPLETED''"
| "ra_value RA_FAILED = ''FAILED''"

definition ra_pending :: "replacement_attempt_state \<Rightarrow> bool" where
  "ra_pending s = (s \<in> {RA_ARMED, RA_LSM_TAKEOVER_SUBMITTED, RA_RECONCILE_REQUIRED})"

definition ra_unresolved :: "replacement_attempt \<Rightarrow> bool" where
  "ra_unresolved a = ra_pending (ra_state a)"

definition get_child_dispatch :: "registry \<Rightarrow> string \<Rightarrow> child_dispatch_record result" where
  "get_child_dispatch db t = (case tbl_find cd_child_task_id t (db_dispatches db) of
     None \<Rightarrow> Inl (KeyError (''unknown child dispatch: '' @ t)) | Some d \<Rightarrow> Inr d)"

definition get_replacement_attempt :: "registry \<Rightarrow> string \<Rightarrow> replacement_attempt result" where
  "get_replacement_attempt db i = (case tbl_find ra_attempt_id i (db_replacements db) of
     None \<Rightarrow> Inl (KeyError (''unknown replacement attempt: '' @ i)) | Some a \<Rightarrow> Inr a)"

definition unresolved_replacement_attempt :: "registry \<Rightarrow> string \<Rightarrow> replacement_attempt option" where
  "unresolved_replacement_attempt db t =
     (case sort_key (\<lambda>a. - ra_created_at a)
         (filter (\<lambda>a. ra_task_id a = t \<and> ra_unresolved a) (db_replacements db)) of
        [] \<Rightarrow> None | a # _ \<Rightarrow> tbl_find ra_attempt_id (ra_attempt_id a) (db_replacements db))"

definition replacement_attempts :: "registry \<Rightarrow> string \<Rightarrow> int \<Rightarrow> replacement_attempt list" where
  "replacement_attempts db t limit =
     take (nat (max 1 (min limit 500))) (sort_key (\<lambda>a. - ra_created_at a)
       (sort_key ra_attempt_id (filter (\<lambda>a. ra_task_id a = t) (db_replacements db))))"

definition insert_replacement :: "replacement_attempt \<Rightarrow> registry \<Rightarrow> registry result" where
  "insert_replacement a db =
     rbind (journal_insert ra_attempt_id ra_task_id ra_unresolved a (db_replacements db)) (\<lambda>rs.
     if find_task db (ra_task_id a) = None \<or> find_worker db (ra_candidate_worker_id a) = None
     then Inl foreign_key else Inr (db\<lparr>db_replacements := rs\<rparr>))"

definition record_replacement_attempt ::
  "registry \<Rightarrow> replacement_attempt \<Rightarrow> registry \<times> replacement_attempt result" where
  "record_replacement_attempt db a =
     transaction db
       (rbind (get_child_dispatch db (ra_task_id a)) (\<lambda>_.
        rbind (get_worker db (ra_candidate_worker_id a)) (\<lambda>w.
        rbind (guard (wk_task_id w = ra_task_id a)
          (ValueError ''replacement candidate belongs to a different task'')) (\<lambda>_.
        rbind (guard (ra_state a = RA_ARMED)
          (ValueError ''replacement attempt must be ARMED before durable recording'')) (\<lambda>_.
        rbind (case unresolved_replacement_attempt db (ra_task_id a) of None \<Rightarrow> Inr ()
          | Some u \<Rightarrow> guard (ra_attempt_id u = ra_attempt_id a) (RuntimeError
              (''task '' @ ra_task_id a @ '' already has unresolved replacement '' @ ra_attempt_id u))) (\<lambda>_.
        rbind (insert_replacement a db) (\<lambda>db'.
        rbind (get_replacement_attempt db' (ra_attempt_id a)) (\<lambda>x. Inr (db', x)))))))))"

fun replacement_allowed :: "replacement_attempt_state \<Rightarrow> replacement_attempt_state list" where
  "replacement_allowed RA_ARMED = [RA_LSM_TAKEOVER_SUBMITTED, RA_FAILED]"
| "replacement_allowed RA_LSM_TAKEOVER_SUBMITTED = [RA_RECONCILE_REQUIRED, RA_COMPLETED]"
| "replacement_allowed RA_RECONCILE_REQUIRED = [RA_RECONCILE_REQUIRED, RA_COMPLETED]"
| "replacement_allowed s = []"

text \<open>\<^verbatim>\<open>str(x).strip() or None\<close>.\<close>

definition stripped :: "string \<Rightarrow> string option" where
  "stripped s = (if strip s = [] then None else Some (strip s))"

definition update_replacement_attempt ::
  "registry \<Rightarrow> string \<Rightarrow> replacement_attempt_state \<Rightarrow> string option \<Rightarrow> string option \<Rightarrow> timestamp
     \<Rightarrow> registry \<times> replacement_attempt result" where
  "update_replacement_attempt db i state new_active_run_id last_error now =
     transaction db
       (rbind (get_replacement_attempt db i) (\<lambda>a.
        if state = ra_state a then Inr (db, a)
        else
          rbind (guard (state \<in> set (replacement_allowed (ra_state a)))
            (RuntimeError (''invalid replacement transition '' @ ra_value (ra_state a) @ '' -> '' @ ra_value state)))
            (\<lambda>_.
          let u = a\<lparr>ra_state := state, ra_updated_at := now,
                ra_new_active_run_id := (case new_active_run_id of None \<Rightarrow> ra_new_active_run_id a | Some r \<Rightarrow> stripped r),
                ra_last_error := (case last_error of None \<Rightarrow> ra_last_error a | Some e \<Rightarrow> Some (take 1000 e))\<rparr>
          in rbind (journal_update ra_attempt_id ra_task_id ra_unresolved u (db_replacements db)) (\<lambda>rs.
             let db' = db\<lparr>db_replacements := rs\<rparr>
             in rbind (get_replacement_attempt db' i) (\<lambda>x. Inr (db', x))))))"

section \<open>Spawn attempts\<close>

fun cs_value :: "child_spawn_attempt_state \<Rightarrow> string" where
  "cs_value CS_ARMED = ''ARMED''"
| "cs_value CS_WINDOW_OPEN_SUBMITTED = ''WINDOW_OPEN_SUBMITTED''"
| "cs_value CS_WINDOW_BOUND = ''WINDOW_BOUND''"
| "cs_value CS_PROMPT_SUBMITTED = ''PROMPT_SUBMITTED''"
| "cs_value CS_RECONCILE_REQUIRED = ''RECONCILE_REQUIRED''"
| "cs_value CS_COMPLETED = ''COMPLETED''"
| "cs_value CS_FAILED = ''FAILED''"

definition cs_pending :: "child_spawn_attempt_state \<Rightarrow> bool" where
  "cs_pending s = (s \<in> {CS_ARMED, CS_WINDOW_OPEN_SUBMITTED, CS_WINDOW_BOUND, CS_PROMPT_SUBMITTED,
     CS_RECONCILE_REQUIRED})"

definition cs_unresolved :: "child_spawn_attempt \<Rightarrow> bool" where
  "cs_unresolved a = cs_pending (cs_state a)"

definition get_child_spawn_attempt :: "registry \<Rightarrow> string \<Rightarrow> child_spawn_attempt result" where
  "get_child_spawn_attempt db i = (case tbl_find cs_attempt_id i (db_spawns db) of
     None \<Rightarrow> Inl (KeyError (''unknown child spawn attempt: '' @ i)) | Some a \<Rightarrow> Inr a)"

text \<open>
  The rows are scanned newest first. The state column is written in the same statement as the record
  it caches, so the scan's repair of a differing column has nothing to do here.
\<close>

definition unresolved_child_spawn_attempt :: "registry \<Rightarrow> string \<Rightarrow> child_spawn_attempt option" where
  "unresolved_child_spawn_attempt db t =
     find cs_unresolved (sort_key (\<lambda>a. - cs_created_at a) (rev (sort_key cs_attempt_id
       (filter (\<lambda>a. cs_child_task_id a = t) (db_spawns db)))))"

definition record_child_spawn_attempt ::
  "registry \<Rightarrow> child_spawn_attempt \<Rightarrow> registry \<times> child_spawn_attempt result" where
  "record_child_spawn_attempt db a =
     transaction db
       (rbind (get_child_dispatch db (cs_child_task_id a)) (\<lambda>_.
        rbind (guard (cs_state a = CS_ARMED)
          (ValueError ''child spawn attempt must be ARMED before durable recording'')) (\<lambda>_.
        rbind (guard (unresolved_child_spawn_attempt db (cs_child_task_id a) = None)
          (RuntimeError ''child task already has an unresolved spawn attempt'')) (\<lambda>_.
        rbind (journal_insert cs_attempt_id cs_child_task_id cs_unresolved a (db_spawns db)) (\<lambda>rs.
        rbind (guard (find_task db (cs_child_task_id a) \<noteq> None) foreign_key) (\<lambda>_.
        let db' = db\<lparr>db_spawns := rs\<rparr>
        in rbind (get_child_spawn_attempt db' (cs_attempt_id a)) (\<lambda>x. Inr (db', x))))))))"

definition json_update :: "json_object \<Rightarrow> json_object \<Rightarrow> json_object" where
  "json_update obj updates = fold (\<lambda>(k, v) o'. json_set k v o') updates obj"

definition store_spawn ::
  "registry \<Rightarrow> string \<Rightarrow> child_spawn_attempt \<Rightarrow> (registry \<times> child_spawn_attempt) result" where
  "store_spawn db i u =
     rbind (journal_update cs_attempt_id cs_child_task_id cs_unresolved u (db_spawns db)) (\<lambda>rs.
     let db' = db\<lparr>db_spawns := rs\<rparr>
     in rbind (get_child_spawn_attempt db' i) (\<lambda>x. Inr (db', x)))"

definition annotate_child_spawn_attempt ::
  "registry \<Rightarrow> string \<Rightarrow> json_object \<Rightarrow> timestamp \<Rightarrow> registry \<times> child_spawn_attempt result" where
  "annotate_child_spawn_attempt db i updates now =
     transaction db
       (rbind (get_child_spawn_attempt db i) (\<lambda>a.
        store_spawn db i (a\<lparr>cs_metadata := json_update (cs_metadata a) updates, cs_updated_at := now\<rparr>)))"

fun spawn_allowed :: "child_spawn_attempt_state \<Rightarrow> child_spawn_attempt_state list" where
  "spawn_allowed CS_ARMED = [CS_WINDOW_OPEN_SUBMITTED, CS_FAILED]"
| "spawn_allowed CS_WINDOW_OPEN_SUBMITTED = [CS_WINDOW_BOUND, CS_RECONCILE_REQUIRED, CS_FAILED]"
| "spawn_allowed CS_WINDOW_BOUND = [CS_PROMPT_SUBMITTED, CS_RECONCILE_REQUIRED, CS_FAILED]"
| "spawn_allowed CS_PROMPT_SUBMITTED = [CS_WINDOW_BOUND, CS_COMPLETED, CS_RECONCILE_REQUIRED]"
| "spawn_allowed CS_RECONCILE_REQUIRED = [CS_WINDOW_BOUND, CS_COMPLETED, CS_RECONCILE_REQUIRED]"
| "spawn_allowed s = []"

record spawn_update =
  su_window_handle :: "int option"
  su_browser_pid :: "int option"
  su_conversation_url :: "string option"
  su_worker_id :: "string option"
  su_last_error :: "string option"
  su_metadata_updates :: json_object

definition update_child_spawn_attempt ::
  "registry \<Rightarrow> string \<Rightarrow> child_spawn_attempt_state \<Rightarrow> spawn_update \<Rightarrow> timestamp
     \<Rightarrow> registry \<times> child_spawn_attempt result" where
  "update_child_spawn_attempt db i state f now =
     transaction db
       (rbind (get_child_spawn_attempt db i) (\<lambda>a.
        rbind (guard (state = cs_state a \<or> state \<in> set (spawn_allowed (cs_state a)))
          (RuntimeError (''invalid child spawn transition '' @ cs_value (cs_state a) @ '' -> '' @ cs_value state)))
          (\<lambda>_.
        store_spawn db i (a\<lparr>cs_state := state, cs_updated_at := now,
          cs_window_handle := (if su_window_handle f = None then cs_window_handle a else su_window_handle f),
          cs_browser_pid := (if su_browser_pid f = None then cs_browser_pid a else su_browser_pid f),
          cs_conversation_url := (case su_conversation_url f of None \<Rightarrow> cs_conversation_url a | Some u \<Rightarrow> stripped u),
          cs_worker_id := (case su_worker_id f of None \<Rightarrow> cs_worker_id a | Some w \<Rightarrow> stripped w),
          cs_last_error := (case su_last_error f of None \<Rightarrow> cs_last_error a | Some e \<Rightarrow> Some (take 1000 e)),
          cs_metadata := json_update (cs_metadata a) (su_metadata_updates f)\<rparr>))))"

section \<open>The dispatch contract\<close>

text \<open>\<^verbatim>\<open>_optional_text\<close> and the size of \<^verbatim>\<open>str.encode("utf-8")\<close> for Latin-1 characters.\<close>

definition optional_text :: "string option \<Rightarrow> string option" where
  "optional_text v = (case v of None \<Rightarrow> None | Some s \<Rightarrow> stripped s)"

definition utf8_length :: "string \<Rightarrow> int" where
  "utf8_length s = sum_list (map (\<lambda>c. if (of_char c :: nat) < 128 then 1 else 2) s)"

text \<open>
  Equality of dictionaries does not see the order of the keys, and Python's \<^verbatim>\<open>True == 1\<close>. Nested values
  are compared by their text.
\<close>

fun json_eq :: "json \<Rightarrow> json \<Rightarrow> bool" where
  "json_eq (JBool b) (JInt i) = (i = (if b then 1 else 0))"
| "json_eq (JInt i) (JBool b) = (i = (if b then 1 else 0))"
| "json_eq x y = (x = y)"

definition json_same :: "json_object \<Rightarrow> json_object \<Rightarrow> bool" where
  "json_same a b \<longleftrightarrow> fst ` set a = fst ` set b \<and> list_all (\<lambda>(k, _). json_eq (json_get a k) (json_get b k)) a"

record dispatch_request =
  dq_parent_task_id :: string
  dq_child_key :: string
  dq_project :: string
  dq_objective :: string
  dq_cwd :: string
  dq_prompt_text :: string
  dq_child_task_id :: "string option"
  dq_expected_branch :: "string option"
  dq_base_ref :: "string option"
  dq_web_project_url :: "string option"
  dq_metadata :: json_object

text \<open>The normalised arguments of one call, with the child task identifier filled in.\<close>

definition normal_request :: "dispatch_request \<Rightarrow> string \<Rightarrow> dispatch_request" where
  "normal_request q fresh_task =
     \<lparr>dq_parent_task_id = strip (dq_parent_task_id q), dq_child_key = strip (dq_child_key q),
      dq_project = strip (dq_project q), dq_objective = strip (dq_objective q), dq_cwd = strip (dq_cwd q),
      dq_prompt_text = dq_prompt_text q,
      dq_child_task_id = Some (strip (case dq_child_task_id q of None \<Rightarrow> fresh_task
        | Some t \<Rightarrow> if t = [] then fresh_task else t)),
      dq_expected_branch = optional_text (dq_expected_branch q), dq_base_ref = optional_text (dq_base_ref q),
      dq_web_project_url = optional_text (dq_web_project_url q), dq_metadata = dq_metadata q\<rparr>"

definition check_request :: "dispatch_request \<Rightarrow> unit result" where
  "check_request q =
     rbind (guard ([] \<notin> {dq_parent_task_id q, dq_child_key q, dq_project q, dq_objective q, dq_cwd q})
       (ValueError ''parent task, child key, project, objective, and cwd are required'')) (\<lambda>_.
     rbind (guard (strip (dq_prompt_text q) \<noteq> []) (ValueError ''child dispatch prompt must be non-empty'')) (\<lambda>_.
     rbind (guard (utf8_length (dq_prompt_text q) \<le> 256 * 1024)
       (ValueError ''child dispatch prompt exceeds 256 KiB'')) (\<lambda>_.
     guard (the (dq_child_task_id q) \<notin> {[], dq_parent_task_id q})
       (ValueError ''child_task_id must identify a different non-empty task''))))"

text \<open>Whether a recorded contract is the one requested; the child's task row carries three of its fields.\<close>

definition same_contract ::
  "(string \<Rightarrow> string) \<Rightarrow> registry \<Rightarrow> child_dispatch_record \<Rightarrow> dispatch_request \<Rightarrow> bool" where
  "same_contract sha256 db d q =
     ((case find_task db (cd_child_task_id d) of None \<Rightarrow> False
       | Some c \<Rightarrow> tr_project c = dq_project q \<and> tr_objective c = dq_objective q \<and> tr_cwd c = dq_cwd q)
      \<and> cd_prompt_sha256 d = sha256 (dq_prompt_text q) \<and> cd_expected_branch d = dq_expected_branch q
      \<and> cd_base_ref d = dq_base_ref q \<and> cd_web_project_url d = dq_web_project_url q
      \<and> json_same (cd_metadata d) (dq_metadata q) \<and> dq_child_task_id q = Some (cd_child_task_id d))"

definition find_contract :: "registry \<Rightarrow> string \<Rightarrow> string \<Rightarrow> child_dispatch_record option" where
  "find_contract db parent child_key =
     find (\<lambda>d. cd_parent_task_id d = parent \<and> cd_child_key d = child_key) (db_dispatches db)"

definition insert_dispatch :: "child_dispatch_record \<Rightarrow> registry \<Rightarrow> registry result" where
  "insert_dispatch d db =
     (if list_ex (\<lambda>x. cd_dispatch_id x = cd_dispatch_id d \<or> cd_child_task_id x = cd_child_task_id d
           \<or> (cd_parent_task_id x = cd_parent_task_id d \<and> cd_child_key x = cd_child_key d)) (db_dispatches db)
      then Inl unique_key
      else if find_task db (cd_parent_task_id d) = None \<or> find_task db (cd_child_task_id d) = None
      then Inl foreign_key
      else Inr (db\<lparr>db_dispatches := db_dispatches db @ [d]\<rparr>))"

definition insert_protocol_row :: "protocol_task_row \<Rightarrow> registry \<Rightarrow> registry result" where
  "insert_protocol_row r db =
     (if find_protocol db (pt_task_id r) \<noteq> None then Inl unique_key
      else if find_task db (pt_task_id r) = None \<or> \<not> worker_ref_ok db (pt_current_worker_id r)
        \<or> \<not> worker_ref_ok db (pt_handoff_target_worker_id r) \<or> \<not> task_ref_ok db (pt_parent_task_id r)
        \<or> \<not> task_ref_ok db (Some (pt_root_task_id r))
      then Inl foreign_key
      else Inr (db\<lparr>db_protocol := db_protocol db @ [r]\<rparr>))"

text \<open>The three rows that a new contract writes in one transaction.\<close>

definition write_contract ::
  "(string \<Rightarrow> string) \<Rightarrow> registry \<Rightarrow> dispatch_request \<Rightarrow> string \<Rightarrow> string \<Rightarrow> timestamp \<Rightarrow> registry result" where
  "write_contract sha256 db q root_id dispatch_id now =
     (let child = the (dq_child_task_id q) in
      rbind (insert_task_row (new_task_row child (dq_project q) (dq_objective q) (dq_cwd q) None now) db) (\<lambda>db1.
      rbind (insert_protocol_row
        \<lparr>pt_task_id = child, pt_revision = 0, pt_generation = 0, pt_task_status = dt_value DT_OPEN,
         pt_current_worker_id = None, pt_handoff_target_worker_id = None, pt_handoff_requested_at = None,
         pt_parent_task_id = Some (dq_parent_task_id q), pt_root_task_id = root_id,
         pt_child_key = Some (dq_child_key q), pt_completed_at = None, pt_completion_ref = None\<rparr> db1) (\<lambda>db2.
      insert_dispatch
        \<lparr>cd_dispatch_id = dispatch_id, cd_parent_task_id = dq_parent_task_id q, cd_child_task_id = child,
         cd_child_key = dq_child_key q, cd_prompt_text = dq_prompt_text q,
         cd_prompt_sha256 = sha256 (dq_prompt_text q), cd_expected_branch = dq_expected_branch q,
         cd_base_ref = dq_base_ref q, cd_web_project_url = dq_web_project_url q, cd_created_at = now,
         cd_updated_at = now, cd_metadata = sort_key fst (dq_metadata q)\<rparr> db2)))"

definition create_child_dispatch ::
  "(string \<Rightarrow> string) \<Rightarrow> registry \<Rightarrow> dispatch_request \<Rightarrow> string \<Rightarrow> string \<Rightarrow> timestamp
     \<Rightarrow> registry \<times> child_dispatch_record result" where
  "create_child_dispatch sha256 db q0 fresh_task dispatch_id now =
     (let q = normal_request q0 fresh_task; parent = dq_parent_task_id q; child = the (dq_child_task_id q) in
      sbind (reading db (check_request q)) (\<lambda>db _.
      sbind (if protocol_state_exists db parent then reading db (Inr ())
             else sbind (bootstrap_worker_protocol db parent None None None) (\<lambda>db _. reading db (Inr ()))) (\<lambda>db _.
      transaction db
        (rbind (guard (find_task db parent \<noteq> None) (KeyError (''unknown parent task: '' @ parent))) (\<lambda>_.
         case find_protocol db parent of
           None \<Rightarrow> Inl (RuntimeError ''parent task must have worker protocol state before dispatch'')
         | Some p \<Rightarrow>
             rbind (guard (pt_task_status p = dt_value DT_OPEN)
               (RuntimeError ''completed parent task cannot create new child dispatches'')) (\<lambda>_.
             case find_contract db parent (dq_child_key q) of
               Some d \<Rightarrow> rbind (guard (same_contract sha256 db d q)
                   (RuntimeError ''child key already exists with a different dispatch contract''))
                   (\<lambda>_. Inr (db, d))
             | None \<Rightarrow>
                 rbind (guard (find_task db child = None)
                   (RuntimeError ''child_task_id already exists without this dispatch contract'')) (\<lambda>_.
                 rbind (write_contract sha256 db q (pt_root_task_id p) dispatch_id now) (\<lambda>db'.
                 rbind (get_child_dispatch db' child) (\<lambda>d. Inr (db', d))))))))))"

definition child_dispatches_for_parent :: "registry \<Rightarrow> string \<Rightarrow> child_dispatch_record list" where
  "child_dispatches_for_parent db parent =
     sort_key cd_created_at (sort_key cd_dispatch_id
       (filter (\<lambda>d. cd_parent_task_id d = parent) (db_dispatches db)))"

section \<open>The child's logical session and workers\<close>

definition bind_child_lsm_session ::
  "registry \<Rightarrow> string \<Rightarrow> string \<Rightarrow> timestamp \<Rightarrow> registry \<times> task_record result" where
  "bind_child_lsm_session db t session_id now =
     transaction db
       (rbind (get_child_dispatch db t) (\<lambda>_.
        let session = strip session_id in
        rbind (guard (session \<noteq> []) (ValueError ''session_id must be non-empty'')) (\<lambda>_.
        case find_task db t of
          None \<Rightarrow> Inl (KeyError (''unknown task: '' @ t))
        | Some r \<Rightarrow>
            rbind (guard (tr_lsm_session_id r \<in> {None, Some session})
              (RuntimeError (''child already belongs to a different durable LSM session; '' @
                 ''replacement workers must reuse the existing logical session''))) (\<lambda>_.
            let db' = (if tr_lsm_session_id r = None
                  then update_task_row t (\<lambda>r. r\<lparr>tr_lsm_session_id := Some session, tr_updated_at := now\<rparr>) db
                  else db)
            in rbind (get_task db' t) (\<lambda>x. Inr (db', x))))))"

text \<open>A protocol call whose rejection is raised with its decision code.\<close>

definition accepted_or :: "string \<Rightarrow> registry \<times> protocol_decision result \<Rightarrow> registry \<times> worker_task_state result" where
  "accepted_or m r = sbind r (\<lambda>db d.
     if pd_accepted d then (db, Inr (pd_state d)) else (db, Inl (RuntimeError (m @ dc_value (pd_code d)))))"

text \<open>The lease of the child's current worker is ended: completed, or abandoned when it had expired.\<close>

definition end_child_worker ::
  "registry \<Rightarrow> string \<Rightarrow> worker_task_state \<Rightarrow> timestamp \<Rightarrow> registry \<times> worker_task_state result" where
  "end_child_worker db t s now = (case st_current_worker_id s of
     None \<Rightarrow> (db, Inr s)
   | Some w \<Rightarrow>
       sbind (protocol_complete_worker db t w (st_generation s) (st_revision s) now) (\<lambda>db d.
       if pd_accepted d then (db, Inr (pd_state d))
       else if pd_code d = DC_LEASE_EXPIRED
       then accepted_or ''expired current child worker abandonment rejected: ''
              (protocol_abandon_worker db t w (st_generation s) (st_revision s) now)
       else (db, Inl (RuntimeError (''current child worker completion rejected: '' @ dc_value (pd_code d))))))"

definition completion_blocked :: "registry \<Rightarrow> string \<Rightarrow> unit result" where
  "completion_blocked db t =
     rbind (unresolved_action_attempt db t) (\<lambda>action.
     rbind (case action of None \<Rightarrow> Inr () | Some a \<Rightarrow> Inl (RuntimeError
       (''child has unresolved external action '' @ aa_attempt_id a @ '' in state '' @ aa_value (aa_state a)))) (\<lambda>_.
     rbind (case unresolved_replacement_attempt db t of None \<Rightarrow> Inr () | Some a \<Rightarrow> Inl (RuntimeError
       (''child has unresolved replacement '' @ ra_attempt_id a @ '' in state '' @ ra_value (ra_state a)))) (\<lambda>_.
     case unresolved_child_spawn_attempt db t of None \<Rightarrow> Inr () | Some a \<Rightarrow> Inl (RuntimeError
       (''child has unresolved spawn '' @ cs_attempt_id a @ '' in state '' @ cs_value (cs_state a))))))"

definition complete_child_dispatch ::
  "registry \<Rightarrow> string \<Rightarrow> string \<Rightarrow> timestamp \<Rightarrow> timestamp \<Rightarrow> registry \<times> worker_task_state result" where
  "complete_child_dispatch db t completion_ref0 ts now =
     (let completion_ref = strip completion_ref0 in
      sbind (reading db (rbind (get_child_dispatch db t) (\<lambda>_.
        rbind (guard (completion_ref \<noteq> []) (ValueError ''completion_ref must be non-empty'')) (\<lambda>_.
        rbind (completion_blocked db t) (\<lambda>_. load_worker_protocol db t))))) (\<lambda>db s.
      if st_task_status s = DT_COMPLETED then
        if st_completion_ref s \<noteq> Some completion_ref
        then (db, Inl (RuntimeError ''child is already completed with a different completion_ref''))
        else sbind (reading db (get_task db t)) (\<lambda>db task.
          if tk_state task \<noteq> SS_COMPLETED
          then sbind (update_state db t SS_COMPLETED now) (\<lambda>db _. (db, Inr s)) else (db, Inr s))
      else
        sbind (end_child_worker db t s ts) (\<lambda>db s.
        sbind (accepted_or ''child task completion rejected: ''
          (protocol_complete_task db t completion_ref (st_revision s) ts)) (\<lambda>db s.
        sbind (update_state db t SS_COMPLETED now) (\<lambda>db _. (db, Inr s))))))"

definition matching_workers :: "worker_task_state \<Rightarrow> string \<Rightarrow> worker_lease list" where
  "matching_workers s url = filter (\<lambda>w. wl_conversation_ref w = Some url) (st_workers s)"

definition adopt_child_worker ::
  "registry \<Rightarrow> string \<Rightarrow> string \<Rightarrow> real \<Rightarrow> string option \<Rightarrow> string \<Rightarrow> timestamp
     \<Rightarrow> registry \<times> worker_task_state result" where
  "adopt_child_worker db t conversation_url lease_seconds worker_id fresh_id now =
     (let url = strip conversation_url;
          claim = (\<lambda>db s w. accepted_or ''child worker claim rejected: ''
            (protocol_claim_worker db t w (st_revision s) lease_seconds now)) in
      sbind (reading db (rbind (get_child_dispatch db t) (\<lambda>_.
        rbind (guard (url \<noteq> []) (ValueError ''conversation_url must be non-empty'')) (\<lambda>_.
        rbind (guard (0 < lease_seconds) (ValueError ''lease_seconds must be positive'')) (\<lambda>_.
        rbind (load_worker_protocol db t) (\<lambda>s.
        rbind (guard (length (matching_workers s url) \<le> 1)
          (RuntimeError ''multiple protocol workers unexpectedly share the conversation URL'')) (\<lambda>_. Inr s))))))) (\<lambda>db s.
      let matching = matching_workers s url in
      case st_current_worker_id s of
        Some w \<Rightarrow>
          if matching \<noteq> [] \<and> wl_worker_id (hd matching) = w then (db, Inr s)
          else (db, Inl (RuntimeError ''child already has an authoritative worker; use replacement protocol''))
      | None \<Rightarrow> (case matching of
          c # _ \<Rightarrow>
            if wl_status c \<noteq> WL_CANDIDATE
            then (db, Inl (RuntimeError ''existing conversation worker is terminal and cannot be re-adopted''))
            else claim db s (wl_worker_id c)
        | [] \<Rightarrow>
            sbind (accepted_or ''child worker registration rejected: ''
              (protocol_register_worker db t url (st_revision s) worker_id fresh_id now)) (\<lambda>db s.
            case matching_workers s url of
              [] \<Rightarrow> (db, Inl StopIteration)
            | c # _ \<Rightarrow> claim db s (wl_worker_id c)))))"

definition register_replacement_candidate ::
  "registry \<Rightarrow> string \<Rightarrow> string \<Rightarrow> string option \<Rightarrow> string \<Rightarrow> timestamp \<Rightarrow> registry \<times> worker_task_state result" where
  "register_replacement_candidate db t conversation_url worker_id fresh_id now =
     (let url = strip conversation_url in
      sbind (reading db (rbind (get_child_dispatch db t) (\<lambda>_.
        rbind (guard (url \<noteq> []) (ValueError ''conversation_url must be non-empty'')) (\<lambda>_.
        load_worker_protocol db t)))) (\<lambda>db s.
      case matching_workers s url of
        [] \<Rightarrow> accepted_or ''replacement candidate rejected: ''
               (protocol_register_worker db t url (st_revision s) worker_id fresh_id now)
      | c # others \<Rightarrow>
          if others \<noteq> []
          then (db, Inl (RuntimeError ''multiple protocol workers unexpectedly share the conversation URL''))
          else if wl_status c \<noteq> WL_CANDIDATE
          then (db, Inl (RuntimeError ''replacement conversation already belongs to a terminal/active worker''))
          else (db, Inr s)))"

end
