(* ===== verification/Replacement.thy ===== *)
theory Replacement
  imports Child_Dispatch Persistence_Refinement
begin

text \<open>
  Replacement of a child's conversation worker (\<^verbatim>\<open>replacement.py\<close>): a takeover is armed durably from
  fresh evidence, submitted once, and the worker protocol is moved to the candidate only after the
  takeover has been observed. The clock, the fresh identifier and the text of a float are arguments.
\<close>

section \<open>Evidence\<close>

definition fresh_evidence :: "timestamp \<Rightarrow> timestamp \<Rightarrow> real \<Rightarrow> bool" where
  "fresh_evidence observed_at now max_age = (0 \<le> now - observed_at \<and> now - observed_at \<le> max_age)"

definition safe_lsm :: "string option \<Rightarrow> lsm_observation option \<Rightarrow> timestamp \<Rightarrow> real \<Rightarrow> string list" where
  "safe_lsm session lsm now max_age =
     (if \<not> present session then [''child has no bound durable LSM logical session'']
      else case lsm of
        None \<Rightarrow> [''fresh LSM observation is required'']
      | Some l \<Rightarrow>
          when_blocked (lo_session_id l \<noteq> session) ''LSM observation belongs to a different logical session''
          @ when_blocked (\<not> fresh_evidence (lo_observed_at l) now max_age)
              ''LSM observation is stale or from the future''
          @ when_blocked (lo_in_flight_calls l \<noteq> 0)
              (''LSM has '' @ str_int (lo_in_flight_calls l) @ '' in-flight tool call(s)'')
          @ when_blocked (lo_active_jobs l \<noteq> 0)
              (''LSM has '' @ str_int (lo_active_jobs l) @ '' active tracked job(s)'')
          @ when_blocked (lo_continuation_pending l = Some True) ''LSM has a pending continuation'')"

definition safe_workspace ::
  "child_dispatch_record \<Rightarrow> workspace_observation option \<Rightarrow> timestamp \<Rightarrow> real \<Rightarrow> string list" where
  "safe_workspace d workspace now max_age = (case workspace of
     None \<Rightarrow> [''fresh workspace observation is required'']
   | Some w \<Rightarrow>
       when_blocked (\<not> fresh_evidence (wo_observed_at w) now max_age)
         ''workspace observation is stale or from the future''
       @ when_blocked (\<not> wo_cwd_exists w) ''child working directory does not exist''
       @ when_blocked (present (wo_error w)) (''workspace reconciliation failed: '' @ the (wo_error w))
       @ (if present (cd_expected_branch d)
          then if wo_is_git_repo w \<noteq> Some True
               then [''dispatch expects a Git branch but workspace is not a verified Git repository'']
               else when_blocked (wo_git_branch w \<noteq> cd_expected_branch d)
                 (''workspace branch changed: expected '' @ the (cd_expected_branch d) @ '', observed ''
                  @ (if present (wo_git_branch w) then the (wo_git_branch w) else ''<detached>''))
          else []))"

section \<open>Arming\<close>

definition action_blocker :: "action_attempt option \<Rightarrow> string list" where
  "action_blocker u = (case u of None \<Rightarrow> [] | Some a \<Rightarrow>
     [''unresolved external browser action '' @ aa_attempt_id a @ '' is '' @ aa_value (aa_state a)])"

definition probe_blocker :: "registry \<Rightarrow> string list" where
  "probe_blocker db = (case unresolved_probe_mutation_operation db of None \<Rightarrow> [] | Some op \<Rightarrow>
     [''global probe mutation '' @ po_operation_id op @ '' is '' @ ps_value (po_state op)])"

text \<open>How the candidate would get authority: mode, reason of eligibility, and a blocker.\<close>

definition takeover_mode ::
  "worker_task_state \<Rightarrow> string \<Rightarrow> timestamp \<Rightarrow> (string \<times> string \<times> string list) result" where
  "takeover_mode s c now =
     (case worker_by_id s c of
        None \<Rightarrow> Inr ([], [], [''replacement candidate is not registered on this child task''])
      | Some x \<Rightarrow>
          if wl_status x \<noteq> WL_CANDIDATE
          then Inr ([], [], [''replacement worker is '' @ wl_status_value (wl_status x) @ '', not candidate''])
          else if st_current_worker_id s = None
          then Inr (''CLAIM_AFTER_LSM_RESUME'', tr_value TR_NO_ACTIVE_WORKER, [])
          else rbind (takeover_eligibility s c now) (\<lambda>el. Inr (
            if te_eligible el then (''PROTOCOL_TAKEOVER'', tr_value (te_reason el), [])
            else if te_reason el = TR_ACTIVE_LEASE_FRESH
            then (''LSM_FENCE_THEN_CLAIM'', tr_value (te_reason el), [])
            else ([], tr_value (te_reason el),
              [''worker protocol replacement is not eligible: '' @ tr_value (te_reason el)]))))"

text \<open>
  The code appends the candidate's blockers before the evidence ones and the eligibility blocker
  after; \<open>split\<close> keeps that order, since at most one of the two is reported.
\<close>

definition arm_blockers ::
  "registry \<Rightarrow> child_dispatch_record \<Rightarrow> task_record \<Rightarrow> worker_task_state \<Rightarrow> string \<Rightarrow> action_attempt option
     \<Rightarrow> lsm_observation option \<Rightarrow> workspace_observation option \<Rightarrow> timestamp \<Rightarrow> real \<Rightarrow> string list \<Rightarrow> string list" where
  "arm_blockers db d task s c action lsm workspace ts max_age mode_blockers =
     (let registered = (case worker_by_id s c of None \<Rightarrow> False | Some x \<Rightarrow> wl_status x = WL_CANDIDATE) in
      when_blocked (unresolved_replacement_attempt db (tk_task_id task) \<noteq> None)
        ''an unresolved replacement attempt already exists''
      @ action_blocker action @ probe_blocker db
      @ when_blocked (st_task_status s \<noteq> DT_OPEN) ''durable child task is not open''
      @ (if registered then [] else mode_blockers)
      @ safe_lsm (tk_lsm_session_id task) lsm ts max_age
      @ safe_workspace d workspace ts max_age
      @ (if registered then mode_blockers else [])
      @ when_blocked (st_current_worker_id s \<noteq> None
            \<and> (case lsm of None \<Rightarrow> True | Some l \<Rightarrow> \<not> present (lo_active_run_id l)))
          ''active conversation worker has no observed LSM active run to supersede'')"

definition opt_json :: "string option \<Rightarrow> json" where
  "opt_json v = (case v of None \<Rightarrow> JNull | Some s \<Rightarrow> JStr s)"

definition new_replacement ::
  "(real \<Rightarrow> string) \<Rightarrow> child_dispatch_record \<Rightarrow> task_record \<Rightarrow> worker_task_state \<Rightarrow> string
     \<Rightarrow> lsm_observation option \<Rightarrow> workspace_observation option \<Rightarrow> timestamp \<Rightarrow> string \<Rightarrow> string \<Rightarrow> string
     \<Rightarrow> replacement_attempt" where
  "new_replacement float_text d task s c lsm workspace ts fresh_id mode reason =
     (let seen = (\<lambda>t. case t of None \<Rightarrow> JNull | Some x \<Rightarrow> JOther (x \<noteq> 0) (float_text x)) in
      \<lparr>ra_attempt_id = fresh_id, ra_task_id = tk_task_id task, ra_candidate_worker_id = c, ra_state = RA_ARMED,
       ra_expected_revision = st_revision s, ra_previous_worker_id = st_current_worker_id s,
       ra_previous_generation = st_generation s,
       ra_lsm_session_id = (case tk_lsm_session_id task of None \<Rightarrow> ''None'' | Some x \<Rightarrow> x),
       ra_previous_active_run_id = Option.bind lsm lo_active_run_id,
       ra_workspace_git_head = Option.bind workspace wo_git_head,
       ra_workspace_status_hash = Option.bind workspace wo_git_status_hash,
       ra_expected_branch = cd_expected_branch d, ra_mode = mode, ra_takeover_reason = reason,
       ra_created_at = ts, ra_updated_at = ts, ra_new_active_run_id = None, ra_last_error = None,
       ra_metadata =
         [(''candidate_conversation_url'', opt_json (Option.bind (worker_by_id s c) wl_conversation_ref)),
          (''workspace_cwd'', JStr (case workspace of None \<Rightarrow> tk_cwd task | Some w \<Rightarrow> wo_cwd w)),
          (''lsm_observed_at'', seen (map_option lo_observed_at lsm)),
          (''workspace_observed_at'', seen (map_option wo_observed_at workspace))]\<rparr>)"

definition arm_replacement ::
  "(real \<Rightarrow> string) \<Rightarrow> registry \<Rightarrow> string \<Rightarrow> string \<Rightarrow> lsm_observation option \<Rightarrow> workspace_observation option
     \<Rightarrow> timestamp \<Rightarrow> real \<Rightarrow> string \<Rightarrow> registry \<times> replacement_attempt result" where
  "arm_replacement float_text db t c lsm workspace ts max_age fresh_id =
     sbind (reading db
       (rbind (get_child_dispatch db t) (\<lambda>d.
        rbind (get_task db t) (\<lambda>task.
        rbind (load_worker_protocol db t) (\<lambda>s.
        rbind (unresolved_action_attempt db t) (\<lambda>action.
        rbind (takeover_mode s c ts) (\<lambda>(mode, reason, mode_blockers).
        let blockers = arm_blockers db d task s c action lsm workspace ts max_age mode_blockers
        in rbind (guard (blockers = []) (ReplacementBlocked blockers)) (\<lambda>_.
           Inr (new_replacement float_text d task s c lsm workspace ts fresh_id mode reason)))))))))
       record_replacement_attempt"

section \<open>Submission and completion\<close>

text \<open>The request that the caller sends to the session manager: session and whether it supersedes a run.\<close>

definition lsm_takeover_request :: "replacement_attempt \<Rightarrow> string \<times> bool" where
  "lsm_takeover_request a = (ra_lsm_session_id a, present (ra_previous_active_run_id a))"

definition submit_replacement :: "registry \<Rightarrow> string \<Rightarrow> timestamp \<Rightarrow> registry \<times> replacement_attempt result" where
  "submit_replacement db i now =
     sbind (reading db (rbind (get_replacement_attempt db i) (\<lambda>a.
       guard (ra_state a = RA_ARMED) (RuntimeError (''replacement '' @ i @ '' is not ARMED''))))) (\<lambda>db _.
     update_replacement_attempt db i RA_LSM_TAKEOVER_SUBMITTED None None now)"

definition completion_blockers ::
  "registry \<Rightarrow> replacement_attempt \<Rightarrow> lsm_observation option \<Rightarrow> workspace_observation option \<Rightarrow> string
     \<Rightarrow> timestamp \<Rightarrow> real \<Rightarrow> string list result" where
  "completion_blockers db a lsm workspace run now max_age =
     rbind (unresolved_action_attempt db (ra_task_id a)) (\<lambda>action.
     rbind (get_child_dispatch db (ra_task_id a)) (\<lambda>d. Inr (
       action_blocker action @ probe_blocker db
       @ safe_lsm (Some (ra_lsm_session_id a)) lsm now max_age
       @ safe_workspace d workspace now max_age
       @ (case lsm of None \<Rightarrow> [] | Some l \<Rightarrow>
            (if strip run = [] then [''new LSM active run id is required'']
             else when_blocked (lo_active_run_id l \<noteq> Some run)
               ''observed LSM active run does not match the reported takeover result'')
            @ when_blocked (present (ra_previous_active_run_id a) \<and> ra_previous_active_run_id a = Some run)
                ''LSM active run did not change across takeover'')
       @ (case workspace of None \<Rightarrow> [] | Some w \<Rightarrow>
            when_blocked (wo_git_head w \<noteq> ra_workspace_git_head a)
              ''workspace HEAD changed while replacement was in flight''
            @ when_blocked (wo_git_status_hash w \<noteq> ra_workspace_status_hash a)
                ''workspace status changed while replacement was in flight''
            @ when_blocked (present (ra_expected_branch a) \<and> wo_git_branch w \<noteq> ra_expected_branch a)
                ''workspace branch changed while replacement was in flight''))))"

text \<open>Blockers found at completion are recorded on the attempt and then raised.\<close>

definition block_completion ::
  "registry \<Rightarrow> string \<Rightarrow> string \<Rightarrow> string list \<Rightarrow> timestamp \<Rightarrow> registry \<times> 'a result" where
  "block_completion db i run blockers now =
     sbind (update_replacement_attempt db i RA_RECONCILE_REQUIRED (Some run) (Some (join ''; '' blockers)) now)
       (\<lambda>db _. (db, Inl (ReplacementBlocked blockers)))"

text \<open>The protocol transition that gives the candidate authority.\<close>

definition publish_candidate ::
  "registry \<Rightarrow> replacement_attempt \<Rightarrow> worker_task_state \<Rightarrow> real \<Rightarrow> timestamp \<Rightarrow> registry \<times> worker_task_state result" where
  "publish_candidate db a s lease_seconds now =
     (let t = ra_task_id a; c = ra_candidate_worker_id a in
      case st_current_worker_id s of
        None \<Rightarrow> accepted_or ''replacement claim rejected: ''
                 (protocol_claim_worker db t c (st_revision s) lease_seconds now)
      | Some cur \<Rightarrow>
          if ra_previous_worker_id a \<noteq> Some cur \<or> st_generation s \<noteq> ra_previous_generation a
          then (db, Inl (ReplacementBlocked [''current worker/generation changed since replacement was armed'']))
          else sbind (reading db (takeover_eligibility s c now)) (\<lambda>db el.
            if te_eligible el
            then accepted_or ''replacement takeover rejected: ''
                   (protocol_takeover_worker db t c (st_revision s) lease_seconds now)
            else if te_reason el = TR_ACTIVE_LEASE_FRESH
            then sbind (accepted_or ''old worker fence rejected: ''
                   (protocol_abandon_worker db t cur (st_generation s) (st_revision s) now)) (\<lambda>db s'.
                 accepted_or ''replacement claim rejected: ''
                   (protocol_claim_worker db t c (st_revision s') lease_seconds now))
            else (db, Inl (ReplacementBlocked
              [''worker protocol replacement ceased to be eligible: '' @ tr_value (te_reason el)]))))"

definition complete_replacement ::
  "registry \<Rightarrow> string \<Rightarrow> string \<Rightarrow> lsm_observation option \<Rightarrow> workspace_observation option \<Rightarrow> real
     \<Rightarrow> timestamp \<Rightarrow> real \<Rightarrow> registry \<times> replacement_attempt result" where
  "complete_replacement db i run lsm workspace lease_seconds ts max_age =
     sbind (reading db
       (rbind (get_replacement_attempt db i) (\<lambda>a.
        rbind (guard (ra_state a \<in> {RA_LSM_TAKEOVER_SUBMITTED, RA_RECONCILE_REQUIRED})
          (RuntimeError (''replacement '' @ i @ '' is not awaiting LSM reconciliation''))) (\<lambda>_.
        rbind (completion_blockers db a lsm workspace run ts max_age) (\<lambda>blockers.
        rbind (load_worker_protocol db (ra_task_id a)) (\<lambda>s. Inr (a, blockers, s)))))))
       (\<lambda>db (a, blockers, s).
        let complete = (\<lambda>db. update_replacement_attempt db i RA_COMPLETED (Some run) None ts);
            publish = (\<lambda>added. if blockers @ added \<noteq> [] then block_completion db i run (blockers @ added) ts
              else sbind (publish_candidate db a s lease_seconds ts) (\<lambda>db s'.
                if st_current_worker_id s' \<noteq> Some (ra_candidate_worker_id a)
                then (db, Inl (RuntimeError ''replacement transition did not publish candidate authority''))
                else complete db))
        in case worker_by_id s (ra_candidate_worker_id a) of
             None \<Rightarrow> publish [''replacement candidate disappeared from worker protocol'']
           | Some c \<Rightarrow>
               if st_current_worker_id s = Some (ra_candidate_worker_id a) \<and> wl_status c = WL_ACTIVE
               then let all = blockers @ when_blocked (st_generation s \<le> ra_previous_generation a)
                      ''candidate is active without a newer protocol generation''
                 in if all \<noteq> [] then block_completion db i run all ts else complete db
               else publish (when_blocked (st_revision s \<noteq> ra_expected_revision a)
                 (''worker protocol revision changed from '' @ str_int (ra_expected_revision a) @ '' to ''
                  @ str_int (st_revision s))))"

end
