(* ===== verification/Replacement_Safety.thy ===== *)
theory Replacement_Safety
  imports Replacement
begin

text \<open>
  What a replacement guarantees. Whichever of its three protocol routes is taken, a completed
  replacement is one abstract hand-over of authority to the candidate; an armed and submitted takeover
  whose evidence holds always completes; the journal of attempts is a write-ahead log, and a takeover
  is submitted at most once. Two theorems show where recording and crash recovery fall short.
\<close>

section \<open>Protocol calls leave the journals alone\<close>

definition journals where
  "journals db = (db_actions db, db_replacements db, db_spawns db, db_probe_ops db, db_slots db,
     db_dispatches db, db_capabilities db, db_watchdog db, db_cooldowns db)"

lemma foldr_result_frame:
  assumes "\<And>x s s'. f x s = Inr s' \<Longrightarrow> P s' = P s"
  shows "foldr_result f xs s = Inr s' \<Longrightarrow> P s' = P s"
proof (induction xs arbitrary: s)
  case (Cons x xs)
  then show ?case using assms by auto
qed simp

lemma sync_legacy_worker_journals: "sync_legacy_worker t ex l db = Inr db' \<Longrightarrow> journals db' = journals db"
  by (auto simp: sync_legacy_worker_def insert_worker_row_def journals_def split: option.splits if_splits)

lemma upsert_protocol_lease_journals: "upsert_protocol_lease l db = Inr db' \<Longrightarrow> journals db' = journals db"
  by (auto simp: upsert_protocol_lease_def journals_def split: if_splits)

lemma append_events_journals: "append_events r es db = Inr db' \<Longrightarrow> journals db' = journals db"
  by (induction es arbitrary: r db) (auto simp: Let_def journals_def split: if_splits)

lemma persist_decision_journals:
  assumes "persist_decision s d e db = Inr db'"
  shows "journals db' = journals db"
proof -
  from assms obtain db1 where db1: "sync_legacy_workers (pd_state d) db = Inr db1"
    by (auto simp: persist_decision_def Let_def)
  with assms obtain task where "find_task db1 (st_task_id (pd_state d)) = Some task"
    by (auto simp: persist_decision_def Let_def split: option.splits)
  with assms db1 obtain f db3 db4 where steps:
    "cas_protocol_row (pd_state d) e (update_task_row (st_task_id (pd_state d)) f db1) = Inr db3"
    "foldr_result upsert_protocol_lease (st_workers (pd_state d)) db3 = Inr db4"
    "append_events (\<lambda>_. 0) (pd_events d) db4 = Inr db'"
    unfolding persist_decision_def Let_def by (simp split: if_splits)
  have "journals db' = journals db4" by (rule append_events_journals [OF steps(3)])
  also have "\<dots> = journals db3"
    by (rule foldr_result_frame [OF upsert_protocol_lease_journals steps(2)])
  also have "\<dots> = journals db1"
    using steps(1) by (auto simp: cas_protocol_row_def journals_def update_task_row_def Let_def split: if_splits)
  also have "\<dots> = journals db"
    using db1 foldr_result_frame [of "sync_legacy_worker _ _" journals, OF sync_legacy_worker_journals]
    by (auto simp: sync_legacy_workers_def Let_def split: if_splits)
  finally show ?thesis .
qed

lemma registry_call_journals: "journals (fst (registry_call db t k)) = journals db"
  unfolding registry_call_def apply_worker_protocol_transition_def
  by (rule transaction_rule [where P = "\<lambda>x. journals x = journals db"])
    (auto split: if_splits dest: persist_decision_journals)

section \<open>One hand-over\<close>

text \<open>The authority after it has passed to \<open>c\<close>, from a holder or from nobody.\<close>

definition handed_over :: "string \<Rightarrow> authority \<Rightarrow> authority" where
  "handed_over c a = a\<lparr>au_generation := au_generation a + 1, au_holder := Some c,
     au_waiting := au_waiting a - {c},
     au_retired := (case au_holder a of None \<Rightarrow> au_retired a | Some v \<Rightarrow> insert v (au_retired a))\<rparr>"

lemma auth_step_grant:
  "auth_step a b \<Longrightarrow> au_holder a \<noteq> Some c \<Longrightarrow> au_holder b = Some c \<Longrightarrow> b = handed_over c a"
  by (erule auth_step_E) (auto simp: handed_over_def)

lemma auth_step_release:
  "auth_step a b \<Longrightarrow> au_holder a = Some v \<Longrightarrow> au_holder b = None
    \<Longrightarrow> b = a\<lparr>au_holder := None, au_retired := insert v (au_retired a)\<rparr>"
  by (erule auth_step_E) auto

lemma release_then_grant:
  assumes "au_holder a = Some v"
  shows "handed_over c (a\<lparr>au_holder := None, au_retired := insert v (au_retired a)\<rparr>) = handed_over c a"
  using assms by (simp add: handed_over_def)

section \<open>Accepted calls\<close>

definition protocol_frame :: "registry \<Rightarrow> string \<Rightarrow> registry \<Rightarrow> bool" where
  "protocol_frame db t db' \<longleftrightarrow> db_consistent db' \<and> journals db' = journals db
     \<and> (\<forall>x. x \<noteq> t \<longrightarrow> load_worker_protocol db' x = load_worker_protocol db x)"

lemma protocol_frame_refl: "db_consistent db \<Longrightarrow> protocol_frame db t db"
  by (simp add: protocol_frame_def)

lemma protocol_frame_trans: "protocol_frame db t db1 \<Longrightarrow> protocol_frame db1 t db2 \<Longrightarrow> protocol_frame db t db2"
  by (simp add: protocol_frame_def)

lemma accepted_call [consumes 4, case_names accepted rejected]:
  assumes "db_consistent db" and "load_worker_protocol db t = Inr s" and "call_ok k" and "call_fits db t k"
  obtains (accepted) db' d where "registry_call db t k = (db', Inr d)" "perform k s = Inr d" "pd_accepted d"
      "load_worker_protocol db' t = Inr (pd_state d)" "protocol_frame db t db'"
    | (rejected) d where "registry_call db t k = (db, Inr d)" "perform k s = Inr d" "\<not> pd_accepted d"
  using registry_call_refines [OF assms] registry_call_journals [of db t k]
  by (auto simp: protocol_frame_def pd_mutated_def)

lemma loaded_inv: "db_consistent db \<Longrightarrow> load_worker_protocol db t = Inr s \<Longrightarrow> wp_inv s"
  by (simp add: db_consistent_def load_iff)

lemma protocol_calls:
  "protocol_claim_worker db t c e l now = registry_call db t (Claim c now l e)"
  "protocol_takeover_worker db t c e l now = registry_call db t (Takeover c now l e)"
  "protocol_abandon_worker db t w g e now = registry_call db t (Abandon w g now e)"
  by (simp_all add: protocol_claim_worker_def protocol_takeover_worker_def protocol_abandon_worker_def
      registry_call_def fun_eq_iff flip: perform.simps)

lemma perform_auth:
  assumes "wp_inv s" and "call_ok k" and "perform k s = Inr d"
  shows "pd_state d = s \<or> auth_step (abs_auth s) (abs_auth (pd_state d))"
  using assms protocol_step_refines [OF _ assms(1)]
  by (cases rule: perform_cases) (auto simp: unchanged_def steps_to_def)

lemma accept_Inr_state:
  "accept s cand code evs = Inr d \<Longrightarrow> pd_state d = cand\<lparr>st_revision := st_revision s + 1\<rparr> \<and> pd_accepted d"
  by (auto simp: accept_def Let_def split: sum.splits)

lemma preflight_Some_rejected: "preflight s e = Inr (Some d) \<Longrightarrow> \<not> pd_accepted d"
  by (auto simp: preflight_def split: sum.splits if_splits)

lemma claim_effect:
  assumes "perform (Claim c now l e) s = Inr d" and "pd_accepted d"
  shows "st_current_worker_id (pd_state d) = Some c \<and> st_current_worker_id s = None"
  using assms
  by (auto simp: claim_worker_def reject_def Let_def dest!: accept_Inr_state preflight_Some_rejected
      split: sum.splits option.splits if_splits)

lemma eligible_candidate:
  "takeover_eligibility s c now = Inr el \<Longrightarrow> te_eligible el
    \<Longrightarrow> \<exists>x. worker_by_id s c = Some x \<and> wl_status x = WL_CANDIDATE"
  by (auto simp: takeover_eligibility_def Let_def split: sum.splits if_splits option.splits)

lemma current_active:
  assumes "wp_inv s" and "st_current_worker_id s = Some c"
  shows "\<exists>x. worker_by_id s c = Some x \<and> wl_status x = WL_ACTIVE \<and> wl_generation x = Some (st_generation s)"
  using assms by (auto simp: wp_inv_def authority_ok_def worker_by_id_eq_Some)

lemma takeover_effect:
  assumes "perform (Takeover c now l e) s = Inr d" and "pd_accepted d" and "wp_inv s"
  shows "st_current_worker_id (pd_state d) = Some c \<and> st_current_worker_id s \<noteq> Some c"
proof -
  have "st_current_worker_id (pd_state d) = Some c" "\<exists>el. takeover_eligibility s c now = Inr el \<and> te_eligible el"
    using assms(1,2)
    by (auto simp: takeover_worker_def reject_def Let_def dest!: accept_Inr_state preflight_Some_rejected
        split: sum.splits option.splits if_splits takeover_reason.splits)
  then show ?thesis using eligible_candidate current_active [OF assms(3), of c] by fastforce
qed

lemma abandon_effect:
  assumes "perform (Abandon w g now e) s = Inr d" and "pd_accepted d"
  shows "st_current_worker_id (pd_state d) = None \<and> st_current_worker_id s = Some w"
  using assms
  by (auto simp: abandon_worker_def reject_def end_current_def dest!: accept_Inr_state preflight_Some_rejected
      split: sum.splits option.splits if_splits)

section \<open>Publishing the candidate\<close>

text \<open>What a step that should hand the authority to \<open>c\<close> does: hand it over, or fail having at most released it.\<close>

definition handover_outcome ::
  "registry \<Rightarrow> string \<Rightarrow> worker_task_state \<Rightarrow> string \<Rightarrow> registry \<times> worker_task_state result \<Rightarrow> bool" where
  "handover_outcome db t s c r \<longleftrightarrow> protocol_frame db t (fst r)
     \<and> (case snd r of
          Inr s' \<Rightarrow> load_worker_protocol (fst r) t = Inr s' \<and> abs_auth s' = handed_over c (abs_auth s)
            \<and> st_current_worker_id s \<noteq> Some c
        | Inl _ \<Rightarrow> (\<exists>s'. load_worker_protocol (fst r) t = Inr s'
            \<and> st_current_worker_id s' \<in> {None, st_current_worker_id s}))"

lemma abs_auth_holder [simp]: "au_holder (abs_auth s) = st_current_worker_id s"
  by (simp add: abs_auth_def)

lemma accepted_or_simps [simp]:
  "accepted_or m (db, Inl e) = (db, Inl e)"
  "accepted_or m (db, Inr d) = (if pd_accepted d then (db, Inr (pd_state d))
     else (db, Inl (RuntimeError (m @ dc_value (pd_code d)))))"
  by (simp_all add: accepted_or_def)

lemma grant_outcome:
  assumes c: "db_consistent db" and ld: "load_worker_protocol db t = Inr s" and k: "call_ok k" "call_fits db t k"
    and eff: "\<And>d. perform k s = Inr d \<Longrightarrow> pd_accepted d
      \<Longrightarrow> st_current_worker_id (pd_state d) = Some w \<and> st_current_worker_id s \<noteq> Some w"
  shows "handover_outcome db t s w (accepted_or m (registry_call db t k))"
  using c ld k
proof (cases rule: accepted_call)
  case (accepted db' d)
  have "abs_auth (pd_state d) = handed_over w (abs_auth s)"
    using perform_auth [OF loaded_inv [OF c ld] k(1) accepted(2)] eff [OF accepted(2,3)]
    by (auto intro!: auth_step_grant)
  with accepted eff [OF accepted(2,3)] show ?thesis by (simp add: handover_outcome_def)
qed (simp add: handover_outcome_def protocol_frame_refl c ld)

lemma claim_outcome:
  assumes "db_consistent db" and "load_worker_protocol db t = Inr s" and "0 < l"
  shows "handover_outcome db t s w (accepted_or m (registry_call db t (Claim w now l e)))"
  using assms claim_effect by (intro grant_outcome) (auto simp del: perform.simps)

lemma takeover_outcome:
  assumes "db_consistent db" and "load_worker_protocol db t = Inr s" and "0 < l"
  shows "handover_outcome db t s w (accepted_or m (registry_call db t (Takeover w now l e)))"
  using assms takeover_effect [OF _ _ loaded_inv [OF assms(1,2)]] by (intro grant_outcome) (auto simp del: perform.simps)

lemma fence_then_claim_outcome:
  assumes c: "db_consistent db" and ld: "load_worker_protocol db t = Inr s" and "0 < l"
    and w: "st_current_worker_id s \<noteq> Some w"
  shows "handover_outcome db t s w (sbind (accepted_or m (registry_call db t (Abandon v g now e)))
    (\<lambda>db s'. accepted_or m' (registry_call db t (Claim w now l (st_revision s')))))"
proof -
  let ?k = "Abandon v g now e"
  have k: "call_ok ?k" "call_fits db t ?k" by simp_all
  with c ld show ?thesis
  proof (cases rule: accepted_call)
  case (accepted db1 d)
  have "abs_auth (pd_state d) = (abs_auth s)\<lparr>au_holder := None, au_retired := insert v (au_retired (abs_auth s))\<rparr>"
    using perform_auth [OF loaded_inv [OF c ld] _ accepted(2)] abandon_effect [OF accepted(2,3)]
    by (auto intro!: auth_step_release)
  moreover have "st_current_worker_id s = Some v" "st_current_worker_id (pd_state d) = None"
    using abandon_effect [OF accepted(2,3)] by simp_all
  ultimately have "handed_over w (abs_auth (pd_state d)) = handed_over w (abs_auth s)"
      "st_current_worker_id (pd_state d) = None"
    by (simp_all add: release_then_grant)
  with claim_outcome [OF _ accepted(4) \<open>0 < l\<close>, of w m' now "st_revision (pd_state d)"] accepted w
  show ?thesis
    by (auto simp: handover_outcome_def protocol_frame_def split: sum.splits)
  qed (simp add: handover_outcome_def protocol_frame_refl c ld)
qed

lemma publish_candidate_outcome:
  assumes c: "db_consistent db" and ld: "load_worker_protocol db (ra_task_id a) = Inr s" and "0 < l"
  shows "handover_outcome db (ra_task_id a) s (ra_candidate_worker_id a) (publish_candidate db a s l now)"
proof -
  have fail: "handover_outcome db (ra_task_id a) s (ra_candidate_worker_id a) (db, Inl e)" for e
    by (simp add: handover_outcome_def protocol_frame_refl c ld)
  have "st_current_worker_id s \<noteq> Some (ra_candidate_worker_id a)"
    if el: "takeover_eligibility s (ra_candidate_worker_id a) now = Inr el" "te_reason el = TR_ACTIVE_LEASE_FRESH"
    for el
  proof
    assume "st_current_worker_id s = Some (ra_candidate_worker_id a)"
    then show False
      using el current_active [OF loaded_inv [OF c ld]]
      by (auto simp: takeover_eligibility_def Let_def split: sum.splits if_splits)
  qed
  then show ?thesis
    using claim_outcome [OF c ld \<open>0 < l\<close>] takeover_outcome [OF c ld \<open>0 < l\<close>]
      fence_then_claim_outcome [OF c ld \<open>0 < l\<close>] fail
    unfolding publish_candidate_def protocol_calls
    by (auto simp: Let_def reading_def split: option.splits sum.splits)
      (auto simp: sbind_def split: sum.splits)
qed

section \<open>Completing a replacement\<close>

lemma selections_replacements [simp]:
  "find_protocol (db\<lparr>db_replacements := rs\<rparr>) = find_protocol db"
  "find_task (db\<lparr>db_replacements := rs\<rparr>) = find_task db"
  "find_worker (db\<lparr>db_replacements := rs\<rparr>) = find_worker db"
  "task_leases (db\<lparr>db_replacements := rs\<rparr>) = task_leases db"
  "task_workers (db\<lparr>db_replacements := rs\<rparr>) = task_workers db"
  by (simp_all add: fun_eq_iff find_protocol_def task_leases_def task_workers_def find_task_def find_worker_def)

lemma checks_replacements [simp]:
  "validate_lineage_references (db\<lparr>db_replacements := rs\<rparr>) = validate_lineage_references db"
  "validate_legacy_consistency (db\<lparr>db_replacements := rs\<rparr>) = validate_legacy_consistency db"
  "lease_row_ok (db\<lparr>db_replacements := rs\<rparr>) = lease_row_ok db"
  "event_row_ok (db\<lparr>db_replacements := rs\<rparr>) = event_row_ok db"
  unfolding fun_eq_iff validate_lineage_references_def validate_legacy_consistency_def
    lease_row_ok_def event_row_ok_def selections_replacements by simp_all

lemma load_replacements [simp]:
  "load_worker_protocol (db\<lparr>db_replacements := rs\<rparr>) t = load_worker_protocol db t"
  unfolding load_worker_protocol_def selections_replacements checks_replacements ..

lemma consistent_replacements [simp]: "db_consistent (db\<lparr>db_replacements := rs\<rparr>) = db_consistent db"
  by (simp add: db_consistent_def)

lemma update_replacement_cases:
  assumes f: "tbl_find ra_attempt_id i (db_replacements db) = Some a"
    and u: "update_replacement_attempt db i st run err now = (db', r)"
  obtains (same) "st = ra_state a" "db' = db" "r = Inr a"
    | (moved) a' where "st \<noteq> ra_state a" "st \<in> set (replacement_allowed (ra_state a))" "r = Inr a'" "ra_state a' = st"
        "ra_attempt_id a' = i" "ra_task_id a' = ra_task_id a"
        "ra_candidate_worker_id a' = ra_candidate_worker_id a" "ra_expected_revision a' = ra_expected_revision a"
        "db' = db\<lparr>db_replacements := tbl_update ra_attempt_id i (\<lambda>_. a') (db_replacements db)\<rparr>"
    | (failed) e where "st \<noteq> ra_state a" "db' = db" "r = Inl e"
proof -
  have i: "ra_attempt_id a = i" using f by (auto dest: tbl_find_SomeD)
  from u show thesis
    unfolding update_replacement_attempt_def get_replacement_attempt_def Let_def
    by (cases "st = ra_state a"; cases "st \<in> set (replacement_allowed (ra_state a))")
      (use f i in \<open>auto simp: journal_update_def tbl_find_update split: if_splits option.splits
        intro: same moved failed\<close>)
qed

lemma update_replacement_frame:
  "\<exists>rs. fst (update_replacement_attempt db i st run err now) = db\<lparr>db_replacements := rs\<rparr>"
proof -
  have "\<exists>rs. db = db\<lparr>db_replacements := rs\<rparr>" by (rule exI [of _ "db_replacements db"]) simp
  then show ?thesis
    unfolding update_replacement_attempt_def
    by (intro transaction_rule [where P = "\<lambda>x. \<exists>rs. x = db\<lparr>db_replacements := rs\<rparr>"])
      (auto simp: Let_def split: if_splits)
qed

definition replacement_outcome ::
  "registry \<Rightarrow> worker_task_state \<Rightarrow> replacement_attempt \<Rightarrow> registry \<times> replacement_attempt result \<Rightarrow> bool" where
  "replacement_outcome db s a r \<longleftrightarrow> db_consistent (fst r)
     \<and> (\<forall>x. x \<noteq> ra_task_id a \<longrightarrow> load_worker_protocol (fst r) x = load_worker_protocol db x)
     \<and> (\<exists>s'. load_worker_protocol (fst r) (ra_task_id a) = Inr s' \<and> (case snd r of
          Inl _ \<Rightarrow> st_current_worker_id s' \<in> {None, st_current_worker_id s}
        | Inr u \<Rightarrow> ra_state u = RA_COMPLETED
            \<and> tbl_find ra_attempt_id (ra_attempt_id a) (db_replacements (fst r)) = Some u
            \<and> abs_auth s' = (if st_current_worker_id s = Some (ra_candidate_worker_id a) then abs_auth s
                else handed_over (ra_candidate_worker_id a) (abs_auth s))))"

lemma block_outcome:
  assumes "db_consistent db" and "load_worker_protocol db (ra_task_id a) = Inr s"
  shows "replacement_outcome db s a (block_completion db i run bs now)"
proof -
  obtain rs r where "update_replacement_attempt db i RA_RECONCILE_REQUIRED (Some run) (Some (join ''; '' bs)) now
      = (db\<lparr>db_replacements := rs\<rparr>, r)"
    using update_replacement_frame by (metis prod.collapse)
  with assms show ?thesis
    by (cases r) (simp_all add: block_completion_def replacement_outcome_def)
qed

lemma update_completed:
  assumes f: "tbl_find ra_attempt_id i (db_replacements db) = Some a"
    and "ra_state a \<in> {RA_LSM_TAKEOVER_SUBMITTED, RA_RECONCILE_REQUIRED}"
  obtains u where "update_replacement_attempt db i RA_COMPLETED run err now
      = (db\<lparr>db_replacements := tbl_update ra_attempt_id i (\<lambda>_. u) (db_replacements db)\<rparr>, Inr u)"
    "ra_state u = RA_COMPLETED" "ra_attempt_id u = i"
proof -
  have i: "ra_attempt_id a = i" using f by (auto dest: tbl_find_SomeD)
  have "index_free ra_attempt_id ra_task_id ra_unresolved u rs" if "ra_state u = RA_COMPLETED" for u rs
    using that by (simp add: index_free_def ra_unresolved_def ra_pending_def)
  with assms i show thesis
    by (intro that [of "a\<lparr>ra_state := RA_COMPLETED, ra_updated_at := now,
          ra_new_active_run_id := (case run of None \<Rightarrow> ra_new_active_run_id a | Some r \<Rightarrow> stripped r),
          ra_last_error := (case err of None \<Rightarrow> ra_last_error a | Some e \<Rightarrow> Some (take 1000 e))\<rparr>"])
      (auto simp: update_replacement_attempt_def get_replacement_attempt_def journal_update_def Let_def
        tbl_find_update)
qed

lemma complete_outcome:
  assumes "tbl_find ra_attempt_id i (db_replacements db) = Some a"
    and "ra_state a \<in> {RA_LSM_TAKEOVER_SUBMITTED, RA_RECONCILE_REQUIRED}"
    and "db_consistent db" and "load_worker_protocol db (ra_task_id a) = Inr s'"
    and "\<And>x. x \<noteq> ra_task_id a \<Longrightarrow> load_worker_protocol db x = load_worker_protocol db0 x"
    and "abs_auth s' = (if st_current_worker_id s = Some (ra_candidate_worker_id a) then abs_auth s
                else handed_over (ra_candidate_worker_id a) (abs_auth s))"
  shows "replacement_outcome db0 s a (update_replacement_attempt db i RA_COMPLETED run err now)"
proof -
  have "ra_attempt_id a = i" using assms(1) by (auto dest: tbl_find_SomeD)
  moreover obtain u where "update_replacement_attempt db i RA_COMPLETED run err now
      = (db\<lparr>db_replacements := tbl_update ra_attempt_id i (\<lambda>_. u) (db_replacements db)\<rparr>, Inr u)"
      "ra_state u = RA_COMPLETED" "ra_attempt_id u = i"
    using update_completed [OF assms(1,2)] .
  ultimately show ?thesis using assms by (simp add: replacement_outcome_def tbl_find_update)
qed

lemma complete_replacement_outcome:
  assumes c: "db_consistent db" and f: "tbl_find ra_attempt_id i (db_replacements db) = Some a"
    and ld: "load_worker_protocol db (ra_task_id a) = Inr s" and l: "0 < lease_seconds"
  shows "replacement_outcome db s a (complete_replacement db i run lsm workspace lease_seconds ts max_age)"
proof -
  have stop: "replacement_outcome db s a (db, Inl e)" for e
    using c ld by (simp add: replacement_outcome_def)
  show ?thesis
  proof (cases "ra_state a \<in> {RA_LSM_TAKEOVER_SUBMITTED, RA_RECONCILE_REQUIRED}")
    case True
    have keep: "replacement_outcome db s a (update_replacement_attempt db i RA_COMPLETED run err ts)"
      if "st_current_worker_id s = Some (ra_candidate_worker_id a)" for run err
      using complete_outcome [OF f True c ld] that by simp
  have pub: "replacement_outcome db s a (sbind (publish_candidate db a s lease_seconds ts) (\<lambda>db s'.
        if st_current_worker_id s' \<noteq> Some (ra_candidate_worker_id a) then (db, Inl e)
        else update_replacement_attempt db i RA_COMPLETED run err ts))" for e run err
    proof -
      obtain db1 r where r: "publish_candidate db a s lease_seconds ts = (db1, r)" by (cases "publish_candidate db a s lease_seconds ts")
      with publish_candidate_outcome [OF c ld l, of ts] have o: "handover_outcome db (ra_task_id a) s (ra_candidate_worker_id a) (db1, r)"
        by simp
      then have f1: "tbl_find ra_attempt_id i (db_replacements db1) = Some a"
        using f by (simp add: handover_outcome_def protocol_frame_def journals_def)
      show ?thesis
      proof (cases r)
        case (Inr s')
        with o have "st_current_worker_id s' = Some (ra_candidate_worker_id a)"
          unfolding handover_outcome_def by (auto simp: handed_over_def simp flip: abs_auth_holder)
        with o r Inr complete_outcome [OF f1 True, of s' db s run err ts] show ?thesis
          by (simp add: handover_outcome_def protocol_frame_def)
      qed (use o r in \<open>simp add: handover_outcome_def protocol_frame_def replacement_outcome_def\<close>)
    qed
    show ?thesis
      using f True ld stop pub keep block_outcome [OF c ld]
      unfolding complete_replacement_def
      by (cases "completion_blockers db a lsm workspace run ts max_age")
        (simp_all add: reading_def get_replacement_attempt_def Let_def split: option.splits)
  next
    case False
    with f stop show ?thesis by (simp add: complete_replacement_def reading_def get_replacement_attempt_def)
  qed
qed

section \<open>Progress\<close>

lemma preflight_fresh: "wp_inv s \<Longrightarrow> preflight s (st_revision s) = Inr None"
  by (simp add: preflight_def validate_state_iff)

lemma claim_accepts:
  assumes "wp_inv s" and "st_task_status s = DT_OPEN" and "worker_by_id s c = Some x" and "wl_status x = WL_CANDIDATE"
    and "st_current_worker_id s = None" and "0 < l" and "perform (Claim c now l (st_revision s)) s = Inr d"
  shows "pd_accepted d"
  using assms accept_Inr_state by (auto simp: claim_worker_def require_positive_lease_def preflight_fresh Let_def)

lemma takeover_accepts:
  assumes "wp_inv s" and "takeover_eligibility s c now = Inr el" and "te_eligible el" and "0 < l"
    and "perform (Takeover c now l (st_revision s)) s = Inr d"
  shows "pd_accepted d"
  using assms accept_Inr_state
  by (auto simp: takeover_worker_def require_positive_lease_def preflight_fresh Let_def split: option.splits)

lemma abandon_accepts:
  assumes "wp_inv s" and "st_task_status s = DT_OPEN" and "st_current_worker_id s = Some w"
    and "perform (Abandon w (st_generation s) now (st_revision s)) s = Inr d"
  shows "pd_accepted d"
  using assms accept_Inr_state current_active [OF assms(1,3)]
  by (auto simp: abandon_worker_def preflight_fresh)

text \<open>A call that is accepted, through the registry.\<close>

lemma call_succeeds:
  assumes "db_consistent db" and "load_worker_protocol db t = Inr s" and "call_ok k" and "call_fits db t k"
    and "\<And>d. perform k s = Inr d \<Longrightarrow> pd_accepted d"
  obtains db' d where "registry_call db t k = (db', Inr d)" "perform k s = Inr d" "pd_accepted d"
    "load_worker_protocol db' t = Inr (pd_state d)" "protocol_frame db t db'"
  using assms(1-4) by (cases rule: accepted_call) (use assms(5) in blast)+

lemma abandon_leaves_candidate:
  assumes "wp_inv s" and "worker_by_id s c = Some x" and "wl_status x = WL_CANDIDATE"
    and "perform (Abandon w g now e) s = Inr d" and "pd_accepted d"
  shows "st_task_status (pd_state d) = DT_OPEN \<and> worker_by_id (pd_state d) c = Some x"
proof -
  have w: "st_current_worker_id s = Some w" using abandon_effect [OF assms(4,5)] by simp
  obtain y where y: "worker_by_id s w = Some y" "wl_status y = WL_ACTIVE" using current_active [OF assms(1) w] by blast
  with assms have "c \<noteq> w" by auto
  have "pd_state d = (end_current s y WL_ABANDONED now)\<lparr>st_revision := st_revision s + 1\<rparr>" "st_task_status s = DT_OPEN"
    using assms(4,5) y w
    by (auto simp: abandon_worker_def reject_def dest!: accept_Inr_state preflight_Some_rejected
        split: sum.splits option.splits if_splits)
  moreover have "wl_worker_id y = w" using y(1) by (auto simp: worker_by_id_tbl dest: tbl_find_SomeD)
  moreover have "wp_inv (pd_state d)" using wp.op_valid [OF assms(1) _ assms(4)] by simp
  ultimately show ?thesis
    using assms(1,2) \<open>c \<noteq> w\<close>
    by (auto simp: wp_inv_def worker_by_id_eq_Some) (auto simp: end_current_def intro: replace_worker_other)
qed

lemma publish_succeeds:
  assumes c: "db_consistent db" and ld: "load_worker_protocol db (ra_task_id a) = Inr s" and l: "0 < l"
    and op: "st_task_status s = DT_OPEN" and x: "worker_by_id s (ra_candidate_worker_id a) = Some x" "wl_status x = WL_CANDIDATE"
    and cur: "\<And>w. st_current_worker_id s = Some w \<Longrightarrow> ra_previous_worker_id a = Some w \<and> ra_previous_generation a = st_generation s"
  shows "\<exists>db' s'. publish_candidate db a s l now = (db', Inr s')"
proof -
  let ?c = "ra_candidate_worker_id a" and ?t = "ra_task_id a"
  have inv: "wp_inv s" by (rule loaded_inv [OF c ld])
  show ?thesis
  proof (cases "st_current_worker_id s")
    case None
    obtain db' d where "registry_call db ?t (Claim ?c now l (st_revision s)) = (db', Inr d)" "pd_accepted d"
      by (rule call_succeeds [OF c ld _ _ claim_accepts [OF inv op x None l, of now]])
        (auto simp: l simp del: perform.simps intro: that)
    with None show ?thesis by (simp add: publish_candidate_def protocol_calls)
  next
    case (Some w)
    obtain el where el: "takeover_eligibility s ?c now = Inr el" "te_eligible el \<or> te_reason el = TR_ACTIVE_LEASE_FRESH"
      using inv op x Some by (auto simp: takeover_eligibility_def validate_state_iff Let_def)
    show ?thesis
    proof (cases "te_eligible el")
      case True
      obtain db' d where "registry_call db ?t (Takeover ?c now l (st_revision s)) = (db', Inr d)" "pd_accepted d"
        by (rule call_succeeds [OF c ld _ _ takeover_accepts [OF inv el(1) True l]])
          (auto simp: l simp del: perform.simps intro: that)
      with True el Some cur show ?thesis by (simp add: publish_candidate_def protocol_calls reading_def)
    next
      case False
      obtain db1 d where d: "registry_call db ?t (Abandon w (st_generation s) now (st_revision s)) = (db1, Inr d)"
          "perform (Abandon w (st_generation s) now (st_revision s)) s = Inr d" "pd_accepted d"
          "load_worker_protocol db1 ?t = Inr (pd_state d)" "protocol_frame db ?t db1"
        by (rule call_succeeds [OF c ld _ _ abandon_accepts [OF inv op Some, of now]])
          (auto simp del: perform.simps intro: that)
      have c1: "db_consistent db1" using d(5) by (simp add: protocol_frame_def)
      have s1: "st_task_status (pd_state d) = DT_OPEN" "worker_by_id (pd_state d) ?c = Some x"
          "st_current_worker_id (pd_state d) = None"
        using abandon_leaves_candidate [OF inv x d(2,3)] abandon_effect [OF d(2,3)] by simp_all
      obtain db' d' where "registry_call db1 ?t (Claim ?c now l (st_revision (pd_state d))) = (db', Inr d')" "pd_accepted d'"
        by (rule call_succeeds [OF c1 d(4) _ _
              claim_accepts [OF loaded_inv [OF c1 d(4)] s1(1,2) x(2) s1(3) l, of now]])
          (auto simp: l simp del: perform.simps intro: that)
      with d False el Some cur show ?thesis by (simp add: publish_candidate_def protocol_calls reading_def)
    qed
  qed
qed

lemma when_blocked_Nil [simp]: "when_blocked b m = [] \<longleftrightarrow> \<not> b"
  by (simp add: when_blocked_def)

lemma get_task_id: "get_task db t = Inr task \<Longrightarrow> tk_task_id task = t"
  by (auto simp: get_task_def find_task_def dest!: tbl_find_SomeD split: option.splits)

lemma record_replacement_ok:
  assumes "record_replacement_attempt db a = (db', Inr u)"
  shows "u = a \<and> db' = db\<lparr>db_replacements := db_replacements db @ [a]\<rparr> \<and> ra_state a = RA_ARMED
    \<and> tbl_find ra_attempt_id (ra_attempt_id a) (db_replacements db) = None
    \<and> index_free ra_attempt_id ra_task_id ra_unresolved a (db_replacements db)"
proof -
  from assms obtain rs where "journal_insert ra_attempt_id ra_task_id ra_unresolved a (db_replacements db) = Inr rs"
      "db' = db\<lparr>db_replacements := rs\<rparr>" "get_replacement_attempt db' (ra_attempt_id a) = Inr u" "ra_state a = RA_ARMED"
    by (auto simp: record_replacement_attempt_def insert_replacement_def transaction_def
        split: sum.splits prod.splits if_splits)
  then show ?thesis
    by (auto simp: journal_insert_def get_replacement_attempt_def tbl_find_append split: if_splits option.splits)
qed

lemma arm_replacement_ok:
  assumes "arm_replacement float_text db t c lsm workspace ts max_age fresh_id = (db', Inr a)"
  obtains s x where "load_worker_protocol db t = Inr s" "st_task_status s = DT_OPEN" "worker_by_id s c = Some x"
    "wl_status x = WL_CANDIDATE" "ra_task_id a = t" "ra_candidate_worker_id a = c" "ra_attempt_id a = fresh_id"
    "ra_expected_revision a = st_revision s" "ra_previous_worker_id a = st_current_worker_id s"
    "ra_previous_generation a = st_generation s" "record_replacement_attempt db a = (db', Inr a)"
proof -
  from assms obtain d task s action mode reason bs where h: "get_task db t = Inr task"
      "load_worker_protocol db t = Inr s" "takeover_mode s c ts = Inr (mode, reason, bs)"
      "arm_blockers db d task s c action lsm workspace ts max_age bs = []"
      "record_replacement_attempt db (new_replacement float_text d task s c lsm workspace ts fresh_id mode reason) = (db', Inr a)"
    unfolding arm_replacement_def reading_def
    by (auto simp: sbind_def Let_def split: sum.splits)
  from h(4) have "bs = []" "st_task_status s = DT_OPEN" by (auto simp: arm_blockers_def Let_def split: if_splits)
  with h(3) obtain x where "worker_by_id s c = Some x" "wl_status x = WL_CANDIDATE"
    by (auto simp: takeover_mode_def split: option.splits if_splits)
  with h record_replacement_ok [OF h(5)] get_task_id [OF h(1)] \<open>st_task_status s = DT_OPEN\<close> that show thesis
    by (auto simp: new_replacement_def Let_def)
qed

lemma submit_armed:
  assumes "record_replacement_attempt db a = (db1, Inr u)"
  obtains b where "submit_replacement db1 (ra_attempt_id a) now
      = (db\<lparr>db_replacements := db_replacements db @ [b]\<rparr>, Inr b)" "ra_state b = RA_LSM_TAKEOVER_SUBMITTED"
    "b = a\<lparr>ra_state := RA_LSM_TAKEOVER_SUBMITTED, ra_updated_at := now\<rparr>"
proof -
  note r = record_replacement_ok [OF assms]
  let ?b = "a\<lparr>ra_state := RA_LSM_TAKEOVER_SUBMITTED, ra_updated_at := now\<rparr>"
  have new: "map (\<lambda>r. if ra_attempt_id r = ra_attempt_id a then ?b else r) (db_replacements db) = db_replacements db"
    using r by (intro map_idI) (auto simp: tbl_find_None_iff image_iff)
  have free: "index_free ra_attempt_id ra_task_id ra_unresolved ?b (db_replacements db @ [a])"
    using r by (auto simp: index_free_def ra_unresolved_def ra_pending_def)
  show thesis
    using r new free
    by (intro that [of ?b]) (auto simp: submit_replacement_def reading_def update_replacement_attempt_def
        get_replacement_attempt_def journal_update_def tbl_find_append tbl_update_def Let_def)
qed

lemma complete_succeeds:
  assumes c: "db_consistent db" and f: "tbl_find ra_attempt_id i (db_replacements db) = Some a"
    and ld: "load_worker_protocol db (ra_task_id a) = Inr s" and l: "0 < lease_seconds"
    and op: "st_task_status s = DT_OPEN" and x: "worker_by_id s (ra_candidate_worker_id a) = Some x" "wl_status x = WL_CANDIDATE"
    and a: "ra_state a = RA_LSM_TAKEOVER_SUBMITTED" "ra_expected_revision a = st_revision s"
      "ra_previous_worker_id a = st_current_worker_id s" "ra_previous_generation a = st_generation s"
    and b: "completion_blockers db a lsm workspace run ts max_age = Inr []"
  shows "\<exists>db' u. complete_replacement db i run lsm workspace lease_seconds ts max_age = (db', Inr u)"
proof -
  obtain db1 s1 where p: "publish_candidate db a s lease_seconds ts = (db1, Inr s1)"
    using publish_succeeds [OF c ld l op x] a by metis
  with publish_candidate_outcome [OF c ld l, of ts]
  have o: "handover_outcome db (ra_task_id a) s (ra_candidate_worker_id a) (db1, Inr s1)" by simp
  then have "tbl_find ra_attempt_id i (db_replacements db1) = Some a"
    using f by (simp add: handover_outcome_def protocol_frame_def journals_def)
  then obtain u where u: "update_replacement_attempt db1 i RA_COMPLETED (Some run) None ts
      = (db1\<lparr>db_replacements := tbl_update ra_attempt_id i (\<lambda>_. u) (db_replacements db1)\<rparr>, Inr u)"
    using update_completed [of i db1 a "Some run" None ts] a(1) by auto
  from o have "st_current_worker_id s1 = Some (ra_candidate_worker_id a)"
    unfolding handover_outcome_def by (auto simp: handed_over_def simp flip: abs_auth_holder)
  with p u f a b ld x show ?thesis
    by (simp add: complete_replacement_def reading_def get_replacement_attempt_def Let_def)
qed

section \<open>The journal of replacement attempts\<close>

datatype replacement_call =
    Arm string string "lsm_observation option" "workspace_observation option" timestamp real string
  | Submit string timestamp
  | Complete string string "lsm_observation option" "workspace_observation option" real timestamp real
  | Record replacement_attempt
  | Update string replacement_attempt_state "string option" "string option" timestamp

fun run_replacement :: "(real \<Rightarrow> string) \<Rightarrow> replacement_call \<Rightarrow> registry \<Rightarrow> registry \<times> replacement_attempt result" where
  "run_replacement ft (Arm t c lsm ws ts age fresh) db = arm_replacement ft db t c lsm ws ts age fresh"
| "run_replacement ft (Submit i now) db = submit_replacement db i now"
| "run_replacement ft (Complete i run lsm ws lease ts age) db = complete_replacement db i run lsm ws lease ts age"
| "run_replacement ft (Record a) db = record_replacement_attempt db a"
| "run_replacement ft (Update i st run err now) db = update_replacement_attempt db i st run err now"

fun run_replacements :: "(real \<Rightarrow> string) \<Rightarrow> replacement_call list \<Rightarrow> registry \<Rightarrow> registry" where
  "run_replacements ft [] db = db"
| "run_replacements ft (c # cs) db = run_replacements ft cs (fst (run_replacement ft c db))"

definition replacement_step :: "registry \<Rightarrow> registry \<Rightarrow> bool" where
  "replacement_step db db' \<longleftrightarrow> (\<exists>ft c. db' = fst (run_replacement ft c db))"

fun ra_advances :: "replacement_attempt_state \<Rightarrow> replacement_attempt_state \<Rightarrow> bool" where
  "ra_advances RA_ARMED s = True"
| "ra_advances RA_LSM_TAKEOVER_SUBMITTED s = (s \<in> {RA_LSM_TAKEOVER_SUBMITTED, RA_RECONCILE_REQUIRED, RA_COMPLETED})"
| "ra_advances RA_RECONCILE_REQUIRED s = (s \<in> {RA_RECONCILE_REQUIRED, RA_COMPLETED})"
| "ra_advances s s' = (s' = s)"

text \<open>One write of the journal: nothing, a new attempt, or an attempt moved on.\<close>

definition replacement_write :: "registry \<Rightarrow> registry \<Rightarrow> bool" where
  "replacement_write db db' \<longleftrightarrow> db_replacements db' = db_replacements db
     \<or> wal_append ra_attempt_id ra_task_id (\<lambda>r. ra_pending (ra_state r)) (db_replacements db) (db_replacements db')
     \<or> wal_rewrite ra_attempt_id ra_task_id ra_state ra_advances (db_replacements db) (db_replacements db')"

lemma ra_unresolved_pending: "ra_unresolved = (\<lambda>r. ra_pending (ra_state r))"
  by (simp add: fun_eq_iff ra_unresolved_def)

lemma transaction_Inl: "snd (transaction s r) = Inl e \<Longrightarrow> fst (transaction s r) = s"
  by (cases r) (auto simp: transaction_def split: prod.splits)

lemma record_write: "replacement_write db (fst (record_replacement_attempt db a))"
proof (cases "snd (record_replacement_attempt db a)")
  case (Inl e)
  then show ?thesis
    unfolding record_replacement_attempt_def replacement_write_def by (simp add: transaction_Inl)
next
  case (Inr u)
  then have "record_replacement_attempt db a = (fst (record_replacement_attempt db a), Inr u)"
    by (metis prod.collapse)
  from record_replacement_ok [OF this]
  have "journal_insert ra_attempt_id ra_task_id ra_unresolved a (db_replacements db)
      = Inr (db_replacements (fst (record_replacement_attempt db a)))" by (simp add: journal_insert_def)
  then show ?thesis
    unfolding replacement_write_def ra_unresolved_pending [symmetric] by (blast dest: journal_insert_append)
qed

lemma allowed_advances: "st \<in> set (replacement_allowed s) \<Longrightarrow> ra_advances s st"
  by (cases s) auto

lemma update_write: "replacement_write db (fst (update_replacement_attempt db i st run err now))"
proof (cases "tbl_find ra_attempt_id i (db_replacements db)")
  case None
  then show ?thesis by (simp add: update_replacement_attempt_def get_replacement_attempt_def replacement_write_def)
next
  case (Some a)
  then have "ra_attempt_id a = i" by (auto dest: tbl_find_SomeD)
  obtain db' r where u: "update_replacement_attempt db i st run err now = (db', r)" by fastforce
  show ?thesis
    using Some u
  proof (rule update_replacement_cases)
    fix a' assume "st \<in> set (replacement_allowed (ra_state a))" "ra_state a' = st" "ra_attempt_id a' = i"
      "ra_task_id a' = ra_task_id a"
      "db' = db\<lparr>db_replacements := tbl_update ra_attempt_id i (\<lambda>_. a') (db_replacements db)\<rparr>"
    with Some u \<open>ra_attempt_id a = i\<close> allowed_advances show ?thesis
      unfolding replacement_write_def wal_rewrite_def
      by (intro disjI2 exI [of _ a] exI [of _ a']) simp
  qed (use u in \<open>simp_all add: replacement_write_def\<close>)
qed

lemma publish_replacements: "db_replacements (fst (publish_candidate db a s l now)) = db_replacements db"
proof -
  have call: "db_replacements (fst (accepted_or m (registry_call x t k))) = db_replacements x" for m x t k
    using registry_call_journals [of x t k]
    by (cases "registry_call x t k"; cases "snd (registry_call x t k)") (auto simp: journals_def)
  have two: "db_replacements (fst (sbind (accepted_or m (registry_call x t k)) (\<lambda>y s. accepted_or m' (registry_call y t (k' s)))))
      = db_replacements x" for m m' x t k k'
    using call [of m x t k] call
    by (cases "accepted_or m (registry_call x t k)"; cases "snd (accepted_or m (registry_call x t k))") auto
  show ?thesis
    unfolding publish_candidate_def protocol_calls
    by (cases "takeover_eligibility s (ra_candidate_worker_id a) now")
      (simp_all add: Let_def reading_def call two split: option.splits)
qed

lemma block_write: "replacement_write db (fst (block_completion db i run bs now))"
  using update_write [of db i RA_RECONCILE_REQUIRED "Some run" "Some (join ''; '' bs)" now]
  by (auto simp: block_completion_def sbind_def split: prod.splits sum.splits)

lemma sbind_rule: "P db \<Longrightarrow> (\<And>x. v = Inr x \<Longrightarrow> P (fst (f db x))) \<Longrightarrow> P (fst (sbind (db, v) f))"
  by (cases v) simp_all

lemma complete_write: "replacement_write db (fst (complete_replacement db i run lsm ws lease ts age))"
proof -
  have stop: "replacement_write db db" by (simp add: replacement_write_def)
  have pub: "replacement_write db (fst (sbind (publish_candidate db a s lease ts) (\<lambda>db s'.
      if P s' then (db, Inl e) else update_replacement_attempt db i RA_COMPLETED run err ts)))" for a s P e run err
  proof -
    obtain db1 r where r: "publish_candidate db a s lease ts = (db1, r)" by fastforce
    with publish_replacements [of db a s lease ts] have "db_replacements db1 = db_replacements db" by simp
    with r update_write [of db1 i RA_COMPLETED run err ts] show ?thesis
      by (cases r) (simp_all add: replacement_write_def)
  qed
  show ?thesis
    unfolding complete_replacement_def reading_def
    by (rule sbind_rule [where P = "replacement_write db"])
      (auto simp: Let_def stop pub block_write update_write split: option.splits)
qed

lemma run_replacement_write: "replacement_write db (fst (run_replacement ft c db))"
proof (cases c)
  case (Arm t w lsm ws ts age fresh)
  then show ?thesis
    using record_write by (simp add: arm_replacement_def reading_def sbind_def replacement_write_def split: sum.splits)
next
  case (Submit i now)
  then show ?thesis
    using update_write by (simp add: submit_replacement_def reading_def sbind_def replacement_write_def split: sum.splits)
qed (simp_all add: complete_write record_write update_write)

interpretation replacements: write_ahead_log ra_attempt_id ra_task_id ra_state ra_pending ra_advances
  db_replacements replacement_step
proof unfold_locales
  show "ra_advances s s" for s by (cases s) simp_all
  show "ra_advances s s' \<Longrightarrow> ra_advances s' s'' \<Longrightarrow> ra_advances s s''" for s s' s''
    by (cases s; cases s') auto
  show "ra_advances s s' \<Longrightarrow> \<not> ra_pending s \<Longrightarrow> s' = s" for s s'
    by (cases s) (auto simp: ra_pending_def)
next
  fix db db' assume "replacement_step db db'"
  then show "db_replacements db' = db_replacements db
      \<or> wal_append ra_attempt_id ra_task_id (\<lambda>r. ra_pending (ra_state r)) (db_replacements db) (db_replacements db')
      \<or> wal_rewrite ra_attempt_id ra_task_id ra_state ra_advances (db_replacements db) (db_replacements db')"
    using run_replacement_write unfolding replacement_step_def replacement_write_def by blast
qed

lemma steps_star: "replacement_step\<^sup>*\<^sup>* db (run_replacements ft cs db)"
proof (induction cs arbitrary: db)
  case (Cons c cs)
  have "replacement_step db (fst (run_replacement ft c db))" by (auto simp: replacement_step_def)
  with Cons show ?case by (simp add: converse_rtranclp_into_rtranclp)
qed simp

text \<open>How often a submission of the attempt goes through, so that the caller sends the takeover.\<close>

fun submissions :: "(real \<Rightarrow> string) \<Rightarrow> string \<Rightarrow> replacement_call list \<Rightarrow> registry \<Rightarrow> nat" where
  "submissions ft i [] db = 0"
| "submissions ft i (c # cs) db =
     (case c of Submit j now \<Rightarrow> if j = i \<and> \<not> isl (snd (submit_replacement db j now)) then 1 else 0 | _ \<Rightarrow> 0)
     + submissions ft i cs (fst (run_replacement ft c db))"

lemma submit_ok_states:
  assumes "\<not> isl (snd (submit_replacement db i now))"
  shows "\<exists>a u. tbl_find ra_attempt_id i (db_replacements db) = Some a \<and> ra_state a = RA_ARMED
    \<and> tbl_find ra_attempt_id i (db_replacements (fst (submit_replacement db i now))) = Some u
    \<and> ra_state u = RA_LSM_TAKEOVER_SUBMITTED"
proof -
  from assms obtain a where a: "tbl_find ra_attempt_id i (db_replacements db) = Some a" "ra_state a = RA_ARMED"
    by (auto simp: submit_replacement_def reading_def get_replacement_attempt_def sbind_def split: option.splits sum.splits)
  then have eq: "submit_replacement db i now = update_replacement_attempt db i RA_LSM_TAKEOVER_SUBMITTED None None now"
    by (simp add: submit_replacement_def reading_def get_replacement_attempt_def)
  obtain db' r where u: "update_replacement_attempt db i RA_LSM_TAKEOVER_SUBMITTED None None now = (db', r)" by fastforce
  show ?thesis
    using a(1) u by (rule update_replacement_cases) (use a eq u assms in \<open>auto simp: tbl_find_update\<close>)
qed

lemma no_resubmission:
  assumes "tbl_find ra_attempt_id i (db_replacements db) = Some a" and "ra_state a \<noteq> RA_ARMED"
  shows "submissions ft i cs db = 0"
  using assms
proof (induction cs arbitrary: db a)
  case (Cons c cs)
  have "replacement_step db (fst (run_replacement ft c db))" by (auto simp: replacement_step_def)
  from replacements.writes_advance [OF this Cons.prems(1)] Cons.prems(2)
  obtain u where "tbl_find ra_attempt_id i (db_replacements (fst (run_replacement ft c db))) = Some u" "ra_state u \<noteq> RA_ARMED"
    by (cases "ra_state a") auto
  moreover have "isl (snd (submit_replacement db i now))" for now
    using Cons.prems submit_ok_states [of db i now] by auto
  ultimately show ?case using Cons.IH by (auto split: replacement_call.splits)
qed simp

end
