(* ===== verification/Replacement_Properties.thy ===== *)
theory Replacement_Properties
  imports Replacement_Safety
begin

text \<open>
  The properties of the replacement protocol, with a concrete child task on which they apply.
\<close>

section \<open>Properties of replacement\<close>

text \<open>C14. A completed replacement is one hand-over of authority. On a consistent registry,
  \<^verbatim>\<open>complete_replacement\<close> keeps the registry consistent and every other task's protocol state, whatever
  evidence it is given and whichever of its routes (claim, protocol takeover, fence then claim, or
  recovery of a crashed completion) it takes: when it returns, the attempt is durably COMPLETED and the
  authority has passed to the candidate exactly once, at the next generation, with the previous holder
  retired (or the candidate already held it); when it raises, no worker has gained authority.\<close>

theorem replacement_refines_handover:
  assumes "db_consistent db" and "tbl_find ra_attempt_id i (db_replacements db) = Some a"
    and "load_worker_protocol db (ra_task_id a) = Inr s" and "0 < lease_seconds"
    and "complete_replacement db i run lsm workspace lease_seconds ts max_age = (db', r)"
  shows "db_consistent db'
    \<and> (\<forall>x. x \<noteq> ra_task_id a \<longrightarrow> load_worker_protocol db' x = load_worker_protocol db x)
    \<and> (\<exists>s'. load_worker_protocol db' (ra_task_id a) = Inr s' \<and> (case r of
         Inl _ \<Rightarrow> st_current_worker_id s' \<in> {None, st_current_worker_id s}
       | Inr u \<Rightarrow> ra_state u = RA_COMPLETED \<and> tbl_find ra_attempt_id i (db_replacements db') = Some u
           \<and> abs_auth s' = (if st_current_worker_id s = Some (ra_candidate_worker_id a) then abs_auth s
               else handed_over (ra_candidate_worker_id a) (abs_auth s))))"
proof -
  have "ra_attempt_id a = i" using assms(2) by (auto dest: tbl_find_SomeD)
  with complete_replacement_outcome [OF assms(1-4), of run lsm workspace ts max_age] assms(5) show ?thesis
    by (cases r) (simp_all add: replacement_outcome_def)
qed

text \<open>A child task whose worker \<^verbatim>\<open>w1\<close> holds a fresh lease and whose replacement by \<^verbatim>\<open>w2\<close> has been submitted.\<close>

definition demo_lease :: "string \<Rightarrow> string \<Rightarrow> worker_lease_status \<Rightarrow> protocol_lease_row" where
  "demo_lease w url st = \<lparr>pl_worker_id = w, pl_task_id = ''child'', pl_conversation_ref = url,
     pl_status = wl_status_value st, pl_registered_at = 1, pl_generation = (if st = WL_ACTIVE then Some 1 else None),
     pl_claimed_at = (if st = WL_ACTIVE then Some 2 else None),
     pl_last_heartbeat_at = (if st = WL_ACTIVE then Some 2 else None),
     pl_lease_expires_at = (if st = WL_ACTIVE then Some 100 else None), pl_ended_at = None, pl_superseded_by = None\<rparr>"

definition demo_legacy :: "string \<Rightarrow> string \<Rightarrow> worker_lease_status \<Rightarrow> worker_row" where
  "demo_legacy w url st = \<lparr>wr_worker_id = w, wr_task_id = ''child'', wr_conversation_url = url, wr_conversation_id = None,
     wr_status = ws_value (legacy_status st), wr_started_at = 1,
     wr_last_seen_at = (if st = WL_ACTIVE then Some 2 else None), wr_ended_at = None\<rparr>"

definition demo_dispatch :: child_dispatch_record where
  "demo_dispatch = \<lparr>cd_dispatch_id = ''d'', cd_parent_task_id = ''root'', cd_child_task_id = ''child'', cd_child_key = ''k'',
     cd_prompt_text = ''do it'', cd_prompt_sha256 = ''h'', cd_expected_branch = None, cd_base_ref = None,
     cd_web_project_url = None, cd_created_at = 0, cd_updated_at = 0, cd_metadata = []\<rparr>"

definition demo_child :: registry where
  "demo_child = empty_registry\<lparr>
     db_tasks := [(new_task_row ''child'' ''p'' ''o'' ''c'' (Some ''S'') 0)\<lparr>tr_current_worker_id := Some ''w1''\<rparr>],
     db_workers := [demo_legacy ''w1'' ''u1'' WL_ACTIVE, demo_legacy ''w2'' ''u2'' WL_CANDIDATE],
     db_protocol := [\<lparr>pt_task_id = ''child'', pt_revision = 3, pt_generation = 1, pt_task_status = ''open'',
       pt_current_worker_id = Some ''w1'', pt_handoff_target_worker_id = None, pt_handoff_requested_at = None,
       pt_parent_task_id = None, pt_root_task_id = ''child'', pt_child_key = None, pt_completed_at = None,
       pt_completion_ref = None\<rparr>],
     db_leases := [demo_lease ''w1'' ''u1'' WL_ACTIVE, demo_lease ''w2'' ''u2'' WL_CANDIDATE],
     db_dispatches := [demo_dispatch]\<rparr>"

definition demo_lsm :: "timestamp \<Rightarrow> string \<Rightarrow> lsm_observation" where
  "demo_lsm at_time run = \<lparr>lo_task_id = ''child'', lo_observed_at = at_time, lo_session_id = Some ''S'', lo_session_status = None,
     lo_active_run_id = Some run, lo_plan_status = None, lo_plan_last_agent_activity = None, lo_continuation_due = None,
     lo_continuation_pending = None, lo_in_flight_calls = 0, lo_freshest_in_flight_heartbeat = None, lo_active_jobs = 0,
     lo_failed_jobs = 0, lo_succeeded_jobs = 0, lo_recent_event_type = None, lo_recent_event_at = None,
     lo_completed_steps = None, lo_total_steps = None, lo_raw = []\<rparr>"

definition demo_workspace :: "timestamp \<Rightarrow> workspace_observation" where
  "demo_workspace at_time = \<lparr>wo_task_id = ''child'', wo_observed_at = at_time, wo_cwd = ''c'', wo_cwd_exists = True,
     wo_is_git_repo = Some True, wo_git_root = None, wo_git_head = Some ''head'', wo_git_branch = Some ''main'',
     wo_git_dirty = Some False, wo_git_status_hash = Some ''clean'', wo_git_status_entries = [], wo_error = None, wo_raw = []\<rparr>"

definition demo_armed :: "registry \<times> replacement_attempt result" where
  "demo_armed = arm_replacement (\<lambda>_. ''t'') demo_child ''child'' ''w2'' (Some (demo_lsm 50 ''run1''))
     (Some (demo_workspace 50)) 50 60 ''r1''"

definition demo_submitted :: registry where
  "demo_submitted = fst (submit_replacement (fst demo_armed) ''r1'' 51)"

lemma lease_row_ok_code [code]:
  "lease_row_ok db r = (pl_conversation_ref r \<noteq> []
     \<and> (case find_worker db (pl_worker_id r) of None \<Rightarrow> False | Some x \<Rightarrow> wr_task_id x = pl_task_id r)
     \<and> (case wl_status_of (pl_status r) of None \<Rightarrow> True | Some k \<Rightarrow> \<not> retired_status k \<or> pl_ended_at r \<noteq> None))"
  by (auto simp: lease_row_ok_def split: option.splits dest: wl_status_of_SomeD)

lemma event_row_ok_code [code]:
  "event_row_ok db e = (case find_protocol db (pe_task_id e) of None \<Rightarrow> False | Some p \<Rightarrow> pe_revision e \<le> pt_revision p)"
  by (auto simp: event_row_ok_def split: option.splits)

lemma demo_child_loads:
  "db_consistent demo_child" "\<not> isl (load_worker_protocol demo_child ''child'')" "\<not> isl (snd demo_armed)"
  by code_simp+

lemma demo_submitted_ok:
  "db_consistent demo_submitted" "\<not> isl (load_worker_protocol demo_submitted ''child'')"
  "map_option ra_state (tbl_find ra_attempt_id ''r1'' (db_replacements demo_submitted)) = Some RA_LSM_TAKEOVER_SUBMITTED"
  by code_simp+

theorem replacement_refines_handover_witness:
  "\<exists>db' u s'. complete_replacement demo_submitted ''r1'' ''run2'' (Some (demo_lsm 52 ''run2'')) (Some (demo_workspace 52)) 60 52 60
      = (db', Inr u) \<and> load_worker_protocol db' ''child'' = Inr s' \<and> ra_state u = RA_COMPLETED \<and> db_consistent db'"
proof -
  let ?r = "complete_replacement demo_submitted ''r1'' ''run2'' (Some (demo_lsm 52 ''run2'')) (Some (demo_workspace 52)) 60 52 60"
  obtain a where a: "tbl_find ra_attempt_id ''r1'' (db_replacements demo_submitted) = Some a"
    using demo_submitted_ok(3) by auto
  have "map_option ra_task_id (tbl_find ra_attempt_id ''r1'' (db_replacements demo_submitted)) = Some ''child''" by code_simp
  with a have t: "ra_task_id a = ''child''" by simp
  obtain s where s: "load_worker_protocol demo_submitted (ra_task_id a) = Inr s"
    using demo_submitted_ok(2) t by (cases "load_worker_protocol demo_submitted ''child''") auto
  have "\<not> isl (snd ?r)" by code_simp
  then obtain u where "?r = (fst ?r, Inr u)" by (cases ?r; cases "snd ?r") auto
  with replacement_refines_handover [OF demo_submitted_ok(1) a s _ this] t show ?thesis by fastforce
qed

text \<open>An attempt whose protocol revision has moved while its candidate has no authority.\<close>

definition overtaken :: "string \<Rightarrow> string \<Rightarrow> string \<Rightarrow> int \<Rightarrow> worker_task_state \<Rightarrow> registry \<Rightarrow> bool" where
  "overtaken i t c rv s db \<longleftrightarrow> load_worker_protocol db t = Inr s \<and> st_revision s \<noteq> rv \<and> st_current_worker_id s \<noteq> Some c
     \<and> (\<exists>a. tbl_find ra_attempt_id i (db_replacements db) = Some a \<and> ra_task_id a = t \<and> ra_candidate_worker_id a = c
          \<and> ra_expected_revision a = rv \<and> ra_state a \<in> {RA_LSM_TAKEOVER_SUBMITTED, RA_RECONCILE_REQUIRED})"

lemma overtaken_blocked:
  assumes "overtaken i t c rv s db"
  shows "overtaken i t c rv s (fst (complete_replacement db i run lsm ws lease ts age))
    \<and> isl (snd (complete_replacement db i run lsm ws lease ts age))"
proof -
  from assms obtain a where a: "tbl_find ra_attempt_id i (db_replacements db) = Some a" "ra_task_id a = t"
      "ra_candidate_worker_id a = c" "ra_expected_revision a = rv"
      "ra_state a \<in> {RA_LSM_TAKEOVER_SUBMITTED, RA_RECONCILE_REQUIRED}"
    by (auto simp: overtaken_def)
  have blk: "overtaken i t c rv s (fst (block_completion db i run bs ts)) \<and> isl (snd (block_completion db i run bs ts))"
    for bs
  proof -
    obtain db' r where u: "update_replacement_attempt db i RA_RECONCILE_REQUIRED (Some run) (Some (join ''; '' bs)) ts = (db', r)"
      by fastforce
    have "overtaken i t c rv s db'"
      using a(1) u by (rule update_replacement_cases) (use assms a in \<open>auto simp: overtaken_def tbl_find_update\<close>)
    with u show ?thesis by (cases r) (simp_all add: block_completion_def)
  qed
  show ?thesis
  proof (cases "completion_blockers db a lsm ws run ts age")
    case (Inl e)
    with a assms show ?thesis by (simp add: complete_replacement_def reading_def get_replacement_attempt_def)
  next
    case (Inr bs)
    with a assms blk show ?thesis
      by (auto simp: overtaken_def complete_replacement_def reading_def get_replacement_attempt_def Let_def
          when_blocked_def split: option.splits)
  qed
qed

text \<open>What other processes may have done to a task meanwhile: its generation never falls, a worker that gained authority has a newer
  one, and an unchanged revision means an unchanged snapshot.\<close>

lemma abs_auth_generation: "au_generation (abs_auth s) = st_generation s"
  by (simp add: abs_auth_def)

lemma run_calls_since:
  assumes "wp_inv s" and "list_all call_ok ks"
  shows "st_generation s \<le> st_generation (run_calls ks s)
    \<and> (st_current_worker_id (run_calls ks s) = Some w \<longrightarrow>
         st_current_worker_id s = Some w \<or> st_generation s < st_generation (run_calls ks s))"
  by (rule run_calls_invariant [OF _ assms, where I = "\<lambda>u. st_generation s \<le> st_generation u
        \<and> (st_current_worker_id u = Some w \<longrightarrow> st_current_worker_id s = Some w \<or> st_generation s < st_generation u)"])
    (auto dest!: protocol_step_refines auth_step_generation [OF _ abs_auth_ok] simp: abs_auth_generation split: if_splits)

lemma run_calls_still:
  "wp_inv s \<Longrightarrow> list_all call_ok ks \<Longrightarrow> st_revision (run_calls ks s) = st_revision s \<Longrightarrow> run_calls ks s = s"
proof (induction ks)
  case (Cons k ks)
  then obtain d where d: "perform k s = Inr d" using wp.op_total by fastforce
  note v = wp.op_valid [OF Cons.prems(1) _ d] and m = wp.op_mutates [OF Cons.prems(1) _ d] and u = wp.op_refuses [OF Cons.prems(1) _ d]
  have "st_revision (pd_state d) \<le> st_revision (run_calls ks (pd_state d))"
    using Cons.prems v unfolding run_calls_def by (intro wp.run_revision_le) simp_all
  with Cons.prems d m have "\<not> pd_mutated d" by auto
  with u Cons d show ?case by simp
qed simp

lemma run_calls_append: "run_calls (ks @ ks') s = run_calls ks' (run_calls ks s)"
  by (induction ks arbitrary: s) (auto split: sum.split)

lemma admissible_calls: "run_admissible ks db \<Longrightarrow> list_all call_ok (calls_on t ks)"
  by (induction ks arbitrary: db) (auto simp: calls_on_def)

lemma run_registry_journals: "journals (run_registry ks db) = journals db"
  by (induction ks arbitrary: db) (auto simp: registry_call_journals)

text \<open>Submission reads and writes the journal only.\<close>

lemma submit_armed_row:
  assumes rec: "record_replacement_attempt db a = (db1, Inr u)" and reps: "db_replacements db' = db_replacements db1"
  shows "submit_replacement db' (ra_attempt_id a) now
    = (db'\<lparr>db_replacements := db_replacements db @ [a\<lparr>ra_state := RA_LSM_TAKEOVER_SUBMITTED, ra_updated_at := now\<rparr>]\<rparr>,
       Inr (a\<lparr>ra_state := RA_LSM_TAKEOVER_SUBMITTED, ra_updated_at := now\<rparr>))"
proof -
  note r = record_replacement_ok [OF rec]
  let ?b = "a\<lparr>ra_state := RA_LSM_TAKEOVER_SUBMITTED, ra_updated_at := now\<rparr>"
  have rows: "db_replacements db' = db_replacements db @ [a]" using r reps by simp
  have "map (\<lambda>r. if ra_attempt_id r = ra_attempt_id a then ?b else r) (db_replacements db) = db_replacements db"
    using r by (intro map_idI) (auto simp: tbl_find_None_iff image_iff)
  moreover have "index_free ra_attempt_id ra_task_id ra_unresolved ?b (db_replacements db @ [a])"
    using r by (auto simp: index_free_def ra_unresolved_def ra_pending_def)
  ultimately show ?thesis
    using r by (auto simp: rows submit_replacement_def reading_def update_replacement_attempt_def
        get_replacement_attempt_def journal_update_def tbl_find_append tbl_update_def Let_def)
qed

text \<open>Completion with evidence that has no blocker, on a snapshot that was armed for the candidate \<open>c\<close> and to which any calls were
  made since.\<close>

lemma completion_exact:
  assumes c: "db_consistent db" and f: "tbl_find ra_attempt_id i (db_replacements db) = Some b"
    and ld: "load_worker_protocol db (ra_task_id b) = Inr (run_calls ks s)" and l: "0 < lease_seconds" and ks: "list_all call_ok ks"
    and s: "wp_inv s" "st_task_status s = DT_OPEN" "worker_by_id s (ra_candidate_worker_id b) = Some x" "wl_status x = WL_CANDIDATE"
    and b: "ra_state b = RA_LSM_TAKEOVER_SUBMITTED" "ra_expected_revision b = st_revision s"
      "ra_previous_worker_id b = st_current_worker_id s" "ra_previous_generation b = st_generation s"
    and ev: "completion_blockers db b lsm workspace run ts max_age = Inr []"
  shows "\<not> isl (snd (complete_replacement db i run lsm workspace lease_seconds ts max_age)) \<longleftrightarrow>
    st_revision (run_calls ks s) = ra_expected_revision b \<or> st_current_worker_id (run_calls ks s) = Some (ra_candidate_worker_id b)"
proof -
  let ?s = "run_calls ks s" and ?c = "ra_candidate_worker_id b"
  have inv: "wp_inv ?s" using s(1) ks by (rule run_calls_wp_inv)
  consider (published) "st_current_worker_id ?s = Some ?c" | (still) "st_current_worker_id ?s \<noteq> Some ?c" "st_revision ?s = st_revision s"
    | (moved) "st_current_worker_id ?s \<noteq> Some ?c" "st_revision ?s \<noteq> st_revision s" by blast
  then show ?thesis
  proof cases
    case published
    obtain y where y: "worker_by_id ?s ?c = Some y" "wl_status y = WL_ACTIVE"
      using current_active [OF inv published] by blast
    have "st_current_worker_id s \<noteq> Some ?c"
      using s current_active [of s ?c] by fastforce
    then have "st_generation s < st_generation ?s" using run_calls_since [OF s(1) ks, of ?c] published by simp
    moreover obtain u where "update_replacement_attempt db i RA_COMPLETED (Some run) None ts
        = (db\<lparr>db_replacements := tbl_update ra_attempt_id i (\<lambda>_. u) (db_replacements db)\<rparr>, Inr u)"
      using update_completed [OF f, of "Some run" None ts] b(1) by auto
    ultimately show ?thesis using published y f b ev ld
      by (simp add: complete_replacement_def reading_def get_replacement_attempt_def Let_def when_blocked_def)
  next
    case still
    then have "?s = s" using run_calls_still [OF s(1) ks] by simp
    with complete_succeeds [OF c f _ l s(2-4) b ev] ld still b show ?thesis by fastforce
  next
    case moved
    then have "overtaken i (ra_task_id b) ?c (st_revision s) ?s db" using ld f b by (auto simp: overtaken_def)
    with overtaken_blocked moved b show ?thesis by fastforce
  qed
qed

text \<open>C15. An armed takeover makes progress. Once \<^verbatim>\<open>arm_replacement\<close> has recorded an attempt, its submission goes
  through, whatever worker-protocol calls on this and other tasks other processes make in between. Whatever further calls they make after
  the submission, completing the attempt with evidence that has no blocker succeeds exactly when the protocol revision of the task
  is still the one it was armed at, or the candidate already holds the authority; the time of the completion and what has
  become of the old worker's lease play no part.\<close>

theorem armed_replacement_completes:
  assumes "db_consistent db"
    and arm: "arm_replacement float_text db t c lsm0 workspace0 ts0 max_age0 i = (db1, Inr a)"
    and ks: "run_admissible ks db1" and sub: "submit_replacement (run_registry ks db1) i ts1 = (db2, r)"
    and ks': "run_admissible ks' db2"
    and ev: "completion_blockers (run_registry ks' db2) (a\<lparr>ra_state := RA_LSM_TAKEOVER_SUBMITTED, ra_updated_at := ts1\<rparr>)
      lsm workspace run ts max_age = Inr []"
    and "0 < lease_seconds"
  shows "r = Inr (a\<lparr>ra_state := RA_LSM_TAKEOVER_SUBMITTED, ra_updated_at := ts1\<rparr>)
    \<and> (\<exists>s. load_worker_protocol (run_registry ks' db2) t = Inr s
        \<and> (\<not> isl (snd (complete_replacement (run_registry ks' db2) i run lsm workspace lease_seconds ts max_age))
            \<longleftrightarrow> st_revision s = ra_expected_revision a \<or> st_current_worker_id s = Some c))"
proof -
  let ?b = "a\<lparr>ra_state := RA_LSM_TAKEOVER_SUBMITTED, ra_updated_at := ts1\<rparr>" and ?db1 = "run_registry ks db1" and ?db3 = "run_registry ks' db2"
  obtain s x where s: "load_worker_protocol db t = Inr s" "st_task_status s = DT_OPEN" "worker_by_id s c = Some x"
      "wl_status x = WL_CANDIDATE" "ra_task_id a = t" "ra_candidate_worker_id a = c" "ra_attempt_id a = i"
      "ra_expected_revision a = st_revision s" "ra_previous_worker_id a = st_current_worker_id s"
      "ra_previous_generation a = st_generation s" "record_replacement_attempt db a = (db1, Inr a)"
    using arm_replacement_ok [OF arm] .
  have db1: "db1 = db\<lparr>db_replacements := db_replacements db @ [a]\<rparr>" using record_replacement_ok [OF s(11)] by simp
  note r1 = run_registry_refines [of db1 t s ks, OF _ _ ks]
  have "db_replacements ?db1 = db_replacements db1" using run_registry_journals [of ks db1] by (simp add: journals_def)
  from submit_armed_row [OF s(11) this, of ts1] sub s(7)
  have db2: "db2 = ?db1\<lparr>db_replacements := db_replacements db @ [?b]\<rparr>" and r: "r = Inr ?b" by simp_all
  have r2: "load_worker_protocol ?db3 t = Inr (run_calls (calls_on t ks') (run_calls (calls_on t ks) s))" "db_consistent ?db3"
    using r1 run_registry_refines [of db2 t "run_calls (calls_on t ks) s" ks', OF _ _ ks'] assms(1) s(1)
    by (simp_all add: db1 db2)
  have calls: "run_calls (calls_on t ks') (run_calls (calls_on t ks) s) = run_calls (calls_on t ks @ calls_on t ks') s"
    by (simp add: run_calls_append)
  have "tbl_find ra_attempt_id i (db_replacements ?db3) = Some ?b"
    using record_replacement_ok [OF s(11)] s(7) run_registry_journals [of ks' db2] by (simp add: db2 tbl_find_append journals_def)
  from completion_exact [OF r2(2) this _ assms(7), of "calls_on t ks @ calls_on t ks'" s x lsm workspace run ts max_age]
    r2(1) s ev loaded_inv [OF assms(1) s(1)] admissible_calls [OF ks, of t] admissible_calls [OF ks', of t]
  show ?thesis using r calls by simp
qed

text \<open>Without a call in between the submitted replacement completes; after a heartbeat of the old worker it does not.\<close>

lemma demo_completion_evidence:
  assumes "arm_replacement (\<lambda>_. ''t'') demo_child ''child'' ''w2'' (Some (demo_lsm 50 ''run1'')) (Some (demo_workspace 50)) 50 60 ''r1'' = (db1, Inr a)"
    and "ks = [] \<or> ks = [(''child'', Heartbeat ''w1'' 1 60 60 3)]"
  shows "completion_blockers (run_registry ks demo_submitted) (a\<lparr>ra_state := RA_LSM_TAKEOVER_SUBMITTED, ra_updated_at := 51\<rparr>)
      (Some (demo_lsm 120 ''run2'')) (Some (demo_workspace 120)) ''run2'' 120 60 = Inr []"
proof -
  have "(case demo_armed of (_, Inr a) \<Rightarrow> completion_blockers (run_registry ks demo_submitted)
      (a\<lparr>ra_state := RA_LSM_TAKEOVER_SUBMITTED, ra_updated_at := 51\<rparr>) (Some (demo_lsm 120 ''run2''))
      (Some (demo_workspace 120)) ''run2'' 120 60 | _ \<Rightarrow> Inl AssertionError) = Inr []"
    using assms(2) by (elim disjE) (hypsubst, code_simp)+
  then show ?thesis by (simp add: demo_armed_def assms(1))
qed

theorem armed_replacement_completes_witness:
  "\<not> isl (snd (complete_replacement demo_submitted ''r1'' ''run2'' (Some (demo_lsm 120 ''run2'')) (Some (demo_workspace 120)) 60 120 60))
    \<and> isl (snd (complete_replacement (run_registry [(''child'', Heartbeat ''w1'' 1 60 60 3)] demo_submitted) ''r1'' ''run2''
        (Some (demo_lsm 120 ''run2'')) (Some (demo_workspace 120)) 60 120 60))"
proof -
  obtain db1 a where arm: "arm_replacement (\<lambda>_. ''t'') demo_child ''child'' ''w2'' (Some (demo_lsm 50 ''run1''))
     (Some (demo_workspace 50)) 50 60 ''r1'' = (db1, Inr a)"
    using demo_child_loads(3) unfolding demo_armed_def by (metis isl_def prod.collapse sum.exhaust_sel)
  obtain r where sub: "submit_replacement (run_registry [] db1) ''r1'' 51 = (demo_submitted, r)"
    using arm by (cases "submit_replacement db1 ''r1'' 51") (simp add: demo_submitted_def demo_armed_def)
  let ?k = "(''child'', Heartbeat ''w1'' 1 60 60 3)"
  have "(case demo_armed of (_, Inr a) \<Rightarrow> ra_expected_revision a | _ \<Rightarrow> 0) = 3" by code_simp
  then have a: "ra_expected_revision a = 3" by (simp add: demo_armed_def arm)
  have adm: "run_admissible [?k] demo_submitted" by code_simp
  have s0: "(case load_worker_protocol demo_submitted ''child'' of Inl _ \<Rightarrow> 0 | Inr s \<Rightarrow> st_revision s) = 3" by code_simp
  have s1: "(case load_worker_protocol (run_registry [?k] demo_submitted) ''child'' of Inl _ \<Rightarrow> (3, None)
      | Inr s \<Rightarrow> (st_revision s, st_current_worker_id s)) = (4, Some ''w1'')" by code_simp
  show ?thesis
    using armed_replacement_completes [OF demo_child_loads(1) arm _ sub _ demo_completion_evidence [OF arm, of "[]"], of 60]
      armed_replacement_completes [OF demo_child_loads(1) arm _ sub adm demo_completion_evidence [OF arm, of "[?k]"], of 60] a s0 s1
    by auto
qed

text \<open>The takeover is requested at most once: in any sequence of arming, submitting, completing and
  raw journal calls, by any callers, on any registry, at most one submission of an attempt returns, so
  at most one caller is told to send the session takeover of that attempt.\<close>

theorem takeover_submitted_at_most_once: "submissions float_text i cs db \<le> 1"
proof (induction cs arbitrary: db)
  case (Cons c cs)
  have "submissions float_text i cs (fst (submit_replacement db i now)) = 0"
    if "\<not> isl (snd (submit_replacement db i now))" for now
    using submit_ok_states [OF that] no_resubmission by fastforce
  with Cons show ?case by (auto split: replacement_call.splits)
qed simp

text \<open>Completions of one attempt, each with its own evidence, lease length and time.\<close>

definition completions :: "string \<Rightarrow>
    (string \<times> lsm_observation option \<times> workspace_observation option \<times> real \<times> timestamp \<times> real) list
    \<Rightarrow> replacement_call list" where
  "completions i = map (\<lambda>(run, lsm, ws, lease, ts, age). Complete i run lsm ws lease ts age)"

lemma overtaken_forever: "overtaken i t c rv s db \<Longrightarrow> overtaken i t c rv s (run_replacements ft (completions i args) db)"
  by (induction args arbitrary: db) (auto simp: completions_def overtaken_blocked)

text \<open>C16. A crash between the two protocol commits of the fence-then-claim route is not recovered by
  completing again. Once the abandonment of the old worker is committed and the claim of the candidate
  is not, the protocol revision no longer is the attempt's expected one, so no sequence of
  \<^verbatim>\<open>complete_replacement\<close> calls, whatever their evidence, ever resolves the attempt or gives the task a
  worker.\<close>

theorem crashed_fence_never_completes:
  assumes "db_consistent db" and "tbl_find ra_attempt_id i (db_replacements db) = Some a"
    and "ra_state a \<in> {RA_LSM_TAKEOVER_SUBMITTED, RA_RECONCILE_REQUIRED}"
    and "load_worker_protocol db (ra_task_id a) = Inr s" and "ra_expected_revision a = st_revision s"
    and "protocol_abandon_worker db (ra_task_id a) w (st_generation s) (st_revision s) ts = (db1, Inr d)"
    and "pd_accepted d"
  shows "\<exists>u s'. tbl_find ra_attempt_id i (db_replacements (run_replacements ft (completions i args) db1)) = Some u
    \<and> ra_pending (ra_state u)
    \<and> load_worker_protocol (run_replacements ft (completions i args) db1) (ra_task_id a) = Inr s'
    \<and> st_current_worker_id s' = None"
proof -
  let ?k = "Abandon w (st_generation s) ts (st_revision s)"
  have inv: "wp_inv s" by (rule loaded_inv [OF assms(1,4)])
  from assms(6) have call: "registry_call db (ra_task_id a) ?k = (db1, Inr d)" by (simp add: protocol_calls)
  then have s1: "load_worker_protocol db1 (ra_task_id a) = Inr (pd_state d)" "perform ?k s = Inr d" "protocol_frame db (ra_task_id a) db1"
    using registry_call_refines [OF assms(1,4), of ?k] registry_call_journals [of db "ra_task_id a" ?k]
    by (auto simp: protocol_frame_def simp del: perform.simps)
  have none: "st_current_worker_id (pd_state d) = None" using abandon_effect [OF s1(2) assms(7)] by simp
  have "st_revision (pd_state d) \<noteq> st_revision s"
    using s1(2) assms(7) inv
    by (auto simp: abandon_worker_def reject_def dest!: accept_Inr_state preflight_Some_rejected
        split: sum.splits option.splits if_splits)
  moreover have "tbl_find ra_attempt_id i (db_replacements db1) = Some a"
    using s1(3) assms(2) by (simp add: protocol_frame_def journals_def)
  ultimately have "overtaken i (ra_task_id a) (ra_candidate_worker_id a) (ra_expected_revision a) (pd_state d) db1"
    using s1(1) none assms(3,5) by (auto simp: overtaken_def)
  from overtaken_forever [OF this, of ft args] none show ?thesis
    by (auto simp: overtaken_def ra_pending_def)
qed

theorem crashed_fence_never_completes_witness:
  "\<exists>u s'. tbl_find ra_attempt_id ''r1'' (db_replacements (run_replacements (\<lambda>_. ''t'')
        (completions ''r1'' [(''run2'', Some (demo_lsm 52 ''run2''), Some (demo_workspace 52), 60, 52, 60)])
        (fst (protocol_abandon_worker demo_submitted ''child'' ''w1'' 1 3 52)))) = Some u
    \<and> ra_pending (ra_state u)
    \<and> load_worker_protocol (run_replacements (\<lambda>_. ''t'')
        (completions ''r1'' [(''run2'', Some (demo_lsm 52 ''run2''), Some (demo_workspace 52), 60, 52, 60)])
        (fst (protocol_abandon_worker demo_submitted ''child'' ''w1'' 1 3 52))) ''child'' = Inr s'
    \<and> st_current_worker_id s' = None"
proof -
  obtain a where a: "tbl_find ra_attempt_id ''r1'' (db_replacements demo_submitted) = Some a"
    using demo_submitted_ok(3) by auto
  have "map_option (\<lambda>a. (ra_task_id a, ra_state a, ra_expected_revision a))
      (tbl_find ra_attempt_id ''r1'' (db_replacements demo_submitted)) = Some (''child'', RA_LSM_TAKEOVER_SUBMITTED, 3)"
    by code_simp
  with a have t: "ra_task_id a = ''child''" "ra_state a = RA_LSM_TAKEOVER_SUBMITTED" "ra_expected_revision a = 3" by simp_all
  have "(case load_worker_protocol demo_submitted ''child'' of Inl _ \<Rightarrow> (0, 0) | Inr s \<Rightarrow> (st_generation s, st_revision s)) = (1, 3)"
    by code_simp
  then obtain s where s: "load_worker_protocol demo_submitted (ra_task_id a) = Inr s" "st_generation s = 1" "st_revision s = 3"
    by (auto simp: t split: sum.splits)
  let ?r = "protocol_abandon_worker demo_submitted ''child'' ''w1'' 1 3 52"
  have "(case ?r of (_, Inl _) \<Rightarrow> False | (_, Inr d) \<Rightarrow> pd_accepted d)" by code_simp
  then obtain d where d: "protocol_abandon_worker demo_submitted (ra_task_id a) ''w1'' (st_generation s) (st_revision s) 52 = (fst ?r, Inr d)"
      "pd_accepted d" by (cases ?r) (auto simp: t s split: sum.splits)
  from crashed_fence_never_completes [OF demo_submitted_ok(1) a _ s(1) _ d] show ?thesis by (simp add: t s)
qed

end
