(* ===== verification/Child_Urls.thy ===== *)
theory Child_Urls
  imports Url Models
begin

text \<open>
  The URLs of \<^verbatim>\<open>child_spawn.py\<close>: which web project a URL belongs to, which conversation it names, the
  spellings under which the browser may show the same conversation, and the ownership tag in the
  fragment of a project window.
\<close>

section \<open>Recognising routes\<close>

text \<open>The groups of \<^verbatim>\<open>_PROJECT_TOKEN\<close> and \<^verbatim>\<open>_CONVERSATION_SEGMENT\<close> under \<^verbatim>\<open>fullmatch\<close>.\<close>

definition project_token :: "string \<Rightarrow> string option" where
  "project_token s =
     (let ident = take 32 (drop 4 s); rest = drop 36 s
      in if starts_with ''g-p-'' s \<and> length ident = 32 \<and> list_all is_hex ident
           \<and> (rest = [] \<or> (hd rest = CHR ''-'' \<and> tl rest \<noteq> [] \<and> CHR ''/'' \<notin> set (tl rest)))
         then Some ident else None)"

definition conversation_segment :: "string \<Rightarrow> bool" where
  "conversation_segment s = (8 \<le> length s \<and> list_all (\<lambda>c. is_hex c \<or> c = CHR ''-'') s)"

definition owner_token_ok :: "string \<Rightarrow> bool" where
  "owner_token_ok s = (8 \<le> length s \<and> length s \<le> 160
     \<and> list_all (\<lambda>c. is_alpha c \<or> is_digit c \<or> c \<in> {CHR ''_'', CHR ''.'', CHR '':'', CHR ''-''}) s)"

definition segments :: "string \<Rightarrow> string list" where
  "segments path = filter (\<lambda>s. s \<noteq> []) (split_on CHR ''/'' path)"

definition on_web_chat :: "split_result \<Rightarrow> bool" where
  "on_web_chat u = (lower (ur_scheme u) = ''https'' \<and> ur_hostname u = Some ''chatgpt.com'')"

definition project_parts :: "string \<Rightarrow> (string \<times> bool) result" where
  "project_parts url =
     (case urlsplit (strip url) of
        Inl e \<Rightarrow> Inl (ValueError ''invalid web project URL'')
      | Inr u \<Rightarrow>
          rbind (guard (on_web_chat u) (ValueError ''web project URL must use https://chatgpt.com'')) (\<lambda>_.
          rbind (if present (ur_username u) \<or> present (ur_password u) then Inr True
                 else rbind (ur_port u) (\<lambda>p. Inr (p \<noteq> None \<and> p \<noteq> Some 0))) (\<lambda>extra.
          rbind (guard (\<not> extra) (ValueError ''web project URL must not contain credentials or a custom port'')) (\<lambda>_.
          rbind (guard (ur_query u = [] \<and> ur_fragment u = [])
            (ValueError ''web project URL must not contain query parameters or a fragment'')) (\<lambda>_.
          let ss = segments (ur_path u) in
          rbind (guard (length ss \<in> {2, 3} \<and> ss ! 0 = ''g'') (ValueError ''web project URL must point to one project root'')) (\<lambda>_.
          case project_token (ss ! 1) of
            None \<Rightarrow> Inl (ValueError ''web project URL does not contain a supported g-p project id'')
          | Some ident \<Rightarrow>
              rbind (guard (\<not> (length ss = 3 \<and> ss ! 2 \<noteq> ''project''))
                (ValueError ''web project URL must not point to an existing conversation'')) (\<lambda>_.
              Inr (lower ident, length ss = 3))))))))"

definition web_project_id :: "string \<Rightarrow> string result" where
  "web_project_id url = rbind (project_parts url) (\<lambda>(project_id, _). Inr project_id)"

text \<open>The two identifiers of a conversation route \<^verbatim>\<open>/g/<token>/c/<conversation>\<close>.\<close>

definition route_identity :: "split_result \<Rightarrow> (string \<times> string) option" where
  "route_identity u =
     (let ss = segments (ur_path u)
      in if length ss = 4 \<and> ss ! 0 = ''g'' \<and> ss ! 2 = ''c'' \<and> conversation_segment (ss ! 3)
         then (case project_token (ss ! 1) of None \<Rightarrow> None | Some ident \<Rightarrow> Some (lower ident, lower (ss ! 3))) else None)"

definition web_conversation_project_id :: "string \<Rightarrow> string option" where
  "web_conversation_project_id url =
     (case urlsplit (strip url) of Inl _ \<Rightarrow> None
      | Inr u \<Rightarrow> if on_web_chat u then map_option fst (route_identity u) else None)"

definition conversation_identity :: "string \<Rightarrow> (string \<times> string) option" where
  "conversation_identity url =
     (case urlsplit (strip url) of Inl _ \<Rightarrow> None
      | Inr u \<Rightarrow> if on_web_chat u \<and> ur_query u = [] \<and> ur_fragment u = [] then route_identity u else None)"

definition conversation_url_matches :: "string \<Rightarrow> string \<Rightarrow> bool" where
  "conversation_url_matches left right =
     (conversation_identity left \<noteq> None \<and> conversation_identity left = conversation_identity right)"

definition web_route_project_id :: "string \<Rightarrow> string option" where
  "web_route_project_id url =
     (case urlsplit (strip url) of Inl _ \<Rightarrow> None
      | Inr u \<Rightarrow> let ss = segments (ur_path u)
          in if on_web_chat u \<and> 2 \<le> length ss \<and> ss ! 0 = ''g'' then map_option lower (project_token (ss ! 1)) else None)"

section \<open>Building URLs\<close>

text \<open>\<^verbatim>\<open>tuple(dict.fromkeys(xs))\<close>: the first occurrences in order.\<close>

fun first_occurrences :: "'a list \<Rightarrow> 'a list" where
  "first_occurrences [] = []"
| "first_occurrences (x # xs) = x # filter (\<lambda>y. y \<noteq> x) (first_occurrences xs)"

definition with_path :: "split_result \<Rightarrow> string \<Rightarrow> string \<Rightarrow> string" where
  "with_path u path fragment = urlunsplit (u\<lparr>ur_path := path, ur_query := [], ur_fragment := fragment\<rparr>)"

definition conversation_url_candidates :: "string \<Rightarrow> string list" where
  "conversation_url_candidates url =
     (case (conversation_identity url, urlsplit (strip url)) of
        (Some (project_id, conversation_id), Inr u) \<Rightarrow>
          let token = segments (ur_path u) ! 1
          in first_occurrences
            [with_path u (''/g/'' @ token @ ''/c/'' @ conversation_id) [],
             with_path u (''/g/g-p-'' @ project_id @ ''/c/'' @ conversation_id) []]
      | _ \<Rightarrow> [strip url])"

definition owner_fragment :: "string \<Rightarrow> string" where
  "owner_fragment token = ''lws-child='' @ token"

definition owned_project_url_candidates :: "child_spawn_attempt \<Rightarrow> string list result" where
  "owned_project_url_candidates a =
     rbind (urlsplit (cs_project_url a)) (\<lambda>u.
       let ss = segments (ur_path u) in
       if length ss < 2 then Inl IndexError
       else Inr (first_occurrences (map (\<lambda>path. with_path u path (owner_fragment (cs_owner_token a)))
              [''/g/'' @ ss ! 1, ''/g/'' @ ss ! 1 @ ''/project'', ''/g/g-p-'' @ cs_project_id a,
               ''/g/g-p-'' @ cs_project_id a @ ''/project''])))"

definition tagged_project_url :: "string \<Rightarrow> string \<Rightarrow> string result" where
  "tagged_project_url project_url owner_token =
     rbind (web_project_id project_url) (\<lambda>_.
     let owner = strip owner_token in
     rbind (guard (owner_token_ok owner) (ValueError ''child-spawn owner token is invalid'')) (\<lambda>_.
     rbind (urlsplit project_url) (\<lambda>u. Inr (with_path u (ur_path u) (owner_fragment owner)))))"

definition owned_project_root_matches :: "string \<Rightarrow> child_spawn_attempt \<Rightarrow> bool" where
  "owned_project_root_matches url a =
     (case urlsplit (strip url) of Inl _ \<Rightarrow> False
      | Inr u \<Rightarrow> ur_query u = [] \<and> ur_fragment u = owner_fragment (cs_owner_token a)
          \<and> (case web_project_id (with_path u (ur_path u) []) of Inl _ \<Rightarrow> False | Inr p \<Rightarrow> p = cs_project_id a))"

text \<open>\<^verbatim>\<open>_prompt_equivalent\<close>: equal up to line ends and one final newline.\<close>

fun unix_lines :: "string \<Rightarrow> string" where
  "unix_lines [] = []"
| "unix_lines [c] = [c]"
| "unix_lines (c # d # s) = (if c = CHR 0x0D \<and> d = CHR 0x0A then d # unix_lines s else c # unix_lines (d # s))"

definition prompt_equivalent :: "string option \<Rightarrow> string \<Rightarrow> bool" where
  "prompt_equivalent observed expected =
     (let left = unix_lines (case observed of None \<Rightarrow> [] | Some s \<Rightarrow> s); right = unix_lines expected
      in left = right \<or> (ends_with [CHR 0x0A] right \<and> left = butlast right))"

section \<open>Properties\<close>

lemma segments_empty [simp]: "segments [] = []"
  by (simp add: segments_def)

lemma segments_slash [simp]: "segments (CHR ''/'' # s) = segments s"
  by (simp add: segments_def)

lemma segments_step: "CHR ''/'' \<notin> set w \<Longrightarrow> w \<noteq> [] \<Longrightarrow> segments (w @ CHR ''/'' # s) = w # segments s"
  by (simp add: segments_def split_on_append)

lemma segments_last: "CHR ''/'' \<notin> set w \<Longrightarrow> w \<noteq> [] \<Longrightarrow> segments w = [w]"
  by (simp add: segments_def split_on_plain)

lemma segments_parts: "w \<in> set (segments p) \<Longrightarrow> set w \<subseteq> set p - {CHR ''/''} \<and> w \<noteq> []"
  using split_on_parts by (fastforce simp: segments_def)

text \<open>What a web-chat URL looks like after splitting.\<close>

lemma on_web_chat_parts:
  assumes "on_web_chat u" and "url_wf u"
  shows "ur_scheme u = ''https''" and "ur_netloc u \<noteq> []"
proof -
  show "ur_scheme u = ''https''" using assms by (simp add: on_web_chat_def url_wf_def)
  show "ur_netloc u \<noteq> []"
    using assms(1) by (auto simp: on_web_chat_def ur_hostname_def hostinfo_def rpartition_at_def partition_at_def)
qed

lemma on_web_chat_update [simp]: "on_web_chat (u\<lparr>ur_path := p, ur_query := q, ur_fragment := f\<rparr>) = on_web_chat u"
  by (simp add: on_web_chat_def ur_hostname_def hostinfo_def)

lemma https_scheme: "is_alpha (hd ''https'')" "list_all scheme_char ''https''"
  by code_simp+

lemma urlsplit_with_path:
  assumes wf: "url_wf u" and web: "on_web_chat u"
    and p: "CHR ''?'' \<notin> set p" "CHR ''#'' \<notin> set p" "plain_url p" "p = [] \<or> hd p = CHR ''/''" and f: "plain_url f"
    and blank: "f \<noteq> [] \<and> \<not> is_space (last f) \<or> f = [] \<and> p \<noteq> [] \<and> \<not> is_space (last p)"
  shows "urlsplit (strip (with_path u p f)) = Inr (u\<lparr>ur_path := p, ur_query := [], ur_fragment := f\<rparr>)"
proof -
  let ?v = "u\<lparr>ur_path := p, ur_query := [], ur_fragment := f\<rparr>"
  note s = on_web_chat_parts [OF web wf]
  have "url_wf ?v" using wf p f by (auto simp: url_wf_def plain_url_def)
  moreover have "strip (with_path u p f) = with_path u p f"
  proof (rule strip_plain, intro disjI2 conjI)
    have "with_path u p f = ''https://'' @ ur_netloc u @ p @ (if f \<noteq> [] then ''#'' @ f else [])"
      using s p(4) by (cases p) (auto simp: with_path_def urlunsplit_def Let_def starts_with_def)
    then show "\<not> is_space (hd (with_path u p f))" "\<not> is_space (last (with_path u p f))"
      using blank by (auto simp: is_space_def)
  qed
  ultimately show ?thesis using urlsplit_urlunsplit [of ?v] s https_scheme by (simp add: with_path_def)
qed

lemma hex_facts: "is_hex c \<Longrightarrow> c \<noteq> CHR ''/'' \<and> c \<noteq> CHR ''?'' \<and> c \<noteq> CHR ''#'' \<and> \<not> unsafe_char c \<and> \<not> is_space c"
  by (auto simp: is_hex_def is_digit_def unsafe_char_def is_space_def char_code_def Let_def)

lemma project_token_lower:
  assumes "project_token s = Some i"
  shows "project_token (''g-p-'' @ lower i) = Some (lower i)" and "list_all is_hex (lower i)"
  using assms
  by (auto simp: project_token_def starts_with_def Let_def lower_def list_all_iff split: if_splits)

lemma conversation_segment_facts:
  assumes "conversation_segment s"
  shows "conversation_segment (lower s)" and "CHR ''/'' \<notin> set (lower s)" and "lower s \<noteq> []"
    and "plain_url (lower s)" and "CHR ''?'' \<notin> set (lower s)" and "CHR ''#'' \<notin> set (lower s)"
    and "\<not> is_space (last (lower s))"
proof -
  have dash: "lower_char CHR ''-'' = CHR ''-''" by code_simp
  have ch: "is_hex c \<or> c = CHR ''-''" if "c \<in> set (lower s)" for c
    using that assms dash by (auto simp: conversation_segment_def list_all_iff lower_def)
  have ne: "lower s \<noteq> []" using assms by (auto simp: conversation_segment_def lower_def)
  show "lower s \<noteq> []" by (rule ne)
  show "conversation_segment (lower s)" using assms ch by (simp add: conversation_segment_def list_all_iff)
  show "CHR ''/'' \<notin> set (lower s)" "CHR ''?'' \<notin> set (lower s)" "CHR ''#'' \<notin> set (lower s)"
    using ch hex_facts by blast+
  show "plain_url (lower s)" using ch hex_facts by (fastforce simp: plain_url_def list_all_iff unsafe_char_def char_code_def)
  show "\<not> is_space (last (lower s))"
    using ch [OF last_in_set [OF ne]] hex_facts by (auto simp: is_space_def)
qed

text \<open>The identity of a conversation route rebuilt from a token and a conversation identifier.\<close>

lemma rebuilt_identity:
  assumes wf: "url_wf u" and web: "on_web_chat u" and tok: "project_token tok = Some i"
    and chars: "CHR ''/'' \<notin> set tok" "CHR ''?'' \<notin> set tok" "CHR ''#'' \<notin> set tok" "plain_url tok"
    and seg: "conversation_segment s"
  shows "conversation_identity (with_path u (''/g/'' @ tok @ ''/c/'' @ lower s) []) = Some (lower i, lower s)"
proof -
  let ?p = "''/g/'' @ tok @ ''/c/'' @ lower s"
  note s = conversation_segment_facts [OF seg]
  have "tok \<noteq> []" using tok by (auto simp: project_token_def starts_with_def Let_def split: if_splits)
  then have segs: "segments ?p = [''g'', tok, ''c'', lower s]"
    using chars s(2,3) segments_step [of "''g''" "tok @ ''/c/'' @ lower s"] segments_step [of tok "''c/'' @ lower s"]
      segments_step [of "''c''" "lower s"] segments_last [of "lower s"] by simp
  have "plain_url ?p" using chars s(4) by (auto simp: plain_url_def unsafe_char_def char_code_def)
  moreover have "\<not> is_space (last ?p)" using s(3,7) by simp
  ultimately have "urlsplit (strip (with_path u ?p [])) = Inr (u\<lparr>ur_path := ?p, ur_query := [], ur_fragment := []\<rparr>)"
    using wf web chars s by (intro urlsplit_with_path) (auto simp: plain_url_def)
  then show ?thesis
    using web segs tok s(1) by (simp add: conversation_identity_def route_identity_def)
qed

text \<open>Every spelling under which a conversation is looked for names that conversation: the candidates of a
  conversation URL, the one with the original project token and the canonical one, have the same project
  and conversation identity as the URL itself.\<close>

theorem candidates_keep_identity:
  assumes "conversation_identity url \<noteq> None"
  shows "list_all (\<lambda>c. conversation_url_matches c url) (conversation_url_candidates url)"
proof -
  from assms obtain u where u: "urlsplit (strip url) = Inr u" and web: "on_web_chat u"
      and route: "conversation_identity url = route_identity u"
    by (auto simp: conversation_identity_def split: sum.splits if_splits)
  with assms obtain i where ss: "length (segments (ur_path u)) = 4" "conversation_segment (segments (ur_path u) ! 3)"
      and tok: "project_token (segments (ur_path u) ! 1) = Some i"
      and ident: "conversation_identity url = Some (lower i, lower (segments (ur_path u) ! 3))"
    by (auto simp: route_identity_def Let_def split: if_splits option.splits)
  let ?tok = "segments (ur_path u) ! 1" and ?s = "segments (ur_path u) ! 3"
  have wf: "url_wf u" using urlsplit_wf [OF u] .
  have "?tok \<in> set (segments (ur_path u))" using ss(1) by simp
  then have "set ?tok \<subseteq> set (ur_path u) - {CHR ''/''}" using segments_parts by blast
  then have chars: "CHR ''/'' \<notin> set ?tok" "CHR ''?'' \<notin> set ?tok" "CHR ''#'' \<notin> set ?tok" "plain_url ?tok"
    using wf by (auto simp: url_wf_def plain_url_def list_all_iff)
  have "conversation_identity (with_path u (''/g/'' @ ?tok @ ''/c/'' @ lower ?s) []) = Some (lower i, lower ?s)"
    using rebuilt_identity [OF wf web tok chars ss(2)] .
  moreover have "conversation_identity (with_path u (''/g/'' @ (''g-p-'' @ lower i) @ ''/c/'' @ lower ?s) [])
      = Some (lower (lower i), lower ?s)"
  proof (rule rebuilt_identity [OF wf web project_token_lower(1) [OF tok] _ _ _ _ ss(2)])
    have "list_all is_hex (lower i)" using project_token_lower(2) [OF tok] .
    then show "CHR ''/'' \<notin> set (''g-p-'' @ lower i)" "CHR ''?'' \<notin> set (''g-p-'' @ lower i)"
      "CHR ''#'' \<notin> set (''g-p-'' @ lower i)" "plain_url (''g-p-'' @ lower i)"
      using hex_facts by (auto simp: list_all_iff plain_url_def unsafe_char_def char_code_def)
  qed
  ultimately show ?thesis
    using ident u by (simp add: conversation_url_candidates_def conversation_url_matches_def Let_def)
qed

definition demo_project_id :: string where
  "demo_project_id = replicate 31 (CHR ''a'') @ ''B''"

definition demo_conversation :: string where
  "demo_conversation = ''https://ChatGPT.com/g/g-p-'' @ demo_project_id @ ''-demo//c/0123abCD''"

theorem candidates_keep_identity_witness:
  "conversation_identity demo_conversation \<noteq> None
    \<and> conversation_url_candidates demo_conversation
      = [''https://ChatGPT.com/g/g-p-'' @ demo_project_id @ ''-demo/c/0123abcd'',
         ''https://ChatGPT.com/g/g-p-'' @ lower demo_project_id @ ''/c/0123abcd'']
    \<and> list_all (\<lambda>c. conversation_url_matches c demo_conversation) (conversation_url_candidates demo_conversation)"
proof -
  have "conversation_identity demo_conversation \<noteq> None" by code_simp
  moreover have "conversation_url_candidates demo_conversation
      = [''https://ChatGPT.com/g/g-p-'' @ demo_project_id @ ''-demo/c/0123abcd'',
         ''https://ChatGPT.com/g/g-p-'' @ lower demo_project_id @ ''/c/0123abcd'']" by code_simp
  ultimately show ?thesis using candidates_keep_identity [of demo_conversation] by blast
qed

lemma letter_facts: "is_alpha c \<or> is_digit c \<Longrightarrow> \<not> unsafe_char c \<and> \<not> is_space c"
  by (auto simp: is_alpha_def is_digit_def unsafe_char_def is_space_def char_code_def Let_def)

lemma mark_facts: "c \<in> {CHR ''_'', CHR ''.'', CHR '':'', CHR ''-''} \<Longrightarrow> \<not> unsafe_char c \<and> \<not> is_space c"
  by (auto simp: unsafe_char_def is_space_def char_code_def Let_def)

lemma owner_token_facts:
  assumes "owner_token_ok s"
  shows "plain_url (owner_fragment s)" and "\<not> is_space (last (owner_fragment s))"
proof -
  have ch: "\<not> unsafe_char c \<and> \<not> is_space c" if "c \<in> set s" for c
    using that assms letter_facts [of c] mark_facts [of c] by (auto simp: owner_token_ok_def list_all_iff)
  then show "plain_url (owner_fragment s)"
    by (auto simp: plain_url_def owner_fragment_def list_all_iff unsafe_char_def char_code_def)
  have "s \<noteq> []" using assms by (auto simp: owner_token_ok_def)
  then show "\<not> is_space (last (owner_fragment s))" using ch by (simp add: owner_fragment_def)
qed

lemma project_parts_url:
  assumes "project_parts url = Inr x"
  obtains u where "urlsplit (strip url) = Inr u" "on_web_chat u" "ur_query u = []" "ur_fragment u = []" "ur_path u \<noteq> []"
proof -
  from assms obtain u where u: "urlsplit (strip url) = Inr u" "on_web_chat u" "ur_query u = []" "ur_fragment u = []"
      "length (segments (ur_path u)) \<in> {2, 3}"
    by (auto simp: project_parts_def Let_def split: sum.splits)
  then have "ur_path u \<noteq> []" by auto
  with u that show thesis by blast
qed

text \<open>The ownership tag identifies the window: a tagged project URL, observed again, is accepted as the
  owned project window of a spawn attempt exactly when the attempt carries the tag's owner token and the
  URL's project.\<close>

theorem tagged_url_roundtrip:
  assumes tagged: "tagged_project_url url owner = Inr t" and blanks: "list_all (\<lambda>c. \<not> is_space c) url"
  shows "owned_project_root_matches t a \<longleftrightarrow>
    cs_owner_token a = strip owner \<and> web_project_id url = Inr (cs_project_id a)"
proof -
  have strip: "strip url = url" using blanks by (intro strip_plain) (auto simp: list_all_iff)
  from tagged obtain x u where x: "project_parts url = Inr x" and ok: "owner_token_ok (strip owner)"
      and split: "urlsplit url = Inr u" and t: "t = with_path u (ur_path u) (owner_fragment (strip owner))"
    by (auto simp: tagged_project_url_def web_project_id_def Let_def)
  from project_parts_url [OF x] have u: "on_web_chat u" "ur_query u = []" "ur_fragment u = []" "ur_path u \<noteq> []"
    using split strip by auto
  have wf: "url_wf u" using urlsplit_wf [OF split] .
  then have path: "CHR ''?'' \<notin> set (ur_path u)" "CHR ''#'' \<notin> set (ur_path u)" "plain_url (ur_path u)"
      "ur_path u = [] \<or> hd (ur_path u) = CHR ''/''"
    using on_web_chat_parts [OF u(1) wf] by (auto simp: url_wf_def)
  have "set (ur_path u) \<subseteq> set url" using urlsplit_path_chars [OF split] .
  then have space: "\<not> is_space (last (ur_path u))" using blanks last_in_set [OF u(4)] by (auto simp: list_all_iff)
  note o = owner_token_facts [OF ok]
  have "urlsplit (strip t) = Inr (u\<lparr>ur_path := ur_path u, ur_query := [], ur_fragment := owner_fragment (strip owner)\<rparr>)"
    unfolding t using wf u path o by (intro urlsplit_with_path) (auto simp: owner_fragment_def)
  moreover have "urlsplit (strip (with_path u (ur_path u) [])) = Inr (u\<lparr>ur_path := ur_path u, ur_query := [], ur_fragment := []\<rparr>)"
    using wf u path space by (intro urlsplit_with_path) (auto simp: plain_url_def)
  then have "urlsplit (strip (with_path u (ur_path u) [])) = urlsplit (strip url)"
    using split strip u by simp
  then have "web_project_id (with_path u (ur_path u) []) = web_project_id url"
    by (simp add: web_project_id_def project_parts_def)
  ultimately show ?thesis
    by (auto simp: owned_project_root_matches_def with_path_def owner_fragment_def split: sum.splits)
qed

definition demo_project_url :: string where
  "demo_project_url = ''https://chatgpt.com/g/g-p-'' @ demo_project_id @ ''/project''"

definition demo_owned :: "string \<Rightarrow> child_spawn_attempt" where
  "demo_owned token = \<lparr>cs_attempt_id = ''s1'', cs_child_task_id = ''child'', cs_state = CS_WINDOW_OPEN_SUBMITTED,
     cs_owner_token = token, cs_project_url = demo_project_url, cs_project_id = lower demo_project_id,
     cs_tagged_project_url = [], cs_prompt_sha256 = [], cs_chrome_executable = [], cs_created_at = 0, cs_updated_at = 0,
     cs_window_handle = None, cs_browser_pid = None, cs_conversation_url = None, cs_worker_id = None,
     cs_last_error = None, cs_metadata = []\<rparr>"

theorem tagged_url_roundtrip_witness:
  "\<exists>t. tagged_project_url demo_project_url '' owner-01 '' = Inr t \<and> owned_project_root_matches t (demo_owned ''owner-01'')
    \<and> \<not> owned_project_root_matches t (demo_owned ''owner-02'')"
proof -
  have "\<not> isl (tagged_project_url demo_project_url '' owner-01 '')" by code_simp
  then obtain t where t: "tagged_project_url demo_project_url '' owner-01 '' = Inr t" by (metis isl_def sum.exhaust_sel)
  moreover have "list_all (\<lambda>c. \<not> is_space c) demo_project_url" by code_simp
  moreover have "strip '' owner-01 '' = ''owner-01''" by code_simp
  moreover have "web_project_id demo_project_url = Inr (lower demo_project_id)" by code_simp
  ultimately show ?thesis
    using tagged_url_roundtrip [of demo_project_url "'' owner-01 ''" t] by (auto simp: demo_owned_def)
qed

end
