(* ===== verification/Child_Safety.thy ===== *)
theory Child_Safety
  imports Child_Dispatch Write_Ahead
begin

text \<open>
  What the child-dispatch contract guarantees: creating it is idempotent for a named child and only for
  a named child, the logical session is bound once, and the journal of spawn attempts is a write-ahead
  log.
\<close>

section \<open>Stored metadata\<close>

lemma map_of_filter: "map_of xs k = (case filter (\<lambda>p. fst p = k) xs of [] \<Rightarrow> None | p # _ \<Rightarrow> Some (snd p))"
  by (induction xs) auto

lemma map_of_sort_key: "map_of (sort_key fst m) k = map_of m k"
  unfolding map_of_filter by (simp add: sort_key_stable)

lemma json_eq_refl [simp]: "json_eq x x"
  by (cases x) simp_all

lemma json_same_sorted: "json_same (sort_key fst m) m"
  by (auto simp: json_same_def json_get_def map_of_sort_key list_all_iff)

section \<open>Creating a contract\<close>

text \<open>The recorded contract is the one requested, and nothing stands in the way of finding it again.\<close>

definition contracted :: "(string \<Rightarrow> string) \<Rightarrow> registry \<Rightarrow> dispatch_request \<Rightarrow> child_dispatch_record \<Rightarrow> bool" where
  "contracted sha256 db q d \<longleftrightarrow> check_request q = Inr () \<and> find_task db (dq_parent_task_id q) \<noteq> None
     \<and> (\<exists>p. find_protocol db (dq_parent_task_id q) = Some p \<and> pt_task_status p = dt_value DT_OPEN)
     \<and> find_contract db (dq_parent_task_id q) (dq_child_key q) = Some d \<and> same_contract sha256 db d q"

lemma find_snoc: "find P xs = None \<Longrightarrow> find P (xs @ [x]) = (if P x then Some x else None)"
  by (induction xs) (auto split: if_splits)

lemma write_contract_contracted:
  assumes w: "write_contract sha256 db q root_id dispatch_id now = Inr db'"
    and "check_request q = Inr ()" and parent: "find_task db (dq_parent_task_id q) \<noteq> None"
    and p: "find_protocol db (dq_parent_task_id q) = Some p" "pt_task_status p = dt_value DT_OPEN"
    and new: "find_contract db (dq_parent_task_id q) (dq_child_key q) = None"
    and child: "dq_child_task_id q = Some c" "find_task db c = None"
  shows "\<exists>d. get_child_dispatch db' c = Inr d \<and> contracted sha256 db' q d"
proof -
  let ?t = "new_task_row c (dq_project q) (dq_objective q) (dq_cwd q) None now"
  from w child obtain pr d where
    db': "db' = db\<lparr>db_tasks := db_tasks db @ [?t], db_protocol := db_protocol db @ [pr], db_dispatches := db_dispatches db @ [d]\<rparr>"
    and d: "cd_child_task_id d = c" "cd_parent_task_id d = dq_parent_task_id q" "cd_child_key d = dq_child_key q"
      "cd_prompt_sha256 d = sha256 (dq_prompt_text q)" "cd_expected_branch d = dq_expected_branch q"
      "cd_base_ref d = dq_base_ref q" "cd_web_project_url d = dq_web_project_url q"
      "cd_metadata d = sort_key fst (dq_metadata q)"
    and fresh: "\<not> list_ex (\<lambda>x. cd_child_task_id x = c) (db_dispatches db)"
    by (auto simp: write_contract_def insert_task_row_def insert_protocol_row_def insert_dispatch_def Let_def
        list_ex_iff split: if_splits)
  have "tr_task_id ?t = c" by (simp add: new_task_row_def)
  then have t: "find_task db' c = Some ?t" "find_task db' (dq_parent_task_id q) \<noteq> None"
    using child parent by (auto simp: db' find_task_def tbl_find_append split: option.splits)
  have "find_protocol db' (dq_parent_task_id q) = Some p" using p by (simp add: db' find_protocol_def tbl_find_append)
  moreover have "find_contract db' (dq_parent_task_id q) (dq_child_key q) = Some d"
    using new d by (simp add: db' find_contract_def find_snoc)
  moreover have "tbl_find cd_child_task_id c (db_dispatches db) = None"
    using fresh by (auto simp: tbl_find_None_iff list_ex_iff)
  then have "get_child_dispatch db' c = Inr d" by (simp add: get_child_dispatch_def db' tbl_find_append d)
  moreover have "same_contract sha256 db' d q"
    using t d child by (simp add: same_contract_def json_same_sorted new_task_row_def)
  ultimately show ?thesis using assms(2) t p by (auto simp: contracted_def)
qed

lemma create_contracted:
  assumes "create_child_dispatch sha256 db q0 f i now = (db', Inr d)"
  shows "contracted sha256 db' (normal_request q0 f) d"
proof -
  let ?q = "normal_request q0 f"
  obtain c where c: "dq_child_task_id ?q = Some c" by (simp add: normal_request_def)
  from assms obtain db1 p where chk: "check_request ?q = Inr ()"
      and p: "find_task db1 (dq_parent_task_id ?q) \<noteq> None" "find_protocol db1 (dq_parent_task_id ?q) = Some p"
        "pt_task_status p = dt_value DT_OPEN"
      and rest: "(find_contract db1 (dq_parent_task_id ?q) (dq_child_key ?q) = Some d
          \<and> same_contract sha256 db1 d ?q \<and> db' = db1)
        \<or> (find_contract db1 (dq_parent_task_id ?q) (dq_child_key ?q) = None \<and> find_task db1 c = None
          \<and> write_contract sha256 db1 ?q (pt_root_task_id p) i now = Inr db' \<and> get_child_dispatch db' c = Inr d)"
    unfolding create_child_dispatch_def reading_def Let_def
    by (auto simp: sbind_def transaction_def c split: sum.splits prod.splits option.splits if_splits)
  from rest show ?thesis
  proof
    assume "find_contract db1 (dq_parent_task_id ?q) (dq_child_key ?q) = None \<and> find_task db1 c = None
      \<and> write_contract sha256 db1 ?q (pt_root_task_id p) i now = Inr db' \<and> get_child_dispatch db' c = Inr d"
    with write_contract_contracted [OF _ chk p, of sha256 "pt_root_task_id p" i now db' c] c show ?thesis by auto
  qed (use chk p in \<open>auto simp: contracted_def\<close>)
qed

lemma create_replay:
  assumes k: "contracted sha256 db q d" and q: "normal_request q0 f = q"
  shows "create_child_dispatch sha256 db q0 f i now = (db, Inr d)"
  using k unfolding create_child_dispatch_def q reading_def
  by (auto simp: contracted_def protocol_state_exists_def Let_def)

section \<open>Properties of the contract\<close>

text \<open>A root task without protocol state, and a request for a child of it.\<close>

definition demo_root :: registry where
  "demo_root = empty_registry\<lparr>db_tasks := [new_task_row ''root'' ''p'' ''o'' ''c'' None 0]\<rparr>"

definition demo_request :: "string option \<Rightarrow> dispatch_request" where
  "demo_request t = \<lparr>dq_parent_task_id = ''root'', dq_child_key = '' k '', dq_project = ''p'', dq_objective = ''o'', dq_cwd = ''c'',
     dq_prompt_text = ''do it'', dq_child_task_id = t, dq_expected_branch = Some ''main'', dq_base_ref = None,
     dq_web_project_url = None, dq_metadata = [(''z'', JInt 1), (''a'', JBool True)]\<rparr>"

abbreviation demo_create where
  "demo_create db t f \<equiv> create_child_dispatch (\<lambda>x. x) db (demo_request t) f ''d1'' 1"

text \<open>Creating a named child is idempotent: repeating a request that went through, at any later time,
  returns the recorded contract and writes nothing.\<close>

theorem named_dispatch_idempotent:
  assumes "create_child_dispatch sha256 db q f i now = (db', Inr d)"
    and "dq_child_task_id q = Some t" and "t \<noteq> []"
  shows "create_child_dispatch sha256 db' q f' i' now' = (db', Inr d)"
proof -
  have "normal_request q f' = normal_request q f" using assms(2,3) by (simp add: normal_request_def)
  with create_contracted [OF assms(1)] show ?thesis by (intro create_replay) auto
qed

theorem named_dispatch_idempotent_witness:
  "\<exists>db' d. demo_create demo_root (Some ''child'') ''f1'' = (db', Inr d) \<and> demo_create db' (Some ''child'') ''f2'' = (db', Inr d)"
proof -
  have "\<not> isl (snd (demo_create demo_root (Some ''child'') ''f1''))" by code_simp
  then obtain db' d where "demo_create demo_root (Some ''child'') ''f1'' = (db', Inr d)"
    by (metis isl_def prod.collapse sum.exhaust_sel)
  with named_dispatch_idempotent [OF this, of "''child''"] show ?thesis by (simp add: demo_request_def)
qed

text \<open>C18. Repeating a request without a child task identifier is never recognised: the fresh identifier drawn
  for the repetition differs from the recorded one, so the identical request is refused (and writes
  nothing) instead of returning its contract.\<close>

theorem unnamed_dispatch_replay_refused:
  assumes "create_child_dispatch sha256 db q f i now = (db', Inr d)"
    and "dq_child_task_id q \<in> {None, Some []}" and "strip f' \<noteq> cd_child_task_id d"
  shows "\<exists>e. create_child_dispatch sha256 db' q f' i' now' = (db', Inl e)"
proof -
  let ?q = "normal_request q f" and ?q' = "normal_request q f'"
  note k = create_contracted [OF assms(1)]
  have q': "dq_parent_task_id ?q' = dq_parent_task_id ?q" "dq_child_key ?q' = dq_child_key ?q"
    "dq_child_task_id ?q' = Some (strip f')"
    using assms(2) by (auto simp: normal_request_def)
  then have "\<not> same_contract sha256 db' d ?q'" using assms(3) by (simp add: same_contract_def)
  with k q' show ?thesis
    unfolding create_child_dispatch_def reading_def
    by (cases "check_request ?q'") (auto simp: contracted_def protocol_state_exists_def Let_def)
qed

theorem unnamed_dispatch_replay_refused_witness:
  "\<exists>db' d e. demo_create demo_root None ''f1'' = (db', Inr d) \<and> demo_create db' None ''f2'' = (db', Inl e)"
proof -
  have "(case snd (demo_create demo_root None ''f1'') of Inl _ \<Rightarrow> False | Inr d \<Rightarrow> cd_child_task_id d = ''f1'')" by code_simp
  then obtain db' d where d: "demo_create demo_root None ''f1'' = (db', Inr d)" "cd_child_task_id d = ''f1''"
    by (cases "demo_create demo_root None ''f1''") (auto split: sum.splits)
  moreover have "strip ''f2'' \<noteq> ''f1''" by code_simp
  ultimately show ?thesis
    using unnamed_dispatch_replay_refused [OF d(1), of "''f2''" "''d1''" 1] by (simp add: demo_request_def)
qed

section \<open>The logical session\<close>

definition session_of :: "registry \<Rightarrow> string \<Rightarrow> string option" where
  "session_of db t = Option.bind (find_task db t) tr_lsm_session_id"

lemma session_of_update:
  "session_of (update_task_row t' (\<lambda>r. r\<lparr>tr_lsm_session_id := x, tr_updated_at := now\<rparr>) db) t
    = (if t = t' \<and> find_task db t \<noteq> None then x else session_of db t)"
  by (auto simp: session_of_def update_task_row_def find_task_def tbl_find_update split: option.splits)

lemma bind_session_outcome:
  assumes "bind_child_lsm_session db t session_id now = (db', r)"
  shows "db' = db \<or> (session_of db t = None
      \<and> db' = update_task_row t (\<lambda>r. r\<lparr>tr_lsm_session_id := Some (strip session_id), tr_updated_at := now\<rparr>) db)"
    and "r = Inr task \<Longrightarrow> session_of db' t = Some (strip session_id)"
proof -
  show "db' = db \<or> (session_of db t = None
      \<and> db' = update_task_row t (\<lambda>r. r\<lparr>tr_lsm_session_id := Some (strip session_id), tr_updated_at := now\<rparr>) db)"
    using assms
    by (auto simp: bind_child_lsm_session_def transaction_def Let_def session_of_def
        split: sum.splits prod.splits option.splits if_splits)
  show "session_of db' t = Some (strip session_id)" if "r = Inr task"
    using assms that
    by (auto simp: bind_child_lsm_session_def transaction_def Let_def session_of_update
        split: sum.splits prod.splits option.splits if_splits) (auto simp: session_of_def)
qed

definition bind_all :: "(string \<times> string \<times> timestamp) list \<Rightarrow> registry \<Rightarrow> registry" where
  "bind_all = fold (\<lambda>(t, s, now) db. fst (bind_child_lsm_session db t s now))"

lemma session_kept: "session_of db t = Some s \<Longrightarrow> session_of (bind_all bs db) t = Some s"
proof (induction bs arbitrary: db)
  case (Cons b bs)
  obtain t' s' now where b: "b = (t', s', now)" by (cases b)
  obtain db1 r where r: "bind_child_lsm_session db t' s' now = (db1, r)" by fastforce
  from bind_session_outcome(1) [OF r] Cons.prems have "session_of db1 t = Some s"
    by (auto simp: session_of_update)
  with Cons.IH b r show ?case by (simp add: bind_all_def)
qed (simp add: bind_all_def)

text \<open>A child's logical session is bound once: after a binding has returned, no sequence of bindings of
  any tasks to any sessions changes it, so every replacement worker resumes the same session.\<close>

theorem child_session_bound_once:
  assumes "bind_child_lsm_session db t session_id now = (db', Inr task)"
  shows "session_of (bind_all bs db') t = Some (strip session_id)"
  using session_kept bind_session_outcome(2) [OF assms] by blast

theorem child_session_bound_once_witness:
  "\<exists>db' task. bind_child_lsm_session (fst (demo_create demo_root (Some ''child'') ''f1'')) ''child'' '' S '' 2 = (db', Inr task)
    \<and> session_of (bind_all [(''child'', ''T'', 3), (''root'', ''T'', 4)] db') ''child'' = Some ''S''"
proof -
  let ?r = "bind_child_lsm_session (fst (demo_create demo_root (Some ''child'') ''f1'')) ''child'' '' S '' 2"
  have "\<not> isl (snd ?r)" by code_simp
  then obtain db' task where r: "?r = (db', Inr task)" by (metis isl_def prod.collapse sum.exhaust_sel)
  moreover have "strip '' S '' = ''S''" by code_simp
  ultimately show ?thesis using child_session_bound_once [OF r] by simp
qed

section \<open>The journal of spawn attempts\<close>

datatype spawn_call =
    Spawn_Record child_spawn_attempt
  | Spawn_Annotate string json_object timestamp
  | Spawn_Update string child_spawn_attempt_state spawn_update timestamp

fun run_spawn :: "spawn_call \<Rightarrow> registry \<Rightarrow> registry" where
  "run_spawn (Spawn_Record a) db = fst (record_child_spawn_attempt db a)"
| "run_spawn (Spawn_Annotate i updates now) db = fst (annotate_child_spawn_attempt db i updates now)"
| "run_spawn (Spawn_Update i state f now) db = fst (update_child_spawn_attempt db i state f now)"

definition run_spawns :: "spawn_call list \<Rightarrow> registry \<Rightarrow> registry" where
  "run_spawns = fold run_spawn"

definition spawn_step :: "registry \<Rightarrow> registry \<Rightarrow> bool" where
  "spawn_step db db' \<longleftrightarrow> (\<exists>c. db' = run_spawn c db)"

text \<open>
  How far an attempt has come. The three states with a window can follow one another in any order, but
  none of them leads back to a window that is still to be opened, and a settled attempt stays settled.
\<close>

fun cs_stage :: "child_spawn_attempt_state \<Rightarrow> nat" where
  "cs_stage CS_ARMED = 0"
| "cs_stage CS_WINDOW_OPEN_SUBMITTED = 1"
| "cs_stage CS_WINDOW_BOUND = 2"
| "cs_stage CS_PROMPT_SUBMITTED = 2"
| "cs_stage CS_RECONCILE_REQUIRED = 2"
| "cs_stage CS_COMPLETED = 3"
| "cs_stage CS_FAILED = 3"

definition cs_advances :: "child_spawn_attempt_state \<Rightarrow> child_spawn_attempt_state \<Rightarrow> bool" where
  "cs_advances s s' \<longleftrightarrow> (if cs_pending s then cs_stage s \<le> cs_stage s' else s' = s)"

lemma spawn_allowed_advances: "s' = s \<or> s' \<in> set (spawn_allowed s) \<Longrightarrow> cs_advances s s'"
  by (cases s) (auto simp: cs_advances_def cs_pending_def)

lemma cs_unresolved_pending: "cs_unresolved = (\<lambda>r. cs_pending (cs_state r))"
  by (simp add: fun_eq_iff cs_unresolved_def)

definition spawn_write :: "registry \<Rightarrow> registry \<Rightarrow> bool" where
  "spawn_write db db' \<longleftrightarrow> db_spawns db' = db_spawns db
     \<or> wal_append cs_attempt_id cs_child_task_id (\<lambda>r. cs_pending (cs_state r)) (db_spawns db) (db_spawns db')
     \<or> wal_rewrite cs_attempt_id cs_child_task_id cs_state cs_advances (db_spawns db) (db_spawns db')"

lemma spawn_write_refl: "spawn_write db db"
  by (simp add: spawn_write_def)

lemma record_spawn_write: "spawn_write db (fst (record_child_spawn_attempt db a))"
  unfolding record_child_spawn_attempt_def
  by (rule transaction_rule [where P = "spawn_write db"])
    (auto simp: Let_def spawn_write_def cs_unresolved_pending dest!: journal_insert_append)

lemma store_spawn_write:
  assumes "store_spawn db i u = Inr (db', x)" and "get_child_spawn_attempt db i = Inr a"
    and "cs_attempt_id u = cs_attempt_id a" and "cs_child_task_id u = cs_child_task_id a"
    and "cs_advances (cs_state a) (cs_state u)"
  shows "spawn_write db db'"
proof -
  have a: "tbl_find cs_attempt_id i (db_spawns db) = Some a" "cs_attempt_id a = i"
    using assms(2) by (auto simp: get_child_spawn_attempt_def split: option.splits dest: tbl_find_SomeD)
  have "journal_update cs_attempt_id cs_child_task_id cs_unresolved u (db_spawns db) = Inr (db_spawns db')"
    using assms(1) by (auto simp: store_spawn_def Let_def)
  then show ?thesis
    using journal_update_rewrite [where advances = cs_advances and status = cs_state] a assms(3-5)
    unfolding spawn_write_def by metis
qed

lemma annotate_spawn_write: "spawn_write db (fst (annotate_child_spawn_attempt db i updates now))"
  unfolding annotate_child_spawn_attempt_def
  by (rule transaction_rule [where P = "spawn_write db"])
    (auto simp: spawn_write_refl elim!: store_spawn_write intro: spawn_allowed_advances)

lemma update_spawn_write: "spawn_write db (fst (update_child_spawn_attempt db i state f now))"
  unfolding update_child_spawn_attempt_def
  by (rule transaction_rule [where P = "spawn_write db"])
    (auto simp: spawn_write_refl elim!: store_spawn_write intro: spawn_allowed_advances)

interpretation spawns: write_ahead_log cs_attempt_id cs_child_task_id cs_state cs_pending cs_advances
  db_spawns spawn_step
proof unfold_locales
  show "cs_advances s s" for s by (simp add: cs_advances_def)
  show "cs_advances s s' \<Longrightarrow> cs_advances s' s'' \<Longrightarrow> cs_advances s s''" for s s' s''
    by (cases s'; cases s) (auto simp: cs_advances_def cs_pending_def split: if_splits)
  show "cs_advances s s' \<Longrightarrow> \<not> cs_pending s \<Longrightarrow> s' = s" for s s'
    by (simp add: cs_advances_def)
next
  fix db db' assume "spawn_step db db'"
  then obtain c where "db' = run_spawn c db" by (auto simp: spawn_step_def)
  then have "spawn_write db db'"
    by (cases c) (auto simp: record_spawn_write annotate_spawn_write update_spawn_write)
  then show "db_spawns db' = db_spawns db
      \<or> wal_append cs_attempt_id cs_child_task_id (\<lambda>r. cs_pending (cs_state r)) (db_spawns db) (db_spawns db')
      \<or> wal_rewrite cs_attempt_id cs_child_task_id cs_state cs_advances (db_spawns db) (db_spawns db')"
    by (simp only: spawn_write_def)
qed

lemma run_spawns_star: "spawn_step\<^sup>*\<^sup>* db (run_spawns cs db)"
proof (induction cs arbitrary: db)
  case (Cons c cs)
  have "spawn_step db (run_spawn c db)" by (auto simp: spawn_step_def)
  with Cons show ?case by (simp add: run_spawns_def converse_rtranclp_into_rtranclp)
qed (simp add: run_spawns_def)

text \<open>The journal of spawn attempts never forgets: whatever calls recording, annotating or moving attempts
  follow, from any callers, an attempt whose window opening has been submitted is still recorded for its
  child, is never armed again, and once settled keeps its outcome.\<close>

theorem spawn_never_rearmed:
  assumes "tbl_find cs_attempt_id i (db_spawns db) = Some a" and "cs_state a \<noteq> CS_ARMED"
  shows "\<exists>u. tbl_find cs_attempt_id i (db_spawns (run_spawns cs db)) = Some u
    \<and> cs_child_task_id u = cs_child_task_id a \<and> cs_state u \<noteq> CS_ARMED
    \<and> (cs_state u = cs_state a \<or> cs_pending (cs_state a))"
proof -
  obtain u where u: "tbl_find cs_attempt_id i (db_spawns (run_spawns cs db)) = Some u"
      "cs_child_task_id u = cs_child_task_id a" "cs_advances (cs_state a) (cs_state u)"
    using spawns.writes_star_advance [OF run_spawns_star assms(1)] by blast
  have "cs_state u \<noteq> CS_ARMED" using assms(2) u(3) by (cases "cs_state a") (auto simp: cs_advances_def cs_pending_def)
  with u show ?thesis by (auto simp: cs_advances_def split: if_splits)
qed

definition demo_spawn :: child_spawn_attempt where
  "demo_spawn = \<lparr>cs_attempt_id = ''s1'', cs_child_task_id = ''child'', cs_state = CS_ARMED, cs_owner_token = ''o'',
     cs_project_url = ''u'', cs_project_id = ''g'', cs_tagged_project_url = ''u#o'', cs_prompt_sha256 = ''h'',
     cs_chrome_executable = ''chrome'', cs_created_at = 2, cs_updated_at = 2, cs_window_handle = None,
     cs_browser_pid = None, cs_conversation_url = None, cs_worker_id = None, cs_last_error = None, cs_metadata = []\<rparr>"

definition demo_move :: "child_spawn_attempt_state \<Rightarrow> spawn_call" where
  "demo_move s = Spawn_Update ''s1'' s \<lparr>su_window_handle = None, su_browser_pid = None, su_conversation_url = None,
     su_worker_id = None, su_last_error = None, su_metadata_updates = []\<rparr> 3"

definition demo_opened :: registry where
  "demo_opened = run_spawns [Spawn_Record demo_spawn, demo_move CS_WINDOW_OPEN_SUBMITTED]
     (fst (demo_create demo_root (Some ''child'') ''f1''))"

theorem spawn_never_rearmed_witness:
  "\<exists>a u. tbl_find cs_attempt_id ''s1'' (db_spawns demo_opened) = Some a \<and> cs_state a = CS_WINDOW_OPEN_SUBMITTED
    \<and> tbl_find cs_attempt_id ''s1'' (db_spawns (run_spawns [demo_move CS_ARMED, Spawn_Record demo_spawn] demo_opened)) = Some u
    \<and> cs_state u \<noteq> CS_ARMED"
proof -
  have "map_option cs_state (tbl_find cs_attempt_id ''s1'' (db_spawns demo_opened)) = Some CS_WINDOW_OPEN_SUBMITTED"
    by code_simp
  then obtain a where a: "tbl_find cs_attempt_id ''s1'' (db_spawns demo_opened) = Some a"
      "cs_state a = CS_WINDOW_OPEN_SUBMITTED" by auto
  with spawn_never_rearmed [OF a(1), of "[demo_move CS_ARMED, Spawn_Record demo_spawn]"] show ?thesis by auto
qed

end
