(* ===== verification/Registry_Runtime.thy ===== *)
theory Registry_Runtime
  imports Registry_Tasks
begin

text \<open>
  The short-lived runtime facts of \<^verbatim>\<open>registry.py\<close>: the exact-window binding of an active worker, the named
  cooldowns and the page-capability records.
\<close>

section \<open>Window bindings\<close>

definition get_worker_window_binding :: "registry \<Rightarrow> string \<Rightarrow> worker_window_binding option" where
  "get_worker_window_binding db w = tbl_find wb_worker_id w (db_bindings db)"

text \<open>The same with \<^verbatim>\<open>require_fresh=True\<close>.\<close>

definition get_fresh_window_binding :: "registry \<Rightarrow> string \<Rightarrow> timestamp \<Rightarrow> worker_window_binding option" where
  "get_fresh_window_binding db w now = (case get_worker_window_binding db w of
     None \<Rightarrow> None | Some b \<Rightarrow> if wb_is_fresh b now then Some b else None)"

definition bind_worker_window ::
  "registry \<Rightarrow> string \<Rightarrow> int \<Rightarrow> int \<Rightarrow> string \<Rightarrow> string \<Rightarrow> string \<Rightarrow> timestamp \<Rightarrow> real
     \<Rightarrow> registry \<times> worker_window_binding result" where
  "bind_worker_window db w handle pid chrome url source observed_at ttl =
     transaction db
       (rbind (get_worker db w) (\<lambda>worker.
        rbind (guard (wk_status worker = WS_ACTIVE) (ValueError ''window binding requires an active worker'')) (\<lambda>_.
        rbind (guard (0 < handle \<and> 0 < pid) (ValueError ''window binding requires positive HWND and browser PID'')) (\<lambda>_.
        rbind (guard (strip chrome \<noteq> []) (ValueError ''window binding requires a Chrome executable path'')) (\<lambda>_.
        rbind (guard (strip url \<noteq> []) (ValueError ''window binding requires a conversation URL'')) (\<lambda>_.
        rbind (guard (rstrip_slash url = rstrip_slash (wk_conversation_url worker))
          (ValueError ''window binding URL must exactly match the registered worker URL'')) (\<lambda>_.
        let bound_at = (case get_worker_window_binding db w of None \<Rightarrow> observed_at | Some b \<Rightarrow> wb_bound_at b);
            b = \<lparr>wb_worker_id = w, wb_window_handle = handle, wb_browser_pid = pid, wb_chrome_executable = chrome,
                 wb_conversation_url = url, wb_source = source, wb_bound_at = bound_at,
                 wb_observed_at = observed_at, wb_expires_at = observed_at + max 1 ttl\<rparr>;
            db' = db\<lparr>db_bindings := tbl_upsert wb_worker_id b (db_bindings db)\<rparr>
        in (case get_worker_window_binding db' w of None \<Rightarrow> Inl AssertionError | Some x \<Rightarrow> Inr (db', x)))))))))"

definition clear_worker_window_binding :: "registry \<Rightarrow> string \<Rightarrow> registry \<times> bool" where
  "clear_worker_window_binding db w = (delete_binding w db, get_worker_window_binding db w \<noteq> None)"

section \<open>Cooldowns\<close>

definition get_runtime_cooldown :: "registry \<Rightarrow> string \<Rightarrow> runtime_cooldown_row option result" where
  "get_runtime_cooldown db name =
     (if strip name = [] then Inl (ValueError ''runtime cooldown name is required'')
      else Inr (tbl_find rc_name (strip name) (db_cooldowns db)))"

definition set_runtime_cooldown ::
  "registry \<Rightarrow> string \<Rightarrow> timestamp \<Rightarrow> string \<Rightarrow> json_object \<Rightarrow> timestamp
     \<Rightarrow> registry \<times> runtime_cooldown_row option result" where
  "set_runtime_cooldown db name until reason metadata now =
     transaction db
       (rbind (guard (strip name \<noteq> [] \<and> strip reason \<noteq> [])
          (ValueError ''runtime cooldown name and reason are required'')) (\<lambda>_.
        rbind (guard (now < until) (ValueError ''runtime cooldown must end in the future'')) (\<lambda>_.
        let r = \<lparr>rc_name = strip name, rc_until_at = until, rc_reason = strip reason, rc_updated_at = now,
                 rc_metadata = sort_key fst metadata\<rparr>;
            db' = db\<lparr>db_cooldowns := tbl_upsert rc_name r (db_cooldowns db)\<rparr>
        in rbind (get_runtime_cooldown db' (strip name)) (\<lambda>x. Inr (db', x)))))"

section \<open>Page capabilities\<close>

definition get_page_capability :: "registry \<Rightarrow> string \<Rightarrow> page_capability_record result" where
  "get_page_capability db i = (case tbl_find cap_id i (db_capabilities db) of
     None \<Rightarrow> Inl (KeyError (''unknown page capability: '' @ i)) | Some c \<Rightarrow> Inr c)"

text \<open>A record with a known identifier only renews the times of recording and expiry and the payload.\<close>

definition record_page_capability ::
  "registry \<Rightarrow> page_capability_record \<Rightarrow> registry \<times> page_capability_record result" where
  "record_page_capability db c =
     transaction db
       (rbind (guard (strip (cap_id c) \<noteq> [] \<and> strip (cap_evidence_digest c) \<noteq> [])
          (ValueError ''page capability requires id and evidence digest'')) (\<lambda>_.
        let metadata = sort_key fst (cap_metadata c);
            rows = (if tbl_find cap_id (cap_id c) (db_capabilities db) = None
              then db_capabilities db @ [c\<lparr>cap_metadata := metadata\<rparr>]
              else tbl_update cap_id (cap_id c) (\<lambda>r. r\<lparr>cap_recorded_at := cap_recorded_at c,
                     cap_expires_at := cap_expires_at c, cap_metadata := metadata\<rparr>) (db_capabilities db));
            db' = db\<lparr>db_capabilities := rows\<rparr>
        in rbind (get_page_capability db' (cap_id c)) (\<lambda>x. Inr (db', x))))"

definition page_capabilities ::
  "registry \<Rightarrow> page_capability_kind option \<Rightarrow> int \<Rightarrow> page_capability_record list result" where
  "page_capabilities db kind limit =
     map_result (\<lambda>c. get_page_capability db (cap_id c))
       (take (nat (max 1 limit))
         (sort_key (\<lambda>c. - cap_observed_at c) (sort_key cap_id
           (filter (\<lambda>c. kind = None \<or> kind = Some (cap_kind c)) (db_capabilities db)))))"

section \<open>Lemmas\<close>

text \<open>A new binding is fresh from its observation until its lease ends, unless it keeps a later \<^verbatim>\<open>bound_at\<close>.\<close>

lemma bind_worker_window_binding:
  assumes "bind_worker_window db w handle pid chrome url source observed_at ttl = (db', Inr b)"
  shows "get_worker_window_binding db' w = Some b \<and> wb_worker_id b = w \<and> wb_observed_at b = observed_at
    \<and> wb_expires_at b = observed_at + max 1 ttl
    \<and> wb_bound_at b = (case get_worker_window_binding db w of None \<Rightarrow> observed_at | Some old \<Rightarrow> wb_bound_at old)"
  using assms
  by (auto simp: bind_worker_window_def get_worker_window_binding_def transaction_def Let_def tbl_find_upsert
      split: sum.splits prod.splits option.splits)

end
