(* ===== verification/Child_Spawn.thy ===== *)
theory Child_Spawn
  imports Child_Urls Child_Safety Registry_Runtime
begin

text \<open>
  The opening of a child conversation (\<^verbatim>\<open>child_spawn.py\<close>): an attempt is armed from fresh evidence, its
  window is opened and bound, the contract's prompt is sent, and the conversation that appears is adopted
  as the child's worker. Every step is journalled before the browser is touched. What the browser answers
  is an argument of each operation; the code that decides from these answers, including the loops that
  wait for an observation, is modelled.
\<close>

section \<open>What the transport reports\<close>

record spawn_execution =
  se_changed :: bool
  se_side_effect_possible :: bool
  se_detail :: string
  se_window_handle :: "int option"
  se_browser_pid :: "int option"
  se_url :: "string option"
  se_rate_limited :: bool
  se_modal_dismissed :: bool

record delivery_observation =
  dl_url :: string
  dl_generating :: bool
  dl_composer_value :: string
  dl_send_button_ready :: bool
  dl_prompt_matches_draft :: bool
  dl_detail :: string

definition delivered :: "delivery_observation \<Rightarrow> bool" where
  "delivered d = (dl_url d \<noteq> [] \<and> (dl_generating d \<or> (\<not> dl_prompt_matches_draft d \<and> \<not> dl_send_button_ready d)))"

definition execution :: "bool \<Rightarrow> bool \<Rightarrow> string \<Rightarrow> spawn_execution" where
  "execution changed side_effect detail = \<lparr>se_changed = changed, se_side_effect_possible = side_effect, se_detail = detail,
     se_window_handle = None, se_browser_pid = None, se_url = None, se_rate_limited = False, se_modal_dismissed = False\<rparr>"

definition at_window :: "int option \<Rightarrow> int option \<Rightarrow> string option \<Rightarrow> spawn_execution \<Rightarrow> spawn_execution" where
  "at_window handle pid url e = e\<lparr>se_window_handle := handle, se_browser_pid := pid, se_url := url\<rparr>"

text \<open>The truth value of an optional integer.\<close>

definition set_int :: "int option \<Rightarrow> bool" where
  "set_int x = (x \<noteq> None \<and> x \<noteq> Some 0)"

definition no_update :: spawn_update where
  "no_update = \<lparr>su_window_handle = None, su_browser_pid = None, su_conversation_url = None, su_worker_id = None,
     su_last_error = None, su_metadata_updates = []\<rparr>"

definition in_project :: "child_spawn_attempt \<Rightarrow> string \<Rightarrow> bool" where
  "in_project a url = (url \<noteq> [] \<and> web_conversation_project_id url = Some (cs_project_id a))"

section \<open>Arming\<close>

definition spawn_workspace_blockers ::
  "child_dispatch_record \<Rightarrow> workspace_observation option \<Rightarrow> timestamp \<Rightarrow> real \<Rightarrow> string list" where
  "spawn_workspace_blockers d workspace now max_age =
     (case workspace of
        None \<Rightarrow> [''fresh workspace reconciliation is required before opening a child conversation'']
      | Some w \<Rightarrow>
          when_blocked (now - wo_observed_at w < 0 \<or> now - wo_observed_at w > max_age)
            ''workspace observation is stale or from the future''
          @ when_blocked (\<not> wo_cwd_exists w) ''child working directory does not exist''
          @ when_blocked (present (wo_error w)) (''workspace reconciliation failed: '' @ or_text (wo_error w) [])
          @ (if present (cd_expected_branch d)
             then (if wo_is_git_repo w \<noteq> Some True
                   then [''dispatch expects a Git branch but workspace is not a verified Git repository'']
                   else when_blocked (wo_git_branch w \<noteq> cd_expected_branch d)
                     (''workspace branch changed: expected '' @ the (cd_expected_branch d) @ '', observed ''
                      @ or_text (wo_git_branch w) ''<detached>''))
             else []))"

text \<open>The blockers of the project URL and the project it names.\<close>

definition spawn_project :: "child_dispatch_record \<Rightarrow> string list \<times> string" where
  "spawn_project d =
     (if \<not> present (cd_web_project_url d) then ([''child dispatch has no explicit web project URL''], [])
      else case web_project_id (the (cd_web_project_url d)) of
             Inl (ValueError m) \<Rightarrow> ([m], []) | Inl e \<Rightarrow> ([], []) | Inr p \<Rightarrow> ([], p))"

definition arm_spawn_blockers ::
  "registry \<Rightarrow> child_dispatch_record \<Rightarrow> worker_task_state \<Rightarrow> string \<Rightarrow> string
     \<Rightarrow> workspace_observation option \<Rightarrow> timestamp \<Rightarrow> real \<Rightarrow> string list result" where
  "arm_spawn_blockers db d s t chrome workspace now max_age =
     rbind (unresolved_action_attempt db t) (\<lambda>action.
     Inr (fst (spawn_project d)
       @ when_blocked (chrome = []) ''Google Chrome executable is required''
       @ when_blocked (st_current_worker_id s \<noteq> None \<or> st_generation s \<noteq> 0 \<or> st_workers s \<noteq> [])
           ''automatic child-spawn is initial-worker only; task already has worker history''
       @ when_blocked (action \<noteq> None) ''child has an unresolved external browser action''
       @ when_blocked (unresolved_probe_mutation_operation db \<noteq> None) ''a global probe-window mutation is unresolved''
       @ when_blocked (unresolved_replacement_attempt db t \<noteq> None) ''child has an unresolved replacement attempt''
       @ when_blocked (unresolved_child_spawn_attempt db t \<noteq> None) ''child already has an unresolved spawn attempt''
       @ spawn_workspace_blockers d workspace now max_age))"

text \<open>\<open>fresh_attempt\<close> and \<open>fresh_owner\<close> are the two random hexadecimal texts.\<close>

definition arm_child_spawn ::
  "registry \<Rightarrow> string \<Rightarrow> string \<Rightarrow> workspace_observation option \<Rightarrow> timestamp \<Rightarrow> real \<Rightarrow> string \<Rightarrow> string
     \<Rightarrow> registry \<times> child_spawn_attempt result" where
  "arm_child_spawn db t chrome0 workspace now max_age fresh_attempt fresh_owner =
     (let chrome = strip chrome0 in
      sbind (reading db
        (rbind (get_child_dispatch db t) (\<lambda>d.
         rbind (load_worker_protocol db t) (\<lambda>s.
         rbind (arm_spawn_blockers db d s t chrome workspace now max_age) (\<lambda>blockers.
         if blockers \<noteq> [] then Inl (ChildSpawnBlocked blockers)
         else
           let attempt_id = ''spawn_'' @ fresh_attempt;
               owner_token = attempt_id @ '':'' @ fresh_owner;
               project_url = or_text (cd_web_project_url d) [] in
           rbind (tagged_project_url project_url owner_token) (\<lambda>tagged.
           Inr \<lparr>cs_attempt_id = attempt_id, cs_child_task_id = t, cs_state = CS_ARMED, cs_owner_token = owner_token,
                cs_project_url = project_url, cs_project_id = snd (spawn_project d), cs_tagged_project_url = tagged,
                cs_prompt_sha256 = cd_prompt_sha256 d, cs_chrome_executable = chrome, cs_created_at = now,
                cs_updated_at = now, cs_window_handle = None, cs_browser_pid = None, cs_conversation_url = None,
                cs_worker_id = None, cs_last_error = None,
                cs_metadata = [(''workspace_git_head'', json_text (Option.bind workspace wo_git_head)),
                  (''workspace_status_hash'', json_text (Option.bind workspace wo_git_status_hash)),
                  (''workspace_git_branch'', json_text (Option.bind workspace wo_git_branch))]\<rparr>))))))
        (\<lambda>db a. record_child_spawn_attempt db a))"

section \<open>The journalled steps\<close>

definition submit_child_spawn_open :: "registry \<Rightarrow> string \<Rightarrow> timestamp \<Rightarrow> registry \<times> child_spawn_attempt result" where
  "submit_child_spawn_open db i now =
     sbind (reading db (get_child_spawn_attempt db i)) (\<lambda>db a.
     if cs_state a \<noteq> CS_ARMED then (db, Inl (RuntimeError (''child spawn '' @ i @ '' is not ARMED'')))
     else update_child_spawn_attempt db i CS_WINDOW_OPEN_SUBMITTED no_update now)"

definition bind_child_spawn_window ::
  "registry \<Rightarrow> string \<Rightarrow> int \<Rightarrow> int \<Rightarrow> string \<Rightarrow> timestamp \<Rightarrow> registry \<times> child_spawn_attempt result" where
  "bind_child_spawn_window db i handle pid observed_url now =
     sbind (reading db (get_child_spawn_attempt db i)) (\<lambda>db a.
     if cs_state a \<notin> {CS_WINDOW_OPEN_SUBMITTED, CS_RECONCILE_REQUIRED}
     then (db, Inl (RuntimeError ''child spawn is not waiting for its owned project window''))
     else if handle \<le> 0 \<or> pid \<le> 0
     then (db, Inl (ValueError ''spawn window binding requires positive HWND and Chrome PID''))
     else if \<not> owned_project_root_matches observed_url a
     then (db, Inl (ChildSpawnBlocked [''observed project window URL does not match the LWS ownership tag/project id'']))
     else update_child_spawn_attempt db i CS_WINDOW_BOUND
            (no_update\<lparr>su_window_handle := Some handle, su_browser_pid := Some pid\<rparr>) now)"

definition submit_child_spawn_prompt ::
  "registry \<Rightarrow> string \<Rightarrow> timestamp \<Rightarrow> registry \<times> (child_spawn_attempt \<times> string) result" where
  "submit_child_spawn_prompt db i now =
     sbind (reading db (rbind (get_child_spawn_attempt db i) (\<lambda>a.
       rbind (guard (cs_state a = CS_WINDOW_BOUND) (RuntimeError ''child spawn project window is not durably bound'')) (\<lambda>_.
       rbind (get_child_dispatch db (cs_child_task_id a)) (\<lambda>d.
       rbind (guard (cd_prompt_sha256 d = cs_prompt_sha256 a)
         (ChildSpawnBlocked [''persisted child prompt changed after spawn was armed''])) (\<lambda>_. Inr d)))))) (\<lambda>db d.
     sbind (update_child_spawn_attempt db i CS_PROMPT_SUBMITTED no_update now) (\<lambda>db a.
     (db, Inr (a, cd_prompt_text d))))"

definition complete_from_bound_conversation ::
  "registry \<Rightarrow> child_spawn_attempt \<Rightarrow> string \<Rightarrow> timestamp \<Rightarrow> real \<Rightarrow> string \<Rightarrow> registry \<times> child_spawn_attempt result" where
  "complete_from_bound_conversation db a url now lease_seconds fresh_worker =
     (if web_conversation_project_id url \<noteq> Some (cs_project_id a)
      then (db, Inl (ChildSpawnBlocked [''bound window did not transition to a conversation in the expected project'']))
      else
        sbind (adopt_child_worker db (cs_child_task_id a) url lease_seconds (cs_worker_id a) fresh_worker now) (\<lambda>db s.
        if \<not> present (st_current_worker_id s)
        then (db, Inl (RuntimeError ''child-spawn conversation adoption did not publish a current worker''))
        else
          let w = the (st_current_worker_id s) in
          sbind (bind_worker_window db w (case cs_window_handle a of None \<Rightarrow> 0 | Some h \<Rightarrow> h)
            (case cs_browser_pid a of None \<Rightarrow> 0 | Some p \<Rightarrow> p) (cs_chrome_executable a) url ''windows_uia_chrome'' now 60) (\<lambda>db _.
          update_child_spawn_attempt db (cs_attempt_id a) CS_COMPLETED
            (no_update\<lparr>su_conversation_url := Some url, su_worker_id := Some w\<rparr>) now)))"

definition child_spawn_attempts :: "registry \<Rightarrow> string \<Rightarrow> int \<Rightarrow> child_spawn_attempt list" where
  "child_spawn_attempts db t limit =
     take (nat (max 1 (min limit 500))) (sort_key (\<lambda>a. - cs_created_at a)
       (sort_key cs_attempt_id (filter (\<lambda>a. cs_child_task_id a = t) (db_spawns db))))"

section \<open>Opening the window\<close>

record open_transport =
  ot_open :: "child_spawn_attempt \<Rightarrow> spawn_execution result"
  ot_reuse :: "child_spawn_attempt \<Rightarrow> worker_record \<Rightarrow> worker_window_binding \<Rightarrow> spawn_execution result"
  ot_reuse_spawn :: "child_spawn_attempt \<Rightarrow> child_spawn_attempt \<Rightarrow> spawn_execution result"

text \<open>The window that a completed attempt had is marked as reused, once; its worker loses the binding.\<close>

definition recycled_source :: "registry \<Rightarrow> worker_record \<Rightarrow> worker_window_binding \<Rightarrow> child_spawn_attempt option" where
  "recycled_source db w b =
     find (\<lambda>a. cs_state a = CS_COMPLETED \<and> cs_worker_id a = Some (wk_worker_id w)
         \<and> cs_window_handle a = Some (wb_window_handle b) \<and> cs_browser_pid a = Some (wb_browser_pid b)
         \<and> \<not> json_truthy (json_get (cs_metadata a) ''window_recycled_to'')
         \<and> \<not> json_truthy (json_get (cs_metadata a) ''window_closed_at''))
       (child_spawn_attempts db (wk_task_id w) 50)"

definition mark_recycled ::
  "registry \<Rightarrow> string \<Rightarrow> worker_record option \<Rightarrow> worker_window_binding option \<Rightarrow> child_spawn_attempt option
     \<Rightarrow> timestamp \<Rightarrow> registry \<times> unit result" where
  "mark_recycled db i source_worker source_binding source_spawn now =
     (let mark = (\<lambda>db a. annotate_child_spawn_attempt db (cs_attempt_id a) [(''window_recycled_to'', JStr i)] now);
          first = (case source_spawn of None \<Rightarrow> (db, Inr ())
            | Some a \<Rightarrow> (case mark db a of
                (db', Inl (KeyError m)) \<Rightarrow> (db', Inr ()) | (db', Inl e) \<Rightarrow> (db', Inl e) | (db', Inr _) \<Rightarrow> (db', Inr ())))
      in sbind first (\<lambda>db _.
         case (source_worker, source_binding) of
           (Some w, Some b) \<Rightarrow>
             sbind (case recycled_source db w b of None \<Rightarrow> (db, Inr ())
               | Some a \<Rightarrow> sbind (mark db a) (\<lambda>db _. (db, Inr ()))) (\<lambda>db _.
             (fst (clear_worker_window_binding db (wk_worker_id w)), Inr ()))
         | _ \<Rightarrow> (db, Inr ())))"

definition execute_child_spawn_open ::
  "registry \<Rightarrow> string \<Rightarrow> open_transport \<Rightarrow> worker_record option \<Rightarrow> worker_window_binding option
     \<Rightarrow> child_spawn_attempt option \<Rightarrow> timestamp \<Rightarrow> timestamp \<Rightarrow> registry \<times> child_spawn_attempt result" where
  "execute_child_spawn_open db i transport source_worker source_binding source_spawn submitted_at now =
     (if source_worker \<noteq> None \<and> source_binding = None
      then (db, Inl (ChildSpawnBlocked [''reused worker requires its exact window binding'']))
      else if source_binding \<noteq> None \<and> source_worker = None
      then (db, Inl (ChildSpawnBlocked [''reused window binding requires its worker identity'']))
      else if source_worker \<noteq> None \<and> source_spawn \<noteq> None
      then (db, Inl (ChildSpawnBlocked [''choose either a current worker source or a completed-spawn source'']))
      else
        sbind (submit_child_spawn_open db i submitted_at) (\<lambda>db submitted.
        sbind (reading db (case (source_worker, source_binding, source_spawn) of
            (Some w, Some b, _) \<Rightarrow> ot_reuse transport submitted w b
          | (_, _, Some a) \<Rightarrow> ot_reuse_spawn transport submitted a
          | _ \<Rightarrow> ot_open transport submitted)) (\<lambda>db result.
        if set_int (se_window_handle result) \<and> set_int (se_browser_pid result) \<and> present (se_url result) then
          sbind (bind_child_spawn_window db i (the (se_window_handle result)) (the (se_browser_pid result))
            (the (se_url result)) now) (\<lambda>db bound.
          sbind (mark_recycled db i source_worker source_binding source_spawn now) (\<lambda>db _. (db, Inr bound)))
        else update_child_spawn_attempt db i
               (if se_side_effect_possible result then CS_RECONCILE_REQUIRED else CS_FAILED)
               (no_update\<lparr>su_last_error := Some (se_detail result)\<rparr>) now)))"

section \<open>Sending the prompt\<close>

text \<open>What an execution does to the browser, beside its effect on the registry.\<close>

datatype spawn_effect = Send_Prompt child_spawn_attempt string | Send_Draft child_spawn_attempt string string

type_synonym spawn_run = "(registry \<times> child_spawn_attempt result) \<times> spawn_effect list"

definition quiet :: "registry \<times> child_spawn_attempt result \<Rightarrow> spawn_run" where
  "quiet r = (r, [])"

definition emit :: "spawn_effect \<Rightarrow> spawn_run \<Rightarrow> spawn_run" where
  "emit e r = (fst r, e # snd r)"

definition ebind :: "registry \<times> 'a result \<Rightarrow> (registry \<Rightarrow> 'a \<Rightarrow> spawn_run) \<Rightarrow> spawn_run" where
  "ebind r f = (case r of (db, Inl e) \<Rightarrow> quiet (db, Inl e) | (db, Inr x) \<Rightarrow> f db x)"

text \<open>A transport without \<^verbatim>\<open>wait_for_delivery\<close> has \<open>None\<close>; the flag tells the second wait from the first.\<close>

record prompt_transport =
  pt_send :: "child_spawn_attempt \<Rightarrow> string \<Rightarrow> spawn_execution result"
  pt_wait_conversation :: "child_spawn_attempt \<Rightarrow> spawn_execution result"
  pt_wait_delivery :: "(bool \<Rightarrow> child_spawn_attempt \<Rightarrow> string \<Rightarrow> delivery_observation result) option"
  pt_send_draft :: "child_spawn_attempt \<Rightarrow> string \<Rightarrow> string \<Rightarrow> spawn_execution result"

definition json_float :: "(real \<Rightarrow> string) \<Rightarrow> real \<Rightarrow> json" where
  "json_float float_text x = JOther (x \<noteq> 0) (float_text x)"

definition spawn_ambiguous :: "registry \<Rightarrow> string \<Rightarrow> string \<Rightarrow> timestamp \<Rightarrow> spawn_run" where
  "spawn_ambiguous db i detail now = quiet (update_child_spawn_attempt db i CS_RECONCILE_REQUIRED
     (no_update\<lparr>su_last_error := Some detail\<rparr>) now)"

definition web_child_dispatch :: string where
  "web_child_dispatch = ''web_child_dispatch''"

text \<open>A rate limit puts every child dispatch on hold and lets the bound window be used again later.\<close>

definition rate_limited_retry ::
  "(real \<Rightarrow> string) \<Rightarrow> registry \<Rightarrow> string \<Rightarrow> spawn_execution \<Rightarrow> real \<Rightarrow> timestamp \<Rightarrow> registry \<times> child_spawn_attempt result" where
  "rate_limited_retry float_text db i result rate_limit_cooldown_s now =
     (let cooldown_s = max 5 (min rate_limit_cooldown_s 900); until = now + cooldown_s in
      sbind (set_runtime_cooldown db web_child_dispatch until ''ChatGPT Too many requests modal''
        [(''modal_dismissed'', JBool (se_modal_dismissed result))] now) (\<lambda>db _.
      update_child_spawn_attempt db i CS_WINDOW_BOUND
        (no_update\<lparr>su_last_error := Some (''rate-limit modal '' @ (if se_modal_dismissed result then ''dismissed'' else ''observed'')
             @ ''; global child dispatch cooldown for '' @ fmt0 cooldown_s @ ''s''),
           su_metadata_updates := [(''cooldown_until'', json_float float_text until),
             (''rate_limit_modal_dismissed'', JBool (se_modal_dismissed result))]\<rparr>) now))"

text \<open>
  The first send may only have created the conversation and left the draft in its composer. One second
  send is then authorised, journalled before it happens.
\<close>

definition undelivered_detail :: "delivery_observation \<Rightarrow> string" where
  "undelivered_detail d = (if dl_detail d \<noteq> [] then dl_detail d
     else ''conversation route exists but prompt delivery was not positively observed'')"

definition second_send ::
  "registry \<Rightarrow> prompt_transport \<Rightarrow> (bool \<Rightarrow> child_spawn_attempt \<Rightarrow> string \<Rightarrow> delivery_observation result)
     \<Rightarrow> string \<Rightarrow> string \<Rightarrow> delivery_observation \<Rightarrow> real \<Rightarrow> string \<Rightarrow> timestamp \<Rightarrow> spawn_run" where
  "second_send db transport wait i prompt d lease_seconds fresh_worker now =
     ebind (update_child_spawn_attempt db i CS_PROMPT_SUBMITTED
       (no_update\<lparr>su_metadata_updates := [(''delivery_second_send_used'', JBool True),
          (''delivery_second_send_url'', JStr (dl_url d))]\<rparr>) now) (\<lambda>db submitted.
     emit (Send_Draft submitted prompt (dl_url d))
      (ebind (reading db (pt_send_draft transport submitted prompt (dl_url d))) (\<lambda>db second.
       if \<not> se_changed second then spawn_ambiguous db i (se_detail second) now
       else ebind (reading db (wait True submitted prompt)) (\<lambda>db d'.
         if in_project submitted (dl_url d') \<and> delivered d'
         then quiet (complete_from_bound_conversation db submitted (dl_url d') now lease_seconds fresh_worker)
         else spawn_ambiguous db i (undelivered_detail d') now))))"

definition after_conversation ::
  "registry \<Rightarrow> prompt_transport \<Rightarrow> child_spawn_attempt \<Rightarrow> string \<Rightarrow> string \<Rightarrow> string \<Rightarrow> real \<Rightarrow> string \<Rightarrow> timestamp \<Rightarrow> spawn_run" where
  "after_conversation db transport submitted i prompt url lease_seconds fresh_worker now =
     (case pt_wait_delivery transport of
        None \<Rightarrow> quiet (complete_from_bound_conversation db submitted url now lease_seconds fresh_worker)
      | Some wait \<Rightarrow>
          ebind (reading db (wait False submitted prompt)) (\<lambda>db d.
          if in_project submitted (dl_url d) \<and> delivered d
          then quiet (complete_from_bound_conversation db submitted (dl_url d) now lease_seconds fresh_worker)
          else if in_project submitted (dl_url d) \<and> dl_prompt_matches_draft d \<and> dl_send_button_ready d
            \<and> \<not> json_truthy (json_get (cs_metadata submitted) ''delivery_second_send_used'')
          then second_send db transport wait i prompt d lease_seconds fresh_worker now
          else spawn_ambiguous db i (undelivered_detail d) now))"

definition after_send ::
  "(real \<Rightarrow> string) \<Rightarrow> registry \<Rightarrow> prompt_transport \<Rightarrow> child_spawn_attempt \<Rightarrow> string \<Rightarrow> string \<Rightarrow> spawn_execution
     \<Rightarrow> real \<Rightarrow> real \<Rightarrow> string \<Rightarrow> timestamp \<Rightarrow> spawn_run" where
  "after_send float_text db transport submitted i prompt result lease_seconds rate_limit_cooldown_s fresh_worker now =
     (if se_rate_limited result then quiet (rate_limited_retry float_text db i result rate_limit_cooldown_s now)
      else if \<not> se_changed result then
        quiet (update_child_spawn_attempt db i
          (if se_side_effect_possible result then CS_RECONCILE_REQUIRED else CS_WINDOW_BOUND)
          (no_update\<lparr>su_last_error := Some (se_detail result)\<rparr>) now)
      else ebind (reading db (pt_wait_conversation transport submitted)) (\<lambda>db transition.
        if \<not> (present (se_url transition) \<and> in_project submitted (the (se_url transition)))
        then spawn_ambiguous db i (se_detail transition) now
        else after_conversation db transport submitted i prompt (the (se_url transition)) lease_seconds fresh_worker now))"

text \<open>The prompt is sent only after the journal says so.\<close>

definition send_prompt ::
  "(real \<Rightarrow> string) \<Rightarrow> registry \<Rightarrow> string \<Rightarrow> prompt_transport \<Rightarrow> real \<Rightarrow> real \<Rightarrow> string \<Rightarrow> timestamp \<Rightarrow> spawn_run" where
  "send_prompt float_text db i transport lease_seconds rate_limit_cooldown_s fresh_worker now =
     ebind (submit_child_spawn_prompt db i now) (\<lambda>db (submitted, prompt).
     emit (Send_Prompt submitted prompt)
      (ebind (reading db (pt_send transport submitted prompt)) (\<lambda>db result.
       after_send float_text db transport submitted i prompt result lease_seconds rate_limit_cooldown_s fresh_worker now)))"

definition active_cooldown :: "registry \<Rightarrow> timestamp \<Rightarrow> runtime_cooldown_row option" where
  "active_cooldown db now = (case get_runtime_cooldown db web_child_dispatch of
     Inr (Some c) \<Rightarrow> if now < rc_until_at c then Some c else None | _ \<Rightarrow> None)"

definition execute_child_spawn_prompt ::
  "(real \<Rightarrow> string) \<Rightarrow> registry \<Rightarrow> string \<Rightarrow> prompt_transport \<Rightarrow> real \<Rightarrow> real \<Rightarrow> string \<Rightarrow> timestamp \<Rightarrow> spawn_run" where
  "execute_child_spawn_prompt float_text db i transport lease_seconds rate_limit_cooldown_s fresh_worker now =
     (case get_child_spawn_attempt db i of
        Inl e \<Rightarrow> quiet (db, Inl e)
      | Inr a \<Rightarrow> (case active_cooldown db now of
          Some c \<Rightarrow> quiet (update_child_spawn_attempt db i (cs_state a)
            (no_update\<lparr>su_last_error := Some (''global web child-dispatch cooldown active for '' @ fmt1 (max 0 (rc_until_at c - now))
                 @ ''s: '' @ rc_reason c), su_metadata_updates := [(''cooldown_until'', json_float float_text (rc_until_at c))]\<rparr>) now)
        | None \<Rightarrow> send_prompt float_text db i transport lease_seconds rate_limit_cooldown_s fresh_worker now))"

section \<open>Reconciling an ambiguous attempt\<close>

definition reconcile_child_spawn ::
  "registry \<Rightarrow> string \<Rightarrow> (child_spawn_attempt \<Rightarrow> spawn_execution) \<Rightarrow> (child_spawn_attempt \<Rightarrow> spawn_execution result)
     \<Rightarrow> real \<Rightarrow> string \<Rightarrow> timestamp \<Rightarrow> registry \<times> child_spawn_attempt result" where
  "reconcile_child_spawn db i observe_owned observe_bound lease_seconds fresh_worker now =
     sbind (reading db (get_child_spawn_attempt db i)) (\<lambda>db a.
     if cs_state a = CS_COMPLETED then (db, Inr a)
     else if cs_state a = CS_WINDOW_OPEN_SUBMITTED \<or> (cs_state a = CS_RECONCILE_REQUIRED \<and> \<not> set_int (cs_window_handle a)) then
       let observed = observe_owned a in
       if set_int (se_window_handle observed) \<and> set_int (se_browser_pid observed) \<and> present (se_url observed)
       then bind_child_spawn_window db i (the (se_window_handle observed)) (the (se_browser_pid observed)) (the (se_url observed)) now
       else if cs_state a \<noteq> CS_RECONCILE_REQUIRED
       then update_child_spawn_attempt db i CS_RECONCILE_REQUIRED (no_update\<lparr>su_last_error := Some (se_detail observed)\<rparr>) now
       else (db, Inr a)
     else
       let give_up = (\<lambda>db. update_child_spawn_attempt db i CS_RECONCILE_REQUIRED
             (no_update\<lparr>su_last_error := Some ''child-spawn outcome remains ambiguous; do not open/send again''\<rparr>) now) in
       if set_int (cs_window_handle a) \<and> set_int (cs_browser_pid a) then
         sbind (reading db (observe_bound a)) (\<lambda>db observed.
         if present (se_url observed) \<and> in_project a (the (se_url observed))
         then complete_from_bound_conversation db a (the (se_url observed)) now lease_seconds fresh_worker
         else if present (se_url observed) \<and> owned_project_root_matches (the (se_url observed)) a then (db, Inr a)
         else give_up db)
       else give_up db)"

end
