(* ===== verification/Py_Json.thy ===== *)
theory Py_Json
  imports Assess
begin

text \<open>Reading values out of the JSON objects that the PowerShell helpers and stored observations hold.\<close>

definition json_flag :: "json_object \<Rightarrow> string \<Rightarrow> bool" where
  "json_flag obj k = json_truthy (json_get obj k)"

text \<open>\<^verbatim>\<open>str(obj.get(k) or default)\<close>.\<close>

definition json_string :: "json_object \<Rightarrow> string \<Rightarrow> string \<Rightarrow> string" where
  "json_string obj k d = (if json_flag obj k then json_str (json_get obj k) else d)"

text \<open>
  \<^verbatim>\<open>int(value)\<close>. Of the values that are neither null, Boolean, integer nor text only a float has a
  \<^verbatim>\<open>str()\<close> that reads as a number; lists and objects raise.
\<close>

fun json_int :: "json \<Rightarrow> int result" where
  "json_int JNull = Inl (TypeError ''int() argument must be a string, a bytes-like object or a real number'')"
| "json_int (JBool b) = Inr (if b then 1 else 0)"
| "json_int (JInt i) = Inr i"
| "json_int (JStr s) = (case py_int s of
     None \<Rightarrow> Inl (ValueError (''invalid literal for int() with base 10: '' @ py_repr s)) | Some i \<Rightarrow> Inr i)"
| "json_int (JOther b s) = (case float_trunc s of
     None \<Rightarrow> Inl (TypeError ''int() argument must be a string, a bytes-like object or a real number'') | Some i \<Rightarrow> Inr i)"

text \<open>\<^verbatim>\<open>int(obj.get(k) or 0)\<close>.\<close>

definition json_int_or_zero :: "json_object \<Rightarrow> string \<Rightarrow> int result" where
  "json_int_or_zero obj k = (if json_flag obj k then json_int (json_get obj k) else Inr 0)"

text \<open>\<^verbatim>\<open>type(exc).__name__\<close>.\<close>

fun error_name :: "py_error \<Rightarrow> string" where
  "error_name (KeyError _) = ''KeyError''"
| "error_name (ValueError _) = ''ValueError''"
| "error_name (RuntimeError _) = ''RuntimeError''"
| "error_name AssertionError = ''AssertionError''"
| "error_name (IntegrityError _) = ''IntegrityError''"
| "error_name (ProtocolInvariantError _) = ''ProtocolInvariantError''"
| "error_name (WorkerProtocolPersistenceError _) = ''WorkerProtocolPersistenceError''"
| "error_name (ActionBlocked _) = ''ActionBlocked''"
| "error_name (ActionTransportDisabled _) = ''ActionTransportDisabled''"
| "error_name (DispatchDisabled _) = ''DispatchDisabled''"
| "error_name (ReplacementBlocked _) = ''ReplacementBlocked''"
| "error_name (PagePoolError _) = ''PagePoolError''"
| "error_name StopIteration = ''StopIteration''"
| "error_name (TypeError _) = ''TypeError''"
| "error_name (CapabilityProvenanceError _) = ''CapabilityProvenanceError''"
| "error_name (ChildSpawnBlocked _) = ''ChildSpawnBlocked''"
| "error_name (WatchdogLeaseLost _) = ''WatchdogLeaseLost''"
| "error_name (UnsupportedLsmState _) = ''UnsupportedLsmState''"
| "error_name (ProbeOperatorEvidenceError _) = ''ProbeOperatorEvidenceError''"
| "error_name IndexError = ''IndexError''"
| "error_name (MemoryProbeUnavailable _) = ''MemoryProbeUnavailable''"
| "error_name (UiaProbeUnavailable _) = ''UiaProbeUnavailable''"
| "error_name (UiaActionUnavailable _) = ''UiaActionUnavailable''"
| "error_name (CdpProbeUnavailable _) = ''CdpProbeUnavailable''"
| "error_name (ProbeWindowTransportDisabled _) = ''ProbeWindowTransportDisabled''"
| "error_name (FileNotFoundError _) = ''FileNotFoundError''"
| "error_name (TimeoutError _) = ''TimeoutError''"

text \<open>\<^verbatim>\<open>str(exc)\<close>.\<close>

fun error_text :: "py_error \<Rightarrow> string" where
  "error_text (KeyError m) = py_repr m"
| "error_text (ValueError m) = m"
| "error_text (RuntimeError m) = m"
| "error_text AssertionError = []"
| "error_text (IntegrityError m) = m"
| "error_text (ProtocolInvariantError m) = m"
| "error_text (WorkerProtocolPersistenceError m) = m"
| "error_text (ActionBlocked m) = m"
| "error_text (ActionTransportDisabled m) = m"
| "error_text (DispatchDisabled m) = m"
| "error_text (ReplacementBlocked ms) = join ''; '' ms"
| "error_text (PagePoolError m) = m"
| "error_text StopIteration = []"
| "error_text (TypeError m) = m"
| "error_text (CapabilityProvenanceError m) = m"
| "error_text (ChildSpawnBlocked ms) = join ''; '' ms"
| "error_text (WatchdogLeaseLost m) = m"
| "error_text (UnsupportedLsmState m) = m"
| "error_text (ProbeOperatorEvidenceError m) = m"
| "error_text IndexError = ''list index out of range''"
| "error_text (MemoryProbeUnavailable m) = m"
| "error_text (UiaProbeUnavailable m) = m"
| "error_text (UiaActionUnavailable m) = m"
| "error_text (CdpProbeUnavailable m) = m"
| "error_text (ProbeWindowTransportDisabled m) = m"
| "error_text (FileNotFoundError m) = m"
| "error_text (TimeoutError m) = m"

end
