(* ===== verification/Spawn_Transport.thy ===== *)
theory Spawn_Transport
  imports Child_Spawn Py_Json
begin

text \<open>
  The decisions of \<^verbatim>\<open>ChromeUiaChildSpawnTransport\<close> (\<^verbatim>\<open>child_spawn.py\<close>) around its PowerShell helpers: which
  window is touched, under which durable authority, what an answer means, and the loops that wait for an
  observation. The answer of a helper is an argument, \<open>Inl\<close> an exception; a waiting loop takes the list of
  the observations made before its deadline, so a deadline is the end of that list.
\<close>

section \<open>The configured transport\<close>

record spawn_transport =
  st_enabled :: bool
  st_windows_host :: bool
  st_chrome_executable :: string

definition gated :: "py_error" where
  "gated = ChildSpawnBlocked [''child-spawn browser mutation transport is gated'']"

definition gate_transport :: "spawn_transport \<Rightarrow> spawn_execution result \<Rightarrow> spawn_execution result" where
  "gate_transport tr r =
     (if \<not> st_enabled tr then Inl gated
      else if \<not> st_windows_host tr then Inr (execution False False ''Windows UI Automation is unavailable'') else r)"

section \<open>Observing a window\<close>

text \<open>The windows found under any of the owned URLs, one per handle and process.\<close>

definition same_window :: "probe_window_match \<Rightarrow> int \<times> int" where
  "same_window m = (pm_window_handle m, pm_browser_pid m)"

definition owned_windows ::
  "(string \<Rightarrow> probe_window_match list result) \<Rightarrow> child_spawn_attempt \<Rightarrow> probe_window_match list result" where
  "owned_windows find_url a =
     rbind (owned_project_url_candidates a) (\<lambda>urls.
     rbind (map_result find_url urls) (\<lambda>found.
     Inr (fold (tbl_upsert same_window) (concat found) [])))"

definition observe_owned_project ::
  "(string \<Rightarrow> probe_window_match list result) \<Rightarrow> child_spawn_attempt \<Rightarrow> spawn_execution" where
  "observe_owned_project find_url a =
     (case owned_windows find_url a of
        Inl e \<Rightarrow> execution False False (''owned project observation failed: '' @ error_name e)
      | Inr [m] \<Rightarrow>
          if casefold (pm_chrome_executable m) \<noteq> casefold (cs_chrome_executable a)
          then execution False False ''owned project window executable changed''
          else at_window (Some (pm_window_handle m)) (Some (pm_browser_pid m)) (Some (pm_actual_url m))
                 (execution False False ''single LWS-tagged project window observed'')
      | Inr ms \<Rightarrow> execution False False
          (''expected exactly one LWS-tagged project window, observed '' @ str_int (int (length ms))))"

definition observe_bound_url :: "child_spawn_attempt \<Rightarrow> json_object result \<Rightarrow> spawn_execution result" where
  "observe_bound_url a helper =
     (if \<not> set_int (cs_window_handle a) \<or> \<not> set_int (cs_browser_pid a)
      then Inr (execution False False ''spawn attempt has no durable HWND/PID binding'')
      else rbind helper (\<lambda>r.
        if json_flag r ''ambiguous'' then Inr (execution False False (json_string r ''detail'' ''spawn window identity ambiguous''))
        else if \<not> json_flag r ''present'' then Inr (execution False False (json_string r ''detail'' ''spawn window absent''))
        else rbind (json_int_or_zero r ''window_handle'') (\<lambda>h.
             rbind (json_int_or_zero r ''browser_pid'') (\<lambda>p.
             Inr (at_window (Some h) (Some p) (Some (json_string r ''url'' []))
               (execution False False (json_string r ''detail'' ''spawn window observed'')))))))"

definition observe_bound_delivery :: "child_spawn_attempt \<Rightarrow> string \<Rightarrow> json_object result \<Rightarrow> delivery_observation" where
  "observe_bound_delivery a prompt helper =
     (let nothing = (\<lambda>url detail. \<lparr>dl_url = url, dl_generating = False, dl_composer_value = [],
            dl_send_button_ready = False, dl_prompt_matches_draft = False, dl_detail = detail\<rparr>) in
      if \<not> set_int (cs_window_handle a) \<or> \<not> set_int (cs_browser_pid a)
      then nothing [] ''spawn attempt has no exact HWND/PID binding''
      else case helper of
        Inl e \<Rightarrow> nothing [] (''delivery observation failed: '' @ error_name e)
      | Inr r \<Rightarrow>
          if json_flag r ''ambiguous'' \<or> \<not> json_flag r ''present''
          then nothing (json_string r ''url'' []) (json_string r ''detail'' ''delivery window identity unavailable'')
          else let value = json_string r ''composer_value'' [] in
            \<lparr>dl_url = json_string r ''url'' [], dl_generating = json_flag r ''generating'', dl_composer_value = value,
             dl_send_button_ready = json_flag r ''send_ready'',
             dl_prompt_matches_draft = (prompt \<noteq> [] \<and> prompt_equivalent (Some value) prompt),
             dl_detail = json_string r ''detail'' ''delivery state observed''\<rparr>)"

section \<open>Opening and reusing windows\<close>

fun await_opened :: "spawn_execution list \<Rightarrow> spawn_execution" where
  "await_opened [] = execution False True
     ''Chrome launch returned but the unique tagged project window was not observed in time''"
| "await_opened (ob # obs) =
     (if set_int (se_window_handle ob) \<and> set_int (se_browser_pid ob)
      then ob\<lparr>se_changed := True, se_side_effect_possible := True, se_detail := ''single LWS-owned project window opened''\<rparr>
      else if \<not> contains ''observed 0'' (se_detail ob) then execution False True (se_detail ob) else await_opened obs)"

definition open_authorized ::
  "spawn_transport \<Rightarrow> child_spawn_attempt \<Rightarrow> unit result \<Rightarrow> spawn_execution list \<Rightarrow> spawn_execution result" where
  "open_authorized tr a launch observed =
     gate_transport tr (Inr
       (if cs_state a \<noteq> CS_WINDOW_OPEN_SUBMITTED then execution False False ''WINDOW_OPEN authority was not durably submitted''
        else if casefold (cs_chrome_executable a) \<noteq> casefold (st_chrome_executable tr)
        then execution False False ''transport executable does not match durable spawn authority''
        else case launch of
          Inl e \<Rightarrow> execution False False (''Chrome launch failed before observation: '' @ error_name e)
        | Inr _ \<Rightarrow> await_opened observed))"

fun await_navigated ::
  "child_spawn_attempt \<Rightarrow> int \<Rightarrow> int \<Rightarrow> string \<Rightarrow> spawn_execution \<Rightarrow> spawn_execution result list \<Rightarrow> spawn_execution result" where
  "await_navigated a h p source_url latest [] =
     Inr (at_window (Some h) (Some p) (Some (or_text (se_url latest) source_url))
       (execution False True (if se_detail latest \<noteq> [] then se_detail latest else ''dispatcher navigation not observed in time'')))"
| "await_navigated a h p source_url latest (r # rs) =
     rbind r (\<lambda>ob.
     if present (se_url ob) \<and> owned_project_root_matches (the (se_url ob)) a
     then Inr (at_window (Some h) (Some p) (se_url ob)
       (execution True True ''exact dispatcher HWND navigated to the new LWS-owned project root''))
     else if present (se_url ob) \<and> web_route_project_id (the (se_url ob)) \<notin> {None, Some (cs_project_id a)}
     then Inr (at_window (Some h) (Some p) (se_url ob) (execution False True ''dispatcher navigated into a different web project''))
     else await_navigated a h p source_url ob rs)"

definition navigate_reused_window ::
  "spawn_transport \<Rightarrow> child_spawn_attempt \<Rightarrow> int \<Rightarrow> int \<Rightarrow> string \<Rightarrow> json_object result \<Rightarrow> spawn_execution result list
     \<Rightarrow> spawn_execution result" where
  "navigate_reused_window tr a h p source_url helper observed =
     gate_transport tr
       (case helper of
          Inl e \<Rightarrow> Inr (execution False False (''dispatcher navigation failed before observation: '' @ error_name e))
        | Inr r \<Rightarrow>
            if json_flag r ''ambiguous''
            then Inr (at_window (Some h) (Some p) (Some source_url)
              (execution False True (json_string r ''detail'' ''dispatcher navigation outcome ambiguous'')))
            else if \<not> json_flag r ''changed''
            then Inr (at_window (Some h) (Some p) (Some source_url)
              (execution False False (json_string r ''detail'' ''dispatcher navigation was not submitted'')))
            else await_navigated a h p source_url (execution False True ''dispatcher navigation not observed'') observed)"

text \<open>The page must still be the source conversation; then its window is navigated.\<close>

definition reuse_window ::
  "spawn_transport \<Rightarrow> child_spawn_attempt \<Rightarrow> int \<Rightarrow> int \<Rightarrow> string \<Rightarrow> string \<Rightarrow> spawn_execution result
     \<Rightarrow> json_object result \<Rightarrow> spawn_execution result list \<Rightarrow> spawn_execution result" where
  "reuse_window tr a h p conversation changed_detail current helper observed =
     rbind current (\<lambda>c.
     if \<not> present (se_url c) \<or> \<not> conversation_url_matches (the (se_url c)) conversation
     then Inr (at_window (Some h) (Some p) (se_url c) (execution False False changed_detail))
     else navigate_reused_window tr a h p (the (se_url c)) helper observed)"

definition reuse_authorized ::
  "spawn_transport \<Rightarrow> child_spawn_attempt \<Rightarrow> worker_record \<Rightarrow> worker_window_binding \<Rightarrow> spawn_execution result
     \<Rightarrow> json_object result \<Rightarrow> spawn_execution result list \<Rightarrow> spawn_execution result" where
  "reuse_authorized tr a w b current helper observed =
     (if cs_state a \<noteq> CS_WINDOW_OPEN_SUBMITTED then Inr (execution False False ''WINDOW_OPEN authority was not durably submitted'')
      else if wb_worker_id b \<noteq> wk_worker_id w then Inr (execution False False ''dispatcher source binding belongs to a different worker'')
      else reuse_window tr a (wb_window_handle b) (wb_browser_pid b) (wk_conversation_url w)
             ''dispatcher source conversation identity changed'' current helper observed)"

definition reuse_completed_spawn_authorized ::
  "spawn_transport \<Rightarrow> child_spawn_attempt \<Rightarrow> child_spawn_attempt \<Rightarrow> spawn_execution result
     \<Rightarrow> json_object result \<Rightarrow> spawn_execution result list \<Rightarrow> spawn_execution result" where
  "reuse_completed_spawn_authorized tr a source current helper observed =
     (if cs_state source \<noteq> CS_COMPLETED then Inr (execution False False ''dispatcher source spawn is not COMPLETED'')
      else if \<not> (set_int (cs_window_handle source) \<and> set_int (cs_browser_pid source) \<and> present (cs_conversation_url source))
      then Inr (execution False False ''dispatcher source spawn lacks exact page identity'')
      else reuse_window tr a (the (cs_window_handle source)) (the (cs_browser_pid source)) (the (cs_conversation_url source))
             ''completed dispatcher source conversation identity changed'' current helper observed)"

section \<open>Closing windows\<close>

definition close_authorized_identity ::
  "spawn_transport \<Rightarrow> int \<Rightarrow> int \<Rightarrow> string list \<Rightarrow> json_object result \<Rightarrow> spawn_execution result" where
  "close_authorized_identity tr h p expected_urls helper =
     gate_transport tr (Inr
       (if h \<le> 0 \<or> p \<le> 0 \<or> expected_urls = [] then execution False False ''exact child window close identity is incomplete''
        else case helper of
          Inl e \<Rightarrow> execution False False (''exact child window close failed before observation: '' @ error_name e)
        | Inr r \<Rightarrow>
            (if json_flag r ''ambiguous''
             then execution False True (json_string r ''detail'' ''exact child window close identity is ambiguous'')
             else if json_flag r ''absent'' then execution False False (json_string r ''detail'' ''exact child window already absent'')
             else execution (json_flag r ''closed'') (json_flag r ''closed'')
                    (json_string r ''detail'' ''exact LWS child window close completed''))
            \<lparr>se_window_handle := Some h, se_browser_pid := Some p\<rparr>))"

definition close_owned_project :: "spawn_transport \<Rightarrow> child_spawn_attempt \<Rightarrow> json_object result \<Rightarrow> spawn_execution result" where
  "close_owned_project tr a helper =
     (if cs_state a \<noteq> CS_WINDOW_BOUND then Inr (execution False False ''pre-send close requires WINDOW_BOUND state'')
      else if \<not> set_int (cs_window_handle a) \<or> \<not> set_int (cs_browser_pid a)
      then Inr (execution False False ''pre-send close requires exact HWND/PID binding'')
      else rbind (owned_project_url_candidates a) (\<lambda>urls.
           close_authorized_identity tr (the (cs_window_handle a)) (the (cs_browser_pid a)) urls helper))"

definition close_worker_binding_authorized ::
  "spawn_transport \<Rightarrow> worker_record \<Rightarrow> worker_window_binding \<Rightarrow> json_object result \<Rightarrow> spawn_execution result" where
  "close_worker_binding_authorized tr w b helper =
     (if wb_worker_id b \<noteq> wk_worker_id w then Inr (execution False False ''window binding belongs to a different worker'')
      else close_authorized_identity tr (wb_window_handle b) (wb_browser_pid b)
             (first_occurrences (conversation_url_candidates (wb_conversation_url b)
                @ conversation_url_candidates (wk_conversation_url w))) helper)"

definition page_unconsumed :: "child_spawn_attempt \<Rightarrow> bool" where
  "page_unconsumed a = (\<not> (json_flag (cs_metadata a) ''window_recycled_to'' \<or> json_flag (cs_metadata a) ''window_closed_at''))"

definition close_completed_spawn_authorized ::
  "spawn_transport \<Rightarrow> child_spawn_attempt \<Rightarrow> json_object result \<Rightarrow> spawn_execution result" where
  "close_completed_spawn_authorized tr a helper =
     (if cs_state a \<noteq> CS_COMPLETED then Inr (execution False False ''terminal close source spawn is not COMPLETED'')
      else if \<not> page_unconsumed a then Inr (execution False False ''terminal close source spawn was already consumed'')
      else if \<not> (set_int (cs_window_handle a) \<and> set_int (cs_browser_pid a) \<and> present (cs_conversation_url a))
      then Inr (execution False False ''completed spawn lacks exact terminal page identity'')
      else close_authorized_identity tr (the (cs_window_handle a)) (the (cs_browser_pid a))
             (conversation_url_candidates (the (cs_conversation_url a))) helper)"

section \<open>Sending and waiting\<close>

definition send_authorized ::
  "spawn_transport \<Rightarrow> child_spawn_attempt \<Rightarrow> spawn_execution result \<Rightarrow> json_object result \<Rightarrow> spawn_execution result" where
  "send_authorized tr a current helper =
     gate_transport tr
       (if cs_state a \<noteq> CS_PROMPT_SUBMITTED then Inr (execution False False ''PROMPT_SUBMITTED authority was not durably recorded'')
        else if \<not> set_int (cs_window_handle a) \<or> \<not> set_int (cs_browser_pid a)
        then Inr (execution False False ''child-spawn has no exact owned window binding'')
        else case current of
          Inl e \<Rightarrow> Inr (execution False False (''pre-send owned-window observation failed: '' @ error_name e))
        | Inr c \<Rightarrow>
            if \<not> present (se_url c) \<or> \<not> owned_project_root_matches (the (se_url c)) a
            then Inr (at_window (cs_window_handle a) (cs_browser_pid a) (se_url c)
              (execution False False ''bound HWND is no longer the same LWS-owned project root''))
            else rbind helper (\<lambda>r. Inr ((at_window (cs_window_handle a) (cs_browser_pid a) (se_url c)
              (execution (json_flag r ''submitted'') (json_flag r ''side_effect_possible'')
                 (json_string r ''detail'' (json_string r ''phase'' ''child-spawn UIA send completed''))))
              \<lparr>se_rate_limited := json_flag r ''rate_limited'', se_modal_dismissed := json_flag r ''modal_dismissed''\<rparr>)))"

fun wait_for_delivery :: "child_spawn_attempt \<Rightarrow> delivery_observation \<Rightarrow> delivery_observation list \<Rightarrow> delivery_observation" where
  "wait_for_delivery a latest [] = latest"
| "wait_for_delivery a latest (d # ds) =
     (if in_project a (dl_url d) \<and> (delivered d \<or> (dl_prompt_matches_draft d \<and> dl_send_button_ready d)) then d
      else if dl_url d \<noteq> [] \<and> \<not> in_project a (dl_url d)
        \<and> web_route_project_id (dl_url d) \<notin> {None, Some (cs_project_id a)}
      then d\<lparr>dl_generating := False, dl_detail := ''owned HWND navigated into a different web project during delivery''\<rparr>
      else wait_for_delivery a d ds)"

definition no_delivery :: delivery_observation where
  "no_delivery = \<lparr>dl_url = [], dl_generating = False, dl_composer_value = [], dl_send_button_ready = False,
     dl_prompt_matches_draft = False, dl_detail = ''delivery state not observed''\<rparr>"

definition invoke_existing_draft_authorized ::
  "spawn_transport \<Rightarrow> child_spawn_attempt \<Rightarrow> string \<Rightarrow> json_object result \<Rightarrow> spawn_execution result" where
  "invoke_existing_draft_authorized tr a url helper =
     (if \<not> st_enabled tr then Inl gated
      else Inr
        (if \<not> set_int (cs_window_handle a) \<or> \<not> set_int (cs_browser_pid a)
         then execution False False ''second-stage Send lacks exact HWND/PID''
         else if web_conversation_project_id url \<noteq> Some (cs_project_id a)
         then execution False False ''second-stage Send is outside the expected project''
         else case helper of
           Inl e \<Rightarrow> execution False False (''second-stage exact-draft Send failed before observation: '' @ error_name e)
         | Inr r \<Rightarrow> at_window (cs_window_handle a) (cs_browser_pid a) (Some url)
             (execution (json_flag r ''submitted'') (json_flag r ''side_effect_possible'')
                (json_string r ''detail'' ''second-stage exact-draft Send completed''))))"

text \<open>
  The waiting for the conversation route. Other pages of the web chat are passed over; any other origin
  or another project ends the wait without success.
\<close>

fun wait_for_conversation :: "child_spawn_attempt \<Rightarrow> spawn_execution \<Rightarrow> spawn_execution result list \<Rightarrow> spawn_execution" where
  "wait_for_conversation a latest [] = latest"
| "wait_for_conversation a latest (r # rs) =
     (case r of
        Inl e \<Rightarrow> execution False False (''bound spawn observation failed: '' @ error_name e)
      | Inr ob \<Rightarrow>
          if present (se_url ob) \<and> in_project a (the (se_url ob))
          then ob\<lparr>se_changed := True, se_detail := ''same LWS-owned HWND transitioned to an expected-project conversation''\<rparr>
          else if present (se_url ob) then
            (case urlsplit (the (se_url ob)) of
               Inl e \<Rightarrow> (execution False False ''owned HWND exposed an invalid URL during conversation routing'')\<lparr>se_url := se_url ob\<rparr>
             | Inr u \<Rightarrow>
                 if \<not> on_web_chat u
                 then (execution False False ''owned HWND navigated away from https://chatgpt.com'')\<lparr>se_url := se_url ob\<rparr>
                 else if web_route_project_id (the (se_url ob)) \<notin> {None, Some (cs_project_id a)}
                 then (execution False False ''owned HWND navigated into a different web project'')\<lparr>se_url := se_url ob\<rparr>
                 else wait_for_conversation a ob rs)
          else wait_for_conversation a ob rs)"

definition no_conversation :: spawn_execution where
  "no_conversation = execution False False ''conversation transition not observed''"

end
