(* ===== verification/Spawn_Safety.thy ===== *)
theory Spawn_Safety
  imports Spawn_Transport Replacement_Safety
begin

text \<open>
  What the opening of child conversations guarantees over any sequence of its operations, whatever the
  browser answers: a prompt whose delivery is ambiguous is never sent again, the second send of a draft
  happens at most once in the life of an attempt, and a completed attempt has adopted a conversation of
  the expected project.
\<close>

section \<open>Rows of the journal\<close>

definition spawn_row :: "registry \<Rightarrow> string \<Rightarrow> child_spawn_attempt option" where
  "spawn_row db i = tbl_find cs_attempt_id i (db_spawns db)"

lemma spawn_row_id: "spawn_row db i = Some a \<Longrightarrow> cs_attempt_id a = i"
  unfolding spawn_row_def by (auto dest: tbl_find_SomeD)

lemma get_spawn_row: "get_child_spawn_attempt db i = (case spawn_row db i of
    None \<Rightarrow> Inl (KeyError (''unknown child spawn attempt: '' @ i)) | Some a \<Rightarrow> Inr a)"
  by (simp add: get_child_spawn_attempt_def spawn_row_def)

lemma store_spawn_row:
  assumes "store_spawn db j u = Inr (db', x)" and "cs_attempt_id u = j" and "spawn_row db j \<noteq> None"
  shows "spawn_row db' i = (if i = j then Some u else spawn_row db i)" and "x = u"
proof -
  show row: "spawn_row db' i = (if i = j then Some u else spawn_row db i)" for i
    using assms
    by (auto simp: store_spawn_def journal_update_def spawn_row_def Let_def tbl_find_update split: if_splits)
  show "x = u"
    using assms row [of j] by (auto simp: store_spawn_def Let_def get_spawn_row)
qed

text \<open>An update changes only its own row, keeps its window unless it names one, and returns the new row.\<close>

lemma update_spawn_cases:
  obtains (unchanged) e where "update_child_spawn_attempt db j st f now = (db, Inl e)"
  | (changed) a u db' where "update_child_spawn_attempt db j st f now = (db', Inr u)" "spawn_row db j = Some a"
      "\<And>i. spawn_row db' i = (if i = j then Some u else spawn_row db i)" "cs_attempt_id u = j"
      "cs_child_task_id u = cs_child_task_id a" "cs_project_id u = cs_project_id a"
      "cs_state u = st" "st = cs_state a \<or> st \<in> set (spawn_allowed (cs_state a))"
      "cs_window_handle u = (if su_window_handle f = None then cs_window_handle a else su_window_handle f)"
proof (cases "update_child_spawn_attempt db j st f now")
  case (Pair db' r)
  show thesis
  proof (cases r)
    case (Inl e)
    with Pair have "db' = db"
      by (auto simp: update_child_spawn_attempt_def transaction_def split: sum.splits prod.splits)
    with Pair Inl unchanged show thesis by blast
  next
    case (Inr x)
    with Pair obtain a u where a: "spawn_row db j = Some a" and u: "store_spawn db j u = Inr (db', x)"
        and ok: "st = cs_state a \<or> st \<in> set (spawn_allowed (cs_state a))"
        and f: "cs_attempt_id u = cs_attempt_id a" "cs_child_task_id u = cs_child_task_id a" "cs_project_id u = cs_project_id a"
          "cs_state u = st"
          "cs_window_handle u = (if su_window_handle f = None then cs_window_handle a else su_window_handle f)"
      by (fastforce simp: update_child_spawn_attempt_def transaction_def get_spawn_row split: sum.splits prod.splits option.splits)
    have "cs_attempt_id u = j" using f(1) spawn_row_id [OF a] by simp
    then show thesis using changed Pair Inr a ok f store_spawn_row [OF u] by auto
  qed
qed

definition same_progress :: "child_spawn_attempt option \<Rightarrow> child_spawn_attempt option \<Rightarrow> bool" where
  "same_progress x y \<longleftrightarrow> (case (x, y) of (Some a, Some b) \<Rightarrow> cs_state b = cs_state a \<and> cs_window_handle b = cs_window_handle a
     | (None, _) \<Rightarrow> True | _ \<Rightarrow> False)"

lemma same_progress_refl [simp]: "same_progress x x"
  by (cases x) (simp_all add: same_progress_def)

lemma same_progress_trans: "same_progress x y \<Longrightarrow> same_progress y z \<Longrightarrow> same_progress x z"
  by (auto simp: same_progress_def split: option.splits)

lemma annotate_spawn_row: "same_progress (spawn_row db i) (spawn_row (fst (annotate_child_spawn_attempt db j m now)) i)"
proof -
  have "same_progress (spawn_row db i) (spawn_row db' i)"
    if s: "store_spawn db j (a\<lparr>cs_metadata := x, cs_updated_at := now\<rparr>) = Inr (db', y)" and a: "spawn_row db j = Some a" for a x db' y
    using store_spawn_row(1) [OF s, of i] a spawn_row_id [OF a] by (cases "i = j") (auto simp: same_progress_def split: option.splits)
  then show ?thesis
    unfolding annotate_child_spawn_attempt_def
    by (intro transaction_rule [where P = "\<lambda>db'. same_progress (spawn_row db i) (spawn_row db' i)"])
      (auto simp: get_spawn_row split: option.splits)
qed

lemma record_spawn_row: "spawn_row db i = Some a \<Longrightarrow> spawn_row (fst (record_child_spawn_attempt db b)) i = Some a"
  unfolding record_child_spawn_attempt_def
  by (rule transaction_rule [where P = "\<lambda>x. spawn_row x i = Some a"])
    (auto simp: spawn_row_def Let_def journal_insert_def tbl_find_append split: if_splits)

section \<open>The other components leave the journal alone\<close>

lemma transition_spawns: "db_spawns (fst (apply_worker_protocol_transition db t e f)) = db_spawns db"
proof -
  have "journals (fst (apply_worker_protocol_transition db t e f)) = journals db"
    unfolding apply_worker_protocol_transition_def
    by (rule transaction_rule [where P = "\<lambda>x. journals x = journals db"])
      (auto split: if_splits dest: persist_decision_journals)
  then show ?thesis by (simp add: journals_def)
qed

lemma accepted_spawns: "db_spawns (fst r) = x \<Longrightarrow> db_spawns (fst (accepted_or m r)) = x"
  unfolding accepted_or_def by (rule sbind_pres [where P = "\<lambda>db. db_spawns db = x"]) auto

lemma claim_spawns: "db_spawns (fst (protocol_claim_worker db t w e l now)) = db_spawns db"
  by (simp add: protocol_claim_worker_def transition_spawns)

lemma register_spawns: "db_spawns (fst (protocol_register_worker db t url e w f now)) = db_spawns db"
  by (simp add: protocol_register_worker_def Let_def transition_spawns)

lemma adopt_spawns: "db_spawns (fst (adopt_child_worker db t url l w f now)) = db_spawns db"
proof -
  let ?P = "\<lambda>x. db_spawns x = db_spawns db"
  have claim: "?P (fst (accepted_or m (protocol_claim_worker x t v e l now)))" if "?P x" for m x v e
    using that by (intro accepted_spawns) (simp add: claim_spawns)
  have register: "?P (fst (accepted_or m (protocol_register_worker x t u e v g now)))" if "?P x" for m x u e v g
    using that by (intro accepted_spawns) (simp add: register_spawns)
  show ?thesis
    unfolding adopt_child_worker_def reading_def
    by (auto simp: Let_def claim register intro!: sbind_pres [where P = ?P] split: option.splits list.splits)
qed

lemma bind_worker_window_spawns: "db_spawns (fst (bind_worker_window db w h p c u s t l)) = db_spawns db"
  unfolding bind_worker_window_def
  by (rule transaction_rule [where P = "\<lambda>x. db_spawns x = db_spawns db"]) (auto simp: Let_def split: option.splits)

lemma set_runtime_cooldown_spawns: "db_spawns (fst (set_runtime_cooldown db n u r m now)) = db_spawns db"
  unfolding set_runtime_cooldown_def
  by (rule transaction_rule [where P = "\<lambda>x. db_spawns x = db_spawns db"]) (auto simp: Let_def)

lemma clear_binding_spawns: "db_spawns (fst (clear_worker_window_binding db w)) = db_spawns db"
  by (simp add: clear_worker_window_binding_def delete_binding_def)

section \<open>Invariants of the shared steps\<close>

lemma ebind_pres:
  "P (fst r) \<Longrightarrow> (\<And>db x. P db \<Longrightarrow> r = (db, Inr x) \<Longrightarrow> P (fst (fst (f db x)))) \<Longrightarrow> P (fst (fst (ebind r f)))"
  by (cases r; cases "snd r") (auto simp: ebind_def quiet_def)

lemma ebind_effects:
  "(\<And>db x. r = (db, Inr x) \<Longrightarrow> Q (snd (f db x))) \<Longrightarrow> Q [] \<Longrightarrow> Q (snd (ebind r f))"
  by (cases r; cases "snd r") (auto simp: ebind_def quiet_def)

lemma emit_simps [simp]: "fst (emit e r) = fst r" "snd (emit e r) = e # snd r" "fst (quiet x) = x" "snd (quiet x) = []"
  by (simp_all add: emit_def quiet_def)

lemma ebind_Inr [simp]: "ebind (db, Inr x) f = f db x" "ebind (db, Inl e) f = quiet (db, Inl e)"
  by (simp_all add: ebind_def)

lemma spawn_ambiguous_simps [simp]: "snd (spawn_ambiguous db i d now) = []"
  "fst (spawn_ambiguous db i d now) = update_child_spawn_attempt db i CS_RECONCILE_REQUIRED (no_update\<lparr>su_last_error := Some d\<rparr>) now"
  by (simp_all add: spawn_ambiguous_def)

text \<open>
  What an assertion about the journal must satisfy to survive the steps that the operations share: the
  writes of other components, annotations, and moves of any attempt to a state that is not before its
  send.
\<close>

locale spawn_invariant =
  fixes P :: "registry \<Rightarrow> bool"
  assumes spawns: "P db \<Longrightarrow> db_spawns db' = db_spawns db \<Longrightarrow> P db'"
    and annotate: "P db \<Longrightarrow> P (fst (annotate_child_spawn_attempt db j m now))"
    and settle: "P db \<Longrightarrow> st \<in> {CS_PROMPT_SUBMITTED, CS_RECONCILE_REQUIRED, CS_COMPLETED, CS_FAILED}
      \<Longrightarrow> su_window_handle f = None \<Longrightarrow> P (fst (update_child_spawn_attempt db j st f now))"
begin

lemma adopt: "P db \<Longrightarrow> P (fst (adopt_child_worker db t u l w g now))"
  using spawns adopt_spawns by blast

lemma bind: "P db \<Longrightarrow> P (fst (bind_worker_window db w h p c u s t l))"
  using spawns bind_worker_window_spawns by blast

lemma cooldown: "P db \<Longrightarrow> P (fst (set_runtime_cooldown db n u r m now))"
  using spawns set_runtime_cooldown_spawns by blast

lemma clear: "P db \<Longrightarrow> P (fst (clear_worker_window_binding db w))"
  using spawns clear_binding_spawns by blast

lemma complete: "P db \<Longrightarrow> P (fst (complete_from_bound_conversation db a url now l f))"
  unfolding complete_from_bound_conversation_def
  by (auto simp: Let_def no_update_def intro!: sbind_pres [where P = P] adopt bind settle)

lemma mark_recycled:
  assumes "P db"
  shows "P (fst (mark_recycled db j w b a now))"
proof -
  have first: "P (fst (case r of (x, Inl (KeyError m)) \<Rightarrow> (x, Inr ()) | (x, Inl e) \<Rightarrow> (x, Inl e) | (x, Inr _) \<Rightarrow> (x, Inr ())))"
    if "P (fst r)" for r :: "registry \<times> child_spawn_attempt result"
    using that by (cases r; cases "snd r"; cases "projl (snd r)") auto
  show ?thesis
    unfolding mark_recycled_def Let_def
    by (auto intro!: sbind_pres [where P = P] first annotate clear assms split: option.splits)
qed

lemma second_send: "P db \<Longrightarrow> P (fst (fst (second_send db tr wait j prompt d l f now)))"
  unfolding second_send_def reading_def
  by (auto intro!: ebind_pres [where P = P] settle complete simp: no_update_def)

lemma after_conversation: "P db \<Longrightarrow> P (fst (fst (after_conversation db tr a j prompt url l f now)))"
  unfolding after_conversation_def reading_def
  by (auto intro!: ebind_pres [where P = P] settle complete second_send simp: no_update_def split: option.splits)

end

section \<open>Operations on an attempt\<close>

text \<open>
  The operations of the module on any attempts, with any answers of the browser, and the effects they
  have on it.
\<close>

datatype spawn_op =
    Arm_Spawn string string "workspace_observation option" timestamp real string string
  | Open_Spawn string open_transport "worker_record option" "worker_window_binding option"
      "child_spawn_attempt option" timestamp timestamp
  | Prompt_Spawn string prompt_transport real real string timestamp
  | Reconcile_Spawn string "child_spawn_attempt \<Rightarrow> spawn_execution" "child_spawn_attempt \<Rightarrow> spawn_execution result"
      real string timestamp

fun run_spawn_op :: "(real \<Rightarrow> string) \<Rightarrow> spawn_op \<Rightarrow> registry \<Rightarrow> registry \<times> spawn_effect list" where
  "run_spawn_op ft (Arm_Spawn t chrome ws now age x y) db = (fst (arm_child_spawn db t chrome ws now age x y), [])"
| "run_spawn_op ft (Open_Spawn i tr w b a t0 now) db = (fst (execute_child_spawn_open db i tr w b a t0 now), [])"
| "run_spawn_op ft (Prompt_Spawn i tr l c f now) db =
     (let r = execute_child_spawn_prompt ft db i tr l c f now in (fst (fst r), snd r))"
| "run_spawn_op ft (Reconcile_Spawn i owned bound l f now) db = (fst (reconcile_child_spawn db i owned bound l f now), [])"

fun run_spawn_ops :: "(real \<Rightarrow> string) \<Rightarrow> spawn_op list \<Rightarrow> registry \<Rightarrow> registry \<times> spawn_effect list" where
  "run_spawn_ops ft [] db = (db, [])"
| "run_spawn_ops ft (p # ps) db =
     (let (db1, es) = run_spawn_op ft p db; (db2, es') = run_spawn_ops ft ps db1 in (db2, es @ es'))"

fun effect_on :: "string \<Rightarrow> spawn_effect \<Rightarrow> bool" where
  "effect_on i (Send_Prompt a _) = (cs_attempt_id a = i)"
| "effect_on i (Send_Draft a _ _) = (cs_attempt_id a = i)"

fun is_draft :: "spawn_effect \<Rightarrow> bool" where
  "is_draft (Send_Draft _ _ _) = True"
| "is_draft _ = False"

text \<open>An attempt past its send: the window is known and the state is none of those a send starts from.\<close>

definition fenced :: "string \<Rightarrow> registry \<Rightarrow> bool" where
  "fenced i db \<longleftrightarrow> (\<exists>a. spawn_row db i = Some a \<and> set_int (cs_window_handle a)
     \<and> cs_state a \<in> {CS_PROMPT_SUBMITTED, CS_RECONCILE_REQUIRED, CS_COMPLETED, CS_FAILED})"

lemma fenced_row: "fenced i db \<Longrightarrow> same_progress (spawn_row db i) (spawn_row db' i) \<Longrightarrow> fenced i db'"
  by (auto simp: fenced_def same_progress_def split: option.splits)

lemma fenced_spawns: "fenced i db \<Longrightarrow> db_spawns db' = db_spawns db \<Longrightarrow> fenced i db'"
  by (simp add: fenced_def spawn_row_def)

lemma fenced_update:
  assumes "fenced i db" and "j = i \<Longrightarrow> st \<in> {CS_PROMPT_SUBMITTED, CS_RECONCILE_REQUIRED, CS_COMPLETED, CS_FAILED}"
    and "j = i \<Longrightarrow> su_window_handle f = None"
  shows "fenced i (fst (update_child_spawn_attempt db j st f now))"
  by (rule update_spawn_cases [of db j st f now]) (use assms in \<open>auto simp: fenced_def\<close>)

lemma fenced_annotate: "fenced i db \<Longrightarrow> fenced i (fst (annotate_child_spawn_attempt db j m now))"
  using fenced_row annotate_spawn_row by blast

interpretation fenced: spawn_invariant "fenced i" for i
  by unfold_locales (blast intro: fenced_spawns fenced_annotate fenced_update)+

lemma fenced_bind_window:
  assumes "fenced i db" and "j = i \<Longrightarrow> False"
  shows "fenced i (fst (bind_child_spawn_window db j h p u now))"
  unfolding bind_child_spawn_window_def reading_def
  by (rule sbind_pres [where P = "fenced i"]) (use assms in \<open>auto intro!: fenced_update\<close>)

lemma fenced_submit_open: "fenced i db \<Longrightarrow> j \<noteq> i \<Longrightarrow> fenced i (fst (submit_child_spawn_open db j now))"
  unfolding submit_child_spawn_open_def reading_def
  by (rule sbind_pres [where P = "fenced i"]) (auto intro!: fenced_update)

lemma fenced_open:
  assumes "fenced i db"
  shows "fenced i (fst (execute_child_spawn_open db j tr w b a t0 now))"
proof (cases "j = i")
  case True
  have "\<exists>e. submit_child_spawn_open db i t0 = (db, Inl e)"
    using assms by (auto simp: submit_child_spawn_open_def reading_def fenced_def get_spawn_row)
  then show ?thesis using assms True by (auto simp: execute_child_spawn_open_def)
next
  case False
  then show ?thesis
    unfolding execute_child_spawn_open_def reading_def
    by (auto intro!: sbind_pres [where P = "fenced i"] fenced_submit_open fenced_bind_window fenced.mark_recycled
        fenced_update assms)
qed

lemma fenced_reconcile:
  assumes "fenced i db"
  shows "fenced i (fst (reconcile_child_spawn db j owned bound l f now))"
proof (cases "j = i")
  case True
  obtain a where a: "spawn_row db i = Some a" "set_int (cs_window_handle a)" "cs_state a \<noteq> CS_WINDOW_OPEN_SUBMITTED"
    using assms by (auto simp: fenced_def)
  have "fenced i (fst (update_child_spawn_attempt db i CS_RECONCILE_REQUIRED (no_update\<lparr>su_last_error := e\<rparr>) now))" for e
    using assms by (intro fenced_update) (auto simp: no_update_def)
  with a assms True show ?thesis
    unfolding reconcile_child_spawn_def reading_def
    by (auto simp: get_spawn_row Let_def intro!: sbind_pres [where P = "fenced i"] fenced.complete)
next
  case False
  then show ?thesis
    unfolding reconcile_child_spawn_def reading_def
    by (auto simp: Let_def intro!: sbind_pres [where P = "fenced i"] fenced.complete fenced_bind_window fenced_update assms)
qed

lemma fenced_arm: "fenced i db \<Longrightarrow> fenced i (fst (arm_child_spawn db t c ws now age x y))"
  unfolding arm_child_spawn_def reading_def Let_def
  by (rule sbind_pres [where P = "fenced i"]) (auto simp: fenced_def record_spawn_row)

section \<open>Sending\<close>

lemma submit_prompt_cases:
  obtains (refused) e where "submit_child_spawn_prompt db j now = (db, Inl e)"
  | (sent) a u d db' where "submit_child_spawn_prompt db j now = (db', Inr (u, cd_prompt_text d))"
      "spawn_row db j = Some a" "cs_state a = CS_WINDOW_BOUND" "get_child_dispatch db (cs_child_task_id a) = Inr d"
      "cd_prompt_sha256 d = cs_prompt_sha256 a"
      "\<And>i. spawn_row db' i = (if i = j then Some u else spawn_row db i)" "cs_attempt_id u = j"
      "cs_state u = CS_PROMPT_SUBMITTED" "cs_window_handle u = cs_window_handle a" "cs_project_id u = cs_project_id a"
      "cs_child_task_id u = cs_child_task_id a"
proof (cases "\<exists>a d. spawn_row db j = Some a \<and> cs_state a = CS_WINDOW_BOUND
    \<and> get_child_dispatch db (cs_child_task_id a) = Inr d \<and> cd_prompt_sha256 d = cs_prompt_sha256 a")
  case True
  then obtain a d where ad: "spawn_row db j = Some a" "cs_state a = CS_WINDOW_BOUND"
      "get_child_dispatch db (cs_child_task_id a) = Inr d" "cd_prompt_sha256 d = cs_prompt_sha256 a" by blast
  then have eq: "submit_child_spawn_prompt db j now = sbind (update_child_spawn_attempt db j CS_PROMPT_SUBMITTED no_update now)
      (\<lambda>db u. (db, Inr (u, cd_prompt_text d)))"
    by (simp add: submit_child_spawn_prompt_def reading_def get_spawn_row)
  show thesis
  proof (rule update_spawn_cases [of db j CS_PROMPT_SUBMITTED no_update now])
    fix a' u db' assume u: "update_child_spawn_attempt db j CS_PROMPT_SUBMITTED no_update now = (db', Inr u)"
      "spawn_row db j = Some a'" "\<And>i. spawn_row db' i = (if i = j then Some u else spawn_row db i)" "cs_attempt_id u = j"
      "cs_child_task_id u = cs_child_task_id a'" "cs_project_id u = cs_project_id a'" "cs_state u = CS_PROMPT_SUBMITTED"
      "cs_window_handle u = (if su_window_handle no_update = None then cs_window_handle a' else su_window_handle no_update)"
    then show thesis using ad eq by (intro sent [of db' u d a]) (auto simp: no_update_def)
  qed (use eq refused in auto)
next
  case False
  then have "\<exists>e. submit_child_spawn_prompt db j now = (db, Inl e)"
    by (auto simp: submit_child_spawn_prompt_def reading_def get_spawn_row guard_def split: option.splits)
      (cases "get_child_dispatch db (cs_child_task_id (the (spawn_row db j)))"; auto)
  then show thesis using refused by blast
qed

text \<open>The second send happens at most once in an execution, as its last effect.\<close>

lemma second_send_effects:
  "snd (second_send db tr wait j prompt d l f now) = []
    \<or> (\<exists>u. cs_attempt_id u = j \<and> snd (second_send db tr wait j prompt d l f now) = [Send_Draft u prompt (dl_url d)])"
proof (rule update_spawn_cases [of db j CS_PROMPT_SUBMITTED "no_update\<lparr>su_metadata_updates :=
        [(''delivery_second_send_used'', JBool True), (''delivery_second_send_url'', JStr (dl_url d))]\<rparr>" now])
  fix u db' assume u: "update_child_spawn_attempt db j CS_PROMPT_SUBMITTED (no_update\<lparr>su_metadata_updates :=
        [(''delivery_second_send_used'', JBool True), (''delivery_second_send_url'', JStr (dl_url d))]\<rparr>) now = (db', Inr u)"
    and "cs_attempt_id u = j"
  have "snd (second_send db tr wait j prompt d l f now) = [Send_Draft u prompt (dl_url d)]"
    unfolding second_send_def reading_def u by (auto intro!: ebind_effects [where Q = "\<lambda>x. x = []"])
  then show ?thesis using \<open>cs_attempt_id u = j\<close> by blast
qed (simp add: second_send_def)

lemma after_conversation_effects: "list_all (effect_on j) (snd (after_conversation db tr a j prompt url l f now))"
proof -
  have "list_all (effect_on j) (snd (second_send x tr wait j prompt d l f now))" for x wait d
    using second_send_effects [of x tr wait j prompt d l f now] by auto
  then show ?thesis
    unfolding after_conversation_def reading_def
    by (auto intro!: ebind_effects [where Q = "list_all (effect_on j)"] split: option.splits)
qed

lemma after_send_effects: "list_all (effect_on j) (snd (after_send ft db tr a j prompt r l c f now))"
  unfolding after_send_def reading_def
  by (auto intro!: ebind_effects [where Q = "list_all (effect_on j)"] after_conversation_effects)

lemma submitted_row:
  assumes "submit_child_spawn_prompt db j now = (x, Inr (u, prompt))"
  shows "spawn_row x j = Some u" and "cs_attempt_id u = j" and "cs_state u = CS_PROMPT_SUBMITTED"
  by (rule submit_prompt_cases [of db j now]; use assms in auto)+

lemma send_effects_on: "list_all (effect_on j) (snd (send_prompt ft db j tr l c f now))"
  unfolding send_prompt_def reading_def
  by (auto intro!: ebind_effects [where Q = "list_all (effect_on j)"] after_send_effects dest: submitted_row)

lemma prompt_effects_on: "list_all (effect_on j) (snd (execute_child_spawn_prompt ft db j tr l c f now))"
  by (simp add: execute_child_spawn_prompt_def send_effects_on split: sum.splits option.splits)

lemma fenced_rate_limited:
  assumes "fenced i db" and "j \<noteq> i"
  shows "fenced i (fst (rate_limited_retry ft db j r c now))"
  using assms unfolding rate_limited_retry_def Let_def
  by (auto intro!: sbind_pres [where P = "fenced i"] fenced_update fenced.cooldown)

lemma fenced_submit_prompt:
  assumes "fenced i db"
  shows "fenced i (fst (submit_child_spawn_prompt db j now))"
  by (rule submit_prompt_cases [of db j now]) (use assms in \<open>auto simp: fenced_def\<close>)

lemma fenced_send_refused: "fenced i db \<Longrightarrow> \<exists>e. send_prompt ft db i tr l c f now = quiet (db, Inl e)"
  by (rule submit_prompt_cases [of db i now]) (auto simp: fenced_def send_prompt_def)

lemma fenced_send_other: "fenced i db \<Longrightarrow> j \<noteq> i \<Longrightarrow> fenced i (fst (fst (send_prompt ft db j tr l c f now)))"
  unfolding send_prompt_def after_send_def reading_def
  by (auto intro!: ebind_pres [where P = "fenced i"] fenced_submit_prompt fenced_rate_limited fenced.after_conversation fenced_update)

lemma fenced_prompt:
  assumes "fenced i db"
  shows "fenced i (fst (fst (execute_child_spawn_prompt ft db j tr l c f now)))"
    and "snd (execute_child_spawn_prompt ft db i tr l c f now) = []"
proof -
  obtain a where a: "spawn_row db i = Some a" "cs_state a \<in> {CS_PROMPT_SUBMITTED, CS_RECONCILE_REQUIRED, CS_COMPLETED, CS_FAILED}"
    using assms by (auto simp: fenced_def)
  obtain e where refused: "send_prompt ft db i tr l c f now = quiet (db, Inl e)" using fenced_send_refused [OF assms] by blast
  then show "snd (execute_child_spawn_prompt ft db i tr l c f now) = []"
    by (simp add: execute_child_spawn_prompt_def split: sum.splits option.splits)
  have same: "fenced i (fst (update_child_spawn_attempt db k st (no_update\<lparr>su_last_error := e, su_metadata_updates := m\<rparr>) now))"
    if "k = i \<Longrightarrow> st = cs_state a" for k st e m
    using assms a(2) that by (intro fenced_update) (auto simp: no_update_def)
  show "fenced i (fst (fst (execute_child_spawn_prompt ft db j tr l c f now)))"
    unfolding execute_child_spawn_prompt_def
    by (cases "j = i") (auto simp: a get_spawn_row refused assms fenced_send_other intro!: same split: option.splits sum.splits)
qed

lemma fenced_op: "fenced i db \<Longrightarrow> fenced i (fst (run_spawn_op ft p db))"
  by (cases p) (simp_all add: fenced_arm fenced_open fenced_reconcile fenced_prompt Let_def)

lemma fenced_op_silent:
  assumes "fenced i db"
  shows "filter (effect_on i) (snd (run_spawn_op ft p db)) = []"
proof (cases p)
  case (Prompt_Spawn j tr l c f now)
  have "e \<in> set (snd (execute_child_spawn_prompt ft db j tr l c f now)) \<Longrightarrow> \<not> effect_on i e" for e
    using prompt_effects_on [of j ft db tr l c f now] fenced_prompt(2) [OF assms, of ft tr l c f now]
    by (cases "j = i"; cases e) (auto simp: list_all_iff)
  then show ?thesis by (simp add: Prompt_Spawn Let_def filter_empty_conv)
qed simp_all

lemma spawn_silent: "fenced i db \<Longrightarrow> filter (effect_on i) (snd (run_spawn_ops ft ps db)) = []"
proof (induction ps arbitrary: db)
  case (Cons p ps)
  obtain db1 es where 1: "run_spawn_op ft p db = (db1, es)" by fastforce
  obtain db2 es' where 2: "run_spawn_ops ft ps db1 = (db2, es')" by fastforce
  have "filter (effect_on i) es = []" using fenced_op_silent [OF Cons.prems, of ft p] by (simp add: 1)
  moreover have "fenced i db1" using fenced_op [OF Cons.prems, of ft p] by (simp add: 1)
  then have "filter (effect_on i) es' = []" using Cons.IH [of db1] by (simp add: 2)
  ultimately show ?case by (simp add: 1 2)
qed simp

text \<open>C17. An ambiguous prompt is never sent again: once an attempt with a bound window is past its send, in
  whatever state a crash, an unclear answer of the browser or a settlement left it, no sequence of
  operations of the module on any attempts, with any answers of the browser, sends anything for it.\<close>

theorem spawn_prompt_never_resent:
  assumes "spawn_row db i = Some a" and "set_int (cs_window_handle a)"
    and "cs_state a \<in> {CS_PROMPT_SUBMITTED, CS_RECONCILE_REQUIRED, CS_COMPLETED, CS_FAILED}"
  shows "filter (effect_on i) (snd (run_spawn_ops ft ps db)) = []"
  using assms by (intro spawn_silent) (auto simp: fenced_def)

section \<open>The second send\<close>

text \<open>A bound or sent attempt has its window.\<close>

definition bound_ok :: "string \<Rightarrow> registry \<Rightarrow> bool" where
  "bound_ok i db \<longleftrightarrow> (case spawn_row db i of None \<Rightarrow> True
     | Some a \<Rightarrow> cs_state a \<in> {CS_WINDOW_BOUND, CS_PROMPT_SUBMITTED} \<longrightarrow> set_int (cs_window_handle a))"

lemma bound_spawns: "bound_ok i db \<Longrightarrow> db_spawns db' = db_spawns db \<Longrightarrow> bound_ok i db'"
  by (simp add: bound_ok_def spawn_row_def)

lemma bound_update:
  assumes ok: "bound_ok i db"
    and f: "set_int (su_window_handle f) \<or> su_window_handle f = None \<and> (j = i \<and> st = CS_WINDOW_BOUND
      \<longrightarrow> (\<exists>a. spawn_row db i = Some a \<and> cs_state a \<in> {CS_WINDOW_BOUND, CS_PROMPT_SUBMITTED}))"
  shows "bound_ok i (fst (update_child_spawn_attempt db j st f now))"
proof (rule update_spawn_cases [of db j st f now])
  fix a u db' assume u: "update_child_spawn_attempt db j st f now = (db', Inr u)" "spawn_row db j = Some a"
      "\<And>k. spawn_row db' k = (if k = j then Some u else spawn_row db k)" "cs_state u = st"
      "st = cs_state a \<or> st \<in> set (spawn_allowed (cs_state a))"
      "cs_window_handle u = (if su_window_handle f = None then cs_window_handle a else su_window_handle f)"
  show ?thesis
  proof (cases "j = i \<and> su_window_handle f = None")
    case True
    then show ?thesis
      using ok f u by (cases "cs_state a") (auto simp: bound_ok_def set_int_def split: option.splits)
  qed (use ok f u in \<open>auto simp: bound_ok_def split: option.splits\<close>)
qed (use ok in simp)

lemma bound_annotate: "bound_ok i db \<Longrightarrow> bound_ok i (fst (annotate_child_spawn_attempt db j m now))"
proof -
  have "spawn_row db i = None \<Longrightarrow> spawn_row (fst (annotate_child_spawn_attempt db j m now)) i = None"
    unfolding annotate_child_spawn_attempt_def
    by (rule transaction_rule [where P = "\<lambda>x. spawn_row x i = None"])
      (auto simp: store_spawn_def journal_update_def spawn_row_def Let_def tbl_find_None_iff set_tbl_update image_iff split: if_splits)
  then show "bound_ok i db \<Longrightarrow> ?thesis"
    using annotate_spawn_row [of db i j m now] by (auto simp: bound_ok_def same_progress_def split: option.splits)
qed

interpretation bound: spawn_invariant "bound_ok i" for i
proof unfold_locales
  fix db st j now and f :: spawn_update
  assume "bound_ok i db" "st \<in> {CS_PROMPT_SUBMITTED, CS_RECONCILE_REQUIRED, CS_COMPLETED, CS_FAILED}" "su_window_handle f = None"
  then show "bound_ok i (fst (update_child_spawn_attempt db j st f now))" by (intro bound_update) auto
qed (blast intro: bound_spawns bound_annotate)+

lemma bound_bind_window: "bound_ok i db \<Longrightarrow> bound_ok i (fst (bind_child_spawn_window db j h p u now))"
  unfolding bind_child_spawn_window_def reading_def
  by (rule sbind_pres [where P = "bound_ok i"]) (auto intro!: bound_update simp: set_int_def)

lemma bound_open: "bound_ok i db \<Longrightarrow> bound_ok i (fst (execute_child_spawn_open db j tr w b a t0 now))"
  unfolding execute_child_spawn_open_def submit_child_spawn_open_def reading_def
  by (auto intro!: sbind_pres [where P = "bound_ok i"] bound_bind_window bound.mark_recycled bound_update simp: no_update_def)

lemma bound_reconcile: "bound_ok i db \<Longrightarrow> bound_ok i (fst (reconcile_child_spawn db j owned bound l f now))"
  unfolding reconcile_child_spawn_def reading_def
  by (auto simp: Let_def no_update_def intro!: sbind_pres [where P = "bound_ok i"] bound.complete bound_bind_window bound_update)

lemma bound_arm:
  assumes "bound_ok i db"
  shows "bound_ok i (fst (arm_child_spawn db t c ws now age x y))"
proof -
  have "bound_ok i (fst (record_child_spawn_attempt db a))" for a
    unfolding record_child_spawn_attempt_def
    by (rule transaction_rule [where P = "bound_ok i"])
      (use assms in \<open>auto simp: bound_ok_def spawn_row_def Let_def journal_insert_def tbl_find_append split: if_splits option.splits\<close>)
  then show ?thesis
    unfolding arm_child_spawn_def reading_def Let_def by (auto intro!: sbind_pres [where P = "bound_ok i"] assms)
qed

lemma bound_submit_prompt:
  assumes "bound_ok i db" and "submit_child_spawn_prompt db i now = (db', Inr (u, prompt))"
  shows "fenced i db'"
  by (rule submit_prompt_cases [of db i now]) (use assms in \<open>auto simp: fenced_def bound_ok_def\<close>)

lemma bound_submit_other:
  assumes "bound_ok i db"
  shows "bound_ok i (fst (submit_child_spawn_prompt db j now))"
  by (rule submit_prompt_cases [of db j now]) (use assms in \<open>auto simp: bound_ok_def split: option.splits\<close>)

lemma fenced_bound: "fenced i db \<Longrightarrow> bound_ok i db"
  by (auto simp: fenced_def bound_ok_def)

text \<open>Back to the bound window after a send that did nothing: the attempt is still the submitted one.\<close>

lemma bound_back:
  assumes "bound_ok i db" and "j = i \<Longrightarrow> \<exists>a. spawn_row db i = Some a \<and> cs_state a = CS_PROMPT_SUBMITTED" and "su_window_handle f = None"
  shows "bound_ok i (fst (update_child_spawn_attempt db j st f now))"
  using assms by (intro bound_update) auto

lemma bound_rate_limited:
  assumes "bound_ok i db" and "j = i \<Longrightarrow> \<exists>a. spawn_row db i = Some a \<and> cs_state a = CS_PROMPT_SUBMITTED"
  shows "bound_ok i (fst (rate_limited_retry ft db j r c now))"
  unfolding rate_limited_retry_def Let_def
proof (rule sbind_pres [where P = "bound_ok i"])
  fix x y
  assume "set_runtime_cooldown db web_child_dispatch (now + max 5 (min c 900)) ''ChatGPT Too many requests modal''
      [(''modal_dismissed'', JBool (se_modal_dismissed r))] now = (x, Inr y)" and ok: "bound_ok i x"
  then have "db_spawns x = db_spawns db" using set_runtime_cooldown_spawns by (metis fst_conv)
  then have "j = i \<Longrightarrow> \<exists>a. spawn_row x i = Some a \<and> cs_state a = CS_PROMPT_SUBMITTED"
    using assms(2) by (simp add: spawn_row_def)
  with ok show "bound_ok i (fst (update_child_spawn_attempt x j CS_WINDOW_BOUND
      (no_update\<lparr>su_last_error := e, su_metadata_updates := m\<rparr>) now))" for e m
    by (intro bound_back) (auto simp: no_update_def)
qed (simp add: bound.cooldown assms)

lemma bound_send:
  assumes "bound_ok i db"
  shows "bound_ok i (fst (fst (send_prompt ft db j tr l c f now)))"
  unfolding send_prompt_def reading_def
proof (rule ebind_pres [where P = "bound_ok i"], simp add: bound_submit_other assms)
  fix x y assume ok: "bound_ok i x" and y: "submit_child_spawn_prompt db j now = (x, Inr y)"
  obtain u prompt where u: "y = (u, prompt)" by fastforce
  then have row: "spawn_row x j = Some u" "cs_state u = CS_PROMPT_SUBMITTED" using y submitted_row by blast+
  have "bound_ok i (fst (fst (after_send ft x tr u j prompt r l c f now)))" for r
    unfolding after_send_def reading_def using ok row
    by (auto intro!: bound_rate_limited bound_back ebind_pres [where P = "bound_ok i"] bound.after_conversation
        simp: no_update_def)
  then show "bound_ok i (fst (fst (case y of (submitted, prompt) \<Rightarrow> emit (Send_Prompt submitted prompt)
      (ebind (x, pt_send tr submitted prompt) (\<lambda>db result. after_send ft db tr submitted j prompt result l c f now)))))"
    using ok u by (auto intro!: ebind_pres [where P = "bound_ok i"])
qed

lemma bound_prompt:
  assumes "bound_ok i db"
  shows "bound_ok i (fst (fst (execute_child_spawn_prompt ft db j tr l c f now)))"
proof -
  have "bound_ok i (fst (update_child_spawn_attempt db j (cs_state a) (no_update\<lparr>su_last_error := e, su_metadata_updates := m\<rparr>) now))"
    if "get_child_spawn_attempt db j = Inr a" for a e m
    using that assms by (intro bound_update) (auto simp: no_update_def get_spawn_row split: option.splits)
  with assms bound_send show ?thesis
    by (auto simp: execute_child_spawn_prompt_def split: sum.splits option.splits)
qed

lemma bound_op: "bound_ok i db \<Longrightarrow> bound_ok i (fst (run_spawn_op ft p db))"
  by (cases p) (simp_all add: bound_arm bound_open bound_reconcile bound_prompt Let_def)

text \<open>The shape of what is sent for an attempt: prompts, then at most one draft, which is the last.\<close>

definition draft_last :: "spawn_effect list \<Rightarrow> bool" where
  "draft_last es \<longleftrightarrow> list_all (\<lambda>e. \<not> is_draft e) (butlast es)"

lemma after_conversation_drafts: "draft_last (snd (after_conversation db tr a j prompt url l f now))
    \<and> length (snd (after_conversation db tr a j prompt url l f now)) \<le> 1"
proof -
  have "length (snd (second_send x tr wait j prompt d l f now)) \<le> 1" for x wait d
    using second_send_effects [of x tr wait j prompt d l f now] by auto
  then have "length (snd (after_conversation db tr a j prompt url l f now)) \<le> 1"
    unfolding after_conversation_def reading_def
    by (auto intro!: ebind_effects [where Q = "\<lambda>x. length x \<le> Suc 0"] split: option.splits)
  moreover have "length xs \<le> 1 \<Longrightarrow> butlast xs = []" for xs :: "spawn_effect list" by (cases xs) auto
  ultimately show ?thesis by (simp add: draft_last_def)
qed

text \<open>An execution either sends no draft, or its attempt is past its send afterwards.\<close>

lemma after_send_drafts:
  assumes "fenced i db"
  shows "snd (after_send ft db tr a j prompt r l c f now) = []
    \<or> length (snd (after_send ft db tr a j prompt r l c f now)) = 1 \<and> fenced i (fst (fst (after_send ft db tr a j prompt r l c f now)))"
proof (cases "se_rate_limited r \<or> \<not> se_changed r")
  case False
  then have eq: "after_send ft db tr a j prompt r l c f now = ebind (db, pt_wait_conversation tr a) (\<lambda>db t.
      if \<not> (present (se_url t) \<and> in_project a (the (se_url t))) then spawn_ambiguous db j (se_detail t) now
      else after_conversation db tr a j prompt (the (se_url t)) l f now)"
    by (simp add: after_send_def reading_def)
  show ?thesis
  proof (cases "pt_wait_conversation tr a")
    case (Inr t)
    then show ?thesis
      using eq after_conversation_drafts [of db tr a j prompt "the (se_url t)" l f now]
        fenced.after_conversation [OF assms, of tr a j prompt "the (se_url t)" l f now]
      by (cases "snd (after_conversation db tr a j prompt (the (se_url t)) l f now)") auto
  qed (simp add: eq)
qed (auto simp: after_send_def)

lemma send_drafts:
  assumes "bound_ok i db"
  shows "list_all (\<lambda>e. \<not> is_draft e) (snd (send_prompt ft db i tr l c f now))
    \<or> draft_last (snd (send_prompt ft db i tr l c f now)) \<and> fenced i (fst (fst (send_prompt ft db i tr l c f now)))"
proof (cases "submit_child_spawn_prompt db i now")
  case (Pair x r)
  show ?thesis
  proof (cases r)
    case (Inr y)
    obtain u prompt where y: "y = (u, prompt)" by fastforce
    have fx: "fenced i x" using bound_submit_prompt [OF assms] Pair Inr y by blast
    show ?thesis
    proof (cases "pt_send tr u prompt")
      case (Inr s)
      then have eq: "send_prompt ft db i tr l c f now = emit (Send_Prompt u prompt) (after_send ft x tr u i prompt s l c f now)"
        using Pair \<open>r = Inr y\<close> y by (simp add: send_prompt_def reading_def)
      show ?thesis
        using after_send_drafts [OF fx, of ft tr u i prompt s l c f now] eq
        by (cases "snd (after_send ft x tr u i prompt s l c f now)") (auto simp: draft_last_def)
    qed (use Pair Inr y in \<open>simp add: send_prompt_def reading_def\<close>)
  qed (use Pair in \<open>simp add: send_prompt_def\<close>)
qed

lemma op_drafts:
  assumes "bound_ok i db"
  shows "list_all (\<lambda>e. \<not> is_draft e) (filter (effect_on i) (snd (run_spawn_op ft p db)))
    \<or> draft_last (filter (effect_on i) (snd (run_spawn_op ft p db))) \<and> fenced i (fst (run_spawn_op ft p db))"
proof (cases p)
  case (Prompt_Spawn j tr l c f now)
  let ?r = "execute_child_spawn_prompt ft db j tr l c f now"
  have run: "run_spawn_op ft p db = (fst (fst ?r), snd ?r)" by (simp add: Prompt_Spawn Let_def)
  show ?thesis
  proof (cases "j = i")
    case True
    have "filter (effect_on i) (snd ?r) = snd ?r"
      using prompt_effects_on [of i ft db tr l c f now] True by (simp add: filter_id_conv list_all_iff)
    moreover have "?r = send_prompt ft db i tr l c f now \<or> snd ?r = []"
      by (auto simp: True execute_child_spawn_prompt_def split: sum.splits option.splits)
    ultimately show ?thesis using send_drafts [OF assms, of ft tr l c f now] run by auto
  next
    case False
    then have "\<not> effect_on i e" if "e \<in> set (snd ?r)" for e
      using prompt_effects_on [of j ft db tr l c f now] that by (cases e) (auto simp: list_all_iff)
    then have "filter (effect_on i) (snd ?r) = []" by (simp add: filter_empty_conv)
    then show ?thesis using run by simp
  qed
qed simp_all

lemma butlast_append_drafts:
  "list_all (\<lambda>e. \<not> is_draft e) xs \<Longrightarrow> draft_last ys \<Longrightarrow> draft_last (xs @ ys)"
  by (cases "ys = []") (auto simp: draft_last_def butlast_append list_all_iff dest: in_set_butlastD)

text \<open>The second send of a draft happens at most once in the life of an attempt, and nothing is sent for
  the attempt after it: whatever sequence of operations runs on any attempts, with any answers of the
  browser and any crashes of the transport, in what is sent for an attempt every effect before the last is
  the first-stage send of the contract's prompt.\<close>

theorem draft_sent_once_and_last:
  assumes "spawn_row db i = None"
  shows "list_all (\<lambda>e. \<not> is_draft e) (butlast (filter (effect_on i) (snd (run_spawn_ops ft ps db))))"
proof -
  have "bound_ok i db" using assms by (simp add: bound_ok_def)
  then have "draft_last (filter (effect_on i) (snd (run_spawn_ops ft ps db)))"
  proof (induction ps arbitrary: db)
    case (Cons p ps)
    obtain db1 es where 1: "run_spawn_op ft p db = (db1, es)" by fastforce
    obtain db2 es' where 2: "run_spawn_ops ft ps db1 = (db2, es')" by fastforce
    have rest: "draft_last (filter (effect_on i) es')" using Cons.IH [of db1] bound_op [OF Cons.prems, of ft p] by (simp add: 1 2)
    have "filter (effect_on i) es' = []" if "fenced i db1"
      using spawn_silent [OF that, of ft ps] by (simp add: 2)
    with op_drafts [OF Cons.prems, of ft p] rest show ?case by (auto simp: 1 2 intro: butlast_append_drafts)
  qed (simp add: draft_last_def)
  then show ?thesis by (simp add: draft_last_def)
qed

section \<open>A run with both sends\<close>

definition demo_project_child :: registry where
  "demo_project_child = fst (create_child_dispatch (\<lambda>x. x) demo_root
     ((demo_request (Some ''child''))\<lparr>dq_web_project_url := Some demo_project_url\<rparr>) ''f1'' ''d1'' 1)"

definition demo_spawn_workspace :: workspace_observation where
  "demo_spawn_workspace = \<lparr>wo_task_id = ''child'', wo_observed_at = 4, wo_cwd = ''c'', wo_cwd_exists = True,
     wo_is_git_repo = Some True, wo_git_root = None, wo_git_head = Some ''h'', wo_git_branch = Some ''main'',
     wo_git_dirty = Some False, wo_git_status_hash = Some ''s'', wo_git_status_entries = [], wo_error = None, wo_raw = []\<rparr>"

definition demo_open_transport :: open_transport where
  "demo_open_transport = \<lparr>ot_open = (\<lambda>a. Inr (at_window (Some 7) (Some 9) (Some (cs_tagged_project_url a)) (execution True True ''opened''))),
     ot_reuse = (\<lambda>a w b. Inl gated), ot_reuse_spawn = (\<lambda>a b. Inl gated)\<rparr>"

definition demo_route :: string where
  "demo_route = ''https://chatgpt.com/g/g-p-'' @ demo_project_id @ ''/c/01234567''"

text \<open>The first send only creates the conversation; the draft is sent again and then delivered.\<close>

definition demo_prompt_transport :: prompt_transport where
  "demo_prompt_transport = \<lparr>pt_send = (\<lambda>a p. Inr (execution True True ''sent'')),
     pt_wait_conversation = (\<lambda>a. Inr ((execution True False ''route'')\<lparr>se_url := Some demo_route\<rparr>)),
     pt_wait_delivery = Some (\<lambda>again a p. Inr \<lparr>dl_url = demo_route, dl_generating = again, dl_composer_value = p,
       dl_send_button_ready = True, dl_prompt_matches_draft = \<not> again, dl_detail = ''seen''\<rparr>),
     pt_send_draft = (\<lambda>a p u. Inr (execution True True ''sent again''))\<rparr>"

definition demo_spawn_ops :: "spawn_op list" where
  "demo_spawn_ops = [Arm_Spawn ''child'' ''chrome'' (Some demo_spawn_workspace) 5 60 ''0123456789abcdef'' ''0123456789abcdef'',
     Open_Spawn ''spawn_0123456789abcdef'' demo_open_transport None None None 6 6,
     Prompt_Spawn ''spawn_0123456789abcdef'' demo_prompt_transport 100 60 ''w1'' 7]"

abbreviation demo_spawn_id where
  "demo_spawn_id \<equiv> ''spawn_0123456789abcdef''"

definition demo_spawned :: "registry \<times> spawn_effect list" where
  "demo_spawned = run_spawn_ops (\<lambda>_. ''f'') demo_spawn_ops demo_project_child"

theorem draft_sent_once_and_last_witness:
  "spawn_row demo_project_child demo_spawn_id = None
    \<and> map is_draft (filter (effect_on demo_spawn_id) (snd demo_spawned)) = [False, True]
    \<and> list_all (\<lambda>e. \<not> is_draft e) (butlast (filter (effect_on demo_spawn_id) (snd demo_spawned)))"
proof -
  have "spawn_row demo_project_child demo_spawn_id = None" by code_simp
  moreover have "map is_draft (filter (effect_on demo_spawn_id) (snd demo_spawned)) = [False, True]" by code_simp
  ultimately show ?thesis using draft_sent_once_and_last unfolding demo_spawned_def by blast
qed

theorem spawn_prompt_never_resent_witness:
  "\<exists>a. spawn_row (fst demo_spawned) demo_spawn_id = Some a \<and> set_int (cs_window_handle a) \<and> cs_state a = CS_COMPLETED
    \<and> filter (effect_on demo_spawn_id) (snd (run_spawn_ops (\<lambda>_. ''f'') demo_spawn_ops (fst demo_spawned))) = []"
proof -
  have "(case spawn_row (fst demo_spawned) demo_spawn_id of None \<Rightarrow> False
      | Some a \<Rightarrow> set_int (cs_window_handle a) \<and> cs_state a = CS_COMPLETED)" by code_simp
  then obtain a where a: "spawn_row (fst demo_spawned) demo_spawn_id = Some a" "set_int (cs_window_handle a)"
      "cs_state a = CS_COMPLETED" by (auto split: option.splits)
  with spawn_prompt_never_resent [OF a(1,2)] show ?thesis by auto
qed

end
