(* ===== verification/Watchdog.thy ===== *)
theory Watchdog
  imports Registry_Tables
begin

text \<open>
  The singleton lease of the resident watchdog: the methods of \<^verbatim>\<open>registry.py\<close> on the table
  \<^verbatim>\<open>watchdog_leases\<close>, and \<^verbatim>\<open>watchdog_host.py\<close> without its process launching (whether a process exists is
  an argument). The lemmas show that a kept-alive owner cannot be displaced before its lease ends, that
  a stop request fences the running owner, and that waiting for its exit ends.
\<close>

section \<open>Lease operations\<close>

definition watchdog_lease :: "registry \<Rightarrow> string \<Rightarrow> watchdog_lease_row option" where
  "watchdog_lease db name = tbl_find wd_name name (db_watchdog db)"

definition acquire_watchdog_lease ::
  "registry \<Rightarrow> string \<Rightarrow> string \<Rightarrow> int \<Rightarrow> string \<Rightarrow> real \<Rightarrow> timestamp
     \<Rightarrow> registry \<times> (bool \<times> watchdog_lease_row)" where
  "acquire_watchdog_lease db name owner pid host ttl now =
     (let claim = (\<lambda>started.
            let r = \<lparr>wd_name = name, wd_owner_id = owner, wd_pid = pid, wd_host = host,
                     wd_started_at = started, wd_heartbeat_at = now, wd_expires_at = now + max 1 ttl\<rparr>
            in (db\<lparr>db_watchdog := tbl_upsert wd_name r (db_watchdog db)\<rparr>, (True, r)))
      in case watchdog_lease db name of
           None \<Rightarrow> claim now
         | Some row \<Rightarrow>
             if wd_owner_id row \<noteq> owner \<and> now < wd_expires_at row then (db, (False, row))
             else claim (if wd_owner_id row = owner then wd_started_at row else now))"

text \<open>Rows of a name with an owner; an \<^verbatim>\<open>UPDATE\<close> or \<^verbatim>\<open>DELETE\<close> reports how many it matched.\<close>

definition owned_rows :: "registry \<Rightarrow> string \<Rightarrow> string \<Rightarrow> watchdog_lease_row list" where
  "owned_rows db name owner = filter (\<lambda>r. wd_name r = name \<and> wd_owner_id r = owner) (db_watchdog db)"

definition heartbeat_watchdog_lease ::
  "registry \<Rightarrow> string \<Rightarrow> string \<Rightarrow> real \<Rightarrow> timestamp \<Rightarrow> registry \<times> bool" where
  "heartbeat_watchdog_lease db name owner ttl now =
     (db\<lparr>db_watchdog := map (\<lambda>r. if wd_name r = name \<and> wd_owner_id r = owner
          then r\<lparr>wd_heartbeat_at := now, wd_expires_at := now + max 1 ttl\<rparr> else r) (db_watchdog db)\<rparr>,
      length (owned_rows db name owner) = 1)"

definition release_watchdog_lease :: "registry \<Rightarrow> string \<Rightarrow> string \<Rightarrow> registry \<times> bool" where
  "release_watchdog_lease db name owner =
     (db\<lparr>db_watchdog := filter (\<lambda>r. \<not> (wd_name r = name \<and> wd_owner_id r = owner)) (db_watchdog db)\<rparr>,
      length (owned_rows db name owner) = 1)"

definition is_stop :: "string \<Rightarrow> bool" where
  "is_stop owner = (take 5 owner = ''stop:'')"

text \<open>
  The result is the lease row that is in force and, when this call replaced an owner, that owner.
  The fresh token is \<^verbatim>\<open>stop:\<close> and a random identifier.
\<close>

definition request_watchdog_stop ::
  "registry \<Rightarrow> string \<Rightarrow> real \<Rightarrow> string \<Rightarrow> timestamp
     \<Rightarrow> registry \<times> (watchdog_lease_row \<times> string option) option" where
  "request_watchdog_stop db name grace fresh_id now =
     (case watchdog_lease db name of
        None \<Rightarrow> (db, None)
      | Some row \<Rightarrow>
          if is_stop (wd_owner_id row) \<and> now < wd_expires_at row then (db, Some (row, None))
          else
            let r = row\<lparr>wd_owner_id := ''stop:'' @ fresh_id, wd_heartbeat_at := now,
                  wd_expires_at := now + max 5 grace\<rparr>
            in (db\<lparr>db_watchdog := tbl_update wd_name name (\<lambda>_. r) (db_watchdog db)\<rparr>,
                Some (r, Some (wd_owner_id row))))"

definition clear_watchdog_stop :: "registry \<Rightarrow> string \<Rightarrow> string \<Rightarrow> registry \<times> bool result" where
  "clear_watchdog_stop db name owner =
     (if \<not> is_stop owner then (db, Inl (ValueError ''stop_owner_id must be a stop: lease token''))
      else case release_watchdog_lease db name owner of (db', b) \<Rightarrow> (db', Inr b))"

section \<open>The watchdog host\<close>

datatype lease_state = WS_MISSING | WS_STOP_FENCED | WS_LIVE | WS_FRESH_DEAD | WS_STALE_ALIVE | WS_STALE_DEAD

record watchdog_host_status =
  hs_lease_present :: bool
  hs_stop_requested :: bool
  hs_pid :: "int option"
  hs_pid_alive :: "bool option"
  hs_fresh :: bool
  hs_lease_state :: lease_state

definition inspect_watchdog_host ::
  "(int \<Rightarrow> bool) \<Rightarrow> registry \<Rightarrow> string \<Rightarrow> timestamp \<Rightarrow> watchdog_host_status" where
  "inspect_watchdog_host pid_exists db name now = (case watchdog_lease db name of
     None \<Rightarrow> \<lparr>hs_lease_present = False, hs_stop_requested = False, hs_pid = None, hs_pid_alive = None,
             hs_fresh = False, hs_lease_state = WS_MISSING\<rparr>
   | Some r \<Rightarrow>
       let fresh = (now < wd_expires_at r);
           alive = (wd_pid r \<noteq> 0 \<and> pid_exists (wd_pid r));
           stop = (is_stop (wd_owner_id r) \<and> fresh)
       in \<lparr>hs_lease_present = True, hs_stop_requested = stop,
           hs_pid = (if wd_pid r = 0 then None else Some (wd_pid r)), hs_pid_alive = Some alive,
           hs_fresh = fresh,
           hs_lease_state = (if stop then WS_STOP_FENCED else if fresh \<and> alive then WS_LIVE
             else if fresh then WS_FRESH_DEAD else if alive then WS_STALE_ALIVE else WS_STALE_DEAD)\<rparr>)"

text \<open>The command line of the detached watchdog; \<open>float_text\<close> is the text of a float.\<close>

definition build_watchdog_command ::
  "(real \<Rightarrow> string) \<Rightarrow> string \<Rightarrow> string \<Rightarrow> real \<Rightarrow> bool \<Rightarrow> bool \<Rightarrow> bool \<Rightarrow> real \<Rightarrow> string option \<Rightarrow> string option
     \<Rightarrow> string option \<Rightarrow> string list" where
  "build_watchdog_command float_text python db_path interval use_uia recover continue overrun_after lsm_dir git_bin owner =
     [python, ''-m'', ''lws'', ''--db'', db_path]
     @ (if lsm_dir \<in> {None, Some []} then [] else [''--lsm-state-dir'', the lsm_dir])
     @ (if git_bin \<in> {None, Some []} then [] else [''--git-bin'', the git_bin])
     @ [''watch'', ''--interval'', float_text (max 1 interval)]
     @ (if owner \<in> {None, Some []} then [] else [''--lease-owner'', the owner])
     @ (if use_uia \<or> recover \<or> continue then [''--uia''] else [])
     @ (if recover then [''--auto-recover-timeouts''] else [])
     @ (if continue then [''--auto-continue-overruns'', ''--overrun-after'', float_text (max 1 overrun_after)] else [])"

text \<open>
  The wait of \<^verbatim>\<open>stop_watchdog_host\<close>. The world is seen through samples: the \<open>n\<close>-th evaluation of the loop
  condition sees whether the process exists and what the clock says. The value is the number of sleeps;
  a loop that never ends has no value.
\<close>

partial_function (option) await_exit :: "(nat \<Rightarrow> bool) \<Rightarrow> (nat \<Rightarrow> timestamp) \<Rightarrow> timestamp \<Rightarrow> nat \<Rightarrow> nat option" where
  [code]: "await_exit alive clock deadline n =
     (if alive n \<and> clock n < deadline then await_exit alive clock deadline (Suc n) else Some n)"

record watchdog_stop_result =
  sr_requested :: bool
  sr_pid :: "int option"
  sr_stopped :: bool
  sr_cleared :: bool

text \<open>
  \<open>start\<close> is the clock when the deadline is fixed; the evaluation after the loop is one more sample.
\<close>

definition stop_watchdog_host ::
  "(nat \<Rightarrow> bool) \<Rightarrow> (nat \<Rightarrow> timestamp) \<Rightarrow> timestamp \<Rightarrow> registry \<Rightarrow> string \<Rightarrow> real \<Rightarrow> real \<Rightarrow> string \<Rightarrow> timestamp
     \<Rightarrow> (registry \<times> watchdog_stop_result) option" where
  "stop_watchdog_host alive clock start db name grace wait fresh_id now =
     (case request_watchdog_stop db name grace fresh_id now of
        (db, None) \<Rightarrow> Some (db, \<lparr>sr_requested = False, sr_pid = None, sr_stopped = True, sr_cleared = False\<rparr>)
      | (db, Some (row, _)) \<Rightarrow>
          let pid = wd_pid row in
          map_option (\<lambda>n.
            let stopped = (pid = 0 \<or> \<not> alive (Suc n));
                cleared = (if stopped \<and> is_stop (wd_owner_id row)
                  then clear_watchdog_stop db name (wd_owner_id row) else (db, Inr False))
            in (fst cleared, \<lparr>sr_requested = True, sr_pid = (if pid = 0 then None else Some pid),
                 sr_stopped = stopped, sr_cleared = (snd cleared = Inr True)\<rparr>))
          (if pid = 0 then Some 0 else await_exit alive clock (start + max 0 wait) 0))"

section \<open>Sequences of calls\<close>

datatype watchdog_call =
    Acquire string string int string real timestamp
  | Heartbeat string string real timestamp
  | Release string string
  | Request_Stop string real string timestamp
  | Clear_Stop string string

fun run_watchdog :: "watchdog_call \<Rightarrow> registry \<Rightarrow> registry" where
  "run_watchdog (Acquire name owner pid host ttl now) db = fst (acquire_watchdog_lease db name owner pid host ttl now)"
| "run_watchdog (Heartbeat name owner ttl now) db = fst (heartbeat_watchdog_lease db name owner ttl now)"
| "run_watchdog (Release name owner) db = fst (release_watchdog_lease db name owner)"
| "run_watchdog (Request_Stop name grace fresh now) db = fst (request_watchdog_stop db name grace fresh now)"
| "run_watchdog (Clear_Stop name owner) db = fst (clear_watchdog_stop db name owner)"

text \<open>Whether a call reports success to its caller: who may go on believing that it is the watchdog.\<close>

fun call_granted :: "watchdog_call \<Rightarrow> registry \<Rightarrow> bool" where
  "call_granted (Acquire name owner pid host ttl now) db = fst (snd (acquire_watchdog_lease db name owner pid host ttl now))"
| "call_granted (Heartbeat name owner ttl now) db = snd (heartbeat_watchdog_lease db name owner ttl now)"
| "call_granted (Release name owner) db = snd (release_watchdog_lease db name owner)"
| "call_granted (Request_Stop name grace fresh now) db = (snd (request_watchdog_stop db name grace fresh now) \<noteq> None)"
| "call_granted (Clear_Stop name owner) db = (snd (clear_watchdog_stop db name owner) = Inr True)"

fun run_watchdogs :: "watchdog_call list \<Rightarrow> registry \<Rightarrow> registry" where
  "run_watchdogs [] db = db"
| "run_watchdogs (c # cs) db = run_watchdogs cs (run_watchdog c db)"

section \<open>Exclusion\<close>

lemma watchdog_lease_upsert [simp]:
  "watchdog_lease (db\<lparr>db_watchdog := tbl_upsert wd_name r (db_watchdog db)\<rparr>) name
    = (if name = wd_name r then Some r else watchdog_lease db name)"
  by (simp add: watchdog_lease_def tbl_find_upsert)

definition wd_ok :: "registry \<Rightarrow> bool" where
  "wd_ok db \<longleftrightarrow> tbl_ok wd_name (db_watchdog db)"

lemma owned_rows_iff:
  assumes "wd_ok db"
  shows "length (owned_rows db name owner) = 1 \<longleftrightarrow> (\<exists>r. watchdog_lease db name = Some r \<and> wd_owner_id r = owner)"
proof -
  have ok: "tbl_ok wd_name (db_watchdog db)" using assms by (simp add: wd_ok_def)
  show ?thesis
  proof (cases "watchdog_lease db name")
    case None
    then have "owned_rows db name owner = []"
      by (auto simp: owned_rows_def watchdog_lease_def tbl_find_None_iff filter_empty_conv)
    with None show ?thesis by simp
  next
    case (Some r)
    then have r: "r \<in> set (db_watchdog db)" "wd_name r = name" by (auto simp: watchdog_lease_def dest: tbl_find_SomeD)
    have only: "x = r" if "x \<in> set (db_watchdog db)" "wd_name x = name" for x
      using tbl_ok_uniq [OF ok that(1) r(1)] that r by simp
    show ?thesis
    proof (cases "wd_owner_id r = owner")
      case True
      have "owned_rows db name owner = [r]"
        unfolding owned_rows_def filter_eq_singleton_iff [OF tbl_ok_distinct [OF ok]]
        using r True only by blast
      with Some True show ?thesis by simp
    next
      case False
      with only have "owned_rows db name owner = []" by (auto simp: owned_rows_def filter_empty_conv)
      with Some False show ?thesis by simp
    qed
  qed
qed

lemma watchdog_lease_heartbeat:
  "watchdog_lease (fst (heartbeat_watchdog_lease db name owner ttl now)) n = (case watchdog_lease db n of None \<Rightarrow> None
     | Some r \<Rightarrow> Some (if n = name \<and> wd_owner_id r = owner
         then r\<lparr>wd_heartbeat_at := now, wd_expires_at := now + max 1 ttl\<rparr> else r))"
proof -
  have "tbl_find wd_name n (map (\<lambda>r. if wd_name r = name \<and> wd_owner_id r = owner
      then r\<lparr>wd_heartbeat_at := now, wd_expires_at := now + max 1 ttl\<rparr> else r) rs)
    = (case tbl_find wd_name n rs of None \<Rightarrow> None | Some r \<Rightarrow> Some (if n = name \<and> wd_owner_id r = owner
         then r\<lparr>wd_heartbeat_at := now, wd_expires_at := now + max 1 ttl\<rparr> else r))" for rs
    by (induction rs) auto
  then show ?thesis by (simp add: heartbeat_watchdog_lease_def watchdog_lease_def)
qed

lemma watchdog_lease_release:
  assumes "wd_ok db"
  shows "watchdog_lease (fst (release_watchdog_lease db name owner)) n = (case watchdog_lease db n of None \<Rightarrow> None
     | Some r \<Rightarrow> if n = name \<and> wd_owner_id r = owner then None else Some r)"
proof -
  have "tbl_ok wd_name rs \<Longrightarrow> tbl_find wd_name n (filter (\<lambda>r. \<not> (wd_name r = name \<and> wd_owner_id r = owner)) rs)
    = (case tbl_find wd_name n rs of None \<Rightarrow> None
       | Some r \<Rightarrow> if n = name \<and> wd_owner_id r = owner then None else Some r)" for rs
  proof (induction rs)
    case (Cons r rs)
    then have "wd_name r \<notin> wd_name ` set rs" "tbl_ok wd_name rs" by (auto simp: tbl_ok_def)
    moreover from this have "tbl_find wd_name (wd_name r) (filter P rs) = None" for P
      by (auto simp: tbl_find_None_iff)
    ultimately show ?case using Cons.IH by auto
  qed simp
  then show ?thesis using assms by (simp add: release_watchdog_lease_def watchdog_lease_def wd_ok_def)
qed

lemma watchdog_lease_stop:
  "watchdog_lease (fst (request_watchdog_stop db name grace fresh now)) n = (case watchdog_lease db n of None \<Rightarrow> None
     | Some r \<Rightarrow> Some (if n = name \<and> \<not> (is_stop (wd_owner_id r) \<and> now < wd_expires_at r)
         then r\<lparr>wd_owner_id := ''stop:'' @ fresh, wd_heartbeat_at := now, wd_expires_at := now + max 5 grace\<rparr> else r))"
proof (cases "watchdog_lease db name")
  case (Some row)
  then have "wd_name row = name" by (auto simp: watchdog_lease_def dest: tbl_find_SomeD)
  with Some show ?thesis
    by (cases "n = name")
      (auto simp: request_watchdog_stop_def watchdog_lease_def Let_def tbl_find_update split: option.splits)
qed (cases "n = name"; auto simp: request_watchdog_stop_def split: option.splits)

lemma rows_filter_ok: "tbl_ok key rs \<Longrightarrow> tbl_ok key (filter P rs)"
  by (simp add: tbl_ok_def distinct_map_filter)

lemma heartbeat_names:
  "map wd_name (db_watchdog (fst (heartbeat_watchdog_lease db name owner ttl now))) = map wd_name (db_watchdog db)"
  by (simp add: heartbeat_watchdog_lease_def)

lemma run_watchdog_ok: "wd_ok db \<Longrightarrow> wd_ok (run_watchdog c db)"
proof (cases c)
  case (Heartbeat name owner ttl now)
  moreover assume "wd_ok db"
  ultimately show ?thesis by (simp add: wd_ok_def tbl_ok_def heartbeat_names del: map_map)
next
  case (Request_Stop name grace fresh now)
  moreover assume "wd_ok db"
  ultimately show ?thesis
    by (auto simp: wd_ok_def request_watchdog_stop_def watchdog_lease_def Let_def tbl_ok_update
        dest: tbl_find_SomeD split: option.splits)
qed (auto simp: wd_ok_def acquire_watchdog_lease_def release_watchdog_lease_def clear_watchdog_stop_def Let_def
    tbl_ok_upsert rows_filter_ok split: option.splits)

text \<open>
  The calls that leave a lease of \<open>owner\<close> which runs until \<open>until\<close> in place: rivals ask before it ends,
  the owner itself only renews, and nobody stops, releases or clears it (a further stop request during
  a stop is harmless).
\<close>

fun undisturbing :: "string \<Rightarrow> string \<Rightarrow> timestamp \<Rightarrow> watchdog_call \<Rightarrow> bool" where
  "undisturbing name owner until (Acquire n o' pid host ttl now) =
     (n \<noteq> name \<or> (if o' = owner then until \<le> now + max 1 ttl else now < until))"
| "undisturbing name owner until (Heartbeat n o' ttl now) = (n \<noteq> name \<or> o' \<noteq> owner \<or> until \<le> now + max 1 ttl)"
| "undisturbing name owner until (Release n o') = (n \<noteq> name \<or> o' \<noteq> owner)"
| "undisturbing name owner until (Request_Stop n grace fresh now) = (n \<noteq> name \<or> (is_stop owner \<and> now < until))"
| "undisturbing name owner until (Clear_Stop n o') = (n \<noteq> name \<or> o' \<noteq> owner)"

definition holds_until :: "string \<Rightarrow> string \<Rightarrow> timestamp \<Rightarrow> registry \<Rightarrow> bool" where
  "holds_until name owner until db \<longleftrightarrow> wd_ok db
     \<and> (\<exists>r. watchdog_lease db name = Some r \<and> wd_owner_id r = owner \<and> until \<le> wd_expires_at r)"

text \<open>A call on the name by somebody else that reports success.\<close>

fun rival_granted :: "string \<Rightarrow> string \<Rightarrow> watchdog_call \<Rightarrow> registry \<Rightarrow> bool" where
  "rival_granted name owner (Acquire n o' pid host ttl now) db =
     (n = name \<and> o' \<noteq> owner \<and> call_granted (Acquire n o' pid host ttl now) db)"
| "rival_granted name owner (Heartbeat n o' ttl now) db =
     (n = name \<and> o' \<noteq> owner \<and> call_granted (Heartbeat n o' ttl now) db)"
| "rival_granted name owner (Release n o') db = (n = name \<and> o' \<noteq> owner \<and> call_granted (Release n o') db)"
| "rival_granted name owner c db = False"

fun rivals_granted :: "string \<Rightarrow> string \<Rightarrow> watchdog_call list \<Rightarrow> registry \<Rightarrow> nat" where
  "rivals_granted name owner [] db = 0"
| "rivals_granted name owner (c # cs) db =
     (if rival_granted name owner c db then 1 else 0) + rivals_granted name owner cs (run_watchdog c db)"

lemma watchdog_lease_acquire:
  "watchdog_lease (fst (acquire_watchdog_lease db name owner pid host ttl now)) n =
     (if n \<noteq> name then watchdog_lease db n
      else case watchdog_lease db name of
        None \<Rightarrow> Some \<lparr>wd_name = name, wd_owner_id = owner, wd_pid = pid, wd_host = host,
          wd_started_at = now, wd_heartbeat_at = now, wd_expires_at = now + max 1 ttl\<rparr>
      | Some r \<Rightarrow> if wd_owner_id r \<noteq> owner \<and> now < wd_expires_at r then Some r
          else Some \<lparr>wd_name = name, wd_owner_id = owner, wd_pid = pid, wd_host = host,
            wd_started_at = (if wd_owner_id r = owner then wd_started_at r else now),
            wd_heartbeat_at = now, wd_expires_at = now + max 1 ttl\<rparr>)"
  by (auto simp: acquire_watchdog_lease_def Let_def split: option.splits)

lemma acquire_granted:
  "fst (snd (acquire_watchdog_lease db name owner pid host ttl now)) =
     (case watchdog_lease db name of None \<Rightarrow> True | Some r \<Rightarrow> wd_owner_id r = owner \<or> wd_expires_at r \<le> now)"
  by (auto simp: acquire_watchdog_lease_def Let_def split: option.splits)

lemma clear_stop_fst:
  "fst (clear_watchdog_stop db name owner) = (if is_stop owner then fst (release_watchdog_lease db name owner) else db)"
  by (simp add: clear_watchdog_stop_def split: prod.splits)

lemma heartbeat_granted:
  "snd (heartbeat_watchdog_lease db name owner ttl now) = (length (owned_rows db name owner) = 1)"
  by (simp add: heartbeat_watchdog_lease_def)

lemma undisturbed_step:
  assumes h: "holds_until name owner until db" and u: "undisturbing name owner until c"
  shows "holds_until name owner until (run_watchdog c db) \<and> \<not> rival_granted name owner c db"
proof -
  have ok: "wd_ok db" using h by (simp add: holds_until_def)
  obtain r where r: "watchdog_lease db name = Some r" "wd_owner_id r = owner" "until \<le> wd_expires_at r"
    using h by (auto simp: holds_until_def)
  have "\<exists>r'. watchdog_lease (run_watchdog c db) name = Some r' \<and> wd_owner_id r' = owner \<and> until \<le> wd_expires_at r'"
    using r u
    by (cases c) (auto simp: watchdog_lease_acquire watchdog_lease_heartbeat watchdog_lease_release [OF ok]
        watchdog_lease_stop clear_stop_fst split: if_splits)
  moreover have "\<not> rival_granted name owner c db"
    using r u by (cases c) (auto simp: acquire_granted heartbeat_watchdog_lease_def release_watchdog_lease_def
        owned_rows_iff [OF ok, unfolded One_nat_def] simp del: length_greater_0_conv)
  ultimately show ?thesis using run_watchdog_ok [OF ok] by (simp add: holds_until_def)
qed

lemma undisturbed_run:
  "holds_until name owner until db \<Longrightarrow> list_all (undisturbing name owner until) cs
    \<Longrightarrow> holds_until name owner until (run_watchdogs cs db) \<and> rivals_granted name owner cs db = 0"
  by (induction cs arbitrary: db) (auto simp: undisturbed_step)

section \<open>Waiting for the exit\<close>

lemma await_exit_ends:
  assumes poll: "0 < poll" and clock: "\<And>k. clock k + poll \<le> clock (Suc k)"
    and "clock n + real m * poll \<ge> deadline"
  shows "\<exists>k. await_exit alive clock deadline n = Some k \<and> n \<le> k \<and> k \<le> n + m
    \<and> (\<not> alive k \<or> deadline \<le> clock k)"
  using assms(3)
proof (induction m arbitrary: n)
  case 0
  then show ?case by (subst await_exit.simps) auto
next
  case (Suc m)
  show ?case
  proof (cases "alive n \<and> clock n < deadline")
    case True
    have "deadline \<le> clock (Suc n) + real m * poll" using Suc.prems clock [of n] by (simp add: algebra_simps)
    from Suc.IH [OF this] True show ?thesis by (subst await_exit.simps) auto
  qed (subst await_exit.simps, auto)
qed

section \<open>Properties of the watchdog lease\<close>

text \<open>C19. One watchdog at a time: once an owner has acquired the lease or renewed it, no acquire, heartbeat
  or release of any other owner succeeds while the lease runs, whatever calls arrive in whatever order,
  as long as the owner itself is not stopped and does not give the lease up or shorten it.\<close>

theorem watchdog_exclusive:
  assumes "wd_ok db" and "c \<in> {Acquire name owner pid host ttl now, Heartbeat name owner ttl now}"
    and "call_granted c db" and "list_all (undisturbing name owner (now + max 1 ttl)) cs"
  shows "rivals_granted name owner cs (run_watchdog c db) = 0
    \<and> (\<exists>r. watchdog_lease (run_watchdogs cs (run_watchdog c db)) name = Some r \<and> wd_owner_id r = owner)"
proof -
  have "\<exists>r. watchdog_lease (run_watchdog c db) name = Some r \<and> wd_owner_id r = owner \<and> now + max 1 ttl \<le> wd_expires_at r"
    using assms(2,3) owned_rows_iff [OF assms(1), of name owner]
    by (auto simp: watchdog_lease_acquire acquire_granted watchdog_lease_heartbeat heartbeat_granted
        split: option.splits if_splits)
  then have "holds_until name owner (now + max 1 ttl) (run_watchdog c db)"
    using run_watchdog_ok [OF assms(1)] by (simp add: holds_until_def)
  from undisturbed_run [OF this assms(4)] show ?thesis by (auto simp: holds_until_def)
qed

definition demo_calls :: "watchdog_call list" where
  "demo_calls = [Acquire ''default'' ''b'' 8 ''h'' 60 20, Heartbeat ''default'' ''b'' 60 21, Heartbeat ''default'' ''a'' 60 22,
     Release ''default'' ''b'', Acquire ''default'' ''b'' 8 ''h'' 60 59]"

theorem watchdog_exclusive_witness:
  "rivals_granted ''default'' ''a'' demo_calls (run_watchdog (Acquire ''default'' ''a'' 7 ''h'' 60 0) empty_registry) = 0"
proof -
  have "wd_ok empty_registry" "call_granted (Acquire ''default'' ''a'' 7 ''h'' 60 0) empty_registry"
    "list_all (undisturbing ''default'' ''a'' (0 + max 1 60)) demo_calls" by code_simp+
  from watchdog_exclusive [OF this(1) _ this(2,3), of 7 "''h''"] show ?thesis by simp
qed

text \<open>A stop request fences the running watchdog and its replacement: after it has replaced an owner,
  no acquire, heartbeat or release of anybody who does not hold the stop token succeeds during the grace
  period, so the old owner's next keepalive fails and no new watchdog starts before the fence ends or is
  cleared with its exact token.\<close>

theorem stop_request_fences:
  assumes "wd_ok db" and "request_watchdog_stop db name grace fresh_id now = (db', Some (r, Some old))"
    and "list_all (undisturbing name (''stop:'' @ fresh_id) (now + max 5 grace)) cs"
  shows "rivals_granted name (''stop:'' @ fresh_id) cs db' = 0 \<and> wd_owner_id r = ''stop:'' @ fresh_id
    \<and> watchdog_lease db name = Some (r\<lparr>wd_owner_id := old, wd_heartbeat_at := wd_heartbeat_at (the (watchdog_lease db name)),
         wd_expires_at := wd_expires_at (the (watchdog_lease db name))\<rparr>)"
proof -
  from assms(2) obtain row where row: "watchdog_lease db name = Some row" "old = wd_owner_id row"
      "r = row\<lparr>wd_owner_id := ''stop:'' @ fresh_id, wd_heartbeat_at := now, wd_expires_at := now + max 5 grace\<rparr>"
      "\<not> (is_stop (wd_owner_id row) \<and> now < wd_expires_at row)"
    by (auto simp: request_watchdog_stop_def Let_def split: option.splits if_splits)
  have "db' = fst (request_watchdog_stop db name grace fresh_id now)" using assms(2) by simp
  then have "watchdog_lease db' name = Some r" using row by (simp add: watchdog_lease_stop)
  moreover have "wd_ok db'" using run_watchdog_ok [OF assms(1), of "Request_Stop name grace fresh_id now"] assms(2) by simp
  ultimately have "holds_until name (''stop:'' @ fresh_id) (now + max 5 grace) db'" using row by (simp add: holds_until_def)
  from undisturbed_run [OF this assms(3)] row show ?thesis by simp
qed

definition demo_watched :: registry where
  "demo_watched = run_watchdog (Acquire ''default'' ''a'' 7 ''h'' 60 0) empty_registry"

theorem stop_request_fences_witness:
  "rivals_granted ''default'' ''stop:x''
     [Heartbeat ''default'' ''a'' 60 10, Acquire ''default'' ''b'' 8 ''h'' 60 70, Request_Stop ''default'' 90 ''y'' 80]
     (fst (request_watchdog_stop demo_watched ''default'' 90 ''x'' 5)) = 0"
proof -
  have w: "wd_ok demo_watched"
    "list_all (undisturbing ''default'' (''stop:'' @ ''x'') (5 + max 5 90))
      [Heartbeat ''default'' ''a'' 60 10, Acquire ''default'' ''b'' 8 ''h'' 60 70, Request_Stop ''default'' 90 ''y'' 80]"
    by code_simp+
  have "(case snd (request_watchdog_stop demo_watched ''default'' 90 ''x'' 5) of Some (r, Some old) \<Rightarrow> True | _ \<Rightarrow> False)"
    by code_simp
  then obtain r old where "request_watchdog_stop demo_watched ''default'' 90 ''x'' 5
      = (fst (request_watchdog_stop demo_watched ''default'' 90 ''x'' 5), Some (r, Some old))"
    by (cases "request_watchdog_stop demo_watched ''default'' 90 ''x'' 5") (auto split: option.splits prod.splits)
  from stop_request_fences [OF w(1) this w(2)] show ?thesis by simp
qed

text \<open>C20. Stopping a watchdog ends: when every sleep advances the clock by at least \<open>poll\<close>, the wait for the
  process to exit makes at most as many sleeps as fit before the deadline, and the command reports the
  watchdog stopped, and clears the stop fence, only when the process is gone.\<close>

theorem stop_watchdog_host_ends:
  assumes "0 < poll" and "\<And>k. clock k + poll \<le> clock (Suc k)" and "start \<le> clock 0"
  shows "\<exists>db' r k. stop_watchdog_host alive clock start db name grace wait fresh_id now = Some (db', r)
    \<and> k \<le> nat \<lceil>max 0 wait / poll\<rceil>
    \<and> (sr_requested r \<and> sr_stopped r \<and> sr_pid r \<noteq> None \<longrightarrow> \<not> alive (Suc k)) \<and> (sr_cleared r \<longrightarrow> sr_stopped r)"
proof (cases "request_watchdog_stop db name grace fresh_id now")
  case (Pair db1 q)
  let ?n = "nat \<lceil>max 0 wait / poll\<rceil>"
  have "max 0 wait / poll \<le> real ?n" by linarith
  then have "max 0 wait \<le> real ?n * poll" by (simp only: pos_divide_le_eq [OF assms(1)])
  with assms(3) have "start + max 0 wait \<le> clock 0 + real ?n * poll" by (rule add_mono)
  from await_exit_ends [OF assms(1,2) this, of alive] obtain k
    where k: "await_exit alive clock (start + max 0 wait) 0 = Some k" "k \<le> ?n" by auto
  show ?thesis
  proof (cases q)
    case None
    then show ?thesis using Pair by (auto simp: stop_watchdog_host_def)
  next
    case (Some p)
    then show ?thesis using Pair k by (cases p) (auto simp: stop_watchdog_host_def Let_def)
  qed
qed

theorem stop_watchdog_host_ends_witness:
  "\<exists>db' r k. stop_watchdog_host (\<lambda>n. n < 3) (\<lambda>n. real n) 0 demo_watched ''default'' 90 35 ''x'' 5 = Some (db', r)
     \<and> k \<le> nat \<lceil>max 0 (35 :: real) / 1\<rceil>"
  using stop_watchdog_host_ends [of 1 "\<lambda>n. real n" 0 "\<lambda>n. n < 3" demo_watched "''default''" 90 35 "''x''" 5] by auto

end
