(* ===== verification/Scheduler.thy ===== *)
theory Scheduler
  imports Models "HOL-Library.Product_Lexorder"
begin

text \<open>
  The attention queue of \<^verbatim>\<open>scheduler.py\<close>: one pass over the assessed tasks keeps the most urgent finding
  per task in a dictionary, and the values are sorted. The dictionary is a list of items in insertion
  order, keyed by task.
\<close>

fun priority_of :: "supervisor_state \<Rightarrow> int" where
  "priority_of SS_NEEDS_HUMAN = 0"
| "priority_of SS_BLOCKED = 1"
| "priority_of SS_RECONCILING = 2"
| "priority_of SS_SUSPECT = 3"
| "priority_of SS_RECOVERING = 4"
| "priority_of SS_STARTING = 5"
| "priority_of SS_QUEUED = 6"
| "priority_of SS_RUNNING = 7"
| "priority_of SS_COMPLETED = 8"
| "priority_of SS_ABANDONED = 9"

record attention_item =
  ai_task_id :: string
  ai_state :: supervisor_state
  ai_priority :: int
  ai_reason :: string

definition attention_states :: "supervisor_state list" where
  "attention_states = [SS_NEEDS_HUMAN, SS_BLOCKED, SS_RECONCILING, SS_SUSPECT]"

definition attention_item_of :: "task_record \<times> assessment \<Rightarrow> attention_item" where
  "attention_item_of p = \<lparr>ai_task_id = tk_task_id (fst p), ai_state = as_state (snd p),
     ai_priority = priority_of (as_state (snd p)), ai_reason = as_reason (snd p)\<rparr>"

definition urgency :: "attention_item \<Rightarrow> int \<times> string \<times> string" where
  "urgency i = (ai_priority i, ss_value (ai_state i), ai_reason i)"

definition note_item :: "task_record \<times> assessment \<Rightarrow> attention_item list \<Rightarrow> attention_item list" where
  "note_item p best =
     (if as_state (snd p) \<notin> set attention_states then best
      else let i = attention_item_of p in
        case tbl_find ai_task_id (ai_task_id i) best of
          None \<Rightarrow> tbl_upsert ai_task_id i best
        | Some c \<Rightarrow> if urgency i < urgency c then tbl_upsert ai_task_id i best else best)"

definition attention_queue :: "(task_record \<times> assessment) list \<Rightarrow> attention_item list" where
  "attention_queue items = sort_key (\<lambda>i. (ai_priority i, ai_task_id i)) (fold note_item items [])"

section \<open>Reference definition\<close>

text \<open>The items that call for attention, and the most urgent of each task, in queue order.\<close>

definition eligible_items :: "(task_record \<times> assessment) list \<Rightarrow> attention_item list" where
  "eligible_items items = map attention_item_of (filter (\<lambda>p. as_state (snd p) \<in> set attention_states) items)"

definition most_urgent :: "attention_item list \<Rightarrow> string \<Rightarrow> attention_item" where
  "most_urgent is t = hd (sort_key urgency (filter (\<lambda>i. ai_task_id i = t) is))"

definition reference_queue :: "(task_record \<times> assessment) list \<Rightarrow> attention_item list" where
  "reference_queue items = sort_key (\<lambda>i. (ai_priority i, ai_task_id i))
     (map (most_urgent (eligible_items items)) (sort (remdups (map ai_task_id (eligible_items items)))))"

section \<open>Equivalence\<close>

lemma ai_priority_of_state:
  "i \<in> set (eligible_items items) \<Longrightarrow> ai_priority i = priority_of (ai_state i)"
  by (auto simp: eligible_items_def attention_item_of_def)

text \<open>Within one task the urgency of an item determines it.\<close>

lemma urgency_inject:
  assumes "i \<in> set (eligible_items items)" and "j \<in> set (eligible_items items)"
    and "ai_task_id i = ai_task_id j" and "urgency i = urgency j"
  shows "i = j"
  using assms by (simp add: urgency_def ai_priority_of_state)

definition best_of :: "attention_item list \<Rightarrow> attention_item list \<Rightarrow> bool" where
  "best_of is best \<longleftrightarrow> tbl_ok ai_task_id best \<and> set best \<subseteq> set is
     \<and> (\<forall>i \<in> set is. \<exists>b \<in> set best. ai_task_id b = ai_task_id i \<and> urgency b \<le> urgency i)"

lemma eligible_snoc:
  "eligible_items (items @ [p]) = eligible_items items
     @ (if as_state (snd p) \<in> set attention_states then [attention_item_of p] else [])"
  by (simp add: eligible_items_def)

lemma best_of_upsert:
  assumes b: "best_of is best"
    and imp: "\<And>c. tbl_find ai_task_id (ai_task_id i) best = Some c \<Longrightarrow> urgency i < urgency c"
  shows "best_of (is @ [i]) (tbl_upsert ai_task_id i best)"
proof -
  have ok: "tbl_ok ai_task_id best" using b by (simp add: best_of_def)
  have rows: "x \<in> set (tbl_upsert ai_task_id i best) \<longleftrightarrow> x = i \<or> x \<in> set best \<and> ai_task_id x \<noteq> ai_task_id i" for x
    using tbl_find_upsert [of ai_task_id _ i best] tbl_find_Some_iff [OF tbl_ok_upsert [OF ok]] tbl_find_Some_iff [OF ok]
    by (metis option.inject)
  have "\<exists>b \<in> set (tbl_upsert ai_task_id i best). ai_task_id b = ai_task_id j \<and> urgency b \<le> urgency j"
    if "j \<in> set (is @ [i])" for j
  proof (cases "ai_task_id j = ai_task_id i")
    case True
    show ?thesis
    proof (cases "j = i")
      case False
      with that b obtain c where c: "c \<in> set best" "ai_task_id c = ai_task_id j" "urgency c \<le> urgency j"
        by (auto simp: best_of_def)
      with imp [of c] True ok have "urgency i < urgency c" by (simp add: tbl_find_Some_iff)
      with c True rows show ?thesis by (intro bexI [of _ i]) auto
    qed (use rows in auto)
  next
    case False
    with that b rows show ?thesis by (fastforce simp: best_of_def)
  qed
  with b rows tbl_ok_upsert [OF ok] show ?thesis by (auto simp: best_of_def)
qed

lemma fold_best_of: "best_of (eligible_items items) (fold note_item items [])"
proof (induction items rule: rev_induct)
  case Nil
  then show ?case by (simp add: best_of_def eligible_items_def tbl_ok_def)
next
  case (snoc p items)
  let ?i = "attention_item_of p" and ?best = "fold note_item items []"
  have ok: "tbl_ok ai_task_id ?best" using snoc by (simp add: best_of_def)
  show ?case
  proof (cases "as_state (snd p) \<in> set attention_states")
    case True
    show ?thesis
    proof (cases "\<exists>c. tbl_find ai_task_id (ai_task_id ?i) ?best = Some c \<and> \<not> urgency ?i < urgency c")
      case False
      then have "note_item p ?best = tbl_upsert ai_task_id ?i ?best"
        using True by (auto simp: note_item_def Let_def split: option.splits)
      with best_of_upsert [OF snoc, of ?i] False True show ?thesis by (auto simp: eligible_snoc)
    next
      case old: True
      then obtain c where c: "tbl_find ai_task_id (ai_task_id ?i) ?best = Some c" "urgency c \<le> urgency ?i" by auto
      then have "note_item p ?best = ?best" using True by (auto simp: note_item_def Let_def)
      with c snoc True ok show ?thesis by (auto simp: best_of_def eligible_snoc tbl_find_Some_iff)
    qed
  qed (use snoc in \<open>simp add: note_item_def eligible_snoc\<close>)
qed

lemma most_urgent_props:
  assumes "t \<in> ai_task_id ` set is"
  shows "most_urgent is t \<in> set is \<and> ai_task_id (most_urgent is t) = t
    \<and> (\<forall>i \<in> set is. ai_task_id i = t \<longrightarrow> urgency (most_urgent is t) \<le> urgency i)"
proof -
  let ?s = "sort_key urgency (filter (\<lambda>i. ai_task_id i = t) is)"
  have set: "set ?s = {i \<in> set is. ai_task_id i = t}" by simp
  have "?s \<noteq> []"
  proof
    assume "?s = []"
    with set have "{i \<in> set is. ai_task_id i = t} = {}" by (metis list.set(1))
    with assms show False by auto
  qed
  then obtain m ms where m: "?s = m # ms" by (cases ?s) auto
  then have mu: "most_urgent is t = m" by (simp add: most_urgent_def)
  have "sorted (map urgency ?s)" by simp
  then have "\<forall>x \<in> set ms. urgency m \<le> urgency x" unfolding m by simp
  moreover have "set (m # ms) = {i \<in> set is. ai_task_id i = t}" using set m by metis
  ultimately show ?thesis unfolding mu by auto
qed

lemma best_set:
  "set (fold note_item items []) = most_urgent (eligible_items items) ` ai_task_id ` set (eligible_items items)"
proof -
  let ?is = "eligible_items items" and ?best = "fold note_item items []"
  have b: "best_of ?is ?best" by (rule fold_best_of)
  have same: "most_urgent ?is (ai_task_id x) = x" if "x \<in> set ?best" for x
  proof -
    have x: "x \<in> set ?is" using b that by (auto simp: best_of_def)
    then have m: "most_urgent ?is (ai_task_id x) \<in> set ?is" "ai_task_id (most_urgent ?is (ai_task_id x)) = ai_task_id x"
        "urgency (most_urgent ?is (ai_task_id x)) \<le> urgency x"
      using most_urgent_props [of "ai_task_id x" ?is] by auto
    then obtain y where "y \<in> set ?best" "ai_task_id y = ai_task_id x" "urgency y \<le> urgency (most_urgent ?is (ai_task_id x))"
      using b by (force simp: best_of_def)
    moreover from this have "y = x" using b that by (auto simp: best_of_def dest: tbl_ok_uniq)
    ultimately show ?thesis using m x by (intro urgency_inject [of _ items]) auto
  qed
  have "\<exists>x \<in> set ?best. ai_task_id x = ai_task_id i" if "i \<in> set ?is" for i
    using b that by (auto simp: best_of_def)
  moreover have "set ?best \<subseteq> set ?is" using b by (simp add: best_of_def)
  ultimately show ?thesis using same by (auto simp: image_iff) (metis subsetD)+
qed

section \<open>Property\<close>

text \<open>C21. The single pass with a dictionary computes the declarative queue: one entry per task that has a
  finding in NEEDS_HUMAN, BLOCKED, RECONCILING or SUSPECT, namely its most urgent one, ordered by
  priority and then by task.\<close>

theorem attention_queue_equivalent: "attention_queue items = reference_queue items"
proof -
  let ?is = "eligible_items items" and ?k = "\<lambda>i. (ai_priority i, ai_task_id i)"
  let ?ids = "sort (remdups (map ai_task_id ?is))"
  have "distinct (map ai_task_id (fold note_item items []))"
    using fold_best_of [of items] by (simp add: best_of_def tbl_ok_def)
  then have 1: "distinct (map ?k (fold note_item items []))"
    by (auto simp: distinct_map inj_on_def)
  have "ai_task_id (most_urgent ?is t) = t" if "t \<in> set ?ids" for t
    using that most_urgent_props [of t ?is] by auto
  then have "map ai_task_id (map (most_urgent ?is) ?ids) = ?ids" unfolding map_map by (intro map_idI) simp
  then have "distinct (map ai_task_id (map (most_urgent ?is) ?ids))" by simp
  then have 2: "distinct (map ?k (map (most_urgent ?is) ?ids))"
    by (auto simp: distinct_map inj_on_def)
  show ?thesis
    unfolding attention_queue_def reference_queue_def
    by (rule sort_key_eqI [OF _ 1 2]) (simp add: best_set image_image)
qed

end
