(* ===== verification/Browser_Pool.thy ===== *)
theory Browser_Pool
  imports LWS_Prelude "HOL-Library.Product_Lexorder"
begin

text \<open>
  The page pool of \<^verbatim>\<open>browser_pool.py\<close>: page leases with a capacity per role and the rotation of probe
  targets. The two dictionaries are lists in insertion order, keyed by page and by worker.
\<close>

datatype page_role = PR_ACTIVE | PR_PROBE

fun role_value :: "page_role \<Rightarrow> string" where
  "role_value PR_ACTIVE = ''active''"
| "role_value PR_PROBE = ''probe''"

record page_lease =
  lp_page_id :: string
  lp_role :: page_role
  lp_worker_id :: "string option"
  lp_opened_at :: timestamp
  lp_last_used_at :: timestamp

record probe_target =
  pb_worker_id :: string
  pb_conversation_url :: string
  pb_last_probed_at :: "timestamp option"
  pb_priority :: int

record page_pool =
  pp_max_active_pages :: int
  pp_max_probe_pages :: int
  pp_leases :: "page_lease list"
  pp_targets :: "probe_target list"

definition new_pool :: "int \<Rightarrow> int \<Rightarrow> page_pool" where
  "new_pool max_active max_probe = \<lparr>pp_max_active_pages = max 1 max_active, pp_max_probe_pages = max 1 max_probe,
     pp_leases = [], pp_targets = []\<rparr>"

definition blocked_resource_types :: "string list" where
  "blocked_resource_types = [''image'', ''media'', ''font'']"

text \<open>The types are ASCII, on which \<^verbatim>\<open>str.lower\<close> and the case fold agree.\<close>

definition should_block :: "string \<Rightarrow> bool" where
  "should_block resource_type \<longleftrightarrow> casefold resource_type \<in> set blocked_resource_types"

definition pool_leases :: "page_pool \<Rightarrow> page_lease list" where
  "pool_leases p = sort_key (\<lambda>l. (role_value (lp_role l), lp_page_id l)) (pp_leases p)"

definition with_role :: "page_role \<Rightarrow> page_lease list \<Rightarrow> int" where
  "with_role r ls = int (length (filter (\<lambda>l. lp_role l = r) ls))"

definition enforce_capacity :: "page_pool \<Rightarrow> unit result" where
  "enforce_capacity p =
     rbind (guard (with_role PR_ACTIVE (pp_leases p) \<le> pp_max_active_pages p)
       (PagePoolError ''active page capacity exceeded; pool does not evict pages implicitly'')) (\<lambda>_.
     guard (with_role PR_PROBE (pp_leases p) \<le> pp_max_probe_pages p)
       (PagePoolError ''probe page capacity exceeded; pool does not evict pages implicitly''))"

definition register_page ::
  "page_pool \<Rightarrow> string \<Rightarrow> page_role \<Rightarrow> string option \<Rightarrow> timestamp \<Rightarrow> page_pool \<times> page_lease result" where
  "register_page p page role worker now =
     transaction p
       (let lease = (case tbl_find lp_page_id page (pp_leases p) of
              Some l \<Rightarrow> l\<lparr>lp_role := role, lp_worker_id := worker, lp_last_used_at := now\<rparr>
            | None \<Rightarrow> \<lparr>lp_page_id = page, lp_role = role, lp_worker_id = worker, lp_opened_at = now,
                       lp_last_used_at = now\<rparr>);
            p' = p\<lparr>pp_leases := tbl_upsert lp_page_id lease (pp_leases p)\<rparr>
        in rbind (enforce_capacity p') (\<lambda>_. Inr (p', lease)))"

definition touch_page :: "page_pool \<Rightarrow> string \<Rightarrow> timestamp \<Rightarrow> page_pool \<times> unit result" where
  "touch_page p page now = (case tbl_find lp_page_id page (pp_leases p) of
     None \<Rightarrow> (p, Inl (PagePoolError (''unknown page lease: '' @ page)))
   | Some _ \<Rightarrow> (p\<lparr>pp_leases := tbl_update lp_page_id page (\<lambda>l. l\<lparr>lp_last_used_at := now\<rparr>) (pp_leases p)\<rparr>, Inr ()))"

definition release_page :: "page_pool \<Rightarrow> string \<Rightarrow> page_pool \<times> page_lease option" where
  "release_page p page = (p\<lparr>pp_leases := tbl_delete lp_page_id page (pp_leases p)\<rparr>,
     tbl_find lp_page_id page (pp_leases p))"

definition register_probe_target ::
  "page_pool \<Rightarrow> string \<Rightarrow> string \<Rightarrow> int \<Rightarrow> timestamp option \<Rightarrow> page_pool \<times> probe_target" where
  "register_probe_target p worker url priority last_probed =
     (let t = \<lparr>pb_worker_id = worker, pb_conversation_url = url, pb_last_probed_at = last_probed, pb_priority = priority\<rparr>
      in (p\<lparr>pp_targets := tbl_upsert pb_worker_id t (pp_targets p)\<rparr>, t))"

definition remove_probe_target :: "page_pool \<Rightarrow> string \<Rightarrow> page_pool" where
  "remove_probe_target p worker = p\<lparr>pp_targets := tbl_delete pb_worker_id worker (pp_targets p)\<rparr>"

text \<open>
  The key of \<^verbatim>\<open>min\<close>. A target that was never probed has minus infinity as its third component, which is
  compared with that of other such targets only; zero stands for it.
\<close>

definition probe_key :: "probe_target \<Rightarrow> int \<times> bool \<times> real \<times> string" where
  "probe_key t = (- pb_priority t, pb_last_probed_at t \<noteq> None,
     (case pb_last_probed_at t of None \<Rightarrow> 0 | Some x \<Rightarrow> x), pb_worker_id t)"

definition next_probe_target :: "page_pool \<Rightarrow> probe_target option" where
  "next_probe_target p = (if pp_targets p = [] then None else Some (arg_min_list probe_key (pp_targets p)))"

definition mark_probed :: "page_pool \<Rightarrow> string \<Rightarrow> timestamp \<Rightarrow> page_pool \<times> unit result" where
  "mark_probed p worker now = (case tbl_find pb_worker_id worker (pp_targets p) of
     None \<Rightarrow> (p, Inl (PagePoolError (''unknown probe target: '' @ worker)))
   | Some _ \<Rightarrow> (p\<lparr>pp_targets := tbl_update pb_worker_id worker (\<lambda>t. t\<lparr>pb_last_probed_at := Some now\<rparr>) (pp_targets p)\<rparr>,
       Inr ()))"

text \<open>Rounds of probing: the next target is chosen and marked, at the given times.\<close>

fun probe_rounds :: "timestamp list \<Rightarrow> page_pool \<Rightarrow> string list" where
  "probe_rounds [] p = []"
| "probe_rounds (now # ts) p = (case next_probe_target p of
     None \<Rightarrow> []
   | Some t \<Rightarrow> pb_worker_id t # probe_rounds ts (fst (mark_probed p (pb_worker_id t) now)))"

section \<open>Capacity\<close>

definition pool_ok :: "page_pool \<Rightarrow> bool" where
  "pool_ok p \<longleftrightarrow> tbl_ok lp_page_id (pp_leases p) \<and> tbl_ok pb_worker_id (pp_targets p)
     \<and> with_role PR_ACTIVE (pp_leases p) \<le> pp_max_active_pages p
     \<and> with_role PR_PROBE (pp_leases p) \<le> pp_max_probe_pages p"

datatype pool_call =
    Register_Page string page_role "string option" timestamp
  | Touch string timestamp
  | Release string
  | Register_Target string string int "timestamp option"
  | Remove_Target string
  | Mark_Probed string timestamp

fun run_pool :: "pool_call \<Rightarrow> page_pool \<Rightarrow> page_pool" where
  "run_pool (Register_Page page role worker now) p = fst (register_page p page role worker now)"
| "run_pool (Touch page now) p = fst (touch_page p page now)"
| "run_pool (Release page) p = fst (release_page p page)"
| "run_pool (Register_Target worker url priority last_probed) p = fst (register_probe_target p worker url priority last_probed)"
| "run_pool (Remove_Target worker) p = remove_probe_target p worker"
| "run_pool (Mark_Probed worker now) p = fst (mark_probed p worker now)"

lemma with_role_touch: "with_role r (tbl_update lp_page_id page (\<lambda>l. l\<lparr>lp_last_used_at := now\<rparr>) ls) = with_role r ls"
  unfolding with_role_def tbl_update_def by (induction ls) auto

lemma with_role_delete: "with_role r (tbl_delete lp_page_id page ls) \<le> with_role r ls"
  unfolding with_role_def tbl_delete_def by (induction ls) auto

lemma run_pool_ok: "pool_ok p \<Longrightarrow> pool_ok (run_pool c p)"
proof (cases c)
  case (Register_Page page role worker now)
  moreover assume "pool_ok p"
  ultimately show ?thesis
    by (auto simp: pool_ok_def register_page_def enforce_capacity_def transaction_def Let_def tbl_ok_upsert
        split: sum.splits prod.splits)
next
  case (Touch page now)
  moreover assume "pool_ok p"
  ultimately show ?thesis
    by (auto simp: pool_ok_def touch_page_def tbl_ok_update with_role_touch split: option.splits)
next
  case (Release page)
  moreover assume "pool_ok p"
  ultimately show ?thesis
    using with_role_delete [of PR_ACTIVE page "pp_leases p"] with_role_delete [of PR_PROBE page "pp_leases p"]
    by (auto simp: pool_ok_def release_page_def tbl_ok_delete)
qed (auto simp: pool_ok_def register_probe_target_def remove_probe_target_def mark_probed_def Let_def
    tbl_ok_upsert tbl_ok_delete tbl_ok_update split: option.splits)

section \<open>Fair rotation\<close>

definition top_workers :: "page_pool \<Rightarrow> string set" where
  "top_workers p = pb_worker_id ` {t \<in> set (pp_targets p). \<forall>u \<in> set (pp_targets p). pb_priority u \<le> pb_priority t}"

lemma next_probe_target_min:
  assumes "next_probe_target p = Some t"
  shows "t \<in> set (pp_targets p)" and "u \<in> set (pp_targets p) \<Longrightarrow> probe_key t \<le> probe_key u"
proof -
  from assms have ne: "pp_targets p \<noteq> []" and t: "t = arg_min_list probe_key (pp_targets p)"
    by (auto simp: next_probe_target_def split: if_splits)
  show "t \<in> set (pp_targets p)" using ne t by (simp add: arg_min_list_in)
  show "u \<in> set (pp_targets p) \<Longrightarrow> probe_key t \<le> probe_key u"
    using ne t by (simp add: f_arg_min_list_f)
qed

text \<open>A cycle in progress: the workers of \<open>D\<close> were probed at or after \<open>T\<close>, every other before.\<close>

definition cycle_at :: "timestamp \<Rightarrow> string set \<Rightarrow> page_pool \<Rightarrow> bool" where
  "cycle_at T D p \<longleftrightarrow> tbl_ok pb_worker_id (pp_targets p) \<and> (\<forall>t \<in> set (pp_targets p).
     if pb_worker_id t \<in> D then \<exists>x \<ge> T. pb_last_probed_at t = Some x
     else \<forall>x. pb_last_probed_at t = Some x \<longrightarrow> x < T)"

lemma cycle_picks:
  assumes c: "cycle_at T D p" and t: "next_probe_target p = Some t" and w: "w \<in> top_workers p - D"
  shows "pb_worker_id t \<in> top_workers p - D"
proof -
  note m = next_probe_target_min [OF t]
  from w obtain u where u: "u \<in> set (pp_targets p)" "pb_worker_id u \<notin> D"
      "\<forall>v \<in> set (pp_targets p). pb_priority v \<le> pb_priority u"
    by (auto simp: top_workers_def)
  from m(2) [OF u(1)] u(3) m(1) have p: "pb_priority t = pb_priority u" by (force simp: probe_key_def less_eq_prod_def)
  have "pb_worker_id t \<notin> D"
  proof
    assume "pb_worker_id t \<in> D"
    then obtain x where x: "T \<le> x" "pb_last_probed_at t = Some x" using bspec [OF conjunct2 [OF c [unfolded cycle_at_def]] m(1)] by auto
    have "\<forall>y. pb_last_probed_at u = Some y \<longrightarrow> y < T" using c u by (simp add: cycle_at_def)
    with m(2) [OF u(1)] p x show False
      by (cases "pb_last_probed_at u") (auto simp: probe_key_def less_eq_prod_def)
  qed
  with m(1) u(3) p show ?thesis by (auto simp: top_workers_def)
qed

lemma mark_probed_targets:
  assumes "tbl_ok pb_worker_id (pp_targets p)" and "t \<in> set (pp_targets p)"
  shows "pp_targets (fst (mark_probed p (pb_worker_id t) now)) =
    tbl_update pb_worker_id (pb_worker_id t) (\<lambda>t. t\<lparr>pb_last_probed_at := Some now\<rparr>) (pp_targets p)"
  using assms tbl_find_Some_iff [OF assms(1), of "pb_worker_id t" t] by (simp add: mark_probed_def)

lemma top_image:
  assumes "\<And>t. pb_worker_id (f t) = pb_worker_id t" and "\<And>t. pb_priority (f t) = pb_priority t"
  shows "pb_worker_id ` {t \<in> f ` S. \<forall>u \<in> f ` S. pb_priority u \<le> pb_priority t}
    = pb_worker_id ` {t \<in> S. \<forall>u \<in> S. pb_priority u \<le> pb_priority t}"
proof -
  have "{t \<in> f ` S. \<forall>u \<in> f ` S. pb_priority u \<le> pb_priority t} = f ` {t \<in> S. \<forall>u \<in> S. pb_priority u \<le> pb_priority t}"
    using assms(2) by auto
  then show ?thesis by (simp only: image_image assms(1))
qed

lemma cycle_mark:
  assumes c: "cycle_at T D p" and t: "t \<in> set (pp_targets p)" and now: "T \<le> now"
  shows "cycle_at T (insert (pb_worker_id t) D) (fst (mark_probed p (pb_worker_id t) now))"
    and "top_workers (fst (mark_probed p (pb_worker_id t) now)) = top_workers p"
proof -
  have ok: "tbl_ok pb_worker_id (pp_targets p)" using c by (simp add: cycle_at_def)
  note eq = mark_probed_targets [OF ok t, of now]
  show "cycle_at T (insert (pb_worker_id t) D) (fst (mark_probed p (pb_worker_id t) now))"
    using c now unfolding cycle_at_def eq by (auto simp: tbl_ok_update set_tbl_update)
  show "top_workers (fst (mark_probed p (pb_worker_id t) now)) = top_workers p"
    unfolding top_workers_def eq set_tbl_update by (rule top_image) simp_all
qed

lemma cycle_rounds:
  assumes "cycle_at T D p" and "list_all (\<lambda>x. T \<le> x) ts" and "length ts \<le> card (top_workers p - D)"
  shows "length (probe_rounds ts p) = length ts \<and> distinct (probe_rounds ts p)
    \<and> set (probe_rounds ts p) \<subseteq> top_workers p - D"
  using assms
proof (induction ts arbitrary: D p)
  case (Cons now ts)
  have fin: "finite (top_workers p - D)" by (simp add: top_workers_def)
  have "top_workers p - D \<noteq> {}"
    using Cons.prems(3) by (metis card.empty le_zero_eq length_Cons nat.distinct(1))
  then obtain w where w: "w \<in> top_workers p - D" by blast
  then have "pp_targets p \<noteq> []" by (auto simp: top_workers_def)
  then obtain t where t: "next_probe_target p = Some t" by (simp add: next_probe_target_def)
  let ?w = "pb_worker_id t" and ?p = "fst (mark_probed p (pb_worker_id t) now)"
  have m: "t \<in> set (pp_targets p)" by (rule next_probe_target_min(1) [OF t])
  have pick: "?w \<in> top_workers p - D" by (rule cycle_picks [OF Cons.prems(1) t w])
  have now: "T \<le> now" "list_all (\<lambda>x. T \<le> x) ts" using Cons.prems(2) by simp_all
  note c = cycle_mark [OF Cons.prems(1) m now(1)]
  have "card (top_workers p - insert ?w D) = card (top_workers p - D) - 1"
    using pick fin by (metis Diff_insert card_Diff_singleton)
  then have "length ts \<le> card (top_workers ?p - insert ?w D)" using Cons.prems(3) c(2) by simp
  from Cons.IH [OF c(1) now(2) this] c(2) pick t show ?case by auto
qed simp

section \<open>Properties of the pool\<close>

lemma run_pool_limits:
  "pp_max_active_pages (run_pool c p) = pp_max_active_pages p \<and> pp_max_probe_pages (run_pool c p) = pp_max_probe_pages p"
  by (cases c) (auto simp: register_page_def touch_page_def release_page_def register_probe_target_def
      remove_probe_target_def mark_probed_def transaction_def Let_def split: sum.splits prod.splits option.splits)

lemma fold_pool:
  "pool_ok p \<Longrightarrow> pool_ok (fold run_pool cs p) \<and> pp_max_active_pages (fold run_pool cs p) = pp_max_active_pages p
    \<and> pp_max_probe_pages (fold run_pool cs p) = pp_max_probe_pages p"
  by (induction cs arbitrary: p) (auto simp: run_pool_ok run_pool_limits)

text \<open>The pool never exceeds its capacity: after any sequence of calls on a new pool, the active and
  the probe pages are within the configured limits (at least one each) and no page has two leases.\<close>

theorem pool_capacity_kept:
  "with_role PR_ACTIVE (pp_leases (fold run_pool cs (new_pool max_active max_probe))) \<le> max 1 max_active
   \<and> with_role PR_PROBE (pp_leases (fold run_pool cs (new_pool max_active max_probe))) \<le> max 1 max_probe
   \<and> distinct (map lp_page_id (pp_leases (fold run_pool cs (new_pool max_active max_probe))))"
proof -
  have "pool_ok (new_pool max_active max_probe)" by (simp add: pool_ok_def new_pool_def tbl_ok_def with_role_def max_def)
  from fold_pool [OF this, of cs] show ?thesis by (simp add: pool_ok_def tbl_ok_def new_pool_def)
qed

text \<open>C22. Probing is fair among the most urgent targets: a cycle of as many rounds as there are targets of
  the highest priority, at times after every earlier probe, visits each of them exactly once.\<close>

theorem probe_rotation_fair:
  assumes "tbl_ok pb_worker_id (pp_targets p)"
    and "list_all (\<lambda>t. case pb_last_probed_at t of None \<Rightarrow> True | Some x \<Rightarrow> x < T) (pp_targets p)"
    and "list_all (\<lambda>x. T \<le> x) ts" and "length ts = card (top_workers p)"
  shows "set (probe_rounds ts p) = top_workers p \<and> distinct (probe_rounds ts p)"
proof -
  have "cycle_at T {} p" using assms(1,2) by (auto simp: cycle_at_def list_all_iff)
  from cycle_rounds [OF this assms(3)] assms(4)
  have r: "length (probe_rounds ts p) = card (top_workers p)" "distinct (probe_rounds ts p)"
      "set (probe_rounds ts p) \<subseteq> top_workers p" by simp_all
  moreover have "finite (top_workers p)" by (simp add: top_workers_def)
  ultimately show ?thesis by (metis card_subset_eq distinct_card)
qed

definition demo_pool :: page_pool where
  "demo_pool = (new_pool 4 1)\<lparr>pp_targets := [
     \<lparr>pb_worker_id = ''a'', pb_conversation_url = ''u'', pb_last_probed_at = Some 3, pb_priority = 1\<rparr>,
     \<lparr>pb_worker_id = ''b'', pb_conversation_url = ''u'', pb_last_probed_at = None, pb_priority = 1\<rparr>,
     \<lparr>pb_worker_id = ''c'', pb_conversation_url = ''u'', pb_last_probed_at = None, pb_priority = 0\<rparr>]\<rparr>"

theorem probe_rotation_fair_witness:
  "set (probe_rounds [5, 6] demo_pool) = {''a'', ''b''} \<and> distinct (probe_rounds [5, 6] demo_pool)"
proof -
  have top: "top_workers demo_pool = {''a'', ''b''}" by code_simp
  have "tbl_ok pb_worker_id (pp_targets demo_pool)"
    "list_all (\<lambda>t. case pb_last_probed_at t of None \<Rightarrow> True | Some x \<Rightarrow> x < 5) (pp_targets demo_pool)"
    "list_all (\<lambda>x. 5 \<le> x) [5, 6 :: real]" by code_simp+
  from probe_rotation_fair [OF this] top show ?thesis by simp
qed

end
