(* ===== verification/Uia.thy ===== *)
theory Uia
  imports Py_Json Actions
begin

text \<open>
  The exact-window side of \<^verbatim>\<open>uia.py\<close> and \<^verbatim>\<open>uia_actions.py\<close>: how URLs of the address bar are compared, the gates
  of the action transport before its helper runs, and what an observed window proves about a sent action.
  The PowerShell helpers, the platform and the clock are arguments.
\<close>

section \<open>URLs as the UI Automation probe reads them\<close>

definition strip_http :: "string \<Rightarrow> string" where
  "strip_http s = (if starts_with ''https://'' (lower s) then drop 8 s
     else if starts_with ''http://'' (lower s) then drop 7 s else s)"

definition uia_normalize_url :: "string \<Rightarrow> string" where
  "uia_normalize_url value = rstrip_slash (strip_http (strip value))"

definition id_char :: "char \<Rightarrow> bool" where
  "id_char c = (is_hex c \<or> c = CHR ''-'')"

text \<open>The leftmost \<^verbatim>\<open>/c/\<close> that is followed by at least sixteen identifier characters, and all of these.\<close>

fun conversation_id_from_url :: "string \<Rightarrow> string option" where
  "conversation_id_from_url [] = None"
| "conversation_id_from_url (c # cs) =
     (if starts_with ''/c/'' (c # cs) \<and> 16 \<le> length (takeWhile id_char (drop 2 cs))
      then Some (takeWhile id_char (drop 2 cs)) else conversation_id_from_url cs)"

section \<open>The exact-window transport\<close>

record uia_transport =
  ux_expected_worker_id :: string
  ux_conversation_url :: string
  ux_expected_hwnd :: int
  ux_expected_browser_pid :: int
  ux_chrome_executable :: string
  ux_enabled :: bool
  ux_binding_expires_at :: "timestamp option"

definition from_binding ::
  "worker_window_binding \<Rightarrow> string option \<Rightarrow> string option \<Rightarrow> bool \<Rightarrow> timestamp \<Rightarrow> uia_transport result" where
  "from_binding b expected_worker_id conversation_url enabled now =
     (let worker_id = (if present expected_worker_id then the expected_worker_id else wb_worker_id b);
          url = (if present conversation_url then the conversation_url else wb_conversation_url b) in
      rbind (guard (wb_worker_id b = worker_id) (UiaActionUnavailable ''window binding belongs to a different worker'')) (\<lambda>_.
      rbind (guard (uia_normalize_url (wb_conversation_url b) = uia_normalize_url url)
        (UiaActionUnavailable ''window binding URL does not match the requested worker URL'')) (\<lambda>_.
      rbind (guard (now < wb_expires_at b) (UiaActionUnavailable ''window binding is stale and must be refreshed'')) (\<lambda>_.
      rbind (guard (wb_source b = ''windows_uia_chrome'')
        (UiaActionUnavailable ''window binding source is not the normal-Chrome UIA probe'')) (\<lambda>_.
      rbind (guard (0 < wb_window_handle b \<and> 0 < wb_browser_pid b \<and> wb_chrome_executable b \<noteq> [])
        (UiaActionUnavailable ''window binding is incomplete'')) (\<lambda>_.
      Inr \<lparr>ux_expected_worker_id = worker_id, ux_conversation_url = url, ux_expected_hwnd = wb_window_handle b,
           ux_expected_browser_pid = wb_browser_pid b, ux_chrome_executable = wb_chrome_executable b, ux_enabled = enabled,
           ux_binding_expires_at = Some (wb_expires_at b)\<rparr>))))))"

definition uia_transport_name :: string where
  "uia_transport_name = ''windows_uia_exact_window''"

definition refused :: "string \<Rightarrow> transport_outcome" where
  "refused detail = T_RETURNED \<lparr>sub_submitted = False, sub_side_effect_possible = False, sub_transport_name = uia_transport_name,
     sub_detail = detail\<rparr>"

text \<open>\<open>helper\<close> is the PowerShell helper: it gets the URL, the window, the executable and the prompt.\<close>

definition uia_submit ::
  "bool \<Rightarrow> (uia_transport \<Rightarrow> string \<Rightarrow> json_object result) \<Rightarrow> timestamp \<Rightarrow> uia_transport \<Rightarrow> action_intent \<Rightarrow> transport_outcome" where
  "uia_submit windows helper now x intent =
     (if \<not> ux_enabled x
      then T_DISABLED ''exact-window UIA mutation transport is gated; explicit per-invocation enablement is required''
      else if (case ux_binding_expires_at x of None \<Rightarrow> False | Some t \<Rightarrow> t \<le> now)
      then refused ''exact-window binding lease expired; refresh UIA observation before action''
      else if ai_worker_id intent \<noteq> ux_expected_worker_id x
      then refused ''action worker id does not match the exact-window transport binding''
      else if conversation_id_from_url (ux_conversation_url x) = None
      then refused ''exact-window mutation requires an existing /c/ conversation URL''
      else if ux_expected_hwnd x \<le> 0 \<or> ux_expected_browser_pid x \<le> 0 \<or> ux_chrome_executable x = []
      then refused ''exact positive HWND/PID and Google Chrome executable are required''
      else if \<not> windows then refused ''Windows UI Automation is unavailable on this platform''
      else case helper x (ai_prompt intent) of
        Inl (ActionTransportDisabled m) \<Rightarrow> T_DISABLED m
      | Inl e \<Rightarrow> T_RAISED (error_name e @ '': '' @ error_text e)
      | Inr obj \<Rightarrow> T_RETURNED \<lparr>sub_submitted = json_flag obj ''submitted'', sub_side_effect_possible = json_flag obj ''side_effect_possible'',
          sub_transport_name = uia_transport_name,
          sub_detail = json_string obj ''detail'' (json_string obj ''phase'' ''UIA action completed'')\<rparr>)"

section \<open>Acknowledgement\<close>

record uia_ack_observation =
  ua_worker_id :: string
  ua_observed_at :: timestamp
  ua_url :: string
  ua_window_handle :: int
  ua_browser_pid :: int
  ua_generating :: "bool option"
  ua_send_button_ready :: "bool option"
  ua_composer_present :: bool
  ua_signed_in_likely :: bool
  ua_nonce_occurrences :: int
  ua_text_element_count :: int
  ua_text_signature :: string

definition json_tristate :: "json_object \<Rightarrow> string \<Rightarrow> bool option" where
  "json_tristate obj k = (case json_get obj k of JBool b \<Rightarrow> Some b | _ \<Rightarrow> None)"

text \<open>\<open>observed_at\<close> is the time in the helper's answer, or the clock when it has none.\<close>

definition observe_ack ::
  "bool \<Rightarrow> (string \<Rightarrow> string \<Rightarrow> json_object result) \<Rightarrow> string \<Rightarrow> string \<Rightarrow> string \<Rightarrow> timestamp \<Rightarrow> uia_ack_observation result" where
  "observe_ack windows helper worker_id conversation_url expected_nonce observed_at =
     rbind (guard windows (UiaActionUnavailable ''Windows UI Automation is unavailable on this platform'')) (\<lambda>_.
     rbind (guard (conversation_id_from_url conversation_url \<noteq> None)
       (UiaActionUnavailable ''ack observation requires an existing /c/ conversation URL'')) (\<lambda>_.
     rbind (guard (expected_nonce \<noteq> []) (UiaActionUnavailable ''ack observation requires a non-empty known nonce'')) (\<lambda>_.
     rbind (helper conversation_url expected_nonce) (\<lambda>obj.
     rbind (guard (\<not> json_flag obj ''error'') (UiaActionUnavailable (json_str (json_get obj ''error'')))) (\<lambda>_.
     let address = strip (json_string obj ''url'' []);
         url = (if starts_with ''http://'' (lower address) \<or> starts_with ''https://'' (lower address) then address
                else ''https://'' @ address) in
     rbind (guard (uia_normalize_url url = uia_normalize_url conversation_url)
       (UiaActionUnavailable ''ack observer URL changed after exact-window selection'')) (\<lambda>_.
     rbind (json_int_or_zero obj ''window_handle'') (\<lambda>handle.
     rbind (json_int_or_zero obj ''browser_pid'') (\<lambda>pid.
     rbind (json_int_or_zero obj ''nonce_occurrences'') (\<lambda>occurrences.
     rbind (json_int_or_zero obj ''text_element_count'') (\<lambda>texts.
     Inr \<lparr>ua_worker_id = worker_id, ua_observed_at = observed_at, ua_url = url, ua_window_handle = handle, ua_browser_pid = pid,
          ua_generating = json_tristate obj ''generating'', ua_send_button_ready = json_tristate obj ''send_button_ready'',
          ua_composer_present = json_flag obj ''composer_present'', ua_signed_in_likely = json_flag obj ''signed_in_likely'',
          ua_nonce_occurrences = occurrences, ua_text_element_count = texts,
          ua_text_signature = json_string obj ''text_signature'' []\<rparr>))))))))))"

definition py_tristate :: "bool option \<Rightarrow> string" where
  "py_tristate b = (case b of None \<Rightarrow> ''None'' | Some x \<Rightarrow> py_bool x)"

definition acknowledgement_from_uia_observation ::
  "(string \<Rightarrow> string) \<Rightarrow> action_attempt \<Rightarrow> uia_ack_observation \<Rightarrow> int \<Rightarrow> int option \<Rightarrow> bool \<Rightarrow> action_acknowledgement option" where
  "acknowledgement_from_uia_observation sha256 a x min_nonce max_nonce require_complete =
     (if ua_worker_id x \<noteq> aa_worker_id a \<or> \<not> ua_signed_in_likely x \<or> ua_nonce_occurrences x < max 1 min_nonce
        \<or> (case max_nonce of None \<Rightarrow> False | Some m \<Rightarrow> m < ua_nonce_occurrences x)
        \<or> (require_complete \<and> ua_generating x \<noteq> Some False) \<or> ua_text_signature x = []
      then None
      else Some \<lparr>ack_attempt_id = aa_attempt_id a, ack_worker_id = aa_worker_id a, ack_observed_at = ua_observed_at x,
        ack_accepted = True, ack_kind = ''uia_nonce_hash'',
        ack_evidence_hash = sha256 (join ''|'' [uia_normalize_url (ua_url x), ''hwnd='' @ str_int (ua_window_handle x),
          ''nonce_count='' @ str_int (ua_nonce_occurrences x), ''generating='' @ py_tristate (ua_generating x),
          ''text_count='' @ str_int (ua_text_element_count x), ''text_sha256='' @ ua_text_signature x]),
        ack_detail = ''positive exact-window nonce/hash UIA evidence'', ack_text_signature = Some (ua_text_signature x)\<rparr>)"

end
