(* ===== verification/Chat_Store.thy ===== *)
theory Chat_Store
  imports Child_Spawn Uia
begin

text \<open>
  The durable queue of chat dispatches (\<^verbatim>\<open>chat_dispatch.py\<close>): conversations, jobs, pages and the lease of the
  dispatcher in a database of their own. The job table is a list in \<^verbatim>\<open>rowid\<close> order: rows are only
  appended. Fresh identifiers, SHA-256, the clock and the liveness of a process are arguments.
\<close>

section \<open>Rows\<close>

datatype chat_dispatch_state =
    CH_QUEUED | CH_CLAIMED | CH_OPENING | CH_WINDOW_BOUND | CH_SUBMITTING | CH_SUBMITTED | CH_RECONCILE_REQUIRED
  | CH_RETRY_WAIT | CH_ACKNOWLEDGED | CH_FAILED | CH_CANCELLED

definition TERMINAL_JOB_STATES :: "chat_dispatch_state set" where
  "TERMINAL_JOB_STATES = {CH_ACKNOWLEDGED, CH_FAILED, CH_CANCELLED}"

definition PENDING_JOB_STATES :: "chat_dispatch_state set" where
  "PENDING_JOB_STATES = {CH_QUEUED, CH_CLAIMED, CH_OPENING, CH_WINDOW_BOUND, CH_SUBMITTING, CH_SUBMITTED,
     CH_RECONCILE_REQUIRED, CH_RETRY_WAIT}"

datatype chat_page_state = PG_OPEN | PG_IDLE | PG_CLOSED | PG_AMBIGUOUS

record chat_dispatch_job =
  cj_dispatch_id :: string
  cj_dispatch_key :: "string option"
  cj_conversation_key :: string
  cj_conversation_url :: "string option"
  cj_project_url :: "string option"
  cj_prompt_text :: string
  cj_prompt_sha256 :: string
  cj_nonce :: string
  cj_state :: chat_dispatch_state
  cj_created_at :: timestamp
  cj_updated_at :: timestamp
  cj_next_attempt_at :: timestamp
  cj_attempts :: int
  cj_idle_close_s :: real
  cj_max_windows :: int
  cj_window_handle :: "int option"
  cj_browser_pid :: "int option"
  cj_chrome_executable :: "string option"
  cj_page_owned :: bool
  cj_submitted_at :: "timestamp option"
  cj_acknowledged_at :: "timestamp option"
  cj_last_error :: "string option"

definition wire_prompt :: "chat_dispatch_job \<Rightarrow> string result" where
  "wire_prompt j = render_action_prompt (cj_prompt_text j) (cj_nonce j)"

record chat_page =
  cp_page_id :: string
  cp_conversation_key :: string
  cp_conversation_url :: string
  cp_window_handle :: int
  cp_browser_pid :: int
  cp_chrome_executable :: string
  cp_owned :: bool
  cp_state :: chat_page_state
  cp_opened_at :: timestamp
  cp_last_used_at :: timestamp
  cp_idle_since :: "timestamp option"
  cp_close_after_at :: "timestamp option"
  cp_last_error :: "string option"

record page_identity =
  pi_conversation_url :: string
  pi_window_handle :: int
  pi_browser_pid :: int
  pi_chrome_executable :: string
  pi_owned :: bool

record chat_conversation =
  cc_conversation_key :: string
  cc_conversation_url :: "string option"
  cc_project_url :: "string option"
  cc_created_at :: timestamp
  cc_updated_at :: timestamp

record chat_lease =
  cl_owner_id :: string
  cl_pid :: int
  cl_heartbeat_at :: timestamp
  cl_expires_at :: timestamp
  cl_max_windows :: int
  cl_idle_close_s :: real

text \<open>The lease table only ever has the row named \<^verbatim>\<open>default\<close>.\<close>

record chat_store =
  ch_conversations :: "chat_conversation list"
  ch_jobs :: "chat_dispatch_job list"
  ch_pages :: "chat_page list"
  ch_lease :: "chat_lease option"

section \<open>Jobs\<close>

definition get_job :: "chat_store \<Rightarrow> string \<Rightarrow> chat_dispatch_job result" where
  "get_job s i = (case tbl_find cj_dispatch_id i (ch_jobs s) of
     None \<Rightarrow> Inl (KeyError (''unknown chat dispatch: '' @ i)) | Some j \<Rightarrow> Inr j)"

definition stripped_or_none :: "string option \<Rightarrow> string option" where
  "stripped_or_none x = (if present x then Some (strip (the x)) else None)"

record chat_request =
  cq_prompt :: string
  cq_conversation_key :: "string option"
  cq_conversation_url :: "string option"
  cq_project_url :: "string option"
  cq_dispatch_key :: "string option"
  cq_idle_close_s :: real
  cq_max_windows :: int

definition normal_chat_request :: "chat_request \<Rightarrow> chat_request" where
  "normal_chat_request q = q\<lparr>cq_conversation_key := Some (strip (or_text (cq_conversation_key q) [])),
     cq_conversation_url := stripped_or_none (cq_conversation_url q), cq_project_url := stripped_or_none (cq_project_url q),
     cq_dispatch_key := stripped_or_none (cq_dispatch_key q),
     cq_idle_close_s := max 1 (cq_idle_close_s q), cq_max_windows := max 1 (min (cq_max_windows q) 16)\<rparr>"

definition check_chat_request :: "chat_request \<Rightarrow> unit result" where
  "check_chat_request q =
     rbind (guard (strip (cq_prompt q) \<noteq> []) (ValueError ''prompt must be non-empty'')) (\<lambda>_.
     rbind (guard (utf8_length (cq_prompt q) \<le> 256 * 1024) (ValueError ''prompt exceeds 256 KiB'')) (\<lambda>_.
     rbind (guard (\<not> present (cq_conversation_url q) \<or> conversation_id_from_url (the (cq_conversation_url q)) \<noteq> None)
       (ValueError ''conversation_url must be a ChatGPT /c/ conversation URL'')) (\<lambda>_.
     rbind (if present (cq_project_url q) then web_project_id (the (cq_project_url q)) else Inr []) (\<lambda>_.
     rbind (guard (length (the (cq_conversation_key q)) \<le> 200) (ValueError ''conversation_key must be <= 200 characters'')) (\<lambda>_.
     guard (\<not> present (cq_dispatch_key q) \<or> length (the (cq_dispatch_key q)) \<le> 240)
       (ValueError ''dispatch_key must be <= 240 characters''))))))"

text \<open>Whether the job recorded under the dispatch key is the one requested.\<close>

definition same_dispatch :: "(string \<Rightarrow> string) \<Rightarrow> chat_request \<Rightarrow> chat_dispatch_job \<Rightarrow> bool result" where
  "same_dispatch sha256 q j =
     rbind (if present (cq_project_url q) \<and> present (cj_project_url j)
            then rbind (web_project_id (the (cq_project_url q))) (\<lambda>p.
                 rbind (web_project_id (the (cj_project_url j))) (\<lambda>p'. Inr (p \<noteq> p')))
            else Inr False) (\<lambda>project_changed.
     Inr (\<not> (cj_prompt_sha256 j \<noteq> sha256 (cq_prompt q)
        \<or> (the (cq_conversation_key q) \<noteq> [] \<and> cj_conversation_key j \<noteq> the (cq_conversation_key q))
        \<or> (present (cq_conversation_url q) \<and> present (cj_conversation_url j)
            \<and> \<not> conversation_url_matches (the (cj_conversation_url j)) (the (cq_conversation_url q)))
        \<or> project_changed)))"

definition urls_unique :: "chat_conversation list \<Rightarrow> bool" where
  "urls_unique cs = distinct (List.map_filter cc_conversation_url cs)"

text \<open>\<^verbatim>\<open>INSERT ... ON CONFLICT(conversation_key) DO UPDATE\<close> under the unique index on the URL.\<close>

definition upsert_conversation ::
  "chat_conversation list \<Rightarrow> string \<Rightarrow> string option \<Rightarrow> string option \<Rightarrow> timestamp \<Rightarrow> chat_conversation list result" where
  "upsert_conversation cs k url project now =
     (let cs' = (if tbl_find cc_conversation_key k cs = None
            then cs @ [\<lparr>cc_conversation_key = k, cc_conversation_url = url, cc_project_url = project,
                         cc_created_at = now, cc_updated_at = now\<rparr>]
            else tbl_update cc_conversation_key k (\<lambda>c. c\<lparr>
                   cc_conversation_url := (if cc_conversation_url c = None then url else cc_conversation_url c),
                   cc_project_url := (if cc_project_url c = None then project else cc_project_url c),
                   cc_updated_at := now\<rparr>) cs)
      in rbind (guard (urls_unique cs') (IntegrityError ''UNIQUE constraint failed: chat_conversations.conversation_url'')) (\<lambda>_. Inr cs'))"

definition insert_job :: "chat_dispatch_job list \<Rightarrow> chat_dispatch_job \<Rightarrow> chat_dispatch_job list result" where
  "insert_job js j =
     (if cj_dispatch_id j \<in> cj_dispatch_id ` set js
      then Inl (IntegrityError ''UNIQUE constraint failed: chat_dispatch_jobs.dispatch_id'')
      else if cj_dispatch_key j \<noteq> None \<and> cj_dispatch_key j \<in> cj_dispatch_key ` set js
      then Inl (IntegrityError ''UNIQUE constraint failed: chat_dispatch_jobs.dispatch_key'')
      else Inr (js @ [j]))"

text \<open>The key of the conversation, its known URL and project, and the new rows.\<close>

definition chat_key :: "chat_request \<Rightarrow> string \<Rightarrow> string" where
  "chat_key q fresh_key =
     (if the (cq_conversation_key q) \<noteq> [] then the (cq_conversation_key q)
      else if present (cq_conversation_url q)
      then ''conversation:'' @ or_text (conversation_id_from_url (the (cq_conversation_url q))) ''None''
      else ''new:'' @ fresh_key)"

definition write_dispatch ::
  "(string \<Rightarrow> string) \<Rightarrow> chat_store \<Rightarrow> chat_request \<Rightarrow> string \<Rightarrow> string \<Rightarrow> string \<Rightarrow> timestamp
     \<Rightarrow> (chat_store \<times> chat_dispatch_job) result" where
  "write_dispatch sha256 s q fresh_key fresh_id nonce now =
     (let k = chat_key q fresh_key;
          known = tbl_find cc_conversation_key k (ch_conversations s);
          known_url = Option.bind known cc_conversation_url;
          known_project = Option.bind known cc_project_url in
      rbind (guard (\<not> (present known_url \<and> present (cq_conversation_url q)
          \<and> \<not> conversation_url_matches (the known_url) (the (cq_conversation_url q))))
        (ValueError ''conversation_key is already bound to a different conversation'')) (\<lambda>_.
      let url = (if present known_url then known_url else cq_conversation_url q);
          project = (if \<not> present (cq_project_url q) \<and> present known_project then known_project else cq_project_url q);
          j = \<lparr>cj_dispatch_id = ''chat_'' @ fresh_id, cj_dispatch_key = cq_dispatch_key q, cj_conversation_key = k,
               cj_conversation_url = url, cj_project_url = project, cj_prompt_text = cq_prompt q,
               cj_prompt_sha256 = sha256 (cq_prompt q), cj_nonce = nonce, cj_state = CH_QUEUED, cj_created_at = now,
               cj_updated_at = now, cj_next_attempt_at = now, cj_attempts = 0, cj_idle_close_s = cq_idle_close_s q,
               cj_max_windows = cq_max_windows q, cj_window_handle = None, cj_browser_pid = None,
               cj_chrome_executable = None, cj_page_owned = False, cj_submitted_at = None, cj_acknowledged_at = None,
               cj_last_error = None\<rparr> in
      rbind (guard (present url \<or> present project)
        (ValueError ''new conversation dispatch requires project_url unless conversation_key is already resolved'')) (\<lambda>_.
      rbind (upsert_conversation (ch_conversations s) k url project now) (\<lambda>cs.
      rbind (insert_job (ch_jobs s) j) (\<lambda>js.
      Inr (s\<lparr>ch_conversations := cs, ch_jobs := js\<rparr>, j))))))"

definition enqueue ::
  "(string \<Rightarrow> string) \<Rightarrow> chat_store \<Rightarrow> chat_request \<Rightarrow> string \<Rightarrow> string \<Rightarrow> string \<Rightarrow> timestamp
     \<Rightarrow> chat_store \<times> chat_dispatch_job result" where
  "enqueue sha256 s q0 fresh_key fresh_id nonce now =
     (let q = normal_chat_request q0 in
      transaction s (rbind (check_chat_request q) (\<lambda>_.
        case (if present (cq_dispatch_key q) then find (\<lambda>j. cj_dispatch_key j = cq_dispatch_key q) (ch_jobs s) else None) of
          Some j \<Rightarrow> rbind (same_dispatch sha256 q j) (\<lambda>same.
            if same then Inr (s, j) else Inl (ValueError ''dispatch_key already exists for a different dispatch''))
        | None \<Rightarrow> write_dispatch sha256 s q fresh_key fresh_id nonce now)))"

definition list_jobs :: "chat_store \<Rightarrow> int \<Rightarrow> chat_dispatch_job list" where
  "list_jobs s limit = take (nat (max 1 (min limit 500))) (rev (ch_jobs s))"

record job_update =
  ju_state :: "chat_dispatch_state option"
  ju_next_attempt_at :: "timestamp option"
  ju_attempts :: "int option"
  ju_window_handle :: "int option"
  ju_browser_pid :: "int option"
  ju_chrome_executable :: "string option"
  ju_page_owned :: "bool option"
  ju_conversation_url :: "string option"
  ju_submitted_at :: "timestamp option"
  ju_acknowledged_at :: "timestamp option"
  ju_last_error :: "string option"

definition to_state :: "chat_dispatch_state \<Rightarrow> job_update" where
  "to_state st = \<lparr>ju_state = Some st, ju_next_attempt_at = None, ju_attempts = None, ju_window_handle = None,
     ju_browser_pid = None, ju_chrome_executable = None, ju_page_owned = None, ju_conversation_url = None,
     ju_submitted_at = None, ju_acknowledged_at = None, ju_last_error = None\<rparr>"

definition new_or :: "'a option \<Rightarrow> 'a \<Rightarrow> 'a" where
  "new_or x y = (case x of None \<Rightarrow> y | Some v \<Rightarrow> v)"

definition newer :: "'a option \<Rightarrow> 'a option \<Rightarrow> 'a option" where
  "newer x y = (case x of None \<Rightarrow> y | Some v \<Rightarrow> Some v)"

definition apply_job_update :: "job_update \<Rightarrow> timestamp \<Rightarrow> chat_dispatch_job \<Rightarrow> chat_dispatch_job" where
  "apply_job_update u now j = j\<lparr>cj_updated_at := now, cj_state := new_or (ju_state u) (cj_state j),
     cj_next_attempt_at := new_or (ju_next_attempt_at u) (cj_next_attempt_at j),
     cj_attempts := new_or (ju_attempts u) (cj_attempts j), cj_window_handle := newer (ju_window_handle u) (cj_window_handle j),
     cj_browser_pid := newer (ju_browser_pid u) (cj_browser_pid j),
     cj_chrome_executable := newer (ju_chrome_executable u) (cj_chrome_executable j),
     cj_page_owned := new_or (ju_page_owned u) (cj_page_owned j),
     cj_conversation_url := newer (ju_conversation_url u) (cj_conversation_url j),
     cj_submitted_at := newer (ju_submitted_at u) (cj_submitted_at j),
     cj_acknowledged_at := newer (ju_acknowledged_at u) (cj_acknowledged_at j),
     cj_last_error := (if ju_last_error u \<noteq> None then ju_last_error u
        else if ju_state u \<in> {Some CH_QUEUED, Some CH_SUBMITTED, Some CH_ACKNOWLEDGED} then None else cj_last_error j)\<rparr>"

definition update_job :: "chat_store \<Rightarrow> string \<Rightarrow> job_update \<Rightarrow> timestamp \<Rightarrow> chat_store \<times> chat_dispatch_job result" where
  "update_job s i u now =
     (let s' = s\<lparr>ch_jobs := tbl_update cj_dispatch_id i (apply_job_update u now) (ch_jobs s)\<rparr> in (s', get_job s' i))"

definition cancel :: "chat_store \<Rightarrow> string \<Rightarrow> timestamp \<Rightarrow> chat_store \<times> chat_dispatch_job result" where
  "cancel s i now =
     (case get_job s i of Inl e \<Rightarrow> (s, Inl e)
      | Inr j \<Rightarrow>
          if cj_state j \<in> TERMINAL_JOB_STATES then (s, Inr j)
          else if cj_state j \<in> {CH_SUBMITTING, CH_RECONCILE_REQUIRED, CH_SUBMITTED}
          then (s, Inl (RuntimeError ''cannot cancel a dispatch whose external send may already have happened''))
          else update_job s i (to_state CH_CANCELLED) now)"

definition eligible_jobs :: "chat_store \<Rightarrow> timestamp \<Rightarrow> int \<Rightarrow> chat_dispatch_job list" where
  "eligible_jobs s now limit =
     take (nat (max 1 (min limit 500))) (filter (\<lambda>j. cj_state j \<in> {CH_QUEUED, CH_OPENING, CH_WINDOW_BOUND, CH_SUBMITTING,
       CH_RETRY_WAIT, CH_SUBMITTED, CH_RECONCILE_REQUIRED} \<and> cj_next_attempt_at j \<le> now) (ch_jobs s))"

text \<open>The rows before a job; none when there is no such job.\<close>

definition older_jobs :: "chat_store \<Rightarrow> string \<Rightarrow> chat_dispatch_job list" where
  "older_jobs s i = (if i \<in> cj_dispatch_id ` set (ch_jobs s) then takeWhile (\<lambda>j. cj_dispatch_id j \<noteq> i) (ch_jobs s) else [])"

definition has_older_unfinished :: "chat_store \<Rightarrow> chat_dispatch_job \<Rightarrow> bool" where
  "has_older_unfinished s j =
     list_ex (\<lambda>r. cj_conversation_key r = cj_conversation_key j \<and> cj_state r \<notin> TERMINAL_JOB_STATES) (older_jobs s (cj_dispatch_id j))"

definition has_pending_for_conversation :: "chat_store \<Rightarrow> string \<Rightarrow> bool" where
  "has_pending_for_conversation s k = list_ex (\<lambda>j. cj_conversation_key j = k \<and> cj_state j \<in> PENDING_JOB_STATES) (ch_jobs s)"

definition pending_count :: "chat_store \<Rightarrow> nat" where
  "pending_count s = length (filter (\<lambda>j. cj_state j \<in> PENDING_JOB_STATES) (ch_jobs s))"

section \<open>Pages\<close>

definition get_page :: "chat_store \<Rightarrow> string \<Rightarrow> chat_page result" where
  "get_page s i = (case tbl_find cp_page_id i (ch_pages s) of
     None \<Rightarrow> Inl (KeyError (''unknown chat page: '' @ i)) | Some p \<Rightarrow> Inr p)"

definition list_pages :: "chat_store \<Rightarrow> chat_page list" where
  "list_pages s = sort_key (\<lambda>p. - cp_last_used_at p) (filter (\<lambda>p. cp_state p \<noteq> PG_CLOSED) (ch_pages s))"

definition page_for_conversation :: "chat_store \<Rightarrow> string \<Rightarrow> chat_page option" where
  "page_for_conversation s k =
     (case sort_key (\<lambda>p. - cp_last_used_at p)
         (filter (\<lambda>p. cp_conversation_key p = k \<and> cp_state p \<in> {PG_OPEN, PG_IDLE}) (ch_pages s)) of
        [] \<Rightarrow> None | p # _ \<Rightarrow> Some p)"

definition owned_open_count :: "chat_store \<Rightarrow> nat" where
  "owned_open_count s = length (filter (\<lambda>p. cp_owned p \<and> cp_state p \<in> {PG_OPEN, PG_IDLE}) (ch_pages s))"

definition page_id_of :: "page_identity \<Rightarrow> string" where
  "page_id_of x = ''hwnd:'' @ str_int (pi_window_handle x) @ '':pid:'' @ str_int (pi_browser_pid x)"

definition upsert_page :: "chat_store \<Rightarrow> string \<Rightarrow> page_identity \<Rightarrow> timestamp \<Rightarrow> chat_store \<times> chat_page result" where
  "upsert_page s k x now =
     (let i = page_id_of x;
          ps = (if tbl_find cp_page_id i (ch_pages s) = None
            then ch_pages s @ [\<lparr>cp_page_id = i, cp_conversation_key = k, cp_conversation_url = pi_conversation_url x,
                   cp_window_handle = pi_window_handle x, cp_browser_pid = pi_browser_pid x,
                   cp_chrome_executable = pi_chrome_executable x, cp_owned = pi_owned x, cp_state = PG_OPEN,
                   cp_opened_at = now, cp_last_used_at = now, cp_idle_since = None, cp_close_after_at = None,
                   cp_last_error = None\<rparr>]
            else tbl_update cp_page_id i (\<lambda>p. p\<lparr>cp_conversation_key := k, cp_conversation_url := pi_conversation_url x,
                   cp_chrome_executable := pi_chrome_executable x, cp_owned := (cp_owned p \<or> pi_owned x), cp_state := PG_OPEN,
                   cp_last_used_at := now, cp_idle_since := None, cp_close_after_at := None, cp_last_error := None\<rparr>) (ch_pages s));
          s' = s\<lparr>ch_pages := ps\<rparr>
      in (s', get_page s' i))"

definition edit_page :: "chat_store \<Rightarrow> string \<Rightarrow> (chat_page \<Rightarrow> chat_page) \<Rightarrow> chat_store \<times> chat_page result" where
  "edit_page s i f = (let s' = s\<lparr>ch_pages := tbl_update cp_page_id i f (ch_pages s)\<rparr> in (s', get_page s' i))"

definition update_page_url :: "chat_store \<Rightarrow> string \<Rightarrow> string \<Rightarrow> timestamp \<Rightarrow> chat_store \<times> chat_page result" where
  "update_page_url s i url now = edit_page s i (\<lambda>p. p\<lparr>cp_conversation_url := url, cp_state := PG_OPEN, cp_last_used_at := now,
     cp_idle_since := None, cp_close_after_at := None, cp_last_error := None\<rparr>)"

definition mark_page_open :: "chat_store \<Rightarrow> string \<Rightarrow> timestamp \<Rightarrow> chat_store \<times> chat_page result" where
  "mark_page_open s i now = edit_page s i (\<lambda>p. p\<lparr>cp_state := PG_OPEN, cp_last_used_at := now,
     cp_idle_since := None, cp_close_after_at := None, cp_last_error := None\<rparr>)"

definition mark_page_idle :: "chat_store \<Rightarrow> string \<Rightarrow> real \<Rightarrow> timestamp \<Rightarrow> chat_store \<times> chat_page result" where
  "mark_page_idle s i idle_close_s now =
     (case get_page s i of Inl e \<Rightarrow> (s, Inl e)
      | Inr p \<Rightarrow>
          let idle_since = (case cp_idle_since p of Some t \<Rightarrow> if cp_state p = PG_IDLE then t else now | None \<Rightarrow> now);
              close_after = (if cp_owned p then Some (idle_since + max 1 idle_close_s) else None) in
          edit_page s i (\<lambda>p. p\<lparr>cp_state := PG_IDLE, cp_idle_since := Some idle_since, cp_close_after_at := close_after,
            cp_last_used_at := now\<rparr>))"

definition mark_page_closed :: "chat_store \<Rightarrow> string \<Rightarrow> bool \<Rightarrow> string option \<Rightarrow> chat_store \<times> chat_page result" where
  "mark_page_closed s i ambiguous err = edit_page s i (\<lambda>p. p\<lparr>cp_state := (if ambiguous then PG_AMBIGUOUS else PG_CLOSED),
     cp_last_error := err, cp_close_after_at := None\<rparr>)"

section \<open>Conversations\<close>

definition bind_conversation :: "chat_store \<Rightarrow> string \<Rightarrow> string \<Rightarrow> timestamp \<Rightarrow> chat_store \<times> unit result" where
  "bind_conversation s k url now =
     (case find (\<lambda>c. cc_conversation_url c = Some url \<and> cc_conversation_key c \<noteq> k) (ch_conversations s) of
        Some c \<Rightarrow> (s, Inl (RuntimeError (''conversation URL is already owned by key '' @ cc_conversation_key c)))
      | None \<Rightarrow>
          (s\<lparr>ch_conversations := tbl_update cc_conversation_key k
               (\<lambda>c. c\<lparr>cc_conversation_url := Some url, cc_updated_at := now\<rparr>) (ch_conversations s),
             ch_jobs := map (\<lambda>j. if cj_conversation_key j = k \<and> cj_conversation_url j = None
               then j\<lparr>cj_conversation_url := Some url, cj_updated_at := now\<rparr> else j) (ch_jobs s)\<rparr>, Inr ()))"

section \<open>The lease of the dispatcher\<close>

definition acquire_lease ::
  "(int \<Rightarrow> bool) \<Rightarrow> chat_store \<Rightarrow> string \<Rightarrow> int \<Rightarrow> int \<Rightarrow> real \<Rightarrow> real \<Rightarrow> timestamp \<Rightarrow> chat_store \<times> bool" where
  "acquire_lease pid_exists s owner pid max_windows idle_close_s ttl now =
     (case ch_lease s of
        Some l \<Rightarrow>
          if cl_owner_id l \<noteq> owner \<and> (now < cl_expires_at l \<or> (0 < cl_pid l \<and> pid_exists (cl_pid l))) then (s, False)
          else (s\<lparr>ch_lease := Some \<lparr>cl_owner_id = owner, cl_pid = pid, cl_heartbeat_at = now, cl_expires_at = now + max 5 ttl,
            cl_max_windows = max 1 max_windows, cl_idle_close_s = max 1 idle_close_s\<rparr>\<rparr>, True)
      | None \<Rightarrow> (s\<lparr>ch_lease := Some \<lparr>cl_owner_id = owner, cl_pid = pid, cl_heartbeat_at = now, cl_expires_at = now + max 5 ttl,
            cl_max_windows = max 1 max_windows, cl_idle_close_s = max 1 idle_close_s\<rparr>\<rparr>, True))"

definition heartbeat_lease :: "chat_store \<Rightarrow> string \<Rightarrow> real \<Rightarrow> timestamp \<Rightarrow> chat_store \<times> bool" where
  "heartbeat_lease s owner ttl now =
     (case ch_lease s of
        Some l \<Rightarrow> if cl_owner_id l = owner
          then (s\<lparr>ch_lease := Some (l\<lparr>cl_heartbeat_at := now, cl_expires_at := now + max 5 ttl\<rparr>)\<rparr>, True) else (s, False)
      | None \<Rightarrow> (s, False))"

definition release_lease :: "chat_store \<Rightarrow> string \<Rightarrow> chat_store" where
  "release_lease s owner =
     (case ch_lease s of Some l \<Rightarrow> if cl_owner_id l = owner then s\<lparr>ch_lease := None\<rparr> else s | None \<Rightarrow> s)"

text \<open>The check made before a new dispatcher process is launched: a live process keeps its lease.\<close>

definition fence_dispatcher :: "(int \<Rightarrow> bool) \<Rightarrow> chat_store \<Rightarrow> timestamp \<Rightarrow> chat_store \<times> string option" where
  "fence_dispatcher pid_exists s now =
     (case ch_lease s of
        Some l \<Rightarrow>
          if 0 < cl_pid l \<and> pid_exists (cl_pid l)
          then (s, Some (if now < cl_expires_at l then ''existing chat dispatcher lease is fresh''
                 else ''dispatcher PID is still alive behind an expired lease; replacement is fenced''))
          else (release_lease s (cl_owner_id l), None)
      | None \<Rightarrow> (s, None))"

end
