(* ===== verification/Chat_Engine.thy ===== *)
theory Chat_Engine
  imports Chat_Store
begin

text \<open>
  The dispatcher that drains the queue (\<^verbatim>\<open>ChatDispatchEngine\<close> of \<^verbatim>\<open>chat_dispatch.py\<close>). The browser and the
  clock are one environment with a state of its own: every call of them may answer differently, and may
  raise. What the engine does to the browser is recorded together with the store at that moment, so that
  a record also describes what a process that dies right there leaves behind.
\<close>

section \<open>The environment and the state of a run\<close>

record send_result =
  bs_submitted :: bool
  bs_side_effect_possible :: bool
  bs_detail :: string
  bs_conversation_url :: "string option"
  bs_rate_limited :: bool

record ack_result =
  bk_observed :: bool
  bk_nonce_occurrences :: int
  bk_generating :: "bool option"
  bk_detail :: string
  bk_conversation_url :: "string option"

record close_result =
  bc_closed :: bool
  bc_absent :: bool
  bc_ambiguous :: bool
  bc_detail :: string

record 'w chat_env =
  ce_time :: "'w \<Rightarrow> timestamp \<times> 'w"
  ce_find_existing :: "string \<Rightarrow> 'w \<Rightarrow> page_identity option result \<times> 'w"
  ce_open_existing :: "string \<Rightarrow> 'w \<Rightarrow> page_identity result \<times> 'w"
  ce_open_new :: "string \<Rightarrow> string \<Rightarrow> string \<Rightarrow> 'w \<Rightarrow> page_identity result \<times> 'w"
  ce_recover_new :: "string \<Rightarrow> string \<Rightarrow> string \<Rightarrow> 'w \<Rightarrow> page_identity option result \<times> 'w"
  ce_send_existing :: "chat_dispatch_job \<Rightarrow> chat_page \<Rightarrow> 'w \<Rightarrow> send_result result \<times> 'w"
  ce_send_new :: "chat_dispatch_job \<Rightarrow> chat_page \<Rightarrow> 'w \<Rightarrow> send_result result \<times> 'w"
  ce_observe_ack :: "chat_dispatch_job \<Rightarrow> chat_page \<Rightarrow> 'w \<Rightarrow> ack_result result \<times> 'w"
  ce_current_url :: "chat_page \<Rightarrow> 'w \<Rightarrow> string option result \<times> 'w"
  ce_close_page :: "chat_page \<Rightarrow> 'w \<Rightarrow> close_result result \<times> 'w"

datatype chat_effect =
    Opens chat_store chat_dispatch_job
  | Sends chat_store chat_dispatch_job chat_page
  | Closes chat_store chat_page timestamp

record 'w engine_state =
  es_store :: chat_store
  es_world :: 'w
  es_effects :: "chat_effect list"

record engine_config =
  ec_max_windows :: int
  ec_idle_close_s :: real
  ec_rate_limit_cooldown_s :: real

definition engine_config_of :: "int \<Rightarrow> real \<Rightarrow> real \<Rightarrow> engine_config" where
  "engine_config_of max_windows idle_close_s cooldown_s = \<lparr>ec_max_windows = max 1 (min max_windows 16),
     ec_idle_close_s = max 1 idle_close_s, ec_rate_limit_cooldown_s = max 1 cooldown_s\<rparr>"

text \<open>Reading the clock, asking the browser, a call of the store, and recording an effect.\<close>

definition with_time :: "'w chat_env \<Rightarrow> 'w engine_state \<Rightarrow> (timestamp \<Rightarrow> 'w engine_state \<Rightarrow> 'a) \<Rightarrow> 'a" where
  "with_time env s f = (case ce_time env (es_world s) of (t, w) \<Rightarrow> f t (s\<lparr>es_world := w\<rparr>))"

definition ask :: "'w engine_state \<Rightarrow> ('w \<Rightarrow> 'a result \<times> 'w) \<Rightarrow> 'w engine_state \<times> 'a result" where
  "ask s g = (case g (es_world s) of (r, w) \<Rightarrow> (s\<lparr>es_world := w\<rparr>, r))"

definition on_store :: "'w engine_state \<Rightarrow> (chat_store \<Rightarrow> chat_store \<times> 'a result) \<Rightarrow> 'w engine_state \<times> 'a result" where
  "on_store s g = (case g (es_store s) of (d, r) \<Rightarrow> (s\<lparr>es_store := d\<rparr>, r))"

definition effect :: "'w engine_state \<Rightarrow> (chat_store \<Rightarrow> chat_effect) \<Rightarrow> 'w engine_state" where
  "effect s e = s\<lparr>es_effects := es_effects s @ [e (es_store s)]\<rparr>"

definition put_job :: "'w chat_env \<Rightarrow> 'w engine_state \<Rightarrow> string \<Rightarrow> job_update \<Rightarrow> 'w engine_state \<times> chat_dispatch_job result" where
  "put_job env s i u = with_time env s (\<lambda>t s. on_store s (\<lambda>d. update_job d i u t))"

definition fail_with :: "chat_dispatch_state \<Rightarrow> string \<Rightarrow> job_update" where
  "fail_with st err = (to_state st)\<lparr>ju_last_error := Some err\<rparr>"

text \<open>\<^verbatim>\<open>f"{type(exc).__name__}: {exc}"\<close>.\<close>

definition raised :: "py_error \<Rightarrow> string" where
  "raised e = error_name e @ '': '' @ error_text e"

section \<open>Finding and opening the page of a job\<close>

definition engine_page ::
  "'w chat_env \<Rightarrow> 'w engine_state \<Rightarrow> chat_dispatch_job \<Rightarrow> 'w engine_state \<times> chat_page option result" where
  "engine_page env s j =
     (case page_for_conversation (es_store s) (cj_conversation_key j) of
        None \<Rightarrow> (s, Inr None)
      | Some p \<Rightarrow>
          sbind (ask s (ce_current_url env p)) (\<lambda>s current.
          case current of
            None \<Rightarrow> sbind (on_store s (\<lambda>d. mark_page_closed d (cp_page_id p) False
                (Some ''owned/bound window is no longer observable''))) (\<lambda>s _. (s, Inr None))
          | Some url \<Rightarrow>
              if present (cj_conversation_url j)
                \<and> conversation_id_from_url url = conversation_id_from_url (the (cj_conversation_url j))
              then if uia_normalize_url url \<noteq> uia_normalize_url (cp_conversation_url p)
                   then with_time env s (\<lambda>t s. sbind (on_store s (\<lambda>d. update_page_url d (cp_page_id p) url t))
                     (\<lambda>s p. (s, Inr (Some p))))
                   else (s, Inr (Some p))
              else if \<not> present (cj_conversation_url j) \<and> present (cj_project_url j) then (s, Inr (Some p))
              else sbind (on_store s (\<lambda>d. mark_page_closed d (cp_page_id p) True (Some ''page identity changed'')))
                     (\<lambda>s _. (s, Inr None))))"

definition owner_token :: "chat_dispatch_job \<Rightarrow> string" where
  "owner_token j = ''chat-dispatch:'' @ cj_dispatch_id j @ '':'' @ cj_nonce j"

definition wire_digest :: "(string \<Rightarrow> string) \<Rightarrow> chat_dispatch_job \<Rightarrow> string result" where
  "wire_digest sha256 j = rbind (wire_prompt j) (\<lambda>w. Inr (sha256 w))"

text \<open>A job found in \<^verbatim>\<open>OPENING\<close>: the outcome of the recorded open is only looked up, never repeated.\<close>

definition recover_open ::
  "(string \<Rightarrow> string) \<Rightarrow> 'w chat_env \<Rightarrow> 'w engine_state \<Rightarrow> chat_dispatch_job \<Rightarrow> 'w engine_state \<times> page_identity option result" where
  "recover_open sha256 env s j =
     sbind (if present (cj_conversation_url j)
            then sbind (ask s (ce_find_existing env (the (cj_conversation_url j))))
              (\<lambda>s x. (s, Inr (map_option (\<lambda>x. x\<lparr>pi_owned := False\<rparr>) x)))
            else if present (cj_project_url j)
            then sbind (s, wire_digest sha256 j) (\<lambda>s h.
              ask s (ce_recover_new env (the (cj_project_url j)) (owner_token j) h))
            else (s, Inr None)) (\<lambda>s x.
     case x of
       Some y \<Rightarrow> (s, Inr (Some y))
     | None \<Rightarrow> sbind (put_job env s (cj_dispatch_id j)
         (fail_with CH_RECONCILE_REQUIRED ''browser open outcome is unresolved; no automatic replay'')) (\<lambda>s _. (s, Inr None)))"

text \<open>
  The write-ahead open: \<^verbatim>\<open>OPENING\<close> is durable before the browser is asked, and an exception leaves the job
  for reconciliation. Nothing is opened when the owned windows are at their limit.
\<close>

definition handle_open ::
  "'w chat_env \<Rightarrow> chat_dispatch_job \<Rightarrow> string \<Rightarrow> 'w engine_state \<times> page_identity result \<Rightarrow> 'w engine_state \<times> page_identity option result" where
  "handle_open env j kind opened =
     (case opened of
        (s, Inr x) \<Rightarrow> (s, Inr (Some x))
      | (s, Inl e) \<Rightarrow> sbind (put_job env s (cj_dispatch_id j)
          (fail_with CH_RECONCILE_REQUIRED (kind @ ''-conversation window open outcome unresolved: '' @ raised e)))
          (\<lambda>s _. (s, Inr None)))"

definition open_window ::
  "engine_config \<Rightarrow> 'w chat_env \<Rightarrow> 'w engine_state \<Rightarrow> chat_dispatch_job \<Rightarrow> string
     \<Rightarrow> ('w engine_state \<Rightarrow> 'w engine_state \<times> page_identity result) \<Rightarrow> 'w engine_state \<times> page_identity option result" where
  "open_window cfg env s j kind opener =
     (if int (owned_open_count (es_store s)) \<ge> ec_max_windows cfg then (s, Inr None)
      else sbind (put_job env s (cj_dispatch_id j) (to_state CH_OPENING)) (\<lambda>s _.
        handle_open env j kind (opener (effect s (\<lambda>d. Opens d j)))))"

definition acquire_identity ::
  "(string \<Rightarrow> string) \<Rightarrow> engine_config \<Rightarrow> 'w chat_env \<Rightarrow> 'w engine_state \<Rightarrow> chat_dispatch_job
     \<Rightarrow> 'w engine_state \<times> page_identity option result" where
  "acquire_identity sha256 cfg env s j =
     (if cj_state j = CH_OPENING then recover_open sha256 env s j
      else if present (cj_conversation_url j) then
        sbind (ask s (ce_find_existing env (the (cj_conversation_url j)))) (\<lambda>s x.
        case x of Some y \<Rightarrow> (s, Inr (Some y))
        | None \<Rightarrow> open_window cfg env s j ''existing'' (\<lambda>s. ask s (ce_open_existing env (the (cj_conversation_url j)))))
      else if \<not> present (cj_project_url j) then (s, Inl (RuntimeError ''unresolved conversation has no project_url''))
      else open_window cfg env s j ''new'' (\<lambda>s. sbind (s, wire_digest sha256 j) (\<lambda>s h.
             ask s (ce_open_new env (the (cj_project_url j)) (owner_token j) h))))"

definition at_page :: "chat_page \<Rightarrow> job_update \<Rightarrow> job_update" where
  "at_page p u = u\<lparr>ju_window_handle := Some (cp_window_handle p), ju_browser_pid := Some (cp_browser_pid p),
     ju_chrome_executable := Some (cp_chrome_executable p), ju_page_owned := Some (cp_owned p)\<rparr>"

definition ensure_page ::
  "(string \<Rightarrow> string) \<Rightarrow> engine_config \<Rightarrow> 'w chat_env \<Rightarrow> 'w engine_state \<Rightarrow> chat_dispatch_job
     \<Rightarrow> 'w engine_state \<times> chat_page option result" where
  "ensure_page sha256 cfg env s j =
     sbind (engine_page env s j) (\<lambda>s found.
     case found of
       Some p \<Rightarrow> with_time env s (\<lambda>t s. sbind (on_store s (\<lambda>d. mark_page_open d (cp_page_id p) t)) (\<lambda>s p. (s, Inr (Some p))))
     | None \<Rightarrow>
         sbind (acquire_identity sha256 cfg env s j) (\<lambda>s x.
         case x of
           None \<Rightarrow> (s, Inr None)
         | Some y \<Rightarrow> with_time env s (\<lambda>t s.
             sbind (on_store s (\<lambda>d. upsert_page d (cj_conversation_key j) y t)) (\<lambda>s p.
             sbind (put_job env s (cj_dispatch_id j) (at_page p (to_state CH_WINDOW_BOUND))) (\<lambda>s _. (s, Inr (Some p)))))))"

section \<open>Sending\<close>

definition record_send ::
  "engine_config \<Rightarrow> 'w chat_env \<Rightarrow> 'w engine_state \<Rightarrow> chat_dispatch_job \<Rightarrow> timestamp \<Rightarrow> send_result
     \<Rightarrow> 'w engine_state \<times> chat_dispatch_job result" where
  "record_send cfg env s j current r =
     put_job env s (cj_dispatch_id j)
       (if bs_submitted r then (to_state CH_SUBMITTED)\<lparr>ju_submitted_at := Some current,
          ju_conversation_url := (if present (bs_conversation_url r) then bs_conversation_url r else cj_conversation_url j)\<rparr>
        else if bs_side_effect_possible r
        then fail_with CH_RECONCILE_REQUIRED (default_text (bs_detail r) ''send outcome is ambiguous'')
        else if bs_rate_limited r
        then (fail_with CH_RETRY_WAIT (default_text (bs_detail r) ''rate limited before send''))
               \<lparr>ju_next_attempt_at := Some (current + ec_rate_limit_cooldown_s cfg)\<rparr>
        else fail_with CH_FAILED (default_text (bs_detail r) ''send was safely rejected before side effect''))"

text \<open>The answer of the browser to a send; an exception leaves the outcome open.\<close>

definition handle_answer ::
  "engine_config \<Rightarrow> 'w chat_env \<Rightarrow> chat_dispatch_job \<Rightarrow> chat_page \<Rightarrow> timestamp \<Rightarrow> 'w engine_state \<times> send_result result
     \<Rightarrow> 'w engine_state \<times> chat_dispatch_job result" where
  "handle_answer cfg env j p current answer =
     (case answer of
        (s, Inl e) \<Rightarrow> put_job env s (cj_dispatch_id j) (fail_with CH_RECONCILE_REQUIRED (''send raised '' @ raised e))
      | (s, Inr r) \<Rightarrow>
          sbind (if present (bs_conversation_url r) then
              with_time env s (\<lambda>t s. sbind (on_store s (\<lambda>d. bind_conversation d (cj_conversation_key j) (the (bs_conversation_url r)) t)) (\<lambda>s _.
              with_time env s (\<lambda>t s. sbind (on_store s (\<lambda>d. update_page_url d (cp_page_id p) (the (bs_conversation_url r)) t)) (\<lambda>s _. (s, Inr ())))))
            else (s, Inr ())) (\<lambda>s _.
          record_send cfg env s j current r))"

definition submit ::
  "engine_config \<Rightarrow> 'w chat_env \<Rightarrow> 'w engine_state \<Rightarrow> chat_dispatch_job \<Rightarrow> chat_page
     \<Rightarrow> 'w engine_state \<times> chat_dispatch_job result" where
  "submit cfg env s j p =
     with_time env s (\<lambda>current s.
     sbind (put_job env s (cj_dispatch_id j) (at_page p ((to_state CH_SUBMITTING)\<lparr>ju_attempts := Some (cj_attempts j + 1)\<rparr>))) (\<lambda>s j.
     handle_answer cfg env j p current (ask (effect s (\<lambda>d. Sends d j p))
       (if present (cj_conversation_url j) then ce_send_existing env j p else ce_send_new env j p))))"

section \<open>Reconciling a job whose send is recorded\<close>

text \<open>A new conversation first gets the URL that its page has reached.\<close>

definition settle_url ::
  "'w chat_env \<Rightarrow> 'w engine_state \<Rightarrow> chat_dispatch_job \<Rightarrow> chat_page
     \<Rightarrow> 'w engine_state \<times> (chat_dispatch_job \<times> chat_page) option result" where
  "settle_url env s j p =
     (if present (cj_conversation_url j) then (s, Inr (Some (j, p)))
      else sbind (ask s (ce_current_url env p)) (\<lambda>s current.
        case current of None \<Rightarrow> (s, Inr None)
        | Some url \<Rightarrow>
            if conversation_id_from_url url = None then (s, Inr None)
            else with_time env s (\<lambda>t s. sbind (on_store s (\<lambda>d. bind_conversation d (cj_conversation_key j) url t)) (\<lambda>s _.
              with_time env s (\<lambda>t s. sbind (on_store s (\<lambda>d. update_page_url d (cp_page_id p) url t)) (\<lambda>s _.
              (let submitting = (\<lambda>since s. sbind (put_job env s (cj_dispatch_id j) ((to_state CH_SUBMITTED)
                       \<lparr>ju_conversation_url := Some url, ju_submitted_at := Some since\<rparr>)) (\<lambda>s j.
                     sbind (s, get_page (es_store s) (cp_page_id p)) (\<lambda>s p. (s, Inr (Some (j, p)))))) in
               case cj_submitted_at j of
                 Some t \<Rightarrow> if t \<noteq> 0 then submitting t s else with_time env s submitting
               | None \<Rightarrow> with_time env s submitting)))))))"

definition reconcile ::
  "'w chat_env \<Rightarrow> 'w engine_state \<Rightarrow> chat_dispatch_job \<Rightarrow> 'w engine_state \<times> unit result" where
  "reconcile env s j =
     sbind (engine_page env s j) (\<lambda>s found.
     case found of None \<Rightarrow> (s, Inr ())
     | Some p \<Rightarrow>
         sbind (settle_url env s j p) (\<lambda>s settled.
         case settled of None \<Rightarrow> (s, Inr ())
         | Some (j, p) \<Rightarrow>
             sbind (ask s (ce_observe_ack env j p)) (\<lambda>s ack.
             if \<not> bk_observed ack then (s, Inr ())
             else if bk_nonce_occurrences ack > 1 then
               sbind (put_job env s (cj_dispatch_id j) (fail_with CH_RECONCILE_REQUIRED (''nonce appeared ''
                 @ str_int (bk_nonce_occurrences ack) @ '' times; duplicate delivery requires human review''))) (\<lambda>s _.
               sbind (on_store s (\<lambda>d. mark_page_closed d (cp_page_id p) True (Some ''duplicate nonce evidence''))) (\<lambda>s _. (s, Inr ())))
             else if bk_nonce_occurrences ack = 1 \<and> bk_generating ack = Some False then
               with_time env s (\<lambda>now s.
               sbind (put_job env s (cj_dispatch_id j) ((to_state CH_ACKNOWLEDGED)\<lparr>ju_acknowledged_at := Some now\<rparr>)) (\<lambda>s _.
               if has_pending_for_conversation (es_store s) (cj_conversation_key j) then (s, Inr ())
               else sbind (on_store s (\<lambda>d. mark_page_idle d (cp_page_id p) (cj_idle_close_s j) now)) (\<lambda>s _. (s, Inr ()))))
             else (s, Inr ()))))"

section \<open>Closing idle pages\<close>

definition close_due ::
  "'w chat_env \<Rightarrow> 'w engine_state \<Rightarrow> timestamp \<Rightarrow> chat_page \<Rightarrow> 'w engine_state \<times> unit result" where
  "close_due env s now p =
     (case ask (effect s (\<lambda>d. Closes d p now)) (ce_close_page env p) of
        (s, Inl e) \<Rightarrow> (s, Inl e)
      | (s, Inr r) \<Rightarrow>
          sbind (on_store s (\<lambda>d. if bc_closed r \<or> bc_absent r then mark_page_closed d (cp_page_id p) False None
            else mark_page_closed d (cp_page_id p) True
              (Some (default_text (bc_detail r) ''exact owned-page close could not be proven'')))) (\<lambda>s _. (s, Inr ())))"

definition close_idle_page ::
  "engine_config \<Rightarrow> 'w chat_env \<Rightarrow> timestamp \<Rightarrow> chat_page \<Rightarrow> 'w engine_state \<Rightarrow> 'w engine_state \<times> unit result" where
  "close_idle_page cfg env now p s =
     (if \<not> cp_owned p \<or> has_pending_for_conversation (es_store s) (cp_conversation_key p) then (s, Inr ())
      else if cp_state p = PG_OPEN
      then sbind (on_store s (\<lambda>d. mark_page_idle d (cp_page_id p) (ec_idle_close_s cfg) now)) (\<lambda>s _. (s, Inr ()))
      else if cp_state p \<noteq> PG_IDLE then (s, Inr ())
      else case cp_close_after_at p of None \<Rightarrow> (s, Inr ())
        | Some t \<Rightarrow> if now < t then (s, Inr ()) else close_due env s now p)"

fun close_pages ::
  "engine_config \<Rightarrow> 'w chat_env \<Rightarrow> timestamp \<Rightarrow> chat_page list \<Rightarrow> 'w engine_state \<Rightarrow> 'w engine_state \<times> unit result" where
  "close_pages cfg env now [] s = (s, Inr ())"
| "close_pages cfg env now (p # ps) s = sbind (close_idle_page cfg env now p s) (\<lambda>s _. close_pages cfg env now ps s)"

definition close_idle_pages ::
  "engine_config \<Rightarrow> 'w chat_env \<Rightarrow> 'w engine_state \<Rightarrow> 'w engine_state \<times> unit result" where
  "close_idle_pages cfg env s = with_time env s (\<lambda>now s. close_pages cfg env now (list_pages (es_store s)) s)"

section \<open>One pass over the queue\<close>

text \<open>The pass works on the rows it read at its start; \<open>j\<close> is such a row and may be out of date.\<close>

definition dispatch_job ::
  "(string \<Rightarrow> string) \<Rightarrow> engine_config \<Rightarrow> 'w chat_env \<Rightarrow> chat_dispatch_job \<Rightarrow> 'w engine_state \<Rightarrow> 'w engine_state \<times> bool result" where
  "dispatch_job sha256 cfg env j s =
     (case ensure_page sha256 cfg env s j of
        (s, Inl e) \<Rightarrow> sbind (put_job env s (cj_dispatch_id j) (fail_with CH_FAILED (''page acquisition failed: '' @ raised e)))
          (\<lambda>s _. (s, Inr True))
      | (s, Inr None) \<Rightarrow> (s, Inr False)
      | (s, Inr (Some p)) \<Rightarrow>
          sbind (s, get_job (es_store s) (cj_dispatch_id j)) (\<lambda>s j.
          sbind (submit cfg env s j p) (\<lambda>s _. (s, Inr True))))"

definition run_job ::
  "(string \<Rightarrow> string) \<Rightarrow> engine_config \<Rightarrow> 'w chat_env \<Rightarrow> chat_dispatch_job \<Rightarrow> 'w engine_state \<Rightarrow> 'w engine_state \<times> bool result" where
  "run_job sha256 cfg env j s =
     (if cj_state j \<in> TERMINAL_JOB_STATES \<or> has_older_unfinished (es_store s) j then (s, Inr False)
      else if cj_state j = CH_SUBMITTING then
        sbind (put_job env s (cj_dispatch_id j) (fail_with CH_RECONCILE_REQUIRED
          ''worker resumed from SUBMITTING; Send outcome requires reconciliation'')) (\<lambda>s _.
        sbind (s, get_job (es_store s) (cj_dispatch_id j)) (\<lambda>s j.
        sbind (reconcile env s j) (\<lambda>s _. (s, Inr True))))
      else if cj_state j \<in> {CH_SUBMITTED, CH_RECONCILE_REQUIRED} then
        sbind (reconcile env s j) (\<lambda>s _.
        sbind (s, get_job (es_store s) (cj_dispatch_id j)) (\<lambda>s j'. (s, Inr (cj_state j' \<noteq> cj_state j))))
      else if cj_state j = CH_RETRY_WAIT then
        with_time env s (\<lambda>t s. if t < cj_next_attempt_at j then (s, Inr False) else dispatch_job sha256 cfg env j s)
      else dispatch_job sha256 cfg env j s)"

fun run_jobs ::
  "(string \<Rightarrow> string) \<Rightarrow> engine_config \<Rightarrow> 'w chat_env \<Rightarrow> chat_dispatch_job list \<Rightarrow> 'w engine_state \<Rightarrow> 'w engine_state \<times> bool result" where
  "run_jobs sha256 cfg env [] s = (s, Inr False)"
| "run_jobs sha256 cfg env (j # js) s =
     sbind (run_job sha256 cfg env j s) (\<lambda>s progressed.
     sbind (run_jobs sha256 cfg env js s) (\<lambda>s later. (s, Inr (progressed \<or> later))))"

definition run_once ::
  "(string \<Rightarrow> string) \<Rightarrow> engine_config \<Rightarrow> 'w chat_env \<Rightarrow> 'w engine_state \<Rightarrow> 'w engine_state \<times> (bool \<times> nat \<times> nat) result" where
  "run_once sha256 cfg env s =
     with_time env s (\<lambda>t s.
     sbind (run_jobs sha256 cfg env (eligible_jobs (es_store s) t 200) s) (\<lambda>s progressed.
     sbind (close_idle_pages cfg env s) (\<lambda>s _.
     (s, Inr (progressed, pending_count (es_store s), owned_open_count (es_store s))))))"

section \<open>The worker process\<close>

definition reconcile_hold_s :: real where
  "reconcile_hold_s = 90"

definition should_exit :: "chat_store \<Rightarrow> timestamp \<Rightarrow> bool" where
  "should_exit s now =
     (if pending_count s > 0 then
        \<not> list_ex (\<lambda>j. cj_state j = CH_RECONCILE_REQUIRED \<and> now - cj_updated_at j < reconcile_hold_s) (list_jobs s 500)
        \<and> \<not> list_ex (\<lambda>j. cj_state j \<in> PENDING_JOB_STATES \<and> cj_state j \<noteq> CH_RECONCILE_REQUIRED) (list_jobs s 500)
      else owned_open_count s = 0)"

text \<open>
  The loop of the worker; \<open>None\<close> when the fuel runs out. The exit code is 3 when the lease was lost. The
  clock is read for the heartbeat, and again before the exit decision when jobs are pending.
\<close>

fun worker_loop ::
  "nat \<Rightarrow> (string \<Rightarrow> string) \<Rightarrow> engine_config \<Rightarrow> 'w chat_env \<Rightarrow> string \<Rightarrow> 'w engine_state \<Rightarrow> ('w engine_state \<times> int result) option" where
  "worker_loop 0 sha256 cfg env owner s = None"
| "worker_loop (Suc n) sha256 cfg env owner s =
     with_time env s (\<lambda>t s.
     (case heartbeat_lease (es_store s) owner 60 t of
        (d, False) \<Rightarrow> Some (s\<lparr>es_store := d\<rparr>, Inr 3)
      | (d, True) \<Rightarrow>
          (case run_once sha256 cfg env (s\<lparr>es_store := d\<rparr>) of
             (s, Inl e) \<Rightarrow> Some (s, Inl e)
           | (s, Inr _) \<Rightarrow>
               (if pending_count (es_store s) > 0
                then with_time env s (\<lambda>t s. if should_exit (es_store s) t then Some (s, Inr 0) else worker_loop n sha256 cfg env owner s)
                else if should_exit (es_store s) 0 then Some (s, Inr 0) else worker_loop n sha256 cfg env owner s))))"

definition run_chat_dispatch_worker ::
  "nat \<Rightarrow> (string \<Rightarrow> string) \<Rightarrow> (int \<Rightarrow> bool) \<Rightarrow> int \<Rightarrow> real \<Rightarrow> 'w chat_env \<Rightarrow> string \<Rightarrow> int \<Rightarrow> 'w engine_state
     \<Rightarrow> ('w engine_state \<times> int result) option" where
  "run_chat_dispatch_worker n sha256 pid_exists max_windows idle_close_s env owner pid s =
     with_time env s (\<lambda>t s.
     case acquire_lease pid_exists (es_store s) owner pid max_windows idle_close_s 60 t of
       (d, False) \<Rightarrow> Some (s\<lparr>es_store := d\<rparr>, Inr 0)
     | (d, True) \<Rightarrow> map_option (\<lambda>(s, r). (s\<lparr>es_store := release_lease (es_store s) owner\<rparr>, r))
         (worker_loop n sha256 (engine_config_of max_windows idle_close_s 120) env owner (s\<lparr>es_store := d\<rparr>)))"

end
