(* ===== verification/Chat_Safety.thy ===== *)
theory Chat_Safety
  imports Chat_Engine
begin

text \<open>
  Safety of the chat dispatcher: every effect on the browser is authorised by the store at that moment, a
  job whose send was journalled is never sent again, and the tables keep their invariant under every
  operation. The passes of the engine are proved once against a contract on the store and its effects.
\<close>

section \<open>Runs that keep a store invariant and only have allowed effects\<close>

definition engine_ok :: "(chat_store \<Rightarrow> bool) \<Rightarrow> (chat_effect \<Rightarrow> bool) \<Rightarrow> 'w engine_state \<Rightarrow> 'w engine_state \<times> 'a result \<Rightarrow> bool" where
  "engine_ok P Q s r \<longleftrightarrow> P (es_store (fst r)) \<and> (\<exists>es. es_effects (fst r) = es_effects s @ es \<and> list_all Q es)"

named_theorems engine_intros \<open>rules for runs of the engine\<close>

lemma engine_ok_ret [engine_intros]: "P (es_store s) \<Longrightarrow> engine_ok P Q s (s, r)"
  by (simp add: engine_ok_def)

lemma engine_ok_bind [engine_intros]:
  assumes "engine_ok P Q s r" and "\<And>s' x. r = (s', Inr x) \<Longrightarrow> P (es_store s') \<Longrightarrow> engine_ok P Q s' (f s' x)"
  shows "engine_ok P Q s (sbind r f)"
proof (cases r)
  case (Pair s' y)
  show ?thesis
  proof (cases y)
    case (Inl e)
    with assms(1) Pair show ?thesis by (simp add: engine_ok_def)
  next
    case (Inr x)
    with assms(1) Pair obtain es where es: "P (es_store s')" "es_effects s' = es_effects s @ es" "list_all Q es"
      by (auto simp: engine_ok_def)
    with assms(2) Pair Inr have "engine_ok P Q s' (f s' x)" by simp
    with es Pair Inr show ?thesis by (fastforce simp: engine_ok_def)
  qed
qed

lemma engine_ok_world: "engine_ok P Q (s\<lparr>es_world := w\<rparr>) r = engine_ok P Q s r"
  by (simp add: engine_ok_def)

lemma engine_ok_time [engine_intros]:
  "(\<And>t w. engine_ok P Q (s\<lparr>es_world := w\<rparr>) (f t (s\<lparr>es_world := w\<rparr>))) \<Longrightarrow> engine_ok P Q s (with_time env s f)"
  by (simp add: with_time_def engine_ok_world split: prod.split)

lemma engine_ok_ask [engine_intros]: "P (es_store s) \<Longrightarrow> engine_ok P Q s (ask s g)"
  by (simp add: ask_def engine_ok_def split: prod.split)

lemma engine_ok_store [engine_intros]: "P (fst (g (es_store s))) \<Longrightarrow> engine_ok P Q s (on_store s g)"
  by (auto simp: on_store_def engine_ok_def split: prod.split)

lemma engine_ok_put [engine_intros]: "(\<And>t. P (fst (update_job (es_store s) i u t))) \<Longrightarrow> engine_ok P Q s (put_job env s i u)"
  unfolding put_job_def by (intro engine_intros) simp

text \<open>An effect and then the run from the state that has it.\<close>

lemma engine_ok_effect:
  assumes "Q (e (es_store s))" and "engine_ok P Q (effect s e) r"
  shows "engine_ok P Q s r"
  using assms by (auto simp: engine_ok_def effect_def)

lemma effect_store [simp]: "es_store (effect s e) = es_store s"
  by (simp add: effect_def)

lemma ask_store: "ask s g = (s', r) \<Longrightarrow> es_store s' = es_store s \<and> es_effects s' = es_effects s"
  by (auto simp: ask_def split: prod.splits)

lemma engine_ok_step: "es_store s' = es_store s \<Longrightarrow> es_effects s' = es_effects s \<Longrightarrow> engine_ok P Q s r = engine_ok P Q s' r"
  by (simp add: engine_ok_def)

text \<open>A call whose exception is handled.\<close>

lemma engine_ok_trans:
  assumes "engine_ok P Q s r" and "engine_ok P Q (fst r) r'"
  shows "engine_ok P Q s r'"
  using assms by (auto simp: engine_ok_def)

definition job_row :: "chat_store \<Rightarrow> string \<Rightarrow> chat_dispatch_job option" where
  "job_row s i = tbl_find cj_dispatch_id i (ch_jobs s)"

lemma apply_job_update_id [simp]: "cj_dispatch_id (apply_job_update u t j) = cj_dispatch_id j"
  by (simp add: apply_job_update_def)

lemma apply_job_update_key [simp]: "cj_conversation_key (apply_job_update u t j) = cj_conversation_key j"
  by (simp add: apply_job_update_def)

lemma apply_job_update_state [simp]: "cj_state (apply_job_update u t j) = new_or (ju_state u) (cj_state j)"
  by (simp add: apply_job_update_def)

lemma new_or_simps [simp]: "new_or None y = y" "new_or (Some x) y = x"
  by (simp_all add: new_or_def)

lemma update_job_row:
  "job_row (fst (update_job s i u t)) k = (if k = i then map_option (apply_job_update u t) (job_row s i) else job_row s k)"
  by (simp add: update_job_def job_row_def Let_def tbl_find_update)

lemma update_job_result: "update_job s i u t = (s', Inr j) \<Longrightarrow> job_row s' i = Some j"
  by (auto simp: update_job_def get_job_def job_row_def Let_def split: option.splits)

lemma put_job_result:
  assumes "put_job env s i u = (s', Inr j)"
  shows "job_row (es_store s') i = Some j" and "ju_state u = Some st \<Longrightarrow> cj_state j = st" and "cj_dispatch_id j = i"
proof -
  from assms obtain t where t: "update_job (es_store s) i u t = (es_store s', Inr j)"
    by (auto simp: put_job_def with_time_def on_store_def split: prod.splits)
  show row: "job_row (es_store s') i = Some j" using update_job_result [OF t] .
  have "job_row (es_store s') i = map_option (apply_job_update u t) (job_row (es_store s) i)"
    using update_job_row [of "es_store s" i u t i] t by simp
  with row show "ju_state u = Some st \<Longrightarrow> cj_state j = st" by auto
  from row show "cj_dispatch_id j = i" by (auto simp: job_row_def dest: tbl_find_SomeD)
qed

lemma to_state_state [simp]: "ju_state (to_state st) = Some st" "ju_state (fail_with st e) = Some st" "ju_state (at_page p u) = ju_state u"
  by (simp_all add: to_state_def fail_with_def at_page_def)

section \<open>The contract\<close>

text \<open>A job is dispatched only out of the states before a send, and only when it is the oldest of its conversation.\<close>

definition dispatchable :: "chat_dispatch_job \<Rightarrow> bool" where
  "dispatchable j \<longleftrightarrow> cj_state j \<notin> TERMINAL_JOB_STATES \<union> {CH_SUBMITTING, CH_SUBMITTED, CH_RECONCILE_REQUIRED}"

text \<open>
  \<open>P\<close> is kept by every write of the engine, \<open>Q\<close> holds of every effect. \<open>D\<close> are the jobs that may be
  opened and sent, \<open>R\<close> those that may be reconciled.
\<close>

definition same_page :: "chat_page \<Rightarrow> chat_page \<Rightarrow> bool" where
  "same_page p q \<longleftrightarrow> cp_page_id p = cp_page_id q \<and> cp_window_handle p = cp_window_handle q \<and> cp_browser_pid p = cp_browser_pid q"

locale engine_contract =
  fixes P :: "chat_store \<Rightarrow> bool" and Q :: "chat_effect \<Rightarrow> bool" and D R :: "string \<Rightarrow> bool" and cfg :: engine_config
  assumes page_edit: "P d \<Longrightarrow> (\<And>p. same_page (f p) p) \<Longrightarrow> P (fst (edit_page d i f))"
    and page_new: "P d \<Longrightarrow> P (fst (upsert_page d k x t))"
    and bind: "P d \<Longrightarrow> P (fst (bind_conversation d k url t))"
    and settle: "P d \<Longrightarrow> R i \<Longrightarrow> ju_state u \<in> Some ` {CH_SUBMITTED, CH_RECONCILE_REQUIRED, CH_ACKNOWLEDGED}
      \<Longrightarrow> P (fst (update_job d i u t))"
    and dispatch: "P d \<Longrightarrow> D i \<Longrightarrow> P (fst (update_job d i u t))"
    and opens: "P d \<Longrightarrow> D (cj_dispatch_id j) \<Longrightarrow> map_option cj_state (job_row d (cj_dispatch_id j)) = Some CH_OPENING
      \<Longrightarrow> int (owned_open_count d) < ec_max_windows cfg \<Longrightarrow> Q (Opens d j)"
    and sends: "P d \<Longrightarrow> D (cj_dispatch_id j) \<Longrightarrow> job_row d (cj_dispatch_id j) = Some j \<Longrightarrow> cj_state j = CH_SUBMITTING
      \<Longrightarrow> Q (Sends d j p)"
begin

lemmas page_ops = page_edit page_new bind

lemma url_page: "P d \<Longrightarrow> P (fst (update_page_url d i url t))"
  by (simp add: update_page_url_def page_edit same_page_def)

lemma open_page: "P d \<Longrightarrow> P (fst (mark_page_open d i t))"
  by (simp add: mark_page_open_def page_edit same_page_def)

lemma closed_page: "P d \<Longrightarrow> P (fst (mark_page_closed d i a e))"
  by (simp add: mark_page_closed_def page_edit same_page_def)

lemma idle_page: "P d \<Longrightarrow> P (fst (mark_page_idle d i c t))"
  by (simp add: mark_page_idle_def page_edit same_page_def Let_def split: sum.split)

lemmas store_ops = page_new bind url_page open_page closed_page idle_page

lemma engine_page_ok: "P (es_store s) \<Longrightarrow> engine_ok P Q s (engine_page env s j)"
  unfolding engine_page_def
  by (auto split: option.split intro!: engine_intros store_ops)

lemma recover_open_ok: "P (es_store s) \<Longrightarrow> D (cj_dispatch_id j) \<Longrightarrow> engine_ok P Q s (recover_open sha256 env s j)"
  unfolding recover_open_def
  by (auto split: option.split intro!: engine_intros dispatch)

lemma handle_open_ok:
  assumes "engine_ok P Q s r" and "D (cj_dispatch_id j)"
  shows "engine_ok P Q s (handle_open env j kind r)"
  using assms(1)
proof (rule engine_ok_trans)
  have "P (es_store (fst r))" using assms(1) by (simp add: engine_ok_def)
  with assms(2) show "engine_ok P Q (fst r) (handle_open env j kind r)"
    unfolding handle_open_def by (cases r) (auto split: sum.split intro!: engine_intros dispatch)
qed

lemma open_window_ok:
  assumes "P (es_store s)" and "D (cj_dispatch_id j)"
    and act: "\<And>s. P (es_store s) \<Longrightarrow> engine_ok P Q s (opener s)"
  shows "engine_ok P Q s (open_window cfg env s j kind opener)"
proof (cases "int (owned_open_count (es_store s)) \<ge> ec_max_windows cfg")
  case True
  with assms show ?thesis by (simp add: open_window_def engine_intros)
next
  case False
  let ?put = "put_job env s (cj_dispatch_id j) (to_state CH_OPENING)"
  have "engine_ok P Q s1 (handle_open env j kind (opener (effect s1 (\<lambda>d. Opens d j))))"
    if put: "?put = (s1, Inr r)" and P1: "P (es_store s1)" for s1 r
  proof (rule engine_ok_effect)
    have "owned_open_count (es_store s1) = owned_open_count (es_store s)"
      using put by (auto simp: put_job_def with_time_def on_store_def update_job_def Let_def owned_open_count_def split: prod.splits)
    with False put_job_result [OF put] P1 assms(2) show "Q (Opens (es_store s1) j)" by (intro opens) auto
    show "engine_ok P Q (effect s1 (\<lambda>d. Opens d j)) (handle_open env j kind (opener (effect s1 (\<lambda>d. Opens d j))))"
      using P1 assms(2) by (intro handle_open_ok act) simp_all
  qed
  with False assms show ?thesis unfolding open_window_def
    by (auto intro!: engine_intros dispatch)
qed

lemma acquire_identity_ok:
  "P (es_store s) \<Longrightarrow> D (cj_dispatch_id j) \<Longrightarrow> engine_ok P Q s (acquire_identity sha256 cfg env s j)"
  unfolding acquire_identity_def
  by (auto split: option.split intro!: recover_open_ok open_window_ok engine_intros)

lemma ensure_page_ok:
  "P (es_store s) \<Longrightarrow> D (cj_dispatch_id j) \<Longrightarrow> engine_ok P Q s (ensure_page sha256 cfg env s j)"
  unfolding ensure_page_def
  by (auto split: option.split intro!: engine_page_ok acquire_identity_ok engine_intros store_ops dispatch)

lemma record_send_ok: "P (es_store s) \<Longrightarrow> D (cj_dispatch_id j) \<Longrightarrow> engine_ok P Q s (record_send cfg env s j t r)"
  unfolding record_send_def by (intro engine_intros dispatch)

lemma handle_answer_ok:
  assumes "engine_ok P Q s r" and "D (cj_dispatch_id j)"
  shows "engine_ok P Q s (handle_answer cfg env j p t r)"
  using assms(1)
proof (rule engine_ok_trans)
  have "P (es_store (fst r))" using assms(1) by (simp add: engine_ok_def)
  with assms(2) show "engine_ok P Q (fst r) (handle_answer cfg env j p t r)"
    unfolding handle_answer_def
    by (cases r) (auto split: sum.split intro!: record_send_ok engine_intros store_ops dispatch)
qed

lemma submit_ok:
  assumes "P (es_store s)" and "D (cj_dispatch_id j)"
  shows "engine_ok P Q s (submit cfg env s j p)"
  unfolding submit_def
proof (rule engine_ok_time, rule engine_ok_bind)
  fix t w
  let ?s = "s\<lparr>es_world := w\<rparr>" and ?u = "at_page p ((to_state CH_SUBMITTING)\<lparr>ju_attempts := Some (cj_attempts j + 1)\<rparr>)"
  show "engine_ok P Q ?s (put_job env ?s (cj_dispatch_id j) ?u)" using assms by (auto intro!: engine_intros dispatch)
  fix s1 j1 assume put: "put_job env ?s (cj_dispatch_id j) ?u = (s1, Inr j1)" and P1: "P (es_store s1)"
  have j1: "cj_dispatch_id j1 = cj_dispatch_id j" "cj_state j1 = CH_SUBMITTING" "job_row (es_store s1) (cj_dispatch_id j1) = Some j1"
    using put_job_result [OF put] by (auto simp: at_page_def to_state_def)
  let ?s2 = "effect s1 (\<lambda>d. Sends d j1 p)"
  show "engine_ok P Q s1 (handle_answer cfg env j1 p t (ask ?s2
      (if present (cj_conversation_url j1) then ce_send_existing env j1 p else ce_send_new env j1 p)))"
  proof (rule engine_ok_effect)
    show "Q (Sends (es_store s1) j1 p)" using P1 assms(2) j1 by (intro sends) auto
  next
    show "engine_ok P Q ?s2 (handle_answer cfg env j1 p t (ask ?s2
        (if present (cj_conversation_url j1) then ce_send_existing env j1 p else ce_send_new env j1 p)))"
      using P1 assms(2) j1(1) by (intro handle_answer_ok engine_ok_ask) simp_all
  qed
qed

lemma settle_url_ok: "P (es_store s) \<Longrightarrow> R (cj_dispatch_id j) \<Longrightarrow> engine_ok P Q s (settle_url env s j p)"
  unfolding settle_url_def Let_def
  by (auto split: option.split intro!: engine_intros store_ops settle simp: to_state_def)

lemma settle_url_id:
  "settle_url env s j p = (s', Inr (Some (j', p'))) \<Longrightarrow> cj_dispatch_id j' = cj_dispatch_id j"
  unfolding settle_url_def Let_def
  by (auto simp: sbind_def with_time_def split: if_splits option.splits prod.splits sum.splits dest!: put_job_result(3))

lemma acknowledged_ok:
  assumes "P (es_store s)" and "R (cj_dispatch_id j)"
  shows "engine_ok P Q s (with_time env s (\<lambda>now s.
      sbind (put_job env s (cj_dispatch_id j) ((to_state CH_ACKNOWLEDGED)\<lparr>ju_acknowledged_at := Some now\<rparr>)) (\<lambda>s _.
      if has_pending_for_conversation (es_store s) (cj_conversation_key j) then (s, Inr ())
      else sbind (on_store s (\<lambda>d. mark_page_idle d (cp_page_id p) (cj_idle_close_s j) now)) (\<lambda>s _. (s, Inr ())))))"
  using assms by (auto intro!: engine_intros store_ops settle simp: to_state_def)

lemma reconcile_ok:
  assumes "P (es_store s)" and "R (cj_dispatch_id j)"
  shows "engine_ok P Q s (reconcile env s j)"
  unfolding reconcile_def
  using assms
  by (auto split: option.split prod.split intro!: engine_page_ok settle_url_ok acknowledged_ok engine_intros store_ops settle
      simp: fail_with_def to_state_def dest!: settle_url_id)

lemma close_due_ok:
  assumes "P (es_store s)" and "Q (Closes (es_store s) p t)"
  shows "engine_ok P Q s (close_due env s t p)"
proof (rule engine_ok_effect)
  let ?s = "effect s (\<lambda>d. Closes d p t)"
  show "Q (Closes (es_store s) p t)" by (rule assms(2))
  obtain s' r where r: "ask ?s (ce_close_page env p) = (s', r)" by fastforce
  with assms(1) have "engine_ok P Q ?s (s', r)" "P (es_store s')" using engine_ok_ask [of P ?s Q "ce_close_page env p"] ask_store [OF r] by simp_all
  moreover from this(2) have "engine_ok P Q s' (close_due env s t p)"
    unfolding close_due_def r by (auto split: sum.split intro!: engine_intros store_ops)
  ultimately show "engine_ok P Q ?s (close_due env s t p)" using engine_ok_trans by fastforce
qed

text \<open>The effect of the closing loop on one page: nothing, unless every condition of a close holds now.\<close>

lemma close_idle_page_ok:
  assumes "P (es_store s)"
    and "\<And>due. cp_owned p \<Longrightarrow> cp_state p = PG_IDLE \<Longrightarrow> \<not> has_pending_for_conversation (es_store s) (cp_conversation_key p)
      \<Longrightarrow> cp_close_after_at p = Some due \<Longrightarrow> due \<le> t \<Longrightarrow> Q (Closes (es_store s) p t)"
  shows "engine_ok P Q s (close_idle_page cfg env t p s)"
  unfolding close_idle_page_def using assms
  by (auto split: option.split intro!: close_due_ok engine_intros store_ops)

lemma dispatch_job_ok:
  assumes "P (es_store s)" and "D (cj_dispatch_id j)"
  shows "engine_ok P Q s (dispatch_job sha256 cfg env j s)"
proof -
  obtain s' r where r: "ensure_page sha256 cfg env s j = (s', r)" by fastforce
  have ok: "engine_ok P Q s (s', r)" using ensure_page_ok [OF assms] r by metis
  then have "P (es_store s')" by (simp add: engine_ok_def)
  then have "engine_ok P Q s' (dispatch_job sha256 cfg env j s)"
    unfolding dispatch_job_def r using assms(2)
    by (auto split: sum.split option.split intro!: submit_ok engine_intros dispatch
        simp: get_job_def dest!: tbl_find_SomeD split: option.splits)
  with ok show ?thesis using engine_ok_trans by fastforce
qed

lemma run_job_ok:
  assumes "P (es_store s)" and "R (cj_dispatch_id j)" and "dispatchable j \<Longrightarrow> D (cj_dispatch_id j)"
  shows "engine_ok P Q s (run_job sha256 cfg env j s)"
  unfolding run_job_def using assms
  by (auto simp: dispatchable_def get_job_def dest!: tbl_find_SomeD split: option.splits
      intro!: dispatch_job_ok reconcile_ok engine_intros settle)

end

text \<open>The whole pass, where the contract allows a close under the conditions of the closing loop.\<close>

locale closing_contract = engine_contract +
  assumes closes: "P d \<Longrightarrow> cp_owned p \<Longrightarrow> cp_state p = PG_IDLE \<Longrightarrow> \<not> has_pending_for_conversation d (cp_conversation_key p)
      \<Longrightarrow> cp_close_after_at p = Some due \<Longrightarrow> due \<le> t \<Longrightarrow> Q (Closes d p t)"
begin

lemma close_pages_ok: "P (es_store s) \<Longrightarrow> engine_ok P Q s (close_pages cfg env t ps s)"
proof (induction ps arbitrary: s)
  case (Cons p ps)
  then show ?case by (auto intro!: close_idle_page_ok closes engine_intros)
qed (simp add: engine_intros)

lemma close_idle_pages_ok: "P (es_store s) \<Longrightarrow> engine_ok P Q s (close_idle_pages cfg env s)"
  unfolding close_idle_pages_def by (intro engine_intros close_pages_ok) simp

end

section \<open>A sent job is never sent again\<close>

definition sealed :: "string \<Rightarrow> chat_store \<Rightarrow> bool" where
  "sealed i d \<longleftrightarrow> (\<exists>j. job_row d i = Some j \<and> \<not> dispatchable j)"

definition send_of :: "string \<Rightarrow> chat_effect \<Rightarrow> bool" where
  "send_of i e = (case e of Sends d j p \<Rightarrow> cj_dispatch_id j = i | _ \<Rightarrow> False)"

lemma page_ops_jobs [simp]:
  "ch_jobs (fst (edit_page d i f)) = ch_jobs d"
  "ch_jobs (fst (upsert_page d k x t)) = ch_jobs d"
  by (simp_all add: edit_page_def upsert_page_def Let_def)

text \<open>Binding a conversation only fills in missing URLs.\<close>

lemma bind_conversation_row:
  "\<exists>f. (\<forall>j. cj_dispatch_id (f j) = cj_dispatch_id j \<and> cj_conversation_key (f j) = cj_conversation_key j \<and> cj_state (f j) = cj_state j
      \<and> cj_dispatch_key (f j) = cj_dispatch_key j)
    \<and> ch_jobs (fst (bind_conversation d k url t)) = map f (ch_jobs d)"
  unfolding bind_conversation_def
  by (cases "find (\<lambda>c. cc_conversation_url c = Some url \<and> cc_conversation_key c \<noteq> k) (ch_conversations d)")
    (auto intro: exI [of _ id] exI [of _ "\<lambda>j. if cj_conversation_key j = k \<and> cj_conversation_url j = None
       then j\<lparr>cj_conversation_url := Some url, cj_updated_at := t\<rparr> else j"])

lemma tbl_find_map: "(\<And>r. key (f r) = key r) \<Longrightarrow> tbl_find key k (map f t) = map_option f (tbl_find key k t)"
  by (induction t) auto

lemma sealed_jobs: "sealed i d \<Longrightarrow> ch_jobs d' = ch_jobs d \<Longrightarrow> sealed i d'"
  by (simp add: sealed_def job_row_def)

lemma sealed_bind: "sealed i d \<Longrightarrow> sealed i (fst (bind_conversation d k url t))"
  using bind_conversation_row [of d k url t] by (auto simp: sealed_def job_row_def tbl_find_map dispatchable_def)

lemma sealed_update:
  "sealed i d \<Longrightarrow> k = i \<Longrightarrow> ju_state u \<in> Some ` {CH_SUBMITTED, CH_RECONCILE_REQUIRED, CH_ACKNOWLEDGED} \<Longrightarrow> sealed i (fst (update_job d k u t))"
  "sealed i d \<Longrightarrow> k \<noteq> i \<Longrightarrow> sealed i (fst (update_job d k u t))"
  by (auto simp: sealed_def update_job_row dispatchable_def TERMINAL_JOB_STATES_def)

fun effect_store_of :: "chat_effect \<Rightarrow> chat_store" where
  "effect_store_of (Opens d j) = d"
| "effect_store_of (Sends d j p) = d"
| "effect_store_of (Closes d p t) = d"

definition quiet_on :: "string \<Rightarrow> chat_effect \<Rightarrow> bool" where
  "quiet_on i e \<longleftrightarrow> \<not> send_of i e \<and> sealed i (effect_store_of e)"

interpretation sealed: closing_contract "sealed i" "quiet_on i" "\<lambda>k. k \<noteq> i" "\<lambda>k. True" cfg for i cfg
proof unfold_locales
  fix d k t and u :: job_update assume "sealed i d" "ju_state u \<in> Some ` {CH_SUBMITTED, CH_RECONCILE_REQUIRED, CH_ACKNOWLEDGED}"
  then show "sealed i (fst (update_job d k u t))" using sealed_update by (cases "k = i") blast+
qed (auto intro: sealed_jobs sealed_bind sealed_update simp: quiet_on_def send_of_def)

lemma run_jobs_sealed:
  "sealed i (es_store s) \<Longrightarrow> list_all (\<lambda>j. cj_dispatch_id j = i \<longrightarrow> \<not> dispatchable j) js
    \<Longrightarrow> engine_ok (sealed i) (quiet_on i) s (run_jobs sha256 cfg env js s)"
proof (induction js arbitrary: s)
  case (Cons j js)
  then show ?case by (auto intro!: engine_intros sealed.run_job_ok)
qed (simp add: engine_intros)

text \<open>The rows read at the start of a pass are rows of the store.\<close>

lemma eligible_row:
  assumes "tbl_ok cj_dispatch_id (ch_jobs d)" and "j \<in> set (eligible_jobs d t n)"
  shows "job_row d (cj_dispatch_id j) = Some j"
  using assms by (auto simp: eligible_jobs_def job_row_def tbl_find_Some_iff dest!: in_set_takeD)

lemma eligible_sealed:
  assumes "tbl_ok cj_dispatch_id (ch_jobs d)" and "sealed i d"
  shows "list_all (\<lambda>j. cj_dispatch_id j = i \<longrightarrow> \<not> dispatchable j) (eligible_jobs d t n)"
  using assms eligible_row by (fastforce simp: list_all_iff sealed_def)

lemma run_once_sealed:
  assumes "sealed i (es_store s)" and "tbl_ok cj_dispatch_id (ch_jobs (es_store s))"
  shows "engine_ok (sealed i) (quiet_on i) s (run_once sha256 cfg env s)"
  unfolding run_once_def
  using assms
  by (auto intro!: engine_intros run_jobs_sealed sealed.close_idle_pages_ok eligible_sealed)

section \<open>The tables are well formed\<close>

definition chat_job_ok :: "chat_conversation list \<Rightarrow> chat_dispatch_job \<Rightarrow> bool" where
  "chat_job_ok cs j \<longleftrightarrow> strip (cj_prompt_text j) \<noteq> [] \<and> 1 \<le> cj_max_windows j \<and> cj_max_windows j \<le> 16 \<and> 1 \<le> cj_idle_close_s j
     \<and> cj_conversation_key j \<in> cc_conversation_key ` set cs"

definition chat_page_ok :: "chat_page \<Rightarrow> bool" where
  "chat_page_ok p \<longleftrightarrow> cp_page_id p = ''hwnd:'' @ str_int (cp_window_handle p) @ '':pid:'' @ str_int (cp_browser_pid p)"

definition chat_store_ok :: "chat_store \<Rightarrow> bool" where
  "chat_store_ok d \<longleftrightarrow> tbl_ok cj_dispatch_id (ch_jobs d) \<and> distinct (List.map_filter cj_dispatch_key (ch_jobs d))
     \<and> tbl_ok cc_conversation_key (ch_conversations d) \<and> urls_unique (ch_conversations d) \<and> tbl_ok cp_page_id (ch_pages d)
     \<and> list_all (chat_job_ok (ch_conversations d)) (ch_jobs d) \<and> list_all chat_page_ok (ch_pages d)"

lemma map_filter_cong_map: "map f xs = map f ys \<Longrightarrow> List.map_filter f xs = List.map_filter f ys"
proof -
  have "List.map_filter f zs = map the (filter (\<lambda>x. x \<noteq> None) (map f zs))" for zs
    by (simp add: map_filter_def filter_map o_def)
  then show "map f xs = map f ys \<Longrightarrow> List.map_filter f xs = List.map_filter f ys" by metis
qed

lemma set_map_filter: "y \<in> set (List.map_filter f xs) \<longleftrightarrow> (\<exists>x\<in>set xs. f x = Some y)"
  by (force simp: map_filter_def)

lemma map_filter_snoc: "List.map_filter f (xs @ [x]) = List.map_filter f xs @ (case f x of None \<Rightarrow> [] | Some y \<Rightarrow> [y])"
  by (simp add: map_filter_def split: option.split)

lemma store_ok_update:
  assumes "chat_store_ok d"
  shows "chat_store_ok (fst (update_job d i u t))"
proof -
  let ?js = "tbl_update cj_dispatch_id i (apply_job_update u t) (ch_jobs d)"
  have "map cj_dispatch_key ?js = map cj_dispatch_key (ch_jobs d)" by (simp add: tbl_update_def apply_job_update_def)
  then have "List.map_filter cj_dispatch_key ?js = List.map_filter cj_dispatch_key (ch_jobs d)" by (rule map_filter_cong_map)
  with assms show ?thesis
    by (auto simp: chat_store_ok_def update_job_def Let_def tbl_ok_update list_all_iff set_tbl_update
        chat_job_ok_def apply_job_update_def)
qed

lemma store_ok_page_edit:
  assumes "chat_store_ok d" and "\<And>p. same_page (f p) p"
  shows "chat_store_ok (fst (edit_page d i f))"
  using assms by (auto simp: chat_store_ok_def edit_page_def Let_def tbl_ok_update list_all_iff set_tbl_update
      chat_page_ok_def same_page_def)

lemma store_ok_page_new: "chat_store_ok d \<Longrightarrow> chat_store_ok (fst (upsert_page d k x t))"
  by (auto simp: chat_store_ok_def upsert_page_def Let_def tbl_ok_update tbl_ok_snoc list_all_iff set_tbl_update
      chat_page_ok_def page_id_of_def)

lemma image_keys_update: "(\<And>r. key r = k \<Longrightarrow> key (f r) = k) \<Longrightarrow> key ` set (tbl_update key k f t) = key ` set t"
  by (metis keys_update list.set_map)

lemma urls_unique_bind:
  assumes "tbl_ok cc_conversation_key cs" and "urls_unique cs"
    and "\<forall>c\<in>set cs. cc_conversation_url c = Some url \<longrightarrow> cc_conversation_key c = k"
  shows "urls_unique (tbl_update cc_conversation_key k (\<lambda>c. c\<lparr>cc_conversation_url := Some url, cc_updated_at := t\<rparr>) cs)"
  using assms unfolding urls_unique_def tbl_update_def
proof (induction cs)
  case (Cons c cs)
  have other: "map (\<lambda>r. if cc_conversation_key r = k then r\<lparr>cc_conversation_url := Some url, cc_updated_at := t\<rparr> else r) cs = cs"
    if "cc_conversation_key c = k"
    using Cons.prems(1) that by (intro map_idI) (force simp: tbl_ok_def image_iff)
  show ?case
  proof (cases "cc_conversation_key c = k")
    case True
    with Cons.prems have "\<forall>x\<in>set cs. cc_conversation_url x \<noteq> Some url" by (force simp: tbl_ok_def image_iff)
    with Cons.prems True show ?thesis
      by (auto simp: other map_filter_simps set_map_filter split: option.splits)
  next
    case False
    have ih: "distinct (List.map_filter cc_conversation_url
        (map (\<lambda>r. if cc_conversation_key r = k then r\<lparr>cc_conversation_url := Some url, cc_updated_at := t\<rparr> else r) cs))"
      using Cons by (auto simp: tbl_ok_def map_filter_simps split: option.splits)
    show ?thesis
    proof (cases "cc_conversation_url c")
      case None
      with False ih show ?thesis by (simp add: map_filter_simps)
    next
      case (Some x)
      with False Cons.prems have "x \<noteq> url" "x \<notin> set (List.map_filter cc_conversation_url cs)" by (auto simp: map_filter_simps)
      with False Some ih show ?thesis by (auto simp: map_filter_simps set_map_filter split: if_splits)
    qed
  qed
qed simp

lemma store_ok_bind:
  assumes "chat_store_ok d"
  shows "chat_store_ok (fst (bind_conversation d k url t))"
proof (cases "find (\<lambda>c. cc_conversation_url c = Some url \<and> cc_conversation_key c \<noteq> k) (ch_conversations d)")
  case None
  let ?js = "map (\<lambda>j. if cj_conversation_key j = k \<and> cj_conversation_url j = None
               then j\<lparr>cj_conversation_url := Some url, cj_updated_at := t\<rparr> else j) (ch_jobs d)"
  have "map cj_dispatch_key ?js = map cj_dispatch_key (ch_jobs d)" "map cj_dispatch_id ?js = map cj_dispatch_id (ch_jobs d)" by simp_all
  then have "List.map_filter cj_dispatch_key ?js = List.map_filter cj_dispatch_key (ch_jobs d)" "tbl_ok cj_dispatch_id ?js = tbl_ok cj_dispatch_id (ch_jobs d)"
    by (auto simp only: tbl_ok_def intro: map_filter_cong_map)
  moreover have "\<forall>c\<in>set (ch_conversations d). cc_conversation_url c = Some url \<longrightarrow> cc_conversation_key c = k"
    using None by (auto simp: find_None_iff)
  moreover have "cc_conversation_key ` set (tbl_update cc_conversation_key k
      (\<lambda>c. c\<lparr>cc_conversation_url := Some url, cc_updated_at := t\<rparr>) (ch_conversations d)) = cc_conversation_key ` set (ch_conversations d)"
    by (simp add: image_keys_update)
  ultimately show ?thesis
    using assms None urls_unique_bind [of "ch_conversations d" url k t]
    by (auto simp: bind_conversation_def chat_store_ok_def tbl_ok_update list_all_iff chat_job_ok_def)
qed (use assms in \<open>simp add: bind_conversation_def\<close>)

text \<open>What a successful enqueue did: it found the job of the dispatch key, or wrote a new one.\<close>

lemma enqueue_cases:
  assumes "enqueue sha256 d q f i n t = (d', Inr j)"
  obtains (found) "d' = d" "present (cq_dispatch_key (normal_chat_request q))" "j \<in> set (ch_jobs d)"
      "cj_dispatch_key j = cq_dispatch_key (normal_chat_request q)"
      "same_dispatch sha256 (normal_chat_request q) j = Inr True"
  | (written) "write_dispatch sha256 d (normal_chat_request q) f i n t = Inr (d', j)"
      "check_chat_request (normal_chat_request q) = Inr ()"
proof -
  let ?q = "normal_chat_request q"
  from assms have checked: "check_chat_request ?q = Inr ()"
    by (auto simp: enqueue_def Let_def transaction_def split: sum.splits prod.splits)
  show thesis
  proof (cases "if present (cq_dispatch_key ?q) then find (\<lambda>j. cj_dispatch_key j = cq_dispatch_key ?q) (ch_jobs d) else None")
    case None
    with assms checked have "write_dispatch sha256 d ?q f i n t = Inr (d', j)"
      by (simp add: enqueue_def Let_def transaction_def split: sum.splits prod.splits)
    with checked show thesis by (rule written [rotated])
  next
    case (Some j')
    with assms checked have same: "same_dispatch sha256 ?q j' = Inr True" "d' = d" "j' = j"
      by (auto simp: enqueue_def Let_def transaction_def split: sum.splits prod.splits if_splits)
    from Some have "j' \<in> set (ch_jobs d)" "cj_dispatch_key j' = cq_dispatch_key ?q" "present (cq_dispatch_key ?q)"
      by (auto simp: find_Some_iff split: if_splits)
    with same show thesis by (intro found) auto
  qed
qed

lemma write_dispatch_effect:
  assumes "write_dispatch sha256 d q f i n t = Inr (d', j)"
  shows "upsert_conversation (ch_conversations d) (cj_conversation_key j) (cj_conversation_url j) (cj_project_url j) t = Inr (ch_conversations d')"
    and "insert_job (ch_jobs d) j = Inr (ch_jobs d')" and "ch_pages d' = ch_pages d" and "cj_state j = CH_QUEUED"
    and "cj_prompt_text j = cq_prompt q" and "cj_prompt_sha256 j = sha256 (cq_prompt q)" and "cj_dispatch_key j = cq_dispatch_key q"
    and "cj_max_windows j = cq_max_windows q" and "cj_idle_close_s j = cq_idle_close_s q" and "cj_conversation_key j = chat_key q f"
  using assms by (auto simp: write_dispatch_def Let_def)

lemma upsert_conversation_ok:
  assumes "upsert_conversation cs k url p t = Inr cs'" and "tbl_ok cc_conversation_key cs"
  shows "tbl_ok cc_conversation_key cs'" and "urls_unique cs'" and "insert k (cc_conversation_key ` set cs) = cc_conversation_key ` set cs'"
proof -
  show "tbl_ok cc_conversation_key cs'" "urls_unique cs'"
    using assms by (auto simp: upsert_conversation_def Let_def tbl_ok_update tbl_ok_snoc split: if_splits)
  show "insert k (cc_conversation_key ` set cs) = cc_conversation_key ` set cs'"
  proof (cases "tbl_find cc_conversation_key k cs = None")
    case True
    with assms(1) show ?thesis by (auto simp: upsert_conversation_def Let_def)
  next
    case False
    with assms(1) have "cc_conversation_key ` set cs' = cc_conversation_key ` set cs"
      by (auto simp only: upsert_conversation_def Let_def rbind_Inr_iff guard_Inr_iff if_False sum.inject
          intro!: image_keys_update) simp
    with False show ?thesis by (auto simp: tbl_find_None_iff)
  qed
qed

lemma insert_job_ok:
  assumes "insert_job js j = Inr js'"
  shows "js' = js @ [j]" and "cj_dispatch_id j \<notin> cj_dispatch_id ` set js"
    and "\<And>x k. cj_dispatch_key j = Some k \<Longrightarrow> x \<in> set js \<Longrightarrow> cj_dispatch_key x \<noteq> Some k"
  using assms by (auto simp: insert_job_def image_iff split: if_splits)

lemma store_ok_enqueue:
  assumes ok: "chat_store_ok d"
  shows "chat_store_ok (fst (enqueue sha256 d q f i n t))"
proof (cases "enqueue sha256 d q f i n t")
  case (Pair d' r)
  show ?thesis
  proof (cases r)
    case (Inl e)
    with Pair have "d' = d" by (auto simp: enqueue_def Let_def transaction_def split: sum.splits prod.splits)
    with ok Pair show ?thesis by simp
  next
    case (Inr j)
    with Pair have "enqueue sha256 d q f i n t = (d', Inr j)" by simp
    then show ?thesis
    proof (cases rule: enqueue_cases)
      case found
      with ok Pair show ?thesis by simp
    next
      case written
      note w = write_dispatch_effect [OF written(1)] and u = upsert_conversation_ok [OF write_dispatch_effect(1) [OF written(1)]]
        and n = insert_job_ok [OF write_dispatch_effect(2) [OF written(1)]]
      have "strip (cj_prompt_text j) \<noteq> []" "1 \<le> cj_max_windows j" "cj_max_windows j \<le> 16" "1 \<le> cj_idle_close_s j"
        using written(2) w by (auto simp: check_chat_request_def normal_chat_request_def)
      with ok u n w(3) Pair show ?thesis
        by (auto simp: chat_store_ok_def tbl_ok_snoc tbl_find_None_iff map_filter_snoc set_map_filter list_all_iff chat_job_ok_def
            image_iff split: option.split)
    qed
  qed
qed

interpretation wf: closing_contract chat_store_ok "\<lambda>e. chat_store_ok (effect_store_of e)" "\<lambda>i. True" "\<lambda>i. True" cfg for cfg
  by unfold_locales (simp_all add: store_ok_page_edit store_ok_page_new store_ok_bind store_ok_update)

lemma run_jobs_wf:
  "chat_store_ok (es_store s) \<Longrightarrow> engine_ok chat_store_ok (\<lambda>e. chat_store_ok (effect_store_of e)) s (run_jobs sha256 cfg env js s)"
proof (induction js arbitrary: s)
  case (Cons j js)
  then show ?case by (auto intro!: engine_intros wf.run_job_ok)
qed (simp add: engine_intros)

lemma run_once_wf:
  "chat_store_ok (es_store s) \<Longrightarrow> engine_ok chat_store_ok (\<lambda>e. chat_store_ok (effect_store_of e)) s (run_once sha256 cfg env s)"
  unfolding run_once_def by (intro engine_intros run_jobs_wf wf.close_idle_pages_ok) simp_all

section \<open>Every effect is authorised\<close>

text \<open>
  A window is opened for a job recorded as opening, below the limit of owned windows; a prompt is sent for
  the very row recorded as submitting; both only for the oldest unfinished job of its conversation. A window is
  closed only for a row of the store that records it as one of the dispatcher, idle past its deadline, and
  without a pending job of its conversation.
\<close>

definition authorised :: "engine_config \<Rightarrow> chat_effect \<Rightarrow> bool" where
  "authorised cfg e = (case e of
     Opens d j \<Rightarrow> int (owned_open_count d) < ec_max_windows cfg
       \<and> (case job_row d (cj_dispatch_id j) of None \<Rightarrow> False
          | Some r \<Rightarrow> cj_state r = CH_OPENING \<and> \<not> has_older_unfinished d r)
   | Sends d j p \<Rightarrow> job_row d (cj_dispatch_id j) = Some j \<and> cj_state j = CH_SUBMITTING \<and> \<not> has_older_unfinished d j
   | Closes d p t \<Rightarrow> p \<in> set (ch_pages d) \<and> cp_owned p \<and> cp_state p = PG_IDLE \<and> \<not> has_pending_for_conversation d (cp_conversation_key p)
       \<and> (case cp_close_after_at p of None \<Rightarrow> False | Some due \<Rightarrow> due \<le> t))"

definition job_keys :: "chat_store \<Rightarrow> (string \<times> string) list" where
  "job_keys d = map (\<lambda>j. (cj_dispatch_id j, cj_conversation_key j)) (ch_jobs d)"

definition first_in_line :: "(string \<times> string) list \<Rightarrow> chat_dispatch_job \<Rightarrow> chat_store \<Rightarrow> bool" where
  "first_in_line K j d \<longleftrightarrow> distinct (map fst K) \<and> (cj_dispatch_id j, cj_conversation_key j) \<in> set K \<and> job_keys d = K
     \<and> \<not> has_older_unfinished d j"

lemma takeWhile_map_same: "(\<And>x. key (f x) = key x) \<Longrightarrow> takeWhile (\<lambda>x. key x \<noteq> i) (map f xs) = map f (takeWhile (\<lambda>x. key x \<noteq> i) xs)"
  by (induction xs) auto

lemma older_jobs_update: "older_jobs (fst (update_job d i u t)) i = older_jobs d i"
proof -
  have "takeWhile (\<lambda>j. cj_dispatch_id j \<noteq> i) (tbl_update cj_dispatch_id i f xs) = takeWhile (\<lambda>j. cj_dispatch_id j \<noteq> i) xs"
    if "\<And>r. cj_dispatch_id (f r) = cj_dispatch_id r" for f xs
    using that by (induction xs) (auto simp: tbl_update_def)
  from this [of "apply_job_update u t" "ch_jobs d"] show ?thesis
    by (simp add: older_jobs_def update_job_def Let_def image_keys_update)
qed

lemma older_jobs_bind:
  "has_older_unfinished (fst (bind_conversation d k url t)) j = has_older_unfinished d j"
proof -
  obtain f where f: "\<And>j. cj_dispatch_id (f j) = cj_dispatch_id j" "\<And>j. cj_conversation_key (f j) = cj_conversation_key j"
      "\<And>j. cj_state (f j) = cj_state j" and jobs: "ch_jobs (fst (bind_conversation d k url t)) = map f (ch_jobs d)"
    using bind_conversation_row by blast
  have "cj_dispatch_id ` f ` A = cj_dispatch_id ` A" for A using f(1) by (simp add: image_image)
  with jobs f show ?thesis
    by (auto simp: has_older_unfinished_def older_jobs_def list_ex_iff takeWhile_map_same [of cj_dispatch_id f] simp del: takeWhile_map)
qed

lemma first_in_line_jobs: "first_in_line K j d \<Longrightarrow> ch_jobs d' = ch_jobs d \<Longrightarrow> first_in_line K j d'"
  by (auto simp: first_in_line_def job_keys_def has_older_unfinished_def older_jobs_def)

lemma job_keys_update [simp]: "job_keys (fst (update_job d i u t)) = job_keys d"
  by (simp add: job_keys_def update_job_def Let_def tbl_update_def)

lemma job_keys_bind [simp]: "job_keys (fst (bind_conversation d k url t)) = job_keys d"
  using bind_conversation_row [of d k url t] by (auto simp: job_keys_def)

lemma first_in_line_update: "first_in_line K j d \<Longrightarrow> first_in_line K j (fst (update_job d (cj_dispatch_id j) u t))"
  by (simp add: first_in_line_def has_older_unfinished_def older_jobs_update)

lemma first_in_line_bind: "first_in_line K j d \<Longrightarrow> first_in_line K j (fst (bind_conversation d k url t))"
  by (simp add: first_in_line_def older_jobs_bind)

text \<open>The row of a job that is first in line is first in line itself.\<close>

lemma first_in_line_row:
  assumes "first_in_line K j d" and "job_row d (cj_dispatch_id j) = Some r"
  shows "\<not> has_older_unfinished d r"
proof -
  have r: "r \<in> set (ch_jobs d)" "cj_dispatch_id r = cj_dispatch_id j"
    using assms(2) by (auto simp: job_row_def dest: tbl_find_SomeD)
  from r(1) assms(1) have "(cj_dispatch_id r, cj_conversation_key r) \<in> set K"
    by (force simp: first_in_line_def job_keys_def)
  with assms(1) r(2) have "cj_conversation_key r = cj_conversation_key j"
    by (auto simp: first_in_line_def intro: eq_key_imp_eq_value)
  with assms(1) r(2) show ?thesis by (simp add: first_in_line_def has_older_unfinished_def)
qed

interpretation line: engine_contract "first_in_line K j" "authorised cfg" "\<lambda>i. i = cj_dispatch_id j" "\<lambda>i. i = cj_dispatch_id j" cfg for K j cfg
  by unfold_locales
    (auto intro: first_in_line_jobs first_in_line_bind first_in_line_update simp: authorised_def
      dest: first_in_line_row split: option.split)

interpretation closing: engine_contract "\<lambda>d. True" "authorised cfg" "\<lambda>i. False" "\<lambda>i. False" cfg for cfg
  by unfold_locales (auto simp: authorised_def)

text \<open>The closing loop works on rows of the store: closing one page leaves the rows of the others.\<close>

lemma page_ops_rows:
  assumes "q \<in> set (ch_pages d)" and "cp_page_id q \<noteq> i"
  shows "q \<in> set (ch_pages (fst (mark_page_idle d i c t)))" and "q \<in> set (ch_pages (fst (mark_page_closed d i a e)))"
proof -
  have edit: "q \<in> set (ch_pages (fst (edit_page d i f)))" for f
    using assms by (simp add: edit_page_def Let_def set_tbl_update)
  then show "q \<in> set (ch_pages (fst (mark_page_closed d i a e)))" by (simp add: mark_page_closed_def)
  show "q \<in> set (ch_pages (fst (mark_page_idle d i c t)))"
    using assms edit by (simp add: mark_page_idle_def Let_def split: sum.split)
qed

lemma fst_sbind_end: "fst (sbind r (\<lambda>s _. (s, Inr y))) = fst r"
  by (cases r; cases "snd r") auto

lemma on_store_store: "es_store (fst (on_store s g)) = fst (g (es_store s))"
  by (simp add: on_store_def split: prod.split)

lemma close_idle_page_rows:
  assumes "q \<in> set (ch_pages (es_store s))" and "cp_page_id q \<noteq> cp_page_id p"
  shows "q \<in> set (ch_pages (es_store (fst (close_idle_page cfg env t p s))))"
proof -
  obtain s' r where r: "ask (effect s (\<lambda>d. Closes d p t)) (ce_close_page env p) = (s', r)" by fastforce
  then have "q \<in> set (ch_pages (es_store s'))" using assms(1) ask_store by fastforce
  with r assms(2) have "q \<in> set (ch_pages (es_store (fst (close_due env s t p))))"
    by (cases r) (simp_all add: close_due_def fst_sbind_end on_store_store page_ops_rows)
  with assms show ?thesis
    by (simp add: close_idle_page_def fst_sbind_end on_store_store page_ops_rows split: option.split)
qed

lemma close_pages_authorised:
  "set ps \<subseteq> set (ch_pages (es_store s)) \<Longrightarrow> distinct (map cp_page_id ps)
    \<Longrightarrow> engine_ok (\<lambda>d. True) (authorised cfg) s (close_pages cfg env t ps s)"
proof (induction ps arbitrary: s)
  case (Cons p ps)
  have "engine_ok (\<lambda>d. True) (authorised cfg) s (close_idle_page cfg env t p s)"
    using Cons.prems by (intro closing.close_idle_page_ok) (auto simp: authorised_def)
  moreover have "engine_ok (\<lambda>d. True) (authorised cfg) s' (close_pages cfg env t ps s')"
    if "close_idle_page cfg env t p s = (s', Inr x)" for s' x
  proof (rule Cons.IH)
    show "set ps \<subseteq> set (ch_pages (es_store s'))"
      using Cons.prems close_idle_page_rows [of _ s p cfg env t] that by (force simp: image_iff)
  qed (use Cons.prems in simp)
  ultimately show ?case unfolding close_pages.simps by (rule engine_ok_bind)
qed (simp add: engine_intros)

lemma engine_ok_combine: "engine_ok P Q s r \<Longrightarrow> engine_ok P' Q' s r \<Longrightarrow> engine_ok P Q' s r"
  by (simp add: engine_ok_def)

lemma close_idle_pages_authorised:
  assumes "chat_store_ok (es_store s)"
  shows "engine_ok chat_store_ok (authorised cfg) s (close_idle_pages cfg env s)"
proof (rule engine_ok_combine [OF wf.close_idle_pages_ok [OF assms]])
  have "distinct (map cp_page_id (list_pages (es_store s)))"
    using assms by (simp add: list_pages_def chat_store_ok_def tbl_ok_def distinct_map inj_on_def)
  then show "engine_ok (\<lambda>d. True) (authorised cfg) s (close_idle_pages cfg env s)"
    unfolding close_idle_pages_def by (intro engine_ok_time close_pages_authorised) (auto simp: list_pages_def)
qed

lemma engine_ok_mono: "engine_ok P Q s r \<Longrightarrow> (\<And>d. P d \<Longrightarrow> P' d) \<Longrightarrow> engine_ok P' Q s r"
  by (auto simp: engine_ok_def)

lemma run_job_authorised:
  assumes "job_keys (es_store s) = K" and "distinct (map fst K)" and "(cj_dispatch_id j, cj_conversation_key j) \<in> set K"
  shows "engine_ok (\<lambda>d. job_keys d = K) (authorised cfg) s (run_job sha256 cfg env j s)"
proof (cases "has_older_unfinished (es_store s) j")
  case True
  with assms show ?thesis by (simp add: run_job_def engine_intros)
next
  case False
  with assms have "first_in_line K j (es_store s)" by (simp add: first_in_line_def)
  then have "engine_ok (first_in_line K j) (authorised cfg) s (run_job sha256 cfg env j s)"
    by (rule line.run_job_ok) simp_all
  then show ?thesis by (rule engine_ok_mono) (simp add: first_in_line_def)
qed

lemma run_jobs_authorised:
  "job_keys (es_store s) = K \<Longrightarrow> distinct (map fst K) \<Longrightarrow> list_all (\<lambda>j. (cj_dispatch_id j, cj_conversation_key j) \<in> set K) js
    \<Longrightarrow> engine_ok (\<lambda>d. job_keys d = K) (authorised cfg) s (run_jobs sha256 cfg env js s)"
proof (induction js arbitrary: s)
  case (Cons j js)
  then show ?case by (auto intro!: engine_intros run_job_authorised)
qed (simp add: engine_intros)

lemma run_once_authorised:
  assumes "chat_store_ok (es_store s)"
  shows "engine_ok chat_store_ok (authorised cfg) s (run_once sha256 cfg env s)"
proof -
  let ?K = "job_keys (es_store s)"
  have "distinct (map fst ?K)" using assms by (simp add: chat_store_ok_def tbl_ok_def job_keys_def o_def)
  moreover have "list_all (\<lambda>j. (cj_dispatch_id j, cj_conversation_key j) \<in> set ?K) (eligible_jobs (es_store s) t n)" for t n
    by (auto simp: list_all_iff eligible_jobs_def job_keys_def dest!: in_set_takeD)
  ultimately have "engine_ok chat_store_ok (authorised cfg) s' (run_jobs sha256 cfg env (eligible_jobs (es_store s') t n) s')"
    if "es_store s' = es_store s" for s' :: "'a engine_state" and t n
    using that assms by (intro engine_ok_combine [OF run_jobs_wf run_jobs_authorised]) simp_all
  then show ?thesis unfolding run_once_def by (intro engine_intros close_idle_pages_authorised) simp_all
qed

section \<open>Any sequence of operations\<close>

text \<open>
  The operations on the database of the queue by any processes. \<open>Dies\<close> is a pass whose process is killed at
  its \<open>n\<close>-th effect, during the call of the browser.
\<close>

datatype 'w chat_op =
    Enqueue chat_request string string string timestamp
  | Cancel string timestamp
  | Acquire string int int real real timestamp
  | Heartbeat string real timestamp
  | Release string
  | Pass engine_config "'w chat_env" 'w
  | Dies engine_config "'w chat_env" 'w nat

definition pass :: "(string \<Rightarrow> string) \<Rightarrow> engine_config \<Rightarrow> 'w chat_env \<Rightarrow> 'w \<Rightarrow> chat_store \<Rightarrow> chat_store \<times> chat_effect list" where
  "pass sha256 cfg env w d =
     (let s = fst (run_once sha256 cfg env \<lparr>es_store = d, es_world = w, es_effects = []\<rparr>) in (es_store s, es_effects s))"

fun run_chat_op :: "(string \<Rightarrow> string) \<Rightarrow> (int \<Rightarrow> bool) \<Rightarrow> 'w chat_op \<Rightarrow> chat_store \<Rightarrow> chat_store \<times> chat_effect list" where
  "run_chat_op sha256 alive (Enqueue q f i n t) d = (fst (enqueue sha256 d q f i n t), [])"
| "run_chat_op sha256 alive (Cancel i t) d = (fst (cancel d i t), [])"
| "run_chat_op sha256 alive (Acquire k pid m c ttl t) d = (fst (acquire_lease alive d k pid m c ttl t), [])"
| "run_chat_op sha256 alive (Heartbeat k ttl t) d = (fst (heartbeat_lease d k ttl t), [])"
| "run_chat_op sha256 alive (Release k) d = (release_lease d k, [])"
| "run_chat_op sha256 alive (Pass cfg env w) d = pass sha256 cfg env w d"
| "run_chat_op sha256 alive (Dies cfg env w n) d =
     (let (d', es) = pass sha256 cfg env w d in
      if n < length es then (effect_store_of (es ! n), take (Suc n) es) else (d', es))"

fun run_chat_ops :: "(string \<Rightarrow> string) \<Rightarrow> (int \<Rightarrow> bool) \<Rightarrow> 'w chat_op list \<Rightarrow> chat_store \<Rightarrow> chat_store \<times> chat_effect list" where
  "run_chat_ops sha256 alive [] d = (d, [])"
| "run_chat_ops sha256 alive (p # ps) d =
     (let (d1, es1) = run_chat_op sha256 alive p d; (d2, es2) = run_chat_ops sha256 alive ps d1 in (d2, es1 @ es2))"

definition empty_queue :: chat_store where
  "empty_queue = \<lparr>ch_conversations = [], ch_jobs = [], ch_pages = [], ch_lease = None\<rparr>"

lemma engine_ok_pass:
  assumes "engine_ok P Q \<lparr>es_store = d, es_world = w, es_effects = []\<rparr> (run_once sha256 cfg env \<lparr>es_store = d, es_world = w, es_effects = []\<rparr>)"
  shows "P (fst (pass sha256 cfg env w d)) \<and> list_all Q (snd (pass sha256 cfg env w d))"
  using assms by (simp add: engine_ok_def pass_def Let_def)

lemma lease_ops_jobs:
  "ch_jobs (fst (acquire_lease alive d k pid m c ttl t)) = ch_jobs d" "ch_jobs (fst (heartbeat_lease d k ttl t)) = ch_jobs d"
  "ch_jobs (release_lease d k) = ch_jobs d"
  by (simp_all add: acquire_lease_def heartbeat_lease_def release_lease_def split: option.split)

lemma cancel_result: "fst (cancel d k t) = d \<or> (fst (cancel d k t) = fst (update_job d k (to_state CH_CANCELLED) t)
    \<and> (\<exists>j. job_row d k = Some j \<and> dispatchable j))"
  by (auto simp: cancel_def get_job_def job_row_def dispatchable_def split: option.split)

lemma cancel_sealed:
  assumes "sealed i d"
  shows "sealed i (fst (cancel d k t))"
  using cancel_result [of d k t]
proof
  assume k: "fst (cancel d k t) = fst (update_job d k (to_state CH_CANCELLED) t) \<and> (\<exists>j. job_row d k = Some j \<and> dispatchable j)"
  with assms have "k \<noteq> i" by (auto simp: sealed_def)
  with k assms sealed_update(2) show ?thesis by simp
qed (use assms in simp)

lemma enqueue_row:
  assumes "job_row d i = Some j"
  shows "job_row (fst (enqueue sha256 d q f k n t)) i = Some j"
proof (cases "enqueue sha256 d q f k n t")
  case (Pair d' r)
  show ?thesis
  proof (cases r)
    case (Inl e)
    with Pair have "d' = d" by (auto simp: enqueue_def Let_def transaction_def split: sum.splits prod.splits)
    with assms Pair show ?thesis by simp
  next
    case (Inr j')
    with Pair have "enqueue sha256 d q f k n t = (d', Inr j')" by simp
    then show ?thesis
    proof (cases rule: enqueue_cases)
      case written
      with insert_job_ok(1) [OF write_dispatch_effect(2) [OF written(1)]] assms Pair show ?thesis
        by (simp add: job_row_def tbl_find_append)
    qed (use assms Pair in simp)
  qed
qed

lemma sealed_op:
  assumes "sealed i d" and "chat_store_ok d"
  shows "sealed i (fst (run_chat_op sha256 alive p d)) \<and> list_all (\<lambda>e. \<not> send_of i e) (snd (run_chat_op sha256 alive p d))"
proof -
  have pass: "sealed i (fst (pass sha256 cfg env w d)) \<and> list_all (quiet_on i) (snd (pass sha256 cfg env w d))" for cfg env and w :: 'a
    using assms by (intro engine_ok_pass run_once_sealed) (simp_all add: chat_store_ok_def)
  then have quiet: "list_all (\<lambda>e. \<not> send_of i e) (snd (pass sha256 cfg env w d))" for cfg env and w :: 'a
    by (auto simp: list_all_iff quiet_on_def)
  show ?thesis
  proof (cases p)
    case (Dies cfg env w n)
    then show ?thesis using pass [of cfg env w] quiet [of cfg env w]
      by (auto simp: split_beta Let_def list_all_iff quiet_on_def dest: in_set_takeD)
  next
    case (Enqueue q f k n t)
    with assms show ?thesis by (auto simp: sealed_def intro: enqueue_row)
  next
    case (Pass cfg env w)
    with pass quiet show ?thesis by simp
  qed (use assms in \<open>simp_all add: cancel_sealed sealed_jobs lease_ops_jobs\<close>)
qed

lemma store_ok_lease:
  assumes "chat_store_ok d"
  shows "chat_store_ok (fst (acquire_lease alive d k pid m c ttl t))" and "chat_store_ok (fst (heartbeat_lease d k ttl t))"
    and "chat_store_ok (release_lease d k)"
  using assms by (auto simp: chat_store_ok_def acquire_lease_def heartbeat_lease_def release_lease_def split: option.split)

lemma store_ok_op:
  assumes "chat_store_ok d"
  shows "chat_store_ok (fst (run_chat_op sha256 alive p d))"
proof -
  have pass: "chat_store_ok (fst (pass sha256 cfg env w d)) \<and> list_all (\<lambda>e. chat_store_ok (effect_store_of e)) (snd (pass sha256 cfg env w d))"
    for cfg env and w :: 'a
    using assms by (intro engine_ok_pass run_once_wf) simp
  show ?thesis
  proof (cases p)
    case (Dies cfg env w n)
    then show ?thesis using pass [of cfg env w] by (auto simp: split_beta Let_def list_all_length)
  next
    case (Cancel i t)
    with assms store_ok_update cancel_result [of d i t] show ?thesis by auto
  qed (use assms pass in \<open>simp_all add: store_ok_enqueue store_ok_lease\<close>)
qed

lemma store_ok_ops: "chat_store_ok d \<Longrightarrow> chat_store_ok (fst (run_chat_ops sha256 alive ps d))"
proof (induction ps arbitrary: d)
  case (Cons p ps)
  then show ?case using store_ok_op [of d sha256 alive p] by (simp add: split_beta Let_def)
qed simp

lemma empty_queue_ok: "chat_store_ok empty_queue"
  by (simp add: chat_store_ok_def empty_queue_def tbl_ok_def urls_unique_def map_filter_simps)

text \<open>C25. Whatever processes enqueue, cancel, dispatch, die and compete for the lease, the tables of the queue stay well
  formed: dispatch ids, dispatch keys, conversation keys, conversation URLs and page ids are unique, a page id is that
  of its window, every job has a prompt, limits in range and a conversation row.\<close>

theorem chat_tables_typed:
  "chat_store_ok (fst (run_chat_ops sha256 alive ps empty_queue))"
  by (rule store_ok_ops [OF empty_queue_ok])

lemma sealed_ops:
  "sealed i d \<Longrightarrow> chat_store_ok d \<Longrightarrow> list_all (\<lambda>e. \<not> send_of i e) (snd (run_chat_ops sha256 alive ps d))"
proof (induction ps arbitrary: d)
  case (Cons p ps)
  then show ?case using sealed_op [of i d sha256 alive p] store_ok_op [of d sha256 alive p] by (simp add: split_beta Let_def)
qed simp

text \<open>C23. Once a job is recorded as submitting, submitted, waiting for reconciliation or finished, no operation of any
  process ever sends it again. This includes passes whose process died during the send.\<close>

theorem chat_job_never_resent:
  assumes "job_row (fst (run_chat_ops sha256 alive ps empty_queue)) i = Some j"
    and "cj_state j \<notin> {CH_QUEUED, CH_CLAIMED, CH_OPENING, CH_WINDOW_BOUND, CH_RETRY_WAIT}"
  shows "list_all (\<lambda>e. \<not> send_of i e) (snd (run_chat_ops sha256 alive qs (fst (run_chat_ops sha256 alive ps empty_queue))))"
proof (rule sealed_ops [OF _ store_ok_ops [OF empty_queue_ok]])
  show "sealed i (fst (run_chat_ops sha256 alive ps empty_queue))"
    using assms by (cases "cj_state j") (auto simp: sealed_def dispatchable_def TERMINAL_JOB_STATES_def)
qed

text \<open>C24. In every reachable store each effect of a pass is authorised by the store at that moment: opens and sends are
  journalled first and follow the order of the queue, the limit of owned windows is respected, and a window is
  closed only while its row in the store says that it is the dispatcher's own and idle past its deadline, and no job of its
  conversation is pending.\<close>

theorem chat_effects_authorised:
  "list_all (authorised cfg) (snd (pass sha256 cfg env w (fst (run_chat_ops sha256 alive ps empty_queue))))"
proof -
  have "engine_ok chat_store_ok (authorised cfg) s (run_once sha256 cfg env s)"
    if "es_store s = fst (run_chat_ops sha256 alive ps empty_queue)" for s :: "'a engine_state"
    using that store_ok_ops [OF empty_queue_ok] by (intro run_once_authorised) simp
  from engine_ok_pass [OF this] show ?thesis by simp
qed

section \<open>Requests that the queue refuses or does not recall\<close>

lemma upsert_conversation_row:
  assumes "upsert_conversation cs k url p t = Inr cs'"
  shows "Option.bind (tbl_find cc_conversation_key k cs') cc_conversation_url
    = (case Option.bind (tbl_find cc_conversation_key k cs) cc_conversation_url of None \<Rightarrow> url | Some v \<Rightarrow> Some v)"
  using assms by (auto simp: upsert_conversation_def Let_def tbl_find_append tbl_find_update split: option.splits if_splits)

text \<open>C26. A conversation outside a project can be addressed by its URL once: as soon as a dispatch to such a URL is
  accepted, every further dispatch to it is refused, because the URL is compared with itself by its project identity,
  which it does not have.\<close>

theorem plain_conversation_addressed_once:
  assumes "enqueue sha256 d q f i n t = (d', Inr j)" and "cq_conversation_url q = Some url" and "strip url \<noteq> []"
    and "cq_dispatch_key q = None" and "conversation_identity url = None" and "Some [] \<notin> cc_conversation_url ` set (ch_conversations d)"
    and "cq_conversation_url q' = Some url" and "cq_conversation_key q' = cq_conversation_key q" and "cq_dispatch_key q' = None"
  shows "\<exists>e. enqueue sha256 d' q' f' i' n' t' = (d', Inl e)"
proof -
  let ?q = "normal_chat_request q" and ?q' = "normal_chat_request q'"
  have url: "url \<noteq> []" using assms(3) by (auto simp: strip_def rstrip_def rstrip_by_def)
  have q: "cq_conversation_url ?q = Some (strip url)" "cq_dispatch_key ?q = None" "cq_conversation_url ?q' = Some (strip url)"
      "cq_dispatch_key ?q' = None" "cq_conversation_key ?q' = cq_conversation_key ?q"
    using assms(2,4,7-9) url by (simp_all add: normal_chat_request_def stripped_or_none_def present_def)
  have unknown: "\<not> conversation_url_matches v (strip url)" for v
  proof -
    have "conversation_identity (strip url) = None" using assms(5) by (simp add: conversation_identity_def)
    then show ?thesis by (auto simp: conversation_url_matches_def)
  qed
  from assms(1) have w: "write_dispatch sha256 d ?q f i n t = Inr (d', j)"
    by (cases rule: enqueue_cases) (auto simp: q present_def)
  let ?k = "chat_key ?q f"
  have k: "chat_key ?q' f' = ?k" using assms(3) q by (simp add: chat_key_def present_def)
  define known where "known = Option.bind (tbl_find cc_conversation_key ?k (ch_conversations d)) cc_conversation_url"
  have "known \<noteq> Some []" using assms(6) by (force simp: known_def bind_eq_Some_conv dest: tbl_find_SomeD)
  moreover have "\<not> present known"
    using w unknown assms(3) by (auto simp: write_dispatch_def Let_def q present_def known_def)
  ultimately have "known = None" by (auto simp: present_def)
  then have "cj_conversation_url j = Some (strip url)"
    using w by (auto simp: write_dispatch_def Let_def q known_def present_def)
  with upsert_conversation_row [OF write_dispatch_effect(1) [OF w]] write_dispatch_effect(10) [OF w] \<open>known = None\<close>
  have "Option.bind (tbl_find cc_conversation_key ?k (ch_conversations d')) cc_conversation_url = Some (strip url)"
    by (simp add: known_def)
  then have "\<exists>e. write_dispatch sha256 d' ?q' f' i' n' t' = Inl e"
    using unknown assms(3) by (simp add: write_dispatch_def Let_def k q present_def)
  then show ?thesis
    by (auto simp: enqueue_def Let_def q present_def transaction_def rbind_def split: sum.split)
qed

section \<open>A cancellation during a pass\<close>

lemma run_jobs_append: "run_jobs sha256 cfg env (js @ js') s =
    sbind (run_jobs sha256 cfg env js s) (\<lambda>s x. sbind (run_jobs sha256 cfg env js' s) (\<lambda>s y. (s, Inr (x \<or> y))))"
  by (induction js arbitrary: s) (auto simp: sbind_def split: prod.split sum.split)

lemma put_job_Inr:
  assumes "job_row (es_store s) i = Some r"
  obtains s' j where "put_job env s i u = (s', Inr j)" "es_effects s' = es_effects s"
proof -
  obtain t w where "ce_time env (es_world s) = (t, w)" by fastforce
  with assms have "snd (put_job env s i u) = Inr (apply_job_update u t r) \<and> es_effects (fst (put_job env s i u)) = es_effects s"
    using update_job_row [of "es_store s" i u t i]
    by (auto simp: put_job_def with_time_def on_store_def update_job_def get_job_def job_row_def Let_def split: prod.splits)
  then show thesis using that by (metis prod.collapse)
qed

text \<open>Submitting a job sends it, whatever the state of its row is and whatever the browser answers.\<close>

lemma submit_sends:
  assumes ok: "chat_store_ok (es_store s)" and row: "job_row (es_store s) (cj_dispatch_id j) = Some r"
  shows "list_ex (send_of (cj_dispatch_id j)) (drop (length (es_effects s)) (es_effects (fst (submit cfg env s j p))))"
proof -
  obtain t w where t: "ce_time env (es_world s) = (t, w)" by fastforce
  let ?s = "s\<lparr>es_world := w\<rparr>" and ?u = "at_page p ((to_state CH_SUBMITTING)\<lparr>ju_attempts := Some (cj_attempts j + 1)\<rparr>)"
  obtain s1 j1 where put: "put_job env ?s (cj_dispatch_id j) ?u = (s1, Inr j1)" "es_effects s1 = es_effects s"
    using put_job_Inr [of ?s "cj_dispatch_id j" r env ?u] row by auto
  let ?s2 = "effect s1 (\<lambda>d. Sends d j1 p)"
  let ?r = "handle_answer cfg env j1 p t (ask ?s2 (if present (cj_conversation_url j1) then ce_send_existing env j1 p else ce_send_new env j1 p))"
  have "engine_ok chat_store_ok (\<lambda>e. chat_store_ok (effect_store_of e)) ?s (put_job env ?s (cj_dispatch_id j) ?u)"
    using ok by (intro engine_intros store_ok_update) simp
  then have "chat_store_ok (es_store ?s2)" unfolding put(1) by (simp add: engine_ok_def)
  then have "engine_ok chat_store_ok (\<lambda>e. chat_store_ok (effect_store_of e)) ?s2 ?r"
    by (intro wf.handle_answer_ok engine_ok_ask) simp_all
  then obtain es where "es_effects (fst ?r) = es_effects s @ [Sends (es_store s1) j1 p] @ es"
    using put(2) by (auto simp: engine_ok_def effect_def)
  moreover have "submit cfg env s j p = ?r" using put(1) t by (simp add: submit_def with_time_def)
  ultimately show ?thesis using put_job_result(3) [OF put(1)] by (simp add: send_of_def)
qed

lemma ensure_page_keeps:
  assumes "chat_store_ok (es_store s)" and "job_row (es_store s) (cj_dispatch_id j) = Some c" and "cj_conversation_key c = cj_conversation_key j"
    and "\<not> has_older_unfinished (es_store s) j" and "ensure_page sha256 cfg env s j = (s', x)"
  shows "chat_store_ok (es_store s')" and "\<exists>r. job_row (es_store s') (cj_dispatch_id j) = Some r"
    and "\<exists>es. es_effects s' = es_effects s @ es"
proof -
  have wf: "engine_ok chat_store_ok (\<lambda>e. chat_store_ok (effect_store_of e)) s (s', x)"
    using wf.ensure_page_ok [OF assms(1) TrueI] assms(5) by metis
  then show "chat_store_ok (es_store s')" "\<exists>es. es_effects s' = es_effects s @ es" by (auto simp: engine_ok_def)
  let ?K = "job_keys (es_store s)"
  have c: "c \<in> set (ch_jobs (es_store s))" "cj_dispatch_id c = cj_dispatch_id j" using assms(2) by (auto simp: job_row_def dest: tbl_find_SomeD)
  have key: "(cj_dispatch_id j, cj_conversation_key j) \<in> set ?K"
    unfolding job_keys_def set_map by (rule image_eqI [OF _ c(1)]) (simp add: c(2) assms(3))
  have "distinct (map fst ?K)" using assms(1) by (simp add: chat_store_ok_def tbl_ok_def job_keys_def o_def)
  with key assms(4) have "first_in_line ?K j (es_store s)" by (simp add: first_in_line_def)
  then have "engine_ok (first_in_line ?K j) (authorised cfg) s (s', x)"
    using line.ensure_page_ok [of ?K j s j] assms(5) by metis
  then have "job_keys (es_store s') = ?K" by (simp add: engine_ok_def first_in_line_def)
  with key have "(cj_dispatch_id j, cj_conversation_key j) \<in> set (job_keys (es_store s'))" by simp
  then have "cj_dispatch_id j \<in> cj_dispatch_id ` set (ch_jobs (es_store s'))" by (auto simp: job_keys_def)
  then show "\<exists>r. job_row (es_store s') (cj_dispatch_id j) = Some r"
    by (auto simp: job_row_def image_iff tbl_find_None_iff simp flip: not_None_eq)
qed

lemma cancelled_row:
  assumes "cancel d i t = (d', Inr c)" and "job_row d i = Some r" and "dispatchable r"
  shows "job_row d' i = Some c" and "cj_state c = CH_CANCELLED" and "cj_conversation_key c = cj_conversation_key r"
proof -
  have "update_job d i (to_state CH_CANCELLED) t = (d', Inr c)"
    using assms by (auto simp: cancel_def get_job_def job_row_def dispatchable_def split: option.splits if_splits)
  from update_job_result [OF this] update_job_row [of d i "to_state CH_CANCELLED" t i] this assms(2)
  show "job_row d' i = Some c" "cj_state c = CH_CANCELLED" "cj_conversation_key c = cj_conversation_key r" by auto
qed

text \<open>C27. A pass works on the rows that it read at its start and does not look at the state of a job again before it sends
  it. Let a pass have read the rows \<open>js @ j # js'\<close> and worked on the rows \<open>js\<close> (by \<open>run_jobs_append\<close> it then goes on with the rest), and let the job of the row \<open>j\<close>, which is
  still waiting and first in its conversation, now be cancelled with success. If the pass then gets a page for it,
  the cancelled job is sent, whatever the browser answers.\<close>

theorem cancelled_job_still_sent:
  assumes ok: "chat_store_ok (es_store s)" and read: "eligible_jobs (es_store s) t n = js @ j # js'"
    and worked: "run_jobs sha256 cfg env js s = (s1, Inr progressed)"
    and waiting: "job_row (es_store s1) (cj_dispatch_id j) = Some j" "cj_state j \<in> {CH_QUEUED, CH_CLAIMED, CH_OPENING, CH_WINDOW_BOUND}"
    and cancelled: "cancel (es_store s1) (cj_dispatch_id j) now = (d, Inr c)"
    and first: "\<not> has_older_unfinished d j"
    and page: "ensure_page sha256 cfg env (s1\<lparr>es_store := d\<rparr>) j = (s2, Inr (Some p))"
  shows "job_row d (cj_dispatch_id j) = Some c \<and> cj_state c = CH_CANCELLED
    \<and> list_ex (send_of (cj_dispatch_id j))
        (drop (length (es_effects s1)) (es_effects (fst (run_jobs sha256 cfg env (j # js') (s1\<lparr>es_store := d\<rparr>)))))"
proof -
  let ?s = "s1\<lparr>es_store := d\<rparr>" and ?i = "cj_dispatch_id j" and ?Q = "\<lambda>e. chat_store_ok (effect_store_of e)"
  have dispatchable: "dispatchable j" using waiting(2) by (auto simp: dispatchable_def TERMINAL_JOB_STATES_def)
  note c = cancelled_row [OF cancelled waiting(1) dispatchable]
  have "chat_store_ok (es_store s1)" using run_jobs_wf [OF ok, of sha256 cfg env js] worked by (simp add: engine_ok_def)
  then have "chat_store_ok d" using cancel_result [of "es_store s1" ?i now] store_ok_update cancelled by (metis fst_conv)
  with ensure_page_keeps [of ?s j c, OF _ _ c(3) _ page] c(1) first obtain r es where s2: "chat_store_ok (es_store s2)"
    "job_row (es_store s2) ?i = Some r" "es_effects s2 = es_effects s1 @ es" by auto
  have r: "cj_dispatch_id r = ?i" using s2(2) by (auto simp: job_row_def dest: tbl_find_SomeD)
  let ?x = "submit cfg env s2 r p"
  have "cj_state j \<notin> TERMINAL_JOB_STATES \<union> {CH_SUBMITTING, CH_SUBMITTED, CH_RECONCILE_REQUIRED, CH_RETRY_WAIT}"
    using waiting(2) by (auto simp: TERMINAL_JOB_STATES_def)
  with first have "run_job sha256 cfg env j ?s = dispatch_job sha256 cfg env j ?s" by (simp add: run_job_def)
  also have "fst (dispatch_job sha256 cfg env j ?s) = fst ?x"
    using s2(2) by (simp add: dispatch_job_def page get_job_def job_row_def fst_sbind_end)
  finally have run: "fst (run_job sha256 cfg env j ?s) = fst ?x" .
  have "engine_ok chat_store_ok ?Q s2 ?x" using s2(1) by (intro wf.submit_ok) simp_all
  then obtain es' where x: "chat_store_ok (es_store (fst ?x))" "es_effects (fst ?x) = es_effects s2 @ es'" by (auto simp: engine_ok_def)
  have sent: "list_ex (send_of ?i) es'" using submit_sends [OF s2(1), of r r cfg env p] s2(2) r x(2) by simp
  have "engine_ok chat_store_ok ?Q (fst ?x) (run_jobs sha256 cfg env (j # js') ?s)"
  proof -
    obtain y where y: "run_job sha256 cfg env j ?s = (fst ?x, y)" using run by (metis prod.collapse)
    have "engine_ok chat_store_ok ?Q (fst ?x) (sbind (fst ?x, y) (\<lambda>s a. sbind (run_jobs sha256 cfg env js' s) (\<lambda>s b. (s, Inr (a \<or> b)))))"
      using x(1) by (intro engine_intros run_jobs_wf) simp_all
    then show ?thesis by (simp add: y)
  qed
  then obtain es'' where "es_effects (fst (run_jobs sha256 cfg env (j # js') ?s)) = es_effects s1 @ es @ es' @ es''"
    using x(2) s2(3) by (auto simp: engine_ok_def)
  with c(1,2) sent show ?thesis by simp
qed

section \<open>A run\<close>

definition demo_chat_url :: string where
  "demo_chat_url = ''https://chatgpt.com/c/0123456789abcdef''"

definition demo_chat :: "string \<Rightarrow> chat_request" where
  "demo_chat prompt = \<lparr>cq_prompt = prompt, cq_conversation_key = None, cq_conversation_url = Some demo_chat_url, cq_project_url = None,
     cq_dispatch_key = None, cq_idle_close_s = 90, cq_max_windows = 4\<rparr>"

text \<open>A browser that opens, sends, acknowledges and closes; its state is the time.\<close>

definition demo_page :: "string \<Rightarrow> page_identity" where
  "demo_page url = \<lparr>pi_conversation_url = url, pi_window_handle = 7, pi_browser_pid = 9, pi_chrome_executable = ''chrome'', pi_owned = True\<rparr>"

definition demo_env :: "int chat_env" where
  "demo_env = \<lparr>ce_time = (\<lambda>w. (of_int w, w + 1)), ce_find_existing = (\<lambda>url w. (Inr None, w)),
     ce_open_existing = (\<lambda>url w. (Inr (demo_page url), w)), ce_open_new = (\<lambda>url k h w. (Inr (demo_page url), w)),
     ce_recover_new = (\<lambda>url k h w. (Inr None, w)),
     ce_send_existing = (\<lambda>j p w. (Inr \<lparr>bs_submitted = True, bs_side_effect_possible = True, bs_detail = ''sent'',
       bs_conversation_url = None, bs_rate_limited = False\<rparr>, w)),
     ce_send_new = (\<lambda>j p w. (Inl (RuntimeError ''not reached''), w)),
     ce_observe_ack = (\<lambda>j p w. (Inr \<lparr>bk_observed = True, bk_nonce_occurrences = 1, bk_generating = Some False,
       bk_detail = ''seen'', bk_conversation_url = None\<rparr>, w)),
     ce_current_url = (\<lambda>p w. (Inr (Some (cp_conversation_url p)), w)),
     ce_close_page = (\<lambda>p w. (Inr \<lparr>bc_closed = True, bc_absent = False, bc_ambiguous = False, bc_detail = ''closed''\<rparr>, w))\<rparr>"

definition demo_cfg :: engine_config where
  "demo_cfg = engine_config_of 4 90 120"

definition demo_sha :: "string \<Rightarrow> string" where
  "demo_sha s = s"

abbreviation demo_enqueue :: "string \<Rightarrow> string \<Rightarrow> timestamp \<Rightarrow> int chat_op" where
  "demo_enqueue prompt i t \<equiv> Enqueue (demo_chat prompt) [] i ''nonce'' t"

definition demo_queue :: "int chat_op list \<Rightarrow> chat_store \<times> chat_effect list" where
  "demo_queue ps = run_chat_ops demo_sha (\<lambda>_. False) ps empty_queue"

text \<open>The dispatcher dies while it sends; the next pass acknowledges the job without sending it.\<close>

definition demo_died :: "int chat_op list" where
  "demo_died = [demo_enqueue ''hello'' ''1'' 1, Dies demo_cfg demo_env 2 1]"

theorem chat_job_never_resent_witness:
  "list_ex (send_of ''chat_1'') (snd (demo_queue demo_died))
    \<and> map_option cj_state (job_row (fst (demo_queue demo_died)) ''chat_1'') = Some CH_SUBMITTING
    \<and> map_option cj_state (job_row (fst (demo_queue (demo_died @ [Pass demo_cfg demo_env 9]))) ''chat_1'') = Some CH_ACKNOWLEDGED
    \<and> list_all (\<lambda>e. \<not> send_of ''chat_1'' e) (snd (run_chat_ops demo_sha (\<lambda>_. False) [Pass demo_cfg demo_env 9] (fst (demo_queue demo_died))))"
proof -
  have sent: "list_ex (send_of ''chat_1'') (snd (demo_queue demo_died))" by code_simp
  have row: "map_option cj_state (job_row (fst (demo_queue demo_died)) ''chat_1'') = Some CH_SUBMITTING" by code_simp
  then obtain j where j: "job_row (fst (demo_queue demo_died)) ''chat_1'' = Some j" "cj_state j = CH_SUBMITTING" by auto
  have "map_option cj_state (job_row (fst (demo_queue (demo_died @ [Pass demo_cfg demo_env 9]))) ''chat_1'') = Some CH_ACKNOWLEDGED"
    by code_simp
  moreover from chat_job_never_resent [of demo_sha "\<lambda>_. False" demo_died "''chat_1''" j "[Pass demo_cfg demo_env 9]"] j
  have "list_all (\<lambda>e. \<not> send_of ''chat_1'' e) (snd (run_chat_ops demo_sha (\<lambda>_. False) [Pass demo_cfg demo_env 9] (fst (demo_queue demo_died))))"
    by (simp add: demo_queue_def)
  ultimately show ?thesis using sent row by simp
qed

theorem plain_conversation_addressed_once_witness:
  "\<exists>d j e. enqueue demo_sha empty_queue (demo_chat ''hello'') [] ''1'' ''n'' 1 = (d, Inr j)
    \<and> enqueue demo_sha d (demo_chat ''again'') [] ''2'' ''m'' 2 = (d, Inl e)"
proof -
  let ?r = "enqueue demo_sha empty_queue (demo_chat ''hello'') [] ''1'' ''n'' 1"
  have "\<not> isl (snd ?r)" by code_simp
  then obtain d j where r: "?r = (d, Inr j)" by (metis isl_def prod.collapse sum.exhaust_sel)
  moreover have "strip demo_chat_url \<noteq> []" "conversation_identity demo_chat_url = None" by code_simp+
  ultimately show ?thesis
    using plain_conversation_addressed_once [OF r, of demo_chat_url "demo_chat ''again''" "[]" "''2''" "''m''" 2]
    by (auto simp: demo_chat_def empty_queue_def)
qed

text \<open>Two conversations are waiting; the second job is cancelled after the pass worked on the first.\<close>

definition demo_two :: "int engine_state" where
  "demo_two = \<lparr>es_store = fst (demo_queue [Enqueue (demo_chat ''first''\<lparr>cq_conversation_url := Some ''https://chatgpt.com/c/fedcba9876543210''\<rparr>) [] ''1'' ''n'' 1,
     demo_enqueue ''hello'' ''2'' 2]), es_world = 3, es_effects = []\<rparr>"

definition demo_rows :: "chat_dispatch_job list" where
  "demo_rows = eligible_jobs (es_store demo_two) 3 200"

definition demo_worked :: "int engine_state \<times> bool result" where
  "demo_worked = run_jobs demo_sha demo_cfg demo_env [hd demo_rows] demo_two"

definition demo_cancelled :: "chat_store \<times> chat_dispatch_job result" where
  "demo_cancelled = cancel (es_store (fst demo_worked)) ''chat_2'' 9"

theorem cancelled_job_still_sent_witness:
  "(case snd demo_cancelled of Inl e \<Rightarrow> False | Inr c \<Rightarrow> cj_state c = CH_CANCELLED)
    \<and> list_ex (send_of ''chat_2'') (drop (length (es_effects (fst demo_worked)))
        (es_effects (fst (run_jobs demo_sha demo_cfg demo_env [demo_rows ! 1] ((fst demo_worked)\<lparr>es_store := fst demo_cancelled\<rparr>)))))"
proof -
  let ?j = "demo_rows ! 1" and ?s = "(fst demo_worked)\<lparr>es_store := fst demo_cancelled\<rparr>"
  have two: "xs = [hd xs] @ xs ! 1 # []" if "length xs = 2" for xs :: "chat_dispatch_job list"
    using that by (cases xs; cases "tl xs") auto
  have "length demo_rows = 2" by code_simp
  then have rows: "eligible_jobs (es_store demo_two) 3 200 = [hd demo_rows] @ ?j # []"
    unfolding demo_rows_def [symmetric] by (rule two)
  have "\<not> isl (snd demo_worked)" "\<not> isl (snd demo_cancelled)" by code_simp+
  then obtain b c where b: "demo_worked = (fst demo_worked, Inr b)" and c: "demo_cancelled = (fst demo_cancelled, Inr c)"
    by (metis isl_def prod.collapse sum.exhaust_sel)
  have j: "cj_dispatch_id ?j = ''chat_2''" by code_simp
  have "(case snd (ensure_page demo_sha demo_cfg demo_env ?s ?j) of Inr (Some p) \<Rightarrow> True | _ \<Rightarrow> False)" by code_simp
  then obtain s2 p where page: "ensure_page demo_sha demo_cfg demo_env ?s ?j = (s2, Inr (Some p))"
    by (auto split: sum.splits option.splits) (metis prod.collapse)
  have "map_option (\<lambda>x. x = ?j) (job_row (es_store (fst demo_worked)) ''chat_2'') = Some True" by code_simp
  then have row: "job_row (es_store (fst demo_worked)) (cj_dispatch_id ?j) = Some ?j" unfolding j by auto
  have "cj_state ?j = CH_QUEUED" by code_simp
  then have queued: "cj_state ?j \<in> {CH_QUEUED, CH_CLAIMED, CH_OPENING, CH_WINDOW_BOUND}" by simp
  have first: "\<not> has_older_unfinished (fst demo_cancelled) ?j" by code_simp
  have "chat_store_ok (es_store demo_two)" by (simp add: demo_two_def demo_queue_def store_ok_enqueue empty_queue_ok)
  moreover have "run_jobs demo_sha demo_cfg demo_env [hd demo_rows] demo_two = (fst demo_worked, Inr b)"
    using b by (simp only: demo_worked_def [symmetric])
  moreover have "cancel (es_store (fst demo_worked)) (cj_dispatch_id ?j) 9 = (fst demo_cancelled, Inr c)"
    using c by (simp only: demo_cancelled_def [symmetric] j)
  ultimately have "cj_state c = CH_CANCELLED \<and> list_ex (send_of (cj_dispatch_id ?j)) (drop (length (es_effects (fst demo_worked)))
      (es_effects (fst (run_jobs demo_sha demo_cfg demo_env [?j] ?s))))"
    using cancelled_job_still_sent [OF _ rows _ row queued _ first page] by blast
  then show ?thesis unfolding j using arg_cong [OF c, of snd] by simp
qed

end
