(* ===== verification/Chat_Browser.thy ===== *)
theory Chat_Browser
  imports Chat_Engine Spawn_Transport
begin

text \<open>
  The browser of the chat dispatcher (\<^verbatim>\<open>ChromeChatDispatchBrowser\<close> of \<^verbatim>\<open>chat_dispatch.py\<close>): how it finds the
  window of a conversation, what it does with the answers of the spawn transport, and when it closes a
  page. The windows a probe lists, the answers of the helpers and the launch of a process are arguments;
  a waiting loop takes the list of what it sees before its deadline.
\<close>

section \<open>Finding and opening\<close>

definition json_item :: "json_object \<Rightarrow> string \<Rightarrow> json result" where
  "json_item obj k = (case map_of obj k of None \<Rightarrow> Inl (KeyError k) | Some v \<Rightarrow> Inr v)"

definition discover_matching :: "string \<Rightarrow> json_object list \<Rightarrow> json_object list" where
  "discover_matching url items = (case conversation_id_from_url url of None \<Rightarrow> []
     | Some i \<Rightarrow> filter (\<lambda>item. json_string item ''conversation_id'' [] = i) items)"

definition find_existing :: "string \<Rightarrow> string \<Rightarrow> json_object list result \<Rightarrow> page_identity option result" where
  "find_existing chrome url probe =
     rbind (if conversation_id_from_url url = None then Inr [] else probe) (\<lambda>items.
     let found = discover_matching url items;
         exact = filter (\<lambda>item. uia_normalize_url (json_string item ''url'' []) = uia_normalize_url url) found;
         candidates = (if exact = [] then found else exact) in
     if found = [] then Inr None
     else case candidates of
       [item] \<Rightarrow>
         rbind (json_item item ''url'') (\<lambda>u.
         rbind (rbind (json_item item ''window_handle'') json_int) (\<lambda>h.
         rbind (rbind (json_item item ''browser_pid'') json_int) (\<lambda>p.
         Inr (Some \<lparr>pi_conversation_url = json_str u, pi_window_handle = h, pi_browser_pid = p,
           pi_chrome_executable = chrome, pi_owned = False\<rparr>))))
     | _ \<Rightarrow> Inl (RuntimeError (''multiple normal-Chrome windows show conversation ''
              @ or_text (conversation_id_from_url url) ''None'')))"

text \<open>
  The keyboard focus is moved into the page only while the exact window shows the expected page, before and
  after it is brought to the foreground.
\<close>

definition activate_web_contents ::
  "bool \<Rightarrow> string \<Rightarrow> (string \<Rightarrow> bool) \<Rightarrow> string option result \<Rightarrow> bool \<Rightarrow> bool \<Rightarrow> string option result \<Rightarrow> unit result" where
  "activate_web_contents windows label valid url_before foregrounded still_foreground url_after =
     (if \<not> windows then Inr ()
      else rbind url_before (\<lambda>u.
        rbind (guard (present u \<and> valid (the u)) (RuntimeError (label @ '' identity changed before accessibility activation''))) (\<lambda>_.
        rbind (guard foregrounded (RuntimeError (''could not foreground exact '' @ label @ '' Chrome window''))) (\<lambda>_.
        rbind (guard still_foreground (RuntimeError (''foreground changed before '' @ label @ '' accessibility activation''))) (\<lambda>_.
        rbind url_after (\<lambda>u.
        guard (present u \<and> valid (the u)) (RuntimeError (label @ '' identity changed after foregrounding''))))))))"

fun await_found :: "page_identity option result list \<Rightarrow> page_identity result" where
  "await_found [] = Inl (RuntimeError ''opened existing conversation window was not observed within 12 seconds'')"
| "await_found (r # rs) = rbind r (\<lambda>x. case x of Some y \<Rightarrow> Inr (y\<lparr>pi_owned := True\<rparr>) | None \<Rightarrow> await_found rs)"

definition open_existing ::
  "page_identity option result \<Rightarrow> unit result \<Rightarrow> page_identity option result list \<Rightarrow> (page_identity \<Rightarrow> unit result) \<Rightarrow> page_identity result" where
  "open_existing first launch looks activate =
     rbind first (\<lambda>x. case x of Some y \<Rightarrow> Inr y
     | None \<Rightarrow> rbind launch (\<lambda>_. rbind (await_found looks) (\<lambda>y. rbind (activate y) (\<lambda>_. Inr y))))"

definition chat_attempt ::
  "string \<Rightarrow> string \<Rightarrow> string \<Rightarrow> string \<Rightarrow> child_spawn_attempt_state \<Rightarrow> int option \<Rightarrow> int option \<Rightarrow> string \<Rightarrow> timestamp
     \<Rightarrow> child_spawn_attempt result" where
  "chat_attempt chrome owner project_url prompt_sha256 st handle pid fresh now =
     rbind (web_project_id project_url) (\<lambda>project_id.
     rbind (tagged_project_url project_url owner) (\<lambda>tagged.
     Inr \<lparr>cs_attempt_id = ''chatq_'' @ fresh, cs_child_task_id = ''chatq:'' @ owner, cs_state = st, cs_owner_token = owner,
          cs_project_url = project_url, cs_project_id = project_id, cs_tagged_project_url = tagged,
          cs_prompt_sha256 = prompt_sha256, cs_chrome_executable = chrome, cs_created_at = now, cs_updated_at = now,
          cs_window_handle = handle, cs_browser_pid = pid, cs_conversation_url = None, cs_worker_id = None,
          cs_last_error = None, cs_metadata = []\<rparr>))"

definition identity_at :: "string \<Rightarrow> spawn_execution \<Rightarrow> page_identity" where
  "identity_at chrome r = \<lparr>pi_conversation_url = the (se_url r), pi_window_handle = the (se_window_handle r),
     pi_browser_pid = the (se_browser_pid r), pi_chrome_executable = chrome, pi_owned = True\<rparr>"

definition has_identity :: "spawn_execution \<Rightarrow> bool" where
  "has_identity r = (set_int (se_window_handle r) \<and> set_int (se_browser_pid r) \<and> present (se_url r))"

definition open_new ::
  "string \<Rightarrow> child_spawn_attempt result \<Rightarrow> (child_spawn_attempt \<Rightarrow> spawn_execution result)
     \<Rightarrow> (page_identity \<Rightarrow> (string \<Rightarrow> bool) \<Rightarrow> unit result) \<Rightarrow> page_identity result" where
  "open_new chrome attempt open_window_of activate =
     rbind attempt (\<lambda>a.
     rbind (open_window_of a) (\<lambda>r.
     if \<not> se_changed r \<or> \<not> has_identity r
     then Inl (RuntimeError (default_text (se_detail r) ''new conversation project window did not open safely''))
     else rbind (activate (identity_at chrome r) (\<lambda>u. owned_project_root_matches u a)) (\<lambda>_. Inr (identity_at chrome r))))"

definition recover_new ::
  "string \<Rightarrow> child_spawn_attempt result \<Rightarrow> (child_spawn_attempt \<Rightarrow> spawn_execution) \<Rightarrow> page_identity option result" where
  "recover_new chrome attempt observe_owned =
     rbind attempt (\<lambda>a. let r = observe_owned a in Inr (if has_identity r then Some (identity_at chrome r) else None))"

section \<open>Sending\<close>

definition is_presend_readiness_failure :: "send_result \<Rightarrow> bool" where
  "is_presend_readiness_failure r =
     (\<not> (bs_submitted r \<or> bs_side_effect_possible r \<or> bs_rate_limited r)
      \<and> list_ex (\<lambda>m. contains m (casefold (bs_detail r)))
          [''web chat document is not present'', ''prompt-textarea is not present''])"

text \<open>Repeated only while the answer proves that nothing was sent; the list has the answers before the deadline.\<close>

fun wait_for_presend_readiness :: "send_result \<Rightarrow> send_result result list \<Rightarrow> send_result result" where
  "wait_for_presend_readiness latest [] = Inr latest"
| "wait_for_presend_readiness latest (r # rs) =
     rbind r (\<lambda>x. if is_presend_readiness_failure x then wait_for_presend_readiness x rs else Inr x)"

definition not_ready :: send_result where
  "not_ready = \<lparr>bs_submitted = False, bs_side_effect_possible = False, bs_detail = ''browser composer readiness not observed'',
     bs_conversation_url = None, bs_rate_limited = False\<rparr>"

definition existing_answer :: "string \<Rightarrow> transport_submission \<Rightarrow> send_result" where
  "existing_answer url r = \<lparr>bs_submitted = sub_submitted r, bs_side_effect_possible = sub_side_effect_possible r, bs_detail = sub_detail r,
     bs_conversation_url = Some url, bs_rate_limited = contains ''Too many requests'' (sub_detail r)\<rparr>"

definition send_existing :: "chat_dispatch_job \<Rightarrow> chat_page \<Rightarrow> (string \<Rightarrow> transport_submission result list) \<Rightarrow> send_result result" where
  "send_existing j p answers = rbind (wire_prompt j) (\<lambda>prompt. wait_for_presend_readiness not_ready
     (map (\<lambda>r. rbind r (\<lambda>x. Inr (existing_answer (cp_conversation_url p) x))) (answers prompt)))"

definition new_answer :: "spawn_execution \<Rightarrow> send_result" where
  "new_answer r = \<lparr>bs_submitted = se_changed r, bs_side_effect_possible = se_side_effect_possible r, bs_detail = se_detail r,
     bs_conversation_url = None, bs_rate_limited = se_rate_limited r\<rparr>"

definition send_new ::
  "chat_dispatch_job \<Rightarrow> child_spawn_attempt result \<Rightarrow> (child_spawn_attempt \<Rightarrow> spawn_execution result list)
     \<Rightarrow> (child_spawn_attempt \<Rightarrow> string \<Rightarrow> delivery_observation) \<Rightarrow> send_result result" where
  "send_new j attempt answers wait =
     (if \<not> present (cj_project_url j) then Inl (RuntimeError ''new conversation job is missing project_url'')
      else
        rbind (wire_prompt j) (\<lambda>prompt.
        rbind attempt (\<lambda>a.
        rbind (wait_for_presend_readiness not_ready (map (\<lambda>r. rbind r (\<lambda>x. Inr (new_answer x))) (answers a))) (\<lambda>r.
        if \<not> bs_submitted r then Inr r
        else let d = wait a prompt in
          Inr \<lparr>bs_submitted = True, bs_side_effect_possible = True, bs_detail = default_text (dl_detail d) (bs_detail r),
               bs_conversation_url = (if conversation_id_from_url (dl_url d) \<noteq> None then Some (dl_url d) else None),
               bs_rate_limited = bs_rate_limited r\<rparr>))))"

section \<open>Closing\<close>

definition owner_prefix :: string where
  "owner_prefix = ''lws-child=''"

definition close_answer :: "spawn_execution \<Rightarrow> close_result" where
  "close_answer r = \<lparr>bc_closed = se_changed r,
     bc_absent = (\<not> se_changed r \<and> \<not> se_side_effect_possible r \<and> contains ''already absent'' (se_detail r)),
     bc_ambiguous = (se_side_effect_possible r \<and> \<not> se_changed r), bc_detail = se_detail r\<rparr>"

definition unsafe_close :: "string \<Rightarrow> close_result" where
  "unsafe_close detail = \<lparr>bc_closed = False, bc_absent = False, bc_ambiguous = True, bc_detail = detail\<rparr>"

text \<open>The owner and the project that the recorded URL of a page names.\<close>

definition page_owner :: "string \<Rightarrow> (string \<times> string \<times> string) option result" where
  "page_owner url =
     rbind (urlsplit url) (\<lambda>u.
     let owner = (if starts_with owner_prefix (ur_fragment u) then drop (length owner_prefix) (ur_fragment u) else []);
         project_url = urlunsplit (u\<lparr>ur_query := [], ur_fragment := []\<rparr>) in
     Inr (case web_project_id project_url of
            Inl e \<Rightarrow> None | Inr p \<Rightarrow> if owner = [] \<or> p = [] then None else Some (owner, p, project_url)))"

text \<open>The URL under which the page may be closed: the recorded one, or another spelling of the same page.\<close>

definition safe_close_url :: "chat_page \<Rightarrow> string \<Rightarrow> (string + string) result" where
  "safe_close_url p current =
     (if uia_normalize_url current = uia_normalize_url (cp_conversation_url p) then Inr (Inr (cp_conversation_url p))
      else if conversation_url_matches current (cp_conversation_url p) then Inr (Inr current)
      else rbind (page_owner (cp_conversation_url p)) (\<lambda>who.
        Inr (case who of
          None \<Rightarrow> Inl ''exact owned-page conversation identity changed before close''
        | Some (owner, project, project_url) \<Rightarrow>
            if owned_project_root_matches current
                 (\<lparr>cs_attempt_id = ''chatq_close'', cs_child_task_id = ''chatq-close:'' @ cp_conversation_key p,
                   cs_state = CS_WINDOW_BOUND, cs_owner_token = owner, cs_project_url = project_url,
                   cs_project_id = project, cs_tagged_project_url = cp_conversation_url p, cs_prompt_sha256 = ''close'',
                   cs_chrome_executable = cp_chrome_executable p, cs_created_at = cp_opened_at p, cs_updated_at = cp_opened_at p,
                   cs_window_handle = Some (cp_window_handle p), cs_browser_pid = Some (cp_browser_pid p),
                   cs_conversation_url = None, cs_worker_id = None, cs_last_error = None, cs_metadata = []\<rparr>)
            then Inr current else Inl ''exact owned-page project identity changed before close'')))"

definition close_page ::
  "chat_page \<Rightarrow> string option \<Rightarrow> (string \<Rightarrow> spawn_execution result) \<Rightarrow> close_result result" where
  "close_page p current close_under =
     (if \<not> present current then Inr (unsafe_close ''exact owned-page URL unavailable before close'')
      else rbind (safe_close_url p (the current)) (\<lambda>r.
        case r of Inl m \<Rightarrow> Inr (unsafe_close m)
        | Inr url \<Rightarrow> rbind (close_under url) (\<lambda>x. Inr (close_answer x))))"

section \<open>What may be closed and what may be repeated\<close>

text \<open>A send is repeated only as long as every earlier answer proved that nothing was submitted.\<close>

lemma presend_prefix:
  assumes "wait_for_presend_readiness l rs = Inr x"
  shows "\<exists>ys zs. map Inr ys @ zs = rs \<and> list_all is_presend_readiness_failure (butlast ys)
    \<and> (if ys = [] then x = l \<and> rs = [] else x = last ys)
    \<and> (\<not> is_presend_readiness_failure x \<or> zs = [])"
  using assms
proof (induction l rs rule: wait_for_presend_readiness.induct)
  case (2 l r rs)
  then obtain y where y: "r = Inr y" by auto
  show ?case
  proof (cases "is_presend_readiness_failure y")
    case True
    from "2.IH" [of y] "2.prems" y True have "\<exists>ys zs. map Inr ys @ zs = rs \<and> list_all is_presend_readiness_failure (butlast ys)
        \<and> (if ys = [] then x = y \<and> rs = [] else x = last ys) \<and> (\<not> is_presend_readiness_failure x \<or> zs = [])" by simp
    then obtain ys zs where "map Inr ys @ zs = rs" "list_all is_presend_readiness_failure (butlast ys)"
        "if ys = [] then x = y \<and> rs = [] else x = last ys" "\<not> is_presend_readiness_failure x \<or> zs = []" by blast
    with True y show ?thesis by (intro exI [of _ "y # ys"] exI [of _ zs]) (auto split: if_splits)
  next
    case False
    with 2 y show ?thesis by (intro exI [of _ "[y]"] exI [of _ rs]) auto
  qed
qed simp

end
