(* ===== verification/Page_Close.thy ===== *)
theory Page_Close
  imports Url Models
begin

text \<open>
  Evidence that a conversation survives the closing of its page (\<^verbatim>\<open>lifecycle.py\<close>) and the capability records
  built from it (\<^verbatim>\<open>capabilities.py\<close>). The canonical JSON text of the evidence and SHA-256 are arguments; reading
  the version of the local browser (\<^verbatim>\<open>detect_chrome_major\<close>) is a process call and not modelled.
\<close>

section \<open>Evaluating evidence\<close>

datatype page_isolation_mode = PI_DEDICATED_PROFILE | PI_EXISTING_PROFILE_DISPOSABLE_WINDOW | PI_COPIED_AUTH_PROFILE

definition page_isolation_mode_of :: "string \<Rightarrow> page_isolation_mode option" where
  "page_isolation_mode_of s =
     (if s = ''dedicated_profile'' then Some PI_DEDICATED_PROFILE
      else if s = ''existing_profile_disposable_window'' then Some PI_EXISTING_PROFILE_DISPOSABLE_WINDOW
      else if s = ''copied_auth_profile'' then Some PI_COPIED_AUTH_PROFILE else None)"

record page_close_evidence =
  ev_experiment_id :: string
  ev_disposable_profile :: bool
  ev_normally_authenticated :: bool
  ev_auth_material_copied :: bool
  ev_pre_close_url :: string
  ev_reopened_url :: string
  ev_pre_close_generating :: bool
  ev_close_while_live_confirmed :: bool
  ev_background_progress_observed :: bool
  ev_completion_evidence_after_reopen :: bool
  ev_same_conversation_after_reopen :: bool
  ev_duplicate_turn_observed :: bool
  ev_auth_still_valid_after_reopen :: bool
  ev_pre_close_signature :: "string option"
  ev_post_reopen_signature :: "string option"
  ev_notes :: "string list"
  ev_isolation_mode :: string
  ev_exact_window_binding_confirmed :: bool
  ev_current_user_conversation_excluded :: bool
  ev_tool_execution_observed :: bool
  ev_tool_job_identity_confirmed :: bool
  ev_tool_running_at_close :: bool
  ev_tool_completed_after_close :: bool
  ev_tool_final_response_after_reopen :: bool
  ev_observed_at :: "timestamp option"
  ev_scope_host :: "string option"
  ev_browser_family :: "string option"
  ev_browser_major :: "int option"
  ev_platform :: "string option"
  ev_surface :: "string option"

record page_close_evaluation =
  pe_experiment_id :: string
  pe_parking_safe :: bool
  pe_generation_parking_safe :: bool
  pe_tool_execution_parking_safe :: bool
  pe_checks :: "(string \<times> bool) list"
  pe_blockers :: "string list"
  pe_tool_checks :: "(string \<times> bool) list"
  pe_tool_blockers :: "string list"
  pe_conclusion :: string

definition isolation_checks :: "page_close_evidence \<Rightarrow> bool \<times> bool \<times> bool" where
  "isolation_checks ev =
     (case page_isolation_mode_of (ev_isolation_mode ev) of
        None \<Rightarrow> (False, False, False)
      | Some mode \<Rightarrow>
          (mode \<in> {PI_DEDICATED_PROFILE, PI_EXISTING_PROFILE_DISPOSABLE_WINDOW},
           mode = PI_DEDICATED_PROFILE \<and> ev_disposable_profile ev,
           mode = PI_EXISTING_PROFILE_DISPOSABLE_WINDOW \<and> ev_exact_window_binding_confirmed ev
             \<and> ev_current_user_conversation_excluded ev))"

definition failed_checks :: "(string \<times> bool) list \<Rightarrow> string list" where
  "failed_checks cs = map fst (filter (\<lambda>(n, v). \<not> v) cs)"

definition generation_checks :: "page_close_evidence \<Rightarrow> string \<Rightarrow> string \<Rightarrow> (string \<times> bool) list" where
  "generation_checks ev pre_url reopened_url =
     (let (supported, dedicated, disposable) = isolation_checks ev in
      [(''supported_isolation_mode'', supported),
       (''isolated_execution_context'', dedicated \<or> disposable),
       (''normally_authenticated'', ev_normally_authenticated ev),
       (''no_auth_material_copy'', \<not> ev_auth_material_copied ev),
       (''pre_close_conversation_url'', contains ''/c/'' pre_url),
       (''same_url_after_reopen'', pre_url = reopened_url \<and> ev_same_conversation_after_reopen ev),
       (''closed_while_live'', ev_pre_close_generating ev \<and> ev_close_while_live_confirmed ev),
       (''background_progress_observed'', ev_background_progress_observed ev),
       (''completion_after_reopen'', ev_completion_evidence_after_reopen ev),
       (''signature_advanced'', present (ev_pre_close_signature ev) \<and> present (ev_post_reopen_signature ev)
          \<and> ev_pre_close_signature ev \<noteq> ev_post_reopen_signature ev),
       (''no_duplicate_turn'', \<not> ev_duplicate_turn_observed ev),
       (''auth_survived_reopen'', ev_auth_still_valid_after_reopen ev)])"

definition tool_checks :: "page_close_evidence \<Rightarrow> bool \<Rightarrow> (string \<times> bool) list" where
  "tool_checks ev generation_safe =
     [(''generation_parking_safe'', generation_safe),
      (''tool_execution_observed'', ev_tool_execution_observed ev),
      (''tool_job_identity_confirmed'', ev_tool_job_identity_confirmed ev),
      (''tool_running_at_close'', ev_tool_running_at_close ev),
      (''tool_completed_after_close'', ev_tool_completed_after_close ev),
      (''tool_final_response_after_reopen'', ev_tool_final_response_after_reopen ev)]"

definition evaluate_page_close_evidence :: "page_close_evidence \<Rightarrow> page_close_evaluation result" where
  "evaluate_page_close_evidence ev =
     rbind (normalize_url (ev_pre_close_url ev)) (\<lambda>pre_url.
     rbind (normalize_url (ev_reopened_url ev)) (\<lambda>reopened_url.
     let cs = generation_checks ev pre_url reopened_url;
         blockers = failed_checks cs;
         safe = (blockers = []);
         ts = tool_checks ev safe;
         tool_blockers = failed_checks ts;
         tool_safe = (tool_blockers = [])
     in Inr \<lparr>pe_experiment_id = ev_experiment_id ev, pe_parking_safe = safe, pe_generation_parking_safe = safe,
          pe_tool_execution_parking_safe = tool_safe, pe_checks = cs, pe_blockers = blockers, pe_tool_checks = ts,
          pe_tool_blockers = tool_blockers,
          pe_conclusion =
            (if tool_safe then ''isolated authenticated evidence satisfies both generation and live-tool close/reopen parking gates''
             else if safe then ''generation/page parking is proven, but live-tool parking remains unproven for this evidence''
             else ''page-close parking remains unproven for this evidence; keep live/ambiguous workers DO_NOT_CLOSE'')\<rparr>))"

section \<open>Capability records\<close>

definition PAGE_CLOSE_EVALUATOR_VERSION :: string where
  "PAGE_CLOSE_EVALUATOR_VERSION = ''page-close-v2''"

definition PAGE_CAPABILITY_SURFACE :: string where
  "PAGE_CAPABILITY_SURFACE = ''normal_chrome_uia''"

definition PAGE_CAPABILITY_PLATFORM :: string where
  "PAGE_CAPABILITY_PLATFORM = ''windows''"

definition PAGE_CAPABILITY_BROWSER :: string where
  "PAGE_CAPABILITY_BROWSER = ''chrome''"

definition MAX_CAPABILITY_TTL_S :: real where
  "MAX_CAPABILITY_TTL_S = 7 * 24 * 60 * 60"

record capability_context =
  cx_scope_host :: string
  cx_browser_family :: string
  cx_browser_major :: int
  cx_platform :: string
  cx_surface :: string

definition normalized_context :: "string \<Rightarrow> string \<Rightarrow> int \<Rightarrow> string \<Rightarrow> string \<Rightarrow> capability_context result" where
  "normalized_context scope_host browser_family browser_major platform surface =
     (let host = lower (strip scope_host);
          family = lower (strip browser_family);
          platform0 = lower (strip platform);
          platform_name = (if platform0 \<in> {''win32'', ''win64'', ''nt''} then ''windows'' else platform0);
          surface_name = lower (strip surface) in
      rbind (guard (host \<noteq> [] \<and> contains ''.'' host) (CapabilityProvenanceError ''capability scope host is missing or invalid'')) (\<lambda>_.
      rbind (guard (family = PAGE_CAPABILITY_BROWSER)
        (CapabilityProvenanceError ''page-close capability currently requires Chrome provenance'')) (\<lambda>_.
      rbind (guard (0 < browser_major)
        (CapabilityProvenanceError ''page-close capability requires a positive Chrome major version'')) (\<lambda>_.
      rbind (guard (platform_name = PAGE_CAPABILITY_PLATFORM)
        (CapabilityProvenanceError ''page-close capability currently requires Windows provenance'')) (\<lambda>_.
      rbind (guard (surface_name = PAGE_CAPABILITY_SURFACE)
        (CapabilityProvenanceError ''page-close capability requires the normal-Chrome UIA observation surface'')) (\<lambda>_.
      Inr \<lparr>cx_scope_host = host, cx_browser_family = family, cx_browser_major = browser_major,
           cx_platform = platform_name, cx_surface = surface_name\<rparr>))))))"

definition required :: "string \<Rightarrow> 'a option \<Rightarrow> 'a result" where
  "required m x = (case x of None \<Rightarrow> Inl (CapabilityProvenanceError m) | Some v \<Rightarrow> Inr v)"

definition context_from_evidence :: "page_close_evidence \<Rightarrow> capability_context result" where
  "context_from_evidence ev =
     rbind (urlsplit (ev_pre_close_url ev)) (\<lambda>pre.
     rbind (urlsplit (ev_reopened_url ev)) (\<lambda>reopened.
     let pre_host = lower (ur_netloc pre) in
     rbind (guard (pre_host \<noteq> [] \<and> pre_host = lower (ur_netloc reopened))
       (CapabilityProvenanceError ''page-close evidence hosts are missing or inconsistent'')) (\<lambda>_.
     let scope_host = lower (strip (or_text (ev_scope_host ev) pre_host)) in
     rbind (guard (scope_host = pre_host)
       (CapabilityProvenanceError ''declared capability scope does not match evidence host'')) (\<lambda>_.
     rbind (required ''evidence is missing browser_family provenance'' (ev_browser_family ev)) (\<lambda>family.
     rbind (required ''evidence is missing browser_major provenance'' (ev_browser_major ev)) (\<lambda>major.
     rbind (required ''evidence is missing platform provenance'' (ev_platform ev)) (\<lambda>platform.
     rbind (required ''evidence is missing observation surface provenance'' (ev_surface ev)) (\<lambda>surface.
     normalized_context scope_host family major platform surface))))))))"

fun pc_value :: "page_capability_kind \<Rightarrow> string" where
  "pc_value PC_GENERATION = ''page_close_generation''"
| "pc_value PC_TOOL_EXECUTION = ''page_close_tool''"

definition capability_id :: "(string \<Rightarrow> string) \<Rightarrow> page_capability_kind \<Rightarrow> string \<Rightarrow> capability_context \<Rightarrow> string \<Rightarrow> string" where
  "capability_id sha256 kind digest cx isolation_mode =
     ''cap_'' @ take 20 (sha256 (join ''|'' [pc_value kind, digest, cx_scope_host cx, cx_browser_family cx,
       str_int (cx_browser_major cx), cx_platform cx, cx_surface cx, isolation_mode, PAGE_CLOSE_EVALUATOR_VERSION]))"

text \<open>The dictionaries of the metadata are kept as their text; \<open>show_checks\<close> is \<^verbatim>\<open>str\<close> of such a dictionary.\<close>

definition show_checks :: "(string \<times> bool) list \<Rightarrow> string" where
  "show_checks cs = ''{'' @ join '', '' (map (\<lambda>(n, v). py_repr n @ '': '' @ py_bool v) cs) @ ''}''"

definition capability_record ::
  "(string \<Rightarrow> string) \<Rightarrow> page_close_evidence \<Rightarrow> page_close_evaluation \<Rightarrow> capability_context \<Rightarrow> string \<Rightarrow> timestamp \<Rightarrow> timestamp
     \<Rightarrow> timestamp \<Rightarrow> page_capability_kind \<Rightarrow> page_capability_record" where
  "capability_record sha256 ev pe cx digest observed_at recorded_at expires_at kind =
     \<lparr>cap_id = capability_id sha256 kind digest cx (ev_isolation_mode ev), cap_kind = kind, cap_scope_host = cx_scope_host cx,
      cap_browser_family = cx_browser_family cx, cap_browser_major = cx_browser_major cx, cap_platform = cx_platform cx,
      cap_surface = cx_surface cx, cap_isolation_mode = ev_isolation_mode ev,
      cap_evaluator_version = PAGE_CLOSE_EVALUATOR_VERSION, cap_evidence_digest = digest,
      cap_source_experiment_id = ev_experiment_id ev, cap_observed_at = observed_at, cap_recorded_at = recorded_at,
      cap_expires_at = expires_at,
      cap_metadata = [(''generation_checks'', JOther True (show_checks (pe_checks pe))),
        (''tool_checks'', JOther True (show_checks (pe_tool_checks pe))),
        (''generation_safe'', JBool (pe_generation_parking_safe pe)),
        (''tool_execution_safe'', JBool (pe_tool_execution_parking_safe pe))]\<rparr>"

definition build_page_close_capabilities ::
  "(string \<Rightarrow> string) \<Rightarrow> (page_close_evidence \<Rightarrow> string) \<Rightarrow> page_close_evidence \<Rightarrow> real \<Rightarrow> timestamp \<Rightarrow> page_capability_record list result" where
  "build_page_close_capabilities sha256 dump ev ttl_s recorded_at =
     rbind (evaluate_page_close_evidence ev) (\<lambda>pe.
     rbind (guard (pe_generation_parking_safe pe)
       (CapabilityProvenanceError (''generation page-close gate failed: '' @ join '', '' (pe_blockers pe)))) (\<lambda>_.
     rbind (guard (case ev_observed_at ev of None \<Rightarrow> False | Some t \<Rightarrow> 0 < t)
       (CapabilityProvenanceError ''durable capability import requires the experiment's actual observed_at timestamp'')) (\<lambda>_.
     rbind (context_from_evidence ev) (\<lambda>cx.
     let observed_at = the (ev_observed_at ev) in
     rbind (guard (observed_at \<le> recorded_at + 30)
       (CapabilityProvenanceError ''capability evidence timestamp is implausibly in the future'')) (\<lambda>_.
     let ttl = min MAX_CAPABILITY_TTL_S (max 60 ttl_s);
         digest = sha256 (dump ev);
         kinds = PC_GENERATION # (if pe_tool_execution_parking_safe pe then [PC_TOOL_EXECUTION] else []) in
     Inr (map (capability_record sha256 ev pe cx digest observed_at recorded_at (observed_at + ttl)) kinds))))))"

definition context_checks ::
  "page_capability_record \<Rightarrow> capability_context \<Rightarrow> page_capability_kind \<Rightarrow> timestamp \<Rightarrow> (string \<times> bool) list" where
  "context_checks c cx expected_kind now =
     [(''kind'', cap_kind c = expected_kind),
      (''evaluator_version'', cap_evaluator_version c = PAGE_CLOSE_EVALUATOR_VERSION),
      (''scope_host'', lower (cap_scope_host c) = lower (cx_scope_host cx)),
      (''browser_family'', lower (cap_browser_family c) = lower (cx_browser_family cx)),
      (''browser_major'', cap_browser_major c = cx_browser_major cx),
      (''platform'', lower (cap_platform c) = lower (cx_platform cx)),
      (''surface'', lower (cap_surface c) = lower (cx_surface cx)),
      (''fresh'', cap_is_fresh c now)]"

definition capability_matches_context ::
  "page_capability_record \<Rightarrow> capability_context \<Rightarrow> page_capability_kind \<Rightarrow> timestamp \<Rightarrow> bool \<times> string list" where
  "capability_matches_context c cx expected_kind now =
     (let blockers = failed_checks (context_checks c cx expected_kind now) in (blockers = [], blockers))"

definition runtime_context :: "int \<Rightarrow> string \<Rightarrow> capability_context result" where
  "runtime_context browser_major scope_host =
     normalized_context scope_host PAGE_CAPABILITY_BROWSER browser_major PAGE_CAPABILITY_PLATFORM PAGE_CAPABILITY_SURFACE"

section \<open>What a capability proves\<close>

lemma failed_checks_Nil: "failed_checks cs = [] \<longleftrightarrow> list_all snd cs"
  by (auto simp: failed_checks_def filter_empty_conv list_all_iff)

lemma built_capability:
  assumes "build_page_close_capabilities sha256 dump ev ttl_s recorded_at = Inr cs" and "c \<in> set cs"
  obtains pe cx t where "evaluate_page_close_evidence ev = Inr pe" "pe_generation_parking_safe pe" "ev_observed_at ev = Some t" "0 < t"
    "context_from_evidence ev = Inr cx" "t \<le> recorded_at + 30" "cap_kind c = PC_TOOL_EXECUTION \<Longrightarrow> pe_tool_execution_parking_safe pe"
    "c = capability_record sha256 ev pe cx (sha256 (dump ev)) t recorded_at (t + min MAX_CAPABILITY_TTL_S (max 60 ttl_s)) (cap_kind c)"
proof -
  from assms obtain pe cx where pe: "evaluate_page_close_evidence ev = Inr pe" "pe_generation_parking_safe pe"
      and t: "case ev_observed_at ev of None \<Rightarrow> False | Some t \<Rightarrow> 0 < t" and cx: "context_from_evidence ev = Inr cx"
      and due: "the (ev_observed_at ev) \<le> recorded_at + 30"
      and cs: "cs = map (capability_record sha256 ev pe cx (sha256 (dump ev)) (the (ev_observed_at ev)) recorded_at
        (the (ev_observed_at ev) + min MAX_CAPABILITY_TTL_S (max 60 ttl_s)))
        (PC_GENERATION # (if pe_tool_execution_parking_safe pe then [PC_TOOL_EXECUTION] else []))"
    by (auto simp: build_page_close_capabilities_def Let_def)
  from t obtain o1 where o1: "ev_observed_at ev = Some o1" "0 < o1" by (auto split: option.splits)
  from cs assms(2) obtain k where k: "k \<in> set (PC_GENERATION # (if pe_tool_execution_parking_safe pe then [PC_TOOL_EXECUTION] else []))"
      "c = capability_record sha256 ev pe cx (sha256 (dump ev)) o1 recorded_at (o1 + min MAX_CAPABILITY_TTL_S (max 60 ttl_s)) k"
    using o1 by auto
  moreover have "cap_kind c = k" using k(2) by (simp add: capability_record_def)
  ultimately show thesis using pe cx due o1 by (intro that [of pe o1 cx]) (auto split: if_splits)
qed

lemma evaluation_exact:
  assumes "evaluate_page_close_evidence ev = Inr pe"
  obtains pre re where "normalize_url (ev_pre_close_url ev) = Inr pre" "normalize_url (ev_reopened_url ev) = Inr re"
    "pe_generation_parking_safe pe = list_all snd (generation_checks ev pre re)"
    "pe_tool_execution_parking_safe pe = list_all snd (tool_checks ev (pe_generation_parking_safe pe))"
proof -
  from assms obtain pre re where "normalize_url (ev_pre_close_url ev) = Inr pre" "normalize_url (ev_reopened_url ev) = Inr re"
    by (auto simp: evaluate_page_close_evidence_def)
  with assms show thesis
    by (intro that) (auto simp: evaluate_page_close_evidence_def Let_def failed_checks_Nil)
qed

lemma capability_evidence:
  assumes "build_page_close_capabilities sha256 dump ev ttl_s recorded_at = Inr cs" and "c \<in> set cs"
  shows "ev_normally_authenticated ev \<and> \<not> ev_auth_material_copied ev \<and> ev_pre_close_generating ev \<and> ev_close_while_live_confirmed ev
      \<and> normalize_url (ev_pre_close_url ev) = normalize_url (ev_reopened_url ev) \<and> ev_same_conversation_after_reopen ev
      \<and> ev_pre_close_signature ev \<noteq> ev_post_reopen_signature ev \<and> \<not> ev_duplicate_turn_observed ev"
    and "(ev_isolation_mode ev = ''dedicated_profile'' \<and> ev_disposable_profile ev)
      \<or> (ev_isolation_mode ev = ''existing_profile_disposable_window'' \<and> ev_exact_window_binding_confirmed ev
          \<and> ev_current_user_conversation_excluded ev)"
    and "cap_kind c = PC_TOOL_EXECUTION \<longrightarrow> ev_tool_running_at_close ev \<and> ev_tool_completed_after_close ev
      \<and> ev_tool_final_response_after_reopen ev \<and> ev_tool_job_identity_confirmed ev"
    and "ev_observed_at ev = Some (cap_observed_at c) \<and> cap_expires_at c \<le> cap_observed_at c + 604800"
    and "cap_browser_family c = ''chrome'' \<and> cap_platform c = ''windows'' \<and> cap_surface c = ''normal_chrome_uia'' \<and> 0 < cap_browser_major c"
proof -
  obtain pe cx t where pe: "evaluate_page_close_evidence ev = Inr pe" "pe_generation_parking_safe pe"
      and tool: "cap_kind c = PC_TOOL_EXECUTION \<Longrightarrow> pe_tool_execution_parking_safe pe" and t: "ev_observed_at ev = Some t"
      and cx: "context_from_evidence ev = Inr cx"
      and c: "c = capability_record sha256 ev pe cx (sha256 (dump ev)) t recorded_at (t + min MAX_CAPABILITY_TTL_S (max 60 ttl_s)) (cap_kind c)"
    using built_capability [OF assms] by metis
  obtain pre re where urls: "normalize_url (ev_pre_close_url ev) = Inr pre" "normalize_url (ev_reopened_url ev) = Inr re"
      and gen: "list_all snd (generation_checks ev pre re)"
      and tools: "pe_tool_execution_parking_safe pe = list_all snd (tool_checks ev (pe_generation_parking_safe pe))"
    using evaluation_exact [OF pe(1)] pe(2) by metis
  note gen = gen [unfolded generation_checks_def isolation_checks_def]
  show "ev_normally_authenticated ev \<and> \<not> ev_auth_material_copied ev \<and> ev_pre_close_generating ev \<and> ev_close_while_live_confirmed ev
      \<and> normalize_url (ev_pre_close_url ev) = normalize_url (ev_reopened_url ev) \<and> ev_same_conversation_after_reopen ev
      \<and> ev_pre_close_signature ev \<noteq> ev_post_reopen_signature ev \<and> \<not> ev_duplicate_turn_observed ev"
    using gen urls by (auto split: option.splits)
  show "(ev_isolation_mode ev = ''dedicated_profile'' \<and> ev_disposable_profile ev)
      \<or> (ev_isolation_mode ev = ''existing_profile_disposable_window'' \<and> ev_exact_window_binding_confirmed ev
          \<and> ev_current_user_conversation_excluded ev)"
    using gen by (auto simp: page_isolation_mode_of_def split: option.splits if_splits)
  show "cap_kind c = PC_TOOL_EXECUTION \<longrightarrow> ev_tool_running_at_close ev \<and> ev_tool_completed_after_close ev
      \<and> ev_tool_final_response_after_reopen ev \<and> ev_tool_job_identity_confirmed ev"
    using tool tools by (auto simp: tool_checks_def)
  have "cap_observed_at c = t" "cap_expires_at c = t + min MAX_CAPABILITY_TTL_S (max 60 ttl_s)"
    by (subst c, simp add: capability_record_def)+
  then show "ev_observed_at ev = Some (cap_observed_at c) \<and> cap_expires_at c \<le> cap_observed_at c + 604800"
    using t by (simp add: MAX_CAPABILITY_TTL_S_def)
  have "cap_browser_family c = cx_browser_family cx" "cap_platform c = cx_platform cx" "cap_surface c = cx_surface cx"
      "cap_browser_major c = cx_browser_major cx"
    by (subst c, simp add: capability_record_def)+
  moreover have "cx_browser_family cx = ''chrome'' \<and> cx_platform cx = ''windows'' \<and> cx_surface cx = ''normal_chrome_uia''
      \<and> 0 < cx_browser_major cx"
    using cx by (auto simp: context_from_evidence_def normalized_context_def Let_def PAGE_CAPABILITY_BROWSER_def
        PAGE_CAPABILITY_PLATFORM_def PAGE_CAPABILITY_SURFACE_def)
  ultimately show "cap_browser_family c = ''chrome'' \<and> cap_platform c = ''windows'' \<and> cap_surface c = ''normal_chrome_uia''
      \<and> 0 < cap_browser_major c" by simp
qed

text \<open>C28. A capability record exists only for evidence of an isolated, normally authenticated experiment whose page was
  closed while it was generating and came back under the same URL with progress and without a second turn; a record for
  tool execution needs the tool evidence as well. It is in force from the time of the experiment for at most a week, and
  only for Chrome on Windows with the host of the experiment.\<close>

theorem capability_needs_evidence:
  assumes "build_page_close_capabilities sha256 dump ev ttl_s recorded_at = Inr cs" and "c \<in> set cs"
  shows "(ev_normally_authenticated ev \<and> \<not> ev_auth_material_copied ev \<and> ev_pre_close_generating ev \<and> ev_close_while_live_confirmed ev
      \<and> normalize_url (ev_pre_close_url ev) = normalize_url (ev_reopened_url ev) \<and> ev_same_conversation_after_reopen ev
      \<and> ev_pre_close_signature ev \<noteq> ev_post_reopen_signature ev \<and> \<not> ev_duplicate_turn_observed ev)
    \<and> ((ev_isolation_mode ev = ''dedicated_profile'' \<and> ev_disposable_profile ev)
      \<or> (ev_isolation_mode ev = ''existing_profile_disposable_window'' \<and> ev_exact_window_binding_confirmed ev
          \<and> ev_current_user_conversation_excluded ev))
    \<and> (cap_kind c = PC_TOOL_EXECUTION \<longrightarrow> ev_tool_running_at_close ev \<and> ev_tool_completed_after_close ev
      \<and> ev_tool_final_response_after_reopen ev \<and> ev_tool_job_identity_confirmed ev)
    \<and> (ev_observed_at ev = Some (cap_observed_at c) \<and> cap_expires_at c \<le> cap_observed_at c + 604800)
    \<and> (cap_browser_family c = ''chrome'' \<and> cap_platform c = ''windows'' \<and> cap_surface c = ''normal_chrome_uia'' \<and> 0 < cap_browser_major c)"
  by (intro conjI capability_evidence [OF assms])

definition demo_evidence :: page_close_evidence where
  "demo_evidence = \<lparr>ev_experiment_id = ''e1'', ev_disposable_profile = True, ev_normally_authenticated = True,
     ev_auth_material_copied = False, ev_pre_close_url = ''https://chatgpt.com/c/1'', ev_reopened_url = ''https://ChatGPT.com/c/1/'',
     ev_pre_close_generating = True, ev_close_while_live_confirmed = True, ev_background_progress_observed = True,
     ev_completion_evidence_after_reopen = True, ev_same_conversation_after_reopen = True, ev_duplicate_turn_observed = False,
     ev_auth_still_valid_after_reopen = True, ev_pre_close_signature = Some ''a'', ev_post_reopen_signature = Some ''b'',
     ev_notes = [], ev_isolation_mode = ''dedicated_profile'', ev_exact_window_binding_confirmed = False,
     ev_current_user_conversation_excluded = False, ev_tool_execution_observed = True, ev_tool_job_identity_confirmed = True,
     ev_tool_running_at_close = True, ev_tool_completed_after_close = True, ev_tool_final_response_after_reopen = True,
     ev_observed_at = Some 100, ev_scope_host = None, ev_browser_family = Some ''Chrome'', ev_browser_major = Some 120,
     ev_platform = Some ''win32'', ev_surface = Some ''normal_chrome_uia''\<rparr>"

theorem capability_needs_evidence_witness:
  "\<exists>cs c. build_page_close_capabilities (\<lambda>s. s) ev_experiment_id demo_evidence 3600 110 = Inr cs \<and> c \<in> set cs
    \<and> cap_kind c = PC_TOOL_EXECUTION \<and> cap_expires_at c \<le> cap_observed_at c + 604800"
proof -
  let ?r = "build_page_close_capabilities (\<lambda>s. s) ev_experiment_id demo_evidence 3600 110"
  have "(case ?r of Inl e \<Rightarrow> False | Inr cs \<Rightarrow> map cap_kind cs = [PC_GENERATION, PC_TOOL_EXECUTION])" by code_simp
  then obtain cs where cs: "?r = Inr cs" "map cap_kind cs = [PC_GENERATION, PC_TOOL_EXECUTION]" by (auto split: sum.splits)
  from cs(2) obtain b c where c: "cs = [b, c]" "cap_kind c = PC_TOOL_EXECUTION" by (auto simp: map_eq_Cons_conv)
  with capability_needs_evidence [OF cs(1), of c] cs show ?thesis by auto
qed

end
