(* ===== verification/Orchestration.thy ===== *)
theory Orchestration
  imports Page_Close Actions Probe_Ops "HOL-Library.Product_Lexorder"
begin

text \<open>
  The advisory orchestration policy (\<^verbatim>\<open>orchestration.py\<close>): what to do with one task, and which tasks of a batch
  are served in a cycle. The gates of a task are taken in the order of the code; each adds its checks and
  either ends the evaluation with a decision or passes the checks on.
\<close>

section \<open>Inputs and decisions\<close>

datatype orchestration_kind = OD_OBSERVE | OD_RECONCILE | OD_RECOMMEND_ACTION | OD_WAIT_COOLDOWN | OD_BLOCKED_HUMAN

fun od_value :: "orchestration_kind \<Rightarrow> string" where
  "od_value OD_OBSERVE = ''observe''"
| "od_value OD_RECONCILE = ''reconcile''"
| "od_value OD_RECOMMEND_ACTION = ''recommend-action''"
| "od_value OD_WAIT_COOLDOWN = ''wait/cooldown''"
| "od_value OD_BLOCKED_HUMAN = ''blocked/human''"

record orchestration_policy =
  op_max_lsm_observation_age_s :: real
  op_max_workspace_observation_age_s :: real
  op_max_reconciliation_age_s :: real
  op_min_reconciliation_separation_s :: real
  op_recovery_cooldown_s :: real
  op_base_backoff_s :: real
  op_max_backoff_s :: real
  op_max_selected_tasks :: int

definition default_orchestration_policy :: orchestration_policy where
  "default_orchestration_policy = \<lparr>op_max_lsm_observation_age_s = 30, op_max_workspace_observation_age_s = 30,
     op_max_reconciliation_age_s = 120, op_min_reconciliation_separation_s = 3, op_recovery_cooldown_s = 60,
     op_base_backoff_s = 5, op_max_backoff_s = 60, op_max_selected_tasks = 1\<rparr>"

record orchestration_input =
  oi_task :: task_record
  oi_assessment :: assessment
  oi_worker :: "worker_record option"
  oi_lsm :: "lsm_observation option"
  oi_workspace :: "workspace_observation option"
  oi_previous_reconciliation :: "reconciliation_record option"
  oi_current_reconciliation :: "reconciliation_record option"
  oi_unresolved_action :: "action_attempt option"
  oi_unresolved_probe_mutation :: "probe_mutation_operation option"
  oi_worker_lease_expires_at :: "timestamp option"
  oi_last_recovery_at :: "timestamp option"
  oi_last_scheduled_at :: "timestamp option"
  oi_consecutive_waits :: int
  oi_requires_exact_window_binding :: bool
  oi_window_binding :: "worker_window_binding option"
  oi_page_continuity_relevant :: bool
  oi_page_capability :: "page_capability_record option"
  oi_capability_context :: "capability_context option"
  oi_page_capability_kind :: page_capability_kind
  oi_reconcile_blockers :: "string list"
  oi_human_blockers :: "string list"
  oi_scheduling_history_known :: bool

record orchestration_decision =
  od_task_id :: string
  od_kind :: orchestration_kind
  od_reason :: string
  od_selected :: bool
  od_retry_after_s :: "real option"
  od_checks :: "(string \<times> bool) list"
  od_blockers :: "string list"
  od_deferred_kind :: "orchestration_kind option"
  od_mutation_allowed :: bool

definition recovery_states :: "supervisor_state set" where
  "recovery_states = {SS_SUSPECT, SS_RECONCILING, SS_RECOVERING}"

definition bounded_backoff :: "orchestration_policy \<Rightarrow> int \<Rightarrow> real" where
  "bounded_backoff policy waits =
     (let base = max (1 / 10) (op_base_backoff_s policy); maximum = max base (op_max_backoff_s policy)
      in min maximum (base * 2 ^ nat (min 16 (max 0 waits))))"

definition decide ::
  "orchestration_input \<Rightarrow> orchestration_kind \<Rightarrow> string \<Rightarrow> string list \<Rightarrow> real option \<Rightarrow> (string \<times> bool) list \<Rightarrow> orchestration_decision" where
  "decide item kind reason blockers retry cs = \<lparr>od_task_id = tk_task_id (oi_task item), od_kind = kind, od_reason = reason,
     od_selected = False, od_retry_after_s = retry, od_checks = cs, od_blockers = blockers, od_deferred_kind = None,
     od_mutation_allowed = False\<rparr>"

section \<open>The gates of a task\<close>

type_synonym checks = "(string \<times> bool) list"
type_synonym gate = "checks \<Rightarrow> (checks \<Rightarrow> orchestration_decision) \<Rightarrow> orchestration_decision"

definition state_gate :: "orchestration_input \<Rightarrow> real \<Rightarrow> gate" where
  "state_gate item backoff cs pass =
     (let t = tk_state (oi_task item); a = as_state (oi_assessment item) in
      if t \<in> {SS_BLOCKED, SS_NEEDS_HUMAN}
      then decide item OD_BLOCKED_HUMAN (''durable task state '' @ ss_value t @ '' requires explicit human resolution'') [] None cs
      else if a \<in> {SS_BLOCKED, SS_NEEDS_HUMAN}
      then decide item OD_BLOCKED_HUMAN (''current assessment '' @ ss_value a @ '' requires explicit human resolution'') [] None cs
      else if t \<in> {SS_COMPLETED, SS_ABANDONED} \<or> a \<in> {SS_COMPLETED, SS_ABANDONED}
      then decide item OD_OBSERVE ''task is terminal; no recovery scheduling is appropriate'' [] None cs
      else if a \<in> {SS_RUNNING, SS_STARTING, SS_QUEUED}
      then decide item OD_OBSERVE ''current assessment still indicates live or not-yet-stalled work'' [] (Some backoff) cs
      else if t \<notin> recovery_states \<and> a \<notin> recovery_states
      then decide item OD_OBSERVE ''task is not in a recovery-eligible state'' [] (Some backoff) cs
      else pass cs)"

text \<open>Unresolved mutations, the recovery budget and the blockers found elsewhere.\<close>

definition exclusion_gate :: "orchestration_input \<Rightarrow> real \<Rightarrow> gate" where
  "exclusion_gate item backoff cs pass =
     (let task = oi_task item;
          probe_free = (case oi_unresolved_probe_mutation item of None \<Rightarrow> True | Some p \<Rightarrow> \<not> ps_pending (po_state p));
          action_free = (case oi_unresolved_action item of None \<Rightarrow> True | Some a \<Rightarrow> aa_state a \<notin> set UNRESOLVED_ACTION_STATES);
          budget = (tk_recovery_attempts task < tk_max_recovery_attempts task);
          cs = cs @ [(''no_unresolved_probe_mutation'', probe_free)] in
      if \<not> probe_free
      then (let p = the (oi_unresolved_probe_mutation item) in decide item OD_BLOCKED_HUMAN
        ''a global probe-window mutation outcome is unresolved; do not overlap recovery mutation''
        [''unresolved probe mutation '' @ po_operation_id p @ '' is '' @ ps_value (po_state p)] None cs)
      else let cs = cs @ [(''no_unresolved_action_attempt'', action_free)] in
      if \<not> action_free
      then (let a = the (oi_unresolved_action item) in decide item OD_BLOCKED_HUMAN
        ''a prior external action outcome is unresolved; never replay an ambiguous action''
        [''unresolved action attempt '' @ aa_attempt_id a @ '' is '' @ aa_value (aa_state a)] None cs)
      else let cs = cs @ [(''recovery_budget_available'', budget)] in
      if \<not> budget
      then decide item OD_BLOCKED_HUMAN ''recovery budget is exhausted'' [''recovery-attempt budget exhausted''] None cs
      else let cs = cs @ [(''no_external_human_blockers'', oi_human_blockers item = [])] in
      if oi_human_blockers item \<noteq> []
      then decide item OD_BLOCKED_HUMAN ''external durable evidence requires explicit human resolution'' (oi_human_blockers item) None cs
      else let cs = cs @ [(''no_external_reconcile_blockers'', oi_reconcile_blockers item = [])] in
      if oi_reconcile_blockers item \<noteq> []
      then decide item OD_RECONCILE ''external durable evidence must be reconciled before recovery'' (oi_reconcile_blockers item)
        (Some backoff) cs
      else pass cs)"

definition lsm_gate :: "orchestration_policy \<Rightarrow> timestamp \<Rightarrow> orchestration_input \<Rightarrow> real \<Rightarrow> gate" where
  "lsm_gate policy now item backoff cs pass =
     (let task = oi_task item;
          found = (case oi_lsm item of None \<Rightarrow> False
            | Some l \<Rightarrow> lo_task_id l = tk_task_id task \<and> lo_session_id l = tk_lsm_session_id task);
          cs = cs @ [(''lsm_present'', found)] in
      if \<not> found
      then decide item OD_RECONCILE ''durable LSM session evidence is missing or belongs to another session'' [] (Some backoff) cs
      else let l = the (oi_lsm item); fresh = fresh_within now (lo_observed_at l) (op_max_lsm_observation_age_s policy);
        cs = cs @ [(''lsm_fresh'', fresh)] in
      if \<not> fresh
      then decide item OD_RECONCILE ''LSM evidence is stale; refresh durable runtime state before recovery'' [] (Some backoff) cs
      else if lo_session_status l \<in> {Some ''completed'', Some ''cancelled''}
      then decide item OD_OBSERVE (''durable LSM session is already '' @ the (lo_session_status l)) [] None cs
      else if lo_plan_status l = Some ''blocked''
      then decide item OD_BLOCKED_HUMAN ''durable Goal plan is blocked'' [] None cs
      else let cs = cs @ [(''lsm_no_inflight_calls'', lo_in_flight_calls l = 0), (''lsm_no_active_jobs'', lo_active_jobs l = 0),
        (''lsm_no_continuation_pending'', lo_continuation_pending l \<noteq> Some True)] in
      if lo_in_flight_calls l \<noteq> 0 \<or> lo_active_jobs l \<noteq> 0
      then decide item OD_OBSERVE ''durable Local Shell work is still active; do not compete with it'' [] (Some backoff) cs
      else if lo_continuation_pending l = Some True
      then decide item OD_OBSERVE ''LSM continuation is already pending; supervisor must not race it'' [] (Some backoff) cs
      else pass cs)"

text \<open>\<^verbatim>\<open>cwd.replace("\\", "/").rstrip("/").casefold()\<close>.\<close>

definition folded_cwd :: "string \<Rightarrow> string" where
  "folded_cwd s = casefold (rstrip_slash (map (\<lambda>c. if c = CHR 0x5C then CHR ''/'' else c) s))"

definition workspace_gate :: "orchestration_policy \<Rightarrow> timestamp \<Rightarrow> orchestration_input \<Rightarrow> real \<Rightarrow> gate" where
  "workspace_gate policy now item backoff cs pass =
     (let task = oi_task item; cs = cs @ [(''workspace_present'', oi_workspace item \<noteq> None)] in
      case oi_workspace item of
        None \<Rightarrow> decide item OD_RECONCILE ''workspace/Git evidence is missing'' [] (Some backoff) cs
      | Some w \<Rightarrow>
          let same_task = (wo_task_id w = tk_task_id task); same_cwd = (folded_cwd (wo_cwd w) = folded_cwd (tk_cwd task));
              cs = cs @ [(''workspace_task_matches'', same_task), (''workspace_cwd_matches'', same_cwd)] in
          if \<not> same_task \<or> \<not> same_cwd
          then decide item OD_RECONCILE ''workspace evidence belongs to a different task or working directory'' [] (Some backoff) cs
          else let fresh = fresh_within now (wo_observed_at w) (op_max_workspace_observation_age_s policy);
            cs = cs @ [(''workspace_fresh'', fresh)] in
          if \<not> fresh then decide item OD_RECONCILE ''workspace/Git evidence is stale'' [] (Some backoff) cs
          else let cs = cs @ [(''workspace_exists'', wo_cwd_exists w)] in
          if \<not> wo_cwd_exists w then decide item OD_BLOCKED_HUMAN ''registered workspace no longer exists'' [] None cs
          else let cs = cs @ [(''workspace_probe_clean'', wo_error w = None)] in
          if wo_error w \<noteq> None then decide item OD_RECONCILE ''workspace/Git probe reported an error'' [] (Some backoff) cs
          else let head = json_get (tk_checkpoint task) ''git_head'';
            matching = (\<not> json_truthy head \<or> (wo_git_head w \<noteq> None \<and> Some (json_str head) = wo_git_head w));
            cs = cs @ [(''checkpoint_git_head_matches'', matching)] in
          if \<not> matching
          then decide item OD_RECONCILE ''Git HEAD changed relative to the durable task checkpoint'' [] (Some backoff) cs
          else pass cs)"

definition worker_current :: "orchestration_input \<Rightarrow> bool" where
  "worker_current item = (case oi_worker item of None \<Rightarrow> False
     | Some w \<Rightarrow> present (tk_current_worker_id (oi_task item)) \<and> Some (wk_worker_id w) = tk_current_worker_id (oi_task item)
         \<and> wk_task_id w = tk_task_id (oi_task item))"

definition worker_gate :: "timestamp \<Rightarrow> orchestration_input \<Rightarrow> real \<Rightarrow> gate" where
  "worker_gate now item backoff cs pass =
     (let active = (case oi_worker item of None \<Rightarrow> False | Some w \<Rightarrow> wk_status w = WS_ACTIVE);
          lease = (case oi_worker_lease_expires_at item of None \<Rightarrow> False | Some t \<Rightarrow> now < t);
          cs = cs @ [(''worker_present'', oi_worker item \<noteq> None), (''worker_is_current'', worker_current item),
            (''worker_active'', active), (''worker_lease_fresh'', lease)] in
      if \<not> (oi_worker item \<noteq> None \<and> worker_current item \<and> active \<and> lease)
      then decide item OD_RECONCILE ''current worker lease is missing, stale, or no longer owns the task'' [] (Some backoff) cs
      else pass cs)"

definition cooldown_gate :: "orchestration_policy \<Rightarrow> timestamp \<Rightarrow> orchestration_input \<Rightarrow> real \<Rightarrow> gate" where
  "cooldown_gate policy now item backoff cs pass =
     (case oi_last_recovery_at item of
        None \<Rightarrow> pass (cs @ [(''recovery_cooldown_elapsed'', True)])
      | Some t \<Rightarrow>
          if now - t < 0
          then decide item OD_RECONCILE ''recorded recovery timestamp is in the future'' [] (Some backoff) cs
          else let remaining = max 0 (op_recovery_cooldown_s policy - (now - t));
            cs = cs @ [(''recovery_cooldown_elapsed'', remaining \<le> 0)] in
          if 0 < remaining
          then decide item OD_WAIT_COOLDOWN ''recovery cooldown has not elapsed'' []
            (Some (min remaining (max (1 / 10) (op_max_backoff_s policy)))) cs
          else pass cs)"

definition sample_checks ::
  "orchestration_policy \<Rightarrow> timestamp \<Rightarrow> task_record \<Rightarrow> reconciliation_record \<Rightarrow> reconciliation_record \<Rightarrow> checks" where
  "sample_checks policy now task p c =
     [(''distinct_reconciliation_samples'', rr_reconcile_id p \<noteq> rr_reconcile_id c),
      (''previous_reconciliation_fresh'', fresh_within now (rr_created_at p) (op_max_reconciliation_age_s policy)),
      (''current_reconciliation_fresh'', fresh_within now (rr_created_at c) (op_max_reconciliation_age_s policy)),
      (''reconciliation_separation_sufficient'',
         rr_created_at c - rr_created_at p \<ge> max 0 (op_min_reconciliation_separation_s policy)),
      (''reconciliation_fence_stable'', fence_matches p c),
      (''reconciliation_task_matches'', rr_task_id p = tk_task_id task \<and> rr_task_id c = tk_task_id task),
      (''reconciliation_worker_matches'',
         rr_current_worker_id c = tk_current_worker_id task \<and> rr_current_worker_id p = tk_current_worker_id task),
      (''reconciliation_state_recovery_eligible'', rr_state p \<in> ss_value ` recovery_states \<and> rr_state c \<in> ss_value ` recovery_states
         \<and> rr_requires_reconcile p \<and> rr_requires_reconcile c)]"

definition sample_gate :: "orchestration_policy \<Rightarrow> timestamp \<Rightarrow> orchestration_input \<Rightarrow> real \<Rightarrow> gate" where
  "sample_gate policy now item backoff cs pass =
     (let cs = cs @ [(''previous_reconciliation_present'', oi_previous_reconciliation item \<noteq> None),
        (''current_reconciliation_present'', oi_current_reconciliation item \<noteq> None)] in
      case (oi_previous_reconciliation item, oi_current_reconciliation item) of
        (Some p, Some c) \<Rightarrow>
          let sc = sample_checks policy now (oi_task item) p c in
          if \<not> list_all snd sc
          then decide item OD_RECONCILE ''semantic reconciliation is not yet stable and fresh across two samples'' [] (Some backoff) (cs @ sc)
          else pass (cs @ sc)
      | _ \<Rightarrow> decide item OD_RECONCILE ''two semantic reconciliation samples are required before recovery'' [] (Some backoff) cs)"

definition binding_checks :: "timestamp \<Rightarrow> orchestration_input \<Rightarrow> checks" where
  "binding_checks now item =
     (let of_binding = (\<lambda>f. case oi_window_binding item of None \<Rightarrow> False | Some b \<Rightarrow> f b);
          of_worker = (\<lambda>f. case oi_worker item of None \<Rightarrow> False | Some w \<Rightarrow> f w) in
      [(''window_binding_present'', oi_window_binding item \<noteq> None),
       (''window_binding_current_worker'', of_binding (\<lambda>b. of_worker (\<lambda>w. wb_worker_id b = wk_worker_id w))),
       (''window_binding_fresh'', of_binding (\<lambda>b. wb_is_fresh b now)),
       (''window_binding_url_matches'', of_binding (\<lambda>b. of_worker (\<lambda>w. wb_conversation_url b = wk_conversation_url w)))])"

definition binding_gate :: "timestamp \<Rightarrow> orchestration_input \<Rightarrow> real \<Rightarrow> gate" where
  "binding_gate now item backoff cs pass =
     (if \<not> oi_requires_exact_window_binding item then pass cs
      else let bc = binding_checks now item in
        if \<not> list_all snd bc
        then decide item OD_RECONCILE ''exact-window binding is missing or stale for the current worker'' [] (Some backoff) (cs @ bc)
        else pass (cs @ bc))"

definition capability_gate :: "timestamp \<Rightarrow> orchestration_input \<Rightarrow> gate" where
  "capability_gate now item cs pass =
     (if \<not> oi_page_continuity_relevant item then pass cs
      else let cs = cs @ [(''page_capability_present'', oi_page_capability item \<noteq> None \<and> oi_capability_context item \<noteq> None)] in
        case (oi_page_capability item, oi_capability_context item) of
          (Some c, Some cx) \<Rightarrow>
            let (ok, blockers) = capability_matches_context c cx (oi_page_capability_kind item) now;
                cs = cs @ [(''page_capability_matches_runtime'', ok)] in
            if \<not> ok
            then decide item OD_BLOCKED_HUMAN ''page-continuity capability provenance is stale or mismatched''
              (map (\<lambda>n. ''page capability check failed: '' @ n) blockers) None cs
            else pass cs
        | _ \<Rightarrow> decide item OD_BLOCKED_HUMAN ''page-continuity behavior lacks durable capability provenance''
              [''a dedicated accepted page-close/reopen experiment is required''] None cs)"

definition evaluate_task :: "orchestration_input \<Rightarrow> timestamp \<Rightarrow> orchestration_policy \<Rightarrow> orchestration_decision" where
  "evaluate_task item now policy =
     (let backoff = bounded_backoff policy (oi_consecutive_waits item) in
      state_gate item backoff [] (\<lambda>cs.
      exclusion_gate item backoff cs (\<lambda>cs.
      lsm_gate policy now item backoff cs (\<lambda>cs.
      workspace_gate policy now item backoff cs (\<lambda>cs.
      worker_gate now item backoff cs (\<lambda>cs.
      cooldown_gate policy now item backoff cs (\<lambda>cs.
      sample_gate policy now item backoff cs (\<lambda>cs.
      binding_gate now item backoff cs (\<lambda>cs.
      capability_gate now item cs (\<lambda>cs.
      decide item OD_RECOMMEND_ACTION
        ''all deterministic recovery gates are satisfied; surface an explicit action recommendation only'' [] None cs))))))))))"

section \<open>Planning a cycle\<close>

definition fairness_rank :: "supervisor_state \<Rightarrow> int" where
  "fairness_rank s = (if s = SS_RECOVERING then 0 else if s = SS_RECONCILING then 1 else if s = SS_SUSPECT then 2 else 99)"

definition fairness_key :: "orchestration_input \<Rightarrow> timestamp \<times> int \<times> string" where
  "fairness_key item = ((case oi_last_scheduled_at item of None \<Rightarrow> tk_created_at (oi_task item) | Some t \<Rightarrow> t),
     fairness_rank (tk_state (oi_task item)), tk_task_id (oi_task item))"

definition item_id :: "orchestration_input \<Rightarrow> string" where
  "item_id item = tk_task_id (oi_task item)"

text \<open>The first input of each task, by task, and the tasks that have more than one.\<close>

fun unique_items :: "orchestration_input list \<Rightarrow> orchestration_input list \<Rightarrow> orchestration_input list" where
  "unique_items [] acc = acc"
| "unique_items (x # xs) acc = unique_items xs (if item_id x \<in> item_id ` set acc then acc else acc @ [x])"

definition duplicate_ids :: "orchestration_input list \<Rightarrow> string set" where
  "duplicate_ids items = set (filter (\<lambda>i. 1 < length (filter (\<lambda>x. item_id x = i) items)) (map item_id items))"

definition canonical_items :: "orchestration_input list \<Rightarrow> orchestration_input list" where
  "canonical_items items = sort_key item_id (unique_items items [])"

definition mark_duplicate :: "string set \<Rightarrow> orchestration_decision \<Rightarrow> orchestration_decision" where
  "mark_duplicate dups d = (if od_task_id d \<in> dups
     then d\<lparr>od_kind := OD_RECONCILE, od_reason := ''duplicate orchestration inputs exist for one durable task; reconcile caller state'',
       od_selected := False, od_blockers := od_blockers d @ [''duplicate durable task input''], od_mutation_allowed := False\<rparr>
     else d)"

definition actionable_kinds :: "orchestration_kind set" where
  "actionable_kinds = {OD_RECONCILE, OD_RECOMMEND_ACTION}"

definition with_decisions ::
  "orchestration_input list \<Rightarrow> timestamp \<Rightarrow> orchestration_policy \<Rightarrow> (orchestration_input \<times> orchestration_decision) list" where
  "with_decisions items now policy =
     map (\<lambda>x. (x, mark_duplicate (duplicate_ids items) (evaluate_task x now policy))) (canonical_items items)"

definition servable :: "orchestration_input \<times> orchestration_decision \<Rightarrow> bool" where
  "servable xd = (od_kind (snd xd) \<in> actionable_kinds \<and> oi_scheduling_history_known (fst xd))"

definition selected_ids :: "orchestration_policy \<Rightarrow> (orchestration_input \<times> orchestration_decision) list \<Rightarrow> string list" where
  "selected_ids policy xds =
     map (\<lambda>xd. item_id (fst xd)) (take (nat (max 0 (op_max_selected_tasks policy)))
       (sort_key (\<lambda>xd. fairness_key (fst xd)) (filter servable xds)))"

definition schedule ::
  "orchestration_policy \<Rightarrow> string list \<Rightarrow> orchestration_input \<times> orchestration_decision \<Rightarrow> orchestration_decision" where
  "schedule policy selected xd =
     (let x = fst xd; d = snd xd in
      if od_kind d \<in> actionable_kinds \<and> \<not> oi_scheduling_history_known x
      then d\<lparr>od_kind := OD_WAIT_COOLDOWN,
        od_reason := ''scheduler selection withheld because durable scheduling history is unavailable; supply it explicitly to the adapter'',
        od_selected := False, od_retry_after_s := Some (max (1 / 10) (op_max_backoff_s policy)), od_deferred_kind := Some (od_kind d),
        od_blockers := od_blockers d @ [''durable scheduling history unavailable'']\<rparr>
      else if item_id x \<in> set selected then d\<lparr>od_selected := True\<rparr>
      else if servable xd
      then d\<lparr>od_kind := OD_WAIT_COOLDOWN,
        od_reason := ''fairness slot deferred '' @ od_value (od_kind d) @ ''; another recovery task has older scheduler service'',
        od_selected := False, od_retry_after_s := Some (bounded_backoff policy (oi_consecutive_waits x)),
        od_deferred_kind := Some (od_kind d)\<rparr>
      else d)"

definition plan_orchestration ::
  "orchestration_input list \<Rightarrow> timestamp \<Rightarrow> orchestration_policy \<Rightarrow> orchestration_decision list" where
  "plan_orchestration items now policy =
     (let xds = with_decisions items now policy in map (schedule policy (selected_ids policy xds)) xds)"

section \<open>When an action is recommended\<close>

text \<open>What the gates demand, as one condition on the evidence.\<close>

definition stalled :: "orchestration_input \<Rightarrow> bool" where
  "stalled item \<longleftrightarrow> tk_state (oi_task item) \<notin> {SS_BLOCKED, SS_NEEDS_HUMAN, SS_COMPLETED, SS_ABANDONED}
     \<and> as_state (oi_assessment item) \<in> recovery_states"

definition unencumbered :: "orchestration_input \<Rightarrow> bool" where
  "unencumbered item \<longleftrightarrow> (\<forall>p. oi_unresolved_probe_mutation item = Some p \<longrightarrow> \<not> ps_pending (po_state p))
     \<and> (\<forall>a. oi_unresolved_action item = Some a \<longrightarrow> \<not> aa_unresolved a)
     \<and> tk_recovery_attempts (oi_task item) < tk_max_recovery_attempts (oi_task item)
     \<and> oi_human_blockers item = [] \<and> oi_reconcile_blockers item = []"

definition session_idle :: "orchestration_policy \<Rightarrow> timestamp \<Rightarrow> orchestration_input \<Rightarrow> bool" where
  "session_idle policy now item \<longleftrightarrow> (\<exists>l. oi_lsm item = Some l \<and> lo_task_id l = tk_task_id (oi_task item)
     \<and> lo_session_id l = tk_lsm_session_id (oi_task item) \<and> fresh_within now (lo_observed_at l) (op_max_lsm_observation_age_s policy)
     \<and> lo_session_status l \<notin> {Some ''completed'', Some ''cancelled''} \<and> lo_plan_status l \<noteq> Some ''blocked''
     \<and> lo_in_flight_calls l = 0 \<and> lo_active_jobs l = 0 \<and> lo_continuation_pending l \<noteq> Some True)"

definition workspace_intact :: "orchestration_policy \<Rightarrow> timestamp \<Rightarrow> orchestration_input \<Rightarrow> bool" where
  "workspace_intact policy now item \<longleftrightarrow> (\<exists>w. oi_workspace item = Some w \<and> wo_task_id w = tk_task_id (oi_task item)
     \<and> folded_cwd (wo_cwd w) = folded_cwd (tk_cwd (oi_task item))
     \<and> fresh_within now (wo_observed_at w) (op_max_workspace_observation_age_s policy) \<and> wo_cwd_exists w \<and> wo_error w = None
     \<and> (json_truthy (json_get (tk_checkpoint (oi_task item)) ''git_head'')
         \<longrightarrow> wo_git_head w = Some (json_str (json_get (tk_checkpoint (oi_task item)) ''git_head''))))"

definition worker_in_charge :: "timestamp \<Rightarrow> orchestration_input \<Rightarrow> bool" where
  "worker_in_charge now item \<longleftrightarrow> (\<exists>w t. oi_worker item = Some w \<and> wk_status w = WS_ACTIVE \<and> wk_task_id w = tk_task_id (oi_task item)
     \<and> tk_current_worker_id (oi_task item) = Some (wk_worker_id w) \<and> wk_worker_id w \<noteq> []
     \<and> oi_worker_lease_expires_at item = Some t \<and> now < t)"

definition cooled_down :: "orchestration_policy \<Rightarrow> timestamp \<Rightarrow> orchestration_input \<Rightarrow> bool" where
  "cooled_down policy now item \<longleftrightarrow> (\<forall>t. oi_last_recovery_at item = Some t \<longrightarrow> t \<le> now \<and> t + op_recovery_cooldown_s policy \<le> now)"

definition stable_samples :: "orchestration_policy \<Rightarrow> timestamp \<Rightarrow> orchestration_input \<Rightarrow> bool" where
  "stable_samples policy now item \<longleftrightarrow> (\<exists>p c. oi_previous_reconciliation item = Some p \<and> oi_current_reconciliation item = Some c
     \<and> list_all snd (sample_checks policy now (oi_task item) p c))"

definition window_known :: "timestamp \<Rightarrow> orchestration_input \<Rightarrow> bool" where
  "window_known now item \<longleftrightarrow> oi_requires_exact_window_binding item \<longrightarrow> list_all snd (binding_checks now item)"

definition continuity_proven :: "timestamp \<Rightarrow> orchestration_input \<Rightarrow> bool" where
  "continuity_proven now item \<longleftrightarrow> oi_page_continuity_relevant item \<longrightarrow> (\<exists>c cx. oi_page_capability item = Some c
     \<and> oi_capability_context item = Some cx \<and> fst (capability_matches_context c cx (oi_page_capability_kind item) now))"

text \<open>A gate either passes some checks on or ends without a recommendation.\<close>

definition gated :: "gate \<Rightarrow> bool \<Rightarrow> bool" where
  "gated g is_open \<longleftrightarrow> (\<forall>cs pass. if is_open then (\<exists>cs'. g cs pass = pass cs') else od_kind (g cs pass) \<noteq> OD_RECOMMEND_ACTION)"

lemma gatedI:
  "(\<And>cs pass. is_open \<Longrightarrow> \<exists>cs'. g cs pass = pass cs') \<Longrightarrow> (\<And>cs pass. \<not> is_open \<Longrightarrow> od_kind (g cs pass) \<noteq> OD_RECOMMEND_ACTION)
    \<Longrightarrow> gated g is_open"
  by (simp add: gated_def)

lemma gated_kind:
  assumes "gated g is_open" and "\<And>cs. od_kind (pass cs) = OD_RECOMMEND_ACTION \<longleftrightarrow> rest"
  shows "od_kind (g cs pass) = OD_RECOMMEND_ACTION \<longleftrightarrow> is_open \<and> rest"
  using assms unfolding gated_def by (metis (full_types))

lemma decide_kind [simp]: "od_kind (decide item k r b t cs) = k"
  by (simp add: decide_def)

lemma state_gate_gated: "gated (state_gate item b) (stalled item)"
  by (rule gatedI; cases "tk_state (oi_task item)"; cases "as_state (oi_assessment item)")
    (auto simp: state_gate_def stalled_def recovery_states_def Let_def)

lemma exclusion_gate_gated: "gated (exclusion_gate item b) (unencumbered item)"
  by (rule gatedI) (auto simp: exclusion_gate_def unencumbered_def aa_unresolved_def Let_def split: option.splits if_splits)

lemma lsm_gate_gated: "gated (lsm_gate policy now item b) (session_idle policy now item)"
proof (cases "oi_lsm item")
  case (Some l)
  show ?thesis
  proof (rule gatedI)
    fix cs pass
    show "\<exists>cs'. lsm_gate policy now item b cs pass = pass cs'" if "session_idle policy now item"
      using that Some by (auto simp: lsm_gate_def session_idle_def Let_def)
    show "od_kind (lsm_gate policy now item b cs pass) \<noteq> OD_RECOMMEND_ACTION" if "\<not> session_idle policy now item"
      using that Some by (simp add: lsm_gate_def session_idle_def Let_def) blast
  qed
qed (simp add: gated_def lsm_gate_def session_idle_def)

lemma workspace_gate_gated: "gated (workspace_gate policy now item b) (workspace_intact policy now item)"
  by (rule gatedI) (auto simp: workspace_gate_def workspace_intact_def Let_def split: option.splits if_splits)

lemma worker_gate_gated: "gated (worker_gate now item b) (worker_in_charge now item)"
  by (rule gatedI) (auto simp: worker_gate_def worker_in_charge_def worker_current_def present_def Let_def split: option.splits if_splits)

lemma cooldown_gate_gated: "gated (cooldown_gate policy now item b) (cooled_down policy now item)"
  by (rule gatedI) (auto simp: cooldown_gate_def cooled_down_def Let_def split: option.splits if_splits)

lemma sample_gate_gated: "gated (sample_gate policy now item b) (stable_samples policy now item)"
  by (rule gatedI) (auto simp: sample_gate_def stable_samples_def Let_def split: option.splits if_splits)

lemma binding_gate_gated: "gated (binding_gate now item b) (window_known now item)"
  by (rule gatedI) (auto simp: binding_gate_def window_known_def Let_def split: if_splits)

lemma capability_gate_gated: "gated (capability_gate now item) (continuity_proven now item)"
  by (rule gatedI) (auto simp: capability_gate_def continuity_proven_def Let_def split_beta split: option.splits if_splits)

lemma recommendation_gates:
  "od_kind (evaluate_task item now policy) = OD_RECOMMEND_ACTION \<longleftrightarrow>
    stalled item \<and> unencumbered item \<and> session_idle policy now item \<and> workspace_intact policy now item \<and> worker_in_charge now item
    \<and> cooled_down policy now item \<and> stable_samples policy now item \<and> window_known now item \<and> continuity_proven now item"
  unfolding evaluate_task_def Let_def
  by (rule gated_kind [OF state_gate_gated], rule gated_kind [OF exclusion_gate_gated], rule gated_kind [OF lsm_gate_gated],
      rule gated_kind [OF workspace_gate_gated], rule gated_kind [OF worker_gate_gated], rule gated_kind [OF cooldown_gate_gated],
      rule gated_kind [OF sample_gate_gated], rule gated_kind [OF binding_gate_gated],
      simp add: gated_kind [OF capability_gate_gated, where rest = True])

text \<open>C29. An action is recommended for a task exactly when it is stalled, nothing about it is unresolved or blocked, its session
  is idle, its workspace intact, its worker in charge, the cooldown over, two reconciliation samples agree, its window is known
  and the continuity of its page is proven where it matters.\<close>

theorem recommendation_gates_exact:
  "od_kind (evaluate_task item now policy) = OD_RECOMMEND_ACTION \<longleftrightarrow>
    stalled item \<and> unencumbered item \<and> session_idle policy now item \<and> workspace_intact policy now item \<and> worker_in_charge now item
    \<and> cooled_down policy now item \<and> stable_samples policy now item \<and> window_known now item \<and> continuity_proven now item"
  by (rule recommendation_gates)

section \<open>What a cycle selects\<close>

lemma unique_items_ids:
  "distinct (map item_id acc) \<Longrightarrow> distinct (map item_id (unique_items xs acc)) \<and> set (unique_items xs acc) \<subseteq> set xs \<union> set acc
    \<and> item_id ` set (unique_items xs acc) = item_id ` (set xs \<union> set acc)"
proof (induction xs acc rule: unique_items.induct)
  case (2 x xs acc)
  then show ?case by (cases "item_id x \<in> item_id ` set acc") auto
qed auto

lemma canonical_items_ids:
  "distinct (map item_id (canonical_items items))" "sorted (map item_id (canonical_items items))"
  "item_id ` set (canonical_items items) = item_id ` set items" "set (canonical_items items) \<subseteq> set items"
  using unique_items_ids [of "[]" items] by (auto simp: canonical_items_def)

text \<open>Every decision names its task, is not selected yet and allows no mutation.\<close>

definition plain_decision :: "orchestration_input \<Rightarrow> orchestration_decision \<Rightarrow> bool" where
  "plain_decision item d \<longleftrightarrow> od_task_id d = item_id item \<and> \<not> od_selected d \<and> \<not> od_mutation_allowed d"

lemma plain_decide [simp]: "plain_decision item (decide item k r b t cs)"
  by (simp add: plain_decision_def decide_def item_id_def)

lemma plain_gates:
  assumes "\<And>cs. plain_decision item (pass cs)"
  shows "plain_decision item (state_gate item b cs pass)" and "plain_decision item (exclusion_gate item b cs pass)"
    and "plain_decision item (lsm_gate policy now item b cs pass)" and "plain_decision item (workspace_gate policy now item b cs pass)"
    and "plain_decision item (worker_gate now item b cs pass)" and "plain_decision item (cooldown_gate policy now item b cs pass)"
    and "plain_decision item (sample_gate policy now item b cs pass)" and "plain_decision item (binding_gate now item b cs pass)"
    and "plain_decision item (capability_gate now item cs pass)"
proof -
  note a = assms and s = if_splits option.split
  show "plain_decision item (state_gate item b cs pass)" by (simp add: state_gate_def Let_def a)
  show "plain_decision item (exclusion_gate item b cs pass)" by (simp add: exclusion_gate_def Let_def a)
  show "plain_decision item (lsm_gate policy now item b cs pass)" by (simp add: lsm_gate_def Let_def a)
  show "plain_decision item (workspace_gate policy now item b cs pass)" by (simp add: workspace_gate_def Let_def a split: option.split)
  show "plain_decision item (worker_gate now item b cs pass)" by (simp add: worker_gate_def Let_def a)
  show "plain_decision item (cooldown_gate policy now item b cs pass)" by (simp add: cooldown_gate_def Let_def a split: option.split)
  show "plain_decision item (sample_gate policy now item b cs pass)" by (simp add: sample_gate_def Let_def a split: option.split)
  show "plain_decision item (binding_gate now item b cs pass)" by (simp add: binding_gate_def Let_def a)
  show "plain_decision item (capability_gate now item cs pass)"
    by (simp add: capability_gate_def Let_def a split_beta split: option.split)
qed

lemma evaluate_task_plain: "plain_decision item (evaluate_task item now policy)"
  unfolding evaluate_task_def Let_def by (intro plain_gates plain_decide)

lemma mark_duplicate_plain: "plain_decision item d \<Longrightarrow> plain_decision item (mark_duplicate dups d)"
  by (simp add: mark_duplicate_def plain_decision_def)

lemma with_decisions_plain:
  assumes "xd \<in> set (with_decisions items now policy)"
  shows "plain_decision (fst xd) (snd xd)"
  using assms by (auto simp: with_decisions_def intro!: mark_duplicate_plain evaluate_task_plain)

lemma map_fst_with_decisions: "map fst (with_decisions items now policy) = canonical_items items"
  by (simp add: with_decisions_def o_def)

lemma schedule_task_id [simp]: "od_task_id (schedule policy ids xd) = od_task_id (snd xd)"
  by (simp add: schedule_def Let_def)

lemma schedule_mutation: "\<not> od_mutation_allowed (snd xd) \<Longrightarrow> \<not> od_mutation_allowed (schedule policy ids xd)"
  by (simp add: schedule_def Let_def)

text \<open>The tasks served in a cycle: those of a prefix of the servable ones in the order of their fairness keys.\<close>

definition served :: "orchestration_input list \<Rightarrow> timestamp \<Rightarrow> orchestration_policy \<Rightarrow> orchestration_input list" where
  "served items now policy = map fst (take (nat (max 0 (op_max_selected_tasks policy)))
     (sort_key (\<lambda>xd. fairness_key (fst xd)) (filter servable (with_decisions items now policy))))"

lemma selected_served: "selected_ids policy (with_decisions items now policy) = map item_id (served items now policy)"
  by (simp add: selected_ids_def served_def)

lemma schedule_selected:
  assumes "plain_decision (fst xd) (snd xd)" and "item_id (fst xd) \<in> set ids \<Longrightarrow> servable xd"
  shows "od_selected (schedule policy ids xd) \<longleftrightarrow> item_id (fst xd) \<in> set ids"
  using assms by (auto simp: schedule_def servable_def plain_decision_def Let_def)

lemma served_servable:
  assumes "x \<in> set (served items now policy)" and "xd \<in> set (with_decisions items now policy)" and "item_id (fst xd) = item_id x"
  shows "servable xd"
proof -
  from assms(1) obtain xd' where xd': "xd' \<in> set (with_decisions items now policy)" "servable xd'" "fst xd' = x"
    by (auto simp: served_def dest!: in_set_takeD)
  have "inj_on (\<lambda>xd. item_id (fst xd)) (set (with_decisions items now policy))"
    using canonical_items_ids(1) [of items] unfolding map_fst_with_decisions [symmetric, of items now policy]
    by (simp add: distinct_map o_def)
  with xd' assms(2,3) have "xd = xd'" by (auto dest: inj_onD)
  with xd'(2) show ?thesis by simp
qed

lemma served_distinct: "distinct (map item_id (served items now policy))"
proof -
  let ?xds = "with_decisions items now policy"
  have "distinct (map (\<lambda>xd. item_id (fst xd)) ?xds)"
    using canonical_items_ids(1) [of items] unfolding map_fst_with_decisions [symmetric, of items now policy] by (simp add: o_def)
  then have "distinct (map (\<lambda>xd. item_id (fst xd)) (filter servable ?xds))" by (rule distinct_map_filter)
  then have "distinct (map (\<lambda>xd. item_id (fst xd)) (sort_key (\<lambda>xd. fairness_key (fst xd)) (filter servable ?xds)))"
    by (simp add: distinct_map)
  then have "distinct (take n (map (\<lambda>xd. item_id (fst xd)) (sort_key (\<lambda>xd. fairness_key (fst xd)) (filter servable ?xds))))" for n
    by (rule distinct_take)
  then show ?thesis by (simp add: served_def o_def take_map)
qed

lemma served_canonical: "set (served items now policy) \<subseteq> set (canonical_items items)"
  unfolding map_fst_with_decisions [symmetric, of items now policy] by (auto simp: served_def dest!: in_set_takeD)

lemma plan_ids: "map od_task_id (plan_orchestration items now policy) = map item_id (canonical_items items)"
proof -
  have "map (\<lambda>xd. od_task_id (snd xd)) (with_decisions items now policy) = map (\<lambda>xd. item_id (fst xd)) (with_decisions items now policy)"
    using with_decisions_plain by (auto simp: plain_decision_def)
  also have "\<dots> = map item_id (canonical_items items)"
    unfolding map_fst_with_decisions [symmetric, of items now policy] by simp
  finally show ?thesis by (simp add: plan_orchestration_def Let_def o_def)
qed

lemma plan_selected_ids:
  "map od_task_id (filter od_selected (plan_orchestration items now policy))
    = filter (\<lambda>i. i \<in> item_id ` set (served items now policy)) (map item_id (canonical_items items))"
proof -
  let ?xds = "with_decisions items now policy" and ?ids = "map item_id (served items now policy)"
  have sel: "od_selected (schedule policy ?ids xd) \<longleftrightarrow> item_id (fst xd) \<in> set ?ids" if "xd \<in> set ?xds" for xd
    using that with_decisions_plain [OF that] served_servable [OF _ that] by (intro schedule_selected) auto
  have "filter od_selected (plan_orchestration items now policy)
      = map (schedule policy ?ids) (filter (\<lambda>xd. item_id (fst xd) \<in> set ?ids) ?xds)"
    using sel by (auto simp: plan_orchestration_def Let_def selected_served filter_map o_def cong: filter_cong)
  also have "map od_task_id \<dots> = map (\<lambda>xd. item_id (fst xd)) (filter (\<lambda>xd. item_id (fst xd) \<in> set ?ids) ?xds)"
    using with_decisions_plain by (auto simp: plain_decision_def)
  also have "\<dots> = filter (\<lambda>i. i \<in> set ?ids) (map item_id (map fst ?xds))" by (simp add: filter_map o_def)
  finally show ?thesis by (simp add: map_fst_with_decisions)
qed

lemma sorted_prefix: "sorted (map f (take n xs @ ys)) \<Longrightarrow> x \<in> set (take n xs) \<Longrightarrow> y \<in> set ys \<Longrightarrow> f x \<le> f y"
  by (auto simp: sorted_append)

text \<open>The decision that the plan gives for the \<open>i\<close>-th canonical task is selected exactly when that task is served.\<close>

lemma plan_selects_served:
  assumes "((x, d), p) \<in> set (zip (with_decisions items now policy) (plan_orchestration items now policy))"
  shows "(x, d) \<in> set (with_decisions items now policy)" and "od_selected p \<longleftrightarrow> x \<in> set (served items now policy)"
proof -
  let ?xds = "with_decisions items now policy" and ?ids = "map item_id (served items now policy)"
  show xd: "(x, d) \<in> set ?xds" using assms by (rule set_zip_leftD)
  have "p = schedule policy ?ids (x, d)"
    using assms by (auto simp: plan_orchestration_def Let_def selected_served set_zip)
  moreover have "od_selected (schedule policy ?ids (x, d)) \<longleftrightarrow> item_id x \<in> set ?ids"
    using with_decisions_plain [OF xd] served_servable [OF _ xd] by (subst schedule_selected) auto
  moreover have "item_id x \<in> set ?ids \<longleftrightarrow> x \<in> set (served items now policy)"
  proof -
    have "x \<in> set (canonical_items items)" using xd unfolding map_fst_with_decisions [symmetric, of items now policy] by force
    moreover have "inj_on item_id (set (canonical_items items))" using canonical_items_ids(1) [of items] by (simp add: distinct_map)
    ultimately show ?thesis using served_canonical [of items now policy] by (auto dest: inj_onD)
  qed
  ultimately show "od_selected p \<longleftrightarrow> x \<in> set (served items now policy)" by simp
qed

lemma served_oldest:
  assumes "x \<in> set (served items now policy)" and "(y, e) \<in> set (with_decisions items now policy)" and "servable (y, e)"
    and "y \<notin> set (served items now policy)"
  shows "fairness_key x \<le> fairness_key y"
proof -
  let ?n = "nat (max 0 (op_max_selected_tasks policy))"
  let ?sorted = "sort_key (\<lambda>xd. fairness_key (fst xd)) (filter servable (with_decisions items now policy))"
  from assms(1) obtain d where d: "(x, d) \<in> set (take ?n ?sorted)" by (auto simp: served_def)
  have "(y, e) \<in> set ?sorted" using assms(2,3) by simp
  moreover have "(y, e) \<notin> set (take ?n ?sorted)" using assms(4) by (force simp: served_def)
  ultimately have "(y, e) \<in> set (drop ?n ?sorted)" by (metis UnE append_take_drop_id set_append)
  moreover have "sorted (map (\<lambda>xd. fairness_key (fst xd)) (take ?n ?sorted @ drop ?n ?sorted))" by simp
  ultimately show ?thesis using sorted_prefix [of "\<lambda>xd. fairness_key (fst xd)"] d by fastforce
qed

lemma plan_selected_number:
  "length (filter od_selected (plan_orchestration items now policy))
    = min (nat (op_max_selected_tasks policy)) (length (filter servable (with_decisions items now policy)))"
proof -
  have "length (filter od_selected (plan_orchestration items now policy))
      = length (filter (\<lambda>i. i \<in> item_id ` set (served items now policy)) (map item_id (canonical_items items)))"
    by (metis length_map plan_selected_ids)
  also have "\<dots> = card (item_id ` set (served items now policy) \<inter> item_id ` set (canonical_items items))"
    using canonical_items_ids(1) [of items] by (subst distinct_length_filter) simp_all
  also have "item_id ` set (served items now policy) \<inter> item_id ` set (canonical_items items) = item_id ` set (served items now policy)"
    using served_canonical by blast
  also have "card \<dots> = length (served items now policy)"
    using distinct_card [OF served_distinct [of items now policy]] by simp
  also have "\<dots> = min (nat (op_max_selected_tasks policy)) (length (filter servable (with_decisions items now policy)))"
    by (simp add: served_def max_def min.commute)
  finally show ?thesis .
qed

text \<open>C30. A cycle decides every task once, in the order of the task ids, and allows no mutation. It selects as many servable
  tasks as the policy admits and only servable ones. Of two tasks, one selected in the plan and the other servable but not
  selected, the selected one comes first in the order of the fairness keys; in particular it has waited at least as long, counted
  from its last scheduling or else from its creation.\<close>

theorem plan_serves_oldest:
  "map od_task_id (plan_orchestration items now policy) = sorted_list_of_set (item_id ` set items)
    \<and> list_all (\<lambda>p. \<not> od_mutation_allowed p) (plan_orchestration items now policy)
    \<and> length (filter od_selected (plan_orchestration items now policy))
        = min (nat (op_max_selected_tasks policy)) (length (filter servable (with_decisions items now policy)))
    \<and> (\<forall>x d p y e q. ((x, d), p) \<in> set (zip (with_decisions items now policy) (plan_orchestration items now policy)) \<and> od_selected p
         \<longrightarrow> servable (x, d)
           \<and> (((y, e), q) \<in> set (zip (with_decisions items now policy) (plan_orchestration items now policy))
                \<and> servable (y, e) \<and> \<not> od_selected q
              \<longrightarrow> fairness_key x \<le> fairness_key y
                \<and> (case oi_last_scheduled_at x of None \<Rightarrow> tk_created_at (oi_task x) | Some t \<Rightarrow> t)
                    \<le> (case oi_last_scheduled_at y of None \<Rightarrow> tk_created_at (oi_task y) | Some t \<Rightarrow> t)))"
proof (intro conjI allI impI; (elim conjE)?)
  have "sorted_list_of_set (item_id ` set items) = map item_id (canonical_items items)"
    using canonical_items_ids [of items] by (metis list.set_map sorted_list_of_set.idem_if_sorted_distinct)
  then show "map od_task_id (plan_orchestration items now policy) = sorted_list_of_set (item_id ` set items)" by (simp add: plan_ids)
  show "list_all (\<lambda>p. \<not> od_mutation_allowed p) (plan_orchestration items now policy)"
    using with_decisions_plain by (auto simp: plan_orchestration_def Let_def list_all_iff plain_decision_def intro!: schedule_mutation)
  show "length (filter od_selected (plan_orchestration items now policy))
      = min (nat (op_max_selected_tasks policy)) (length (filter servable (with_decisions items now policy)))"
    by (rule plan_selected_number)
  fix x d p y e q
  let ?pairs = "zip (with_decisions items now policy) (plan_orchestration items now policy)"
  assume xp: "((x, d), p) \<in> set ?pairs" "od_selected p"
  note x = plan_selects_served [OF xp(1)]
  show "servable (x, d)" using served_servable [OF _ x(1)] x(2) xp(2) by simp
  assume yq: "((y, e), q) \<in> set ?pairs" "servable (y, e)" "\<not> od_selected q"
  note y = plan_selects_served [OF yq(1)]
  show key: "fairness_key x \<le> fairness_key y" using served_oldest [OF _ y(1) yq(2)] x(2) y(2) xp(2) yq(3) by simp
  show "(case oi_last_scheduled_at x of None \<Rightarrow> tk_created_at (oi_task x) | Some t \<Rightarrow> t)
      \<le> (case oi_last_scheduled_at y of None \<Rightarrow> tk_created_at (oi_task y) | Some t \<Rightarrow> t)"
    using key by (auto simp: fairness_key_def)
qed

section \<open>Two stalled tasks\<close>

definition demo_item :: "string \<Rightarrow> timestamp \<Rightarrow> orchestration_input" where
  "demo_item i t = \<lparr>oi_task = demo_task_record\<lparr>tk_task_id := i, tk_state := SS_SUSPECT, tk_recovery_attempts := 0, tk_max_recovery_attempts := 3\<rparr>,
     oi_assessment = \<lparr>as_state = SS_SUSPECT, as_reason = [], as_confidence = [], as_evidence = [], as_requires_reconcile = True,
       as_may_auto_continue = False\<rparr>,
     oi_worker = None, oi_lsm = None, oi_workspace = None, oi_previous_reconciliation = None, oi_current_reconciliation = None,
     oi_unresolved_action = None, oi_unresolved_probe_mutation = None, oi_worker_lease_expires_at = None, oi_last_recovery_at = None,
     oi_last_scheduled_at = Some t, oi_consecutive_waits = 0, oi_requires_exact_window_binding = True, oi_window_binding = None,
     oi_page_continuity_relevant = False, oi_page_capability = None, oi_capability_context = None,
     oi_page_capability_kind = PC_GENERATION, oi_reconcile_blockers = [], oi_human_blockers = [], oi_scheduling_history_known = True\<rparr>"

definition demo_items :: "orchestration_input list" where
  "demo_items = [demo_item ''b'' 2, demo_item ''a'' 5]"

theorem plan_serves_oldest_witness:
  "map od_task_id (plan_orchestration demo_items 9 default_orchestration_policy) = sorted_list_of_set (item_id ` set demo_items)
    \<and> map od_selected (plan_orchestration demo_items 9 default_orchestration_policy) = [False, True]
    \<and> fairness_key (demo_item ''b'' 2) \<le> fairness_key (demo_item ''a'' 5)"
proof -
  let ?p = "default_orchestration_policy"
  let ?xds = "with_decisions demo_items 9 ?p" and ?plan = "plan_orchestration demo_items 9 ?p"
  have sel: "map od_selected ?plan = [False, True]" by code_simp
  have wd: "map fst ?xds = [demo_item ''a'' 5, demo_item ''b'' 2]"
    unfolding map_fst_with_decisions by (simp add: canonical_items_def demo_items_def item_id_def demo_item_def)
  have all: "list_all servable ?xds" by code_simp
  from sel obtain q p where plan: "?plan = [q, p]" "\<not> od_selected q" "od_selected p" by (auto simp: map_eq_Cons_conv)
  from wd obtain d e where xds: "?xds = [(demo_item ''a'' 5, e), (demo_item ''b'' 2, d)]" by (auto simp: map_eq_Cons_conv)
  have "((demo_item ''b'' 2, d), p) \<in> set (zip ?xds ?plan)" "((demo_item ''a'' 5, e), q) \<in> set (zip ?xds ?plan)"
      "servable (demo_item ''a'' 5, e)"
    using all by (simp_all add: plan xds)
  then have "fairness_key (demo_item ''b'' 2) \<le> fairness_key (demo_item ''a'' 5)"
    using plan_serves_oldest [of demo_items 9 ?p] plan(2,3) by blast
  with plan_serves_oldest [of demo_items 9 ?p] sel show ?thesis by simp
qed

end
