(* ===== verification/Child_Batch.thy ===== *)
theory Child_Batch
  imports Spawn_Transport
begin

text \<open>
  The advancement of a batch of children (\<^verbatim>\<open>child_batch.py\<close>): one pass over the children of a parent that
  arms, opens or reuses windows, sends the prompts and finally closes the windows of finished children.
  The transports, the workspace observations, the clock and the random texts are arguments, the latter
  three per child because a pass handles every child once. What a pass asks of the browser is returned
  beside the registry.
\<close>

section \<open>The report and the pool of windows\<close>

record batch_event =
  be_child_task_id :: string
  be_action :: string
  be_detail :: string
  be_attempt_id :: "string option"
  be_source_child_task_id :: "string option"
  be_window_handle :: "int option"

record batch_report =
  br_parent_task_id :: string
  br_max_windows :: int
  br_total_children :: nat
  br_dispatched_children :: nat
  br_bound_session_children :: nat
  br_pending_children :: nat
  br_pool_windows :: nat
  br_waiting_for_binding :: "string list"
  br_stopped :: bool
  br_stop_reason :: "string option"
  br_events :: "batch_event list"

record reusable_window =
  rw_child_task_id :: string
  rw_terminal :: bool
  rw_worker :: "worker_record option"
  rw_binding :: "worker_window_binding option"
  rw_source_spawn :: "child_spawn_attempt option"

definition ambiguous_states :: "child_spawn_attempt_state set" where
  "ambiguous_states = {CS_WINDOW_OPEN_SUBMITTED, CS_PROMPT_SUBMITTED, CS_RECONCILE_REQUIRED}"

definition window_key :: "int option \<Rightarrow> int option \<Rightarrow> (int \<times> int) option" where
  "window_key handle pid = (if set_int handle \<and> set_int pid then Some (the handle, the pid) else None)"

record pool =
  pl_windows :: "(int \<times> int) list"
  pl_reusable :: "reusable_window list"
  pl_waiting :: "string list"

definition add_window :: "(int \<times> int) option \<Rightarrow> pool \<Rightarrow> pool" where
  "add_window k p = (case k of None \<Rightarrow> p | Some w \<Rightarrow> p\<lparr>pl_windows := List.insert w (pl_windows p)\<rparr>)"

text \<open>The windows of the current worker of a child and of its unresolved attempt.\<close>

definition add_worker_window :: "registry \<Rightarrow> task_record \<Rightarrow> string \<Rightarrow> pool \<Rightarrow> pool result" where
  "add_worker_window db task t p =
     (if \<not> present (tk_current_worker_id task) then Inr p
      else rbind (get_worker db (the (tk_current_worker_id task))) (\<lambda>w.
        Inr (case get_worker_window_binding db (wk_worker_id w) of
          None \<Rightarrow> p
        | Some b \<Rightarrow>
            let p = add_window (Some (wb_window_handle b, wb_browser_pid b)) p;
                terminal = (tk_state task = SS_COMPLETED) in
            if terminal \<or> present (tk_lsm_session_id task)
            then p\<lparr>pl_reusable := pl_reusable p @ [\<lparr>rw_child_task_id = t, rw_terminal = terminal, rw_worker = Some w,
                   rw_binding = Some b, rw_source_spawn = None\<rparr>]\<rparr>
            else p\<lparr>pl_waiting := pl_waiting p @ [t]\<rparr>)))"

fun owned_windows_of :: "registry \<Rightarrow> string list \<Rightarrow> pool \<Rightarrow> pool result" where
  "owned_windows_of db [] p = Inr p"
| "owned_windows_of db (t # ts) p =
     rbind (get_task db t) (\<lambda>task.
     rbind (add_worker_window db task t p) (\<lambda>p.
     owned_windows_of db ts (case unresolved_child_spawn_attempt db t of None \<Rightarrow> p
       | Some a \<Rightarrow> add_window (window_key (cs_window_handle a) (cs_browser_pid a)) p)))"

text \<open>The newest unconsumed completed attempt of every window; a newer one takes the place of the older.\<close>

definition newer_attempt :: "child_spawn_attempt \<Rightarrow> child_spawn_attempt \<Rightarrow> bool" where
  "newer_attempt a b \<longleftrightarrow> cs_updated_at b < cs_updated_at a
     \<or> cs_updated_at a = cs_updated_at b \<and> (cs_created_at b < cs_created_at a
        \<or> cs_created_at a = cs_created_at b \<and> cs_attempt_id b < cs_attempt_id a)"

definition put_latest ::
  "child_spawn_attempt \<Rightarrow> ((int \<times> int) \<times> child_spawn_attempt) list \<Rightarrow> ((int \<times> int) \<times> child_spawn_attempt) list" where
  "put_latest a latest =
     (if cs_state a \<noteq> CS_COMPLETED \<or> \<not> page_unconsumed a then latest
      else case window_key (cs_window_handle a) (cs_browser_pid a) of
        None \<Rightarrow> latest
      | Some k \<Rightarrow>
          if \<not> present (cs_conversation_url a) then latest
          else case map_of latest k of
            None \<Rightarrow> latest @ [(k, a)]
          | Some b \<Rightarrow> if newer_attempt a b then map (\<lambda>(l, x). if l = k then (l, a) else (l, x)) latest else latest)"

definition latest_completed :: "registry \<Rightarrow> string list \<Rightarrow> ((int \<times> int) \<times> child_spawn_attempt) list" where
  "latest_completed db ts = fold put_latest (concat (map (\<lambda>t. child_spawn_attempts db t 50) ts)) []"

fun add_completed :: "registry \<Rightarrow> ((int \<times> int) \<times> child_spawn_attempt) list \<Rightarrow> pool \<Rightarrow> pool result" where
  "add_completed db [] p = Inr p"
| "add_completed db ((k, a) # rest) p =
     (if k \<in> set (pl_windows p) then add_completed db rest p
      else rbind (get_task db (cs_child_task_id a)) (\<lambda>task.
        if tk_state task \<noteq> SS_COMPLETED then add_completed db rest p
        else add_completed db rest ((add_window (Some k) p)\<lparr>pl_reusable := pl_reusable p @
          [\<lparr>rw_child_task_id = cs_child_task_id a, rw_terminal = True, rw_worker = None, rw_binding = None,
            rw_source_spawn = Some a\<rparr>]\<rparr>)))"

fun index_of :: "'a list \<Rightarrow> 'a \<Rightarrow> nat" where
  "index_of [] x = 0"
| "index_of (y # ys) x = (if y = x then 0 else Suc (index_of ys x))"

definition pool_snapshot :: "registry \<Rightarrow> string list \<Rightarrow> pool result" where
  "pool_snapshot db ts =
     rbind (owned_windows_of db ts \<lparr>pl_windows = [], pl_reusable = [], pl_waiting = []\<rparr>) (\<lambda>p.
     rbind (add_completed db (latest_completed db ts) p) (\<lambda>p.
     Inr (p\<lparr>pl_reusable := sort_key (\<lambda>r. \<not> rw_terminal r)
       (sort_key (\<lambda>r. index_of ts (rw_child_task_id r)) (pl_reusable p))\<rparr>)))"

definition batch_event_of :: "string \<Rightarrow> string \<Rightarrow> string \<Rightarrow> batch_event" where
  "batch_event_of t action detail = \<lparr>be_child_task_id = t, be_action = action, be_detail = detail, be_attempt_id = None,
     be_source_child_task_id = None, be_window_handle = None\<rparr>"

definition add_event :: "batch_event \<Rightarrow> batch_report \<Rightarrow> batch_report" where
  "add_event e r = r\<lparr>br_events := br_events r @ [e]\<rparr>"

definition stop_batch :: "batch_report \<Rightarrow> string \<Rightarrow> string \<Rightarrow> string \<Rightarrow> child_spawn_attempt option \<Rightarrow> batch_report" where
  "stop_batch r t reason action a =
     add_event ((batch_event_of t action reason)\<lparr>be_attempt_id := map_option cs_attempt_id a,
         be_window_handle := Option.bind a cs_window_handle\<rparr>)
       (r\<lparr>br_stopped := True, br_stop_reason := Some reason\<rparr>)"

definition add_waiting :: "string \<Rightarrow> batch_report \<Rightarrow> batch_report" where
  "add_waiting t r = (if t \<in> set (br_waiting_for_binding r) then r
     else r\<lparr>br_waiting_for_binding := br_waiting_for_binding r @ [t]\<rparr>)"

definition refresh_counts :: "registry \<Rightarrow> string list \<Rightarrow> batch_report \<Rightarrow> batch_report result" where
  "refresh_counts db ts r =
     rbind (pool_snapshot db ts) (\<lambda>p.
     rbind (map_result (get_task db) ts) (\<lambda>tasks.
     rbind (map_result (\<lambda>t. rbind (get_task db t) (\<lambda>task.
       if tk_state task = SS_COMPLETED then Inr True
       else rbind (load_worker_protocol db t) (\<lambda>s. Inr (st_generation s > 0)))) ts) (\<lambda>dispatched.
     let r = fold add_waiting (pl_waiting p) r in
     Inr (r\<lparr>br_pool_windows := length (pl_windows p),
       br_waiting_for_binding := sort_key (index_of ts) (br_waiting_for_binding r),
       br_dispatched_children := length (filter id dispatched),
       br_bound_session_children := length (filter (\<lambda>k. present (tk_lsm_session_id k)) tasks),
       br_pending_children := length (filter (\<lambda>k. tk_state k \<noteq> SS_COMPLETED \<and> tk_current_worker_id k = None) tasks)\<rparr>))))"

section \<open>A pass\<close>

record batch_transport =
  bt_open :: open_transport
  bt_prompt :: prompt_transport
  bt_close_worker :: "worker_record \<Rightarrow> worker_window_binding \<Rightarrow> spawn_execution result"
  bt_close_spawn :: "child_spawn_attempt \<Rightarrow> spawn_execution result"

record batch_inputs =
  bi_workspace :: "workspace_observation result"
  bi_armed_at :: timestamp
  bi_fresh_attempt :: string
  bi_fresh_owner :: string
  bi_open_submitted_at :: timestamp
  bi_opened_at :: timestamp
  bi_sent_at :: timestamp
  bi_fresh_worker :: string
  bi_closed_at :: timestamp
  bi_annotated_at :: timestamp

record batch_config =
  bg_max_windows :: int
  bg_chrome_executable :: string
  bg_lease_seconds :: real
  bg_max_evidence_age_s :: real
  bg_close_terminal_pages :: bool

datatype batch_effect =
    Open_Window child_spawn_attempt nat
  | Reuse_Window child_spawn_attempt reusable_window
  | Prompt_Window spawn_effect
  | Close_Window reusable_window

text \<open>The registry, the report with the flag of an early return (or an exception), and the effects.\<close>

type_synonym batch_run = "(registry \<times> (batch_report \<times> bool) result) \<times> batch_effect list"

definition b_return :: "registry \<Rightarrow> batch_report \<Rightarrow> batch_run" where
  "b_return db r = ((db, Inr (r, True)), [])"

definition b_go :: "registry \<Rightarrow> batch_report \<Rightarrow> batch_run" where
  "b_go db r = ((db, Inr (r, False)), [])"

definition b_call :: "registry \<times> 'a result \<Rightarrow> (registry \<Rightarrow> 'a \<Rightarrow> batch_run) \<Rightarrow> batch_run" where
  "b_call x f = (case x of (db, Inl e) \<Rightarrow> ((db, Inl e), []) | (db, Inr y) \<Rightarrow> f db y)"

definition b_then :: "batch_run \<Rightarrow> (registry \<Rightarrow> batch_report \<Rightarrow> batch_run) \<Rightarrow> batch_run" where
  "b_then x f = (case x of
     ((db, Inr (r, False)), es) \<Rightarrow> (case f db r of (y, es') \<Rightarrow> (y, es @ es')) | _ \<Rightarrow> x)"

definition b_effects :: "batch_effect list \<Rightarrow> batch_run \<Rightarrow> batch_run" where
  "b_effects es x = (fst x, es @ snd x)"

text \<open>\<^verbatim>\<open>except ChildSpawnBlocked\<close>: the pass stops with the blockers as its reason.\<close>

definition b_try ::
  "batch_report \<Rightarrow> string \<Rightarrow> string \<Rightarrow> child_spawn_attempt option \<Rightarrow> registry \<times> 'a result \<Rightarrow> (registry \<Rightarrow> 'a \<Rightarrow> batch_run) \<Rightarrow> batch_run" where
  "b_try r t action a x f = (case x of
     (db, Inl (ChildSpawnBlocked bs)) \<Rightarrow> b_return db (stop_batch r t (join ''; '' bs) action a)
   | (db, Inl e) \<Rightarrow> ((db, Inl e), []) | (db, Inr y) \<Rightarrow> f db y)"

definition ended_in :: "string \<Rightarrow> child_spawn_attempt \<Rightarrow> string" where
  "ended_in what a = or_text (cs_last_error a) (what @ '' ended in '' @ cs_value (cs_state a))"

text \<open>Sending through a bound window.\<close>

definition send_child ::
  "(real \<Rightarrow> string) \<Rightarrow> batch_config \<Rightarrow> (string \<Rightarrow> batch_transport result) \<Rightarrow> batch_inputs \<Rightarrow> string \<Rightarrow> child_spawn_attempt
     \<Rightarrow> registry \<Rightarrow> batch_report \<Rightarrow> batch_run" where
  "send_child ft cfg factory inp t a db r =
     (if cs_state a \<noteq> CS_WINDOW_BOUND then b_go db r
      else b_call (db, factory (cs_chrome_executable a)) (\<lambda>db tr.
        case execute_child_spawn_prompt ft db (cs_attempt_id a) (bt_prompt tr) (bg_lease_seconds cfg) 120 (bi_fresh_worker inp) (bi_sent_at inp) of
          (x, es) \<Rightarrow> b_effects (map Prompt_Window es) (b_try r t ''send_blocked'' (Some a) x (\<lambda>db sent.
            let r = add_event \<lparr>be_child_task_id = t,
                    be_action = (if cs_state sent = CS_COMPLETED then ''sent'' else ''send_incomplete''),
                    be_detail = or_text (cs_last_error sent) ''persisted child prompt delivered to the exact bound conversation'',
                    be_attempt_id = Some (cs_attempt_id sent), be_source_child_task_id = None,
                    be_window_handle = cs_window_handle sent\<rparr> r in
            if cs_state sent \<in> ambiguous_states
            then b_return db (stop_batch r t (ended_in ''send'' sent) ''ambiguous_stop'' (Some sent))
            else if cs_state sent \<noteq> CS_COMPLETED
            then b_return db (stop_batch r t (ended_in ''send'' sent) ''send_paused'' (Some sent))
            else b_call (db, get_task db t) (\<lambda>db task.
              b_go db (if present (tk_lsm_session_id task) then r
                else r\<lparr>br_waiting_for_binding := br_waiting_for_binding r @ [t]\<rparr>))))))"

text \<open>
  Opening for an armed attempt: the window of another child that may be reused, a new window while the
  pool has room, or the end of the pass.
\<close>

definition source_kind :: "reusable_window \<Rightarrow> string" where
  "source_kind s = (if rw_worker s \<noteq> None \<and> rw_binding s \<noteq> None
     then (if rw_terminal s then ''terminal completion'' else ''durable LSM binding'') else ''terminal completed-spawn record'')"

definition usable_source :: "reusable_window option \<Rightarrow> bool" where
  "usable_source s = (case s of None \<Rightarrow> False
     | Some s \<Rightarrow> (rw_worker s \<noteq> None \<and> rw_binding s \<noteq> None) \<or> rw_source_spawn s \<noteq> None)"

definition opened_event :: "string \<Rightarrow> reusable_window option \<Rightarrow> child_spawn_attempt \<Rightarrow> batch_event" where
  "opened_event t source opened =
     (case source of
        None \<Rightarrow> (batch_event_of t ''opened_window'' ''opened one new dispatcher window within the configured pool bound'')
          \<lparr>be_attempt_id := Some (cs_attempt_id opened), be_window_handle := cs_window_handle opened\<rparr>
      | Some s \<Rightarrow> (batch_event_of t ''reused_window'' (''reused exact HWND from '' @ rw_child_task_id s @ '' after '' @ source_kind s))
          \<lparr>be_attempt_id := Some (cs_attempt_id opened), be_source_child_task_id := Some (rw_child_task_id s),
            be_window_handle := cs_window_handle opened\<rparr>)"

definition open_from ::
  "batch_transport \<Rightarrow> batch_inputs \<Rightarrow> child_spawn_attempt \<Rightarrow> reusable_window option \<Rightarrow> registry \<Rightarrow> registry \<times> child_spawn_attempt result" where
  "open_from tr inp a source db =
     (let open = (\<lambda>w b s. execute_child_spawn_open db (cs_attempt_id a) (bt_open tr) w b s (bi_open_submitted_at inp) (bi_opened_at inp)) in
      case source of
        None \<Rightarrow> open None None None
      | Some s \<Rightarrow> if rw_worker s \<noteq> None \<and> rw_binding s \<noteq> None then open (rw_worker s) (rw_binding s) None
                  else open None None (rw_source_spawn s))"

definition open_with ::
  "batch_inputs \<Rightarrow> string \<Rightarrow> child_spawn_attempt \<Rightarrow> batch_transport \<Rightarrow> nat \<Rightarrow> reusable_window option
     \<Rightarrow> registry \<Rightarrow> batch_report \<Rightarrow> (child_spawn_attempt \<Rightarrow> registry \<Rightarrow> batch_report \<Rightarrow> batch_run) \<Rightarrow> batch_run" where
  "open_with inp t a tr n source db r continue =
     b_effects [case source of None \<Rightarrow> Open_Window a n | Some s \<Rightarrow> Reuse_Window a s]
       (b_try r t ''open_blocked'' (Some a) (open_from tr inp a source db) (\<lambda>db opened.
         let r = add_event (opened_event t source opened) r in
         if cs_state opened \<in> ambiguous_states
         then b_return db (stop_batch r t (ended_in ''open'' opened) ''ambiguous_stop'' (Some opened))
         else if cs_state opened \<noteq> CS_WINDOW_BOUND
         then b_return db (stop_batch r t (ended_in ''open'' opened) ''open_failed'' (Some opened))
         else continue opened db r))"

definition open_child ::
  "batch_config \<Rightarrow> (string \<Rightarrow> batch_transport result) \<Rightarrow> batch_inputs \<Rightarrow> string list \<Rightarrow> string \<Rightarrow> child_spawn_attempt
     \<Rightarrow> registry \<Rightarrow> batch_report \<Rightarrow> (child_spawn_attempt \<Rightarrow> registry \<Rightarrow> batch_report \<Rightarrow> batch_run) \<Rightarrow> batch_run" where
  "open_child cfg factory inp ts t a db r continue =
     (if cs_state a \<noteq> CS_ARMED then continue a db r
      else b_call (db, pool_snapshot db ts) (\<lambda>db p.
        let n = length (pl_windows p);
            r = fold add_waiting (pl_waiting p) (r\<lparr>br_pool_windows := n\<rparr>);
            found = find (\<lambda>s. rw_child_task_id s \<noteq> t) (pl_reusable p);
            source = (if usable_source found then found else None) in
        b_call (db, factory (cs_chrome_executable a)) (\<lambda>db tr.
        if source = None \<and> \<not> int n < bg_max_windows cfg
        then b_call (db, refresh_counts db ts (add_event ((batch_event_of t ''pool_wait''
                (''dispatcher pool is full ('' @ str_int (int n) @ ''/'' @ str_int (bg_max_windows cfg)
                 @ ''); waiting for an existing child to bind a durable LSM session''))\<lparr>be_attempt_id := Some (cs_attempt_id a)\<rparr>) r))
              (\<lambda>db r. b_return db r)
        else open_with inp t a tr n source db r continue)))"

text \<open>One child of the pass.\<close>

definition advance_child ::
  "(real \<Rightarrow> string) \<Rightarrow> batch_config \<Rightarrow> (string \<Rightarrow> batch_transport result) \<Rightarrow> batch_inputs \<Rightarrow> string list \<Rightarrow> string
     \<Rightarrow> registry \<Rightarrow> batch_report \<Rightarrow> batch_run" where
  "advance_child ft cfg factory inp ts t db r =
     b_call (db, get_task db t) (\<lambda>db task.
     if tk_state task = SS_COMPLETED then b_go db (add_event (batch_event_of t ''terminal'' ''child is already durably completed'') r)
     else if present (tk_current_worker_id task)
     then b_go db (if present (tk_lsm_session_id task)
       then add_event (batch_event_of t ''session_bound'' ''child worker is durable; its exact page may be recycled'') r
       else add_event (batch_event_of t ''awaiting_lsm_binding'' ''child keeps its page until a durable LSM session is bound'')
              (add_waiting t r))
     else
       let proceed = (\<lambda>a db r. open_child cfg factory inp ts t a db r (send_child ft cfg factory inp t)) in
       case unresolved_child_spawn_attempt db t of
         Some a \<Rightarrow> proceed a db r
       | None \<Rightarrow> b_try r t ''arm_blocked'' None
           (sbind (db, bi_workspace inp) (\<lambda>db w. arm_child_spawn db t (bg_chrome_executable cfg) (Some w)
              (bi_armed_at inp) (bg_max_evidence_age_s cfg) (bi_fresh_attempt inp) (bi_fresh_owner inp)))
           (\<lambda>db a. proceed a db (add_event ((batch_event_of t ''armed'' ''spawn authority persisted; no browser mutation yet'')
              \<lparr>be_attempt_id := Some (cs_attempt_id a)\<rparr>) r)))"

fun advance_children ::
  "(real \<Rightarrow> string) \<Rightarrow> batch_config \<Rightarrow> (string \<Rightarrow> batch_transport result) \<Rightarrow> (string \<Rightarrow> batch_inputs) \<Rightarrow> string list \<Rightarrow> string list
     \<Rightarrow> registry \<Rightarrow> batch_report \<Rightarrow> batch_run" where
  "advance_children ft cfg factory inputs ts [] db r = b_go db r"
| "advance_children ft cfg factory inputs ts (t # rest) db r =
     b_then (advance_child ft cfg factory (inputs t) ts t db r) (advance_children ft cfg factory inputs ts rest)"

text \<open>Nothing is done for any child while the outcome of an earlier effect on one of them is open.\<close>

fun preflight_children :: "registry \<Rightarrow> string list \<Rightarrow> batch_report \<Rightarrow> batch_report option result" where
  "preflight_children db [] r = Inr None"
| "preflight_children db (t # ts) r =
     rbind (unresolved_action_attempt db t) (\<lambda>action.
     case action of
       Some x \<Rightarrow> Inr (Some (stop_batch r t (''child has unresolved external action '' @ aa_attempt_id x @ '' in ''
         @ aa_value (aa_state x) @ ''; reconcile before batch dispatch'') ''ambiguous_stop'' None))
     | None \<Rightarrow> (case unresolved_replacement_attempt db t of
         Some x \<Rightarrow> Inr (Some (stop_batch r t (''child has unresolved replacement '' @ ra_attempt_id x @ '' in ''
           @ ra_value (ra_state x) @ ''; reconcile before batch dispatch'') ''ambiguous_stop'' None))
       | None \<Rightarrow> (case unresolved_child_spawn_attempt db t of
           Some a \<Rightarrow>
             if cs_state a \<in> ambiguous_states
             then Inr (Some (stop_batch r t (''child has unresolved spawn '' @ cs_attempt_id a @ '' in ''
               @ cs_value (cs_state a) @ ''; reconcile before batch dispatch'') ''ambiguous_stop'' (Some a)))
             else preflight_children db ts r
         | None \<Rightarrow> preflight_children db ts r)))"

definition preflight_batch :: "registry \<Rightarrow> string list \<Rightarrow> batch_report \<Rightarrow> batch_report option result" where
  "preflight_batch db ts r =
     (case unresolved_probe_mutation_operation db of
        Some x \<Rightarrow>
          let reason = ''global probe mutation '' @ po_operation_id x @ '' is unresolved; reconcile before batch dispatch'' in
          Inr (Some (stop_batch r (br_parent_task_id r) reason ''ambiguous_stop'' None))
      | None \<Rightarrow> preflight_children db ts r)"

text \<open>The windows of finished children are closed one by one.\<close>

definition proven_gone :: "spawn_execution \<Rightarrow> bool" where
  "proven_gone x = (se_changed x \<or> (\<not> se_side_effect_possible x \<and> contains ''already absent'' (se_detail x)))"

definition settle_close ::
  "(real \<Rightarrow> string) \<Rightarrow> batch_inputs \<Rightarrow> reusable_window \<Rightarrow> registry \<Rightarrow> registry \<times> unit result" where
  "settle_close ft inp s db =
     (case (rw_worker s, rw_binding s, rw_source_spawn s) of
        (Some w, Some b, _) \<Rightarrow> (fst (clear_worker_window_binding db (wk_worker_id w)), Inr ())
      | (_, _, Some a) \<Rightarrow> sbind (annotate_child_spawn_attempt db (cs_attempt_id a)
            [(''window_closed_at'', json_float ft (bi_closed_at inp))] (bi_annotated_at inp)) (\<lambda>db _. (db, Inr ()))
      | _ \<Rightarrow> (db, Inr ()))"

definition window_of_source :: "reusable_window \<Rightarrow> string \<times> int option" where
  "window_of_source s =
     (case (rw_worker s, rw_binding s, rw_source_spawn s) of
        (Some w, Some b, _) \<Rightarrow> (wb_chrome_executable b, Some (wb_window_handle b))
      | (_, _, Some a) \<Rightarrow> (cs_chrome_executable a, cs_window_handle a) | _ \<Rightarrow> ([], None))"

definition ask_close :: "batch_transport \<Rightarrow> reusable_window \<Rightarrow> spawn_execution result" where
  "ask_close tr s =
     (case (rw_worker s, rw_binding s, rw_source_spawn s) of
        (Some w, Some b, _) \<Rightarrow> bt_close_worker tr w b
      | (_, _, Some a) \<Rightarrow> bt_close_spawn tr a | _ \<Rightarrow> Inl AssertionError)"

fun close_terminal ::
  "(real \<Rightarrow> string) \<Rightarrow> (string \<Rightarrow> batch_transport result) \<Rightarrow> (string \<Rightarrow> batch_inputs) \<Rightarrow> reusable_window list
     \<Rightarrow> registry \<Rightarrow> batch_report \<Rightarrow> batch_run" where
  "close_terminal ft factory inputs [] db r = b_go db r"
| "close_terminal ft factory inputs (s # rest) db r =
     (if \<not> usable_source (Some s) then close_terminal ft factory inputs rest db r
      else b_call (db, factory (fst (window_of_source s))) (\<lambda>db tr.
        b_effects [Close_Window s] (b_call (db, ask_close tr s) (\<lambda>db x.
          if \<not> proven_gone x
          then b_return db (stop_batch r (rw_child_task_id s)
                 (default_text (se_detail x) ''terminal page close could not be proven safe'') ''terminal_close_stop'' None)
          else b_call (settle_close ft (inputs (rw_child_task_id s)) s db) (\<lambda>db _.
            close_terminal ft factory inputs rest db (add_event ((batch_event_of (rw_child_task_id s) ''closed_terminal_window''
              (default_text (se_detail x) ''closed exact terminal child window''))
                \<lparr>be_window_handle := snd (window_of_source s)\<rparr>) r))))))"

definition finish_batch ::
  "(real \<Rightarrow> string) \<Rightarrow> batch_config \<Rightarrow> (string \<Rightarrow> batch_transport result) \<Rightarrow> (string \<Rightarrow> batch_inputs) \<Rightarrow> string list
     \<Rightarrow> registry \<Rightarrow> batch_report \<Rightarrow> batch_run" where
  "finish_batch ft cfg factory inputs ts db r =
     b_call (db, refresh_counts db ts r) (\<lambda>db r.
     if bg_close_terminal_pages cfg \<and> br_pending_children r = 0
     then b_call (db, pool_snapshot db ts) (\<lambda>db p.
       b_then (close_terminal ft factory inputs (filter rw_terminal (pl_reusable p)) db r)
         (\<lambda>db r. b_call (db, refresh_counts db ts r) b_return))
     else b_return db r)"

definition new_report :: "string \<Rightarrow> int \<Rightarrow> nat \<Rightarrow> batch_report" where
  "new_report parent max_windows n = \<lparr>br_parent_task_id = parent, br_max_windows = max_windows, br_total_children = n,
     br_dispatched_children = 0, br_bound_session_children = 0, br_pending_children = 0, br_pool_windows = 0,
     br_waiting_for_binding = [], br_stopped = False, br_stop_reason = None, br_events = []\<rparr>"

definition advance_child_dispatch_batch ::
  "(real \<Rightarrow> string) \<Rightarrow> batch_config \<Rightarrow> (string \<Rightarrow> batch_transport result) \<Rightarrow> (string \<Rightarrow> batch_inputs) \<Rightarrow> registry \<Rightarrow> string \<Rightarrow> batch_run" where
  "advance_child_dispatch_batch ft cfg factory inputs db parent =
     (if bg_max_windows cfg \<le> 0 \<or> bg_max_windows cfg > 16 then ((db, Inl (ValueError ''max_windows must be between 1 and 16'')), [])
      else if bg_lease_seconds cfg \<le> 0 then ((db, Inl (ValueError ''lease_seconds must be positive'')), [])
      else
        let ts = map cd_child_task_id (child_dispatches_for_parent db parent);
            r = new_report parent (bg_max_windows cfg) (length ts) in
        b_call (db, preflight_batch db ts r) (\<lambda>db stop.
        case stop of Some r \<Rightarrow> b_return db r
        | None \<Rightarrow> b_then (advance_children ft cfg factory inputs ts ts db r) (finish_batch ft cfg factory inputs ts)))"

end
