(* ===== verification/Batch_Safety.thy ===== *)
theory Batch_Safety
  imports Child_Batch Spawn_Safety
begin

text \<open>
  What a pass over a batch of children guarantees about the browser: nothing happens while an earlier
  outcome is open, new windows stay within the pool, and an attempt that does not complete ends the pass.
\<close>

section \<open>Completed attempts stay completed\<close>

definition completed :: "string \<Rightarrow> registry \<Rightarrow> bool" where
  "completed i db \<longleftrightarrow> (\<exists>a. spawn_row db i = Some a \<and> cs_state a = CS_COMPLETED)"

lemma completed_update: "completed i db \<Longrightarrow> completed i (fst (update_child_spawn_attempt db j st f now))"
  by (rule update_spawn_cases [of db j st f now]) (auto simp: completed_def)

interpretation completed: spawn_invariant "completed i" for i
proof unfold_locales
  show "completed i db \<Longrightarrow> db_spawns db' = db_spawns db \<Longrightarrow> completed i db'" for db db'
    by (simp add: completed_def spawn_row_def)
  show "completed i db \<Longrightarrow> completed i (fst (annotate_child_spawn_attempt db j m now))" for db j m now
    using annotate_spawn_row [of db i j m now] by (auto simp: completed_def same_progress_def split: option.splits)
qed (blast intro: completed_update)

lemma completed_arm: "completed i db \<Longrightarrow> completed i (fst (arm_child_spawn db t c ws now age x y))"
  unfolding arm_child_spawn_def reading_def Let_def
  by (rule sbind_pres [where P = "completed i"]) (auto simp: completed_def record_spawn_row)

lemma completed_open: "completed i db \<Longrightarrow> completed i (fst (execute_child_spawn_open db j tr w b a t0 now))"
  unfolding execute_child_spawn_open_def submit_child_spawn_open_def bind_child_spawn_window_def reading_def
  by (auto intro!: sbind_pres [where P = "completed i"] completed_update completed.mark_recycled)

lemma completed_submit_prompt: "completed i db \<Longrightarrow> completed i (fst (submit_child_spawn_prompt db j now))"
  unfolding submit_child_spawn_prompt_def reading_def
  by (auto intro!: sbind_pres [where P = "completed i"] completed_update)

lemma completed_prompt: "completed i db \<Longrightarrow> completed i (fst (fst (execute_child_spawn_prompt ft db j tr l c f now)))"
  unfolding execute_child_spawn_prompt_def send_prompt_def after_send_def rate_limited_retry_def reading_def Let_def
  by (auto intro!: ebind_pres [where P = "completed i"] sbind_pres [where P = "completed i"] completed_update completed_submit_prompt
      completed.after_conversation completed.cooldown split: sum.splits option.splits)

section \<open>What an operation returns is its row\<close>

definition returns_row :: "string \<Rightarrow> registry \<times> child_spawn_attempt result \<Rightarrow> bool" where
  "returns_row i r \<longleftrightarrow> (\<forall>db a. r = (db, Inr a) \<longrightarrow> spawn_row db i = Some a)"

lemma returns_error [simp]: "returns_row i (db, Inl e)"
  by (simp add: returns_row_def)

lemma returns_update: "returns_row i (update_child_spawn_attempt db i st f now)"
  by (rule update_spawn_cases [of db i st f now]) (auto simp: returns_row_def)

lemma returns_sbind: "(\<And>db x. r = (db, Inr x) \<Longrightarrow> returns_row i (f db x)) \<Longrightarrow> returns_row i (sbind r f)"
  by (cases r; cases "snd r") (auto simp: sbind_def)

lemma returns_ebind: "(\<And>db x. r = (db, Inr x) \<Longrightarrow> returns_row i (fst (f db x))) \<Longrightarrow> returns_row i (fst (ebind r f))"
  by (cases r; cases "snd r") (auto simp: ebind_def)

lemma returns_complete: "cs_attempt_id a = i \<Longrightarrow> returns_row i (complete_from_bound_conversation db a url now l f)"
  unfolding complete_from_bound_conversation_def Let_def by (auto intro!: returns_sbind returns_update)

lemma returns_spawn_ambiguous: "returns_row i (fst (spawn_ambiguous db i d now))"
  by (simp add: returns_update)

lemma updated_id: "update_child_spawn_attempt db i st f now = (db', Inr u) \<Longrightarrow> cs_attempt_id u = i"
  by (rule update_spawn_cases [of db i st f now]) auto

lemma returns_second_send: "returns_row i (fst (second_send db tr wait i prompt d l f now))"
  unfolding second_send_def reading_def
  by (auto intro!: returns_ebind returns_complete simp: returns_update; erule updated_id)

lemma returns_after_conversation: "cs_attempt_id a = i \<Longrightarrow> returns_row i (fst (after_conversation db tr a i prompt url l f now))"
  unfolding after_conversation_def reading_def
  by (auto intro!: returns_ebind returns_complete returns_second_send simp: returns_update split: option.splits)

lemma returns_prompt: "returns_row i (fst (execute_child_spawn_prompt ft db i tr l c f now))"
proof -
  have "returns_row i (fst (after_send ft x tr u i prompt r l c f now))" if "cs_attempt_id u = i" for x u prompt r
    using that unfolding after_send_def rate_limited_retry_def reading_def Let_def
    by (auto intro!: returns_ebind returns_sbind returns_after_conversation simp: returns_update)
  then have "returns_row i (fst (send_prompt ft db i tr l c f now))"
    unfolding send_prompt_def reading_def using submitted_row(2) by (auto intro!: returns_ebind; metis)
  then show ?thesis
    by (auto simp: execute_child_spawn_prompt_def returns_update split: sum.splits option.splits)
qed

lemma opened_id:
  assumes "execute_child_spawn_open db i tr w b a t0 now = (db', Inr u)"
  shows "cs_attempt_id u = i"
proof -
  have bound: "cs_attempt_id v = i" if "bind_child_spawn_window x i h p url now = (y, Inr v)" for x h p url y v
    using that by (auto simp: bind_child_spawn_window_def reading_def sbind_def split: sum.splits if_splits dest: updated_id)
  from assms show ?thesis
    by (auto simp: execute_child_spawn_open_def reading_def sbind_def dest: updated_id bound split: if_splits sum.splits prod.splits)
qed

section \<open>The effects of a pass\<close>

fun attempt_of :: "batch_effect \<Rightarrow> string option" where
  "attempt_of (Open_Window a n) = Some (cs_attempt_id a)"
| "attempt_of (Reuse_Window a s) = Some (cs_attempt_id a)"
| "attempt_of (Prompt_Window (Send_Prompt a _)) = Some (cs_attempt_id a)"
| "attempt_of (Prompt_Window (Send_Draft a _ _)) = Some (cs_attempt_id a)"
| "attempt_of (Close_Window s) = None"

fun within_pool :: "batch_config \<Rightarrow> batch_effect \<Rightarrow> bool" where
  "within_pool cfg (Open_Window a n) = (int n < bg_max_windows cfg)"
| "within_pool cfg e = True"

text \<open>The step of one child: it keeps completed attempts, touches one attempt, and goes on only when that one is completed.\<close>

definition child_step :: "batch_config \<Rightarrow> registry \<Rightarrow> batch_run \<Rightarrow> bool" where
  "child_step cfg db x \<longleftrightarrow>
     (\<forall>i. completed i db \<longrightarrow> completed i (fst (fst x))) \<and> list_all (within_pool cfg) (snd x)
     \<and> (snd x = [] \<or> (\<exists>i. list_all (\<lambda>e. attempt_of e = Some i) (snd x)
          \<and> (\<forall>r. snd (fst x) = Inr (r, False) \<longrightarrow> completed i (fst (fst x)))))"

text \<open>The same with the attempt known.\<close>

definition attempt_step :: "batch_config \<Rightarrow> string \<Rightarrow> registry \<Rightarrow> batch_run \<Rightarrow> bool" where
  "attempt_step cfg i db x \<longleftrightarrow>
     (\<forall>i. completed i db \<longrightarrow> completed i (fst (fst x))) \<and> list_all (within_pool cfg) (snd x)
     \<and> list_all (\<lambda>e. attempt_of e = Some i) (snd x)
     \<and> (\<forall>r. snd (fst x) = Inr (r, False) \<longrightarrow> snd x = [] \<or> completed i (fst (fst x)))"

lemma attempt_child_step: "attempt_step cfg i db x \<Longrightarrow> child_step cfg db x"
  by (auto simp: attempt_step_def child_step_def)

lemma attempt_quiet [simp]: "attempt_step cfg i db (b_go db r)" "attempt_step cfg i db (b_return db r)" "attempt_step cfg i db ((db, Inl e), [])"
  by (simp_all add: attempt_step_def b_go_def b_return_def)

lemma attempt_call: "(\<And>y. v = Inr y \<Longrightarrow> attempt_step cfg i db (f db y)) \<Longrightarrow> attempt_step cfg i db (b_call (db, v) f)"
  by (cases v) (auto simp: b_call_def)

lemma prompt_attempts: "list_all (\<lambda>e. attempt_of e = Some i) (map Prompt_Window (snd (execute_child_spawn_prompt ft db i tr l c f now)))"
proof -
  have "attempt_of (Prompt_Window e) = Some i" if "effect_on i e" for e using that by (cases e) auto
  then show ?thesis using prompt_effects_on [of i ft db tr l c f now] by (auto simp: list_all_iff)
qed

text \<open>After a send the pass returns, raises, or goes on with the completed attempt.\<close>

lemma send_step:
  assumes "cs_state a = CS_WINDOW_BOUND"
  shows "attempt_step cfg (cs_attempt_id a) db (send_child ft cfg factory inp t a db r)
    \<and> (\<forall>q. snd (fst (send_child ft cfg factory inp t a db r)) = Inr (q, False)
         \<longrightarrow> completed (cs_attempt_id a) (fst (fst (send_child ft cfg factory inp t a db r))))"
proof (cases "factory (cs_chrome_executable a)")
  case (Inr tr)
  let ?i = "cs_attempt_id a"
  obtain x es where run: "execute_child_spawn_prompt ft db ?i (bt_prompt tr) (bg_lease_seconds cfg) 120 (bi_fresh_worker inp) (bi_sent_at inp) = (x, es)"
    by fastforce
  obtain db' v where x: "x = (db', v)" by fastforce
  have keep: "completed j db'" if "completed j db" for j
    using completed_prompt [OF that, of ft ?i "bt_prompt tr" "bg_lease_seconds cfg" 120 "bi_fresh_worker inp" "bi_sent_at inp"] by (simp add: run x)
  have es: "list_all (\<lambda>e. attempt_of e = Some ?i) (map Prompt_Window es)"
    using prompt_attempts [of ?i ft db "bt_prompt tr" "bg_lease_seconds cfg" 120 "bi_fresh_worker inp" "bi_sent_at inp"] by (simp add: run)
  have row: "v = Inr u \<Longrightarrow> spawn_row db' ?i = Some u" for u
    using returns_prompt [of ?i ft db "bt_prompt tr" "bg_lease_seconds cfg" 120 "bi_fresh_worker inp" "bi_sent_at inp"] by (simp add: run x returns_row_def)
  have pool: "list_all (within_pool cfg) (map Prompt_Window es)" by (simp add: list_all_iff)
  show ?thesis
    using assms keep es pool row
    by (auto simp: send_child_def attempt_step_def b_call_def Inr run x b_effects_def b_try_def b_go_def b_return_def Let_def completed_def ambiguous_states_def
        split: sum.splits py_error.splits if_splits)
qed (simp add: send_child_def attempt_step_def b_call_def assms)

lemma attempt_effect:
  assumes "attempt_step cfg i db' x" and "\<And>j. completed j db \<Longrightarrow> completed j db'"
    and "\<And>q. snd (fst x) = Inr (q, False) \<Longrightarrow> completed i (fst (fst x))" and "attempt_of e = Some i" and "within_pool cfg e"
  shows "attempt_step cfg i db (b_effects [e] x)"
  using assms by (auto simp: attempt_step_def b_effects_def)

lemma send_step_any: "attempt_step cfg (cs_attempt_id a) db (send_child ft cfg factory inp t a db r)"
  by (cases "cs_state a = CS_WINDOW_BOUND") (use send_step in blast, simp add: send_child_def)

lemma open_from_id: "open_from tr inp a source db = (db', Inr u) \<Longrightarrow> cs_attempt_id u = cs_attempt_id a"
  by (auto simp: open_from_def Let_def dest: opened_id split: option.splits if_splits)

lemma completed_open_from: "completed j db \<Longrightarrow> completed j (fst (open_from tr inp a source db))"
  by (simp add: open_from_def Let_def completed_open split: option.split)

lemma open_with_step:
  assumes "source = None \<Longrightarrow> int n < bg_max_windows cfg"
  shows "attempt_step cfg (cs_attempt_id a) db (open_with inp t a tr n source db r (send_child ft cfg factory inp t))"
proof -
  let ?i = "cs_attempt_id a"
  obtain db' v where x: "open_from tr inp a source db = (db', v)" by fastforce
  have keep: "completed j db'" if "completed j db" for j using completed_open_from [OF that, of tr inp a source] by (simp add: x)
  have e: "attempt_of (case source of None \<Rightarrow> Open_Window a n | Some s \<Rightarrow> Reuse_Window a s) = Some ?i"
      "within_pool cfg (case source of None \<Rightarrow> Open_Window a n | Some s \<Rightarrow> Reuse_Window a s)"
    using assms by (auto split: option.split)
  show ?thesis
  proof (cases v)
    case (Inl err)
    then show ?thesis unfolding open_with_def
      by (intro attempt_effect [OF _ keep _ e]) (auto simp: b_try_def x b_return_def attempt_step_def split: py_error.splits)
  next
    case (Inr u)
    have i: "cs_attempt_id u = ?i" using open_from_id x Inr by blast
    show ?thesis
    proof (cases "cs_state u = CS_WINDOW_BOUND")
      case True
      with i send_step [OF True, of cfg db' ft factory inp t "add_event (opened_event t source u) r"] show ?thesis
        unfolding open_with_def
        by (intro attempt_effect [OF _ keep _ e]) (simp_all add: b_try_def x Inr Let_def ambiguous_states_def)
    next
      case False
      then show ?thesis unfolding open_with_def
        by (intro attempt_effect [OF _ keep _ e]) (auto simp: b_try_def x Inr Let_def b_return_def attempt_step_def split: if_splits)
    qed
  qed
qed

lemma open_step: "attempt_step cfg (cs_attempt_id a) db (open_child cfg factory inp ts t a db r (send_child ft cfg factory inp t))"
  by (cases "cs_state a = CS_ARMED")
    (auto simp: open_child_def Let_def send_step_any intro!: attempt_call open_with_step)

lemma child_quiet [simp]: "child_step cfg db (b_go db r)" "child_step cfg db (b_return db r)" "child_step cfg db ((db, Inl e), [])"
  by (simp_all add: child_step_def b_go_def b_return_def)

lemma child_step_from: "child_step cfg db' x \<Longrightarrow> (\<And>j. completed j db \<Longrightarrow> completed j db') \<Longrightarrow> child_step cfg db x"
  by (auto simp: child_step_def)

lemma advance_child_step: "child_step cfg db (advance_child ft cfg factory inp ts t db r)"
proof -
  have proceed: "child_step cfg db (open_child cfg factory inp ts t a db q (send_child ft cfg factory inp t))" for a db q
    by (rule attempt_child_step [OF open_step])
  have arm: "child_step cfg db (b_try r t ''arm_blocked'' None (sbind (db, ws) (\<lambda>db w. arm_child_spawn db t c (Some w) n g x y))
      (\<lambda>db a. open_child cfg factory inp ts t a db (q a) (send_child ft cfg factory inp t)))" for ws c n g x y q
  proof (cases ws)
    case (Inr w)
    obtain db' v where a: "arm_child_spawn db t c (Some w) n g x y = (db', v)" by fastforce
    have "completed j db'" if "completed j db" for j using completed_arm [OF that, of t c "Some w" n g x y] by (simp add: a)
    then show ?thesis
      by (cases v) (auto simp: Inr a b_try_def intro: child_step_from [OF proceed] child_step_from [OF child_quiet(2)]
          child_step_from [OF child_quiet(3)] split: py_error.split)
  qed (auto simp: b_try_def split: py_error.split)
  show ?thesis
    unfolding advance_child_def Let_def
    by (auto simp: b_call_def proceed arm split: sum.split option.split)
qed

section \<open>The whole pass\<close>

definition settled :: "registry \<Rightarrow> batch_effect \<Rightarrow> bool" where
  "settled db e \<longleftrightarrow> (case attempt_of e of None \<Rightarrow> True | Some j \<Rightarrow> completed j db)"

text \<open>After an effect on an attempt that is not completed at the end, only that attempt is touched.\<close>

fun fenced_trace :: "registry \<Rightarrow> batch_effect list \<Rightarrow> bool" where
  "fenced_trace db [] = True"
| "fenced_trace db (e # es) = ((settled db e \<or> list_all (\<lambda>y. attempt_of y = attempt_of e) es) \<and> fenced_trace db es)"

lemma fenced_append: "list_all (settled db) xs \<Longrightarrow> fenced_trace db ys \<Longrightarrow> fenced_trace db (xs @ ys)"
  by (induction xs) auto

lemma fenced_same: "list_all (\<lambda>e. attempt_of e = k) es \<Longrightarrow> fenced_trace db es"
  by (induction es) (auto simp: list_all_iff)

definition run_ok :: "batch_config \<Rightarrow> registry \<Rightarrow> batch_run \<Rightarrow> bool" where
  "run_ok cfg db x \<longleftrightarrow>
     (\<forall>i. completed i db \<longrightarrow> completed i (fst (fst x))) \<and> list_all (within_pool cfg) (snd x)
     \<and> fenced_trace (fst (fst x)) (snd x)
     \<and> (\<forall>r. snd (fst x) = Inr (r, False) \<longrightarrow> list_all (settled (fst (fst x))) (snd x))"

lemma child_run_ok: "child_step cfg db x \<Longrightarrow> run_ok cfg db x"
  by (auto simp: child_step_def run_ok_def settled_def list_all_iff intro: fenced_same)

lemma settled_mono: "(\<And>i. completed i db \<Longrightarrow> completed i db') \<Longrightarrow> settled db e \<Longrightarrow> settled db' e"
  by (auto simp: settled_def split: option.splits)

lemma run_ok_then:
  assumes x: "run_ok cfg db x" and f: "\<And>db r. run_ok cfg db (f db r)"
  shows "run_ok cfg db (b_then x f)"
proof (cases "\<exists>r. snd (fst x) = Inr (r, False)")
  case True
  then obtain db1 r es where x1: "x = ((db1, Inr (r, False)), es)" by (metis prod.collapse)
  obtain db2 v es' where y: "f db1 r = ((db2, v), es')" by (metis prod.collapse)
  have "list_all (settled db2) es"
    using x f [of db1 r] by (auto simp: run_ok_def x1 y list_all_iff intro: settled_mono [of db1])
  then show ?thesis
    using x f [of db1 r] by (auto simp: run_ok_def b_then_def x1 y fenced_append list_all_iff)
next
  case False
  then have "b_then x f = x" by (auto simp: b_then_def split: prod.splits sum.splits bool.splits)
  with x show ?thesis by simp
qed

lemma run_ok_quiet [simp]: "run_ok cfg db (b_go db r)" "run_ok cfg db (b_return db r)" "run_ok cfg db ((db, Inl e), [])"
  by (simp_all add: run_ok_def b_go_def b_return_def)

lemma run_ok_call: "(\<And>y. v = Inr y \<Longrightarrow> run_ok cfg db (f db y)) \<Longrightarrow> run_ok cfg db (b_call (db, v) f)"
  by (cases v) (auto simp: b_call_def)

lemma run_ok_children: "run_ok cfg db (advance_children ft cfg factory inputs ts rest db r)"
  by (induction rest arbitrary: db r) (auto intro!: run_ok_then child_run_ok [OF advance_child_step])

lemma run_ok_close_effect: "run_ok cfg db x \<Longrightarrow> run_ok cfg db (b_effects [Close_Window s] x)"
  by (auto simp: run_ok_def b_effects_def settled_def)

lemma completed_settle_close: "completed i db \<Longrightarrow> completed i (fst (settle_close ft inp s db))"
  unfolding settle_close_def
  by (auto intro!: sbind_pres [where P = "completed i"] completed.annotate completed.clear split: option.split)

lemma run_ok_close: "run_ok cfg db (close_terminal ft factory inputs ss db r)"
proof (induction ss arbitrary: db r)
  case (Cons s ss)
  have "run_ok cfg db (b_call (settle_close ft inp s db) (\<lambda>db _. close_terminal ft factory inputs ss db q))" for inp q
  proof -
    obtain db' v where c: "settle_close ft inp s db = (db', v)" by fastforce
    have "completed i db'" if "completed i db" for i using completed_settle_close [OF that, of ft inp s] by (simp add: c)
    then show ?thesis using Cons.IH [of db' q] by (cases v) (auto simp: c b_call_def run_ok_def)
  qed
  then show ?case using Cons.IH by (auto intro!: run_ok_call run_ok_close_effect)
qed simp

lemma run_ok_batch: "run_ok cfg db (advance_child_dispatch_batch ft cfg factory inputs db parent)"
  unfolding advance_child_dispatch_batch_def finish_batch_def Let_def
  by (auto intro!: run_ok_call run_ok_then run_ok_children run_ok_close split: option.split)

text \<open>C31. A pass over a batch, with any answers of the browser, any observations and any exceptions, opens a new window
  only while its pool has fewer windows than the limit, and stops at the first attempt that does not complete: after an
  effect on an attempt that is not completed in the registry it leaves behind, nothing but that attempt is touched.\<close>

theorem batch_stops_at_open_outcome:
  "list_all (within_pool cfg) (snd (advance_child_dispatch_batch ft cfg factory inputs db parent))
    \<and> fenced_trace (fst (fst (advance_child_dispatch_batch ft cfg factory inputs db parent)))
        (snd (advance_child_dispatch_batch ft cfg factory inputs db parent))"
  using run_ok_batch [of cfg db ft factory inputs parent] by (simp add: run_ok_def)

section \<open>The preflight\<close>

text \<open>Some effect on a child of the parent, or on the probe window, has an outcome that is not known.\<close>

definition open_outcome :: "registry \<Rightarrow> string \<Rightarrow> bool" where
  "open_outcome db parent \<longleftrightarrow> unresolved_probe_mutation_operation db \<noteq> None
     \<or> (\<exists>d \<in> set (child_dispatches_for_parent db parent). let t = cd_child_task_id d in
          unresolved_action_attempt db t \<noteq> Inr None \<or> unresolved_replacement_attempt db t \<noteq> None
          \<or> (case unresolved_child_spawn_attempt db t of None \<Rightarrow> False | Some a \<Rightarrow> cs_state a \<in> ambiguous_states))"

lemma preflight_children_open:
  assumes "t \<in> set ts" and "unresolved_action_attempt db t \<noteq> Inr None \<or> unresolved_replacement_attempt db t \<noteq> None
      \<or> (case unresolved_child_spawn_attempt db t of None \<Rightarrow> False | Some a \<Rightarrow> cs_state a \<in> ambiguous_states)"
  shows "preflight_children db ts r \<noteq> Inr None"
  using assms
  by (induction ts) (auto simp: rbind_def split: sum.splits option.splits if_splits)

text \<open>C32. A batch with an open outcome is not touched: a pass changes nothing and asks nothing of the browser.\<close>

theorem batch_fails_closed:
  assumes "open_outcome db parent"
  shows "\<exists>v. advance_child_dispatch_batch ft cfg factory inputs db parent = ((db, v), [])"
proof -
  let ?ts = "map cd_child_task_id (child_dispatches_for_parent db parent)"
  have "preflight_batch db ?ts r \<noteq> Inr None" for r
    using assms preflight_children_open [of _ ?ts db r]
    by (fastforce simp: open_outcome_def preflight_batch_def Let_def split: option.splits)
  then show ?thesis
    by (auto simp: advance_child_dispatch_batch_def Let_def b_call_def b_return_def split: sum.splits option.splits)
qed

section \<open>A run\<close>

definition demo_batch_config :: batch_config where
  "demo_batch_config = \<lparr>bg_max_windows = 2, bg_chrome_executable = ''chrome'', bg_lease_seconds = 100, bg_max_evidence_age_s = 60,
     bg_close_terminal_pages = True\<rparr>"

definition demo_batch_inputs :: "string \<Rightarrow> batch_inputs" where
  "demo_batch_inputs t = \<lparr>bi_workspace = Inr demo_spawn_workspace, bi_armed_at = 5, bi_fresh_attempt = ''0123456789abcdef'',
     bi_fresh_owner = ''0123456789abcdef'', bi_open_submitted_at = 6, bi_opened_at = 6, bi_sent_at = 7, bi_fresh_worker = ''w1'',
     bi_closed_at = 8, bi_annotated_at = 8\<rparr>"

definition demo_batch_transport :: "prompt_transport \<Rightarrow> string \<Rightarrow> batch_transport result" where
  "demo_batch_transport p chrome = Inr \<lparr>bt_open = demo_open_transport, bt_prompt = p,
     bt_close_worker = (\<lambda>w b. Inr (execution True True ''closed'')), bt_close_spawn = (\<lambda>a. Inr (execution True True ''closed''))\<rparr>"

definition demo_batch :: "prompt_transport \<Rightarrow> registry \<Rightarrow> batch_run" where
  "demo_batch p db = advance_child_dispatch_batch (\<lambda>_. ''f'') demo_batch_config (demo_batch_transport p) demo_batch_inputs db ''root''"

text \<open>A send that raises leaves its outcome open.\<close>

definition demo_raised :: registry where
  "demo_raised = fst (run_spawn_ops (\<lambda>_. ''f'') (butlast demo_spawn_ops @ [Prompt_Spawn demo_spawn_id
     (demo_prompt_transport\<lparr>pt_send := (\<lambda>a p. Inl (RuntimeError ''lost''))\<rparr>) 100 60 ''w1'' 7]) demo_project_child)"

theorem batch_fails_closed_witness:
  "map_option cs_state (spawn_row demo_raised demo_spawn_id) = Some CS_PROMPT_SUBMITTED
    \<and> fst (fst (demo_batch demo_prompt_transport demo_raised)) = demo_raised \<and> snd (demo_batch demo_prompt_transport demo_raised) = []"
proof -
  have "map_option cs_state (spawn_row demo_raised demo_spawn_id) = Some CS_PROMPT_SUBMITTED" by code_simp
  moreover have "open_outcome demo_raised ''root''" by code_simp
  from batch_fails_closed [OF this] have "\<exists>v. demo_batch demo_prompt_transport demo_raised = ((demo_raised, v), [])"
    by (simp add: demo_batch_def)
  ultimately show ?thesis by auto
qed

end
