(* ===== verification/Observations.thy ===== *)
theory Observations
  imports Reconcile_Dispatch Registry_Tasks
begin

text \<open>
  The evidence tables of \<^verbatim>\<open>registry.py\<close>: observations of the browser, the network, the session and the
  workspace, reconciliation records and recovery events. The rows of a table carry their autoincrement
  id; an observation table keeps the newest rows of each entity.
\<close>

section \<open>A table of timed rows\<close>

text \<open>\<open>ev_next\<close> is the autoincrement counter, \<open>ev_rows\<close> the rows in the order of their ids.\<close>

record 'o evidence =
  ev_next :: nat
  ev_rows :: "(nat \<times> 'o) list"

definition no_evidence :: "'o evidence" where
  "no_evidence = \<lparr>ev_next = 1, ev_rows = []\<rparr>"

definition ev_insert :: "'o \<Rightarrow> 'o evidence \<Rightarrow> 'o evidence" where
  "ev_insert x e = \<lparr>ev_next = Suc (ev_next e), ev_rows = ev_rows e @ [(ev_next e, x)]\<rparr>"

text \<open>The rows of one entity, \<^verbatim>\<open>ORDER BY observed_at DESC, id DESC\<close>.\<close>

definition newest_first :: "('o \<Rightarrow> string) \<Rightarrow> ('o \<Rightarrow> timestamp) \<Rightarrow> string \<Rightarrow> 'o evidence \<Rightarrow> (nat \<times> 'o) list" where
  "newest_first key time k e = sort_key (\<lambda>(i, x). - time x) (rev (filter (\<lambda>(i, x). key x = k) (ev_rows e)))"

text \<open>
  \<^verbatim>\<open>ORDER BY observed_at DESC LIMIT 1\<close> without a second criterion: among equal times the index on the entity
  and the time lists the rows by ascending id.
\<close>

definition latest_row :: "('o \<Rightarrow> string) \<Rightarrow> ('o \<Rightarrow> timestamp) \<Rightarrow> string \<Rightarrow> 'o evidence \<Rightarrow> 'o option" where
  "latest_row key time k e = (case sort_key (\<lambda>(i, x). - time x) (filter (\<lambda>(i, x). key x = k) (ev_rows e)) of
     [] \<Rightarrow> None | (i, x) # _ \<Rightarrow> Some x)"

definition ev_prune :: "('o \<Rightarrow> string) \<Rightarrow> ('o \<Rightarrow> timestamp) \<Rightarrow> nat \<Rightarrow> string \<Rightarrow> 'o evidence \<Rightarrow> 'o evidence" where
  "ev_prune key time n k e =
     e\<lparr>ev_rows := filter (\<lambda>(i, x). key x \<noteq> k \<or> i \<in> set (map fst (take n (newest_first key time k e)))) (ev_rows e)\<rparr>"

definition ev_record :: "('o \<Rightarrow> string) \<Rightarrow> ('o \<Rightarrow> timestamp) \<Rightarrow> nat \<Rightarrow> 'o \<Rightarrow> 'o evidence \<Rightarrow> 'o evidence" where
  "ev_record key time n x e = ev_prune key time n (key x) (ev_insert x e)"

section \<open>The tables\<close>

definition OBSERVATION_RETENTION_PER_ENTITY :: nat where
  "OBSERVATION_RETENTION_PER_ENTITY = 2000"

record recovery_event =
  rv_task_id :: string
  rv_created_at :: timestamp
  rv_action :: string
  rv_safe_to_dispatch :: bool
  rv_reason :: string
  rv_payload :: json_object

record evidence_tables =
  et_browser :: "browser_observation evidence"
  et_network :: "network_observation evidence"
  et_lsm :: "lsm_observation evidence"
  et_workspace :: "workspace_observation evidence"
  et_reconciliations :: "reconciliation_record evidence"
  et_recovery :: "recovery_event evidence"
  et_jobs :: "(string \<times> string) list"

definition empty_tables :: evidence_tables where
  "empty_tables = \<lparr>et_browser = no_evidence, et_network = no_evidence, et_lsm = no_evidence, et_workspace = no_evidence,
     et_reconciliations = no_evidence, et_recovery = no_evidence, et_jobs = []\<rparr>"

text \<open>The connection of the registry holds both groups of tables.\<close>

type_synonym database = "registry \<times> evidence_tables"

definition record_browser_observation :: "database \<Rightarrow> browser_observation \<Rightarrow> database \<times> unit result" where
  "record_browser_observation d x =
     (if find_worker (fst d) (bo_worker_id x) = None then (d, Inl foreign_key)
      else ((update_worker_row (bo_worker_id x) (\<lambda>w. w\<lparr>wr_last_seen_at := Some (bo_observed_at x)\<rparr>) (fst d),
             (snd d)\<lparr>et_browser := ev_record bo_worker_id bo_observed_at OBSERVATION_RETENTION_PER_ENTITY x (et_browser (snd d))\<rparr>),
            Inr ()))"

definition latest_browser_observation :: "database \<Rightarrow> string option \<Rightarrow> browser_observation option" where
  "latest_browser_observation d w = (if present w then latest_row bo_worker_id bo_observed_at (the w) (et_browser (snd d)) else None)"

definition browser_observation_history :: "database \<Rightarrow> string option \<Rightarrow> int \<Rightarrow> browser_observation list" where
  "browser_observation_history d w limit =
     (if present w then map snd (take (nat (max 1 (min limit (int OBSERVATION_RETENTION_PER_ENTITY))))
        (newest_first bo_worker_id bo_observed_at (the w) (et_browser (snd d)))) else [])"

definition record_network_observation :: "database \<Rightarrow> network_observation \<Rightarrow> database \<times> unit result" where
  "record_network_observation d x =
     (if find_worker (fst d) (no_worker_id x) = None then (d, Inl foreign_key)
      else ((fst d, (snd d)\<lparr>et_network := ev_record no_worker_id no_observed_at OBSERVATION_RETENTION_PER_ENTITY x (et_network (snd d))\<rparr>), Inr ()))"

definition latest_network_observation :: "database \<Rightarrow> string option \<Rightarrow> network_observation option" where
  "latest_network_observation d w = (if present w then latest_row no_worker_id no_observed_at (the w) (et_network (snd d)) else None)"

definition record_lsm_observation :: "database \<Rightarrow> lsm_observation \<Rightarrow> database \<times> unit result" where
  "record_lsm_observation d x =
     (if find_task (fst d) (lo_task_id x) = None then (d, Inl foreign_key)
      else ((fst d, (snd d)\<lparr>et_lsm := ev_record lo_task_id lo_observed_at OBSERVATION_RETENTION_PER_ENTITY x (et_lsm (snd d))\<rparr>), Inr ()))"

definition latest_lsm_observation :: "database \<Rightarrow> string \<Rightarrow> lsm_observation option" where
  "latest_lsm_observation d t = latest_row lo_task_id lo_observed_at t (et_lsm (snd d))"

definition record_workspace_observation :: "database \<Rightarrow> workspace_observation \<Rightarrow> database \<times> unit result" where
  "record_workspace_observation d x =
     (if find_task (fst d) (wo_task_id x) = None then (d, Inl foreign_key)
      else ((fst d, (snd d)\<lparr>et_workspace := ev_record wo_task_id wo_observed_at OBSERVATION_RETENTION_PER_ENTITY x (et_workspace (snd d))\<rparr>), Inr ()))"

definition latest_workspace_observation :: "database \<Rightarrow> string \<Rightarrow> workspace_observation option" where
  "latest_workspace_observation d t = latest_row wo_task_id wo_observed_at t (et_workspace (snd d))"

text \<open>Reconciliation records and recovery events are never deleted; a reconciliation id is unique.\<close>

definition record_reconciliation :: "database \<Rightarrow> reconciliation_record \<Rightarrow> database \<times> unit result" where
  "record_reconciliation d x =
     (case get_task (fst d) (rr_task_id x) of Inl e \<Rightarrow> (d, Inl e)
      | Inr _ \<Rightarrow>
          if rr_reconcile_id x \<in> set (map (\<lambda>(i, y). rr_reconcile_id y) (ev_rows (et_reconciliations (snd d)))) then (d, Inl unique_key)
          else ((fst d, (snd d)\<lparr>et_reconciliations := ev_insert x (et_reconciliations (snd d))\<rparr>), Inr ()))"

definition reconciliation_history :: "database \<Rightarrow> string \<Rightarrow> int \<Rightarrow> reconciliation_record list result" where
  "reconciliation_history d t limit = rbind (get_task (fst d) t) (\<lambda>_.
     Inr (map snd (take (nat (max 1 (min limit 200))) (newest_first rr_task_id rr_created_at t (et_reconciliations (snd d))))))"

definition latest_reconciliation :: "database \<Rightarrow> string \<Rightarrow> reconciliation_record option result" where
  "latest_reconciliation d t = rbind (get_task (fst d) t) (\<lambda>_.
     Inr (case newest_first rr_task_id rr_created_at t (et_reconciliations (snd d)) of [] \<Rightarrow> None | (i, x) # _ \<Rightarrow> Some x))"

definition record_recovery_event ::
  "database \<Rightarrow> string \<Rightarrow> string \<Rightarrow> bool \<Rightarrow> string \<Rightarrow> json_object \<Rightarrow> timestamp \<Rightarrow> database \<times> unit result" where
  "record_recovery_event d t action safe reason payload now =
     (case get_task (fst d) t of Inl e \<Rightarrow> (d, Inl e)
      | Inr _ \<Rightarrow> ((fst d, (snd d)\<lparr>et_recovery := ev_insert \<lparr>rv_task_id = t, rv_created_at = now, rv_action = action,
          rv_safe_to_dispatch = safe, rv_reason = reason, rv_payload = payload\<rparr> (et_recovery (snd d))\<rparr>), Inr ()))"

definition track_job :: "database \<Rightarrow> string \<Rightarrow> string \<Rightarrow> database \<times> unit result" where
  "track_job d t j =
     (case get_task (fst d) t of Inl e \<Rightarrow> (d, Inl e)
      | Inr _ \<Rightarrow> ((fst d, (snd d)\<lparr>et_jobs := (if (t, j) \<in> set (et_jobs (snd d)) then et_jobs (snd d) else et_jobs (snd d) @ [(t, j)])\<rparr>), Inr ()))"

definition tracked_jobs :: "database \<Rightarrow> string \<Rightarrow> string list" where
  "tracked_jobs d t = sort (map snd (filter (\<lambda>(k, j). k = t) (et_jobs (snd d))))"

definition recovery_history :: "database \<Rightarrow> string \<Rightarrow> int \<Rightarrow> recovery_event list result" where
  "recovery_history d t limit = rbind (get_task (fst d) t) (\<lambda>_.
     Inr (map snd (take (nat (max 1 (min limit 200))) (sort_key (\<lambda>(i, x). - rv_created_at x)
       (filter (\<lambda>(i, x). rv_task_id x = t) (ev_rows (et_recovery (snd d))))))))"

section \<open>What the retention keeps\<close>

lemma take_insort: "take n (insort_key f y (take n xs)) = take n (insort_key f y xs)"
proof (induction xs arbitrary: n)
  case (Cons z xs)
  then show ?case by (cases n) (auto simp: take_Cons' min_def split: nat.splits)
qed simp

lemma filter_take_distinct: "distinct (map f xs) \<Longrightarrow> filter (\<lambda>x. f x \<in> set (map f (take n xs))) xs = take n xs"
proof (induction xs arbitrary: n)
  case (Cons x xs)
  then show ?case
  proof (cases n)
    case (Suc m)
    have "filter (\<lambda>y. f y \<in> set (map f (take n (x # xs)))) xs = filter (\<lambda>y. f y \<in> set (map f (take m xs))) xs"
      using Cons.prems Suc by (intro filter_cong) (auto simp: image_iff)
    with Cons Suc show ?thesis by simp
  qed simp
qed simp

lemma newest_first_insert:
  "newest_first key time k (ev_insert x e)
    = (if key x = k then insort_key (\<lambda>(i, x). - time x) (ev_next e, x) (newest_first key time k e) else newest_first key time k e)"
  by (simp add: newest_first_def ev_insert_def)

definition ev_ok :: "'o evidence \<Rightarrow> bool" where
  "ev_ok e \<longleftrightarrow> distinct (map fst (ev_rows e)) \<and> (\<forall>i \<in> set (map fst (ev_rows e)). i < ev_next e)"

lemma ev_ok_insert: "ev_ok e \<Longrightarrow> ev_ok (ev_insert x e)"
  by (force simp: ev_ok_def ev_insert_def)

lemma ev_ok_prune: "ev_ok e \<Longrightarrow> ev_ok (ev_prune key time n k e)"
  by (auto simp: ev_ok_def ev_prune_def distinct_map intro: inj_on_subset)

lemma newest_first_distinct: "ev_ok e \<Longrightarrow> distinct (map fst (newest_first key time k e))"
  by (auto simp: ev_ok_def newest_first_def distinct_map intro: inj_on_subset)

lemma newest_first_filter: "newest_first key time k (e\<lparr>ev_rows := filter P (ev_rows e)\<rparr>) = filter P (newest_first key time k e)"
  by (simp add: newest_first_def filter_sort rev_filter conj_commute)

lemma newest_first_key: "y \<in> set (newest_first key time k e) \<Longrightarrow> key (snd y) = k"
  by (auto simp: newest_first_def)

lemma newest_first_prune:
  assumes "ev_ok e"
  shows "newest_first key time l (ev_prune key time n k e)
    = (if l = k then take n (newest_first key time k e) else newest_first key time l e)"
proof (cases "l = k")
  case True
  have "newest_first key time k (ev_prune key time n k e)
      = filter (\<lambda>y. fst y \<in> set (map fst (take n (newest_first key time k e)))) (newest_first key time k e)"
    unfolding ev_prune_def newest_first_filter by (rule filter_cong) (auto dest: newest_first_key simp del: set_map)
  also have "\<dots> = take n (newest_first key time k e)"
    by (rule filter_take_distinct [OF newest_first_distinct [OF assms]])
  finally show ?thesis using True by simp
next
  case False
  then have "newest_first key time l (ev_prune key time n k e) = filter (\<lambda>_. True) (newest_first key time l e)"
    unfolding ev_prune_def newest_first_filter by (intro filter_cong) (auto dest: newest_first_key)
  with False show ?thesis by simp
qed

text \<open>A table that is pruned after every insertion answers like one that never forgets.\<close>

lemma newest_first_record:
  assumes "ev_ok e" and "ev_ok e'" and "ev_next e = ev_next e'" and "\<And>l. take n (newest_first key time l e) = take n (newest_first key time l e')"
  shows "take n (newest_first key time l (ev_record key time n x e)) = take n (newest_first key time l (ev_insert x e'))"
proof -
  let ?f = "\<lambda>(i, x). - time x"
  have "take n (insort_key ?f y (newest_first key time l e)) = take n (insort_key ?f y (newest_first key time l e'))" for y
    using take_insort [of n ?f y "newest_first key time l e"] take_insort [of n ?f y "newest_first key time l e'"] assms(4) by simp
  then show ?thesis
    using assms by (simp add: ev_record_def newest_first_prune [OF ev_ok_insert [OF assms(1)]] newest_first_insert)
qed

definition record_browser_observations :: "database \<Rightarrow> browser_observation list \<Rightarrow> database" where
  "record_browser_observations d xs = fold (\<lambda>x d. fst (record_browser_observation d x)) xs d"

lemma find_worker_last_seen: "(find_worker (update_worker_row w (\<lambda>x. x\<lparr>wr_last_seen_at := t\<rparr>) db) k = None) = (find_worker db k = None)"
  by (simp add: find_worker_def update_worker_row_def tbl_find_update split: option.split)

lemma record_browser_simps:
  "find_worker (fst (fst (record_browser_observation d x))) k = None \<longleftrightarrow> find_worker (fst d) k = None"
  "et_browser (snd (fst (record_browser_observation d x))) = (if find_worker (fst d) (bo_worker_id x) = None then et_browser (snd d)
    else ev_record bo_worker_id bo_observed_at OBSERVATION_RETENTION_PER_ENTITY x (et_browser (snd d)))"
  by (simp_all add: record_browser_observation_def find_worker_last_seen)

lemma map_insort: "map g (insort_key (\<lambda>x. f (g x)) y xs) = insort_key f (g y) (map g xs)"
  by (induction xs) auto

lemma map_sort: "map g (sort_key (\<lambda>x. f (g x)) xs) = sort_key f (map g xs)"
  by (induction xs) (simp_all add: map_insort)

lemma newest_first_payload:
  "map snd (newest_first key time k e) = sort_key (\<lambda>x. - time x) (rev (filter (\<lambda>x. key x = k) (map snd (ev_rows e))))"
proof -
  have "map snd (newest_first key time k e) = sort_key (\<lambda>x. - time x) (map snd (rev (filter (\<lambda>(i, x). key x = k) (ev_rows e))))"
    unfolding newest_first_def using map_sort [of snd "\<lambda>x. - time x"] by (simp add: case_prod_beta')
  then show ?thesis by (simp add: rev_map filter_map case_prod_beta' o_def)
qed

lemma ev_insert_payload [simp]: "map snd (ev_rows (ev_insert x e)) = map snd (ev_rows e) @ [x]"
  by (simp add: ev_insert_def)

lemma ev_ok_empty [simp]: "ev_ok no_evidence"
  by (simp add: ev_ok_def no_evidence_def)

lemma recorded_like_log:
  fixes db and xs
  defines "d \<equiv> record_browser_observations (db, empty_tables) xs"
    and "known \<equiv> \<lambda>x. find_worker db (bo_worker_id x) \<noteq> None"
  shows "(\<forall>k. (find_worker (fst d) k = None) = (find_worker db k = None)) \<and> ev_ok (et_browser (snd d))
    \<and> (\<exists>e. ev_ok e \<and> ev_next e = ev_next (et_browser (snd d)) \<and> map snd (ev_rows e) = filter known xs
        \<and> (\<forall>l. take OBSERVATION_RETENTION_PER_ENTITY (newest_first bo_worker_id bo_observed_at l (et_browser (snd d)))
             = take OBSERVATION_RETENTION_PER_ENTITY (newest_first bo_worker_id bo_observed_at l e)))"
  unfolding d_def known_def
proof (induction xs rule: rev_induct)
  case Nil
  then show ?case
    by (intro conjI exI [of _ no_evidence]) (simp_all add: record_browser_observations_def empty_tables_def no_evidence_def ev_ok_def)
next
  case (snoc x xs)
  let ?d = "record_browser_observations (db, empty_tables) xs"
  from snoc obtain e where known: "\<And>k. (find_worker (fst ?d) k = None) = (find_worker db k = None)" and ok: "ev_ok (et_browser (snd ?d))"
    and e: "ev_ok e" "ev_next (et_browser (snd ?d)) = ev_next e" "map snd (ev_rows e) = filter (\<lambda>x. find_worker db (bo_worker_id x) \<noteq> None) xs"
      "\<And>l. take OBSERVATION_RETENTION_PER_ENTITY (newest_first bo_worker_id bo_observed_at l (et_browser (snd ?d)))
         = take OBSERVATION_RETENTION_PER_ENTITY (newest_first bo_worker_id bo_observed_at l e)" by metis
  have d: "record_browser_observations (db, empty_tables) (xs @ [x]) = fst (record_browser_observation ?d x)"
    by (simp add: record_browser_observations_def)
  show ?case
  proof (cases "find_worker db (bo_worker_id x) = None")
    case True
    with known ok e show ?thesis unfolding d record_browser_simps by (auto intro!: exI [of _ e])
  next
    case False
    then obtain y where y: "find_worker db (bo_worker_id x) = Some y" by blast
    have "ev_ok (ev_record key time n x f)" if "ev_ok f" for key time n f
      using that by (simp add: ev_record_def ev_ok_prune ev_ok_insert)
    moreover have "ev_next (ev_record key time n x f) = ev_next (ev_insert x f)" for key time n f
      by (simp add: ev_record_def ev_prune_def)
    ultimately show ?thesis
      using y known ok e newest_first_record [OF ok e(1,2,4)] unfolding d record_browser_simps
      by (intro conjI exI [of _ "ev_insert x e"]) (simp_all add: ev_ok_insert, simp add: ev_insert_def)
  qed
qed

text \<open>C33. Pruning is invisible: after any sequence of recorded browser observations, the history of a worker is the
  beginning of the newest-first list of everything that was ever recorded for it, although each write deletes all but
  the newest 2000 rows of the worker.\<close>

theorem history_forgets_nothing:
  assumes "find_worker db w \<noteq> None" and "w \<noteq> []"
  shows "browser_observation_history (record_browser_observations (db, empty_tables) xs) (Some w) limit
    = take (nat (max 1 (min limit 2000))) (sort_key (\<lambda>x. - bo_observed_at x) (rev (filter (\<lambda>x. bo_worker_id x = w) xs)))"
proof -
  let ?n = "nat (max 1 (min limit 2000))" and ?e = "et_browser (snd (record_browser_observations (db, empty_tables) xs))"
  obtain e where e: "map snd (ev_rows e) = filter (\<lambda>x. find_worker db (bo_worker_id x) \<noteq> None) xs"
      "take OBSERVATION_RETENTION_PER_ENTITY (newest_first bo_worker_id bo_observed_at w ?e)
        = take OBSERVATION_RETENTION_PER_ENTITY (newest_first bo_worker_id bo_observed_at w e)"
    using recorded_like_log [of db xs] by blast
  have "take ?n ys = take ?n (take OBSERVATION_RETENTION_PER_ENTITY ys)" for ys :: "(nat \<times> browser_observation) list"
    by (simp add: OBSERVATION_RETENTION_PER_ENTITY_def min_absorb1)
  then have "take ?n (newest_first bo_worker_id bo_observed_at w ?e) = take ?n (newest_first bo_worker_id bo_observed_at w e)"
    using e(2) by metis
  moreover have "filter (\<lambda>x. bo_worker_id x = w) (filter (\<lambda>x. find_worker db (bo_worker_id x) \<noteq> None) xs) = filter (\<lambda>x. bo_worker_id x = w) xs"
    using assms(1) by (auto intro!: filter_cong)
  ultimately show ?thesis
    using assms(2) e(1) newest_first_payload [of bo_worker_id bo_observed_at w e]
    by (simp add: browser_observation_history_def present_def OBSERVATION_RETENTION_PER_ENTITY_def flip: take_map)
qed

definition demo_seen :: "timestamp \<Rightarrow> browser_observation" where
  "demo_seen t = \<lparr>bo_worker_id = ''w1'', bo_observed_at = t, bo_url = None, bo_generating = Some False, bo_send_button_ready = None,
     bo_pending_tool_calls = None, bo_visible_error = None, bo_last_dom_change_at = None, bo_message_signature = None, bo_raw = []\<rparr>"

definition demo_worker_only :: registry where
  "demo_worker_only = empty_registry\<lparr>db_workers := [\<lparr>wr_worker_id = ''w1'', wr_task_id = ''t1'', wr_conversation_url = ''u'',
     wr_conversation_id = None, wr_status = ''active'', wr_started_at = 0, wr_last_seen_at = None, wr_ended_at = None\<rparr>]\<rparr>"

theorem history_forgets_nothing_witness:
  "find_worker demo_worker_only ''w1'' \<noteq> None
    \<and> browser_observation_history (record_browser_observations (demo_worker_only, empty_tables)
        [demo_seen 3, demo_seen 7, demo_seen 5]) (Some ''w1'') 2 = [demo_seen 7, demo_seen 5]"
proof -
  have known: "find_worker demo_worker_only ''w1'' \<noteq> None" by code_simp
  have "filter (\<lambda>x. bo_worker_id x = ''w1'') [demo_seen 3, demo_seen 7, demo_seen 5] = [demo_seen 3, demo_seen 7, demo_seen 5]"
    by (simp add: demo_seen_def)
  then show ?thesis
    using known by (subst history_forgets_nothing) (simp_all add: demo_seen_def numeral_2_eq_2)
qed

end
