(* ===== verification/Recovery_Runtime.thy ===== *)
theory Recovery_Runtime
  imports Observations Registry_Runtime Child_Dispatch Uia Action_Safety
begin

text \<open>
  The two automatic continuations and their executor: the gate for visible delivery errors
  (\<^verbatim>\<open>timeout_recovery.py\<close>), the wall-clock nudge (\<^verbatim>\<open>overrun_continuation.py\<close>), and the code that turns a plan into one
  submitted action and later acknowledges it (\<^verbatim>\<open>dispatch_runtime.py\<close>).
\<close>

section \<open>Visible delivery errors\<close>

definition RECOVERABLE_DELIVERY_ERRORS :: "string list" where
  "RECOVERABLE_DELIVERY_ERRORS = [''message delivery timed out'', ''error in message stream'',
     ''there was an error generating a response'', ''something went wrong'']"

record timeout_recovery_policy =
  tr_enabled :: bool
  tr_cooldown_s :: real

definition normalized_visible_error :: "browser_observation option \<Rightarrow> string option" where
  "normalized_visible_error b = (case b of None \<Rightarrow> None
     | Some x \<Rightarrow> if present (bo_visible_error x) then Some (join '' '' (split_ws (lower (strip (the (bo_visible_error x)))))) else None)"

definition is_recoverable_delivery_error :: "browser_observation option \<Rightarrow> bool" where
  "is_recoverable_delivery_error b = (case normalized_visible_error b of None \<Rightarrow> False
     | Some m \<Rightarrow> list_ex (\<lambda>known. contains known m) RECOVERABLE_DELIVERY_ERRORS)"

text \<open>The walk back through the run of samples with the same error; \<open>unseen\<close> when the run fills the whole history.\<close>

fun error_run :: "string \<Rightarrow> bool \<Rightarrow> browser_observation list \<Rightarrow> bool" where
  "error_run marker unseen [] = unseen"
| "error_run marker unseen (x # xs) =
     (if normalized_visible_error (Some x) \<noteq> Some marker then False
      else if bo_generating x = Some True then True else error_run marker unseen xs)"

definition error_shadowed_by_active_generation :: "database \<Rightarrow> string \<Rightarrow> browser_observation option \<Rightarrow> bool result" where
  "error_shadowed_by_active_generation d t b =
     (case (b, normalized_visible_error b) of
        (Some x, Some marker) \<Rightarrow>
          rbind (get_task (fst d) t) (\<lambda>task.
          if \<not> present (tk_current_worker_id task) \<or> Some (bo_worker_id x) \<noteq> tk_current_worker_id task then Inr True
          else let history = browser_observation_history d (tk_current_worker_id task) (int OBSERVATION_RETENTION_PER_ENTITY) in
            Inr (error_run marker (OBSERVATION_RETENTION_PER_ENTITY \<le> length history) history))
      | _ \<Rightarrow> Inr False)"

definition acknowledged_state_is_unchanged :: "database \<Rightarrow> string \<Rightarrow> browser_observation option \<Rightarrow> bool result" where
  "acknowledged_state_is_unchanged d t b =
     (case b of None \<Rightarrow> Inr False
      | Some x \<Rightarrow>
          if \<not> present (bo_message_signature x) then Inr False
          else rbind (action_attempts (fst d) t 20) (\<lambda>attempts.
            Inr (case find (\<lambda>a. aa_state a = AA_ACKNOWLEDGED) attempts of None \<Rightarrow> False
              | Some a \<Rightarrow> let signature = json_string (aa_metadata a) ''ack_browser_signature'' [] in
                  signature \<noteq> [] \<and> Some signature = bo_message_signature x)))"

definition set_checks :: "check list \<Rightarrow> (string \<times> bool) list \<Rightarrow> (string \<times> bool) list" where
  "set_checks cs old = fold (\<lambda>(n, v, b). set_check n v) cs old"

definition gate_timeout_dispatch_plan ::
  "database \<Rightarrow> dispatch_plan \<Rightarrow> browser_observation option \<Rightarrow> timeout_recovery_policy \<Rightarrow> timestamp \<Rightarrow> dispatch_plan result" where
  "gate_timeout_dispatch_plan d plan browser policy now =
     rbind (acknowledged_state_is_unchanged d (dn_task_id plan) browser) (\<lambda>unchanged.
     rbind (error_shadowed_by_active_generation d (dn_task_id plan) browser) (\<lambda>shadowed.
     rbind (action_attempts (fst d) (dn_task_id plan) 1) (\<lambda>recent.
     let elapsed = (case recent of [] \<Rightarrow> None | a # _ \<Rightarrow> Some (now - aa_created_at a));
         cs = [(''timeout_autorecovery_enabled'', tr_enabled policy, Some ''resident timeout autorecovery is not explicitly enabled''),
           (''explicit_recoverable_delivery_error'', is_recoverable_delivery_error browser,
             Some ''no explicit recoverable web chat delivery error is present''),
           (''timeout_state_not_already_acknowledged'', \<not> unchanged,
             Some ''current UI signature already has a positive recovery acknowledgement''),
           (''timeout_error_not_shadowed_by_newer_generation'', \<not> shadowed,
             Some ''visible delivery error coexisted with a newer active generation; wait for the stale banner to clear''),
           (''timeout_recovery_cooldown_elapsed'', (case elapsed of None \<Rightarrow> True | Some e \<Rightarrow> max 0 (tr_cooldown_s policy) \<le> e \<and> 0 \<le> e),
             Some ''resident timeout recovery cooldown has not elapsed'')];
         blockers = dn_blockers plan @ blockers_of cs;
         allowed = (dn_candidate_ready plan \<and> blockers = []) in
     Inr (plan\<lparr>dn_candidate_ready := allowed, dn_would_dispatch := allowed \<and> dn_transport_enabled plan,
       dn_checks := set_checks cs (dn_checks plan), dn_blockers := blockers,
       dn_reason := (if allowed then ''explicit delivery timeout is stable across all recovery fences''
         else ''resident timeout recovery is blocked by deterministic safety gates'')\<rparr>))))"

section \<open>The wall-clock nudge\<close>

record overrun_policy =
  ov_enabled :: bool
  ov_overrun_after_s :: real
  ov_sample_lead_s :: real
  ov_retry_cooldown_s :: real
  ov_max_reconciliation_age_s :: real
  ov_min_reconciliation_separation_s :: real
  ov_max_browser_observation_age_s :: real
  ov_min_dom_quiet_s :: real
  ov_auto_discover_visible_conversations :: bool

record overrun_clock =
  oc_task_id :: string
  oc_worker_id :: string
  oc_anchor_at :: timestamp
  oc_elapsed_s :: real
  oc_due_at :: timestamp
  oc_due :: bool
  oc_sample_due :: bool

definition effective_continue_states :: "action_attempt_state set" where
  "effective_continue_states = {AA_SUBMITTED, AA_RECONCILE_REQUIRED, AA_ACKNOWLEDGED}"

definition terminal_states :: "supervisor_state set" where
  "terminal_states = {SS_COMPLETED, SS_ABANDONED}"

definition blocked_assessment_states :: "string set" where
  "blocked_assessment_states = ss_value ` {SS_COMPLETED, SS_ABANDONED, SS_BLOCKED, SS_NEEDS_HUMAN}"

text \<open>The start of the newest contiguous run of generating samples; the history is newest first.\<close>

definition latest_observed_generation_started_at :: "database \<Rightarrow> string \<Rightarrow> timestamp option" where
  "latest_observed_generation_started_at d w =
     (let run = takeWhile (\<lambda>x. bo_generating x = Some True)
        (dropWhile (\<lambda>x. bo_generating x \<noteq> Some True) (browser_observation_history d (Some w) 2000)) in
      if run = [] then None else Some (bo_observed_at (last run)))"

definition timestamp_or :: "timestamp \<Rightarrow> timestamp \<Rightarrow> timestamp" where
  "timestamp_or x y = (if x = 0 then y else x)"

definition continued_at :: "action_attempt \<Rightarrow> timestamp" where
  "continued_at a = (case aa_submitted_at a of Some s \<Rightarrow> s | None \<Rightarrow> timestamp_or (aa_updated_at a) (aa_created_at a))"

definition effective_continue :: "string \<Rightarrow> action_attempt \<Rightarrow> bool" where
  "effective_continue w a \<longleftrightarrow> aa_worker_id a = w \<and> aa_action a = da_value DA_CONTINUE_CURRENT_WORKER
     \<and> aa_state a \<in> effective_continue_states"

definition effective_continue_at :: "registry \<Rightarrow> string \<Rightarrow> string \<Rightarrow> timestamp option result" where
  "effective_continue_at db t w =
     rbind (action_attempts db t 200) (\<lambda>attempts.
     Inr (map_option continued_at (find (effective_continue w) attempts)))"

definition later :: "timestamp \<Rightarrow> timestamp option \<Rightarrow> timestamp" where
  "later a x = (case x of None \<Rightarrow> a | Some y \<Rightarrow> max a y)"

definition overrun_clock_of :: "database \<Rightarrow> string \<Rightarrow> overrun_policy \<Rightarrow> timestamp \<Rightarrow> overrun_clock option result" where
  "overrun_clock_of d t policy now =
     rbind (get_task (fst d) t) (\<lambda>task.
     if tk_state task \<in> terminal_states \<or> \<not> present (tk_current_worker_id task) then Inr None
     else rbind (get_worker (fst d) (the (tk_current_worker_id task))) (\<lambda>w.
       if wk_status w \<noteq> WS_ACTIVE then Inr None
       else rbind (effective_continue_at (fst d) t (wk_worker_id w)) (\<lambda>continued.
         let anchor = later (later (wk_started_at w) continued) (latest_observed_generation_started_at d (wk_worker_id w));
             threshold = max 1 (ov_overrun_after_s policy);
             elapsed = now - anchor;
             lead = max 0 (min (ov_sample_lead_s policy) threshold) in
         Inr (Some \<lparr>oc_task_id = t, oc_worker_id = wk_worker_id w, oc_anchor_at = anchor, oc_elapsed_s = elapsed,
           oc_due_at = anchor + threshold, oc_due = (threshold \<le> elapsed \<and> 0 \<le> elapsed),
           oc_sample_due = (threshold - lead \<le> elapsed \<and> 0 \<le> elapsed)\<rparr>))))"

text \<open>The newest attempt of the worker that failed or took effect decides; attempts in other states are skipped.\<close>

definition latest_failed_action_at :: "registry \<Rightarrow> string \<Rightarrow> string \<Rightarrow> timestamp option result" where
  "latest_failed_action_at db t w =
     rbind (action_attempts db t 50) (\<lambda>attempts.
     Inr (case find (\<lambda>a. aa_worker_id a = w \<and> (aa_state a = AA_FAILED \<or> aa_state a \<in> effective_continue_states)) attempts of
            None \<Rightarrow> None
          | Some a \<Rightarrow> if aa_state a = AA_FAILED then Some (timestamp_or (aa_updated_at a) (aa_created_at a)) else None))"

definition overrun_clock_checks :: "task_record \<Rightarrow> overrun_clock \<Rightarrow> overrun_policy \<Rightarrow> check list" where
  "overrun_clock_checks task clock policy =
     [(''overrun_autocontinue_enabled'', ov_enabled policy, Some ''hard-overrun auto-continue is not explicitly enabled''),
      (''hard_overrun_due'', oc_due clock, Some ''current work turn has not exceeded the hard-overrun threshold''),
      (''task_not_terminal'', tk_state task \<notin> terminal_states, Some ''task is terminal''),
      (''current_worker_matches_clock'', tk_current_worker_id task = Some (oc_worker_id clock),
        Some ''current worker changed after the overrun clock was evaluated'')]"

definition overrun_sample_checks ::
  "task_record \<Rightarrow> reconciliation_record option \<Rightarrow> reconciliation_record option \<Rightarrow> overrun_policy \<Rightarrow> timestamp \<Rightarrow> check list" where
  "overrun_sample_checks task previous current policy now =
     (let both = (\<lambda>f. case (previous, current) of (Some p, Some c) \<Rightarrow> f p c | _ \<Rightarrow> False) in
      [(''current_reconciliation_present'', current \<noteq> None, Some ''no current reconciliation record''),
       (''previous_reconciliation_present'', previous \<noteq> None,
         Some ''two-phase overrun continuation requires a previous reconciliation sample'')]
      @ (case current of None \<Rightarrow> [] | Some c \<Rightarrow>
         [(''current_reconciliation_fresh'', fresh_within now (rr_created_at c) (ov_max_reconciliation_age_s policy),
            Some ''current reconciliation record is stale or from the future''),
          (''current_worker_matches_task'', rr_current_worker_id c = tk_current_worker_id task,
            Some ''current worker changed during reconciliation''),
          (''assessment_allows_overrun_nudge'', rr_state c \<notin> blocked_assessment_states,
            Some (''current assessment state '' @ rr_state c @ '' forbids automatic continuation''))])
      @ [(''distinct_reconciliation_samples'', both (\<lambda>p c. rr_reconcile_id p \<noteq> rr_reconcile_id c),
            Some ''overrun continuation requires two distinct reconciliation samples''),
         (''previous_reconciliation_fresh'', (case previous of None \<Rightarrow> False
            | Some p \<Rightarrow> fresh_within now (rr_created_at p) (ov_max_reconciliation_age_s policy)),
            Some ''previous reconciliation record is stale or from the future''),
         (''reconciliation_separation_sufficient'',
            both (\<lambda>p c. max 0 (ov_min_reconciliation_separation_s policy) \<le> rr_created_at c - rr_created_at p),
            Some ''reconciliation samples are too close together''),
         (''fence_stable'', both fence_matches, Some ''reconciliation fence changed between overrun samples'')])"

definition overrun_browser_checks ::
  "overrun_clock \<Rightarrow> worker_record \<Rightarrow> browser_observation option \<Rightarrow> overrun_policy \<Rightarrow> timestamp \<Rightarrow> check list" where
  "overrun_browser_checks clock w browser policy now =
     [(''registered_worker_active'', wk_status w = WS_ACTIVE, Some ''registered current worker is not active''),
      (''browser_observed'', (case browser of None \<Rightarrow> False | Some b \<Rightarrow> bo_worker_id b = oc_worker_id clock),
        Some ''current worker has no positive browser observation'')]
     @ (case browser of None \<Rightarrow> [] | Some b \<Rightarrow>
        [(''browser_url_matches_registered'', present (bo_url b)
             \<and> uia_normalize_url (the (bo_url b)) = uia_normalize_url (wk_conversation_url w),
           Some ''browser URL does not exactly match the registered worker URL''),
         (''browser_observation_fresh'', fresh_within now (bo_observed_at b) (ov_max_browser_observation_age_s policy),
           Some ''browser observation is too stale for overrun continuation''),
         (''browser_not_generating'', bo_generating b \<noteq> Some True,
           Some ''browser still reports active generation; wait for the composer''),
         (''composer_available'', json_get (bo_raw b) ''composer_present'' = JBool True \<or> bo_send_button_ready b = Some True,
           Some ''no positive composer-presence evidence''),
         (''dom_quiet_enough'', (case bo_last_dom_change_at b of None \<Rightarrow> False
             | Some t \<Rightarrow> max 0 (ov_min_dom_quiet_s policy) \<le> now - t),
           Some ''DOM/UI has not been stably quiet long enough'')])"

definition build_overrun_dispatch_plan ::
  "database \<Rightarrow> task_record \<Rightarrow> overrun_clock \<Rightarrow> reconciliation_record option \<Rightarrow> reconciliation_record option
     \<Rightarrow> browser_observation option \<Rightarrow> overrun_policy \<Rightarrow> bool \<Rightarrow> timestamp \<Rightarrow> dispatch_plan result" where
  "build_overrun_dispatch_plan d task clock previous current browser policy transport_enabled now =
     rbind (get_worker (fst d) (oc_worker_id clock)) (\<lambda>w.
     rbind (latest_failed_action_at (fst d) (tk_task_id task) (oc_worker_id clock)) (\<lambda>failed_at.
     let cs = overrun_clock_checks task clock policy @ overrun_sample_checks task previous current policy now
           @ overrun_browser_checks clock w browser policy now
           @ [(''overrun_retry_cooldown_elapsed'', (case failed_at of None \<Rightarrow> True
                | Some t \<Rightarrow> max 0 (ov_retry_cooldown_s policy) \<le> now - t \<and> 0 \<le> now - t),
               Some ''hard-overrun continuation retry cooldown has not elapsed'')];
         ready = (blockers_of cs = []) in
     Inr \<lparr>dn_task_id = tk_task_id task, dn_created_at = now, dn_action = DA_CONTINUE_CURRENT_WORKER, dn_candidate_ready = ready,
       dn_transport_enabled = transport_enabled, dn_would_dispatch = ready \<and> transport_enabled,
       dn_reason = (if ready then ''hard-overrun threshold exceeded and exact current-worker fences are stable''
         else ''hard-overrun continuation is blocked by deterministic safety gates''),
       dn_previous_reconcile_id = map_option rr_reconcile_id previous, dn_current_reconcile_id = map_option rr_reconcile_id current,
       dn_fence_token = map_option rr_fence_token current, dn_checks = checks_of cs, dn_blockers = blockers_of cs\<rparr>))"

section \<open>Executing a plan\<close>

record execution_policy =
  xp_enabled :: bool
  xp_confirmed_task_id :: "string option"
  xp_consume_recovery_budget :: bool
  xp_attempt_metadata :: json_object

record execution_result =
  xr_task_id :: string
  xr_attempt_id :: string
  xr_state :: string
  xr_submitted :: bool
  xr_side_effect_possible :: bool
  xr_detail :: string

text \<open>Everything that is checked before the attempt is armed; the transport is constructed last.\<close>

definition execution_preconditions ::
  "database \<Rightarrow> dispatch_plan \<Rightarrow> recovery_recommendation \<Rightarrow> execution_policy \<Rightarrow> (worker_window_binding \<Rightarrow> transport result) \<Rightarrow> timestamp
     \<Rightarrow> (task_record \<times> worker_record \<times> reconciliation_record \<times> string \<times> transport) result" where
  "execution_preconditions d plan recommendation policy factory now =
     rbind (guard (xp_enabled policy) (DispatchDisabled ''recovery execution is disabled; explicit opt-in is required'')) (\<lambda>_.
     rbind (guard (xp_confirmed_task_id policy = Some (dn_task_id plan))
       (DispatchDisabled ''explicit task confirmation does not match the dispatch plan'')) (\<lambda>_.
     rbind (guard (dn_action plan = DA_CONTINUE_CURRENT_WORKER)
       (ActionBlocked ''only current-worker continuation is supported by the explicit executor'')) (\<lambda>_.
     rbind (guard (dn_candidate_ready plan \<and> dn_transport_enabled plan \<and> dn_would_dispatch plan)
       (ActionBlocked ''dispatch plan is not execution-ready'')) (\<lambda>_.
     rbind (guard (present (rm_prompt recommendation) \<and> rm_action recommendation = ''reconcile_then_continue'')
       (ActionBlocked ''recovery recommendation does not contain the canonical continuation prompt'')) (\<lambda>_.
     rbind (get_task (fst d) (dn_task_id plan)) (\<lambda>task.
     rbind (guard (present (tk_current_worker_id task)) (ActionBlocked ''task has no current worker'')) (\<lambda>_.
     rbind (get_worker (fst d) (the (tk_current_worker_id task))) (\<lambda>worker.
     rbind (guard (wk_status worker = WS_ACTIVE) (ActionBlocked ''current worker is not active'')) (\<lambda>_.
     rbind (require_no_unresolved_action (fst d) (tk_task_id task)) (\<lambda>_.
     rbind (latest_reconciliation d (tk_task_id task)) (\<lambda>latest.
     rbind (case latest of None \<Rightarrow> Inl (ActionBlocked ''latest reconciliation disappeared before execution'') | Some c \<Rightarrow> Inr c) (\<lambda>current.
     rbind (guard (Some (rr_reconcile_id current) = dn_current_reconcile_id plan)
       (ActionBlocked ''a newer reconciliation exists; rebuild the dispatch plan'')) (\<lambda>_.
     rbind (guard (Some (rr_fence_token current) = dn_fence_token plan)
       (ActionBlocked ''reconciliation fence changed before execution'')) (\<lambda>_.
     rbind (case get_fresh_window_binding (fst d) (wk_worker_id worker) now of
         None \<Rightarrow> Inl (ActionBlocked ''fresh exact-window lease is required before recovery execution'') | Some b \<Rightarrow> Inr b) (\<lambda>binding.
     rbind (guard (rstrip_slash (wb_conversation_url binding) = rstrip_slash (wk_conversation_url worker))
       (ActionBlocked ''fresh window lease no longer matches the current worker URL'')) (\<lambda>_.
     rbind (case latest_browser_observation d (Some (wk_worker_id worker)) of
         None \<Rightarrow> Inl (ActionBlocked ''fresh browser signature is required before write-ahead arming'')
       | Some b \<Rightarrow> rbind (guard (present (bo_message_signature b)) (ActionBlocked ''fresh browser signature is required before write-ahead arming''))
           (\<lambda>_. Inr b)) (\<lambda>browser.
     rbind (guard (bo_observed_at browser \<le> now + 1) (ActionBlocked ''browser observation timestamp is from the future'')) (\<lambda>_.
     rbind (factory binding) (\<lambda>tp.
     Inr (task, worker, current, the (bo_message_signature browser), tp))))))))))))))))))))"

text \<open>\<open>env\<close> is what other connections commit while the transport runs, \<open>submitted_at\<close> the clock of the submission.\<close>

definition prepare_execution ::
  "(string \<Rightarrow> string) \<Rightarrow> database \<Rightarrow> dispatch_plan \<Rightarrow> recovery_recommendation \<Rightarrow> execution_policy
     \<Rightarrow> (worker_window_binding \<Rightarrow> transport result) \<Rightarrow> string \<Rightarrow> string \<Rightarrow> timestamp \<Rightarrow> (string \<times> transport \<times> action_attempt) result" where
  "prepare_execution sha256 d plan recommendation policy factory nonce fresh_id now =
     rbind (execution_preconditions d plan recommendation policy factory now) (\<lambda>(task, worker, current, signature, tp).
     rbind (build_action_attempt sha256 plan task worker (the (rm_prompt recommendation)) (rr_fence_version current)
       (Some signature) nonce fresh_id now) (\<lambda>a.
     Inr (tk_task_id task, tp, a\<lparr>aa_metadata := json_update (aa_metadata a) (xp_attempt_metadata policy)\<rparr>)))"

definition execute_current_worker_recovery ::
  "(string \<Rightarrow> string) \<Rightarrow> (registry \<Rightarrow> registry) \<Rightarrow> database \<Rightarrow> dispatch_plan \<Rightarrow> recovery_recommendation \<Rightarrow> execution_policy
     \<Rightarrow> (worker_window_binding \<Rightarrow> transport result) \<Rightarrow> string \<Rightarrow> string \<Rightarrow> timestamp \<Rightarrow> timestamp
     \<Rightarrow> registry \<times> action_intent list \<times> execution_result result" where
  "execute_current_worker_recovery sha256 env d plan recommendation policy factory nonce fresh_id now submitted_at =
     (case prepare_execution sha256 d plan recommendation policy factory nonce fresh_id now of
        Inl e \<Rightarrow> (fst d, [], Inl e)
      | Inr (t, tp, a) \<Rightarrow>
          (case (if xp_consume_recovery_budget policy then record_recovery_action_attempt (fst d) a
                 else record_current_worker_action_attempt (fst d) a) of
             (db, Inl e) \<Rightarrow> (db, [], Inl e)
           | (db, Inr _) \<Rightarrow>
               (case submit_armed_action sha256 env db (aa_attempt_id a) (the (rm_prompt recommendation)) tp submitted_at of
                  (db, intents, r) \<Rightarrow> (db, intents, rbind r (\<lambda>x. Inr \<lparr>xr_task_id = t, xr_attempt_id = aa_attempt_id a,
                     xr_state = so_state x, xr_submitted = so_submitted x, xr_side_effect_possible = so_side_effect_possible x,
                     xr_detail = so_detail x\<rparr>)))))"

record reconcile_result =
  rx_attempt_id :: string
  rx_state :: string
  rx_acknowledged :: bool
  rx_detail :: string
  rx_observation :: "uia_ack_observation option"

definition reconcile_action_with_uia ::
  "(string \<Rightarrow> string) \<Rightarrow> registry \<Rightarrow> string
     \<Rightarrow> (string \<Rightarrow> string \<Rightarrow> string \<Rightarrow> string \<Rightarrow> int \<Rightarrow> int \<Rightarrow> uia_ack_observation result) \<Rightarrow> timestamp \<Rightarrow> registry \<times> reconcile_result result" where
  "reconcile_action_with_uia sha256 db i observe now =
     sbind (reading db (get_action_attempt db i)) (\<lambda>db a.
     if aa_state a \<notin> {AA_ARMED, AA_SUBMITTED, AA_RECONCILE_REQUIRED}
     then (db, Inr \<lparr>rx_attempt_id = aa_attempt_id a, rx_state = aa_value (aa_state a),
       rx_acknowledged = (aa_state a = AA_ACKNOWLEDGED), rx_detail = ''action attempt is already terminal'', rx_observation = None\<rparr>)
     else sbind (reading db
       (rbind (get_task db (aa_task_id a)) (\<lambda>task.
        rbind (guard (tk_current_worker_id task = Some (aa_worker_id a))
          (ActionBlocked ''action attempt no longer belongs to the task's current worker'')) (\<lambda>_.
        rbind (get_worker db (aa_worker_id a)) (\<lambda>w.
        rbind (guard (wk_status w = WS_ACTIVE)
          (ActionBlocked ''action acknowledgement requires an active current worker'')) (\<lambda>_.
        rbind (case get_fresh_window_binding db (wk_worker_id w) now of
            None \<Rightarrow> Inl (ActionBlocked ''fresh exact-window lease is required for action acknowledgement'') | Some b \<Rightarrow> Inr b) (\<lambda>b.
        observe (wb_chrome_executable b) (wk_worker_id w) (wk_conversation_url w) (''LWS-ACTION-'' @ aa_nonce a)
          (wb_window_handle b) (wb_browser_pid b)))))))) (\<lambda>db x.
       case acknowledgement_from_uia_observation sha256 a x 1 (Some 1) True of
         None \<Rightarrow> (db, Inr \<lparr>rx_attempt_id = aa_attempt_id a, rx_state = aa_value (aa_state a), rx_acknowledged = False,
           rx_detail = ''positive single-turn completion acknowledgement is not yet available'', rx_observation = Some x\<rparr>)
       | Some k \<Rightarrow> sbind (acknowledge_action db k) (\<lambda>db u.
           (db, Inr \<lparr>rx_attempt_id = aa_attempt_id u, rx_state = aa_value (aa_state u), rx_acknowledged = True,
             rx_detail = ''action acknowledged from exact-window nonce/hash evidence'', rx_observation = Some x\<rparr>))))"

section \<open>What is sent, and when\<close>

section \<open>What is sent, and when\<close>

lemma insert_action_row: "insert_action a db = Inr db' \<Longrightarrow> tbl_find aa_attempt_id (aa_attempt_id a) (db_actions db') = Some a"
  by (auto simp: insert_action_def journal_insert_def tbl_find_append split: if_splits)

lemma recorded_action_row:
  "record_recovery_action_attempt db a = (db', Inr u) \<Longrightarrow> tbl_find aa_attempt_id (aa_attempt_id a) (db_actions db') = Some a"
  "record_current_worker_action_attempt db a = (db', Inr u) \<Longrightarrow> tbl_find aa_attempt_id (aa_attempt_id a) (db_actions db') = Some a"
  by (auto simp: record_recovery_action_attempt_def record_current_worker_action_attempt_def transaction_def update_task_row_def
      dest!: insert_action_row split: sum.splits prod.splits)

lemma execution_preconditions_hold:
  assumes "execution_preconditions d plan r policy factory now = Inr (task, w, c, signature, tp)"
  shows "xp_enabled policy" "xp_confirmed_task_id policy = Some (dn_task_id plan)" "dn_would_dispatch plan"
    "get_task (fst d) (dn_task_id plan) = Inr task" "get_worker (fst d) (the (tk_current_worker_id task)) = Inr w" "wk_status w = WS_ACTIVE"
    "require_no_unresolved_action (fst d) (tk_task_id task) = Inr ()" "latest_reconciliation d (tk_task_id task) = Inr (Some c)"
    "Some (rr_reconcile_id c) = dn_current_reconcile_id plan" "Some (rr_fence_token c) = dn_fence_token plan"
    "\<exists>b. get_fresh_window_binding (fst d) (wk_worker_id w) now = Some b \<and> rstrip_slash (wb_conversation_url b) = rstrip_slash (wk_conversation_url w)
      \<and> factory b = Inr tp"
  using assms by (auto simp: execution_preconditions_def split: option.splits)

lemma require_none: "require_no_unresolved_action db t = Inr () \<Longrightarrow> unresolved_action_attempt db t = Inr None"
  by (auto simp: require_no_unresolved_action_def split: option.splits)

lemma built_attempt:
  "build_action_attempt sha256 plan task w prompt v s nonce f now = Inr a \<Longrightarrow> tk_current_worker_id task = Some (wk_worker_id w)
    \<and> aa_worker_id a = wk_worker_id w \<and> aa_attempt_id a = f \<and> aa_task_id a = tk_task_id task \<and> Some (aa_fence_token a) = dn_fence_token plan"
  by (auto simp: build_action_attempt_def present_def)

lemma intent_attempt:
  "intent_from_attempt sha256 a prompt = Inr i \<Longrightarrow> ai_attempt_id i = aa_attempt_id a \<and> ai_worker_id i = aa_worker_id a \<and> ai_fence_token i = aa_fence_token a"
  by (auto simp: intent_from_attempt_def)

lemma executed_intents:
  assumes "execute_current_worker_recovery sha256 env d plan r policy factory nonce f now s = (db', intents, v)" and "intents \<noteq> []"
  obtains t tp a i where "prepare_execution sha256 d plan r policy factory nonce f now = Inr (t, tp, a)" "intents = [i]"
    "intent_from_attempt sha256 a (the (rm_prompt r)) = Inr i"
proof (cases "prepare_execution sha256 d plan r policy factory nonce f now")
  case (Inl e)
  with assms show thesis by (simp add: execute_current_worker_recovery_def)
next
  case (Inr x)
  obtain t tp a where x: "x = (t, tp, a)" by (cases x)
  obtain db1 u where rec: "(if xp_consume_recovery_budget policy then record_recovery_action_attempt (fst d) a
      else record_current_worker_action_attempt (fst d) a) = (db1, Inr u)"
    using assms Inr x by (auto simp: execute_current_worker_recovery_def split: prod.splits sum.splits)
  then have "get_action_attempt db1 (aa_attempt_id a) = Inr a"
    using recorded_action_row by (auto simp: get_action_attempt_def split: if_splits)
  moreover obtain v' where "submit_armed_action sha256 env db1 (aa_attempt_id a) (the (rm_prompt r)) tp s = (db', intents, v')"
    using assms Inr x rec by (auto simp: execute_current_worker_recovery_def split: prod.splits)
  ultimately obtain i where "intents = [i]" "intent_from_attempt sha256 a (the (rm_prompt r)) = Inr i"
    using assms(2) by (auto simp: submit_armed_action_def Let_def split: sum.splits prod.splits)
  with Inr x that show thesis by blast
qed

text \<open>C34. An executed recovery hands at most one action to the transport, and only when execution is enabled for exactly
  this task, the plan is ready, the task has no unresolved action, its latest reconciliation is still the one of the plan
  with the same fence, its current worker is active and has a fresh exact window; the action then carries that worker and
  that fence.\<close>

theorem recovery_execution_fenced:
  assumes "execute_current_worker_recovery sha256 env d plan r policy factory nonce f now s = (db', intents, v)" and "intents \<noteq> []"
  shows "\<exists>task w c b i. intents = [i] \<and> (xp_enabled policy \<and> xp_confirmed_task_id policy = Some (dn_task_id plan) \<and> dn_would_dispatch plan)
    \<and> get_task (fst d) (dn_task_id plan) = Inr task \<and> unresolved_action_attempt (fst d) (tk_task_id task) = Inr None
    \<and> (latest_reconciliation d (tk_task_id task) = Inr (Some c) \<and> Some (rr_reconcile_id c) = dn_current_reconcile_id plan
        \<and> Some (rr_fence_token c) = dn_fence_token plan)
    \<and> (tk_current_worker_id task = Some (wk_worker_id w) \<and> get_worker (fst d) (wk_worker_id w) = Inr w \<and> wk_status w = WS_ACTIVE
        \<and> get_fresh_window_binding (fst d) (wk_worker_id w) now = Some b)
    \<and> (ai_worker_id i = wk_worker_id w \<and> Some (ai_fence_token i) = dn_fence_token plan)"
proof -
  from executed_intents [OF assms] obtain t tp a i where i: "prepare_execution sha256 d plan r policy factory nonce f now = Inr (t, tp, a)"
    "intents = [i]" "intent_from_attempt sha256 a (the (rm_prompt r)) = Inr i" .
  from i(1) obtain task w c signature a0 where pre: "execution_preconditions d plan r policy factory now = Inr (task, w, c, signature, tp)"
    and a0: "build_action_attempt sha256 plan task w (the (rm_prompt r)) (rr_fence_version c) (Some signature) nonce f now = Inr a0"
    and a: "a = a0\<lparr>aa_metadata := json_update (aa_metadata a0) (xp_attempt_metadata policy)\<rparr>"
    by (auto simp: prepare_execution_def)
  note pre = execution_preconditions_hold [OF pre]
  from pre(11) obtain b where b: "get_fresh_window_binding (fst d) (wk_worker_id w) now = Some b" by blast
  have "ai_worker_id i = wk_worker_id w" "Some (ai_fence_token i) = dn_fence_token plan"
    using intent_attempt [OF i(3)] built_attempt [OF a0] a by simp_all
  with b i(2) pre(1-6,8-10) require_none [OF pre(7)] built_attempt [OF a0] show ?thesis
    by (intro exI [of _ task] exI [of _ w] exI [of _ c] exI [of _ b] exI [of _ i]) simp
qed

section \<open>A submitted nudge resets the clock\<close>

lemma recorded_action:
  assumes "(if consume then record_recovery_action_attempt db a else record_current_worker_action_attempt db a) = (db1, Inr u)"
  shows "\<exists>c. db1 = run_actions [c] db" and "tbl_find aa_attempt_id (aa_attempt_id a) (db_actions db1) = Some a"
proof -
  have "db1 = run_actions [if consume then RecordRecoveryAction a else RecordCurrentWorkerAction a] db"
    using assms by (cases consume) (simp_all add: run_actions_def)
  then show "\<exists>c. db1 = run_actions [c] db" by blast
qed (use assms recorded_action_row in \<open>auto split: if_splits\<close>)

text \<open>What no later write of the journal changes of an attempt, and of the time of its submission once it is not armed.\<close>

definition same_send :: "action_attempt \<Rightarrow> action_attempt \<Rightarrow> bool" where
  "same_send a b \<longleftrightarrow> aa_task_id b = aa_task_id a \<and> aa_worker_id b = aa_worker_id a \<and> aa_action b = aa_action a \<and> aa_created_at b = aa_created_at a
     \<and> (aa_state a \<noteq> AA_ARMED \<longrightarrow> aa_submitted_at b = aa_submitted_at a)"

lemma same_send_refl [simp]: "same_send a a"
  by (simp add: same_send_def)

lemma rewriting_writer_same:
  assumes "rbind (get_action_attempt db i) (\<lambda>a. rbind (check a) (\<lambda>_. replace_action_attempt db (f a))) = Inr (db', x)"
    and "\<And>a u. check a = Inr u \<Longrightarrow> aa_attempt_id (f a) = aa_attempt_id a \<and> same_send a (f a)"
    and "tbl_find aa_attempt_id k (db_actions db) = Some r"
  shows "\<exists>b. tbl_find aa_attempt_id k (db_actions db') = Some b \<and> same_send r b"
proof -
  from assms(1) obtain a u where a: "tbl_find aa_attempt_id i (db_actions db) = Some a" "check a = Inr u"
      "replace_action_attempt db (f a) = Inr (db', x)" by auto
  have "aa_attempt_id (f a) = i" "same_send a (f a)" using a(1) assms(2) [OF a(2)] by (auto dest: tbl_find_SomeD)
  with replace_action_attempt_Inr(2) [OF a(3)] a(1) assms(3) show ?thesis
    by (cases "k = i") (auto simp: tbl_find_update)
qed

lemma inserted_same:
  "insert_action a db = Inr db' \<Longrightarrow> tbl_find aa_attempt_id k (db_actions db) = Some r
    \<Longrightarrow> tbl_find aa_attempt_id k (db_actions db') = Some r"
  by (auto simp: insert_action_def journal_insert_def tbl_find_append split: if_splits)

lemma run_action_same:
  assumes row: "tbl_find aa_attempt_id k (db_actions db) = Some r"
  shows "\<exists>b. tbl_find aa_attempt_id k (db_actions (run_action c db)) = Some b \<and> same_send r b" (is "?P (run_action c db)")
proof -
  have same: "?P db" using row by simp
  have settle: "?P (fst (settle_action st db i e n now))" for st i e n now
    unfolding settle_action_def
    by (rule transaction_rule [where P = ?P], rule same) (erule rewriting_writer_same [OF _ _ row], simp add: same_send_def)
  have recorded: "?P (fst (record_action_attempt db a))" for a
    unfolding record_action_attempt_def by (rule transaction_rule [where P = ?P], rule same) (use inserted_same row in auto)
  have current: "?P (fst (record_current_worker_action_attempt db a))" for a
    unfolding record_current_worker_action_attempt_def
    by (rule transaction_rule [where P = ?P], rule same) (use inserted_same row in auto)
  have recovery: "?P (fst (record_recovery_action_attempt db a))" for a
    unfolding record_recovery_action_attempt_def
    by (rule transaction_rule [where P = ?P], rule same) (use inserted_same row in auto)
  have submitted: "?P (fst (mark_action_submitted db i n now))" for i n now
    unfolding mark_action_submitted_def
    by (rule transaction_rule [where P = ?P], rule same) (erule rewriting_writer_same [OF _ _ row], simp add: same_send_def)
  have acknowledged: "?P (fst (acknowledge_action db x))" for x
    unfolding acknowledge_action_def
    by (rule transaction_rule [where P = ?P], rule same) (erule rewriting_writer_same [OF _ _ row], simp add: same_send_def)
  have signed: "?P (fst (record_action_ack_browser_signature db i m))" for i m
  proof (cases "strip m = []")
    case True
    then show ?thesis using same by (simp add: record_action_ack_browser_signature_def)
  next
    case False
    show ?thesis
      unfolding record_action_ack_browser_signature_def
      by (rule transaction_rule [where P = ?P], rule same)
        (simp only: False guard_simps rbind_simps not_False_eq_True, erule rewriting_writer_same [OF _ _ row], simp add: same_send_def)
  qed
  show ?thesis
    using settle recorded current recovery submitted acknowledged signed
    by (cases c) (simp_all only: run_action.simps mark_action_reconcile_required_def fail_action_attempt_def cancel_action_attempt_def)
qed

lemma run_action_leaves_armed:
  "tbl_find aa_attempt_id k (db_actions db) = Some r \<Longrightarrow> tbl_find aa_attempt_id k (db_actions (run_actions cs db)) = Some b
    \<Longrightarrow> aa_advances (aa_state r) (aa_state b)"
  using actions.writes_star_advance [OF run_actions_step, of k db r cs] by auto

lemma run_actions_same:
  assumes "tbl_find aa_attempt_id k (db_actions db) = Some r"
  shows "\<exists>b. tbl_find aa_attempt_id k (db_actions (run_actions cs db)) = Some b \<and> same_send r b"
  using assms
proof (induction cs arbitrary: db r)
  case (Cons c cs)
  from run_action_same [OF Cons.prems] obtain b where b: "tbl_find aa_attempt_id k (db_actions (run_action c db)) = Some b" "same_send r b" by blast
  from Cons.IH [OF b(1)] obtain x where x: "tbl_find aa_attempt_id k (db_actions (run_actions cs (run_action c db))) = Some x" "same_send b x" by blast
  have "aa_advances (aa_state r) (aa_state b)"
    using run_action_leaves_armed [OF Cons.prems, of "[c]"] b(1) by (simp add: run_actions_def)
  then have "aa_state r \<noteq> AA_ARMED \<longrightarrow> aa_state b \<noteq> AA_ARMED" by (cases "aa_state r") auto
  with b(2) x show ?case by (auto simp: same_send_def run_actions_def)
qed (simp add: run_actions_def)

lemma run_actions_append: "run_actions (cs @ cs') db = run_actions cs' (run_actions cs db)"
  by (simp add: run_actions_def)

lemma run_actions_ok: "action_journal_ok db \<Longrightarrow> action_journal_ok (run_actions cs db)"
  using actions.writes_star_inv [OF run_actions_step] by (simp add: action_journal_ok_iff)

text \<open>The row of an executed action that was submitted, and the writes that led to it.\<close>

lemma submitted_execution:
  assumes run: "execute_current_worker_recovery sha256 (run_actions meanwhile) d plan r policy factory nonce f now s = (db', intents, Inr x)"
    and sub: "xr_submitted x"
  obtains cs u where "db' = run_actions cs (fst d)" "tbl_find aa_attempt_id f (db_actions db') = Some u" "aa_task_id u = dn_task_id plan"
    "aa_created_at u = now" "aa_action u = da_value DA_CONTINUE_CURRENT_WORKER" "aa_state u = AA_SUBMITTED" "aa_submitted_at u = Some s"
proof -
  from run sub obtain t tp a where prep: "prepare_execution sha256 d plan r policy factory nonce f now = Inr (t, tp, a)"
    by (auto simp: execute_current_worker_recovery_def split: sum.splits)
  then obtain task where task: "get_task (fst d) (dn_task_id plan) = Inr task"
      and a: "aa_attempt_id a = f" "aa_task_id a = tk_task_id task" "aa_created_at a = now" "aa_action a = da_value DA_CONTINUE_CURRENT_WORKER"
    by (auto simp: prepare_execution_def build_action_attempt_def dest!: execution_preconditions_hold(4))
  obtain db1 v where rec: "(if xp_consume_recovery_budget policy then record_recovery_action_attempt (fst d) a
      else record_current_worker_action_attempt (fst d) a) = (db1, Inr v)"
    using run sub prep by (auto simp: execute_current_worker_recovery_def split: prod.splits sum.splits)
  then obtain o' where "submit_armed_action sha256 (run_actions meanwhile) db1 f (the (rm_prompt r)) tp s = (db', intents, Inr o')" "so_submitted o'"
    using run sub prep a by (auto simp: execute_current_worker_recovery_def split: prod.splits)
  then obtain name u where u: "mark_action_submitted (run_actions meanwhile db1) f name s = (db', Inr u)"
    by (auto simp: submit_armed_action_def finish_submission_def with_outcome_def mk_outcome_def Let_def
        split: sum.splits prod.splits transport_outcome.splits if_splits) (metis prod.collapse)
  from recorded_action [OF rec] a(1) obtain c where c: "db1 = run_actions [c] (fst d)" "tbl_find aa_attempt_id f (db_actions db1) = Some a" by auto
  from run_actions_same [OF c(2), of meanwhile] obtain b where b: "tbl_find aa_attempt_id f (db_actions (run_actions meanwhile db1)) = Some b" "same_send a b"
    by blast
  have "db' = run_actions [MarkSubmitted f name s] (run_actions meanwhile db1)" using u by (simp add: run_actions_def)
  then have "db' = run_actions ([c] @ meanwhile @ [MarkSubmitted f name s]) (fst d)" using c(1) by (simp only: run_actions_append)
  moreover have "tbl_find aa_attempt_id f (db_actions db') = Some (b\<lparr>aa_state := AA_SUBMITTED, aa_transport_name := Some name, aa_submitted_at := Some s,
      aa_updated_at := s\<rparr>)"
    using u b(1) tbl_find_SomeD [OF b(1)]
    by (auto simp: mark_action_submitted_def transaction_def tbl_find_update dest!: replace_action_attempt_Inr(2) split: sum.splits prod.splits)
  moreover have "tk_task_id task = dn_task_id plan" using task by (auto simp: get_task_def find_task_def dest: tbl_find_SomeD split: option.splits sum.splits)
  ultimately show thesis using that b(2) a by (simp add: same_send_def)
qed

text \<open>The rows of a task are read newest first, at most 200 of them; the first effective nudge is found.\<close>

lemma find_sorted:
  "sorted (map g ys) \<Longrightarrow> v \<in> set ys \<Longrightarrow> P v \<Longrightarrow> \<exists>a. find P ys = Some a \<and> a \<in> set ys \<and> P a \<and> g a \<le> g v"
  by (induction ys) auto

lemma sorted_take:
  assumes "sorted (map g ys)" and "v \<in> set ys" and "length (filter (\<lambda>x. g x \<le> g v) ys) \<le> n"
  shows "v \<in> set (take n ys)"
  using assms
proof (induction ys arbitrary: n)
  case (Cons y ys)
  then have "g y \<le> g v" by auto
  with Cons show ?case by (cases n) (auto split: if_splits)
qed simp

lemma map_result_same: "(\<And>x. x \<in> set xs \<Longrightarrow> f x = Inr x) \<Longrightarrow> map_result f xs = Inr xs"
  by (induction xs) simp_all

lemma action_attempts_rows:
  assumes "action_attempts db t 200 = Inr as" and "action_journal_ok db"
  shows "as = take 200 (sort_key (\<lambda>a. - aa_created_at a) (filter (\<lambda>a. aa_task_id a = t) (db_actions db)))" (is "as = ?rows")
proof -
  have ok: "tbl_ok aa_attempt_id (db_actions db)" using assms(2) by (simp add: action_journal_ok_def journal_ok_iff)
  have "get_action_attempt db (aa_attempt_id a) = Inr a" if "a \<in> set ?rows" for a
    using that ok in_set_takeD [of a 200] by (fastforce simp: tbl_find_Some_iff)
  moreover have "map_result (\<lambda>a. get_action_attempt db (aa_attempt_id a)) ?rows = Inr as"
    using assms(1) by (simp add: action_attempts_def)
  ultimately show ?thesis using map_result_same [of ?rows] by simp
qed

lemma effective_since:
  assumes "effective_continue_at db t w = Inr x" and "action_journal_ok db" and "v \<in> set (db_actions db)" and "aa_task_id v = t" and "effective_continue w v"
    and others: "\<forall>a \<in> set (db_actions db). aa_task_id a = t \<and> effective_continue w a \<and> aa_created_at v \<le> aa_created_at a \<longrightarrow> s \<le> continued_at a"
    and few: "length (filter (\<lambda>a. aa_task_id a = t \<and> aa_created_at v \<le> aa_created_at a) (db_actions db)) \<le> 200"
  shows "\<exists>y. x = Some y \<and> s \<le> y"
proof -
  let ?g = "\<lambda>a. - aa_created_at a" let ?ys = "sort_key ?g (filter (\<lambda>a. aa_task_id a = t) (db_actions db))"
  have "length (filter (\<lambda>a. ?g a \<le> ?g v) ?ys) = length (filter (\<lambda>a. aa_task_id a = t \<and> aa_created_at v \<le> aa_created_at a) (db_actions db))"
    by (simp add: filter_sort conj_commute)
  with few have v: "v \<in> set (take 200 ?ys)" using assms(3,4) by (intro sorted_take [of ?g]) simp_all
  from assms(1) obtain as where as: "action_attempts db t 200 = Inr as" "x = map_option continued_at (find (effective_continue w) as)"
    by (auto simp: effective_continue_at_def)
  note rows = action_attempts_rows [OF as(1) assms(2)]
  have "sorted (map ?g (take 200 ?ys))" unfolding take_map [symmetric] by (intro sorted_wrt_take) simp
  from find_sorted [OF this v, of "effective_continue w"] assms(5) obtain a
    where a: "find (effective_continue w) as = Some a" "a \<in> set (take 200 ?ys)" "effective_continue w a" "?g a \<le> ?g v"
    unfolding rows by blast
  then have "a \<in> set (db_actions db)" "aa_task_id a = t" using in_set_takeD [of a 200 ?ys] by auto
  with others a as(2) show ?thesis by auto
qed

lemma clock_due_after:
  assumes "overrun_clock_of d t policy now = Inr (Some clock)" and "oc_due clock"
    and "\<And>x. effective_continue_at (fst d) t (oc_worker_id clock) = Inr x \<Longrightarrow> \<exists>y. x = Some y \<and> s \<le> y"
  shows "s + max 1 (ov_overrun_after_s policy) \<le> now"
proof -
  have "max 1 (ov_overrun_after_s policy) \<le> now - oc_anchor_at clock"
    using assms(1,2) by (auto simp: overrun_clock_of_def Let_def split: if_splits)
  moreover have "s \<le> oc_anchor_at clock"
    using assms(1,3) by (auto simp: overrun_clock_of_def Let_def later_def split: if_splits option.splits)
  ultimately show ?thesis by linarith
qed

text \<open>C35. An overrun nudge is not repeated early. Let an executed action have been submitted, with any writes of other connections
  to the action journal while it was sent, and look at the clock of the task in any later database, whose action journal came about
  by any further calls and whose other tables are arbitrary. As long as the action was neither cancelled nor failed and the clock
  is that of the same worker, the task is not due before the threshold has passed since the submission, whatever the browser showed
  meanwhile. (The clock reads the 200 newest actions of the task: at most 200 may have been created since, and effective nudges
  recorded after this one are dated after it.)\<close>

theorem submitted_nudge_resets_clock:
  assumes ok: "action_journal_ok (fst d)"
    and run: "execute_current_worker_recovery sha256 (run_actions meanwhile) d plan r policy factory nonce f now s = (db', intents, Inr x)"
    and sub: "xr_submitted x"
    and journal: "db_actions db'' = db_actions (run_actions calls db')"
    and row: "tbl_find aa_attempt_id f (db_actions db'') = Some v" and kept: "aa_state v \<notin> {AA_CANCELLED, AA_FAILED}"
    and newer: "\<forall>a \<in> set (db_actions db''). aa_task_id a = dn_task_id plan \<and> aa_attempt_id a \<noteq> f \<and> now \<le> aa_created_at a
      \<and> effective_continue (aa_worker_id v) a \<longrightarrow> s \<le> continued_at a"
    and few: "length (filter (\<lambda>a. aa_task_id a = dn_task_id plan \<and> now \<le> aa_created_at a) (db_actions db'')) \<le> 200"
    and clock: "overrun_clock_of (db'', tables) (dn_task_id plan) overrun now' = Inr (Some clock)"
    and worker: "oc_worker_id clock = aa_worker_id v" and due: "oc_due clock"
  shows "s + max 1 (ov_overrun_after_s overrun) \<le> now'"
proof -
  from submitted_execution [OF run sub] obtain cs u where u: "db' = run_actions cs (fst d)" "tbl_find aa_attempt_id f (db_actions db') = Some u"
    "aa_task_id u = dn_task_id plan" "aa_created_at u = now" "aa_action u = da_value DA_CONTINUE_CURRENT_WORKER" "aa_state u = AA_SUBMITTED"
    "aa_submitted_at u = Some s" .
  from run_actions_same [OF u(2), of calls] row have same: "same_send u v" unfolding journal by auto
  have "aa_advances (aa_state u) (aa_state v)" using run_action_leaves_armed [OF u(2)] row unfolding journal .
  with kept u(6) have "aa_state v \<in> effective_continue_states" by (cases "aa_state v") (auto simp: effective_continue_states_def)
  with same u have v: "effective_continue (aa_worker_id v) v" "continued_at v = s" "aa_task_id v = dn_task_id plan" "aa_created_at v = now"
    by (auto simp: same_send_def effective_continue_def continued_at_def)
  have ok: "action_journal_ok db''"
    using run_actions_ok [OF run_actions_ok [OF ok, of cs], of calls] u(1) journal by (simp add: action_journal_ok_def)
  have "a = v" if "a \<in> set (db_actions db'')" "aa_attempt_id a = f" for a
    using that ok row by (auto simp: action_journal_ok_def journal_ok_iff tbl_find_Some_iff tbl_ok_uniq dest: tbl_find_SomeD)
  with newer v have "\<forall>a \<in> set (db_actions db''). aa_task_id a = dn_task_id plan \<and> effective_continue (aa_worker_id v) a
      \<and> aa_created_at v \<le> aa_created_at a \<longrightarrow> s \<le> continued_at a" by (metis order.refl)
  with effective_since [OF _ ok, of "dn_task_id plan" "aa_worker_id v" _ v s] row v few have
    "\<And>y. effective_continue_at db'' (dn_task_id plan) (aa_worker_id v) = Inr y \<Longrightarrow> \<exists>z. y = Some z \<and> s \<le> z"
    by (auto dest: tbl_find_SomeD)
  then show ?thesis using clock_due_after [OF clock due, of s] worker by simp
qed

section \<open>A run\<close>

definition demo_running :: registry where
  "demo_running = empty_registry\<lparr>
     db_tasks := [\<lparr>tr_task_id = ''task'', tr_project = ''p'', tr_objective = ''o'', tr_cwd = ''c'', tr_state = ''RUNNING'',
       tr_lsm_session_id = None, tr_checkpoint = [], tr_current_worker_id = Some ''w1'', tr_recovery_attempts = 0,
       tr_max_recovery_attempts = 3, tr_created_at = 0, tr_updated_at = 0\<rparr>],
     db_workers := [\<lparr>wr_worker_id = ''w1'', wr_task_id = ''task'', wr_conversation_url = ''https://c/1'', wr_conversation_id = None,
       wr_status = ''active'', wr_started_at = 0, wr_last_seen_at = None, wr_ended_at = None\<rparr>],
     db_bindings := [\<lparr>wb_worker_id = ''w1'', wb_window_handle = 7, wb_browser_pid = 9, wb_chrome_executable = ''chrome'',
       wb_conversation_url = ''https://c/1'', wb_source = ''windows_uia_chrome'', wb_bound_at = 100, wb_observed_at = 105,
       wb_expires_at = 165\<rparr>]\<rparr>"

definition demo_evidence_tables :: evidence_tables where
  "demo_evidence_tables = empty_tables\<lparr>et_browser := ev_insert ((demo_seen 108)\<lparr>bo_message_signature := Some ''s''\<rparr>) no_evidence,
     et_reconciliations := ev_insert (demo_reconciliation ''r2'' 110) no_evidence\<rparr>"

definition demo_nudge :: dispatch_plan where
  "demo_nudge = \<lparr>dn_task_id = ''task'', dn_created_at = 111, dn_action = DA_CONTINUE_CURRENT_WORKER, dn_candidate_ready = True,
     dn_transport_enabled = True, dn_would_dispatch = True, dn_reason = [], dn_previous_reconcile_id = Some ''r1'',
     dn_current_reconcile_id = Some ''r2'', dn_fence_token = Some (rr_fence_token (demo_reconciliation ''r2'' 110)),
     dn_checks = [], dn_blockers = []\<rparr>"

definition demo_advice :: recovery_recommendation where
  "demo_advice = \<lparr>rm_task_id = ''task'', rm_action = ''reconcile_then_continue'', rm_safe_to_dispatch = True, rm_reason = [],
     rm_prompt = Some ''continue'', rm_evidence = []\<rparr>"

definition demo_permission :: execution_policy where
  "demo_permission = \<lparr>xp_enabled = True, xp_confirmed_task_id = Some ''task'', xp_consume_recovery_budget = False, xp_attempt_metadata = []\<rparr>"

definition demo_windows :: "worker_window_binding \<Rightarrow> transport result" where
  "demo_windows = (\<lambda>b. Inr \<lparr>tp_name = uia_transport_name, tp_submit = (\<lambda>i. T_RETURNED \<lparr>sub_submitted = True, sub_side_effect_possible = True,
     sub_transport_name = uia_transport_name, sub_detail = ''sent''\<rparr>)\<rparr>)"

definition demo_executed :: "registry \<times> action_intent list \<times> execution_result result" where
  "demo_executed = execute_current_worker_recovery (\<lambda>x. x) (\<lambda>db. db) (demo_running, demo_evidence_tables) demo_nudge demo_advice
     demo_permission demo_windows ''n'' ''a1'' 112 113"

definition demo_overrun :: overrun_policy where
  "demo_overrun = \<lparr>ov_enabled = True, ov_overrun_after_s = 100, ov_sample_lead_s = 60, ov_retry_cooldown_s = 120,
     ov_max_reconciliation_age_s = 120, ov_min_reconciliation_separation_s = 3, ov_max_browser_observation_age_s = 30,
     ov_min_dom_quiet_s = 2, ov_auto_discover_visible_conversations = False\<rparr>"

theorem recovery_execution_fenced_witness:
  "\<exists>i. fst (snd demo_executed) = [i] \<and> ai_worker_id i = ''w1'' \<and> Some (ai_fence_token i) = dn_fence_token demo_nudge"
proof -
  obtain db' intents v where run: "demo_executed = (db', intents, v)" by (cases demo_executed) auto
  have "length (fst (snd demo_executed)) = 1 \<and> list_all (\<lambda>i. ai_worker_id i = ''w1'') (fst (snd demo_executed))" by code_simp
  then have "intents \<noteq> []" "list_all (\<lambda>i. ai_worker_id i = ''w1'') intents" unfolding run by auto
  from recovery_execution_fenced [OF run [unfolded demo_executed_def] this(1)] this(2) show ?thesis unfolding run by auto
qed

definition demo_afterwards :: database where
  "demo_afterwards = (run_actions [MarkReconcileRequired ''a1'' ''no reply seen'' None 150] (fst demo_executed),
     demo_evidence_tables\<lparr>et_browser := ev_insert (demo_seen 160) (et_browser demo_evidence_tables)\<rparr>)"

theorem submitted_nudge_resets_clock_witness:
  "\<exists>v clock. tbl_find aa_attempt_id ''a1'' (db_actions (fst demo_afterwards)) = Some v \<and> aa_state v = AA_RECONCILE_REQUIRED
    \<and> overrun_clock_of demo_afterwards ''task'' demo_overrun 213 = Inr (Some clock) \<and> oc_due clock
    \<and> (113 :: real) + max 1 (ov_overrun_after_s demo_overrun) \<le> 213"
proof -
  have "(case demo_executed of (db, i, Inr x) \<Rightarrow> xr_submitted x | _ \<Rightarrow> False)" by code_simp
  then obtain db' intents x where x: "demo_executed = (db', intents, Inr x)" "xr_submitted x"
    by (auto split: prod.splits sum.splits)
  have journal: "db_actions (fst demo_afterwards) = db_actions (run_actions [MarkReconcileRequired ''a1'' ''no reply seen'' None 150] db')"
    by (simp add: demo_afterwards_def x(1))
  have "(case db_actions (fst demo_afterwards) of [v] \<Rightarrow> aa_attempt_id v = ''a1'' \<and> aa_state v = AA_RECONCILE_REQUIRED \<and> aa_worker_id v = ''w1'' | _ \<Rightarrow> False)"
    by code_simp
  then obtain v where v: "db_actions (fst demo_afterwards) = [v]" "aa_attempt_id v = ''a1''" "aa_state v = AA_RECONCILE_REQUIRED" "aa_worker_id v = ''w1''"
    by (auto split: list.splits)
  have "(case overrun_clock_of demo_afterwards ''task'' demo_overrun 213 of
      Inr (Some clock) \<Rightarrow> oc_due clock \<and> oc_worker_id clock = ''w1'' | _ \<Rightarrow> False)" by code_simp
  then obtain clock where clock: "overrun_clock_of demo_afterwards ''task'' demo_overrun 213 = Inr (Some clock)" "oc_due clock" "oc_worker_id clock = ''w1''"
    by (auto split: sum.splits option.splits)
  have run: "execute_current_worker_recovery (\<lambda>x. x) (run_actions []) (demo_running, demo_evidence_tables) demo_nudge demo_advice demo_permission
      demo_windows ''n'' ''a1'' 112 113 = (db', intents, Inr x)"
    using x(1) by (simp add: demo_executed_def run_actions_def [abs_def] id_def)
  have "(113 :: real) + max 1 (ov_overrun_after_s demo_overrun) \<le> 213"
    by (rule submitted_nudge_resets_clock [OF _ run x(2) journal _ _ _ _ _ _ clock(2), where v = v and tables = "snd demo_afterwards"])
      (use clock v in \<open>simp_all add: demo_nudge_def demo_running_def empty_registry_def action_journal_ok_def journal_ok_def\<close>)
  then show ?thesis using clock v by auto
qed

end
