(* ===== verification/Orchestration_Adapter.thy ===== *)
theory Orchestration_Adapter
  imports Orchestration Observations Registry_Runtime Child_Urls
begin

text \<open>
  The advisory adapter (\<^verbatim>\<open>orchestration_adapter.py\<close>): it reads the registry, refreshes the evidence of the session
  and of the workspace, and hands the orchestration policy an input in which every missing or contradictory
  fact is a blocker. The registry is an argument that no function returns: the adapter records nothing.
  The two evidence providers are arguments; a provider answers with an observation or raises, and then only
  the class name of the exception is used.
\<close>

section \<open>Requests\<close>

record page_continuity_request =
  pq_context :: "capability_context option"
  pq_kind :: page_capability_kind

record runtime_hints =
  rh_worker_lease_expires_at :: "timestamp option"
  rh_last_recovery_at :: "timestamp option"
  rh_requires_exact_window_binding :: bool
  rh_page_continuity :: "page_continuity_request option"

definition default_hints :: runtime_hints where
  "default_hints = \<lparr>rh_worker_lease_expires_at = None, rh_last_recovery_at = None, rh_requires_exact_window_binding = True,
     rh_page_continuity = None\<rparr>"

record scheduling_history =
  sh_last_scheduled_at :: "timestamp option"
  sh_consecutive_waits :: int

text \<open>The collaborators of an adapter: the evidence providers, the policy of the watcher, and the digests and the
  fresh identifier of the reconciliation record built for comparison.\<close>

record adapter =
  ad_lsm :: "string \<Rightarrow> string \<Rightarrow> string list \<Rightarrow> string + lsm_observation"
  ad_workspace :: "string \<Rightarrow> string \<Rightarrow> string + workspace_observation"
  ad_watch_policy :: watch_policy
  ad_checkpoint_digest :: "json_object \<Rightarrow> string"
  ad_digest :: "snapshot \<Rightarrow> string"
  ad_fresh_id :: string

section \<open>Reading the evidence\<close>

definition current_worker :: "registry \<Rightarrow> task_record \<Rightarrow> worker_record option result" where
  "current_worker db task =
     (if \<not> present (tk_current_worker_id task) then Inr None
      else case get_worker db (the (tk_current_worker_id task)) of
        Inr w \<Rightarrow> Inr (Some w) | Inl (KeyError _) \<Rightarrow> Inr None | Inl e \<Rightarrow> Inl e)"

text \<open>A refresh gives the observation and the blockers it appends.\<close>

definition refresh_lsm :: "adapter \<Rightarrow> database \<Rightarrow> task_record \<Rightarrow> lsm_observation option \<times> string list" where
  "refresh_lsm ad d task =
     (if \<not> present (tk_lsm_session_id task) then (None, [])
      else case ad_lsm ad (tk_task_id task) (the (tk_lsm_session_id task)) (tracked_jobs d (tk_task_id task)) of
        Inr l \<Rightarrow> (Some l, []) | Inl exc \<Rightarrow> (None, [''Local Shell telemetry refresh failed ('' @ exc @ '')'']))"

definition refresh_workspace :: "adapter \<Rightarrow> task_record \<Rightarrow> workspace_observation option \<times> string list" where
  "refresh_workspace ad task = (case ad_workspace ad (tk_task_id task) (tk_cwd task) of
     Inr w \<Rightarrow> (Some w, []) | Inl exc \<Rightarrow> (None, [''workspace/Git refresh failed ('' @ exc @ '')'']))"

definition last_recovery_at :: "registry \<Rightarrow> task_record \<Rightarrow> runtime_hints \<Rightarrow> (timestamp option \<times> string list) result" where
  "last_recovery_at db task hints =
     rbind (action_attempts db (tk_task_id task) 1) (\<lambda>recent.
     let durable = (case recent of [] \<Rightarrow> [] | a # _ \<Rightarrow> [aa_created_at a]);
         supplied = (case rh_last_recovery_at hints of None \<Rightarrow> [] | Some t \<Rightarrow> [t]);
         candidates = durable @ supplied in
     Inr (if 0 < tk_recovery_attempts task \<and> candidates = []
          then (None, [''recovery budget records prior attempts but cooldown timestamp is unavailable''])
          else (if candidates = [] then None else Some (fold max (tl candidates) (hd candidates)), [])))"

text \<open>The first capability that fits the requested context, or the newest one.\<close>

definition page_capability :: "registry \<Rightarrow> page_continuity_request option \<Rightarrow> timestamp \<Rightarrow> page_capability_record option result" where
  "page_capability db request now =
     (case request of None \<Rightarrow> Inr None
      | Some q \<Rightarrow> (case pq_context q of None \<Rightarrow> Inr None
          | Some cx \<Rightarrow> rbind (page_capabilities db (Some (pq_kind q)) 100) (\<lambda>candidates.
              Inr (case find (\<lambda>c. fst (capability_matches_context c cx (pq_kind q) now)) candidates of
                Some c \<Rightarrow> Some c
              | None \<Rightarrow> (case candidates of [] \<Rightarrow> None | c # _ \<Rightarrow> Some c)))))"

definition observed_times ::
  "worker_record option \<Rightarrow> browser_observation option \<Rightarrow> network_observation option \<Rightarrow> lsm_observation option
     \<Rightarrow> workspace_observation option \<Rightarrow> (string \<times> timestamp option) list" where
  "observed_times worker browser network lsm workspace =
     [(''worker last-seen'', Option.bind worker wk_last_seen_at),
      (''browser observation'', map_option bo_observed_at browser),
      (''network observation'', map_option no_observed_at network),
      (''Local Shell observation'', map_option lo_observed_at lsm),
      (''workspace observation'', map_option wo_observed_at workspace)]"

definition in_future :: "timestamp \<Rightarrow> timestamp option \<Rightarrow> bool" where
  "in_future now t = (case t of None \<Rightarrow> False | Some x \<Rightarrow> now < x)"

definition binding_sane :: "timestamp \<Rightarrow> worker_window_binding \<Rightarrow> bool" where
  "binding_sane now b = (wb_bound_at b \<le> wb_observed_at b \<and> wb_observed_at b \<le> now \<and> wb_observed_at b \<le> wb_expires_at b)"

definition validate_runtime_timestamps ::
  "timestamp \<Rightarrow> worker_record option \<Rightarrow> browser_observation option \<Rightarrow> network_observation option \<Rightarrow> lsm_observation option
     \<Rightarrow> workspace_observation option \<Rightarrow> worker_window_binding option \<Rightarrow> string list" where
  "validate_runtime_timestamps now worker browser network lsm workspace binding =
     map (\<lambda>(label, t). label @ '' timestamp is in the future'')
       (filter (\<lambda>(label, t). in_future now t) (observed_times worker browser network lsm workspace))
     @ (case binding of None \<Rightarrow> [] | Some b \<Rightarrow>
          if binding_sane now b then [] else [''exact-window binding timestamps are inconsistent''])"

section \<open>The input of a task\<close>

definition dirty_blockers :: "workspace_observation option \<Rightarrow> string list" where
  "dirty_blockers workspace = (case workspace of None \<Rightarrow> []
     | Some w \<Rightarrow> if wo_git_dirty w = Some True
         then [''workspace/Git is dirty; reconcile durable side effects before recovery''] else [])"

definition live_record ::
  "adapter \<Rightarrow> task_record \<Rightarrow> assessment \<Rightarrow> worker_record option \<Rightarrow> browser_observation option \<Rightarrow> network_observation option
     \<Rightarrow> lsm_observation \<Rightarrow> workspace_observation \<Rightarrow> timestamp \<Rightarrow> reconciliation_record" where
  "live_record ad task a worker browser network lsm workspace now =
     build_reconciliation_record (ad_checkpoint_digest ad) (ad_digest ad) (ad_fresh_id ad) task a worker browser network
       (Some lsm) (Some workspace) now"

definition fence_blockers ::
  "adapter \<Rightarrow> task_record \<Rightarrow> assessment \<Rightarrow> worker_record option \<Rightarrow> browser_observation option \<Rightarrow> network_observation option
     \<Rightarrow> lsm_observation option \<Rightarrow> workspace_observation option \<Rightarrow> reconciliation_record option \<Rightarrow> timestamp \<Rightarrow> string list" where
  "fence_blockers ad task a worker browser network lsm workspace current now =
     (case (current, lsm, workspace) of
        (Some c, Some l, Some w) \<Rightarrow>
          if fence_matches c (live_record ad task a worker browser network l w now) then []
          else [''live durable evidence no longer matches the latest reconciliation fence'']
      | _ \<Rightarrow> [])"

definition probe_blockers :: "page_continuity_request option \<Rightarrow> probe_mutation_operation option \<Rightarrow> string list" where
  "probe_blockers request probe = (case (request, probe) of
     (Some _, Some p) \<Rightarrow> [''page continuity is fenced by unresolved probe mutation '' @ po_operation_id p @ '' in state ''
        @ ps_value (po_state p)]
   | _ \<Rightarrow> [])"

text \<open>The scheduling facts of an input and whether they are known: a time outside \<open>0 .. now\<close> or a negative
  count of waits makes the history unknown.\<close>

definition scheduling_facts ::
  "scheduling_history option \<Rightarrow> timestamp \<Rightarrow> timestamp option \<times> int \<times> bool \<times> string list" where
  "scheduling_facts scheduling now =
     (case scheduling of None \<Rightarrow> (None, 0, False, [])
      | Some s \<Rightarrow>
          let bad_time = (case sh_last_scheduled_at s of None \<Rightarrow> False | Some t \<Rightarrow> t < 0 \<or> now < t);
              bad_count = (sh_consecutive_waits s < 0) in
          (sh_last_scheduled_at s, sh_consecutive_waits s, \<not> bad_time \<and> \<not> bad_count,
           (if bad_time then [''scheduler history timestamp is invalid or in the future''] else [])
           @ (if bad_count then [''scheduler wait count is negative''] else [])))"

definition build_candidate ::
  "adapter \<Rightarrow> database \<Rightarrow> string \<Rightarrow> runtime_hints option \<Rightarrow> scheduling_history option \<Rightarrow> timestamp
     \<Rightarrow> probe_mutation_operation option \<Rightarrow> orchestration_input result" where
  "build_candidate ad d t runtime scheduling now probe =
     (let hints = (case runtime of None \<Rightarrow> default_hints | Some h \<Rightarrow> h); db = fst d in
      rbind (get_task db t) (\<lambda>task.
      rbind (current_worker db task) (\<lambda>worker.
      let browser = latest_browser_observation d (tk_current_worker_id task);
          network = latest_network_observation d (tk_current_worker_id task);
          (lsm, lsm_blockers) = refresh_lsm ad d task;
          (workspace, workspace_blockers) = refresh_workspace ad task;
          a = assess task browser lsm workspace network now (ad_watch_policy ad) in
      rbind (reconciliation_history d (tk_task_id task) 2) (\<lambda>history.
      let current = (case history of [] \<Rightarrow> None | c # _ \<Rightarrow> Some c);
          previous = (case history of _ # p # _ \<Rightarrow> Some p | _ \<Rightarrow> None) in
      rbind (unresolved_action_attempt db (tk_task_id task)) (\<lambda>unresolved.
      let binding = Option.bind worker (\<lambda>w. get_worker_window_binding db (wk_worker_id w)) in
      rbind (last_recovery_at db task hints) (\<lambda>(recovered, recovery_blockers).
      rbind (page_capability db (rh_page_continuity hints) now) (\<lambda>capability.
      let (scheduled, waits, known, scheduling_blockers) = scheduling_facts scheduling now in
      Inr \<lparr>oi_task = task, oi_assessment = a, oi_worker = worker, oi_lsm = lsm, oi_workspace = workspace,
        oi_previous_reconciliation = previous, oi_current_reconciliation = current, oi_unresolved_action = unresolved,
        oi_unresolved_probe_mutation = probe, oi_worker_lease_expires_at = rh_worker_lease_expires_at hints,
        oi_last_recovery_at = recovered, oi_last_scheduled_at = scheduled, oi_consecutive_waits = waits,
        oi_requires_exact_window_binding = rh_requires_exact_window_binding hints, oi_window_binding = binding,
        oi_page_continuity_relevant = (rh_page_continuity hints \<noteq> None), oi_page_capability = capability,
        oi_capability_context = Option.bind (rh_page_continuity hints) pq_context,
        oi_page_capability_kind = (case rh_page_continuity hints of None \<Rightarrow> PC_GENERATION | Some q \<Rightarrow> pq_kind q),
        oi_reconcile_blockers = first_occurrences (lsm_blockers @ workspace_blockers @ recovery_blockers
          @ validate_runtime_timestamps now worker browser network lsm workspace binding
          @ dirty_blockers workspace @ fence_blockers ad task a worker browser network lsm workspace current now
          @ scheduling_blockers),
        oi_human_blockers = first_occurrences (probe_blockers (rh_page_continuity hints) probe),
        oi_scheduling_history_known = known\<rparr>)))))))"

section \<open>Advice\<close>

definition advise ::
  "adapter \<Rightarrow> database \<Rightarrow> string \<Rightarrow> runtime_hints option \<Rightarrow> scheduling_history option \<Rightarrow> timestamp \<Rightarrow> orchestration_policy
     \<Rightarrow> orchestration_decision result" where
  "advise ad d t runtime scheduling now policy =
     rbind (build_candidate ad d t runtime scheduling now (unresolved_probe_mutation_operation (fst d))) (\<lambda>candidate.
     Inr ((evaluate_task candidate now policy)\<lparr>od_mutation_allowed := False, od_selected := False\<rparr>))"

definition advise_all ::
  "adapter \<Rightarrow> database \<Rightarrow> string list option \<Rightarrow> (string \<Rightarrow> runtime_hints option) \<Rightarrow> (string \<Rightarrow> scheduling_history option)
     \<Rightarrow> timestamp \<Rightarrow> orchestration_policy \<Rightarrow> orchestration_decision list result" where
  "advise_all ad d task_ids hints history now policy =
     rbind (case task_ids of Some ids \<Rightarrow> Inr ids
       | None \<Rightarrow> rbind (list_tasks (fst d)) (\<lambda>tasks. Inr (map tk_task_id tasks))) (\<lambda>ids.
     rbind (map_result (\<lambda>t. build_candidate ad d t (hints t) (history t) now (unresolved_probe_mutation_operation (fst d)))
        (sort (remdups ids))) (\<lambda>candidates.
     Inr (sort_key od_task_id (map (\<lambda>x. x\<lparr>od_mutation_allowed := False\<rparr>) (plan_orchestration candidates now policy)))))"

section \<open>What a recommendation rests on\<close>

lemma first_occurrences_Nil: "first_occurrences xs = [] \<longleftrightarrow> xs = []"
  by (cases xs) auto

lemma read_task_id: "get_task db t = Inr task \<Longrightarrow> tk_task_id task = t"
  by (auto simp: get_task_def find_task_def dest!: tbl_find_SomeD split: option.splits)

text \<open>In a journal with unique identifiers the first unresolved row is found under its own identifier.\<close>

lemma unresolved_action_free:
  assumes "unresolved_action_attempt db t = Inr u" and "\<And>a. u = Some a \<Longrightarrow> \<not> aa_unresolved a"
    and "tbl_ok aa_attempt_id (db_actions db)"
  shows "unresolved_actions db t = []"
proof (cases "sort_key (\<lambda>a. - aa_created_at a) (unresolved_actions db t)")
  case (Cons a as)
  then have "a \<in> set (unresolved_actions db t)" by (metis list.set_intros(1) set_sort)
  then have "tbl_find aa_attempt_id (aa_attempt_id a) (db_actions db) = Some a" and "aa_unresolved a"
    using tbl_find_Some_iff [OF assms(3)] by (auto simp: unresolved_actions_def)
  with assms(1,2) Cons show ?thesis by (auto simp: unresolved_action_attempt_def get_action_attempt_def)
qed (metis set_empty set_sort)

lemma unresolved_probe_free:
  assumes "\<And>p. unresolved_probe_mutation_operation db = Some p \<Longrightarrow> \<not> ps_pending (po_state p)"
    and "tbl_ok po_operation_id (db_probe_ops db)"
  shows "filter po_unresolved (db_probe_ops db) = []"
proof (cases "sort_key (\<lambda>p. - po_created_at p) (filter po_unresolved (db_probe_ops db))")
  case (Cons p ps)
  then have "p \<in> set (filter po_unresolved (db_probe_ops db))" by (metis list.set_intros(1) set_sort)
  then have "tbl_find po_operation_id (po_operation_id p) (db_probe_ops db) = Some p" and "po_unresolved p"
    using tbl_find_Some_iff [OF assms(2)] by auto
  with assms(1) Cons show ?thesis by (auto simp: unresolved_probe_mutation_operation_def po_unresolved_def)
qed (metis set_empty set_sort)

text \<open>The parts of an input, as the adapter reads them.\<close>

lemma candidate_parts:
  assumes "build_candidate ad d t runtime scheduling now probe = Inr item"
  shows "get_task (fst d) t = Inr (oi_task item)" and "current_worker (fst d) (oi_task item) = Inr (oi_worker item)"
    and "oi_lsm item = fst (refresh_lsm ad d (oi_task item))" and "oi_workspace item = fst (refresh_workspace ad (oi_task item))"
    and "oi_assessment item = assess (oi_task item) (latest_browser_observation d (tk_current_worker_id (oi_task item))) (oi_lsm item)
      (oi_workspace item) (latest_network_observation d (tk_current_worker_id (oi_task item))) now (ad_watch_policy ad)"
    and "unresolved_action_attempt (fst d) t = Inr (oi_unresolved_action item)" and "oi_unresolved_probe_mutation item = probe"
    and "latest_reconciliation d t = Inr (oi_current_reconciliation item)"
    and "oi_reconcile_blockers item = [] \<Longrightarrow> dirty_blockers (oi_workspace item) = []
      \<and> validate_runtime_timestamps now (oi_worker item) (latest_browser_observation d (tk_current_worker_id (oi_task item)))
          (latest_network_observation d (tk_current_worker_id (oi_task item))) (oi_lsm item) (oi_workspace item) (oi_window_binding item) = []
      \<and> fence_blockers ad (oi_task item) (oi_assessment item) (oi_worker item)
          (latest_browser_observation d (tk_current_worker_id (oi_task item)))
          (latest_network_observation d (tk_current_worker_id (oi_task item))) (oi_lsm item) (oi_workspace item)
          (oi_current_reconciliation item) now = []"
    and "oi_window_binding item = Option.bind (oi_worker item) (\<lambda>w. get_worker_window_binding (fst d) (wk_worker_id w))"
proof -
  obtain task worker history unresolved recovered where
    a: "get_task (fst d) t = Inr task" "current_worker (fst d) task = Inr worker" "reconciliation_history d (tk_task_id task) 2 = Inr history"
      "unresolved_action_attempt (fst d) (tk_task_id task) = Inr unresolved" 
      "last_recovery_at (fst d) task (case runtime of None \<Rightarrow> default_hints | Some h \<Rightarrow> h) = Inr recovered"
    using assms by (auto simp: build_candidate_def Let_def split_beta)
  note s = assms [unfolded build_candidate_def Let_def split_beta, simplified a rbind_simps]
  have t: "tk_task_id task = t" using a(1) by (rule read_task_id)
  have task: "oi_task item = task" using s by auto
  show "get_task (fst d) t = Inr (oi_task item)" using a(1) task by simp
  show "current_worker (fst d) (oi_task item) = Inr (oi_worker item)" using a(2) s by auto
  show "oi_lsm item = fst (refresh_lsm ad d (oi_task item))" using s by auto
  show "oi_window_binding item = Option.bind (oi_worker item) (\<lambda>w. get_worker_window_binding (fst d) (wk_worker_id w))"
    using s by auto
  show "oi_workspace item = fst (refresh_workspace ad (oi_task item))" using s by auto
  show "oi_assessment item = assess (oi_task item) (latest_browser_observation d (tk_current_worker_id (oi_task item))) (oi_lsm item)
      (oi_workspace item) (latest_network_observation d (tk_current_worker_id (oi_task item))) now (ad_watch_policy ad)"
    using s by auto
  show "unresolved_action_attempt (fst d) t = Inr (oi_unresolved_action item)" using a(4) s t by auto
  show "oi_unresolved_probe_mutation item = probe" using s by auto
  have "oi_current_reconciliation item = (case history of [] \<Rightarrow> None | c # _ \<Rightarrow> Some c)" using s by auto
  then show "latest_reconciliation d t = Inr (oi_current_reconciliation item)"
    using a(1,3) t by (cases "newest_first rr_task_id rr_created_at t (et_reconciliations (snd d))")
      (auto simp: reconciliation_history_def latest_reconciliation_def)
  show "dirty_blockers (oi_workspace item) = []
      \<and> validate_runtime_timestamps now (oi_worker item) (latest_browser_observation d (tk_current_worker_id (oi_task item)))
          (latest_network_observation d (tk_current_worker_id (oi_task item))) (oi_lsm item) (oi_workspace item) (oi_window_binding item) = []
      \<and> fence_blockers ad (oi_task item) (oi_assessment item) (oi_worker item)
          (latest_browser_observation d (tk_current_worker_id (oi_task item)))
          (latest_network_observation d (tk_current_worker_id (oi_task item))) (oi_lsm item) (oi_workspace item)
          (oi_current_reconciliation item) now = []" if "oi_reconcile_blockers item = []"
    using s that by (auto simp: first_occurrences_Nil)
qed

text \<open>What it means that the timestamps of an input raise no blocker.\<close>

lemma timestamps_valid:
  assumes "validate_runtime_timestamps now (Some w) b n (Some l) (Some s) v = []"
  shows "lo_observed_at l \<le> now \<and> wo_observed_at s \<le> now
    \<and> (\<forall>x. wk_last_seen_at w = Some x \<longrightarrow> x \<le> now) \<and> (\<forall>x. b = Some x \<longrightarrow> bo_observed_at x \<le> now)
    \<and> (\<forall>x. n = Some x \<longrightarrow> no_observed_at x \<le> now)
    \<and> (\<forall>x. v = Some x \<longrightarrow> wb_bound_at x \<le> wb_observed_at x \<and> wb_observed_at x \<le> now \<and> wb_observed_at x \<le> wb_expires_at x)"
  using assms by (auto simp: validate_runtime_timestamps_def observed_times_def in_future_def binding_sane_def split: if_splits)

text \<open>C36. When the adapter recommends an action for a task, the session and the workspace answered on this very call: nothing runs in
  the session, the directory exists, and Git neither fails nor reports a dirty tree. None of the times that the recommendation rests on lies in the future: not those of
  the session and the workspace, not those at which the worker was last seen and its browser and network were last observed, and
  if a window is bound to the worker, it was bound before it was observed and its binding ends later. The current worker is active, what was
  observed now matches the fence of the latest reconciliation record, and neither the action journal of the task nor the
  probe journal has an unresolved entry. The advice itself allows no mutation.\<close>

theorem advice_rests_on_live_evidence:
  assumes "advise ad d t runtime scheduling now policy = Inr advice" and "od_kind advice = OD_RECOMMEND_ACTION"
    and "tbl_ok aa_attempt_id (db_actions (fst d))" and "tbl_ok po_operation_id (db_probe_ops (fst d))"
  shows "\<exists>task w l s c b n. get_task (fst d) t = Inr task
    \<and> get_worker (fst d) (the (tk_current_worker_id task)) = Inr w \<and> wk_status w = WS_ACTIVE
    \<and> ad_lsm ad t (the (tk_lsm_session_id task)) (tracked_jobs d t) = Inr l \<and> lo_in_flight_calls l = 0 \<and> lo_active_jobs l = 0
    \<and> ad_workspace ad t (tk_cwd task) = Inr s \<and> wo_cwd_exists s \<and> wo_error s = None \<and> wo_git_dirty s \<noteq> Some True
    \<and> lo_observed_at l \<le> now \<and> wo_observed_at s \<le> now
    \<and> (\<forall>x. wk_last_seen_at w = Some x \<longrightarrow> x \<le> now) \<and> (\<forall>x. b = Some x \<longrightarrow> bo_observed_at x \<le> now)
    \<and> (\<forall>x. n = Some x \<longrightarrow> no_observed_at x \<le> now)
    \<and> (\<forall>x. get_worker_window_binding (fst d) (wk_worker_id w) = Some x \<longrightarrow>
         wb_bound_at x \<le> wb_observed_at x \<and> wb_observed_at x \<le> now \<and> wb_observed_at x \<le> wb_expires_at x)
    \<and> b = latest_browser_observation d (tk_current_worker_id task) \<and> n = latest_network_observation d (tk_current_worker_id task)
    \<and> latest_reconciliation d t = Inr (Some c)
    \<and> fence_matches c (live_record ad task (assess task b (Some l) (Some s) n now (ad_watch_policy ad)) (Some w) b n l s now)
    \<and> unresolved_actions (fst d) t = [] \<and> filter po_unresolved (db_probe_ops (fst d)) = [] \<and> \<not> od_mutation_allowed advice"
proof -
  obtain item where item: "build_candidate ad d t runtime scheduling now (unresolved_probe_mutation_operation (fst d)) = Inr item"
    and advice: "advice = (evaluate_task item now policy)\<lparr>od_mutation_allowed := False, od_selected := False\<rparr>"
    using assms(1) by (auto simp: advise_def)
  note p = candidate_parts [OF item]
  have r: "od_kind (evaluate_task item now policy) = OD_RECOMMEND_ACTION" using assms(2) advice by simp
  note g = r [unfolded recommendation_gates]
  obtain l where l: "oi_lsm item = Some l" "lo_in_flight_calls l = 0" "lo_active_jobs l = 0" using g by (auto simp: session_idle_def)
  obtain s where s: "oi_workspace item = Some s" "wo_cwd_exists s" "wo_error s = None" using g by (auto simp: workspace_intact_def)
  obtain w where w: "oi_worker item = Some w" "wk_status w = WS_ACTIVE" "tk_current_worker_id (oi_task item) = Some (wk_worker_id w)"
      "wk_worker_id w \<noteq> []"
    using g by (auto simp: worker_in_charge_def)
  obtain c where c: "oi_current_reconciliation item = Some c" using g by (auto simp: stable_samples_def)
  have u: "unencumbered item" using g by simp
  have t: "tk_task_id (oi_task item) = t" using p(1) by (rule read_task_id)
  let ?b = "latest_browser_observation d (tk_current_worker_id (oi_task item))"
    and ?n = "latest_network_observation d (tk_current_worker_id (oi_task item))"
  have q: "dirty_blockers (Some s) = []" "validate_runtime_timestamps now (Some w) ?b ?n (Some l) (Some s) (oi_window_binding item) = []"
      "fence_blockers ad (oi_task item) (oi_assessment item) (Some w) ?b ?n (Some l) (Some s) (Some c) now = []"
    using p(9) u l(1) s(1) w(1) c by (simp_all add: unencumbered_def)
  have "get_worker (fst d) (wk_worker_id w) = Inr w"
    using p(2) w by (auto simp: current_worker_def present_def split: sum.splits py_error.splits)
  moreover have "ad_lsm ad t (the (tk_lsm_session_id (oi_task item))) (tracked_jobs d t) = Inr l"
    using p(3) l(1) t by (auto simp: refresh_lsm_def split: if_splits sum.splits)
  moreover have "ad_workspace ad t (tk_cwd (oi_task item)) = Inr s"
    using p(4) s t by (auto simp: refresh_workspace_def split: sum.splits)
  moreover have "wo_git_dirty s \<noteq> Some True" using q(1) by (auto simp: dirty_blockers_def)
  moreover note times = timestamps_valid [OF q(2)]
  moreover have "oi_window_binding item = get_worker_window_binding (fst d) (wk_worker_id w)" using p(10) w(1) by simp
  moreover have "fence_matches c (live_record ad (oi_task item) (oi_assessment item) (Some w) ?b ?n l s now)"
    using q(3) by (simp add: fence_blockers_def split: if_splits)
  moreover have "unresolved_actions (fst d) t = []"
    using unresolved_action_free [OF p(6) _ assms(3)] u by (simp add: unencumbered_def)
  moreover have "filter po_unresolved (db_probe_ops (fst d)) = []"
    using unresolved_probe_free [OF _ assms(4)] u p(7) by (simp add: unencumbered_def)
  ultimately show ?thesis
    using p(1,5,8) w(2,3) l s c advice by auto
qed

definition demo_stalled :: database where
  "demo_stalled = (empty_registry\<lparr>
     db_tasks := [\<lparr>tr_task_id = ''task'', tr_project = ''p'', tr_objective = ''o'', tr_cwd = ''c'', tr_state = ''RUNNING'',
       tr_lsm_session_id = Some ''s1'', tr_checkpoint = [], tr_current_worker_id = Some ''w1'', tr_recovery_attempts = 0,
       tr_max_recovery_attempts = 3, tr_created_at = 0, tr_updated_at = 0\<rparr>],
     db_workers := [\<lparr>wr_worker_id = ''w1'', wr_task_id = ''task'', wr_conversation_url = ''https://c/1'', wr_conversation_id = None,
       wr_status = ''active'', wr_started_at = 1, wr_last_seen_at = Some 5, wr_ended_at = None\<rparr>],
     db_bindings := [\<lparr>wb_worker_id = ''w1'', wb_window_handle = 7, wb_browser_pid = 9, wb_chrome_executable = ''chrome'',
       wb_conversation_url = ''https://c/1'', wb_source = ''windows_uia_chrome'', wb_bound_at = 100, wb_observed_at = 105,
       wb_expires_at = 165\<rparr>]\<rparr>,
     empty_tables\<lparr>et_browser := ev_insert (demo_browser 108) no_evidence,
       et_reconciliations := ev_insert (demo_reconciliation ''r2'' 110) (ev_insert (demo_reconciliation ''r1'' 100) no_evidence)\<rparr>)"

definition demo_adapter :: adapter where
  "demo_adapter = \<lparr>ad_lsm = (\<lambda>_ _ _. Inr (demo_lsm\<lparr>lo_observed_at := 111\<rparr>)), ad_workspace = (\<lambda>_ _. Inr (demo_workspace 111)),
     ad_watch_policy = default_watch_policy, ad_checkpoint_digest = (\<lambda>_. ''d''),
     ad_digest = (\<lambda>s. case sn_workspace s of None \<Rightarrow> [] | Some w \<Rightarrow> ww_cwd w), ad_fresh_id = ''r3''\<rparr>"

theorem advice_rests_on_live_evidence_witness:
  "\<exists>advice. advise demo_adapter demo_stalled ''task'' (Some (default_hints\<lparr>rh_worker_lease_expires_at := Some 200\<rparr>)) None 112
      default_orchestration_policy = Inr advice \<and> od_kind advice = OD_RECOMMEND_ACTION \<and> \<not> od_mutation_allowed advice"
proof -
  let ?run = "advise demo_adapter demo_stalled ''task'' (Some (default_hints\<lparr>rh_worker_lease_expires_at := Some 200\<rparr>)) None 112
      default_orchestration_policy"
  have "(case ?run of Inl _ \<Rightarrow> False | Inr x \<Rightarrow> od_kind x = OD_RECOMMEND_ACTION)" by code_simp
  then obtain x where x: "?run = Inr x" "od_kind x = OD_RECOMMEND_ACTION" by (auto split: sum.splits)
  have keys: "tbl_ok aa_attempt_id (db_actions (fst demo_stalled))" "tbl_ok po_operation_id (db_probe_ops (fst demo_stalled))"
    by (simp_all add: demo_stalled_def empty_registry_def tbl_ok_def)
  show ?thesis using advice_rests_on_live_evidence [OF x keys] x by auto
qed

end
