(* ===== verification/Probe_Window.thy ===== *)
theory Probe_Window
  imports Probe_Safety Url Uia
begin

text \<open>
  The probe window of \<^verbatim>\<open>page_runtime.py\<close>: the plan of the one probe slot, the operation that a plan becomes, and the
  gates of the Chrome transport that closes, opens and reuses the window. The PowerShell scripts that search and
  close windows, the launch of Chrome, the platform and the fresh tokens are arguments; the times at which the
  transport polls for its window before the deadline are a list.
\<close>

section \<open>Plans\<close>

datatype probe_slot_action = PSA_REUSE | PSA_OPEN | PSA_ROTATE | PSA_BLOCKED

record probe_slot_plan =
  pp_slot_id :: string
  pp_worker_id :: string
  pp_target_conversation_url :: string
  pp_action :: probe_slot_action
  pp_mutation_required :: bool
  pp_reason :: string
  pp_checks :: "(string \<times> bool) list"
  pp_owner_token :: "string option"

record probe_slot_execution =
  px_changed :: bool
  px_side_effect_possible :: bool
  px_detail :: string
  px_binding :: "probe_window_slot_binding option"

definition PROBE_SLOT_SOURCE :: string where
  "PROBE_SLOT_SOURCE = ''windows_uia_lws_probe''"

definition DEFAULT_PROBE_SLOT_ID :: string where
  "DEFAULT_PROBE_SLOT_ID = ''probe:default''"

definition web_identity :: "string \<Rightarrow> (string \<times> string) option result" where
  "web_identity url =
     rbind (urlsplit (strip url)) (\<lambda>u.
     Inr (if lower (ur_scheme u) \<noteq> ''https'' \<or> lower (ur_netloc u) \<noteq> ''chatgpt.com'' then None
          else case conversation_id_from_url url of
            None \<Rightarrow> None | Some i \<Rightarrow> if i = [] then None else Some (lower (ur_netloc u), lower i)))"

definition tagged_probe_url :: "string \<Rightarrow> string \<Rightarrow> string \<Rightarrow> string result" where
  "tagged_probe_url url slot_id owner_token =
     rbind (web_identity url) (\<lambda>identity.
     rbind (guard (identity \<noteq> None) (ValueError ''probe slot requires an https://chatgpt.com/c/... conversation URL'')) (\<lambda>_.
     rbind (guard (strip slot_id \<noteq> [] \<and> strip owner_token \<noteq> [])
       (ValueError ''probe slot tag requires slot id and owner token'')) (\<lambda>_.
     rbind (urlsplit (strip url)) (\<lambda>u.
     Inr (urlunsplit (u\<lparr>ur_fragment := ''lws-probe='' @ slot_id @ '':'' @ owner_token\<rparr>))))))"

text \<open>Every error of \<open>tagged_probe_url\<close> is a \<open>ValueError\<close>.\<close>

definition slot_owns_actual_url :: "probe_window_slot_binding \<Rightarrow> bool" where
  "slot_owns_actual_url s =
     (case tagged_probe_url (sl_target_conversation_url s) (sl_slot_id s) (sl_owner_token s) of
        Inl _ \<Rightarrow> False | Inr expected \<Rightarrow> rstrip_slash (sl_actual_url s) = rstrip_slash expected)"

definition slot_plan ::
  "string \<Rightarrow> worker_record \<Rightarrow> probe_slot_action \<Rightarrow> bool \<Rightarrow> string \<Rightarrow> (string \<times> bool) list \<Rightarrow> string option \<Rightarrow> probe_slot_plan" where
  "slot_plan slot_id w action mutation reason cs token = \<lparr>pp_slot_id = slot_id, pp_worker_id = wk_worker_id w,
     pp_target_conversation_url = wk_conversation_url w, pp_action = action, pp_mutation_required = mutation,
     pp_reason = reason, pp_checks = cs, pp_owner_token = token\<rparr>"

definition existing_slot_checks :: "probe_window_slot_binding \<Rightarrow> string \<Rightarrow> timestamp \<Rightarrow> (string \<times> bool) list" where
  "existing_slot_checks s slot_id now =
     [(''slot_id_matches'', sl_slot_id s = slot_id), (''slot_source_owned'', sl_source s = PROBE_SLOT_SOURCE),
      (''slot_fresh'', sl_is_fresh s now), (''slot_owner_tag_matches'', slot_owns_actual_url s)]"

definition same_slot_target :: "worker_record \<Rightarrow> probe_window_slot_binding \<Rightarrow> bool result" where
  "same_slot_target w s =
     (if sl_target_worker_id s \<noteq> wk_worker_id w then Inr False
      else rbind (web_identity (sl_target_conversation_url s)) (\<lambda>x.
        rbind (web_identity (wk_conversation_url w)) (\<lambda>y. Inr (x = y))))"

definition plan_probe_slot ::
  "worker_record \<Rightarrow> probe_window_slot_binding option \<Rightarrow> string \<Rightarrow> timestamp \<Rightarrow> string \<Rightarrow> probe_slot_plan result" where
  "plan_probe_slot w existing slot_id now fresh_token =
     rbind (web_identity (wk_conversation_url w)) (\<lambda>identity.
     let cs = [(''worker_is_parked'', wk_status w = WS_PARKED), (''target_is_web_conversation'', identity \<noteq> None)] in
     if \<not> list_all snd cs
     then Inr (slot_plan slot_id w PSA_BLOCKED False
       ''probe slots are only for parked workers with an existing web chat conversation URL'' cs None)
     else case existing of
       None \<Rightarrow> Inr (slot_plan slot_id w PSA_OPEN True
         ''no probe slot is bound; open exactly one tagged LWS probe window'' cs (Some fresh_token))
     | Some s \<Rightarrow>
         let cs = cs @ existing_slot_checks s slot_id now in
         if \<not> list_all snd cs
         then Inr (slot_plan slot_id w PSA_BLOCKED False
           ''existing probe slot is stale, ambiguous, or no longer proves LWS ownership; reconcile it before opening another window''
           cs (Some (sl_owner_token s)))
         else rbind (same_slot_target w s) (\<lambda>same.
           let cs = cs @ [(''same_target'', same)] in
           if same then Inr (slot_plan slot_id w PSA_REUSE False
             ''fresh LWS-owned probe slot already targets this parked worker'' cs (Some (sl_owner_token s)))
           else Inr (slot_plan slot_id w PSA_ROTATE True
             ''rotate the single LWS probe slot by exact-close-before-open'' cs (Some fresh_token))))"

section \<open>Operations\<close>

definition probe_operation_from_plan ::
  "worker_record \<Rightarrow> probe_slot_plan \<Rightarrow> probe_window_slot_binding option \<Rightarrow> string \<Rightarrow> timestamp \<Rightarrow> string option \<Rightarrow> string option
     \<Rightarrow> string \<Rightarrow> string \<Rightarrow> real \<Rightarrow> probe_mutation_operation result" where
  "probe_operation_from_plan w plan existing chrome now operation_id nonce fresh_id fresh_nonce slot_ttl_s =
     rbind (guard (pp_worker_id plan = wk_worker_id w \<and> pp_target_conversation_url plan = wk_conversation_url w)
       (ValueError ''probe plan no longer matches its worker'')) (\<lambda>_.
     rbind (guard (pp_action plan \<in> {PSA_OPEN, PSA_ROTATE})
       (ValueError ''only OPEN/ROTATE plans create probe mutation operations'')) (\<lambda>_.
     rbind (guard (present (pp_owner_token plan)) (ValueError ''mutating probe plan requires an ownership token'')) (\<lambda>_.
     rbind (guard (\<not> (pp_action plan = PSA_OPEN \<and> existing \<noteq> None)) (ValueError ''OPEN operation must not have a prior slot'')) (\<lambda>_.
     rbind (guard (\<not> (pp_action plan = PSA_ROTATE \<and> existing = None)) (ValueError ''ROTATE operation requires the prior slot'')) (\<lambda>_.
     rbind (tagged_probe_url (wk_conversation_url w) (pp_slot_id plan) (the (pp_owner_token plan))) (\<lambda>actual_url.
     Inr \<lparr>po_operation_id = or_text operation_id (''probeop_'' @ fresh_id), po_nonce = or_text nonce fresh_nonce,
       po_kind = (if pp_action plan = PSA_OPEN then PK_OPEN else PK_ROTATE), po_state = PS_ARMED, po_slot_id = pp_slot_id plan,
       po_target_task_id = wk_task_id w, po_target_worker_id = wk_worker_id w, po_target_conversation_url = wk_conversation_url w,
       po_owner_token = the (pp_owner_token plan), po_expected_actual_url = actual_url, po_expected_chrome_executable = chrome,
       po_source = PROBE_SLOT_SOURCE, po_prior_slot = existing, po_created_at = now, po_updated_at = now,
       po_slot_ttl_s = max 1 slot_ttl_s, po_reconcile_attempts = 0, po_last_reconcile_at = None,
       po_last_outcome = None, po_last_error = None, po_resume_state = None\<rparr>))))))"

definition probe_close_operation ::
  "worker_record \<Rightarrow> probe_window_slot_binding \<Rightarrow> timestamp \<Rightarrow> string option \<Rightarrow> string option \<Rightarrow> string \<Rightarrow> string
     \<Rightarrow> probe_mutation_operation result" where
  "probe_close_operation w s now operation_id nonce fresh_id fresh_nonce =
     rbind (guard (wk_status w = WS_PARKED) (ValueError ''probe CLOSE requires a parked worker'')) (\<lambda>_.
     rbind (guard (sl_target_worker_id s = wk_worker_id w) (ValueError ''probe CLOSE worker does not own the durable slot'')) (\<lambda>_.
     rbind (guard (slot_owns_actual_url s) (ValueError ''probe CLOSE requires an exact LWS ownership tag'')) (\<lambda>_.
     Inr \<lparr>po_operation_id = or_text operation_id (''probeop_'' @ fresh_id), po_nonce = or_text nonce fresh_nonce,
       po_kind = PK_CLOSE, po_state = PS_ARMED, po_slot_id = sl_slot_id s,
       po_target_task_id = wk_task_id w, po_target_worker_id = wk_worker_id w, po_target_conversation_url = wk_conversation_url w,
       po_owner_token = sl_owner_token s, po_expected_actual_url = [], po_expected_chrome_executable = sl_chrome_executable s,
       po_source = sl_source s, po_prior_slot = Some s, po_created_at = now, po_updated_at = now,
       po_slot_ttl_s = max 1 (sl_expires_at s - sl_observed_at s), po_reconcile_attempts = 0, po_last_reconcile_at = None,
       po_last_outcome = None, po_last_error = None, po_resume_state = None\<rparr>)))"

text \<open>The accessibility probe is an argument: it gets the worker under the tagged URL, the previous observation and the window.\<close>

definition observe_probe_slot ::
  "worker_record \<Rightarrow> probe_window_slot_binding \<Rightarrow> (worker_record \<Rightarrow> browser_observation option \<Rightarrow> int \<Rightarrow> browser_observation result)
     \<Rightarrow> browser_observation option \<Rightarrow> browser_observation result" where
  "observe_probe_slot w s observe previous =
     rbind (guard (wk_status w = WS_PARKED) (UiaProbeUnavailable ''probe-slot observation requires a parked worker'')) (\<lambda>_.
     rbind (guard (sl_target_worker_id s = wk_worker_id w) (UiaProbeUnavailable ''probe slot belongs to a different worker'')) (\<lambda>_.
     rbind (guard (slot_owns_actual_url s) (UiaProbeUnavailable ''probe slot no longer proves LWS URL ownership'')) (\<lambda>_.
     rbind (web_identity (sl_actual_url s)) (\<lambda>x.
     rbind (web_identity (wk_conversation_url w)) (\<lambda>y.
     rbind (guard (x = y) (UiaProbeUnavailable ''probe slot conversation identity does not match the worker'')) (\<lambda>_.
     rbind (observe (w\<lparr>wk_conversation_url := sl_actual_url s\<rparr>) previous (sl_window_handle s)) (\<lambda>v.
     Inr (v\<lparr>bo_worker_id := wk_worker_id w, bo_url := Some (wk_conversation_url w),
       bo_raw := json_set ''probe_slot_owner'' (JBool True) (json_set ''probe_slot_id'' (JStr (sl_slot_id s)) (bo_raw v))\<rparr>))))))))"

section \<open>The Chrome transport\<close>

text \<open>What the search script answers: the number of windows under a URL and their rows.\<close>

record found_windows =
  fw_count :: json
  fw_matches :: "json_object list"

record probe_transport =
  pt_chrome_executable :: string
  pt_enabled :: bool
  pt_slot_ttl_s :: real
  pt_windows :: bool
  pt_find :: "string \<Rightarrow> found_windows result"
  pt_close :: "probe_window_slot_binding \<Rightarrow> json_object result"

definition new_probe_transport ::
  "string \<Rightarrow> bool \<Rightarrow> real \<Rightarrow> bool \<Rightarrow> (string \<Rightarrow> found_windows result) \<Rightarrow> (probe_window_slot_binding \<Rightarrow> json_object result) \<Rightarrow> probe_transport" where
  "new_probe_transport chrome enabled slot_ttl_s windows search shut = \<lparr>pt_chrome_executable = chrome, pt_enabled = enabled,
     pt_slot_ttl_s = max 5 slot_ttl_s, pt_windows = windows, pt_find = search, pt_close = shut\<rparr>"

definition window_match :: "json_object \<Rightarrow> probe_window_match result" where
  "window_match row =
     rbind (json_int_or_zero row ''window_handle'') (\<lambda>h.
     rbind (json_int_or_zero row ''browser_pid'') (\<lambda>p.
     Inr \<lparr>pm_window_handle = h, pm_browser_pid = p, pm_chrome_executable = json_string row ''chrome_executable'' [],
       pm_actual_url = json_string row ''actual_url'' []\<rparr>))"

definition found_matches :: "found_windows \<Rightarrow> probe_window_match list result" where
  "found_matches f = map_result window_match (fw_matches f)"

definition slot_unchanged :: "bool \<Rightarrow> string \<Rightarrow> probe_slot_execution" where
  "slot_unchanged possible detail = \<lparr>px_changed = False, px_side_effect_possible = possible, px_detail = detail, px_binding = None\<rparr>"

definition find_matches :: "probe_transport \<Rightarrow> string \<Rightarrow> probe_window_match list result" where
  "find_matches x url = rbind (pt_find x url) found_matches"

definition observe_operation :: "probe_transport \<Rightarrow> probe_mutation_operation \<Rightarrow> timestamp \<Rightarrow> probe_mutation_observation" where
  "observe_operation x op now =
     (if \<not> pt_windows x
      then \<lparr>pv_observed_at = now, pv_old_matches = [], pv_new_matches = [], pv_complete = False,
        pv_error = Some ''Windows UI Automation is unavailable''\<rparr>
      else case
          rbind (case po_prior_slot op of None \<Rightarrow> Inr [] | Some s \<Rightarrow> find_matches x (sl_actual_url s)) (\<lambda>old.
          rbind (if po_expected_actual_url op = [] then Inr [] else find_matches x (po_expected_actual_url op)) (\<lambda>new.
          Inr (old, new))) of
        Inr (old, new) \<Rightarrow> \<lparr>pv_observed_at = now, pv_old_matches = old, pv_new_matches = new, pv_complete = True, pv_error = None\<rparr>
      | Inl e \<Rightarrow> \<lparr>pv_observed_at = now, pv_old_matches = [], pv_new_matches = [], pv_complete = False,
          pv_error = Some (error_name e @ '': '' @ take 500 (error_text e))\<rparr>)"

definition close_authorized :: "probe_transport \<Rightarrow> probe_mutation_operation \<Rightarrow> probe_slot_execution result" where
  "close_authorized x op =
     (if \<not> pt_enabled x then Inl (ProbeWindowTransportDisabled ''normal-Chrome probe-window mutation transport is gated'')
      else if \<not> pt_windows x then Inr (slot_unchanged False ''Windows UI Automation is unavailable'')
      else if po_kind op \<notin> {PK_ROTATE, PK_CLOSE} then Inr (slot_unchanged False ''operation has no CLOSE phase'')
      else if po_state op \<noteq> PS_CLOSE_SUBMITTED then Inr (slot_unchanged False ''CLOSE authority was not durably submitted'')
      else case po_prior_slot op of
        None \<Rightarrow> Inr (slot_unchanged False ''CLOSE authority has no prior slot snapshot'')
      | Some s \<Rightarrow> rbind (pt_close x s) (\<lambda>answer.
          Inr (if json_flag answer ''ambiguous''
               then slot_unchanged False (json_string answer ''detail'' ''exact probe close became ambiguous'')
               else if json_flag answer ''absent'' then slot_unchanged False ''exact old probe target was already absent''
               else \<lparr>px_changed = json_flag answer ''closed'', px_side_effect_possible = json_flag answer ''closed'',
                 px_detail = json_string answer ''detail'' ''exact probe close requested'', px_binding = None\<rparr>)))"

text \<open>The gates before the launch: a refusal, or none.\<close>

definition open_refusal :: "probe_transport \<Rightarrow> probe_mutation_operation \<Rightarrow> string option" where
  "open_refusal x op =
     (if \<not> pt_windows x then Some ''Windows UI Automation is unavailable''
      else if po_kind op \<notin> {PK_OPEN, PK_ROTATE} then Some ''operation has no OPEN phase''
      else if po_state op \<noteq> PS_OPEN_SUBMITTED then Some ''OPEN authority was not durably submitted''
      else if po_expected_actual_url op = [] then Some ''OPEN authority has no expected tagged target''
      else if casefold (po_expected_chrome_executable op) \<noteq> casefold (pt_chrome_executable x)
      then Some ''transport executable does not match durable authority''
      else None)"

text \<open>One poll: the clock after the search and what the search found. Polls follow each other until the deadline.\<close>

fun await_window :: "probe_mutation_operation \<Rightarrow> (timestamp \<times> found_windows result) list \<Rightarrow> probe_slot_execution result" where
  "await_window op [] = Inr (slot_unchanged True
     ''Chrome launch occurred but the tagged probe window was not uniquely observed before timeout'')"
| "await_window op ((now, found) # polls) =
     rbind (rbind found found_matches) (\<lambda>ms.
     case ms of
       [] \<Rightarrow> await_window op polls
     | [m] \<Rightarrow>
         if \<not> match_is_exact_new op m
         then Inr (slot_unchanged True ''tagged probe target appeared with changed identity; reconcile'')
         else Inr \<lparr>px_changed = True, px_side_effect_possible = True, px_detail = ''single tagged LWS probe window opened'',
           px_binding = Some (binding_from_new_match op m now)\<rparr>
     | _ \<Rightarrow> Inr (slot_unchanged True ''multiple tagged probe windows appeared; stop and reconcile''))"

text \<open>
  The URL handed to Chrome, if the code reaches the launch, and the answer. \<open>launch\<close> is the class name of the
  exception that starting Chrome raises, if any.
\<close>

definition open_probe_authorized ::
  "probe_transport \<Rightarrow> probe_mutation_operation \<Rightarrow> string option \<Rightarrow> (timestamp \<times> found_windows result) list
     \<Rightarrow> string option \<times> probe_slot_execution result" where
  "open_probe_authorized x op launch polls =
     (if \<not> pt_enabled x then (None, Inl (ProbeWindowTransportDisabled ''normal-Chrome probe-window mutation transport is gated''))
      else case open_refusal x op of
        Some why \<Rightarrow> (None, Inr (slot_unchanged False why))
      | None \<Rightarrow> (Some (po_expected_actual_url op), case launch of
          Some exc \<Rightarrow> Inr (slot_unchanged False (''Chrome launch failed before a probe window was observed: '' @ exc))
        | None \<Rightarrow> await_window op polls))"

definition row_is_slot :: "json_object \<Rightarrow> probe_window_slot_binding \<Rightarrow> bool result" where
  "row_is_slot row s =
     rbind (json_int_or_zero row ''window_handle'') (\<lambda>h.
     if h \<noteq> sl_window_handle s then Inr False
     else rbind (json_int_or_zero row ''browser_pid'') (\<lambda>p.
     Inr (p = sl_browser_pid s
       \<and> casefold (json_string row ''chrome_executable'' []) = casefold (sl_chrome_executable s)
       \<and> rstrip_slash (json_string row ''actual_url'' []) = rstrip_slash (sl_actual_url s))))"

definition execute_slot_plan ::
  "probe_transport \<Rightarrow> probe_slot_plan \<Rightarrow> probe_window_slot_binding option \<Rightarrow> timestamp \<Rightarrow> probe_slot_execution result" where
  "execute_slot_plan x plan existing now =
     (if \<not> pt_enabled x then Inl (ProbeWindowTransportDisabled ''normal-Chrome probe-window mutation transport is gated'')
      else if \<not> pt_windows x then Inr (slot_unchanged False ''Windows UI Automation is unavailable'')
      else if pp_action plan = PSA_BLOCKED then Inr (slot_unchanged False (pp_reason plan))
      else if pp_action plan = PSA_REUSE then
        (case existing of None \<Rightarrow> Inr (slot_unchanged False ''reuse requires an existing slot'')
         | Some s \<Rightarrow> rbind (pt_find x (sl_actual_url s)) (\<lambda>f.
             rbind (if json_truthy (fw_count f) then json_int (fw_count f) else Inr 0) (\<lambda>n.
             if n \<noteq> 1 then Inr (slot_unchanged False ''fresh slot was not uniquely observable; reconcile before reuse'')
             else case fw_matches f of
               [] \<Rightarrow> Inl IndexError
             | row # _ \<Rightarrow> rbind (row_is_slot row s) (\<lambda>same.
                 Inr (if \<not> same then slot_unchanged False ''fresh slot identity changed; reconcile before reuse''
                      else (slot_unchanged False ''existing LWS probe window reused'')\<lparr>px_binding :=
                        Some (s\<lparr>sl_observed_at := now, sl_expires_at := now + pt_slot_ttl_s x\<rparr>)\<rparr>)))))
      else Inr (slot_unchanged False ''mutating probe plans require a durably ARMED operation and explicit close/open authority''))"

section \<open>From the plan to the window and back\<close>

lemma await_window_binding:
  "await_window op polls = Inr e \<Longrightarrow> px_binding e = Some b \<Longrightarrow> \<exists>m t. match_is_exact_new op m \<and> b = binding_from_new_match op m t"
proof (induction op polls rule: await_window.induct)
  case (2 op now found polls)
  then obtain ms where ms: "rbind found found_matches = Inr ms" by auto
  show ?case
  proof (cases ms rule: remdups_adj.cases)
    case 1
    with 2 ms show ?thesis by auto
  next
    case (2 m)
    with "2.prems" ms show ?thesis by (cases "match_is_exact_new op m") (fastforce simp: slot_unchanged_def)+
  next
    case (3 m m' ms')
    with "2.prems" ms show ?thesis by (auto simp: slot_unchanged_def)
  qed
qed (auto simp: slot_unchanged_def)

lemma open_probe_authorized_binding:
  assumes "open_probe_authorized x op launch polls = (u, Inr e)" and "px_binding e = Some b"
  shows "u = Some (po_expected_actual_url op) \<and> pt_enabled x \<and> po_state op = PS_OPEN_SUBMITTED
    \<and> (\<exists>m t. match_is_exact_new op m \<and> b = binding_from_new_match op m t)"
proof -
  have e: "pt_enabled x" "open_refusal x op = None" "u = Some (po_expected_actual_url op)" "await_window op polls = Inr e"
    using assms by (auto simp: open_probe_authorized_def slot_unchanged_def split: if_splits option.splits)
  from e(2) have "po_state op = PS_OPEN_SUBMITTED" by (simp add: open_refusal_def split: if_splits)
  with e await_window_binding [OF e(4) assms(2)] show ?thesis by blast
qed

lemma slot_plan_fields [simp]:
  "pp_slot_id (slot_plan i w k m r cs tk) = i" "pp_action (slot_plan i w k m r cs tk) = k" "pp_owner_token (slot_plan i w k m r cs tk) = tk"
  by (simp_all add: slot_plan_def)

lemma plan_probe_slot_fields:
  assumes "plan_probe_slot w existing slot_id now token = Inr plan"
  shows "pp_slot_id plan = slot_id" and "pp_action plan \<noteq> PSA_BLOCKED \<Longrightarrow> wk_status w = WS_PARKED"
  using assms by (auto simp: plan_probe_slot_def Let_def split: if_splits option.splits)

text \<open>A binding made for an operation that was built from a plan is recognised as the slot of its worker.\<close>

lemma planned_slot_recognised:
  assumes "plan_probe_slot w existing slot_id now token = Inr plan"
    and "probe_operation_from_plan w plan existing chrome t1 oid nonce fid fnonce ttl = Inr op"
    and "b = binding_from_new_match op m bound" and "bound \<le> t" and "t < sl_expires_at b"
  shows "\<exists>p. plan_probe_slot w (Some b) slot_id t token' = Inr p \<and> pp_action p = PSA_REUSE \<and> pp_owner_token p = Some (po_owner_token op)"
proof -
  have p: "pp_slot_id plan = slot_id" "wk_status w = WS_PARKED"
    using plan_probe_slot_fields [OF assms(1)] assms(2) by (auto simp: probe_operation_from_plan_def)
  obtain url identity where op: "tagged_probe_url (wk_conversation_url w) slot_id (po_owner_token op) = Inr url" "po_expected_actual_url op = url"
      "po_slot_id op = slot_id" "po_target_worker_id op = wk_worker_id w" "po_target_conversation_url op = wk_conversation_url w"
      "po_source op = PROBE_SLOT_SOURCE" "web_identity (wk_conversation_url w) = Inr (Some identity)"
    using assms(2) p(1) by (auto simp: probe_operation_from_plan_def tagged_probe_url_def)
  have b: "sl_slot_id b = slot_id" "sl_source b = PROBE_SLOT_SOURCE" "sl_target_worker_id b = wk_worker_id w" "sl_owner_token b = po_owner_token op"
      "sl_target_conversation_url b = wk_conversation_url w"
    using op assms(3) by (simp_all add: binding_from_new_match_def)
  have "slot_owns_actual_url b" using op assms(3) by (simp add: slot_owns_actual_url_def binding_from_new_match_def)
  moreover have "sl_is_fresh b t" using assms(3-5) by (auto simp: sl_is_fresh_def binding_from_new_match_def)
  ultimately show ?thesis
    using op(7) p(2) b by (cases identity) (simp add: plan_probe_slot_def existing_slot_checks_def same_slot_target_def Let_def)
qed

text \<open>Arming an OPEN operation and granting its authority append it to a journal that had nothing unresolved.\<close>

lemma tbl_update_appended:
  "tbl_find key (key r) rs = None \<Longrightarrow> tbl_update key (key r) f (rs @ [r]) = rs @ [f r]"
  unfolding tbl_update_def tbl_find_None_iff by (simp, intro map_idI) (auto simp: image_iff)

lemma transaction_Inr_iff: "transaction s r = (s', Inr x) \<longleftrightarrow> r = Inr (s', x)"
  by (auto simp: transaction_def split: sum.splits prod.splits)

lemma armed_open_granted:
  assumes "arm_probe_mutation_operation db op = (db1, Inr armed)" and "po_kind op = PK_OPEN"
    and "authorize_probe_open db1 (po_operation_id op) t = (db2, Inr opened)"
  shows "opened = op\<lparr>po_state := PS_OPEN_SUBMITTED, po_resume_state := None, po_updated_at := t\<rparr>"
    and "db2 = db\<lparr>db_probe_ops := db_probe_ops db @ [opened]\<rparr>"
    and "filter po_unresolved (db_probe_ops db) = []" and "db_slots db = []"
    and "tbl_find po_operation_id (po_operation_id op) (db_probe_ops db) = None"
proof -
  note a = assms(1) [unfolded arm_probe_mutation_operation_def transaction_Inr_iff]
  show free: "filter po_unresolved (db_probe_ops db) = []" and slots: "db_slots db = []"
    using a assms(2) by (auto simp: arm_slot_check_def split: list.splits)
  show new: "tbl_find po_operation_id (po_operation_id op) (db_probe_ops db) = None"
    using a by (auto simp: insert_probe_operation_def journal_insert_def split: if_splits)
  have db1: "db1 = db\<lparr>db_probe_ops := db_probe_ops db @ [op]\<rparr>"
    using a by (auto simp: insert_probe_operation_def journal_insert_def split: if_splits)
  have found: "tbl_find po_operation_id (po_operation_id op) (db_probe_ops db1) = Some op" using db1 new by (simp add: tbl_find_append)
  let ?g = "op\<lparr>po_state := PS_OPEN_SUBMITTED, po_resume_state := None, po_updated_at := t\<rparr>"
  have upd: "tbl_update po_operation_id (po_operation_id op) (\<lambda>_. ?g) (db_probe_ops db @ [op]) = db_probe_ops db @ [?g]"
    by (rule tbl_update_appended [where f = "\<lambda>_. ?g", OF new])
  note g = assms(3) [unfolded authorize_probe_open_def transaction_Inr_iff]
  show db2: "db2 = db\<lparr>db_probe_ops := db_probe_ops db @ [opened]\<rparr>" and "opened = ?g"
    using g found upd new db1
    by (auto simp: save_and_get_def save_probe_mutation_operation_def journal_update_def tbl_find_append split: if_splits)
qed

lemma opened_completes:
  assumes "db2 = db\<lparr>db_probe_ops := db_probe_ops db @ [op]\<rparr>" and "filter po_unresolved (db_probe_ops db) = []" and "db_slots db = []"
    and "tbl_find po_operation_id (po_operation_id op) (db_probe_ops db) = None" and "po_kind op = PK_OPEN" "po_state op = PS_OPEN_SUBMITTED"
    and "match_is_exact_new op m"
  shows "\<exists>db3 c. complete_probe_mutation_operation db2 (po_operation_id op) (Some (binding_from_new_match op m bound)) t None = (db3, Inr c)
    \<and> po_state c = PS_COMPLETED \<and> db_slots db3 = [binding_from_new_match op m bound] \<and> filter po_unresolved (db_probe_ops db3) = []"
proof -
  let ?b = "binding_from_new_match op m bound"
  let ?c = "op\<lparr>po_state := PS_COMPLETED, po_resume_state := None, po_updated_at := t, po_last_outcome := po_last_outcome op,
    po_reconcile_attempts := po_reconcile_attempts op + 0, po_last_reconcile_at := po_last_reconcile_at op, po_last_error := None\<rparr>"
  have v: "validate_probe_completion_binding op ?b = Inr ()"
    using assms(7) by (simp add: validate_probe_completion_binding_def binding_from_new_match_def match_is_exact_new_def)
  have found: "tbl_find po_operation_id (po_operation_id op) (db_probe_ops db2) = Some op" using assms(1,4) by (simp add: tbl_find_append)
  have settled: "\<not> po_unresolved ?c" "po_unresolved op"
    using assms(6) by (simp_all add: po_unresolved_def ps_pending_def UNRESOLVED_PROBE_MUTATION_STATES_def)
  have upd: "tbl_update po_operation_id (po_operation_id op) (\<lambda>_. ?c) (db_probe_ops db @ [op]) = db_probe_ops db @ [?c]"
    by (rule tbl_update_appended [where f = "\<lambda>_. ?c", OF assms(4)])
  have save: "save_probe_mutation_operation (db2\<lparr>db_slots := tbl_upsert sl_slot_id ?b (db_slots db2)\<rparr>) ?c
      = Inr (db\<lparr>db_probe_ops := db_probe_ops db @ [?c], db_slots := [?b]\<rparr>)"
    using found settled upd assms(1,3) by (simp add: save_probe_mutation_operation_def journal_update_def index_free_def tbl_upsert_def)
  have "sole_slot db2 = Inr None" using assms(1,3) by simp
  then have "complete_probe_mutation_locked db2 op (Some ?b) t None False = Inr (db\<lparr>db_probe_ops := db_probe_ops db @ [?c], db_slots := [?b]\<rparr>)"
    using save v assms(5) by (simp add: complete_probe_mutation_locked_def Let_def)
  moreover have "get_probe_mutation_operation (db\<lparr>db_probe_ops := db_probe_ops db @ [?c], db_slots := [?b]\<rparr>) (po_operation_id op) = Inr ?c"
    using assms(4) by (simp add: tbl_find_append)
  moreover have "get_probe_mutation_operation db2 (po_operation_id op) = Inr op" using found by simp
  ultimately show ?thesis
    using settled assms(2,5,6) unfolding complete_probe_mutation_operation_def
    by (simp add: get_probe_mutation_operation_def del: get_probe_Inr)
qed

text \<open>C37. A probe window goes round: when the plan of a worker without a slot became an operation that was armed and authorised in the
  registry, and Chrome was launched for it and one window with the expected identity appeared, then the registry accepts this
  window as the completion of the operation, it is the only slot and nothing is unresolved; and until its lease ends the plan of
  the same worker finds the window again and reuses it.\<close>

theorem opened_probe_window_found_again:
  assumes "plan_probe_slot w None slot_id t0 token = Inr plan"
    and "probe_operation_from_plan w plan None chrome t1 oid nonce fid fnonce ttl = Inr op"
    and "arm_probe_mutation_operation db op = (db1, Inr armed)"
    and "authorize_probe_open db1 (po_operation_id op) t2 = (db2, Inr opened)"
    and "open_probe_authorized x opened launch polls = (launched, Inr e)" and "px_binding e = Some b"
    and "sl_bound_at b \<le> t" and "t < sl_expires_at b"
  shows "launched = Some (po_expected_actual_url op)
    \<and> (\<exists>db3 c. complete_probe_mutation_operation db2 (po_operation_id op) (Some b) t3 None = (db3, Inr c) \<and> po_state c = PS_COMPLETED
        \<and> db_slots db3 = [b] \<and> filter po_unresolved (db_probe_ops db3) = [])
    \<and> (\<exists>p. plan_probe_slot w (Some b) slot_id t token' = Inr p \<and> pp_action p = PSA_REUSE \<and> pp_owner_token p = Some (po_owner_token op))"
proof -
  have kind: "po_kind op = PK_OPEN" using assms(2) by (auto simp: probe_operation_from_plan_def)
  note g = armed_open_granted [OF assms(3) kind assms(4)]
  obtain m bound where m: "match_is_exact_new opened m" "b = binding_from_new_match opened m bound"
    and u: "launched = Some (po_expected_actual_url opened)" "po_state opened = PS_OPEN_SUBMITTED"
    using open_probe_authorized_binding [OF assms(5,6)] by blast
  have b: "b = binding_from_new_match op m bound" using m(2) g(1) by (simp add: binding_from_new_match_def)
  have "tbl_find po_operation_id (po_operation_id opened) (db_probe_ops db) = None" "po_kind opened = PK_OPEN" using g(1,5) kind by simp_all
  note c = opened_completes [OF g(2,3,4) this u(2) m(1), of bound t3]
  have "bound \<le> t" using assms(7) b by (simp add: binding_from_new_match_def)
  note r = planned_slot_recognised [OF assms(1,2) b this assms(8), of token']
  show ?thesis using u(1) c r g(1) m(2) by auto
qed

definition demo_parked :: worker_record where
  "demo_parked = \<lparr>wk_worker_id = ''w1'', wk_task_id = ''t1'', wk_conversation_url = ''https://chatgpt.com/c/0123456789abcdef'',
     wk_conversation_id = None, wk_status = WS_PARKED, wk_started_at = 0, wk_last_seen_at = None, wk_ended_at = None\<rparr>"

definition demo_parked_registry :: registry where
  "demo_parked_registry = empty_registry\<lparr>
     db_tasks := [\<lparr>tr_task_id = ''t1'', tr_project = ''p'', tr_objective = ''o'', tr_cwd = ''c'', tr_state = ''QUEUED'',
       tr_lsm_session_id = None, tr_checkpoint = [], tr_current_worker_id = Some ''w1'', tr_recovery_attempts = 0,
       tr_max_recovery_attempts = 3, tr_created_at = 0, tr_updated_at = 0\<rparr>],
     db_workers := [\<lparr>wr_worker_id = ''w1'', wr_task_id = ''t1'', wr_conversation_url = ''https://chatgpt.com/c/0123456789abcdef'',
       wr_conversation_id = None, wr_status = ''parked'', wr_started_at = 0, wr_last_seen_at = None, wr_ended_at = None\<rparr>]\<rparr>"

definition demo_transport :: probe_transport where
  "demo_transport = new_probe_transport ''chrome'' True 120 True (\<lambda>_. Inl (RuntimeError [])) (\<lambda>_. Inl (RuntimeError []))"

definition demo_polls :: "string \<Rightarrow> (timestamp \<times> found_windows result) list" where
  "demo_polls url = [(12, Inr \<lparr>fw_count = JInt 0, fw_matches = []\<rparr>), (13, Inr \<lparr>fw_count = JInt 1, fw_matches =
     [[(''window_handle'', JInt 7), (''browser_pid'', JInt 9), (''chrome_executable'', JStr ''chrome''), (''actual_url'', JStr url)]]\<rparr>)]"

text \<open>The window appears at the second poll.\<close>

definition demo_cycle :: "(probe_slot_plan \<times> probe_mutation_operation \<times> (registry \<times> probe_mutation_operation) \<times> (registry \<times> probe_mutation_operation)
    \<times> string option \<times> probe_slot_execution) result" where
  "demo_cycle =
     rbind (plan_probe_slot demo_parked None DEFAULT_PROBE_SLOT_ID 10 ''tok'') (\<lambda>plan.
     rbind (probe_operation_from_plan demo_parked plan None ''chrome'' 10 None None ''1'' ''n1'' 120) (\<lambda>op.
     case arm_probe_mutation_operation demo_parked_registry op of (db1, r1) \<Rightarrow> rbind r1 (\<lambda>armed.
     case authorize_probe_open db1 (po_operation_id op) 11 of (db2, r2) \<Rightarrow> rbind r2 (\<lambda>opened.
     case open_probe_authorized demo_transport opened None (demo_polls (po_expected_actual_url op)) of (u, r3) \<Rightarrow> rbind r3 (\<lambda>e.
     Inr (plan, op, (db1, armed), (db2, opened), u, e))))))"

theorem opened_probe_window_found_again_witness:
  "\<exists>b p. sl_window_handle b = 7 \<and> plan_probe_slot demo_parked (Some b) DEFAULT_PROBE_SLOT_ID 100 ''tok2'' = Inr p \<and> pp_action p = PSA_REUSE"
proof -
  have "(case demo_cycle of Inr (plan, op, x, y, u, e) \<Rightarrow> (case px_binding e of Some b \<Rightarrow>
      sl_window_handle b = 7 \<and> sl_bound_at b \<le> 100 \<and> 100 < sl_expires_at b | None \<Rightarrow> False) | _ \<Rightarrow> False)" by code_simp
  then obtain plan op db1 armed db2 opened u e b where
    run: "demo_cycle = Inr (plan, op, (db1, armed), (db2, opened), u, e)" and b: "px_binding e = Some b" "sl_window_handle b = 7"
      "sl_bound_at b \<le> 100" "100 < sl_expires_at b"
    by (auto split: sum.splits prod.splits option.splits)
  have steps: "plan_probe_slot demo_parked None DEFAULT_PROBE_SLOT_ID 10 ''tok'' = Inr plan"
    "probe_operation_from_plan demo_parked plan None ''chrome'' 10 None None ''1'' ''n1'' 120 = Inr op"
    "arm_probe_mutation_operation demo_parked_registry op = (db1, Inr armed)"
    "authorize_probe_open db1 (po_operation_id op) 11 = (db2, Inr opened)"
    "open_probe_authorized demo_transport opened None (demo_polls (po_expected_actual_url op)) = (u, Inr e)"
    using run by (auto simp: demo_cycle_def split_beta prod_eq_iff)
  show ?thesis using opened_probe_window_found_again [OF steps b(1,3,4), where ?t3.0 = 14 and token' = "''tok2''"] b(2) by blast
qed

end
