(* ===== verification/Probe_Evidence.thy ===== *)
theory Probe_Evidence
  imports Probe_Safety Py_Text
begin

text \<open>
  Evidence that an operator hands in to reconcile a probe operation (\<^verbatim>\<open>probe_operator.py\<close>) and the command that applies it
  (\<^verbatim>\<open>probe-op-reconcile\<close> of \<^verbatim>\<open>cli.py\<close>). The parsed JSON document is the argument; reading the file is not modelled. A float of
  the document is a real number, or none when it is not finite; integers beyond the range of floats are not
  told apart from other times far in the future.
\<close>

section \<open>Documents\<close>

datatype evidence_value =
  EV_null | EV_bool bool | EV_int int | EV_float "real option" | EV_str string | EV_list "evidence_value list"
| EV_object "(string \<times> evidence_value) list"

definition MAX_MATCHES_PER_TARGET :: nat where
  "MAX_MATCHES_PER_TARGET = 8"

definition MAX_IDENTITY_TEXT :: nat where
  "MAX_IDENTITY_TEXT = 2048"

definition evidence_keys :: "string list" where
  "evidence_keys = [''complete'', ''new_matches'', ''observed_at'', ''old_matches'', ''operation_id'', ''owner_token'']"

definition match_keys :: "string list" where
  "match_keys = [''actual_url'', ''browser_pid'', ''chrome_executable'', ''window_handle'']"

definition classify_probe_operation :: "probe_mutation_operation option \<Rightarrow> string" where
  "classify_probe_operation x = (case x of
     None \<Rightarrow> ''NONE''
   | Some op \<Rightarrow> if po_state op = PS_COMPLETED then ''COMPLETED''
       else if po_state op = PS_RECONCILE_REQUIRED then ''BLOCKED''
       else if po_unresolved op then ''UNRESOLVED'' else ''TERMINAL'')"

definition bounded_text :: "evidence_value \<Rightarrow> string \<Rightarrow> string result" where
  "bounded_text v name = (case v of
     EV_str s \<Rightarrow> if s = [] then Inl (ProbeOperatorEvidenceError (name @ '' must be a non-empty string''))
       else if MAX_IDENTITY_TEXT < length s then Inl (ProbeOperatorEvidenceError (name @ '' exceeds the bounded identity length''))
       else Inr s
   | _ \<Rightarrow> Inl (ProbeOperatorEvidenceError (name @ '' must be a non-empty string'')))"

definition positive_int :: "evidence_value \<Rightarrow> string \<Rightarrow> int result" where
  "positive_int v name = (case v of
     EV_int i \<Rightarrow> if 0 < i then Inr i else Inl (ProbeOperatorEvidenceError (name @ '' must be a positive integer''))
   | _ \<Rightarrow> Inl (ProbeOperatorEvidenceError (name @ '' must be a positive integer'')))"

definition expected_old_url :: "probe_mutation_operation \<Rightarrow> string option" where
  "expected_old_url op = (case po_prior_slot op of None \<Rightarrow> None | Some s \<Rightarrow> if sl_actual_url s = [] then None else Some (sl_actual_url s))"

text \<open>The keys of a document must be the required ones; otherwise the message lists the missing and the extra ones.\<close>

definition key_check :: "string list \<Rightarrow> string list \<Rightarrow> string \<Rightarrow> unit result" where
  "key_check required keys message =
     (let missing = filter (\<lambda>k. k \<notin> set keys) required; extra = sort (filter (\<lambda>k. k \<notin> set required) keys);
          detail = (if missing = [] then [] else [''missing='' @ join '','' missing]) @ (if extra = [] then [] else [''extra='' @ join '','' extra]) in
      guard (set keys = set required)
        (ProbeOperatorEvidenceError (message @ (if detail = [] then [] else '' ('' @ join ''; '' detail @ '')''))))"

definition field :: "(string \<times> evidence_value) list \<Rightarrow> string \<Rightarrow> evidence_value" where
  "field obj k = (case map_of obj k of None \<Rightarrow> EV_null | Some v \<Rightarrow> v)"

definition parse_match :: "string \<Rightarrow> string option \<Rightarrow> evidence_value \<Rightarrow> probe_window_match result" where
  "parse_match name expected raw = (case raw of
     EV_object obj \<Rightarrow>
       rbind (key_check match_keys (map fst obj) (name @ '' match fields are invalid'')) (\<lambda>_.
       rbind (bounded_text (field obj ''actual_url'') (name @ ''.actual_url'')) (\<lambda>url.
       rbind (guard (expected \<noteq> None) (ProbeOperatorEvidenceError (name @ '' evidence is not valid for this operation''))) (\<lambda>_.
       rbind (guard (rstrip_slash url = rstrip_slash (the expected))
         (ProbeOperatorEvidenceError (name @ ''.actual_url does not match this operation''))) (\<lambda>_.
       rbind (positive_int (field obj ''window_handle'') (name @ ''.window_handle'')) (\<lambda>handle.
       rbind (positive_int (field obj ''browser_pid'') (name @ ''.browser_pid'')) (\<lambda>pid.
       rbind (bounded_text (field obj ''chrome_executable'') (name @ ''.chrome_executable'')) (\<lambda>chrome.
       Inr \<lparr>pm_window_handle = handle, pm_browser_pid = pid, pm_chrome_executable = chrome, pm_actual_url = url\<rparr>)))))))
   | _ \<Rightarrow> Inl (ProbeOperatorEvidenceError (name @ '' entries must be JSON objects'')))"

definition parse_match_list :: "string \<Rightarrow> string option \<Rightarrow> evidence_value \<Rightarrow> probe_window_match list result" where
  "parse_match_list name expected raw = (case raw of
     EV_list vs \<Rightarrow>
       rbind (guard (length vs \<le> MAX_MATCHES_PER_TARGET)
         (ProbeOperatorEvidenceError (name @ '' exceeds the maximum of '' @ str_int (int MAX_MATCHES_PER_TARGET) @ '' matches''))) (\<lambda>_.
       map_result (\<lambda>(i, v). parse_match (name @ ''['' @ str_int (int i) @ '']'') expected v) (enumerate 0 vs))
   | _ \<Rightarrow> Inl (ProbeOperatorEvidenceError (name @ '' must be a JSON array'')))"

definition observed_time :: "evidence_value \<Rightarrow> timestamp result" where
  "observed_time v = (case v of
     EV_int i \<Rightarrow> if 0 \<le> i then Inr (of_int i) else Inl (ProbeOperatorEvidenceError ''observed_at must be a finite non-negative number'')
   | EV_float (Some x) \<Rightarrow> if 0 \<le> x then Inr x else Inl (ProbeOperatorEvidenceError ''observed_at must be a finite non-negative number'')
   | _ \<Rightarrow> Inl (ProbeOperatorEvidenceError ''observed_at must be a finite non-negative number''))"

definition parse_probe_reconciliation_evidence ::
  "evidence_value \<Rightarrow> probe_mutation_operation \<Rightarrow> timestamp \<Rightarrow> probe_mutation_observation result" where
  "parse_probe_reconciliation_evidence payload op now = (case payload of
     EV_object obj \<Rightarrow>
       rbind (key_check evidence_keys (map fst obj) ''probe reconciliation evidence fields are invalid'') (\<lambda>_.
       rbind (bounded_text (field obj ''operation_id'') ''operation_id'') (\<lambda>operation_id.
       rbind (bounded_text (field obj ''owner_token'') ''owner_token'') (\<lambda>owner_token.
       rbind (guard (operation_id = po_operation_id op)
         (ProbeOperatorEvidenceError ''evidence operation_id does not match the requested operation'')) (\<lambda>_.
       rbind (guard (owner_token = po_owner_token op)
         (ProbeOperatorEvidenceError ''evidence owner_token does not match the durable operation'')) (\<lambda>_.
       rbind (observed_time (field obj ''observed_at'')) (\<lambda>seen.
       rbind (guard (po_updated_at op \<le> seen)
         (ProbeOperatorEvidenceError ''observed_at predates the operation's current durable state'')) (\<lambda>_.
       rbind (guard (seen \<le> now + 300) (ProbeOperatorEvidenceError ''observed_at is implausibly far in the future'')) (\<lambda>_.
       rbind (case field obj ''complete'' of EV_bool b \<Rightarrow> Inr b | _ \<Rightarrow> Inl (ProbeOperatorEvidenceError ''complete must be a boolean'')) (\<lambda>complete.
       rbind (parse_match_list ''old_matches'' (expected_old_url op) (field obj ''old_matches'')) (\<lambda>old.
       rbind (parse_match_list ''new_matches'' (if po_expected_actual_url op = [] then None else Some (po_expected_actual_url op))
         (field obj ''new_matches'')) (\<lambda>new.
       Inr \<lparr>pv_observed_at = seen, pv_old_matches = old, pv_new_matches = new, pv_complete = complete, pv_error = None\<rparr>)))))))))))
   | _ \<Rightarrow> Inl (ProbeOperatorEvidenceError ''probe reconciliation evidence must be a JSON object''))"

text \<open>The command: the operation before and after, unless it is terminal or the evidence is refused.\<close>

definition probe_op_reconcile ::
  "registry \<Rightarrow> string \<Rightarrow> evidence_value \<Rightarrow> timestamp \<Rightarrow> timestamp \<Rightarrow> registry \<times> probe_mutation_operation result" where
  "probe_op_reconcile db i payload parsed_at now =
     (case rbind (get_probe_mutation_operation db i) (\<lambda>op.
        rbind (guard (classify_probe_operation (Some op) \<notin> {''COMPLETED'', ''TERMINAL''})
          (ValueError (''probe operation '' @ po_operation_id op @ '' is terminal in state '' @ ps_value (po_state op)))) (\<lambda>_.
        parse_probe_reconciliation_evidence payload op parsed_at)) of
        Inl e \<Rightarrow> (db, Inl e)
      | Inr v \<Rightarrow> reconcile_probe_mutation_operation db i v now)"

section \<open>What accepted evidence is\<close>

lemma parse_match_accepted:
  "parse_match name expected v = Inr m \<Longrightarrow> 0 < pm_window_handle m \<and> 0 < pm_browser_pid m \<and> pm_chrome_executable m \<noteq> []
    \<and> (\<exists>url. expected = Some url \<and> rstrip_slash (pm_actual_url m) = rstrip_slash url)"
  by (auto simp: parse_match_def positive_int_def bounded_text_def split: evidence_value.splits if_splits)

lemma parse_match_list_accepted:
  assumes "parse_match_list name expected v = Inr ms"
  shows "length ms \<le> MAX_MATCHES_PER_TARGET" and "list_all (\<lambda>m. 0 < pm_window_handle m \<and> 0 < pm_browser_pid m
    \<and> (\<exists>url. expected = Some url \<and> rstrip_slash (pm_actual_url m) = rstrip_slash url)) ms"
proof -
  obtain vs where vs: "length vs \<le> MAX_MATCHES_PER_TARGET"
      "list_all2 (\<lambda>x m. parse_match (name @ ''['' @ str_int (int (fst x)) @ '']'') expected (snd x) = Inr m) (enumerate 0 vs) ms"
    using assms by (auto simp: parse_match_list_def map_result_Inr_iff split_beta split: evidence_value.splits)
  then show "length ms \<le> MAX_MATCHES_PER_TARGET" by (auto dest: list_all2_lengthD)
  have "0 < pm_window_handle m \<and> 0 < pm_browser_pid m \<and> (\<exists>url. expected = Some url \<and> rstrip_slash (pm_actual_url m) = rstrip_slash url)"
    if m: "m \<in> set ms" for m
  proof -
    obtain i where i: "i < length ms" "ms ! i = m" using m by (auto simp: in_set_conv_nth)
    from parse_match_accepted [OF list_all2_nthD2 [OF vs(2) i(1), unfolded i(2)]] show ?thesis by blast
  qed
  then show "list_all (\<lambda>m. 0 < pm_window_handle m \<and> 0 < pm_browser_pid m
    \<and> (\<exists>url. expected = Some url \<and> rstrip_slash (pm_actual_url m) = rstrip_slash url)) ms"
    by (simp add: list_all_iff)
qed

text \<open>Evidence is accepted only for the operation it names, not older than its durable state, with at most eight windows of the
  expected URL each.\<close>

lemma accepted_evidence:
  assumes "parse_probe_reconciliation_evidence payload op now = Inr v"
  shows "po_updated_at op \<le> pv_observed_at v" and "pv_observed_at v \<le> now + 300" and "pv_error v = None"
    and "length (pv_old_matches v) \<le> MAX_MATCHES_PER_TARGET" and "length (pv_new_matches v) \<le> MAX_MATCHES_PER_TARGET"
    and "po_prior_slot op = None \<Longrightarrow> pv_old_matches v = []" and "po_expected_actual_url op = [] \<Longrightarrow> pv_new_matches v = []"
proof -
  let ?new_url = "if po_expected_actual_url op = [] then None else Some (po_expected_actual_url op)"
  obtain old new x y where v: "po_updated_at op \<le> pv_observed_at v" "pv_observed_at v \<le> now + 300" "pv_error v = None"
      "pv_old_matches v = old" "pv_new_matches v = new" and raw: "parse_match_list ''old_matches'' (expected_old_url op) x = Inr old"
      "parse_match_list ''new_matches'' ?new_url y = Inr new"
    using assms by (auto simp: parse_probe_reconciliation_evidence_def simp del: if_split split: evidence_value.splits)
  note old = parse_match_list_accepted [OF raw(1)] and new = parse_match_list_accepted [OF raw(2)]
  show "po_updated_at op \<le> pv_observed_at v" and "pv_observed_at v \<le> now + 300" and "pv_error v = None"
    and "length (pv_old_matches v) \<le> MAX_MATCHES_PER_TARGET" and "length (pv_new_matches v) \<le> MAX_MATCHES_PER_TARGET"
    using v old(1) new(1) by auto
  show "pv_old_matches v = []" if "po_prior_slot op = None"
    using old(2) v(4) that by (cases old) (auto simp: expected_old_url_def)
  show "pv_new_matches v = []" if "po_expected_actual_url op = []"
    using new(2) v(5) that by (cases new) auto
qed

text \<open>A refused document leaves the registry as it is; the decision of an accepted one is trusted only when it does not lie in the future.\<close>

lemma probe_op_reconcile_refused:
  assumes "parse_probe_reconciliation_evidence payload op parsed_at = Inl e" and "get_probe_mutation_operation db i = Inr op"
  shows "\<exists>e. probe_op_reconcile db i payload parsed_at now = (db, Inl e)"
  using assms by (auto simp: probe_op_reconcile_def guard_def simp del: get_probe_Inr)

end
