(* ===== verification/Pool_Plan.thy ===== *)
theory Pool_Plan
  imports Py_Json Observations "HOL-Library.Product_Lexorder"
begin

text \<open>
  The plan of the browser pool (\<^verbatim>\<open>orchestrator.py\<close>) and the memory figures it reads (\<^verbatim>\<open>ram.py\<close>). The plan is advice: it
  classifies the page of each worker and ranks the pages that may be parked. The operating system's figures,
  the lines of \<^verbatim>\<open>/proc/meminfo\<close> and the rows of the process query are arguments.
\<close>

section \<open>Memory\<close>

record system_memory =
  sm_observed_at :: timestamp
  sm_total_bytes :: int
  sm_available_bytes :: int
  sm_used_bytes :: int
  sm_used_fraction :: real

record browser_memory =
  bm_observed_at :: timestamp
  bm_process_name :: string
  bm_process_count :: int
  bm_total_working_set_bytes :: int
  bm_largest_working_set_bytes :: int
  bm_window_process_count :: int
  bm_pids :: "int list"
  bm_error :: "string option"

text \<open>One line: the key before the first colon and, when digits follow, the number of kilobytes; a line whose rest is blank raises.\<close>

definition meminfo_line :: "string \<Rightarrow> (string \<times> int) option result" where
  "meminfo_line line =
     (let key = takeWhile (\<lambda>c. c \<noteq> CHR '':'') line; rest = drop 1 (dropWhile (\<lambda>c. c \<noteq> CHR '':'') line) in
      if rest = [] then Inr None
      else case split_ws rest of
        [] \<Rightarrow> Inl IndexError
      | number # _ \<Rightarrow>
          if \<not> list_all is_digit number then Inr None
          else rbind (json_int (JStr number)) (\<lambda>n. Inr (Some (key, n * 1024))))"

definition read_meminfo :: "string list \<Rightarrow> (string \<Rightarrow> int option) result" where
  "read_meminfo lines = rbind (map_result meminfo_line lines) (\<lambda>entries.
     Inr (fold (\<lambda>e m. case e of None \<Rightarrow> m | Some (k, n) \<Rightarrow> m(k \<mapsto> n)) entries Map.empty))"

definition meminfo_totals :: "string list \<Rightarrow> (int \<times> int) result" where
  "meminfo_totals lines = rbind (read_meminfo lines) (\<lambda>values.
     let total = (case values ''MemTotal'' of None \<Rightarrow> 0 | Some n \<Rightarrow> n);
         available = (case values ''MemAvailable'' of Some n \<Rightarrow> n | None \<Rightarrow> (case values ''MemFree'' of None \<Rightarrow> 0 | Some n \<Rightarrow> n)) in
     rbind (guard (0 < total) (MemoryProbeUnavailable ''/proc/meminfo did not expose MemTotal'')) (\<lambda>_.
     Inr (total, available)))"

definition system_memory_of :: "int \<times> int \<Rightarrow> timestamp \<Rightarrow> system_memory" where
  "system_memory_of totals now =
     (let total = fst totals; available = snd totals; used = max 0 (total - available) in
      \<lparr>sm_observed_at = now, sm_total_bytes = total, sm_available_bytes = available, sm_used_bytes = used,
       sm_used_fraction = (if total = 0 then 0 else of_int used / of_int total)\<rparr>)"

definition process_group :: "string \<Rightarrow> json_object list \<Rightarrow> timestamp \<Rightarrow> browser_memory result" where
  "process_group name rows now =
     rbind (map_result (\<lambda>r. json_int_or_zero r ''working_set'') rows) (\<lambda>sets.
     rbind (map_result (\<lambda>r. json_int (json_get r ''pid'')) (filter (\<lambda>r. json_get r ''pid'' \<noteq> JNull) rows)) (\<lambda>pids.
     let working_sets = map (max 0) sets in
     Inr \<lparr>bm_observed_at = now, bm_process_name = name, bm_process_count = int (length rows),
       bm_total_working_set_bytes = sum_list working_sets, bm_largest_working_set_bytes = fold max working_sets 0,
       bm_window_process_count = int (length (filter (\<lambda>r. json_flag r ''has_window'') rows)), bm_pids = sort pids, bm_error = None\<rparr>))"

section \<open>The page of one worker\<close>

datatype page_disposition = PD_KEEP_ACTIVE | PD_DO_NOT_CLOSE | PD_PARK_CANDIDATE | PD_NO_PAGE

record pool_policy =
  bpp_max_active_workers :: int
  bpp_max_probe_pages :: int
  bpp_min_available_bytes :: int
  bpp_high_memory_fraction :: real
  bpp_page_close_experiment_passed :: bool

definition default_pool_policy :: pool_policy where
  "default_pool_policy = \<lparr>bpp_max_active_workers = 4, bpp_max_probe_pages = 1, bpp_min_available_bytes = 1024 * 1024 * 1024,
     bpp_high_memory_fraction = 85 / 100, bpp_page_close_experiment_passed = False\<rparr>"

record pool_item =
  pi_task_id :: string
  pi_worker_id :: "string option"
  pi_task_state :: string
  pi_worker_status :: "string option"
  pi_disposition :: page_disposition
  pi_reason :: string
  pi_close_allowed :: bool
  pi_browser_pid :: "int option"
  pi_working_set_bytes :: "int option"
  pi_lsm_in_flight_calls :: int
  pi_lsm_active_jobs :: int
  pi_lsm_continuation_pending :: bool
  pi_browser_generating :: "bool option"

definition live_lsm :: "lsm_observation option \<Rightarrow> bool" where
  "live_lsm lsm = (case lsm of None \<Rightarrow> False
     | Some l \<Rightarrow> 0 < lo_in_flight_calls l \<or> 0 < lo_active_jobs l \<or> lo_continuation_pending l = Some True)"

text \<open>\<^verbatim>\<open>int(raw[k])\<close>, where a value that is missing or not a number is none.\<close>

definition raw_int :: "browser_observation option \<Rightarrow> string \<Rightarrow> int option" where
  "raw_int browser k = (case browser of None \<Rightarrow> None
     | Some b \<Rightarrow> if json_get (bo_raw b) k = JNull then None
         else (case json_int (json_get (bo_raw b) k) of Inl _ \<Rightarrow> None | Inr n \<Rightarrow> Some n))"

definition observed_states :: "supervisor_state set" where
  "observed_states = {SS_STARTING, SS_RUNNING, SS_RECOVERING, SS_RECONCILING, SS_SUSPECT, SS_NEEDS_HUMAN}"

definition park_reason :: "supervisor_state \<Rightarrow> string" where
  "park_reason s = (if s = SS_COMPLETED then ''task is durably complete'' else if s = SS_ABANDONED then ''task is abandoned/cancelled''
     else if s = SS_QUEUED then ''task is queued with no live execution evidence''
     else if s = SS_BLOCKED then ''task is blocked with no live LSM work'' else ''task has no live execution evidence'')"

definition classify_worker_for_pool ::
  "pool_policy \<Rightarrow> task_record \<times> worker_record option \<times> browser_observation option \<times> lsm_observation option \<Rightarrow> pool_item" where
  "classify_worker_for_pool policy row =
     (case row of (task, worker, browser, lsm) \<Rightarrow>
      case worker of
        None \<Rightarrow> \<lparr>pi_task_id = tk_task_id task, pi_worker_id = None, pi_task_state = ss_value (tk_state task), pi_worker_status = None,
          pi_disposition = PD_NO_PAGE, pi_reason = ''task has no registered conversation worker'', pi_close_allowed = False,
          pi_browser_pid = None, pi_working_set_bytes = None, pi_lsm_in_flight_calls = 0, pi_lsm_active_jobs = 0,
          pi_lsm_continuation_pending = False, pi_browser_generating = None\<rparr>
      | Some w \<Rightarrow>
          let generating = Option.bind browser bo_generating;
              item = (\<lambda>disposition reason allowed.
                \<lparr>pi_task_id = tk_task_id task, pi_worker_id = Some (wk_worker_id w), pi_task_state = ss_value (tk_state task),
                 pi_worker_status = Some (ws_value (wk_status w)), pi_disposition = disposition, pi_reason = reason, pi_close_allowed = allowed,
                 pi_browser_pid = raw_int browser ''browser_pid'', pi_working_set_bytes = raw_int browser ''process_working_set_bytes'',
                 pi_lsm_in_flight_calls = (case lsm of None \<Rightarrow> 0 | Some l \<Rightarrow> lo_in_flight_calls l),
                 pi_lsm_active_jobs = (case lsm of None \<Rightarrow> 0 | Some l \<Rightarrow> lo_active_jobs l),
                 pi_lsm_continuation_pending = (case lsm of None \<Rightarrow> False | Some l \<Rightarrow> lo_continuation_pending l = Some True),
                 pi_browser_generating = generating\<rparr>) in
          if wk_status w \<in> {WS_PARKED, WS_SUPERSEDED, WS_DEAD}
          then item PD_NO_PAGE (''worker status '' @ ws_value (wk_status w) @ '' is not an active page lease'') False
          else if live_lsm lsm then item PD_DO_NOT_CLOSE ''durable LSM work/continuation is active'' False
          else if generating = Some True then item PD_DO_NOT_CLOSE ''browser reports active generation'' False
          else if tk_state task \<in> observed_states
          then item PD_DO_NOT_CLOSE (''task state '' @ ss_value (tk_state task) @ '' requires observation or may still be live'') False
          else item PD_PARK_CANDIDATE (park_reason (tk_state task)) (bpp_page_close_experiment_passed policy))"

section \<open>The plan\<close>

record pool_plan =
  pl_observed_at :: timestamp
  pl_policy :: pool_policy
  pl_memory_pressure :: string
  pl_system_memory :: "system_memory option"
  pl_browser_memory :: "browser_memory option"
  pl_active_worker_count :: int
  pl_pinned_worker_count :: int
  pl_park_candidate_count :: int
  pl_items :: "pool_item list"
  pl_recommendations :: "string list"
  pl_warnings :: "string list"

definition memory_pressure :: "pool_policy \<Rightarrow> system_memory option \<Rightarrow> string" where
  "memory_pressure policy sm = (case sm of None \<Rightarrow> ''unknown''
     | Some m \<Rightarrow> if bpp_high_memory_fraction policy \<le> sm_used_fraction m \<or> sm_available_bytes m \<le> bpp_min_available_bytes policy
         then ''high'' else ''normal'')"

definition park_rank :: "string \<Rightarrow> int" where
  "park_rank s = (if s = ss_value SS_COMPLETED then 0 else if s = ss_value SS_ABANDONED then 1 else if s = ss_value SS_QUEUED then 2
     else if s = ss_value SS_BLOCKED then 3 else 99)"

definition pool_key :: "pool_item \<Rightarrow> int \<times> int \<times> string" where
  "pool_key i = (if pi_disposition i = PD_PARK_CANDIDATE then 0 else 1, park_rank (pi_task_state i), pi_task_id i)"

definition plan_browser_pool ::
  "(task_record \<times> worker_record option \<times> browser_observation option \<times> lsm_observation option) list \<Rightarrow> system_memory option
     \<Rightarrow> browser_memory option \<Rightarrow> pool_policy \<Rightarrow> timestamp \<Rightarrow> pool_plan" where
  "plan_browser_pool rows sm bm policy now =
     (let items = map (classify_worker_for_pool policy) rows;
          count = (\<lambda>P. int (length (filter P items)));
          live = count (\<lambda>i. pi_disposition i \<noteq> PD_NO_PAGE); pinned = count (\<lambda>i. pi_disposition i = PD_DO_NOT_CLOSE);
          candidates = count (\<lambda>i. pi_disposition i = PD_PARK_CANDIDATE);
          pressure = memory_pressure policy sm;
          target = str_int (bpp_max_active_workers policy) in
      \<lparr>pl_observed_at = now, pl_policy = policy, pl_memory_pressure = pressure, pl_system_memory = sm, pl_browser_memory = bm,
       pl_active_worker_count = live, pl_pinned_worker_count = pinned, pl_park_candidate_count = candidates,
       pl_items = sort_key pool_key items,
       pl_recommendations =
         when_blocked (pressure = ''high'') ''memory pressure is high; prioritize parking terminal/queued/blocked candidates''
         @ when_blocked (bpp_max_active_workers policy < live)
             (''registered worker count '' @ str_int live @ '' exceeds active-worker target '' @ target)
         @ when_blocked (0 < candidates \<and> \<not> bpp_page_close_experiment_passed policy)
             ''park candidates exist, but actual page-close dispatch is disabled until a dedicated web chat close/reopen experiment proves it safe'',
       pl_warnings =
         (case Option.bind bm bm_error of None \<Rightarrow> [] | Some e \<Rightarrow> when_blocked (e \<noteq> []) (''browser memory probe: '' @ e))
         @ when_blocked (bpp_max_active_workers policy < pinned)
             ''pinned live/ambiguous workers alone exceed the configured active-worker target; do not close them automatically''
         @ when_blocked (candidates = 0 \<and> pressure = ''high'')
             ''memory pressure is high but no worker is conservatively parkable; preserve task safety and surface the pressure rather than closing live pages''\<rparr>)"

section \<open>What the plan allows\<close>

text \<open>A page may be closed only when the experiment was passed, nothing runs in its session, the browser does not generate
  and its task is finished, abandoned, queued or blocked.\<close>

lemma classify_close_allowed:
  assumes "pi_close_allowed (classify_worker_for_pool policy (task, worker, browser, lsm))"
  shows "bpp_page_close_experiment_passed policy" and "\<exists>w. worker = Some w \<and> wk_status w \<notin> {WS_PARKED, WS_SUPERSEDED, WS_DEAD}"
    and "\<not> live_lsm lsm" and "Option.bind browser bo_generating \<noteq> Some True"
    and "tk_state task \<in> {SS_COMPLETED, SS_ABANDONED, SS_QUEUED, SS_BLOCKED}"
proof -
  obtain w where w: "worker = Some w" using assms by (cases worker) (auto simp: classify_worker_for_pool_def)
  have r: "wk_status w \<notin> {WS_PARKED, WS_SUPERSEDED, WS_DEAD}" "\<not> live_lsm lsm" "Option.bind browser bo_generating \<noteq> Some True"
      "tk_state task \<notin> observed_states" "bpp_page_close_experiment_passed policy"
    using assms w by (auto simp: classify_worker_for_pool_def Let_def split: if_splits)
  show "tk_state task \<in> {SS_COMPLETED, SS_ABANDONED, SS_QUEUED, SS_BLOCKED}"
    using r(4) by (cases "tk_state task") (auto simp: observed_states_def)
  show "bpp_page_close_experiment_passed policy" and "\<not> live_lsm lsm" and "Option.bind browser bo_generating \<noteq> Some True"
    and "\<exists>w. worker = Some w \<and> wk_status w \<notin> {WS_PARKED, WS_SUPERSEDED, WS_DEAD}"
    using r w by auto
qed

text \<open>The items of a plan are the classified rows, candidates first.\<close>

lemma plan_browser_pool_items:
  "mset (pl_items (plan_browser_pool rows sm bm policy now)) = mset (map (classify_worker_for_pool policy) rows)"
  "sorted (map pool_key (pl_items (plan_browser_pool rows sm bm policy now)))"
  by (simp_all add: plan_browser_pool_def Let_def)

lemma system_memory_bounds:
  assumes "meminfo_totals lines = Inr totals"
  shows "sm_used_fraction (system_memory_of totals now) \<ge> 0" and "snd totals \<ge> 0 \<Longrightarrow> sm_used_fraction (system_memory_of totals now) \<le> 1"
proof -
  have "0 < fst totals" using assms by (auto simp: meminfo_totals_def Let_def)
  then show "sm_used_fraction (system_memory_of totals now) \<ge> 0" and "snd totals \<ge> 0 \<Longrightarrow> sm_used_fraction (system_memory_of totals now) \<le> 1"
    by (simp_all add: system_memory_of_def Let_def)
qed

end
