(* ===== verification/Local_State.thy ===== *)
theory Local_State
  imports Models Py_Text Probe_Ops
begin

text \<open>
  What the supervisor reads from the local machine: the session and job files of Local Shell (\<^verbatim>\<open>lsm.py\<close>), the Git state
  of a working directory (\<^verbatim>\<open>workspace.py\<close>) and the place of its own registry (\<^verbatim>\<open>runtime_state.py\<close>). The parsed files, the
  answers of Git, the existence of files and the platform's rendering of paths are arguments.
\<close>

section \<open>Local Shell telemetry\<close>

record lsm_plan =
  sp_status :: "string option"
  sp_last_agent_activity :: "timestamp option"
  sp_execution_lease_s :: "real option"
  sp_continuation_pending :: bool
  sp_steps :: "string list"

record lsm_lease =
  ll_heartbeat_at :: "timestamp option"
  ll_started_at :: "timestamp option"

record lsm_session =
  ss_version :: "int option"
  ss_session_id :: "string option"
  ss_status :: "string option"
  ss_active_run_id :: "string option"
  ss_plan :: "lsm_plan option"
  ss_activity :: "(string option \<times> timestamp option) list"
  ss_in_flight :: "lsm_lease list"

record lsm_job =
  sj_job_id :: string
  sj_status :: string
  sj_status_path :: "string option"
  sj_pending_status_path :: "string option"
  sj_updated_at :: "timestamp option"
  sj_from_attempt :: bool

definition IN_FLIGHT_LEASE_S :: real where
  "IN_FLIGHT_LEASE_S = 2 * 60 * 60"

definition ACTIVE_JOB_STATES :: "string set" where
  "ACTIVE_JOB_STATES = {''starting'', ''running'', ''stopping'', ''retrying''}"

definition FAILED_JOB_STATES :: "string set" where
  "FAILED_JOB_STATES = {''failed'', ''lost''}"

definition session_payload :: "lsm_session \<Rightarrow> lsm_session result" where
  "session_payload s = rbind (guard (ss_version s = Some 1)
     (UnsupportedLsmState (''unsupported LSM session-state version '' @ (case ss_version s of None \<Rightarrow> ''None'' | Some v \<Rightarrow> str_int v)
        @ ''; expected 1''))) (\<lambda>_. Inr s)"

text \<open>The end of an attempt: its exit code and the time of completion. \<open>read\<close> gives it for a path of a status file that
  holds an exit code.\<close>

definition effective_job :: "(string \<Rightarrow> (int \<times> timestamp option) option) \<Rightarrow> lsm_job \<Rightarrow> lsm_job" where
  "effective_job read j =
     (if sj_status j \<notin> ACTIVE_JOB_STATES then j
      else let path = (if sj_status j = ''retrying'' then sj_pending_status_path j else sj_status_path j) in
        if \<not> present path \<or> starts_with ''state://'' (the path) then j
        else case read (the path) of
          None \<Rightarrow> j
        | Some (exit_code, completed_at) \<Rightarrow>
            j\<lparr>sj_status := (if exit_code = 0 then ''succeeded'' else ''failed''),
              sj_updated_at := (case completed_at of Some t \<Rightarrow> if t = 0 then sj_updated_at j else Some t | None \<Rightarrow> sj_updated_at j),
              sj_from_attempt := True\<rparr>)"

text \<open>A job store with the cache of the last one read: the key is the time and size of the file, none when they cannot be read.\<close>

type_synonym job_cache = "((int \<times> int) \<times> lsm_job list) option"

definition jobs_payload :: "job_cache \<Rightarrow> bool \<Rightarrow> (int \<times> int) option \<Rightarrow> lsm_job list result \<Rightarrow> job_cache \<times> lsm_job list result" where
  "jobs_payload cache found key read =
     (if \<not> found then (cache, Inr [])
      else case (key, cache) of
        (Some k, Some (k', jobs)) \<Rightarrow> if k = k' then (cache, Inr jobs)
          else (case read of Inl e \<Rightarrow> (cache, Inl e) | Inr js \<Rightarrow> (Some (k, js), Inr js))
      | (Some k, None) \<Rightarrow> (case read of Inl e \<Rightarrow> (cache, Inl e) | Inr js \<Rightarrow> (Some (k, js), Inr js))
      | (None, _) \<Rightarrow> (cache, read))"

definition heartbeat_of :: "lsm_lease \<Rightarrow> timestamp" where
  "heartbeat_of l = (case ll_heartbeat_at l of
     Some h \<Rightarrow> if h \<noteq> 0 then h else (case ll_started_at l of None \<Rightarrow> 0 | Some t \<Rightarrow> t)
   | None \<Rightarrow> (case ll_started_at l of None \<Rightarrow> 0 | Some t \<Rightarrow> t))"

definition live_heartbeats :: "lsm_session \<Rightarrow> timestamp \<Rightarrow> timestamp list" where
  "live_heartbeats s now = filter (\<lambda>h. h \<noteq> 0 \<and> now - h < IN_FLIGHT_LEASE_S) (map heartbeat_of (ss_in_flight s))"

text \<open>\<^verbatim>\<open>jobs_by_id\<close> keeps the last row of an identifier.\<close>

definition tracked_rows :: "lsm_job list \<Rightarrow> string list \<Rightarrow> lsm_job list" where
  "tracked_rows jobs ids = map the (filter (\<lambda>x. x \<noteq> None)
     (map (\<lambda>i. find (\<lambda>j. sj_job_id j = i) (rev (filter (\<lambda>j. sj_job_id j \<noteq> []) jobs))) ids))"

definition continuation_due :: "lsm_plan option \<Rightarrow> timestamp \<Rightarrow> bool option" where
  "continuation_due plan now = (case plan of None \<Rightarrow> None
     | Some p \<Rightarrow> (case sp_last_agent_activity p of None \<Rightarrow> None
         | Some t \<Rightarrow> if sp_status p \<noteq> Some ''active'' then None
             else Some (t + (case sp_execution_lease_s p of None \<Rightarrow> 900 | Some x \<Rightarrow> if x = 0 then 900 else x) \<le> now)))"

definition lsm_observe ::
  "(lsm_session \<Rightarrow> lsm_job list \<Rightarrow> json_object) \<Rightarrow> (string \<Rightarrow> (int \<times> timestamp option) option) \<Rightarrow> string \<Rightarrow> lsm_session
     \<Rightarrow> lsm_job list \<Rightarrow> string list \<Rightarrow> timestamp \<Rightarrow> lsm_observation result" where
  "lsm_observe raw read task_id session jobs ids now =
     rbind (session_payload session) (\<lambda>s.
     let beats = live_heartbeats s now; tracked = tracked_rows (map (effective_job read) jobs) ids;
         count = (\<lambda>P. int (length (filter (\<lambda>j. P (sj_status j)) tracked)));
         recent = (if ss_activity s = [] then (None, None) else last (ss_activity s));
         steps = (case ss_plan s of None \<Rightarrow> [] | Some p \<Rightarrow> sp_steps p) in
     Inr \<lparr>lo_task_id = task_id, lo_observed_at = now, lo_session_id = ss_session_id s, lo_session_status = ss_status s,
       lo_active_run_id = ss_active_run_id s, lo_plan_status = Option.bind (ss_plan s) sp_status,
       lo_plan_last_agent_activity = Option.bind (ss_plan s) sp_last_agent_activity,
       lo_continuation_due = continuation_due (ss_plan s) now,
       lo_continuation_pending = map_option sp_continuation_pending (ss_plan s),
       lo_in_flight_calls = int (length beats),
       lo_freshest_in_flight_heartbeat = (case beats of [] \<Rightarrow> None | b # bs \<Rightarrow> Some (fold max bs b)),
       lo_active_jobs = count (\<lambda>x. x \<in> ACTIVE_JOB_STATES), lo_failed_jobs = count (\<lambda>x. x \<in> FAILED_JOB_STATES),
       lo_succeeded_jobs = count (\<lambda>x. x = ''succeeded''), lo_recent_event_type = fst recent, lo_recent_event_at = snd recent,
       lo_completed_steps = Some (int (length (filter (\<lambda>x. x \<in> {''completed'', ''skipped''}) steps))),
       lo_total_steps = Some (int (length steps)), lo_raw = raw s tracked\<rparr>)"

section \<open>The working directory\<close>

text \<open>A run of Git: its exit code, output and error output, or the class name and text of the exception.\<close>

datatype git_run = GIT_EXIT int string string | GIT_FAILED string string

definition workspace_row :: "string \<Rightarrow> timestamp \<Rightarrow> string \<Rightarrow> bool \<Rightarrow> bool option \<Rightarrow> string option \<Rightarrow> workspace_observation" where
  "workspace_row task_id now cwd present_dir is_repo failure = \<lparr>wo_task_id = task_id, wo_observed_at = now, wo_cwd = cwd,
     wo_cwd_exists = present_dir, wo_is_git_repo = is_repo, wo_git_root = None, wo_git_head = None, wo_git_branch = None,
     wo_git_dirty = None, wo_git_status_hash = None, wo_git_status_entries = [], wo_error = failure, wo_raw = []\<rparr>"

definition git_line :: "git_run \<Rightarrow> string option" where
  "git_line r = (case r of GIT_EXIT rc out err \<Rightarrow> if rc = 0 then Some (strip out) else None | GIT_FAILED _ _ \<Rightarrow> None)"

definition stderr_or :: "string \<Rightarrow> string \<Rightarrow> string" where
  "stderr_or err text = (if strip err = [] then text else strip err)"

text \<open>The part after the repository was found: head, branch and status. \<open>lines\<close> is \<^verbatim>\<open>str.splitlines\<close>.\<close>

definition observe_status ::
  "(string \<Rightarrow> string) \<Rightarrow> (string \<Rightarrow> string list) \<Rightarrow> nat \<Rightarrow> (string list \<Rightarrow> git_run) \<Rightarrow> string \<Rightarrow> workspace_observation \<Rightarrow> workspace_observation" where
  "observe_status sha256 lines limit git git_top row =
     (let head = git_line (git [''rev-parse'', ''--verify'', ''HEAD'']); branch = git_line (git [''branch'', ''--show-current'']);
          found = row\<lparr>wo_is_git_repo := Some True, wo_git_root := Some git_top, wo_git_head := head\<rparr> in
      case git [''status'', ''--porcelain=v1'', ''--untracked-files=normal''] of
        GIT_FAILED name text \<Rightarrow> found\<lparr>wo_error := Some (''git status failed: '' @ name @ '': '' @ text)\<rparr>
      | GIT_EXIT rc out err \<Rightarrow>
          if rc \<noteq> 0 then found\<lparr>wo_error := Some (stderr_or err (''git status exited '' @ str_int rc))\<rparr>
          else let entries = filter (\<lambda>l. l \<noteq> []) (lines out) in
            found\<lparr>wo_git_branch := branch, wo_git_dirty := Some (entries \<noteq> []), wo_git_status_hash := Some (sha256 out),
              wo_git_status_entries := take limit entries, wo_raw := [(''git_status_truncated'', JBool (limit < length entries))]\<rparr>)"

definition workspace_observe ::
  "(string \<Rightarrow> string) \<Rightarrow> (string \<Rightarrow> string list) \<Rightarrow> nat \<Rightarrow> string option \<Rightarrow> bool \<Rightarrow> (string \<Rightarrow> string list \<Rightarrow> git_run) \<Rightarrow> string \<Rightarrow> string
     \<Rightarrow> timestamp \<Rightarrow> workspace_observation" where
  "workspace_observe sha256 lines max_entries git_bin found git task_id path now =
     (let row = workspace_row task_id now path in
      if \<not> found then row False None (Some ''working directory does not exist'')
      else if \<not> present git_bin then row True None (Some ''git executable not found'')
      else case git path [''rev-parse'', ''--show-toplevel''] of
        GIT_FAILED name text \<Rightarrow> row True None (Some (''git probe failed: '' @ name @ '': '' @ text))
      | GIT_EXIT rc out err \<Rightarrow>
          if rc \<noteq> 0
          then (if contains ''not a git repository'' (lower (strip err)) then row True (Some False) None
                else row True None (Some (stderr_or err (''git rev-parse exited '' @ str_int rc))))
          else let roots = filter (\<lambda>l. l \<noteq> []) (map strip (lines out)); git_top = (if roots = [] then path else hd roots) in
            observe_status sha256 lines (max 1 max_entries) (git git_top) git_top (row True (Some True) None))"

section \<open>The place of the registry\<close>

definition env_text :: "(string \<Rightarrow> string option) \<Rightarrow> string \<Rightarrow> string" where
  "env_text env k = strip (case env k of None \<Rightarrow> [] | Some s \<Rightarrow> s)"

text \<open>\<open>expand\<close> is \<^verbatim>\<open>Path(...).expanduser()\<close>, \<open>sub\<close> appends a part to a path.\<close>

definition durable_state_dir ::
  "(string \<Rightarrow> 'p) \<Rightarrow> (string \<Rightarrow> 'p) \<Rightarrow> ('p \<Rightarrow> string \<Rightarrow> 'p) \<Rightarrow> (string \<Rightarrow> string option) \<Rightarrow> string \<Rightarrow> 'p \<Rightarrow> 'p" where
  "durable_state_dir expand path sub env platform home =
     (if env_text env ''LWS_STATE_HOME'' \<noteq> [] then expand (env_text env ''LWS_STATE_HOME'')
      else if platform = ''nt''
      then sub (if env_text env ''LOCALAPPDATA'' \<noteq> [] then path (env_text env ''LOCALAPPDATA'') else sub (sub home ''AppData'') ''Local'')
        ''LocalShellWebSupervisor''
      else sub (if env_text env ''XDG_STATE_HOME'' \<noteq> [] then path (env_text env ''XDG_STATE_HOME'') else sub (sub home ''.local'') ''state'')
        ''localshell-web-supervisor'')"

text \<open>The largest expiry of the leases in a registry file: \<open>Inl\<close> when the file cannot be read, \<open>Inr None\<close> without a lease.\<close>

definition legacy_fresh_watchdog_lease :: "unit + timestamp option \<Rightarrow> timestamp \<Rightarrow> bool option" where
  "legacy_fresh_watchdog_lease answer now = (case answer of Inl _ \<Rightarrow> None
     | Inr None \<Rightarrow> Some False | Inr (Some t) \<Rightarrow> Some (now < t))"

datatype registry_choice = RC_EXPLICIT string | RC_DURABLE | RC_LEGACY

text \<open>\<open>migrated\<close> is the answer of the copy of the legacy file, which is made only when the choice reaches it.\<close>

definition resolve_default_registry_path ::
  "(string \<Rightarrow> string option) \<Rightarrow> bool \<Rightarrow> bool \<Rightarrow> unit + timestamp option \<Rightarrow> timestamp \<Rightarrow> bool \<Rightarrow> registry_choice" where
  "resolve_default_registry_path env durable_exists legacy_exists lease now migrated =
     (if env_text env ''LWS_DB'' \<noteq> [] then RC_EXPLICIT (env_text env ''LWS_DB'')
      else if durable_exists then RC_DURABLE
      else if \<not> legacy_exists then RC_DURABLE
      else if legacy_fresh_watchdog_lease lease now \<noteq> Some False then RC_LEGACY
      else if migrated then RC_DURABLE else RC_LEGACY)"

section \<open>What the readings say\<close>

text \<open>A store that is read through the cache answers like the file, as long as equal keys mean equal contents.\<close>

lemma jobs_payload_fresh:
  assumes "\<And>k jobs. cache = Some (k, jobs) \<Longrightarrow> key = Some k \<Longrightarrow> read = Inr jobs"
  shows "snd (jobs_payload cache found key read) = (if found then read else Inr [])"
    and "fst (jobs_payload cache found key read) = Some (k, jobs) \<Longrightarrow> key = Some k \<Longrightarrow> found \<Longrightarrow> read = Inr jobs"
  using assms by (auto simp: jobs_payload_def split: option.splits sum.splits if_splits)

text \<open>A status file only ends a job that was active, and never starts one.\<close>

lemma effective_job_status:
  "sj_status (effective_job read j) = sj_status j \<or> sj_status j \<in> ACTIVE_JOB_STATES
    \<and> sj_status (effective_job read j) \<in> {''succeeded'', ''failed''}"
  by (auto simp: effective_job_def Let_def split: option.splits prod.splits)

text \<open>Without an error the working directory exists, and a repository is dirty exactly when Git lists an entry.\<close>

lemma workspace_observe_clean:
  assumes "wo_error (workspace_observe sha256 lines n git_bin found git t path now) = None"
  shows "wo_cwd_exists (workspace_observe sha256 lines n git_bin found git t path now)"
    and "wo_is_git_repo (workspace_observe sha256 lines n git_bin found git t path now) = Some True \<Longrightarrow>
      wo_git_dirty (workspace_observe sha256 lines n git_bin found git t path now)
        = Some (wo_git_status_entries (workspace_observe sha256 lines n git_bin found git t path now) \<noteq> [])"
  using assms
  by (auto simp: workspace_observe_def observe_status_def workspace_row_def Let_def split: if_splits git_run.splits)

text \<open>Without an explicit choice the legacy registry is left only for a durable one that exists, or by a copy made while
  no lease was running; an unreadable lease table keeps it.\<close>

lemma legacy_registry_kept:
  assumes "legacy_exists" and "\<not> durable_exists" and "resolve_default_registry_path env durable_exists legacy_exists lease now migrated = RC_DURABLE"
  shows "migrated \<and> (\<exists>t. lease = Inr t \<and> (t = None \<or> the t \<le> now))"
  using assms by (auto simp: resolve_default_registry_path_def legacy_fresh_watchdog_lease_def split: if_splits sum.splits option.splits)

end
