(* ===== verification/Watch_Cycle.thy ===== *)
theory Watch_Cycle
  imports Recovery_Runtime Scheduler Watchdog Child_Urls "HOL-Library.Product_Lexorder"
begin

text \<open>
  One round of the resident supervisor, the command \<^verbatim>\<open>watch\<close> of \<^verbatim>\<open>cli.py\<close>: the scan that assesses every task and queues those that
  need attention, the nudge of conversations that ran too long, and the recovery from visible delivery errors.
  What lies outside of the registry is an environment: the telemetry, the accessibility probe, the helper that types
  into a window, the clock and the fresh identifiers. Every task is handled in an environment of its own, in which
  the clock stands still. An exception ends the round; what was written and handed to a transport before is kept.
\<close>

section \<open>The environment\<close>

record watch_env =
  we_now :: timestamp
  we_lease :: "(string \<times> real) option"
  we_lsm :: "(string \<Rightarrow> string \<Rightarrow> string list \<Rightarrow> lsm_observation result) option"
  we_workspace :: "string \<Rightarrow> string \<Rightarrow> workspace_observation result"
  we_chrome :: "string option"
  we_probe_timeout_s :: real
  we_observe :: "worker_record \<Rightarrow> browser_observation option \<Rightarrow> int option \<Rightarrow> browser_observation result"
  we_ack :: "string \<Rightarrow> string \<Rightarrow> string \<Rightarrow> string \<Rightarrow> int \<Rightarrow> int \<Rightarrow> uia_ack_observation result"
  we_transport :: "uia_transport \<Rightarrow> transport"
  we_others :: "registry \<Rightarrow> registry"
  we_fresh :: "string \<times> string \<times> string"
  we_submitted_at :: timestamp

text \<open>The digests and the serialisation of values into stored documents.\<close>

record watch_tools =
  wt_sha256 :: "string \<Rightarrow> string"
  wt_dumps :: "json_object \<Rightarrow> string"
  wt_checkpoint_digest :: "json_object \<Rightarrow> string"
  wt_digest :: "snapshot \<Rightarrow> string"
  wt_plan :: "dispatch_plan \<Rightarrow> json"
  wt_float :: "real \<Rightarrow> json"

text \<open>Which exceptions are a \<^verbatim>\<open>ValueError\<close> or \<^verbatim>\<open>RuntimeError\<close>, by the class hierarchy of the sources.\<close>

fun is_value_error :: "py_error \<Rightarrow> bool" where
  "is_value_error (ValueError _) = True"
| "is_value_error (CapabilityProvenanceError _) = True"
| "is_value_error (ProbeOperatorEvidenceError _) = True"
| "is_value_error _ = False"

fun is_os_error :: "py_error \<Rightarrow> bool" where
  "is_os_error (FileNotFoundError _) = True"
| "is_os_error (TimeoutError _) = True"
| "is_os_error _ = False"

fun is_runtime_error :: "py_error \<Rightarrow> bool" where
  "is_runtime_error (KeyError _) = False"
| "is_runtime_error (ValueError _) = False"
| "is_runtime_error AssertionError = False"
| "is_runtime_error (IntegrityError _) = False"
| "is_runtime_error StopIteration = False"
| "is_runtime_error (TypeError _) = False"
| "is_runtime_error (CapabilityProvenanceError _) = False"
| "is_runtime_error (ProbeOperatorEvidenceError _) = False"
| "is_runtime_error IndexError = False"
| "is_runtime_error (FileNotFoundError _) = False"
| "is_runtime_error (TimeoutError _) = False"
| "is_runtime_error _ = True"

definition on_registry :: "database \<Rightarrow> registry \<times> 'a result \<Rightarrow> database \<times> 'a result" where
  "on_registry d r = ((fst r, snd d), snd r)"

definition keepalive :: "watch_env \<Rightarrow> database \<Rightarrow> database \<times> unit result" where
  "keepalive E d = (case we_lease E of None \<Rightarrow> (d, Inr ())
     | Some (owner, ttl) \<Rightarrow> (case heartbeat_watchdog_lease (fst d) ''default'' owner ttl (we_now E) of
         (db, ok) \<Rightarrow> ((db, snd d), guard ok (WatchdogLeaseLost ''singleton watchdog lease can no longer be renewed''))))"

section \<open>Refreshing evidence\<close>

text \<open>An observation is recorded when it says something new; the times of the readings do not count.\<close>

definition same_lsm :: "lsm_observation \<Rightarrow> lsm_observation \<Rightarrow> bool" where
  "same_lsm x y = (x\<lparr>lo_observed_at := 0\<rparr> = y\<lparr>lo_observed_at := 0\<rparr>)"

definition watch_refresh_lsm :: "watch_env \<Rightarrow> database \<Rightarrow> string \<Rightarrow> database \<times> lsm_observation option result" where
  "watch_refresh_lsm E d t =
     sbind (reading d (get_task (fst d) t)) (\<lambda>d task.
     case we_lsm E of
       Some observe \<Rightarrow>
         if \<not> present (tk_lsm_session_id task) then (d, Inr (latest_lsm_observation d t))
         else let previous = latest_lsm_observation d t in
           (case observe t (the (tk_lsm_session_id task)) (tracked_jobs d t) of
              Inl e \<Rightarrow> (d, if is_os_error e \<or> is_value_error e then Inr previous else Inl e)
            | Inr x \<Rightarrow> if previous \<noteq> None \<and> same_lsm (the previous) x then (d, Inr (Some x))
                else sbind (record_lsm_observation d x) (\<lambda>d _. (d, Inr (Some x))))
     | None \<Rightarrow> (d, Inr (latest_lsm_observation d t)))"

definition same_workspace :: "workspace_observation \<Rightarrow> workspace_observation \<Rightarrow> bool" where
  "same_workspace x y = (x\<lparr>wo_observed_at := 0\<rparr> = y\<lparr>wo_observed_at := 0\<rparr>)"

definition watch_refresh_workspace :: "watch_env \<Rightarrow> database \<Rightarrow> string \<Rightarrow> database \<times> workspace_observation result" where
  "watch_refresh_workspace E d t =
     sbind (reading d (get_task (fst d) t)) (\<lambda>d task.
     let previous = latest_workspace_observation d t in
     sbind (reading d (we_workspace E t (tk_cwd task))) (\<lambda>d x.
     if previous \<noteq> None \<and> same_workspace (the previous) x then (d, Inr x)
     else sbind (record_workspace_observation d x) (\<lambda>d _. (d, Inr x))))"

text \<open>The window that was seen becomes the exact window of the worker.\<close>

definition bind_seen_window :: "watch_env \<Rightarrow> worker_record \<Rightarrow> browser_observation \<Rightarrow> database \<Rightarrow> database \<times> browser_observation result" where
  "bind_seen_window E w x d =
     (let raw = bo_raw x; handle = json_get raw ''window_handle''; pid = json_get raw ''browser_pid'' in
      if \<not> (present (we_chrome E) \<and> present (bo_url x) \<and> handle \<noteq> JNull \<and> pid \<noteq> JNull) then (d, Inr x)
      else sbind (reading d (rbind (json_int handle) (\<lambda>h. rbind (json_int pid) (\<lambda>p. Inr (h, p))))) (\<lambda>d (h, p).
        sbind (on_registry d (bind_worker_window (fst d) (wk_worker_id w) h p (the (we_chrome E)) (the (bo_url x))
          (json_string raw ''source'' ''windows_uia_chrome'') (bo_observed_at x) (max 15 (we_probe_timeout_s E * 4)))) (\<lambda>d _. (d, Inr x))))"

definition watch_refresh_uia :: "watch_env \<Rightarrow> database \<Rightarrow> string \<Rightarrow> database \<times> browser_observation result" where
  "watch_refresh_uia E d t =
     sbind (reading d (get_task (fst d) t)) (\<lambda>d task.
     sbind (reading d (guard (present (tk_current_worker_id task)) (UiaProbeUnavailable ''task has no current conversation worker''))) (\<lambda>d _.
     sbind (reading d (get_worker (fst d) (the (tk_current_worker_id task)))) (\<lambda>d w.
     let previous = latest_browser_observation d (Some (wk_worker_id w));
         binding = get_fresh_window_binding (fst d) (wk_worker_id w) (we_now E) in
     sbind (reading d (we_observe E w previous (map_option wb_window_handle binding))) (\<lambda>d x.
     sbind (record_browser_observation d x) (\<lambda>d _. bind_seen_window E w x d)))))"

section \<open>Assessing a task\<close>

type_synonym assessed =
  "task_record \<times> browser_observation option \<times> lsm_observation option \<times> workspace_observation option \<times> assessment"

definition completed_assessment :: "watch_env \<Rightarrow> task_record \<Rightarrow> database \<Rightarrow> database \<times> assessed result" where
  "completed_assessment E task d =
     sbind (if tk_state task = SS_COMPLETED then (d, Inr task)
            else sbind (on_registry d (update_state (fst d) (tk_task_id task) SS_COMPLETED (we_now E))) (\<lambda>d _.
              reading d (get_task (fst d) (tk_task_id task)))) (\<lambda>d task.
     (d, Inr (task, latest_browser_observation d (tk_current_worker_id task), None, None,
        mk_assessment SS_COMPLETED ''durable worker-protocol task is already completed'' ''high''
          [''worker_protocol.task_status=completed''] False)))"

text \<open>The probe is asked when \<open>uia\<close> is set; a window that cannot be observed is passed over.\<close>

definition quiet_refresh_uia :: "watch_env \<Rightarrow> bool \<Rightarrow> string \<Rightarrow> database \<Rightarrow> database \<times> unit result" where
  "quiet_refresh_uia E uia t d =
     (if \<not> uia then (d, Inr ())
      else case watch_refresh_uia E d t of
        (d, Inr _) \<Rightarrow> (d, Inr ()) | (d, Inl (UiaProbeUnavailable _)) \<Rightarrow> (d, Inr ()) | (d, Inl e) \<Rightarrow> (d, Inl e))"

definition live_assessment ::
  "watch_env \<Rightarrow> watch_policy \<Rightarrow> bool \<Rightarrow> bool \<Rightarrow> bool \<Rightarrow> task_record \<Rightarrow> database \<Rightarrow> database \<times> assessed result" where
  "live_assessment E policy managed reconcile_workspace uia task d =
     (let t = tk_task_id task in
      sbind (watch_refresh_lsm E d t) (\<lambda>d lsm.
      sbind (quiet_refresh_uia E uia t d) (\<lambda>d _.
      let browser = latest_browser_observation d (tk_current_worker_id task);
          network = latest_network_observation d (tk_current_worker_id task);
          first = assess task browser lsm None network (we_now E) policy in
      sbind (if reconcile_workspace \<or> as_requires_reconcile first
             then sbind (watch_refresh_workspace E d t) (\<lambda>d x.
               (d, Inr (Some x, assess task browser lsm (Some x) network (we_now E) policy)))
             else (d, Inr (None, first))) (\<lambda>d (workspace, a).
      sbind (if \<not> managed \<and> as_state a \<noteq> tk_state task \<and> as_confidence a \<in> {''high'', ''medium''}
             then sbind (on_registry d (update_state (fst d) t (as_state a) (we_now E))) (\<lambda>d _. reading d (get_task (fst d) t))
             else (d, Inr task)) (\<lambda>d task.
      (d, Inr (task, browser, lsm, workspace, a)))))))"

definition watch_assessment ::
  "watch_env \<Rightarrow> watch_policy \<Rightarrow> bool \<Rightarrow> bool \<Rightarrow> database \<Rightarrow> string \<Rightarrow> database \<times> assessed result" where
  "watch_assessment E policy reconcile_workspace uia d t =
     sbind (reading d (get_task (fst d) t)) (\<lambda>d task.
     if \<not> protocol_state_exists (fst d) t then live_assessment E policy False reconcile_workspace uia task d
     else sbind (reading d (load_worker_protocol (fst d) t)) (\<lambda>d s.
       if st_task_status s = DT_COMPLETED then completed_assessment E task d
       else live_assessment E policy True reconcile_workspace uia task d))"

definition record_current_reconciliation ::
  "watch_env \<Rightarrow> watch_tools \<Rightarrow> assessed \<Rightarrow> database \<Rightarrow> database \<times> reconciliation_record result" where
  "record_current_reconciliation E T x d =
     (case x of (task, browser, lsm, workspace, a) \<Rightarrow>
      sbind (reading d (if present (tk_current_worker_id task)
        then rbind (get_worker (fst d) (the (tk_current_worker_id task))) (\<lambda>w. Inr (Some w)) else Inr None)) (\<lambda>d worker.
      let r = build_reconciliation_record (wt_checkpoint_digest T) (wt_digest T) (fst (we_fresh E)) task a worker browser
        (latest_network_observation d (tk_current_worker_id task)) lsm workspace (we_now E) in
      sbind (record_reconciliation d r) (\<lambda>d _. (d, Inr r))))"

section \<open>The scan\<close>

definition needs_human :: "string \<Rightarrow> string \<Rightarrow> assessment" where
  "needs_human reason evidence = mk_assessment SS_NEEDS_HUMAN reason ''high'' [evidence] False"

text \<open>The assessment of one listed task, with the handlers of the scan around it.\<close>

definition contained_assessment ::
  "watch_env \<Rightarrow> watch_policy \<Rightarrow> bool \<Rightarrow> task_record \<Rightarrow> database \<Rightarrow> database \<times> (task_record \<times> assessment) result" where
  "contained_assessment E policy uia task d =
     (case watch_assessment E policy False uia d (tk_task_id task) of
        (d, Inr (x, _, _, _, a)) \<Rightarrow> (d, Inr (x, a))
      | (d, Inl (UiaProbeUnavailable _)) \<Rightarrow>
          sbind (watch_assessment E policy False False d (tk_task_id task)) (\<lambda>d (x, _, _, _, a). (d, Inr (x, a)))
      | (d, Inl (WorkerProtocolPersistenceError m)) \<Rightarrow>
          (d, Inr (task, needs_human (''worker protocol persistence error: '' @ m) ''worker_protocol.persistence_inconsistent=true''))
      | (d, Inl (UnsupportedLsmState m)) \<Rightarrow> (d, Inl (UnsupportedLsmState m))
      | (d, Inl e) \<Rightarrow>
          let a = needs_human (''watchdog task observation failed: '' @ error_name e @ '': '' @ error_text e)
            ''watchdog.task_observation_error=true'' in
          sbind (record_recovery_event d (tk_task_id task) ''watchdog_scan_error'' False (as_reason a)
            [(''error_type'', JStr (error_name e))] (we_now E)) (\<lambda>d _. (d, Inr (task, a))))"

fun scan_tasks ::
  "(nat \<Rightarrow> watch_env) \<Rightarrow> nat \<Rightarrow> watch_policy \<Rightarrow> bool \<Rightarrow> task_record list \<Rightarrow> database \<Rightarrow> database \<times> (task_record \<times> assessment) list result" where
  "scan_tasks Es n policy uia [] d = (d, Inr [])"
| "scan_tasks Es n policy uia (task # tasks) d =
     sbind (keepalive (Es n) d) (\<lambda>d _.
     sbind (contained_assessment (Es n) policy uia task d) (\<lambda>d x.
     sbind (keepalive (Es n) d) (\<lambda>d _.
     sbind (scan_tasks Es (Suc n) policy uia tasks d) (\<lambda>d xs. (d, Inr (x # xs))))))"

definition scan_attention ::
  "(nat \<Rightarrow> watch_env) \<Rightarrow> watch_policy \<Rightarrow> bool \<Rightarrow> database \<Rightarrow> database \<times> attention_item list result" where
  "scan_attention Es policy uia d =
     sbind (reading d (list_tasks (fst d))) (\<lambda>d tasks.
     sbind (scan_tasks Es 0 policy uia tasks d) (\<lambda>d xs. (d, Inr (attention_queue xs))))"

section \<open>Rounds with at most one send\<close>

text \<open>What a round reports of a task, and the log of its executions: the intents handed to a transport and the result.\<close>

record cycle_entry =
  ce_task_id :: string
  ce_kind :: string
  ce_attempt_id :: "string option"
  ce_state :: "string option"
  ce_acknowledged :: bool
  ce_submitted :: bool
  ce_side_effect_possible :: bool
  ce_detail :: string
  ce_blockers :: "string list"

definition cycle_note :: "string \<Rightarrow> string \<Rightarrow> string \<Rightarrow> cycle_entry" where
  "cycle_note t kind detail = \<lparr>ce_task_id = t, ce_kind = kind, ce_attempt_id = None, ce_state = None, ce_acknowledged = False,
     ce_submitted = False, ce_side_effect_possible = False, ce_detail = detail, ce_blockers = []\<rparr>"

type_synonym execution = "action_intent list \<times> execution_result result"
type_synonym task_step = "database \<times> execution list \<times> (cycle_entry list \<times> bool) result"

text \<open>The loop over the tasks: a step reports, says whether the loop ends, or raises.\<close>

fun cycle_loop ::
  "(nat \<Rightarrow> watch_env) \<Rightarrow> nat \<Rightarrow> (watch_env \<Rightarrow> 'k \<Rightarrow> database \<Rightarrow> task_step) \<Rightarrow> 'k list \<Rightarrow> database
     \<Rightarrow> database \<times> execution list \<times> cycle_entry list result" where
  "cycle_loop Es n step [] d = (d, [], Inr [])"
| "cycle_loop Es n step (k # ks) d =
     (case step (Es n) k d of
        (d, acts, Inl e) \<Rightarrow> (d, acts, Inl e)
      | (d, acts, Inr (es, stop)) \<Rightarrow>
          if stop then (d, acts, Inr es)
          else (case cycle_loop Es (Suc n) step ks d of (d, acts', r) \<Rightarrow> (d, acts @ acts', rbind r (\<lambda>es'. Inr (es @ es')))))"

text \<open>A step without an execution, and one that goes on with the next task.\<close>

definition unlogged :: "database \<times> cycle_entry list result \<Rightarrow> task_step" where
  "unlogged r = (fst r, [], rbind (snd r) (\<lambda>es. Inr (es, False)))"

definition alive_step :: "watch_env \<Rightarrow> database \<Rightarrow> (database \<Rightarrow> task_step) \<Rightarrow> task_step" where
  "alive_step E d f = (case keepalive E d of (d, Inl e) \<Rightarrow> (d, [], Inl e) | (d, Inr _) \<Rightarrow> f d)"

definition window_transport :: "watch_env \<Rightarrow> worker_window_binding \<Rightarrow> transport result" where
  "window_transport E b = rbind (from_binding b None None True (we_now E)) (\<lambda>x. Inr (we_transport E x))"

text \<open>The acknowledgement of an unresolved attempt: the reading of its window, and then the entry that reports it, which stands
  before the event is recorded and stays when that fails; \<open>caught\<close> are the exceptions that are reported instead of raised.\<close>

definition acknowledge_reading ::
  "watch_env \<Rightarrow> watch_tools \<Rightarrow> string \<Rightarrow> action_attempt \<Rightarrow> database \<Rightarrow> database \<times> reconcile_result result" where
  "acknowledge_reading E T t a d =
     sbind (watch_refresh_uia E d t) (\<lambda>d _.
     sbind (on_registry d (reconcile_action_with_uia (wt_sha256 T) (fst d) (aa_attempt_id a) (we_ack E) (we_now E))) (\<lambda>d x.
     sbind (if \<not> rx_acknowledged x then (d, Inr ())
            else sbind (reading d (get_task (fst d) t)) (\<lambda>d task.
              case Option.bind (latest_browser_observation d (tk_current_worker_id task)) bo_message_signature of
                None \<Rightarrow> (d, Inr ())
              | Some s \<Rightarrow> if s = [] then (d, Inr ())
                  else sbind (on_registry d (record_action_ack_browser_signature (fst d) (aa_attempt_id a) s)) (\<lambda>d _. (d, Inr ())))) (\<lambda>d _.
     (d, Inr x))))"

definition acknowledge_attempt ::
  "watch_env \<Rightarrow> watch_tools \<Rightarrow> string \<Rightarrow> string \<Rightarrow> string \<Rightarrow> action_attempt \<Rightarrow> database \<Rightarrow> database \<times> cycle_entry list \<times> unit result" where
  "acknowledge_attempt E T kind event t a d =
     (case acknowledge_reading E T t a d of
        (d, Inl e) \<Rightarrow> (d, [], Inl e)
      | (d, Inr x) \<Rightarrow>
          let entry = (cycle_note t kind (rx_detail x))\<lparr>ce_attempt_id := Some (aa_attempt_id a), ce_state := Some (rx_state x),
                ce_acknowledged := rx_acknowledged x\<rparr> in
          (case record_recovery_event d t (event @ rx_state x) False (rx_detail x) [(''attempt_id'', JStr (aa_attempt_id a))] (we_now E) of
             (d, r) \<Rightarrow> (d, [entry], rbind r (\<lambda>_. Inr ()))))"

definition acknowledge_step ::
  "watch_tools \<Rightarrow> string \<Rightarrow> string \<Rightarrow> string \<Rightarrow> (py_error \<Rightarrow> bool) \<Rightarrow> (action_attempt \<Rightarrow> bool) \<Rightarrow> watch_env \<Rightarrow> string \<Rightarrow> database \<Rightarrow> task_step" where
  "acknowledge_step T kind event blocked caught concerns E t d =
     alive_step E d (\<lambda>d. unlogged
       (sbind (reading d (unresolved_action_attempt (fst d) t)) (\<lambda>d u.
        case u of None \<Rightarrow> (d, Inr [])
        | Some a \<Rightarrow> if \<not> concerns a then (d, Inr [])
            else (case acknowledge_attempt E T kind event t a d of
              (d, es, Inr _) \<Rightarrow> (d, Inr es)
            | (d, es, Inl e) \<Rightarrow> if \<not> caught e then (d, Inl e)
                else (d, Inr (es @ [(cycle_note t kind (blocked @ error_text e))\<lparr>ce_attempt_id := Some (aa_attempt_id a),
                  ce_state := Some (aa_value (aa_state a))\<rparr>]))))))"

text \<open>Executing a plan: the errors that only block it are recorded; after an effect the loop ends.\<close>

fun blocks_execution :: "py_error \<Rightarrow> bool" where
  "blocks_execution (ActionBlocked _) = True"
| "blocks_execution (DispatchDisabled _) = True"
| "blocks_execution (UiaActionUnavailable _) = True"
| "blocks_execution _ = False"

definition execute_step ::
  "watch_env \<Rightarrow> watch_tools \<Rightarrow> string \<Rightarrow> string \<Rightarrow> string \<Rightarrow> dispatch_plan \<Rightarrow> recovery_recommendation \<Rightarrow> execution_policy \<Rightarrow> timestamp
     \<Rightarrow> json_object \<Rightarrow> database \<Rightarrow> task_step" where
  "execute_step E T kind event t plan r policy now figures d =
     (case execute_current_worker_recovery (wt_sha256 T) (we_others E) d plan r policy (window_transport E)
        (fst (snd (we_fresh E))) (snd (snd (we_fresh E))) now (we_submitted_at E) of
        (db, intents, Inl e) \<Rightarrow>
          if \<not> blocks_execution e then ((db, snd d), [(intents, Inl e)], Inl e)
          else (case record_recovery_event (db, snd d) t (event @ ''_blocked'') False (error_text e)
              [(''dispatch_plan'', wt_plan T plan)] (we_now E) of
            (d, x) \<Rightarrow> (d, [(intents, Inl e)], rbind x (\<lambda>_. Inr ([cycle_note t kind (error_text e)], False))))
      | (db, intents, Inr x) \<Rightarrow>
          (case record_recovery_event (db, snd d) t (event @ '':'' @ xr_state x) (xr_submitted x) (xr_detail x)
              ([(''attempt_id'', JStr (xr_attempt_id x)), (''side_effect_possible'', JBool (xr_side_effect_possible x))] @ figures
                @ [(''dispatch_plan'', wt_plan T plan)]) (we_now E) of
            (d, y) \<Rightarrow> (d, [(intents, Inr x)], rbind y (\<lambda>_. Inr ([(cycle_note t kind (xr_detail x))\<lparr>ce_attempt_id := Some (xr_attempt_id x),
              ce_state := Some (xr_state x), ce_submitted := xr_submitted x, ce_side_effect_possible := xr_side_effect_possible x\<rparr>],
              xr_submitted x \<or> xr_side_effect_possible x)))))"

section \<open>Recovery from delivery errors\<close>

definition timeout_caught :: "py_error \<Rightarrow> bool" where
  "timeout_caught e = (is_value_error e \<or> is_runtime_error e)"

definition timeout_dispatch_plan ::
  "watch_env \<Rightarrow> watch_tools \<Rightarrow> timeout_recovery_policy \<Rightarrow> assessed \<Rightarrow> reconciliation_record option \<Rightarrow> reconciliation_record \<Rightarrow> database
     \<Rightarrow> (recovery_recommendation \<times> dispatch_plan) result" where
  "timeout_dispatch_plan E T policy x previous current d =
     (case x of (task, browser, lsm, workspace, a) \<Rightarrow>
      let r = recommend (wt_dumps T) task a lsm workspace in
      rbind (build_dispatch_plan task r previous (Some current) (default_dispatch_policy\<lparr>dp_transport_enabled := True\<rparr>) (we_now E)) (\<lambda>plan.
      rbind (unresolved_action_attempt (fst d) (tk_task_id task)) (\<lambda>u.
      rbind (gate_timeout_dispatch_plan d (apply_unresolved_action_gate plan u) browser policy (we_now E)) (\<lambda>plan.
      Inr (r, plan)))))"

text \<open>The steps that lead to a plan, or to nothing; the window must be observed in this very round.\<close>

definition timeout_plan ::
  "watch_env \<Rightarrow> watch_tools \<Rightarrow> timeout_recovery_policy \<Rightarrow> string \<Rightarrow> database
     \<Rightarrow> database \<times> (string \<times> recovery_recommendation \<times> dispatch_plan) option result" where
  "timeout_plan E T policy t d =
     sbind (reading d (latest_reconciliation d t)) (\<lambda>d previous.
     sbind (watch_assessment E default_watch_policy True False d t) (\<lambda>d x.
     if \<not> is_recoverable_delivery_error (fst (snd x)) then (d, Inr None)
     else sbind (record_current_reconciliation E T x d) (\<lambda>d current.
       sbind (reading d (timeout_dispatch_plan E T policy x previous current d)) (\<lambda>d (r, plan).
       (d, Inr (Some (tk_task_id (fst x), r, plan)))))))"

definition timeout_step :: "watch_tools \<Rightarrow> timeout_recovery_policy \<Rightarrow> watch_env \<Rightarrow> string \<Rightarrow> database \<Rightarrow> task_step" where
  "timeout_step T policy E t d =
     alive_step E d (\<lambda>d.
     case unresolved_action_attempt (fst d) t of
       Inl e \<Rightarrow> (d, [], Inl e)
     | Inr (Some _) \<Rightarrow> (d, [], Inr ([], False))
     | Inr None \<Rightarrow>
         (case watch_refresh_uia E d t of
            (d, Inl (UiaProbeUnavailable m)) \<Rightarrow>
              (d, [], Inr ([cycle_note t ''dispatch'' (''fresh exact-window observation unavailable: '' @ m)], False))
          | (d, Inl e) \<Rightarrow> (d, [], Inl e)
          | (d, Inr _) \<Rightarrow>
              (case timeout_plan E T policy t d of
                 (d, Inl e) \<Rightarrow> (d, [], Inl e)
               | (d, Inr None) \<Rightarrow> (d, [], Inr ([], False))
               | (d, Inr (Some (i, r, plan))) \<Rightarrow>
                   if \<not> dn_would_dispatch plan
                   then (d, [], Inr ([(cycle_note t ''dispatch'' (dn_reason plan))\<lparr>ce_blockers := dn_blockers plan\<rparr>], False))
                   else execute_step E T ''dispatch'' ''watchdog_timeout'' i plan r
                     \<lparr>xp_enabled = True, xp_confirmed_task_id = Some i, xp_consume_recovery_budget = True, xp_attempt_metadata = []\<rparr>
                     (we_now E) [] d)))"

definition then_loop ::
  "database \<times> execution list \<times> cycle_entry list result \<Rightarrow> (database \<Rightarrow> database \<times> execution list \<times> cycle_entry list result)
     \<Rightarrow> database \<times> execution list \<times> cycle_entry list result" where
  "then_loop r f = (case r of (d, acts, Inl e) \<Rightarrow> (d, acts, Inl e)
     | (d, acts, Inr es) \<Rightarrow> (case f d of (d, acts', x) \<Rightarrow> (d, acts @ acts', rbind x (\<lambda>es'. Inr (es @ es')))))"

definition auto_recover_timeout_cycle ::
  "(nat \<Rightarrow> watch_env) \<Rightarrow> watch_tools \<Rightarrow> timeout_recovery_policy \<Rightarrow> attention_item list \<Rightarrow> database
     \<Rightarrow> database \<times> execution list \<times> cycle_entry list result" where
  "auto_recover_timeout_cycle Es T policy queue d =
     (if \<not> tr_enabled policy then (d, [], Inr [])
      else let ts = first_occurrences (map ai_task_id queue); n = length ts in
        then_loop (cycle_loop Es 0 (acknowledge_step T ''ack'' ''watchdog_ack:'' ''ack reconciliation blocked: '' timeout_caught (\<lambda>_. True)) ts d)
          (cycle_loop Es n (timeout_step T policy) ts))"

section \<open>Nudging conversations that run too long\<close>

definition OVERRUN_TRIGGER_KIND :: string where
  "OVERRUN_TRIGGER_KIND = ''hard_overrun_25m20''"

definition OVERRUN_CONTINUE_PROMPT :: string where
  "OVERRUN_CONTINUE_PROMPT = ''continue''"

definition AUTO_WATCH_TASK_PREFIX :: string where
  "AUTO_WATCH_TASK_PREFIX = ''watch-chat-''"

text \<open>The conversation of a task that may be nudged.\<close>

definition overrun_key :: "registry \<Rightarrow> task_record \<Rightarrow> string option result" where
  "overrun_key db task =
     (if tk_state task \<in> {SS_COMPLETED, SS_ABANDONED} \<or> \<not> present (tk_current_worker_id task) then Inr None
      else case get_worker db (the (tk_current_worker_id task)) of
        Inl (KeyError _) \<Rightarrow> Inr None
      | Inl e \<Rightarrow> Inl e
      | Inr w \<Rightarrow> Inr (if wk_status w \<noteq> WS_ACTIVE \<or> wk_conversation_url w = [] then None
          else Some (case conversation_id_from_url (wk_conversation_url w) of
            Some i \<Rightarrow> ''conversation:'' @ lower i | None \<Rightarrow> uia_normalize_url (wk_conversation_url w))))"

text \<open>The latest task of a group, where a synthetic owner wins over the others.\<close>

definition newer_task :: "task_record \<Rightarrow> task_record \<Rightarrow> task_record" where
  "newer_task x best = (if (tk_updated_at best, tk_task_id best) < (tk_updated_at x, tk_task_id x) then x else best)"

definition group_owner :: "task_record list \<Rightarrow> task_record" where
  "group_owner candidates =
     (let auto = filter (\<lambda>x. starts_with AUTO_WATCH_TASK_PREFIX (tk_task_id x)) candidates;
          pool = (if auto = [] then candidates else auto) in fold newer_task (tl pool) (hd pool))"

definition canonical_overrun_tasks :: "registry \<Rightarrow> task_record list result" where
  "canonical_overrun_tasks db =
     rbind (list_tasks db) (\<lambda>tasks.
     rbind (map_result (\<lambda>x. rbind (overrun_key db x) (\<lambda>k. Inr (k, x))) tasks) (\<lambda>keyed.
     let keys = first_occurrences (map the (filter (\<lambda>k. k \<noteq> None) (map fst keyed))) in
     Inr (map (\<lambda>k. group_owner (map snd (filter (\<lambda>kx. fst kx = Some k) keyed))) keys)))"

text \<open>A conversation window that the accessibility probe lists.\<close>

record seen_window =
  sw_url :: string
  sw_window_handle :: int
  sw_browser_pid :: int
  sw_observed_at :: timestamp

text \<open>The task and the worker that watch a conversation, created when they are missing; \<open>cwd\<close> is the current directory.\<close>

definition watch_owner ::
  "watch_env \<Rightarrow> string \<Rightarrow> string \<Rightarrow> string \<Rightarrow> string \<Rightarrow> database \<Rightarrow> database \<times> task_record result" where
  "watch_owner E cwd t url conversation d =
     (case get_task (fst d) t of
        Inr task \<Rightarrow> (d, Inr task)
      | Inl (KeyError _) \<Rightarrow>
          sbind (on_registry d (register_task (fst d) (Some t) ''chatgpt-autowatch'' ''automatic 25m20 visible-conversation watchdog''
            cwd None (Some url) (Some conversation) t (fst (snd (we_fresh E))) (we_now E) (we_now E))) (\<lambda>d task.
          ((set_checkpoint (fst d) t [(''auto_watch'', JBool True), (''conversation_id'', JStr conversation)] (we_now E), snd d), Inr task))
      | Inl e \<Rightarrow> (d, Inl e))"

definition watch_worker ::
  "watch_env \<Rightarrow> string \<Rightarrow> string \<Rightarrow> string \<Rightarrow> task_record \<Rightarrow> database \<Rightarrow> database \<times> worker_record result" where
  "watch_worker E t url conversation task d =
     (let add = on_registry d (add_worker (fst d) t url (Some conversation) True (snd (snd (we_fresh E))) (we_now E)) in
      if \<not> present (tk_current_worker_id task) then add
      else sbind (reading d (get_worker (fst d) (the (tk_current_worker_id task)))) (\<lambda>d w.
        if uia_normalize_url (wk_conversation_url w) = uia_normalize_url url then (d, Inr w) else add))"

definition watch_window :: "watch_env \<Rightarrow> overrun_policy \<Rightarrow> string \<Rightarrow> seen_window \<Rightarrow> database \<Rightarrow> database \<times> string option result" where
  "watch_window E policy cwd s d =
     (let url = strip (sw_url s) in
      case conversation_id_from_url url of
        None \<Rightarrow> (d, Inr None)
      | Some conversation \<Rightarrow>
          let t = AUTO_WATCH_TASK_PREFIX @ lower conversation in
          sbind (watch_owner E cwd t url conversation d) (\<lambda>d task.
          sbind (watch_worker E t url conversation task d) (\<lambda>d w.
          sbind (on_registry d (bind_worker_window (fst d) (wk_worker_id w) (sw_window_handle s) (sw_browser_pid s)
            (case we_chrome E of None \<Rightarrow> [] | Some c \<Rightarrow> c) url ''windows_uia_autodiscovery'' (sw_observed_at s)
            (max 60 (ov_max_browser_observation_age_s policy + 30)))) (\<lambda>d _. (d, Inr (Some t))))))"

fun sync_visible_conversation_watchers ::
  "(nat \<Rightarrow> watch_env) \<Rightarrow> nat \<Rightarrow> overrun_policy \<Rightarrow> string \<Rightarrow> seen_window list \<Rightarrow> database \<Rightarrow> database \<times> string list result" where
  "sync_visible_conversation_watchers Es n policy cwd [] d = (d, Inr [])"
| "sync_visible_conversation_watchers Es n policy cwd (s # ss) d =
     sbind (watch_window (Es n) policy cwd s d) (\<lambda>d x.
     sbind (sync_visible_conversation_watchers Es (Suc n) policy cwd ss d) (\<lambda>d xs.
     (d, Inr (case x of None \<Rightarrow> xs | Some t \<Rightarrow> t # xs))))"

text \<open>The plan of a nudge: the clock is read again after the evidence was collected.\<close>

definition overrun_plan ::
  "watch_env \<Rightarrow> overrun_policy \<Rightarrow> assessed \<Rightarrow> reconciliation_record option \<Rightarrow> reconciliation_record \<Rightarrow> database
     \<Rightarrow> (timestamp \<times> overrun_clock \<times> dispatch_plan) option result" where
  "overrun_plan E policy x previous current d =
     (case x of (task, browser, lsm, workspace, a) \<Rightarrow>
      let now = max (max (we_now E) (rr_created_at current)) (case browser of None \<Rightarrow> we_now E | Some b \<Rightarrow> bo_observed_at b) in
      rbind (overrun_clock_of d (tk_task_id task) policy now) (\<lambda>clock.
      case clock of None \<Rightarrow> Inr None
      | Some c \<Rightarrow> if \<not> oc_due c then Inr None
          else rbind (build_overrun_dispatch_plan d task c previous (Some current) browser policy True now) (\<lambda>plan.
            rbind (unresolved_action_attempt (fst d) (tk_task_id task)) (\<lambda>u.
            Inr (Some (now, c, apply_unresolved_action_gate plan u))))))"

definition overrun_metadata :: "watch_tools \<Rightarrow> overrun_policy \<Rightarrow> overrun_clock \<Rightarrow> json_object" where
  "overrun_metadata T policy c = [(''trigger_kind'', JStr OVERRUN_TRIGGER_KIND), (''overrun_after_s'', wt_float T (ov_overrun_after_s policy)),
     (''overrun_anchor_at'', wt_float T (oc_anchor_at c)), (''overrun_due_at'', wt_float T (oc_due_at c))]"

definition overrun_dispatch ::
  "watch_env \<Rightarrow> watch_tools \<Rightarrow> overrun_policy \<Rightarrow> assessed \<Rightarrow> (timestamp \<times> overrun_clock \<times> dispatch_plan) option result \<Rightarrow> database \<Rightarrow> task_step" where
  "overrun_dispatch E T policy x planned d =
     (case x of (task, browser, lsm, workspace, a) \<Rightarrow> let i = tk_task_id task in
      case planned of
        Inl e \<Rightarrow> (d, [], Inl e)
      | Inr None \<Rightarrow> (d, [], Inr ([], False))
      | Inr (Some (now, c, plan)) \<Rightarrow>
          if \<not> dn_would_dispatch plan
          then (d, [], Inr ([(cycle_note i ''overrun_dispatch'' (dn_reason plan))\<lparr>ce_blockers := dn_blockers plan\<rparr>], False))
          else execute_step E T ''overrun_dispatch'' ''watchdog_overrun'' i plan
            \<lparr>rm_task_id = i, rm_action = ''reconcile_then_continue'', rm_safe_to_dispatch = False,
             rm_reason = ''hard-overrun wall clock exceeded; continue the same durable task'', rm_prompt = Some OVERRUN_CONTINUE_PROMPT,
             rm_evidence = as_evidence a\<rparr>
            \<lparr>xp_enabled = True, xp_confirmed_task_id = Some i, xp_consume_recovery_budget = False,
             xp_attempt_metadata = overrun_metadata T policy c\<rparr>
            now [(''elapsed_s'', wt_float T (oc_elapsed_s c)), (''anchor_at'', wt_float T (oc_anchor_at c))] d)"

text \<open>The steps after a window was observed: every failure of the assessment but an unknown session format is reported.\<close>

definition overrun_observed ::
  "watch_env \<Rightarrow> watch_tools \<Rightarrow> overrun_policy \<Rightarrow> string \<Rightarrow> database \<Rightarrow> task_step" where
  "overrun_observed E T policy t d =
     (case latest_reconciliation d t of
        Inl e \<Rightarrow> (d, [], Inl e)
      | Inr previous \<Rightarrow>
          (case watch_assessment E default_watch_policy True False d t of
             (d, Inl (UnsupportedLsmState m)) \<Rightarrow> (d, [], Inl (UnsupportedLsmState m))
           | (d, Inl e) \<Rightarrow> unlogged
               (let detail = ''overrun task reconciliation failed: '' @ error_name e @ '': '' @ error_text e in
                sbind (record_recovery_event d t ''watchdog_overrun_error'' False detail [(''error_type'', JStr (error_name e))] (we_now E))
                  (\<lambda>d _. (d, Inr [cycle_note t ''overrun_dispatch'' detail])))
           | (d, Inr x) \<Rightarrow>
               (case record_current_reconciliation E T x d of
                  (d, Inl e) \<Rightarrow> (d, [], Inl e)
                | (d, Inr current) \<Rightarrow> overrun_dispatch E T policy x (overrun_plan E policy x previous current d) d)))"

definition overrun_step :: "watch_tools \<Rightarrow> overrun_policy \<Rightarrow> timestamp \<Rightarrow> watch_env \<Rightarrow> string \<Rightarrow> database \<Rightarrow> task_step" where
  "overrun_step T policy ts E t d =
     alive_step E d (\<lambda>d.
     case overrun_clock_of d t policy ts of
       Inl e \<Rightarrow> (d, [], Inl e)
     | Inr None \<Rightarrow> (d, [], Inr ([], False))
     | Inr (Some c) \<Rightarrow>
         if \<not> oc_sample_due c then (d, [], Inr ([], False))
         else (case unresolved_action_attempt (fst d) t of
           Inl e \<Rightarrow> (d, [], Inl e)
         | Inr (Some _) \<Rightarrow> (d, [], Inr ([], False))
         | Inr None \<Rightarrow>
             (case watch_refresh_uia E d t of
                (d, Inl (UiaProbeUnavailable m)) \<Rightarrow> (d, [], Inr (if oc_due c
                   then [cycle_note t ''overrun_dispatch'' (''fresh exact-window observation unavailable: '' @ m)] else [], False))
              | (d, Inl e) \<Rightarrow> (d, [], Inl e)
              | (d, Inr _) \<Rightarrow> overrun_observed E T policy t d)))"

fun overrun_caught :: "py_error \<Rightarrow> bool" where
  "overrun_caught (ActionBlocked _) = True"
| "overrun_caught (UiaActionUnavailable _) = True"
| "overrun_caught (UiaProbeUnavailable _) = True"
| "overrun_caught _ = False"

definition overrun_attempt :: "action_attempt \<Rightarrow> bool" where
  "overrun_attempt a = (json_get (aa_metadata a) ''trigger_kind'' = JStr OVERRUN_TRIGGER_KIND)"

text \<open>\<open>seen\<close> are the conversation windows the probe lists, none when it is unavailable; the environments \<open>Es\<close> serve the
  discovery, \<open>Fs\<close> the tasks.\<close>

definition discover_conversations ::
  "(nat \<Rightarrow> watch_env) \<Rightarrow> overrun_policy \<Rightarrow> string \<Rightarrow> seen_window list \<Rightarrow> database \<Rightarrow> database \<times> unit result" where
  "discover_conversations Es policy cwd seen d =
     (if \<not> ov_auto_discover_visible_conversations policy then (d, Inr ())
      else sbind (sync_visible_conversation_watchers Es 0 policy cwd seen d) (\<lambda>d _. keepalive (Es 0) d))"

definition auto_continue_overrun_cycle ::
  "(nat \<Rightarrow> watch_env) \<Rightarrow> (nat \<Rightarrow> watch_env) \<Rightarrow> watch_tools \<Rightarrow> overrun_policy \<Rightarrow> timestamp \<Rightarrow> string \<Rightarrow> seen_window list \<Rightarrow> database
     \<Rightarrow> database \<times> execution list \<times> cycle_entry list result" where
  "auto_continue_overrun_cycle Es Fs T policy ts cwd seen d =
     (if \<not> ov_enabled policy then (d, [], Inr [])
      else case sbind (discover_conversations Es policy cwd seen d) (\<lambda>d _. reading d (canonical_overrun_tasks (fst d))) of
        (d, Inl e) \<Rightarrow> (d, [], Inl e)
      | (d, Inr tasks) \<Rightarrow>
          let ids = map tk_task_id tasks in
          then_loop (cycle_loop Fs 0 (acknowledge_step T ''overrun_ack'' ''watchdog_overrun_ack:'' ''overrun acknowledgement blocked: ''
              overrun_caught overrun_attempt) ids d)
            (cycle_loop Fs (length ids) (overrun_step T policy ts) ids))"

section \<open>A round\<close>

record watch_settings =
  wg_policy :: watch_policy
  wg_uia :: bool
  wg_overrun :: "overrun_policy option"
  wg_timeout :: "timeout_recovery_policy option"

text \<open>One turn of the loop: what was reported, and whether the recovery of delivery errors still runs after the nudges.\<close>

definition watch_round ::
  "(nat \<Rightarrow> nat \<Rightarrow> watch_env) \<Rightarrow> watch_tools \<Rightarrow> watch_settings \<Rightarrow> string \<Rightarrow> seen_window list \<Rightarrow> database
     \<Rightarrow> database \<times> execution list \<times> attention_item list result" where
  "watch_round Es T settings cwd seen d =
     (case sbind (keepalive (Es 0 0) d) (\<lambda>d _. scan_attention (Es 1) (wg_policy settings) (wg_uia settings) d) of
        (d, Inl e) \<Rightarrow> (d, [], Inl e)
      | (d, Inr queue) \<Rightarrow>
          (case (case wg_overrun settings of None \<Rightarrow> (d, [], Inr [])
                 | Some policy \<Rightarrow> auto_continue_overrun_cycle (Es 2) (Es 3) T policy (we_now (Es 2 0)) cwd seen d) of
             (d, acts, Inl e) \<Rightarrow> (d, acts, Inl e)
           | (d, acts, Inr nudges) \<Rightarrow>
               if list_ex (\<lambda>x. ce_submitted x \<or> ce_side_effect_possible x) nudges then (d, acts, Inr queue)
               else (case wg_timeout settings of None \<Rightarrow> (d, acts, Inr queue)
                 | Some policy \<Rightarrow> (case auto_recover_timeout_cycle (Es 4) T policy queue d of
                     (d, acts', x) \<Rightarrow> (d, acts @ acts', rbind x (\<lambda>_. Inr queue))))))"

end
