(* ===== verification/Watch_Safety.thy ===== *)
theory Watch_Safety
  imports Watch_Cycle
begin

text \<open>
  What a round of the resident supervisor guarantees: at most one execution of a round may have had an effect, every
  conversation has one task that may nudge it, and where the containment of failing tasks ends.
\<close>

section \<open>One effect\<close>

text \<open>An execution may have acted when it handed an intent to the transport and was not told that nothing happened.\<close>

definition may_have_acted :: "execution \<Rightarrow> bool" where
  "may_have_acted x \<longleftrightarrow> fst x \<noteq> [] \<and> \<not> (\<exists>r. snd x = Inr r \<and> \<not> xr_submitted r \<and> \<not> xr_side_effect_possible r)"

definition reports_effect :: "cycle_entry \<Rightarrow> bool" where
  "reports_effect e \<longleftrightarrow> ce_submitted e \<or> ce_side_effect_possible e"

text \<open>The contract of a step: at most one execution, and after one that may have acted it says so and ends the loop, or raises.\<close>

definition one_effect_step :: "task_step \<Rightarrow> bool" where
  "one_effect_step s \<longleftrightarrow> (case s of (d, acts, r) \<Rightarrow> length acts \<le> 1
     \<and> (\<forall>es stop. r = Inr (es, stop) \<longrightarrow> list_ex may_have_acted acts \<longrightarrow> stop \<and> list_ex reports_effect es))"

locale one_effect =
  fixes step :: "watch_env \<Rightarrow> 'k \<Rightarrow> database \<Rightarrow> task_step"
  assumes one_effect: "one_effect_step (step E k d)"
begin

lemma loop_effect:
  assumes "cycle_loop Es n step ks d = (d', acts, r)"
  shows "\<not> list_ex may_have_acted (butlast acts) \<and> (\<forall>es. r = Inr es \<longrightarrow> list_ex may_have_acted acts \<longrightarrow> list_ex reports_effect es)"
  using assms
proof (induction ks arbitrary: n d d' acts r)
  case (Cons k ks)
  obtain d1 a1 r1 where s: "step (Es n) k d = (d1, a1, r1)" by (cases "step (Es n) k d")
  have ok: "one_effect_step (d1, a1, r1)" using one_effect [of "Es n" k d] s by simp
  then have short: "butlast a1 = []" by (cases a1 rule: rev_cases) (auto simp: one_effect_step_def)
  show ?case
  proof (cases r1)
    case (Inl e)
    with Cons.prems s short show ?thesis by auto
  next
    case (Inr y)
    obtain es stop where y: "y = (es, stop)" by (cases y)
    show ?thesis
    proof (cases stop)
      case True
      with Cons.prems s Inr y have "acts = a1" "r = Inr es" by auto
      then show ?thesis using short ok Inr y by (simp add: one_effect_step_def)
    next
      case False
      obtain d2 a2 r2 where l: "cycle_loop Es (Suc n) step ks d1 = (d2, a2, r2)" by (cases "cycle_loop Es (Suc n) step ks d1")
      have acts: "acts = a1 @ a2" "r = rbind r2 (\<lambda>es'. Inr (es @ es'))" using Cons.prems s Inr y False l by auto
      have none: "\<not> list_ex may_have_acted a1" using ok Inr y False by (auto simp: one_effect_step_def)
      note rest = Cons.IH [OF l]
      have "\<not> list_ex may_have_acted (butlast acts)"
        using none rest short unfolding acts(1) by (cases "a2 = []") (simp_all add: butlast_append)
      moreover have "list_ex reports_effect es'" if "r = Inr es'" "list_ex may_have_acted acts" for es'
        using that none rest unfolding acts by auto
      ultimately show ?thesis by blast
    qed
  qed
qed simp

end

text \<open>The errors that block an execution arise before anything is handed to the transport.\<close>

lemma replace_action_error: "replace_action_attempt db a = Inl e \<Longrightarrow> \<not> blocks_execution e"
  by (auto simp: replace_action_attempt_def journal_update_def get_action_attempt_def rbind_def unique_key_def Let_def
      split: if_splits option.splits)

lemma settle_action_error: "settle_action st db i err name now = (db', Inl e) \<Longrightarrow> \<not> blocks_execution e"
  by (auto simp: settle_action_def get_action_attempt_def rbind_def guard_def transaction_def dest: replace_action_error
      split: if_splits option.splits sum.splits)

lemma mark_submitted_error: "mark_action_submitted db i name now = (db', Inl e) \<Longrightarrow> \<not> blocks_execution e"
  by (auto simp: mark_action_submitted_def get_action_attempt_def rbind_def guard_def transaction_def dest: replace_action_error
      split: if_splits option.splits sum.splits)

lemma with_outcome_error: "with_outcome f r = (db', Inl e) \<Longrightarrow> r = (db', Inl e)"
  by (cases r; cases "snd r") (auto simp: with_outcome_def)

lemma finish_submission_error:
  assumes "finish_submission db i name outcome now = (db', Inl e)"
  shows "\<not> blocks_execution e"
  using assms unfolding finish_submission_def mark_action_reconcile_required_def fail_action_attempt_def
  by (cases outcome) (auto split: if_splits dest!: with_outcome_error dest: settle_action_error mark_submitted_error)

lemma execution_blocked_unsent:
  assumes "execute_current_worker_recovery sha256 env d plan r policy factory nonce f now s = (db', intents, Inl e)" and "blocks_execution e"
  shows "intents = []"
  using assms
  by (auto simp: execute_current_worker_recovery_def submit_armed_action_def Let_def rbind_def
      split: sum.splits prod.splits dest: finish_submission_error)

lemma execute_step_effect [simp]: "one_effect_step (execute_step E T kind event t plan r policy now figures d)"
proof -
  obtain db intents w where x: "execute_current_worker_recovery (wt_sha256 T) (we_others E) d plan r policy (window_transport E)
      (fst (snd (we_fresh E))) (snd (snd (we_fresh E))) now (we_submitted_at E) = (db, intents, w)"
    using prod_cases3 by blast
  show ?thesis
  proof (cases w)
    case (Inl e)
    then have "blocks_execution e \<Longrightarrow> intents = []" using execution_blocked_unsent x by blast
    then show ?thesis using x Inl by (auto simp: execute_step_def one_effect_step_def may_have_acted_def split: prod.splits)
  next
    case (Inr y)
    then show ?thesis using x
      by (auto simp: execute_step_def one_effect_step_def may_have_acted_def reports_effect_def split: prod.splits)
  qed
qed

lemma idle_step [simp]: "one_effect_step (d, [], r)"
  by (simp add: one_effect_step_def)

lemma unlogged_effect [simp]: "one_effect_step (unlogged r)"
  by (simp add: unlogged_def)

lemma alive_step_effect: "(\<And>d. one_effect_step (f d)) \<Longrightarrow> one_effect_step (alive_step E d f)"
  by (simp add: alive_step_def split: prod.split sum.split)

interpretation acknowledging: one_effect "acknowledge_step T kind event blocked caught concerns"
  by unfold_locales (simp add: acknowledge_step_def alive_step_effect)

interpretation recovering: one_effect "timeout_step T policy"
  by unfold_locales (auto simp: timeout_step_def intro!: alive_step_effect split: sum.split option.split prod.split py_error.split)

lemma overrun_observed_effect [simp]: "one_effect_step (overrun_observed E T policy t d)"
  by (auto simp: overrun_observed_def overrun_dispatch_def Let_def split: sum.split option.split prod.split py_error.split)

interpretation nudging: one_effect "overrun_step T policy ts"
  by unfold_locales (auto simp: overrun_step_def intro!: alive_step_effect split: sum.split option.split prod.split py_error.split)

section \<open>Cycles and rounds\<close>

definition one_effect_cycle :: "database \<times> execution list \<times> cycle_entry list result \<Rightarrow> bool" where
  "one_effect_cycle c \<longleftrightarrow> (case c of (d, acts, r) \<Rightarrow> \<not> list_ex may_have_acted (butlast acts)
     \<and> (\<forall>es. r = Inr es \<longrightarrow> list_ex may_have_acted acts \<longrightarrow> list_ex reports_effect es))"

lemma idle_cycle [simp]: "one_effect_cycle (d, [], r)"
  by (simp add: one_effect_cycle_def)

lemma loop_cycles:
  "one_effect_cycle (cycle_loop Es n (timeout_step T policy) ks d)"
  "one_effect_cycle (cycle_loop Es n (overrun_step T overrun ts) ks d)"
  unfolding one_effect_cycle_def by (auto split: prod.split dest: recovering.loop_effect nudging.loop_effect)

lemma quiet_loop:
  "(\<And>E k d. fst (snd (step E k d)) = []) \<Longrightarrow> fst (snd (cycle_loop Es n step ks d)) = []"
proof (induction ks arbitrary: n d)
  case (Cons k ks)
  from Cons.prems [of "Es n" k d] Cons.IH [OF Cons.prems] show ?case
    by (auto split: prod.splits sum.splits) (metis fst_conv snd_conv)
qed simp

lemma acknowledge_step_quiet: "fst (snd (acknowledge_step T kind event blocked caught concerns E k d)) = []"
  by (simp add: acknowledge_step_def alive_step_def unlogged_def split: prod.split sum.split)

lemma then_loop_cycle:
  assumes "fst (snd c) = []" and "\<And>d. one_effect_cycle (f d)"
  shows "one_effect_cycle (then_loop c f)"
proof (cases c)
  case (fields d acts r)
  show ?thesis
  proof (cases r)
    case (Inr es)
    obtain d' acts' r' where f: "f d = (d', acts', r')" by (cases "f d")
    with assms(2) [of d] assms(1) fields Inr show ?thesis
      by (cases r') (auto simp: then_loop_def one_effect_cycle_def)
  qed (use assms(1) fields in \<open>simp add: then_loop_def\<close>)
qed

lemma timeout_cycle_effect: "one_effect_cycle (auto_recover_timeout_cycle Es T policy queue d)"
  unfolding auto_recover_timeout_cycle_def Let_def
  by (simp add: then_loop_cycle quiet_loop acknowledge_step_quiet loop_cycles)

lemma overrun_cycle_effect: "one_effect_cycle (auto_continue_overrun_cycle Es Fs T policy ts cwd seen d)"
  unfolding auto_continue_overrun_cycle_def Let_def
  by (auto simp: then_loop_cycle quiet_loop acknowledge_step_quiet loop_cycles split: prod.split sum.split)

lemma list_ex_filter: "\<not> list_ex P (butlast xs) \<Longrightarrow> length (filter P xs) \<le> 1"
  by (cases xs rule: rev_cases) (auto simp: filter_empty_conv list_ex_iff)

lemma round_effect:
  assumes "watch_round Es T settings cwd seen d = (d', acts, r)"
  shows "\<not> list_ex may_have_acted (butlast acts)"
proof -
  obtain d1 r1 where s: "sbind (keepalive (Es 0 0) d) (\<lambda>d _. scan_attention (Es 1) (wg_policy settings) (wg_uia settings) d) = (d1, r1)"
    by fastforce
  show ?thesis
  proof (cases r1)
    case (Inr queue)
    let ?c = "case wg_overrun settings of None \<Rightarrow> (d1, [], Inr [])
      | Some policy \<Rightarrow> auto_continue_overrun_cycle (Es 2) (Es 3) T policy (we_now (Es 2 0)) cwd seen d1"
    obtain d2 a2 r2 where c: "?c = (d2, a2, r2)" by (cases ?c)
    have ok: "one_effect_cycle (d2, a2, r2)" unfolding c [symmetric] by (simp add: overrun_cycle_effect split: option.split)
    show ?thesis
    proof (cases r2)
      case Inl
      with assms s Inr c ok show ?thesis by (auto simp: watch_round_def one_effect_cycle_def)
    next
      case nudges: (Inr nudges)
      show ?thesis
      proof (cases "list_ex reports_effect nudges \<or> wg_timeout settings = None")
        case True
        then have "acts = a2"
          using assms s Inr c nudges by (auto simp: watch_round_def reports_effect_def [abs_def] split: if_splits option.splits prod.splits)
        then show ?thesis using ok by (simp add: one_effect_cycle_def)
      next
        case False
        then obtain policy where p: "wg_timeout settings = Some policy" by blast
        obtain d3 a3 r3 where t: "auto_recover_timeout_cycle (Es 4) T policy queue d2 = (d3, a3, r3)" by (metis prod_cases3)
        have "acts = a2 @ a3" using assms s Inr c nudges False p t by (auto simp: watch_round_def reports_effect_def [abs_def])
        moreover have "\<not> list_ex may_have_acted a2" using ok nudges False by (auto simp: one_effect_cycle_def)
        moreover have "\<not> list_ex may_have_acted (butlast a3)"
          using timeout_cycle_effect [of "Es 4" T policy queue d2] t by (simp add: one_effect_cycle_def)
        ultimately show ?thesis using ok by (cases "a3 = []") (simp_all add: butlast_append one_effect_cycle_def)
      qed
    qed
  qed (use assms s in \<open>auto simp: watch_round_def\<close>)
qed

text \<open>C38. In one round of the resident supervisor, over all tasks and both kinds of recovery, at most one execution may have had an effect
  in a browser window, and it is the last one of the round: whatever the telemetry, the windows and other processes do, and also
  when the round ends with an exception.\<close>

theorem one_effect_per_round:
  "length (filter may_have_acted (fst (snd (watch_round Es T settings cwd seen d)))) \<le> 1
    \<and> \<not> list_ex may_have_acted (butlast (fst (snd (watch_round Es T settings cwd seen d))))"
proof -
  obtain d' acts r where w: "watch_round Es T settings cwd seen d = (d', acts, r)" by (metis prod_cases3)
  from round_effect [OF w] list_ex_filter [OF round_effect [OF w]] show ?thesis by (simp add: w)
qed

section \<open>One owner for each conversation\<close>

text \<open>The order in which tasks are preferred as the owner of a conversation.\<close>

definition owner_rank :: "task_record \<Rightarrow> bool \<times> timestamp \<times> string" where
  "owner_rank x = (starts_with AUTO_WATCH_TASK_PREFIX (tk_task_id x), tk_updated_at x, tk_task_id x)"

lemma set_first_occurrences [simp]: "set (first_occurrences xs) = set xs"
  by (induction xs) auto

lemma distinct_first_occurrences [simp]: "distinct (first_occurrences xs)"
  by (induction xs) auto

lemma fold_newer_task:
  "fold newer_task xs x \<in> set (x # xs)
    \<and> (\<forall>y \<in> set (x # xs). (tk_updated_at y, tk_task_id y) \<le> (tk_updated_at (fold newer_task xs x), tk_task_id (fold newer_task xs x)))"
proof (induction xs arbitrary: x)
  case (Cons z zs)
  let ?w = "newer_task z x"
  have w: "?w \<in> {x, z}" "(tk_updated_at x, tk_task_id x) \<le> (tk_updated_at ?w, tk_task_id ?w)"
      "(tk_updated_at z, tk_task_id z) \<le> (tk_updated_at ?w, tk_task_id ?w)"
    by (auto simp: newer_task_def)
  note best = Cons.IH [of ?w]
  then have "(tk_updated_at ?w, tk_task_id ?w) \<le> (tk_updated_at (fold newer_task zs ?w), tk_task_id (fold newer_task zs ?w))" by simp
  with w best show ?case by (auto intro: order_trans)
qed simp

lemma group_owner_best:
  assumes "cs \<noteq> []"
  shows "group_owner cs \<in> set cs" and "y \<in> set cs \<Longrightarrow> owner_rank y \<le> owner_rank (group_owner cs)"
proof -
  let ?auto = "filter (\<lambda>x. starts_with AUTO_WATCH_TASK_PREFIX (tk_task_id x)) cs"
  let ?pool = "if ?auto = [] then cs else ?auto"
  obtain z zs where pool: "?pool = z # zs" using assms by (cases ?pool) (auto split: if_splits)
  have owner: "group_owner cs = fold newer_task zs z" using pool by (simp add: group_owner_def Let_def)
  have in_pool: "group_owner cs \<in> set ?pool" using fold_newer_task [of zs z] unfolding owner pool by blast
  then show "group_owner cs \<in> set cs" by (auto split: if_splits)
  have best: "(tk_updated_at x, tk_task_id x) \<le> (tk_updated_at (group_owner cs), tk_task_id (group_owner cs))" if "x \<in> set ?pool" for x
    using fold_newer_task [of zs z] that unfolding owner pool by blast
  show "owner_rank y \<le> owner_rank (group_owner cs)" if y: "y \<in> set cs"
  proof (cases "?auto = []")
    case True
    then have "\<not> starts_with AUTO_WATCH_TASK_PREFIX (tk_task_id x)" if "x \<in> set cs" for x using that by (auto simp: filter_empty_conv)
    with True y best [of y] in_pool show ?thesis by (auto simp: owner_rank_def)
  next
    case False
    then have "starts_with AUTO_WATCH_TASK_PREFIX (tk_task_id (group_owner cs))" using in_pool by auto
    with False y best [of y] show ?thesis by (cases "y \<in> set ?auto") (auto simp: owner_rank_def)
  qed
qed

lemma keyed_tasks:
  assumes "map_result (\<lambda>x. rbind (f x) (\<lambda>k. Inr (k, x))) xs = Inr keyed"
  shows "keyed = map (\<lambda>x. (projr (f x), x)) xs" and "x \<in> set xs \<Longrightarrow> f x = Inr (projr (f x))"
  using assms by (induction xs arbitrary: keyed) auto

lemma known_values: "k \<in> the ` {x \<in> f ` A. \<exists>y. x = Some y} \<longleftrightarrow> Some k \<in> f ` A"
proof
  assume "Some k \<in> f ` A"
  then have "Some k \<in> {x \<in> f ` A. \<exists>y. x = Some y}" by simp
  then show "k \<in> the ` {x \<in> f ` A. \<exists>y. x = Some y}" by (rule rev_image_eqI) simp
qed (auto intro: rev_image_eqI)

text \<open>C39. Among the tasks that may be nudged each conversation has exactly one owner: the owners have different conversations, every
  conversation of an unfinished task with an active worker has one, and it is the preferred task of the conversation: a synthetic
  watch task before all others, then the one updated last.\<close>

theorem one_owner_per_conversation:
  assumes "list_tasks db = Inr tasks" and "canonical_overrun_tasks db = Inr owners"
  shows "distinct (map (overrun_key db) owners)
    \<and> set (map (overrun_key db) owners) = overrun_key db ` set tasks - {Inr None}
    \<and> list_all (\<lambda>t. t \<in> set tasks \<and> list_all (\<lambda>x. overrun_key db x = overrun_key db t \<longrightarrow> owner_rank x \<le> owner_rank t) tasks) owners"
proof -
  obtain keyed where k: "map_result (\<lambda>x. rbind (overrun_key db x) (\<lambda>k. Inr (k, x))) tasks = Inr keyed"
    and owners: "owners = map (\<lambda>k. group_owner (map snd (filter (\<lambda>kx. fst kx = Some k) keyed)))
      (first_occurrences (map the (filter (\<lambda>k. k \<noteq> None) (map fst keyed))))"
    using assms by (auto simp: canonical_overrun_tasks_def Let_def)
  define key where "key x = projr (overrun_key db x)" for x
  have keyed: "keyed = map (\<lambda>x. (key x, x)) tasks" using keyed_tasks(1) [OF k] by (simp add: key_def)
  have key: "overrun_key db x = Inr (key x)" if "x \<in> set tasks" for x using keyed_tasks(2) [OF k that] by (simp add: key_def)
  let ?keys = "first_occurrences (map the (filter (\<lambda>k. k \<noteq> None) (map key tasks)))"
  define owner where "owner k = group_owner (filter (\<lambda>x. key x = Some k) tasks)" for k
  have "map snd (filter (\<lambda>kx. fst kx = Some k) keyed) = filter (\<lambda>x. key x = Some k) tasks" for k
    unfolding keyed by (induction tasks) auto
  then have os: "owners = map owner ?keys" unfolding owners owner_def keyed by (simp add: o_def)
  have keys: "k \<in> set ?keys \<longleftrightarrow> Some k \<in> key ` set tasks" for k by (simp add: known_values)
  have own: "owner k \<in> set tasks \<and> key (owner k) = Some k" "x \<in> set tasks \<Longrightarrow> key x = Some k \<Longrightarrow> owner_rank x \<le> owner_rank (owner k)"
    if "k \<in> set ?keys" for k x
  proof -
    have "filter (\<lambda>x. key x = Some k) tasks \<noteq> []" using that unfolding keys by (auto simp: filter_empty_conv)
    note best = group_owner_best [OF this, folded owner_def]
    show "owner k \<in> set tasks \<and> key (owner k) = Some k" using best(1) by simp
    show "x \<in> set tasks \<Longrightarrow> key x = Some k \<Longrightarrow> owner_rank x \<le> owner_rank (owner k)" using best(2) [of x] by simp
  qed
  have key_owner: "overrun_key db (owner k) = Inr (Some k)" if "k \<in> set ?keys" for k using own(1) [OF that] key by simp
  then have ms: "map (overrun_key db) owners = map (\<lambda>k. Inr (Some k)) ?keys" unfolding os by simp
  have "distinct (map (overrun_key db) owners)" unfolding ms by (simp add: distinct_map inj_on_def)
  moreover have "set (map (overrun_key db) owners) = overrun_key db ` set tasks - {Inr None}"
    unfolding ms set_map using key by (auto simp: keys image_iff) (metis option.exhaust)
  moreover have "list_all (\<lambda>t. t \<in> set tasks \<and> list_all (\<lambda>x. overrun_key db x = overrun_key db t \<longrightarrow> owner_rank x \<le> owner_rank t) tasks) owners"
    using own key_owner key unfolding os by (auto simp: list_all_iff)
  ultimately show ?thesis by blast
qed

section \<open>Where containment ends\<close>

text \<open>A window that shows the conversation of a worker that is not active cannot be bound to it.\<close>

lemma refresh_inactive_worker:
  assumes "get_task (fst d) t = Inr task" "tk_current_worker_id task = Some (wk_worker_id w)" "wk_worker_id w \<noteq> []"
    "get_worker (fst d) (wk_worker_id w) = Inr w" "wk_status w \<noteq> WS_ACTIVE"
    and "we_observe E w (latest_browser_observation d (Some (wk_worker_id w)))
      (map_option wb_window_handle (get_fresh_window_binding (fst d) (wk_worker_id w) (we_now E))) = Inr x"
    and "bo_worker_id x = wk_worker_id w" "present (bo_url x)" "present (we_chrome E)"
      "json_get (bo_raw x) ''window_handle'' = JInt h" "json_get (bo_raw x) ''browser_pid'' = JInt p"
  shows "\<exists>f tables. watch_refresh_uia E d t
    = ((update_worker_row (wk_worker_id w) f (fst d), tables), Inl (ValueError ''window binding requires an active worker''))"
proof -
  have found: "find_worker (fst d) (wk_worker_id w) \<noteq> None" using assms(4) by (auto simp: get_worker_def split: option.splits)
  let ?db = "update_worker_row (wk_worker_id w) (\<lambda>r. r\<lparr>wr_last_seen_at := Some (bo_observed_at x)\<rparr>) (fst d)"
  have rec: "record_browser_observation d x = ((?db, (snd d)\<lparr>et_browser := ev_record bo_worker_id bo_observed_at
      OBSERVATION_RETENTION_PER_ENTITY x (et_browser (snd d))\<rparr>), Inr ())"
    using found assms(7) by (simp add: record_browser_observation_def)
  obtain w' where w': "get_worker ?db (wk_worker_id w) = Inr w'" "wk_status w' \<noteq> WS_ACTIVE"
    using assms(4,5) by (auto simp: get_worker_def find_worker_def update_worker_row_def tbl_find_update split: option.splits)
  have "bind_seen_window E w x (?db, tables) = ((?db, tables), Inl (ValueError ''window binding requires an active worker''))" for tables
    using assms(8-11) w' by (simp add: bind_seen_window_def on_registry_def bind_worker_window_def reading_def Let_def)
  then show ?thesis
    using assms(1-4,6) rec by (auto simp: watch_refresh_uia_def reading_def present_def Let_def)
qed

text \<open>C40. A task whose current worker is not active, but whose conversation is open in a window, does not disturb the scan: its failure is
  recorded and the task is reported for attention. But as soon as the recovery of delivery errors reaches the reported task it
  raises the same error, which ends the resident supervisor.\<close>

theorem inactive_worker_ends_round:
  assumes "get_task (fst d) t = Inr task" "tk_current_worker_id task = Some (wk_worker_id w)" "wk_worker_id w \<noteq> []"
    "get_worker (fst d) (wk_worker_id w) = Inr w" "wk_status w \<noteq> WS_ACTIVE"
    and "we_observe E w (latest_browser_observation d (Some (wk_worker_id w)))
      (map_option wb_window_handle (get_fresh_window_binding (fst d) (wk_worker_id w) (we_now E))) = Inr x"
    and "bo_worker_id x = wk_worker_id w" "present (bo_url x)" "present (we_chrome E)"
      "json_get (bo_raw x) ''window_handle'' = JInt h" "json_get (bo_raw x) ''browser_pid'' = JInt p"
    and "we_lease E = None" "we_lsm E = None" "\<not> protocol_state_exists (fst d) t" "unresolved_action_attempt (fst d) t = Inr None"
  shows "(\<exists>a. snd (contained_assessment E policy True task d) = Inr (task, a) \<and> as_state a = SS_NEEDS_HUMAN)
    \<and> (\<exists>d'. timeout_step T timeouts E t d = (d', [], Inl (ValueError ''window binding requires an active worker'')))"
proof -
  have t: "tk_task_id task = t"
    using assms(1) by (auto simp: get_task_def find_task_def dest!: tbl_find_SomeD split: option.splits)
  obtain d1 f where u: "watch_refresh_uia E d t = (d1, Inl (ValueError ''window binding requires an active worker''))"
    and d1: "fst d1 = update_worker_row (wk_worker_id w) f (fst d)"
    using refresh_inactive_worker [OF assms(1-11)] by auto
  have "timeout_step T timeouts E t d = (d1, [], Inl (ValueError ''window binding requires an active worker''))"
    using u assms(12,15) by (simp add: timeout_step_def alive_step_def keepalive_def)
  moreover have "watch_assessment E policy False True d t = (d1, Inl (ValueError ''window binding requires an active worker''))"
    using u assms(1,13,14) t
    by (simp add: watch_assessment_def live_assessment_def watch_refresh_lsm_def quiet_refresh_uia_def reading_def Let_def)
  then have "contained_assessment E policy True task d = sbind (record_recovery_event d1 t ''watchdog_scan_error'' False
      (as_reason (needs_human ''watchdog task observation failed: ValueError: window binding requires an active worker'' ''watchdog.task_observation_error=true''))
      [(''error_type'', JStr ''ValueError'')] (we_now E)) (\<lambda>d _. (d, Inr (task,
        needs_human ''watchdog task observation failed: ValueError: window binding requires an active worker'' ''watchdog.task_observation_error=true'')))"
    unfolding contained_assessment_def by (simp add: t Let_def)
  moreover have "get_task (fst d1) t = Inr task" using assms(1) d1 by (simp add: get_task_def find_task_def update_worker_row_def)
  ultimately show ?thesis
    by (auto simp: record_recovery_event_def needs_human_def mk_assessment_def)
qed

section \<open>Instances\<close>

definition demo_row :: "string \<Rightarrow> string \<Rightarrow> timestamp \<Rightarrow> task_row" where
  "demo_row t w updated = \<lparr>tr_task_id = t, tr_project = ''p'', tr_objective = ''o'', tr_cwd = ''c'', tr_state = ''RUNNING'',
     tr_lsm_session_id = None, tr_checkpoint = [], tr_current_worker_id = Some w, tr_recovery_attempts = 0,
     tr_max_recovery_attempts = 3, tr_created_at = 0, tr_updated_at = updated\<rparr>"

definition demo_worker_row :: "string \<Rightarrow> string \<Rightarrow> string \<Rightarrow> worker_row" where
  "demo_worker_row w t status = \<lparr>wr_worker_id = w, wr_task_id = t, wr_conversation_url = ''https://c/1'',
     wr_conversation_id = None, wr_status = status, wr_started_at = 0, wr_last_seen_at = None, wr_ended_at = None\<rparr>"

text \<open>Two tasks for one conversation; the second one is older but watches it.\<close>

definition demo_aliases :: registry where
  "demo_aliases = empty_registry\<lparr>
     db_tasks := [demo_row ''t1'' ''w1'' 9, demo_row ''watch-chat-x'' ''w2'' 5],
     db_workers := [demo_worker_row ''w1'' ''t1'' ''active'', demo_worker_row ''w2'' ''watch-chat-x'' ''active'']\<rparr>"

theorem one_owner_per_conversation_witness:
  "\<exists>owners. canonical_overrun_tasks demo_aliases = Inr owners \<and> map tk_task_id owners = [''watch-chat-x'']
    \<and> distinct (map (overrun_key demo_aliases) owners)"
proof -
  have "(case list_tasks demo_aliases of Inl _ \<Rightarrow> False | Inr ts \<Rightarrow> True)" by code_simp
  then obtain ts where ts: "list_tasks demo_aliases = Inr ts" by (auto split: sum.splits)
  have "(case canonical_overrun_tasks demo_aliases of Inl _ \<Rightarrow> False
    | Inr os \<Rightarrow> map tk_task_id os = [''watch-chat-x''])" by code_simp
  then obtain os where os: "canonical_overrun_tasks demo_aliases = Inr os" "map tk_task_id os = [''watch-chat-x'']"
    by (auto split: sum.splits)
  have "distinct (map (overrun_key demo_aliases) os)" using one_owner_per_conversation [OF ts os(1)] by (rule conjunct1)
  with os show ?thesis by (intro exI [of _ os] conjI)
qed

text \<open>A parked worker whose conversation is still open in a window.\<close>

definition demo_inactive :: database where
  "demo_inactive = (empty_registry\<lparr>db_tasks := [demo_row ''t1'' ''w1'' 9], db_workers := [demo_worker_row ''w1'' ''t1'' ''parked'']\<rparr>,
     empty_tables)"

definition demo_inactive_worker :: worker_record where
  "demo_inactive_worker = \<lparr>wk_worker_id = ''w1'', wk_task_id = ''t1'', wk_conversation_url = ''https://c/1'',
     wk_conversation_id = None, wk_status = WS_PARKED, wk_started_at = 0, wk_last_seen_at = None, wk_ended_at = None\<rparr>"

definition demo_window_seen :: browser_observation where
  "demo_window_seen = \<lparr>bo_worker_id = ''w1'', bo_observed_at = 100, bo_url = Some ''https://c/1'',
     bo_generating = Some False, bo_send_button_ready = Some True, bo_pending_tool_calls = None, bo_visible_error = None,
     bo_last_dom_change_at = None, bo_message_signature = Some ''m'', bo_raw = [(''window_handle'', JInt 7), (''browser_pid'', JInt 9)]\<rparr>"

definition demo_env :: watch_env where
  "demo_env = \<lparr>we_now = 100, we_lease = None, we_lsm = None, we_workspace = (\<lambda>_ _. Inl (TimeoutError [])), we_chrome = Some ''chrome'',
     we_probe_timeout_s = 8, we_observe = (\<lambda>_ _ _. Inr demo_window_seen), we_ack = (\<lambda>_ _ _ _ _ _. Inl (UiaActionUnavailable [])),
     we_transport = (\<lambda>_. DisabledActionTransport), we_others = (\<lambda>db. db), we_fresh = (''a'', ''b'', ''c''), we_submitted_at = 100\<rparr>"

definition demo_tools :: watch_tools where
  "demo_tools = \<lparr>wt_sha256 = (\<lambda>x. x), wt_dumps = (\<lambda>_. []), wt_checkpoint_digest = (\<lambda>_. []), wt_digest = (\<lambda>_. []), wt_plan = (\<lambda>_. JNull),
     wt_float = (\<lambda>_. JNull)\<rparr>"

theorem inactive_worker_ends_round_witness:
  "\<exists>task d'. get_task (fst demo_inactive) ''t1'' = Inr task
    \<and> timeout_step demo_tools \<lparr>tr_enabled = True, tr_cooldown_s = 60\<rparr> demo_env ''t1'' demo_inactive
        = (d', [], Inl (ValueError ''window binding requires an active worker''))"
proof -
  let ?w = demo_inactive_worker
  have "(case get_task (fst demo_inactive) ''t1'' of Inl _ \<Rightarrow> False | Inr task \<Rightarrow> tk_current_worker_id task = Some ''w1'')" by code_simp
  then obtain task where task: "get_task (fst demo_inactive) ''t1'' = Inr task" "tk_current_worker_id task = Some ''w1''"
    by (auto split: sum.splits)
  have w: "get_worker (fst demo_inactive) (wk_worker_id ?w) = Inr ?w" by code_simp
  have u: "unresolved_action_attempt (fst demo_inactive) ''t1'' = Inr None" "\<not> protocol_state_exists (fst demo_inactive) ''t1''" by code_simp+
  have "\<exists>d'. timeout_step demo_tools \<lparr>tr_enabled = True, tr_cooldown_s = 60\<rparr> demo_env ''t1'' demo_inactive
        = (d', [], Inl (ValueError ''window binding requires an active worker''))"
    using inactive_worker_ends_round [OF task(1) _ _ w, where E = demo_env and x = demo_window_seen and h = 7 and p = 9
      and T = demo_tools and timeouts = "\<lparr>tr_enabled = True, tr_cooldown_s = 60\<rparr>" and policy = default_watch_policy] task(2) u
    by (simp add: demo_inactive_worker_def demo_env_def demo_window_seen_def present_def json_get_def)
  with task(1) show ?thesis by blast
qed

end
