(* ===== verification/Dom_Evidence.thy ===== *)
theory Dom_Evidence
  imports Uia
begin

text \<open>
  How raw readings become observations: the payload of a DOM probe (\<^verbatim>\<open>browser.py\<close>), the reading of the accessibility probe
  (\<^verbatim>\<open>uia.py\<close>) and a sample of the network domain (\<^verbatim>\<open>cdp.py\<close>). The labels of the buttons are arguments, because those of the
  sources are not all ASCII; the serialisation of buttons, the digest and the clock are arguments, too.
\<close>

section \<open>DOM payloads\<close>

record dom_button =
  db_text :: string
  db_disabled :: bool
  db_other :: json_object

record dom_payload =
  dp_observed_at :: "timestamp option"
  dp_url :: "string option"
  dp_text_tail :: "string option"
  dp_signature_reliable :: bool
  dp_message_signature :: "string option"
  dp_last_dom_change_at :: "timestamp option"
  dp_generating :: "bool option"
  dp_send_button_ready :: "bool option"
  dp_pending_tool_calls :: "int option"
  dp_visible_error :: "string option"
  dp_buttons :: "dom_button list"
  dp_raw :: json_object

definition text_or_none :: "string option \<Rightarrow> string option" where
  "text_or_none x = (case x of None \<Rightarrow> None | Some s \<Rightarrow> if strip s = [] then None else Some (strip s))"

text \<open>\<^verbatim>\<open>re.sub(r"\s+", " ", s).strip()\<close>.\<close>

definition one_line :: "string \<Rightarrow> string" where
  "one_line s = join '' '' (split_ws s)"

definition digest_signature :: "(string \<Rightarrow> string) \<Rightarrow> (dom_button list \<Rightarrow> string) \<Rightarrow> string \<Rightarrow> dom_button list \<Rightarrow> string" where
  "digest_signature sha256 dumps text_tail buttons = sha256 (one_line text_tail @ newline @ dumps buttons)"

definition payload_signature :: "(string \<Rightarrow> string) \<Rightarrow> (dom_button list \<Rightarrow> string) \<Rightarrow> dom_payload \<Rightarrow> string option" where
  "payload_signature sha256 dumps p = (case text_or_none (dp_message_signature p) of
     Some s \<Rightarrow> Some s
   | None \<Rightarrow> if \<not> dp_signature_reliable p then None
       else map_option (\<lambda>x. digest_signature sha256 dumps x (dp_buttons p)) (text_or_none (dp_text_tail p)))"

definition time_or :: "timestamp option \<Rightarrow> timestamp \<Rightarrow> timestamp" where
  "time_or t now = (case t of None \<Rightarrow> now | Some x \<Rightarrow> if x = 0 then now else x)"

definition observation_from_dom_payload ::
  "(string \<Rightarrow> string) \<Rightarrow> (dom_button list \<Rightarrow> string) \<Rightarrow> string \<Rightarrow> dom_payload \<Rightarrow> browser_observation option \<Rightarrow> timestamp \<Rightarrow> browser_observation" where
  "observation_from_dom_payload sha256 dumps worker_id p previous now =
     (let observed_at = time_or (dp_observed_at p) now; signature = payload_signature sha256 dumps p;
          changed = (case dp_last_dom_change_at p of
              Some t \<Rightarrow> Some t
            | None \<Rightarrow> if signature = None then None
                else (case previous of
                    Some b \<Rightarrow> if bo_message_signature b = signature
                      then Some (time_or (bo_last_dom_change_at b) (bo_observed_at b)) else Some observed_at
                  | None \<Rightarrow> Some observed_at)) in
      \<lparr>bo_worker_id = worker_id, bo_observed_at = observed_at, bo_url = dp_url p, bo_generating = dp_generating p,
       bo_send_button_ready = dp_send_button_ready p, bo_pending_tool_calls = dp_pending_tool_calls p,
       bo_visible_error = text_or_none (dp_visible_error p), bo_last_dom_change_at = changed, bo_message_signature = signature,
       bo_raw = dp_raw p\<rparr>)"

definition normalized_label :: "string \<Rightarrow> string" where
  "normalized_label s = one_line (lower s)"

definition infer_generating :: "string list \<Rightarrow> dom_button list \<Rightarrow> bool option" where
  "infer_generating stop_labels buttons =
     (if list_ex (\<lambda>b. list_ex (\<lambda>m. contains m (normalized_label (db_text b))) stop_labels)
         (filter (\<lambda>b. normalized_label (db_text b) \<noteq> []) buttons) then Some True else None)"

definition is_label :: "string list \<Rightarrow> string \<Rightarrow> bool" where
  "is_label labels s = list_ex (\<lambda>m. s = m \<or> starts_with (m @ '' '') s) labels"

definition infer_send_ready :: "string list \<Rightarrow> dom_button list \<Rightarrow> bool option" where
  "infer_send_ready send_labels buttons =
     map_option (\<lambda>b. \<not> db_disabled b)
       (find (\<lambda>b. normalized_label (db_text b) \<noteq> [] \<and> is_label send_labels (normalized_label (db_text b))) buttons)"

text \<open>The patterns of both sources; \<^verbatim>\<open>rfind\<close> as the rightmost offset at which the pattern stands.\<close>

definition ERROR_MARKERS :: "string list" where
  "ERROR_MARKERS = [''message delivery timed out'', ''error in message stream'', ''there was an error generating a response'',
     ''something went wrong'']"

definition rfind :: "string \<Rightarrow> string \<Rightarrow> nat option" where
  "rfind m s = find (\<lambda>i. starts_with m (drop i s)) (List.rev [0..<Suc (length s)])"

text \<open>\<^verbatim>\<open>splitlines()[0]\<close> of a non-empty string: everything before the first line boundary of Latin-1.\<close>

definition first_line :: "string \<Rightarrow> string" where
  "first_line s = takeWhile (\<lambda>c. char_code c \<notin> {10, 11, 12, 13, 28, 29, 30, 133}) s"

definition find_visible_error :: "string \<Rightarrow> string option" where
  "find_visible_error text =
     (case find (\<lambda>m. contains m (lower text)) ERROR_MARKERS of
        None \<Rightarrow> None
      | Some m \<Rightarrow> map_option (\<lambda>i. strip (first_line (take (max 160 (length m)) (drop i text)))) (rfind m (lower text)))"

text \<open>A snapshot of the browser tool: the body is cut at its end, so a truncated one gives no signature.\<close>

record snapshot_element =
  se_text :: string
  se_disabled :: bool
  se_tag :: string
  se_role :: string
  se_type :: string

record browser_snapshot =
  sn_url :: "string option"
  sn_text :: string
  sn_text_truncated :: bool
  sn_page_id :: json
  sn_elements :: "snapshot_element list"
  sn_errors :: nat
  sn_network :: nat

definition snapshot_buttons :: "browser_snapshot \<Rightarrow> dom_button list" where
  "snapshot_buttons s = map (\<lambda>e. \<lparr>db_text = se_text e, db_disabled = se_disabled e,
       db_other = [(''tag'', JStr (se_tag e)), (''role'', JStr (se_role e)), (''type'', JStr (se_type e))]\<rparr>)
     (filter (\<lambda>e. se_tag e = ''button'' \<or> se_role e = ''button'') (sn_elements s))"

definition dom_payload_from_lsm_snapshot :: "string list \<Rightarrow> string list \<Rightarrow> browser_snapshot \<Rightarrow> dom_payload" where
  "dom_payload_from_lsm_snapshot stop_labels send_labels s =
     \<lparr>dp_observed_at = None, dp_url = sn_url s, dp_text_tail = (if sn_text_truncated s then None else Some (sn_text s)),
      dp_signature_reliable = (\<not> sn_text_truncated s), dp_message_signature = None, dp_last_dom_change_at = None,
      dp_generating = infer_generating stop_labels (snapshot_buttons s),
      dp_send_button_ready = infer_send_ready send_labels (snapshot_buttons s), dp_pending_tool_calls = None,
      dp_visible_error = find_visible_error (sn_text s), dp_buttons = snapshot_buttons s,
      dp_raw = [(''source'', JStr ''lsm_browser_snapshot''), (''page_id'', sn_page_id s),
        (''text_truncated'', JBool (sn_text_truncated s)), (''snapshot_error_count'', JInt (int (sn_errors s))),
        (''snapshot_network_event_count'', JInt (int (sn_network s)))]\<rparr>"

definition observation_from_lsm_snapshot ::
  "(string \<Rightarrow> string) \<Rightarrow> (dom_button list \<Rightarrow> string) \<Rightarrow> string list \<Rightarrow> string list \<Rightarrow> string \<Rightarrow> browser_snapshot \<Rightarrow> browser_observation option
     \<Rightarrow> timestamp \<Rightarrow> browser_observation" where
  "observation_from_lsm_snapshot sha256 dumps stop_labels send_labels worker_id s previous now =
     observation_from_dom_payload sha256 dumps worker_id (dom_payload_from_lsm_snapshot stop_labels send_labels s) previous now"

section \<open>The reading of the accessibility probe\<close>

record uia_button =
  ub_text :: string
  ub_enabled :: bool
  ub_offscreen :: bool
  ub_automation_id :: json

record uia_result =
  ur_error :: string
  ur_observed_at :: "timestamp option"
  ur_address :: string
  ur_buttons :: "uia_button list"
  ur_text_tail :: string
  ur_visible_text_tail :: string
  ur_fields :: json_object

text \<open>\<^verbatim>\<open>marker[:1].upper() + marker[1:]\<close>, for markers that begin with an ASCII letter.\<close>

definition upper_char :: "char \<Rightarrow> char" where
  "upper_char c = (if 97 \<le> char_code c \<and> char_code c \<le> 122 then char_of (char_code c - 32) else c)"

definition capitalized :: "string \<Rightarrow> string" where
  "capitalized s = map upper_char (take 1 s) @ drop 1 s"

definition with_scheme :: "string \<Rightarrow> string" where
  "with_scheme address = (if starts_with ''http://'' (lower address) \<or> starts_with ''https://'' (lower address) then address
     else ''https://'' @ address)"

definition uia_dom_button :: "uia_button \<Rightarrow> dom_button" where
  "uia_dom_button b = \<lparr>db_text = ub_text b, db_disabled = (\<not> ub_enabled b),
     db_other = [(''offscreen'', JBool (ub_offscreen b)), (''automation_id'', ub_automation_id b)]\<rparr>"

definition uia_raw :: "uia_result \<Rightarrow> json_object" where
  "uia_raw r = (''source'', JStr ''windows_uia_chrome'') # map (\<lambda>k. (k, json_get (ur_fields r) k))
     [''browser_pid'', ''window_handle'', ''composer_present'', ''text_elements'', ''visible_text_elements'', ''element_count'',
      ''process_working_set_bytes'']"

definition payload_from_uia_result :: "string list \<Rightarrow> string list \<Rightarrow> uia_result \<Rightarrow> timestamp \<Rightarrow> dom_payload result" where
  "payload_from_uia_result stop_markers send_markers r now =
     rbind (guard (ur_error r = []) (UiaProbeUnavailable (ur_error r))) (\<lambda>_.
     let label = (\<lambda>b. lower (strip (ub_text b)));
         stop_visible = list_ex (\<lambda>b. list_ex (\<lambda>m. contains m (label b)) stop_markers) (ur_buttons r);
         send_ready = map_option (\<lambda>b. ub_enabled b \<and> \<not> ub_offscreen b) (find (\<lambda>b. is_label send_markers (label b)) (ur_buttons r));
         composer_present = json_truthy (json_get (ur_fields r) ''composer_present'') in
     Inr \<lparr>dp_observed_at = Some (time_or (ur_observed_at r) now), dp_url = Some (with_scheme (strip (ur_address r))),
       dp_text_tail = Some (ur_text_tail r), dp_signature_reliable = True, dp_message_signature = None, dp_last_dom_change_at = None,
       dp_generating = (if stop_visible then Some True else if send_ready = Some True \<or> composer_present then Some False else None),
       dp_send_button_ready = send_ready, dp_pending_tool_calls = None,
       dp_visible_error = map_option capitalized (find (\<lambda>m. contains m (lower (ur_visible_text_tail r))) ERROR_MARKERS),
       dp_buttons = map uia_dom_button (drop (length (ur_buttons r) - 200) (ur_buttons r)), dp_raw = uia_raw r\<rparr>)"

definition uia_observe ::
  "(string \<Rightarrow> string) \<Rightarrow> (dom_button list \<Rightarrow> string) \<Rightarrow> string list \<Rightarrow> string list \<Rightarrow> uia_result result \<Rightarrow> worker_record \<Rightarrow> browser_observation option
     \<Rightarrow> timestamp \<Rightarrow> browser_observation result" where
  "uia_observe sha256 dumps stop_markers send_markers probed w previous now =
     rbind probed (\<lambda>r.
     rbind (payload_from_uia_result stop_markers send_markers r now) (\<lambda>p.
     rbind (guard (uia_normalize_url (the (dp_url p)) = uia_normalize_url (wk_conversation_url w))
       (UiaProbeUnavailable (''UIA address mismatch: expected '' @ py_repr (uia_normalize_url (wk_conversation_url w)) @ '', observed ''
          @ py_repr (uia_normalize_url (the (dp_url p)))))) (\<lambda>_.
     Inr (observation_from_dom_payload sha256 dumps (wk_worker_id w) p previous now))))"

section \<open>Network samples\<close>

text \<open>
  An event of the network domain, with the host that \<^verbatim>\<open>urlsplit\<close> reads in its URL (empty without one) and the status as the
  counter spells it.
\<close>

datatype cdp_event =
  CE_REQUEST string string string | CE_RESPONSE "string option" string | CE_DATA int | CE_FINISHED string | CE_FAILED string string
  | CE_FRAME

type_synonym counter = "(string \<times> int) list"

record network_counts =
  nc_events :: int
  nc_requests :: int
  nc_responses :: int
  nc_data_events :: int
  nc_encoded_bytes :: int
  nc_finished :: int
  nc_failed :: int
  nc_frames :: int
  nc_last_activity_at :: "timestamp option"
  nc_inflight :: "string list"
  nc_origins :: counter
  nc_resource_types :: counter
  nc_statuses :: counter
  nc_failures :: "string list"

definition no_counts :: "timestamp option \<Rightarrow> network_counts" where
  "no_counts t = \<lparr>nc_events = 0, nc_requests = 0, nc_responses = 0, nc_data_events = 0, nc_encoded_bytes = 0, nc_finished = 0,
     nc_failed = 0, nc_frames = 0, nc_last_activity_at = t, nc_inflight = [], nc_origins = [], nc_resource_types = [], nc_statuses = [],
     nc_failures = []\<rparr>"

text \<open>\<^verbatim>\<open>Counter[k] += 1\<close>, keys in the order of their first use, and \<^verbatim>\<open>most_common(20)\<close>, which keeps that order among equals.\<close>

fun tally :: "string \<Rightarrow> counter \<Rightarrow> counter" where
  "tally k [] = [(k, 1)]"
| "tally k ((k', n) # c) = (if k' = k then (k', n + 1) # c else (k', n) # tally k c)"

definition most_common :: "counter \<Rightarrow> counter" where
  "most_common c = take 20 (sort_key (\<lambda>(k, n). - n) c)"

definition tally_host :: "string \<Rightarrow> counter \<Rightarrow> counter" where
  "tally_host host c = (if host = [] then c else tally host c)"

definition activity :: "timestamp \<Rightarrow> network_counts \<Rightarrow> network_counts" where
  "activity t n = n\<lparr>nc_events := nc_events n + 1, nc_last_activity_at := Some t\<rparr>"

definition request_will_be_sent :: "string \<Rightarrow> string \<Rightarrow> string \<Rightarrow> network_counts \<Rightarrow> network_counts" where
  "request_will_be_sent i host type n = n\<lparr>nc_requests := nc_requests n + 1,
     nc_inflight := (if i = [] then nc_inflight n else List.insert i (nc_inflight n)), nc_origins := tally_host host (nc_origins n),
     nc_resource_types := tally (if type = [] then ''unknown'' else type) (nc_resource_types n)\<rparr>"

definition response_received :: "string option \<Rightarrow> string \<Rightarrow> network_counts \<Rightarrow> network_counts" where
  "response_received status host n = n\<lparr>nc_responses := nc_responses n + 1,
     nc_statuses := (case status of None \<Rightarrow> nc_statuses n | Some s \<Rightarrow> tally s (nc_statuses n)),
     nc_origins := tally_host host (nc_origins n)\<rparr>"

definition data_received :: "int \<Rightarrow> network_counts \<Rightarrow> network_counts" where
  "data_received b n = n\<lparr>nc_data_events := nc_data_events n + 1,
     nc_encoded_bytes := (if 0 < b then nc_encoded_bytes n + b else nc_encoded_bytes n)\<rparr>"

definition loading_finished_event :: "string \<Rightarrow> network_counts \<Rightarrow> network_counts" where
  "loading_finished_event i n = n\<lparr>nc_finished := nc_finished n + 1,
     nc_inflight := (if i = [] then nc_inflight n else removeAll i (nc_inflight n))\<rparr>"

definition loading_failed_event :: "string \<Rightarrow> string \<Rightarrow> network_counts \<Rightarrow> network_counts" where
  "loading_failed_event i err n = n\<lparr>nc_failed := nc_failed n + 1,
     nc_inflight := (if i = [] then nc_inflight n else removeAll i (nc_inflight n)),
     nc_failures := (if strip err \<noteq> [] \<and> strip err \<notin> set (nc_failures n) \<and> length (nc_failures n) < 20
       then nc_failures n @ [take 300 (strip err)] else nc_failures n)\<rparr>"

definition websocket_frame :: "network_counts \<Rightarrow> network_counts" where
  "websocket_frame n = n\<lparr>nc_frames := nc_frames n + 1\<rparr>"

fun count_event :: "timestamp \<times> cdp_event \<Rightarrow> network_counts \<Rightarrow> network_counts" where
  "count_event (t, CE_REQUEST i host type) n = request_will_be_sent i host type (activity t n)"
| "count_event (t, CE_RESPONSE status host) n = response_received status host (activity t n)"
| "count_event (t, CE_DATA b) n = data_received b (activity t n)"
| "count_event (t, CE_FINISHED i) n = loading_finished_event i (activity t n)"
| "count_event (t, CE_FAILED i err) n = loading_failed_event i err (activity t n)"
| "count_event (t, CE_FRAME) n = websocket_frame (activity t n)"

definition count_events :: "timestamp option \<Rightarrow> (timestamp \<times> cdp_event) list \<Rightarrow> network_counts" where
  "count_events previous es = fold count_event es (no_counts previous)"

definition quiet_since :: "network_counts \<Rightarrow> timestamp option \<Rightarrow> timestamp \<Rightarrow> timestamp" where
  "quiet_since n previous_quiet started = (case nc_last_activity_at n of
     Some t \<Rightarrow> if 0 < nc_events n then t else time_or previous_quiet started
   | None \<Rightarrow> time_or previous_quiet started)"

text \<open>The dictionary of the raw context holds nested dictionaries; \<open>context_json\<close> renders the counters into it.\<close>

definition sample_cdp_session ::
  "(real \<Rightarrow> counter \<Rightarrow> counter \<Rightarrow> counter \<Rightarrow> string list \<Rightarrow> json_object) \<Rightarrow> (timestamp \<times> cdp_event) list \<Rightarrow> string \<Rightarrow> string \<Rightarrow> real \<Rightarrow> string
     \<Rightarrow> json_object \<Rightarrow> timestamp option \<Rightarrow> timestamp option \<Rightarrow> timestamp \<Rightarrow> timestamp \<Rightarrow> network_observation" where
  "sample_cdp_session context_json es worker_id page_url sample_s source raw_context previous_activity previous_quiet started ended =
     (let n = count_events previous_activity es in
      \<lparr>no_worker_id = worker_id, no_observed_at = ended, no_source = source, no_sample_started_at = started, no_sample_ended_at = ended,
       no_page_url = Some page_url, no_event_count = nc_events n, no_request_count = nc_requests n, no_response_count = nc_responses n,
       no_data_event_count = nc_data_events n, no_encoded_data_bytes = nc_encoded_bytes n, no_loading_finished = nc_finished n,
       no_loading_failed = nc_failed n, no_websocket_frames = nc_frames n, no_last_activity_at = nc_last_activity_at n,
       no_quiet_since_at = Some (quiet_since n previous_quiet started), no_inflight_requests = int (length (nc_inflight n)),
       no_raw = raw_context @ context_json (max (1 / 100) sample_s) (most_common (nc_origins n)) (most_common (nc_resource_types n))
         (most_common (nc_statuses n)) (nc_failures n)\<rparr>)"

text \<open>
  The probe of a browser that is already open: it looks for the page of the exact conversation and never opens one. The pages that
  the attached browser shows and the events of the page chosen are arguments, the first one an error when the connection fails.
\<close>

definition cdp_sample ::
  "(real \<Rightarrow> counter \<Rightarrow> counter \<Rightarrow> counter \<Rightarrow> string list \<Rightarrow> json_object) \<Rightarrow> string list result \<Rightarrow> (string \<Rightarrow> (timestamp \<times> cdp_event) list)
     \<Rightarrow> worker_record \<Rightarrow> real \<Rightarrow> json_object \<Rightarrow> network_observation option \<Rightarrow> timestamp \<Rightarrow> timestamp \<Rightarrow> network_observation result" where
  "cdp_sample context_json pages events w sample_s raw_context previous started ended =
     rbind pages (\<lambda>urls.
     case find (\<lambda>u. uia_normalize_url u = uia_normalize_url (wk_conversation_url w)) urls of
       None \<Rightarrow> Inl (CdpProbeUnavailable (''no CDP page matched the exact registered conversation URL; attached browser exposes ''
         @ str_int (int (length urls)) @ '' page(s)''))
     | Some u \<Rightarrow> Inr (sample_cdp_session context_json (events u) (wk_worker_id w) u sample_s ''cdp'' raw_context
         (Option.bind previous no_last_activity_at) (Option.bind previous no_quiet_since_at) started ended))"

section \<open>Silence\<close>

text \<open>A truncated snapshot never resets the time of the last change: it has no signature, hence no change.\<close>

lemma truncated_snapshot_no_heartbeat:
  assumes "sn_text_truncated s"
  shows "bo_message_signature (observation_from_lsm_snapshot sha256 dumps stops sends w s previous now) = None
    \<and> bo_last_dom_change_at (observation_from_lsm_snapshot sha256 dumps stops sends w s previous now) = None"
  using assms by (simp add: observation_from_lsm_snapshot_def observation_from_dom_payload_def dom_payload_from_lsm_snapshot_def
      payload_signature_def text_or_none_def Let_def)

text \<open>An observation that passes the probe is one of the page of the worker's conversation.\<close>

lemma uia_observe_address:
  assumes "uia_observe sha256 dumps stops sends probed w previous now = Inr b"
  shows "\<exists>u. bo_url b = Some u \<and> uia_normalize_url u = uia_normalize_url (wk_conversation_url w) \<and> bo_worker_id b = wk_worker_id w"
  using assms by (auto simp: uia_observe_def payload_from_uia_result_def observation_from_dom_payload_def rbind_def guard_def Let_def
      split: sum.splits if_splits)

lemma find_holds: "find P xs = Some x \<Longrightarrow> P x"
  by (auto simp: find_Some_iff)

lemma cdp_sample_address:
  assumes "cdp_sample ctx pages events w s raw previous t t' = Inr b"
  shows "\<exists>u. no_page_url b = Some u \<and> uia_normalize_url u = uia_normalize_url (wk_conversation_url w) \<and> no_worker_id b = wk_worker_id w"
proof (cases pages)
  case (Inl e)
  then show ?thesis using assms by (simp add: cdp_sample_def)
next
  case (Inr urls)
  show ?thesis
  proof (cases "find (\<lambda>u. uia_normalize_url u = uia_normalize_url (wk_conversation_url w)) urls")
    case None
    then show ?thesis using assms Inr by (simp add: cdp_sample_def)
  next
    case (Some u)
    then show ?thesis using assms Inr find_holds [OF Some] by (auto simp: cdp_sample_def sample_cdp_session_def Let_def)
  qed
qed

text \<open>As long as the page shows the same signature, the time of its last change stays the one of the first observation.\<close>

lemma unchanged_signature_keeps_time:
  assumes "payload_signature sha256 dumps p = Some s" and "dp_last_dom_change_at p = None"
    and "bo_message_signature b = Some s" and "bo_last_dom_change_at b = Some t" and "t \<noteq> 0"
  shows "bo_last_dom_change_at (observation_from_dom_payload sha256 dumps w p (Some b) now) = Some t
    \<and> bo_message_signature (observation_from_dom_payload sha256 dumps w p (Some b) now) = Some s"
  using assms by (simp add: observation_from_dom_payload_def time_or_def Let_def)

text \<open>The counters of a sample: every event is counted once, in exactly one class, and at most twenty failures are kept.\<close>

definition counted :: "network_counts \<Rightarrow> int" where
  "counted n = nc_requests n + nc_responses n + nc_data_events n + nc_finished n + nc_failed n + nc_frames n"

lemma count_event_step:
  "nc_events (count_event e n) = nc_events n + 1" "counted (count_event e n) = counted n + 1"
  "length (nc_failures n) \<le> 20 \<Longrightarrow> length (nc_failures (count_event e n)) \<le> 20" "nc_last_activity_at (count_event e n) = Some (fst e)"
  by (cases "(e, n)" rule: count_event.cases; simp add: counted_def activity_def request_will_be_sent_def response_received_def
      data_received_def loading_finished_event_def loading_failed_event_def websocket_frame_def)+

lemma count_events_total:
  "nc_events (count_events previous es) = int (length es) \<and> counted (count_events previous es) = int (length es)
    \<and> length (nc_failures (count_events previous es)) \<le> 20
    \<and> nc_last_activity_at (count_events previous es) = (if es = [] then previous else Some (fst (last es)))"
  unfolding count_events_def
proof (induction es rule: rev_induct)
  case Nil
  show ?case by (simp add: no_counts_def counted_def)
next
  case (snoc e es)
  then show ?case using count_event_step [where e = e and n = "fold count_event es (no_counts previous)"] by (simp del: count_event.simps)
qed

end
