(* ===== verification/Spec2Isabelle.thy ===== *)
theory Spec2Isabelle
  imports Persistence_Refinement Action_Safety Probe_Safety Replacement_Properties Spawn_Safety Watchdog Registry_Runtime
    Scheduler Browser_Pool Chat_Safety Chat_Browser Orchestration
    Batch_Safety Recovery_Runtime Orchestration_Adapter Probe_Window Probe_Evidence Pool_Plan Local_State Watch_Safety Dom_Evidence
begin

text \<open>
  \<^bold>\<open>LocalShell Web Supervisor.\<close> A supervisor for long tasks that are worked on by conversations in ordinary browser windows
  (\<^verbatim>\<open>src/src/lws\<close>). It keeps tasks, conversation workers, evidence and journals in one SQLite registry, decides from evidence
  whether a conversation has stalled, and may then type into exactly one window, open a child conversation, move a task to
  another worker, or advise a human. The development follows one idea of the code: whatever may have an effect outside
  is first written down, an effect whose outcome is unknown is never repeated, and authority over a task passes on only by a
  compare-and-swap on its revision.

  \<^bold>\<open>Parts and their interaction.\<close> The registry (\<^verbatim>\<open>db.py\<close>, \<^verbatim>\<open>registry.py\<close>) is shared by all parts. The worker-lease protocol
  (\<^verbatim>\<open>worker_protocol.py\<close>) is pure and made durable by \<^verbatim>\<open>worker_persistence.py\<close>. Observations (\<^verbatim>\<open>browser.py\<close>, \<^verbatim>\<open>uia.py\<close>, \<^verbatim>\<open>cdp.py\<close>, \<^verbatim>\<open>lsm.py\<close>,
  \<^verbatim>\<open>workspace.py\<close>) flow into the stall assessment (\<^verbatim>\<open>watcher.py\<close>), the recommendation (\<^verbatim>\<open>recovery.py\<close>), the reconciliation fence
  (\<^verbatim>\<open>reconcile.py\<close>) and the dispatch plan (\<^verbatim>\<open>dispatcher.py\<close>); a plan becomes one journalled action (\<^verbatim>\<open>actions.py\<close>, \<^verbatim>\<open>action_runtime.py\<close>,
  \<^verbatim>\<open>dispatch_runtime.py\<close>, \<^verbatim>\<open>uia_actions.py\<close>). Probe windows, worker replacement and child conversations have journals of their own
  (\<^verbatim>\<open>probe_ops.py\<close>, \<^verbatim>\<open>page_runtime.py\<close>, \<^verbatim>\<open>replacement.py\<close>, \<^verbatim>\<open>child_spawn.py\<close>, \<^verbatim>\<open>child_batch.py\<close>). The chat dispatcher (\<^verbatim>\<open>chat_dispatch.py\<close>) keeps a
  separate queue. The resident supervisor (\<^verbatim>\<open>watch\<close> in \<^verbatim>\<open>cli.py\<close>, under the lease of \<^verbatim>\<open>watchdog_host.py\<close>) ties the parts together in
  rounds; \<^verbatim>\<open>orchestration.py\<close> and \<^verbatim>\<open>orchestrator.py\<close> only advise.

  \<^bold>\<open>How the code is modelled.\<close>
  \<^item> A Python exception is a value: a fallible function returns \<open>py_error + 'a\<close>, a method that writes returns the registry as well, so a
    branch that raises after a commit shows what was committed.
  \<^item> Dataclasses are records whose fields carry a two-letter prefix, enumerations are datatypes with their stored text.
  \<^item> A table is a list of rows in insertion order with a key; primary keys, unique indexes and foreign keys are checks that raise
    \<open>IntegrityError\<close>. A method whose transaction opens with \<^verbatim>\<open>BEGIN IMMEDIATE\<close> is one function, so interleavings are
    sequences of calls.
  \<^item> The following methods read a row and write it back in a later transaction without a lock in between, and are modelled as one step
    as well: the updates of the action journal (\<^verbatim>\<open>record_action_attempt\<close>, \<^verbatim>\<open>mark_action_submitted\<close>, \<^verbatim>\<open>mark_action_reconcile_required\<close>,
    \<^verbatim>\<open>fail_action_attempt\<close>, \<^verbatim>\<open>cancel_action_attempt\<close>, \<^verbatim>\<open>acknowledge_action\<close>, \<^verbatim>\<open>record_action_ack_browser_signature\<close>), of replacement and spawn
    attempts (\<^verbatim>\<open>update_replacement_attempt\<close>, \<^verbatim>\<open>update_child_spawn_attempt\<close>, \<^verbatim>\<open>annotate_child_spawn_attempt\<close>) and \<^verbatim>\<open>fail_probe_mutation_operation\<close>.
    Theorems on sequences of these calls hold when no two of them overlap on one attempt; what an overlap does is stated by
    \<open>stale_write_overwrites\<close> in \<open>Action_Safety\<close>.
  \<^item> Integers are \<open>int\<close> (Python's are unbounded), times are exact reals, strings are read as Latin-1.
  \<^item> Outside the source are arguments: the clock, random identifiers, SHA-256 and the text of canonical JSON, the PowerShell helpers, Git,
    Chrome and the operating system. What a helper may answer is never restricted, except by a named hypothesis of a theorem.

  \<^bold>\<open>Theories.\<close>
  \<^item> \<open>LWS_Prelude\<close>, \<open>Py_Text\<close>, \<open>Py_Json\<close>, \<open>Url\<close>: the error type, Python's strings, numbers and JSON values, \<^verbatim>\<open>urlsplit\<close> and \<^verbatim>\<open>urlunsplit\<close>; tables and
    the lemmas that all components share. \<open>Models\<close>: \<^verbatim>\<open>models.py\<close>.
  \<^item> \<open>Worker_Protocol\<close> (\<^verbatim>\<open>worker_protocol.py\<close>: \<open>validate_state\<close>, \<open>claim\<close>, \<open>takeover\<close>, \<open>heartbeat\<close>, checkpoints, results) and \<open>Worker_Safety\<close>: the
    validity check is an invariant kept by every call; one call wins a revision (the locale \<open>revision_cas\<close>, interpreted by the
    protocol); a retired worker is fenced for ever; generations are fencing tokens; the protocol refines an abstract machine of authority.
  \<^item> \<open>Registry_Tables\<close> (\<^verbatim>\<open>db.py\<close>), \<open>Worker_Persistence\<close>, \<open>Persistence_Refinement\<close> (\<^verbatim>\<open>worker_persistence.py\<close>): a transaction reloads to exactly
    the snapshot that the pure protocol decides, for one call and for interleaved calls on several tasks; the bootstrap from
    legacy rows grants nothing.
  \<^item> \<open>Registry_Tasks\<close>, \<open>Registry_Runtime\<close>, \<open>Observations\<close>: the remaining methods of \<^verbatim>\<open>registry.py\<close> on tasks, workers, windows, capabilities and
    evidence; a bounded evidence table answers like one that forgets nothing.
  \<^item> \<open>Assess\<close>, \<open>Reconcile_Dispatch\<close>: \<open>assess\<close>, \<open>recommend\<close>, the prompts, \<open>build_reconciliation_record\<close>, \<open>fence_matches\<close>, \<open>build_dispatch_plan\<close>.
  \<^item> \<open>Write_Ahead\<close>: the locale \<open>write_ahead_log\<close>, the contract of a journal (at most one unresolved attempt in a scope, a resolved
    attempt keeps its outcome). It is interpreted by the action journal (\<open>Action_Safety\<close>), the probe journal (\<open>Probe_Safety\<close>), the replacement
    journal (\<open>Replacement_Safety\<close>) and the spawn journal (\<open>Child_Safety\<close>).
  \<^item> \<open>Actions\<close>, \<open>Action_Safety\<close>: an attempt that was handed to a transport is never handed over again; the recovery budget is charged once
    per armed recovery and never overdrawn.
  \<^item> \<open>Probe_Ops\<close>, \<open>Probe_Safety\<close>, \<open>Probe_Window\<close>, \<open>Probe_Evidence\<close>: the probe slot, its journal, its Chrome transport and the evidence of an
    operator; close and open authority are granted at most once, and a window that was opened is found again.
  \<^item> \<open>Child_Dispatch\<close>, \<open>Child_Safety\<close>, \<open>Replacement\<close>, \<open>Replacement_Safety\<close>, \<open>Replacement_Properties\<close>: contracts of child tasks, and the
    replacement of a worker as one abstract hand-over; with evidence that holds it completes exactly if the revision is the armed one
    or the candidate already has the authority, whatever calls were made meanwhile.
  \<^item> \<open>Child_Urls\<close>, \<open>Child_Spawn\<close>, \<open>Spawn_Transport\<close>, \<open>Spawn_Safety\<close>, \<open>Child_Batch\<close>, \<open>Batch_Safety\<close>: opening child conversations, alone and in batches.
    The locale \<open>spawn_invariant\<close> carries an invariant over every operation; it is interpreted for attempts whose send is
    ambiguous, for the binding of a window and for completed attempts.
  \<^item> \<open>Chat_Store\<close>, \<open>Chat_Engine\<close>, \<open>Chat_Browser\<close>, \<open>Chat_Safety\<close>: the queue of chat dispatches and the engine that drains it. The locale
    \<open>engine_contract\<close> proves the work on a job and on a page once, from a contract on the store and its effects, and its extension
    \<open>closing_contract\<close> the closing loop. Interpretations: a journalled send is not repeated and the tables stay typed (both of the
    extension), the head of the queue is served, and a page is closed only while its row in the store allows it.
  \<^item> \<open>Watchdog\<close>, \<open>Scheduler\<close>, \<open>Browser_Pool\<close>, \<open>Pool_Plan\<close>, \<open>Page_Close\<close>, \<open>Orchestration\<close>, \<open>Orchestration_Adapter\<close>: the lease of the resident process, the attention
    queue (equal to a reference definition), page leases and fair probe rotation, the pool plan, page-close evidence, and the advice with its
    gates and its fairness.
  \<^item> \<open>Uia\<close>, \<open>Dom_Evidence\<close>, \<open>Local_State\<close>: gates around the accessibility helpers, and how raw readings become observations.
  \<^item> \<open>Recovery_Runtime\<close>, \<open>Watch_Cycle\<close>, \<open>Watch_Safety\<close>: the two automatic continuations, their executor and a round of the resident
    supervisor. A submitted nudge resets the clock of its task for as long as the action stands and the worker stays, in every later
    database. The locale \<open>one_effect\<close> states that a step has at most one effect and ends its loop after it; acknowledging, recovering and
    nudging interpret it, and a round has at most one effect.

  \<^bold>\<open>Loops, bounds and fuel.\<close> A loop that waits for an observation takes the list of what it sees before its deadline, so reaching the
  deadline is the end of the list. The wait of \<open>stop_watchdog_host\<close> is a partial function on
  samples of the world, proved to return whenever its clock advances. The resident loop of the chat dispatcher has fuel for its passes (it
  may run for ever by design); its safety properties hold for every amount. Everything else recurses over a
  finite list of tasks, rows or children. The environment of a task in a round of the supervisor has a clock that stands still, a new one for each task.

  \<^bold>\<open>Where the code falls short.\<close> Five theorems of kind error state behaviour that contradicts a comment or an evident intention: a crashed
  replacement fence that never completes, an unnamed dispatch whose replay is refused, a conversation without a project that can be addressed
  only once, a cancelled job that is still sent, and an inactive worker that ends the resident supervisor.

  \<^bold>\<open>Not modelled.\<close> The PowerShell and JavaScript probes (other languages, and their effects belong to Windows and Chrome); SQLite itself, its
  pragmas and schema migrations beyond the final schema; starting processes, reading files and environment discovery; the CDP session of
  Playwright and the check of its endpoint; argument parsing and printing in \<^verbatim>\<open>cli.py\<close>; the read-only report of \<^verbatim>\<open>doctor.py\<close>; the package
  entry points. Floating-point rounding, characters outside Latin-1 and JSON numbers that are not finite are outside the model as well.
\<close>

end
